(* ===== verification/Prelude.thy ===== *)
theory Prelude
  imports Main "HOL-Library.Word"
begin

text \<open>
  Shared vocabulary of the development: the machine-integer types of the Rust code, the
  \<open>Result\<close> combinators (\<open>?\<close>, \<open>map_err\<close>, \<open>ok_or\<close>), Rust's checked and saturating
  arithmetic, little-endian byte access, slices, and the decimal and hexadecimal
  formatting that the code's error messages and identifiers use. The collections
  \<open>result_simps\<close> and \<open>bytes_simps\<close> gather the rewrite rules the component proofs share.
\<close>

unbundle bit_operations_syntax

named_theorems result_simps \<open>unfolding rules of the Result combinators\<close>
named_theorems bytes_simps \<open>reading and writing byte buffers\<close>

section \<open>Machine integers\<close>

type_synonym u8 = "8 word"
type_synonym u16 = "16 word"
type_synonym u32 = "32 word"
type_synonym u64 = "64 word"

definition checked_add :: "'a::len word \<Rightarrow> 'a word \<Rightarrow> 'a word option" where
  "checked_add a b = (if unat a + unat b < 2 ^ LENGTH('a) then Some (a + b) else None)"

definition saturating_inc :: "'a::len word \<Rightarrow> 'a word" where
  "saturating_inc a = (if a = - 1 then a else a + 1)"

definition saturating_dec :: "'a::len word \<Rightarrow> 'a word" where
  "saturating_dec a = (if a = 0 then a else a - 1)"

lemma checked_add_Some:
  "checked_add a b = Some c \<Longrightarrow> unat c = unat a + unat b"
  by (auto simp: checked_add_def unat_word_ariths split: if_splits)

lemma checked_add_offset:
  assumes "unat (a :: u32) + n < 2 ^ 32"
  shows "checked_add a (word_of_nat n) = Some (a + word_of_nat n)"
    "unat (a + word_of_nat n) = unat a + n" "unat (word_of_nat n :: u32) = n"
proof -
  show n: "unat (word_of_nat n :: u32) = n" using assms by (simp add: unat_of_nat)
  show "checked_add a (word_of_nat n) = Some (a + word_of_nat n)"
    using assms n by (simp add: checked_add_def)
  show "unat (a + word_of_nat n) = unat a + n"
    using assms n by (simp add: unat_word_ariths)
qed

lemma unat_saturating_inc:
  "unat (saturating_inc (a :: 'a::len word)) = min (unat a + 1) (2 ^ LENGTH('a) - 1)"
proof (cases "a = - 1")
  case True
  have "unat (- 1 :: 'a word) = 2 ^ LENGTH('a) - 1"
    by (simp add: unsigned_minus_1_eq_mask mask_eq_exp_minus_1)
  then show ?thesis
    using True by (simp add: saturating_inc_def)
next
  case False
  have "unat a < 2 ^ LENGTH('a) - 1"
  proof -
    have "unat a \<noteq> unat (- 1 :: 'a word)"
      using False by (simp add: word_eq_iff_unsigned [where ?'a = nat])
    moreover have "unat a < 2 ^ LENGTH('a)" by (rule unsigned_less)
    moreover have "unat (- 1 :: 'a word) = 2 ^ LENGTH('a) - 1"
      by (simp add: unsigned_minus_1_eq_mask mask_eq_exp_minus_1)
    ultimately show ?thesis by linarith
  qed
  moreover from this have "unat (a + 1) = unat a + 1"
    by (simp add: unat_word_ariths)
  ultimately show ?thesis
    using False by (simp add: saturating_inc_def)
qed

text \<open>\<open>count_ones\<close> of an unsigned integer.\<close>

definition count_ones :: "'a::len word \<Rightarrow> nat" where
  "count_ones w = length (filter (bit w) [0..<LENGTH('a)])"

lemma count_ones_card: "count_ones (w :: 'a::len word) = card {n. bit w n}"
proof -
  have "{n. bit w n} = set (filter (bit w) [0..<LENGTH('a)])"
    by (auto dest: bit_imp_le_length)
  moreover have "distinct (filter (bit w) [0..<LENGTH('a)])"
    by simp
  ultimately show ?thesis
    by (simp only: count_ones_def distinct_card)
qed

lemma mask_bit_test: "(fm :: 'a::len word) AND push_bit n 1 \<noteq> 0 \<longleftrightarrow> bit fm n"
proof -
  have "fm AND push_bit n 1 = (if bit fm n then push_bit n 1 else 0)"
    by (rule bit_word_eqI) (auto simp: bit_simps)
  moreover have "bit fm n \<Longrightarrow> push_bit n (1 :: 'a word) \<noteq> 0"
    by (metis bit_imp_le_length bit_push_bit_iff bit_0_eq bit_1_0 bot_apply bot_bool_def diff_self_eq_0
        order_refl possible_bit_word)
  ultimately show ?thesis by auto
qed

lemma mask_bit_and: "(fm :: 'a::len word) AND 2 ^ n = 0 \<longleftrightarrow> \<not> bit fm n"
  using mask_bit_test [of fm n] by auto

section \<open>Results\<close>

text \<open>\<open>bindR r f\<close> is \<open>f(r?)\<close>: the error is returned early, the value is passed on.\<close>

definition bindR :: "'e + 'a \<Rightarrow> ('a \<Rightarrow> 'e + 'b) \<Rightarrow> 'e + 'b" where
  "bindR r f = (case r of Inl e \<Rightarrow> Inl e | Inr x \<Rightarrow> f x)"

definition mapR :: "('a \<Rightarrow> 'b) \<Rightarrow> 'e + 'a \<Rightarrow> 'e + 'b" where
  "mapR f r = (case r of Inl e \<Rightarrow> Inl e | Inr x \<Rightarrow> Inr (f x))"

definition ok_or :: "'e \<Rightarrow> 'a option \<Rightarrow> 'e + 'a" where
  "ok_or e x = (case x of None \<Rightarrow> Inl e | Some v \<Rightarrow> Inr v)"

text \<open>A guard that returns the error when the condition holds.\<close>

definition failIf :: "bool \<Rightarrow> 'e \<Rightarrow> 'e + unit" where
  "failIf b e = (if b then Inl e else Inr ())"

definition is_ok :: "'e + 'a \<Rightarrow> bool" where
  "is_ok r = (case r of Inl _ \<Rightarrow> False | Inr _ \<Rightarrow> True)"

lemma bindR_simps [simp, result_simps]:
  "bindR (Inl e) f = Inl e" "bindR (Inr x) f = f x"
  by (simp_all add: bindR_def)

lemma mapR_simps [simp, result_simps]:
  "mapR g (Inl e) = Inl e" "mapR g (Inr x) = Inr (g x)"
  by (simp_all add: mapR_def)

lemma ok_or_simps [simp, result_simps]:
  "ok_or e None = Inl e" "ok_or e (Some v) = Inr v"
  by (simp_all add: ok_or_def)

lemma is_ok_simps [simp, result_simps]: "\<not> is_ok (Inl e)" "is_ok (Inr x)"
  by (simp_all add: is_ok_def)

lemma failIf_simps [simp, result_simps]: "failIf True e = Inl e" "failIf False e = Inr ()"
  by (simp_all add: failIf_def)

lemma bindR_Inr: "bindR r f = Inr y \<longleftrightarrow> (\<exists>x. r = Inr x \<and> f x = Inr y)"
  by (auto simp: bindR_def split: sum.splits)

lemma bindR_Inl: "bindR r f = Inl e \<longleftrightarrow> r = Inl e \<or> (\<exists>x. r = Inr x \<and> f x = Inl e)"
  by (auto simp: bindR_def split: sum.splits)

lemma mapR_Inr: "mapR f r = Inr y \<longleftrightarrow> (\<exists>x. r = Inr x \<and> y = f x)"
  by (auto simp: mapR_def split: sum.splits)

lemma mapR_Inl: "mapR f r = Inl e \<longleftrightarrow> r = Inl e"
  by (auto simp: mapR_def split: sum.splits)

lemma failIf_Inr: "failIf b e = Inr u \<longleftrightarrow> \<not> b"
  by (auto simp: failIf_def)

lemma failIf_Inl: "failIf b e = Inl e' \<longleftrightarrow> b \<and> e' = e"
  by (auto simp: failIf_def)

lemma ok_or_Inr: "ok_or e x = Inr v \<longleftrightarrow> x = Some v"
  by (auto simp: ok_or_def split: option.splits)

lemma ok_or_Inl: "ok_or e x = Inl e' \<longleftrightarrow> x = None \<and> e' = e"
  by (auto simp: ok_or_def split: option.splits)

lemma is_ok_iff: "is_ok r \<longleftrightarrow> (\<exists>x. r = Inr x)"
  by (cases r) auto

lemmas result_iffs = bindR_Inr bindR_Inl mapR_Inr mapR_Inl failIf_Inr failIf_Inl ok_or_Inr ok_or_Inl

text \<open>\<open>collect::<Result<Vec<_>, _>>()\<close>: the first error, or every value.\<close>

fun collectR :: "('e + 'a) list \<Rightarrow> 'e + 'a list" where
  "collectR [] = Inr []"
| "collectR (r # rs) = bindR r (\<lambda>x. mapR ((#) x) (collectR rs))"

text \<open>A sequence of \<open>check()?;\<close> statements: the first error ends the function.\<close>

fun first_error :: "('e + unit) list \<Rightarrow> 'e + unit" where
  "first_error [] = Inr ()"
| "first_error (r # rs) = bindR r (\<lambda>_. first_error rs)"

lemma first_error_Inr: "first_error rs = Inr () \<longleftrightarrow> (\<forall>r\<in>set rs. r = Inr ())"
  by (induction rs) (auto simp: bindR_Inr)

lemma first_error_Inl: "first_error rs = Inl e \<Longrightarrow> Inl e \<in> set rs"
  by (induction rs) (auto simp: bindR_Inl)

section \<open>Byte buffers\<close>

definition slice :: "nat \<Rightarrow> nat \<Rightarrow> 'a list \<Rightarrow> 'a list" where
  "slice from to xs = take (to - from) (drop from xs)"

lemma length_slice [simp, bytes_simps]: "length (slice i j xs) = min (j - i) (length xs - i)"
  by (simp add: slice_def min.commute)

lemma nth_slice [bytes_simps]: "i + k < j \<Longrightarrow> j \<le> length xs \<Longrightarrow> slice i j xs ! k = xs ! (i + k)"
  by (simp add: slice_def)

text \<open>\<open>buf[off..off + src.len()].copy_from_slice(src)\<close>.\<close>

definition write_at :: "nat \<Rightarrow> 'a list \<Rightarrow> 'a list \<Rightarrow> 'a list" where
  "write_at off src buf = take off buf @ src @ drop (off + length src) buf"

lemma length_write_at [simp, bytes_simps]:
  "off + length src \<le> length buf \<Longrightarrow> length (write_at off src buf) = length buf"
  by (simp add: write_at_def)

lemma nth_write_at [bytes_simps]:
  assumes "off + length src \<le> length buf" and "i < length buf"
  shows "write_at off src buf ! i =
    (if off \<le> i \<and> i < off + length src then src ! (i - off) else buf ! i)"
  using assms by (auto simp: write_at_def nth_append min_def)

lemma slice_write_at_same [bytes_simps]:
  "off + length src \<le> length buf \<Longrightarrow> slice off (off + length src) (write_at off src buf) = src"
  by (simp add: slice_def write_at_def)

definition u16_from_le :: "u8 \<Rightarrow> u8 \<Rightarrow> u16" where
  "u16_from_le b0 b1 = ucast b0 OR push_bit 8 (ucast b1)"

definition u32_from_le :: "u8 \<Rightarrow> u8 \<Rightarrow> u8 \<Rightarrow> u8 \<Rightarrow> u32" where
  "u32_from_le b0 b1 b2 b3 =
     ucast b0 OR push_bit 8 (ucast b1) OR push_bit 16 (ucast b2) OR push_bit 24 (ucast b3)"

definition u16_to_le :: "u16 \<Rightarrow> u8 list" where
  "u16_to_le w = [ucast w, ucast (drop_bit 8 w)]"

definition u32_to_le :: "u32 \<Rightarrow> u8 list" where
  "u32_to_le w = [ucast w, ucast (drop_bit 8 w), ucast (drop_bit 16 w), ucast (drop_bit 24 w)]"

definition u64_to_le :: "u64 \<Rightarrow> u8 list" where
  "u64_to_le w = map (\<lambda>i. ucast (drop_bit (8 * i) w)) [0..<8]"

lemma u16_le_roundtrip: "u16_from_le (ucast w) (ucast (drop_bit 8 w)) = w"
  by (rule bit_word_eqI) (auto simp: u16_from_le_def bit_simps)

lemma u32_le_roundtrip:
  "u32_from_le (ucast w) (ucast (drop_bit 8 w)) (ucast (drop_bit 16 w)) (ucast (drop_bit 24 w)) = w"
proof (rule bit_word_eqI)
  fix n assume n: "n < LENGTH(32)"
  consider "n < 8" | "8 \<le> n" "n < 16" | "16 \<le> n" "n < 24" | "24 \<le> n" by linarith
  then show "bit (u32_from_le (ucast w) (ucast (drop_bit 8 w)) (ucast (drop_bit 16 w))
      (ucast (drop_bit 24 w))) n = bit w n"
    using n by cases (auto simp: u32_from_le_def bit_simps)
qed

lemma u16_from_le_inverse: "u16_to_le (u16_from_le b0 b1) = [b0, b1]"
  unfolding u16_to_le_def u16_from_le_def list.inject
  by (intro conjI bit_word_eqI) (auto simp: bit_simps dest: bit_imp_le_length)

lemma length_le [simp, bytes_simps]:
  "length (u16_to_le w) = 2" "length (u32_to_le v) = 4" "length (u64_to_le x) = 8"
  by (simp_all add: u16_to_le_def u32_to_le_def u64_to_le_def)

definition read_u16 :: "u8 list \<Rightarrow> nat \<Rightarrow> u16" where
  "read_u16 bytes off = u16_from_le (bytes ! off) (bytes ! (off + 1))"

definition read_u32 :: "u8 list \<Rightarrow> nat \<Rightarrow> u32" where
  "read_u32 bytes off =
     u32_from_le (bytes ! off) (bytes ! (off + 1)) (bytes ! (off + 2)) (bytes ! (off + 3))"

text \<open>A signed 16-bit read keeps the bits; \<open>sint\<close> gives its value.\<close>

definition read_i16 :: "u8 list \<Rightarrow> nat \<Rightarrow> u16" where
  "read_i16 bytes off = u16_from_le (bytes ! off) (bytes ! (off + 1))"

definition write_u16 :: "u8 list \<Rightarrow> nat \<Rightarrow> u16 \<Rightarrow> u8 list" where
  "write_u16 bytes off v = write_at off (u16_to_le v) bytes"

definition write_u32 :: "u8 list \<Rightarrow> nat \<Rightarrow> u32 \<Rightarrow> u8 list" where
  "write_u32 bytes off v = write_at off (u32_to_le v) bytes"

section \<open>Strings and formatting\<close>

text \<open>A Rust string is its UTF-8 bytes: one \<open>char\<close> of the model per byte.\<close>

definition string_of_bytes :: "u8 list \<Rightarrow> string" where
  "string_of_bytes bs = map (\<lambda>b. char_of (unat b)) bs"

definition bytes_of_string :: "string \<Rightarrow> u8 list" where
  "bytes_of_string s = map (\<lambda>c. word_of_nat (of_char c)) s"

lemma string_of_bytes_of_string [simp]: "string_of_bytes (bytes_of_string s) = s"
proof -
  have "char_of (unat (word_of_nat (of_char c) :: u8)) = c" for c :: char
    by (simp add: unat_of_nat)
  then show ?thesis
    by (simp add: string_of_bytes_def bytes_of_string_def comp_def map_idI)
qed

lemma bytes_of_string_of_bytes [simp]: "bytes_of_string (string_of_bytes bs) = bs"
proof -
  have "word_of_nat (of_char (char_of (unat b) :: char)) = b" for b :: u8
  proof -
    have "unat b < 2 ^ LENGTH(8)" by (rule unsigned_less)
    then have "unat b < 256" by simp
    then show ?thesis by simp
  qed
  then show ?thesis
    by (simp add: string_of_bytes_def bytes_of_string_def comp_def map_idI)
qed

lemma length_bytes_of_string [simp]: "length (bytes_of_string s) = length s"
  by (simp add: bytes_of_string_def)

definition digit_char :: "nat \<Rightarrow> char" where
  "digit_char d = char_of (48 + d)"

fun show_nat :: "nat \<Rightarrow> string" where
  "show_nat n = (if n < 10 then [digit_char n] else show_nat (n div 10) @ [digit_char (n mod 10)])"

declare show_nat.simps [simp del]

definition show_int :: "int \<Rightarrow> string" where
  "show_int i = (if i < 0 then ''-'' @ show_nat (nat (- i)) else show_nat (nat i))"

definition hex_lower :: "nat \<Rightarrow> char" where
  "hex_lower d = ''0123456789abcdef'' ! d"

definition hex_upper :: "nat \<Rightarrow> char" where
  "hex_upper d = ''0123456789ABCDEF'' ! d"

text \<open>The last \<open>k\<close> hexadecimal digits of \<open>n\<close>, zero padded (\<open>{:0kx}\<close>).\<close>

fun hex_digits :: "(nat \<Rightarrow> char) \<Rightarrow> nat \<Rightarrow> nat \<Rightarrow> string" where
  "hex_digits dig 0 n = []"
| "hex_digits dig (Suc k) n = hex_digits dig k (n div 16) @ [dig (n mod 16)]"

lemma length_hex_digits [simp]: "length (hex_digits dig k n) = k"
  by (induction k arbitrary: n) auto

definition is_ascii :: "char \<Rightarrow> bool" where
  "is_ascii c = ((of_char c :: nat) < 128)"

definition ascii_lower :: "char \<Rightarrow> char" where
  "ascii_lower c = (let n = (of_char c :: nat) in if 65 \<le> n \<and> n \<le> 90 then char_of (n + 32) else c)"

definition to_ascii_lowercase :: "string \<Rightarrow> string" where
  "to_ascii_lowercase = map ascii_lower"

definition eq_ignore_ascii_case :: "string \<Rightarrow> string \<Rightarrow> bool" where
  "eq_ignore_ascii_case a b = (to_ascii_lowercase a = to_ascii_lowercase b)"

text \<open>
  \<open>{:?}\<close> of a string: quotes and backslashes are escaped, as are the named control
  characters; other control characters become \<open>\u{..}\<close>. Bytes above 127 are copied, as
  Rust does for printable characters (its table of unprintable ones is not modelled).
\<close>

definition escape_debug_char :: "char \<Rightarrow> string" where
  "escape_debug_char c = (let n = (of_char c :: nat) in
     if n = 0 then [CHR 0x5C, CHR ''0'']
     else if n = 9 then [CHR 0x5C, CHR ''t'']
     else if n = 10 then [CHR 0x5C, CHR ''n'']
     else if n = 13 then [CHR 0x5C, CHR ''r'']
     else if n = 34 then [CHR 0x5C, CHR 0x22]
     else if n = 92 then [CHR 0x5C, CHR 0x5C]
     else if n < 16 then [CHR 0x5C] @ ''u{'' @ [hex_lower n] @ ''}''
     else if n < 32 \<or> n = 127 then
       [CHR 0x5C] @ ''u{'' @ [hex_lower (n div 16), hex_lower (n mod 16)] @ ''}''
     else [c])"

definition debug_str :: "string \<Rightarrow> string" where
  "debug_str s = [CHR 0x22] @ concat (map escape_debug_char s) @ [CHR 0x22]"

text \<open>\<open>Vec::join\<close>.\<close>

fun join :: "string \<Rightarrow> string list \<Rightarrow> string" where
  "join sep [] = []"
| "join sep [x] = x"
| "join sep (x # y # zs) = x @ sep @ join sep (y # zs)"

section \<open>Lists\<close>

text \<open>\<open>iter().position(p)\<close>.\<close>

fun position :: "('a \<Rightarrow> bool) \<Rightarrow> 'a list \<Rightarrow> nat option" where
  "position p [] = None"
| "position p (x # xs) = (if p x then Some 0 else map_option Suc (position p xs))"

lemma position_Some:
  "position p xs = Some i \<Longrightarrow> i < length xs \<and> p (xs ! i) \<and> (\<forall>j<i. \<not> p (xs ! j))"
proof (induction xs arbitrary: i)
  case Nil
  then show ?case by simp
next
  case (Cons x xs)
  show ?case
  proof (cases "p x")
    case True
    with Cons.prems show ?thesis by auto
  next
    case False
    with Cons.prems obtain k where k: "position p xs = Some k" "i = Suc k" by auto
    with Cons.IH [OF k(1)] False show ?thesis
      by (auto simp: less_Suc_eq_0_disj)
  qed
qed

lemma position_None: "position p xs = None \<longleftrightarrow> (\<forall>x\<in>set xs. \<not> p x)"
  by (induction xs) auto

lemma position_append_hit:
  "(\<forall>x\<in>set xs. \<not> p x) \<Longrightarrow> p y \<Longrightarrow> position p (xs @ y # ys) = Some (length xs)"
  by (induction xs) auto

text \<open>\<open>slice.chunks(n)\<close>; the guard keeps the recursion total, as the code's sizes are constants.\<close>

function chunks :: "nat \<Rightarrow> 'a list \<Rightarrow> 'a list list" where
  "chunks n xs = (if n = 0 \<or> xs = [] then [] else take n xs # chunks n (drop n xs))"
  by pat_completeness auto
termination
  by (relation "measure (\<lambda>(n, xs). length xs)") auto

declare chunks.simps [simp del]

lemma concat_chunks: "0 < n \<Longrightarrow> concat (chunks n xs) = xs"
proof (induction n xs rule: chunks.induct)
  case (1 n xs)
  then show ?case
    by (cases "xs = []") (simp_all add: chunks.simps [of n xs] chunks.simps [of n "[]"])
qed

section \<open>Codec interfaces\<close>

text \<open>An enumeration and its wire ordinals: the decoder accepts exactly the ordinals in use.\<close>

locale ordinal_codec =
  fixes enc :: "'a \<Rightarrow> 'w" and dec :: "'w \<Rightarrow> 'e + 'a"
  assumes dec_enc: "dec (enc x) = Inr x"
    and enc_dec: "dec w = Inr x \<Longrightarrow> enc x = w"
begin

lemma dec_Inr_iff: "dec w = Inr x \<longleftrightarrow> w = enc x"
  using dec_enc enc_dec by auto

lemma enc_eq_iff: "enc x = enc y \<longleftrightarrow> x = y"
  using dec_enc by (metis Inr_inject)

lemma dec_Inl_iff: "(\<exists>e. dec w = Inl e) \<longleftrightarrow> w \<notin> range enc"
  by (metis dec_Inr_iff enc_dec obj_sumE rangeE rangeI sum.distinct(1) dec_enc)

end

text \<open>
  A document and its binary form, where encoding may normalise the document: what was
  encoded decodes to the normal form, and what was decoded is already normal.
\<close>

locale normalising_codec =
  fixes encode :: "'c \<Rightarrow> 'e + 'b" and decode :: "'b \<Rightarrow> 'e + 'c"
    and normal :: "'c \<Rightarrow> 'c" and ok :: "'c \<Rightarrow> bool"
  assumes encode_ok: "ok c \<Longrightarrow> \<exists>b. encode c = Inr b \<and> decode b = Inr (normal c)"
    and decode_ok: "decode b = Inr c \<Longrightarrow> ok c \<and> normal c = c"
begin

lemma write_back: "decode b = Inr c \<Longrightarrow> \<exists>b'. encode c = Inr b' \<and> decode b' = Inr c"
  using encode_ok [of c] decode_ok [of b c] by auto

lemma encode_decode: "ok c \<Longrightarrow> encode c = Inr b \<Longrightarrow> decode b = Inr (normal c)"
  using encode_ok [of c] by auto

lemma normal_ok: "ok c \<Longrightarrow> ok (normal c) \<and> normal (normal c) = normal c"
  using encode_ok [of c] decode_ok by blast

end

end
