(* ===== verification/Floats.thy ===== *)
theory Floats
  imports Complex_Main Prelude
begin

text \<open>
  IEEE 754 binary64 as the Rust code uses it. A finite value is the rational number it
  denotes; the two zeros are one value, which no comparison or arithmetic of the code
  tells apart. Arithmetic is the exact operation followed by rounding to nearest, ties to
  even, with 53 significant bits, gradual underflow and overflow to infinity; it is
  executable. The locale \<open>float_rounding\<close> is the interface the codecs rely on (a bound on
  the rounding error), proved for \<open>round64\<close> and used to show that values with one decimal
  place survive a division and a multiplication by ten.
\<close>

section \<open>Rounding\<close>

definition pow2 :: "int \<Rightarrow> rat" where
  "pow2 k = (if 0 \<le> k then 2 ^ nat k else 1 / 2 ^ nat (- k))"

fun nat_log2 :: "nat \<Rightarrow> nat" where
  "nat_log2 n = (if n < 2 then 0 else Suc (nat_log2 (n div 2)))"

declare nat_log2.simps [simp del]

text \<open>The binary exponent of a positive rational: \<open>pow2 e \<le> q < pow2 (e + 1)\<close>.\<close>

definition ilog2 :: "rat \<Rightarrow> int" where
  "ilog2 q = (case quotient_of q of (n, d) \<Rightarrow>
     let e = int (nat_log2 (nat n)) - int (nat_log2 (nat d))
     in if pow2 e \<le> q then e else e - 1)"

definition round_half_even :: "rat \<Rightarrow> int" where
  "round_half_even x = (let f = \<lfloor>x\<rfloor>; r = x - of_int f in
     if r < 1 / 2 then f
     else if 1 / 2 < r then f + 1
     else if even f then f else f + 1)"

definition round_binary :: "int \<Rightarrow> int \<Rightarrow> rat \<Rightarrow> rat" where
  "round_binary prec emin q = (if q = 0 then 0 else
     let ulp = pow2 (max (ilog2 \<bar>q\<bar>) emin - prec)
     in of_int (round_half_even (q / ulp)) * ulp)"

definition round64 :: "rat \<Rightarrow> rat" where
  "round64 = round_binary 52 (- 1022)"

lemma pow2_pos [simp]: "0 < pow2 k"
  by (simp add: pow2_def)

lemma pow2_nz [simp]: "pow2 k \<noteq> 0"
  using pow2_pos [of k] by linarith

lemma pow2_nat: "pow2 (int n) = 2 ^ n"
  by (simp add: pow2_def)

lemma pow2_eq_powi: "pow2 k = 2 powi k"
  by (auto simp: pow2_def power_int_def field_simps power_one_over)

lemma pow2_add: "pow2 (a + b) = pow2 a * pow2 b"
  by (simp add: pow2_eq_powi power_int_add)

lemma pow2_diff: "pow2 (a - b) = pow2 a / pow2 b"
  by (simp add: pow2_eq_powi power_int_diff)

lemma pow2_mono: "a \<le> b \<Longrightarrow> pow2 a \<le> pow2 b"
  by (simp add: pow2_eq_powi power_int_increasing)

lemma nat_log2_bounds: "0 < n \<Longrightarrow> 2 ^ nat_log2 n \<le> n \<and> n < 2 ^ Suc (nat_log2 n)"
proof (induction n rule: nat_log2.induct)
  case (1 n)
  show ?case
  proof (cases "n < 2")
    case True
    with "1.prems" show ?thesis by (simp add: nat_log2.simps [of n])
  next
    case False
    then have "0 < n div 2" by simp
    with False "1.IH" have "2 ^ nat_log2 (n div 2) \<le> n div 2 \<and> n div 2 < 2 ^ Suc (nat_log2 (n div 2))"
      by simp
    with False show ?thesis by (auto simp: nat_log2.simps [of n])
  qed
qed

lemma ilog2_lower:
  assumes "0 < q"
  shows "pow2 (ilog2 q) \<le> q"
proof -
  obtain n d where nd: "quotient_of q = (n, d)" by fastforce
  have d: "0 < d" using nd by (rule quotient_of_denom_pos)
  have q: "q = of_int n / of_int d" using nd by (rule quotient_of_div)
  then have n: "0 < n" using assms d by (simp add: zero_less_divide_iff)
  let ?a = "nat_log2 (nat n)" and ?b = "nat_log2 (nat d)"
  have "2 ^ ?a \<le> nat n" using nat_log2_bounds [of "nat n"] n by simp
  then have "(2::int) ^ ?a \<le> n"
    using n by (metis int_nat_eq nat_int_comparison(3) nat_less_iff not_less of_nat_numeral of_nat_power order_less_imp_le)
  then have a: "(2::rat) ^ ?a \<le> of_int n"
    by (metis of_int_le_iff of_int_numeral of_int_power)
  have "nat d < 2 ^ Suc ?b" using nat_log2_bounds [of "nat d"] d by simp
  then have "d < 2 ^ Suc ?b"
    by (metis nat_less_numeral_power_cancel_iff)
  then have b: "of_int d < (2::rat) ^ Suc ?b"
    by (metis of_int_less_iff of_int_numeral of_int_power)
  let ?e = "int ?a - int ?b"
  have "pow2 (?e - 1) = 2 ^ ?a / 2 ^ Suc ?b"
  proof -
    have "?e - 1 = int ?a - int (Suc ?b)" by simp
    then show ?thesis by (simp only: pow2_diff pow2_nat)
  qed
  also have "\<dots> \<le> of_int n / of_int d"
    using a b d n by (intro frac_le) (auto simp: less_imp_le)
  finally have "pow2 (?e - 1) \<le> q" using q by simp
  then show ?thesis by (simp add: ilog2_def nd Let_def)
qed

lemma round_half_even_error: "\<bar>of_int (round_half_even x) - x\<bar> \<le> (1 / 2 :: rat)"
proof -
  have "0 \<le> x - of_int \<lfloor>x\<rfloor>" "x - of_int \<lfloor>x\<rfloor> < 1" by linarith+
  then show ?thesis by (simp add: round_half_even_def Let_def)
qed

lemma round_half_even_int [simp]: "round_half_even (of_int i) = i"
  by (simp add: round_half_even_def)

lemma round_binary_error:
  "\<bar>round_binary prec emin q - q\<bar> \<le> \<bar>q\<bar> * pow2 (- prec - 1) + pow2 (emin - prec - 1)"
proof (cases "q = 0")
  case True
  then show ?thesis by (simp add: round_binary_def less_imp_le)
next
  case False
  let ?e = "max (ilog2 \<bar>q\<bar>) emin"
  let ?u = "pow2 (?e - prec)"
  have "round_binary prec emin q - q = (of_int (round_half_even (q / ?u)) - q / ?u) * ?u"
    using False by (simp add: round_binary_def Let_def field_simps)
  then have "\<bar>round_binary prec emin q - q\<bar> = \<bar>of_int (round_half_even (q / ?u)) - q / ?u\<bar> * ?u"
    by (simp add: abs_mult less_imp_le)
  also have "\<dots> \<le> 1 / 2 * ?u"
    by (intro mult_right_mono round_half_even_error) (simp add: less_imp_le)
  also have "1 / 2 * ?u = pow2 ?e * pow2 (- prec - 1)"
  proof -
    have "pow2 (?e - prec) = pow2 ?e * pow2 (- prec)" by (simp flip: pow2_add)
    moreover have "pow2 (- prec - 1) = pow2 (- prec) / 2" by (simp add: pow2_diff pow2_def [of 1])
    ultimately show ?thesis by simp
  qed
  also have "\<dots> \<le> \<bar>q\<bar> * pow2 (- prec - 1) + pow2 (emin - prec - 1)"
  proof (cases "emin \<le> ilog2 \<bar>q\<bar>")
    case True
    then have "pow2 ?e \<le> \<bar>q\<bar>" using ilog2_lower [of "\<bar>q\<bar>"] False by simp
    then have "pow2 ?e * pow2 (- prec - 1) \<le> \<bar>q\<bar> * pow2 (- prec - 1)"
      by (intro mult_right_mono) (auto simp: less_imp_le)
    then show ?thesis using pow2_pos [of "emin - prec - 1"] by linarith
  next
    case False
    have "pow2 emin * pow2 (- prec - 1) = pow2 (emin - prec - 1)"
      by (simp flip: pow2_add add: algebra_simps)
    then show ?thesis using False by (simp add: less_imp_le)
  qed
  finally show ?thesis .
qed

text \<open>Integers of at most 53 bits are exact.\<close>

lemma ilog2_of_int_le:
  assumes "0 < n" and "n < 2 ^ k"
  shows "ilog2 (of_int n) < int k"
proof -
  have "pow2 (ilog2 (of_int n)) \<le> of_int n" using assms by (intro ilog2_lower) simp
  also have "of_int n < pow2 (int k)"
    unfolding pow2_nat using assms(2) by (metis of_int_less_iff of_int_numeral of_int_power)
  finally have "pow2 (ilog2 (of_int n)) < pow2 (int k)" .
  then show ?thesis using pow2_mono [of "int k" "ilog2 (of_int n)"] by linarith
qed

lemma round_binary_int:
  assumes "\<bar>i\<bar> < 2 ^ (Suc p)" and "emin \<le> int p"
  shows "round_binary (int p) emin (of_int i) = of_int i"
proof (cases "i = 0")
  case True
  then show ?thesis by (simp add: round_binary_def)
next
  case False
  let ?e = "max (ilog2 \<bar>of_int i\<bar>) emin"
  have "ilog2 (of_int \<bar>i\<bar>) < int (Suc p)"
    using assms(1) False by (intro ilog2_of_int_le) auto
  then have le: "?e - int p \<le> 0" using assms(2) by simp
  have "of_int i / pow2 (?e - int p) = of_int (i * 2 ^ nat (- (?e - int p)))"
    using le by (simp add: pow2_def)
  then have "round_half_even (of_int i / pow2 (?e - int p)) = i * 2 ^ nat (- (?e - int p))"
    by (metis round_half_even_int)
  then show ?thesis
    using False le by (simp add: round_binary_def Let_def pow2_def)
qed

section \<open>The interface the codecs rely on\<close>

locale float_rounding =
  fixes rnd :: "rat \<Rightarrow> rat"
  assumes rnd_error: "\<bar>rnd q - q\<bar> \<le> (\<bar>q\<bar> + 1) / 1000000000000000"
begin

text \<open>
  A value with one decimal place, divided by ten and multiplied by ten again, lands within
  a small distance of the integer it came from.
\<close>

lemma tenths_scaled_error:
  "\<bar>rnd (rnd (of_int i / 10) * 10) - of_int i\<bar> \<le> (3 * \<bar>of_int i\<bar> + 12) / 1000000000000000"
proof -
  let ?i = "of_int i :: rat"
  let ?a = "rnd (?i / 10)"
  let ?b = "rnd (?a * 10)"
  have 1: "\<bar>?a - ?i / 10\<bar> \<le> (\<bar>?i\<bar> / 10 + 1) / 1000000000000000"
    using rnd_error [of "?i / 10"] by simp
  have 2: "\<bar>?a * 10 - ?i\<bar> \<le> (\<bar>?i\<bar> + 10) / 1000000000000000"
  proof -
    have "?a * 10 - ?i = 10 * (?a - ?i / 10)" by simp
    then have "\<bar>?a * 10 - ?i\<bar> = 10 * \<bar>?a - ?i / 10\<bar>" by (simp only: abs_mult abs_numeral)
    also have "\<dots> \<le> 10 * ((\<bar>?i\<bar> / 10 + 1) / 1000000000000000)"
      using 1 by (intro mult_left_mono) auto
    finally show ?thesis by (simp add: add_divide_distrib)
  qed
  have 3: "\<bar>?b - ?a * 10\<bar> \<le> (\<bar>?a * 10\<bar> + 1) / 1000000000000000"
    by (rule rnd_error)
  have "(\<bar>?i\<bar> + 10) / 1000000000000000 \<le> \<bar>?i\<bar> + 1" by (simp add: divide_le_eq)
  with 2 have "\<bar>?a * 10\<bar> \<le> 2 * \<bar>?i\<bar> + 1" by linarith
  then have "(\<bar>?a * 10\<bar> + 1) / 1000000000000000 \<le> (2 * \<bar>?i\<bar> + 2) / 1000000000000000"
    by (intro divide_right_mono) auto
  with 3 have "\<bar>?b - ?a * 10\<bar> \<le> (2 * \<bar>?i\<bar> + 2) / 1000000000000000" by linarith
  with 2 have "\<bar>?b - ?i\<bar> \<le> (2 * \<bar>?i\<bar> + 2) / 1000000000000000 + (\<bar>?i\<bar> + 10) / 1000000000000000"
    by linarith
  also have "\<dots> = (3 * \<bar>?i\<bar> + 12) / 1000000000000000" by (simp flip: add_divide_distrib)
  finally show ?thesis .
qed

end

lemma round64_error: "\<bar>round64 q - q\<bar> \<le> (\<bar>q\<bar> + 1) / 1000000000000000"
proof -
  have p: "pow2 (- 53) \<le> 1 / 1000000000000000" by (simp add: pow2_def)
  have "pow2 (- 1075) \<le> pow2 (- 53)" by (rule pow2_mono) simp
  then have t: "pow2 (- 1075) \<le> 1 / 1000000000000000" using p by linarith
  have "\<bar>round64 q - q\<bar> \<le> \<bar>q\<bar> * pow2 (- 53) + pow2 (- 1075)"
    using round_binary_error [of 52 "- 1022" q] by (simp add: round64_def)
  also have "\<dots> \<le> \<bar>q\<bar> * (1 / 1000000000000000) + 1 / 1000000000000000"
    using p t by (intro add_mono mult_left_mono) auto
  finally show ?thesis by (simp add: add_divide_distrib)
qed

interpretation binary64: float_rounding round64
  by unfold_locales (rule round64_error)

lemma round64_int: "\<bar>i\<bar> < 2 ^ 53 \<Longrightarrow> round64 (of_int i) = of_int i"
  using round_binary_int [of i 52 "- 1022"] by (simp add: round64_def)

section \<open>Values and operations\<close>

datatype f64 = Finite rat | Infinite bool | NaN
  \<comment> \<open>\<open>Infinite True\<close> is negative infinity.\<close>

definition f64_of_rat :: "rat \<Rightarrow> f64" where
  "f64_of_rat q = (if \<bar>round64 q\<bar> < pow2 1024 then Finite (round64 q) else Infinite (q < 0))"

definition f64_of_int :: "int \<Rightarrow> f64" where
  "f64_of_int i = f64_of_rat (of_int i)"

fun f64_add :: "f64 \<Rightarrow> f64 \<Rightarrow> f64" where
  "f64_add (Finite a) (Finite b) = f64_of_rat (a + b)"
| "f64_add (Finite a) (Infinite s) = Infinite s"
| "f64_add (Infinite s) (Finite b) = Infinite s"
| "f64_add (Infinite s) (Infinite t) = (if s = t then Infinite s else NaN)"
| "f64_add _ _ = NaN"

fun f64_neg :: "f64 \<Rightarrow> f64" where
  "f64_neg (Finite a) = Finite (- a)"
| "f64_neg (Infinite s) = Infinite (\<not> s)"
| "f64_neg NaN = NaN"

definition f64_sub :: "f64 \<Rightarrow> f64 \<Rightarrow> f64" where
  "f64_sub a b = f64_add a (f64_neg b)"

fun f64_mul :: "f64 \<Rightarrow> f64 \<Rightarrow> f64" where
  "f64_mul (Finite a) (Finite b) = f64_of_rat (a * b)"
| "f64_mul (Finite a) (Infinite s) = (if a = 0 then NaN else Infinite ((a < 0) \<noteq> s))"
| "f64_mul (Infinite s) (Finite b) = (if b = 0 then NaN else Infinite ((b < 0) \<noteq> s))"
| "f64_mul (Infinite s) (Infinite t) = Infinite (s \<noteq> t)"
| "f64_mul _ _ = NaN"

text \<open>Division by a non-zero finite constant, the only division the code performs on \<open>f64\<close>.\<close>

fun f64_div_const :: "f64 \<Rightarrow> rat \<Rightarrow> f64" where
  "f64_div_const (Finite a) c = f64_of_rat (a / c)"
| "f64_div_const (Infinite s) c = Infinite ((c < 0) \<noteq> s)"
| "f64_div_const NaN c = NaN"

fun f64_less :: "f64 \<Rightarrow> f64 \<Rightarrow> bool" where
  "f64_less (Finite a) (Finite b) = (a < b)"
| "f64_less (Finite a) (Infinite s) = (\<not> s)"
| "f64_less (Infinite s) (Finite b) = s"
| "f64_less (Infinite s) (Infinite t) = (s \<and> \<not> t)"
| "f64_less _ _ = False"

fun f64_is_finite :: "f64 \<Rightarrow> bool" where
  "f64_is_finite (Finite a) = True"
| "f64_is_finite _ = False"

fun f64_abs :: "f64 \<Rightarrow> f64" where
  "f64_abs (Finite a) = Finite \<bar>a\<bar>"
| "f64_abs (Infinite s) = Infinite False"
| "f64_abs NaN = NaN"

text \<open>\<open>f64::round\<close>: half-way cases away from zero.\<close>

definition round_away :: "rat \<Rightarrow> int" where
  "round_away q = (if q < 0 then - \<lfloor>- q + 1 / 2\<rfloor> else \<lfloor>q + 1 / 2\<rfloor>)"

fun f64_round :: "f64 \<Rightarrow> f64" where
  "f64_round (Finite a) = Finite (of_int (round_away a))"
| "f64_round (Infinite s) = Infinite s"
| "f64_round NaN = NaN"

text \<open>\<open>value as i64\<close> saturates and maps NaN to zero.\<close>

fun f64_to_i64 :: "f64 \<Rightarrow> int" where
  "f64_to_i64 (Finite a) = max (- (2 ^ 63)) (min (2 ^ 63 - 1)
     (if a < 0 then - \<lfloor>- a\<rfloor> else \<lfloor>a\<rfloor>))"
| "f64_to_i64 (Infinite s) = (if s then - (2 ^ 63) else 2 ^ 63 - 1)"
| "f64_to_i64 NaN = 0"

text \<open>\<open>iter().sum::<f64>()\<close>: left to right from zero.\<close>

definition f64_sum :: "f64 list \<Rightarrow> f64" where
  "f64_sum xs = foldl f64_add (Finite 0) xs"

text \<open>PartialEq: NaN differs from everything, itself included.\<close>

definition f64_eq :: "f64 \<Rightarrow> f64 \<Rightarrow> bool" where
  "f64_eq a b = (a \<noteq> NaN \<and> a = b)"

text \<open>\<open>f64::from(i) / 10.0\<close> for an integer field stored in tenths.\<close>

definition f64_tenths :: "int \<Rightarrow> f64" where
  "f64_tenths i = f64_div_const (f64_of_int i) 10"

lemma f64_of_rat_small:
  assumes "\<bar>q\<bar> \<le> 1000000000000000"
  shows "f64_of_rat q = Finite (round64 q)"
proof -
  have "\<bar>round64 q\<bar> \<le> \<bar>q\<bar> + (\<bar>q\<bar> + 1) / 1000000000000000"
    using round64_error [of q] by linarith
  also have "\<dots> < 2000000000000000"
  proof -
    have "(\<bar>q\<bar> + 1) / 1000000000000000 \<le> \<bar>q\<bar> + 1" by (simp add: divide_le_eq)
    then have "(\<bar>q\<bar> + 1) / 1000000000000000 \<le> 2"
      using assms by (simp add: divide_le_eq)
    then show ?thesis using assms by linarith
  qed
  also have "\<dots> \<le> pow2 60" by (simp add: pow2_def)
  also have "\<dots> \<le> pow2 1024" by (rule pow2_mono) simp
  finally show ?thesis by (simp add: f64_of_rat_def)
qed

lemma f64_of_int_small: "\<bar>i\<bar> \<le> 1000000000000000 \<Longrightarrow> f64_of_int i = Finite (of_int i)"
  unfolding f64_of_int_def
  by (subst f64_of_rat_small) (auto simp: round64_int simp flip: of_int_abs)

lemma f64_tenths_small: "\<bar>i\<bar> \<le> 1000000000000000 \<Longrightarrow> f64_tenths i = Finite (round64 (of_int i / 10))"
proof -
  assume i: "\<bar>i\<bar> \<le> 1000000000000000"
  then have "\<bar>(of_int i :: rat)\<bar> \<le> 1000000000000000"
    by (metis of_int_abs of_int_le_iff of_int_numeral)
  then have "\<bar>of_int i / 10 :: rat\<bar> \<le> 1000000000000000" by simp
  with i show ?thesis by (simp add: f64_tenths_def f64_of_int_small f64_of_rat_small)
qed

lemma round_away_near: "\<bar>q - of_int i\<bar> < 1 / 2 \<Longrightarrow> round_away q = i"
proof -
  assume h: "\<bar>q - of_int i\<bar> < 1 / 2"
  have "\<lfloor>- q + 1 / 2\<rfloor> = - i" by (rule floor_unique) (use h in linarith)+
  moreover have "\<lfloor>q + 1 / 2\<rfloor> = i" by (rule floor_unique) (use h in linarith)+
  ultimately show ?thesis by (simp add: round_away_def)
qed

end
