(* ===== verification/Domain.thy ===== *)
theory Domain
  imports Floats
begin

text \<open>
  The shared vocabulary of \<open>crates/wireview-core/src/domain.rs\<close>: connection states,
  telemetry, events, screens and the error type. Field names carry a short prefix where two
  Rust structs use the same name. \<open>device_error\<close> has one constructor the source lacks,
  \<open>Panicked\<close>: it stands for a reached \<open>unreachable!\<close>, \<open>expect\<close> or out-of-range index, so
  that the absence of panics is a theorem about values and not an assumption.
\<close>

section \<open>Connection states\<close>

datatype disconnect_reason =
    Startup
  | RemovedFromHost
  | SerialHangup
  | PresenceCheckFailed
  | Replaced
  | DeviceReboot
  | Shutdown

text \<open>\<open>Display\<close> prints the serde name, which is the constructor in snake case.\<close>

fun disconnect_reason_to_string :: "disconnect_reason \<Rightarrow> string" where
  "disconnect_reason_to_string Startup = ''startup''"
| "disconnect_reason_to_string RemovedFromHost = ''removed_from_host''"
| "disconnect_reason_to_string SerialHangup = ''serial_hangup''"
| "disconnect_reason_to_string PresenceCheckFailed = ''presence_check_failed''"
| "disconnect_reason_to_string Replaced = ''replaced''"
| "disconnect_reason_to_string DeviceReboot = ''device_reboot''"
| "disconnect_reason_to_string Shutdown = ''shutdown''"

datatype connection_state =
    Absent disconnect_reason
  | Discovering
  | Connecting string
  | Ready u64
  | Busy u64 string
  | Disconnecting u64 disconnect_reason
  | Recovering u32 string
  | UnsupportedState string
  | AmbiguousDevice "string list"

fun connection_state_name :: "connection_state \<Rightarrow> string" where
  "connection_state_name (Absent _) = ''absent''"
| "connection_state_name Discovering = ''discovering''"
| "connection_state_name (Connecting _) = ''connecting''"
| "connection_state_name (Ready _) = ''ready''"
| "connection_state_name (Busy _ _) = ''busy''"
| "connection_state_name (Disconnecting _ _) = ''disconnecting''"
| "connection_state_name (Recovering _ _) = ''recovering''"
| "connection_state_name (UnsupportedState _) = ''unsupported''"
| "connection_state_name (AmbiguousDevice _) = ''ambiguous_device''"

record device_identity =
  id_unique_id :: string
  id_vendor_id :: u8
  id_product_id :: u8
  id_firmware_version :: string
  id_hardware_revision :: string
  id_config_version :: u32
  id_product_name :: string
  id_build_string :: string
  id_capabilities :: "string list"

section \<open>Errors\<close>

datatype device_error =
    NotConnected
  | ConnectionLost
  | ConnectionLostBeforeMutation
  | OperationOutcomeUnknown
  | OperationCancelled
  | AmbiguousDeviceError
  | Unsupported string
  | InvalidArgument string
  | BusyError string
  | ProtocolUnverified string
  | Transport string
  | FailedAndRolledBack string
  | RollbackFailed string string
  | RevisionConflict string
  | VerificationFailed string
  | ManagerStopped
  | Panicked string
    \<comment> \<open>not in the source: a reached panic\<close>

fun device_error_to_string :: "device_error \<Rightarrow> string" where
  "device_error_to_string NotConnected = ''device is not connected''"
| "device_error_to_string ConnectionLost = ''device connection was lost''"
| "device_error_to_string ConnectionLostBeforeMutation =
     ''device connection was lost before mutation started''"
| "device_error_to_string OperationOutcomeUnknown =
     ''operation outcome is unknown because the device disconnected''"
| "device_error_to_string OperationCancelled = ''operation was cancelled''"
| "device_error_to_string AmbiguousDeviceError = ''more than one matching device is present''"
| "device_error_to_string (Unsupported m) = ''unsupported device or firmware: '' @ m"
| "device_error_to_string (InvalidArgument m) = ''invalid argument: '' @ m"
| "device_error_to_string (BusyError m) = ''device is busy: '' @ m"
| "device_error_to_string (ProtocolUnverified m) = ''protocol is not verified: '' @ m"
| "device_error_to_string (Transport m) = ''transport error: '' @ m"
| "device_error_to_string (FailedAndRolledBack m) =
     ''device mutation failed and the previous state was restored: '' @ m"
| "device_error_to_string (RollbackFailed operation rollback) =
     ''device mutation failed ('' @ operation @ ''); rollback also failed ('' @ rollback @ '')''"
| "device_error_to_string (RevisionConflict m) = ''configuration revision conflict: '' @ m"
| "device_error_to_string (VerificationFailed m) = ''verification failed: '' @ m"
| "device_error_to_string ManagerStopped = ''manager task stopped''"
| "device_error_to_string (Panicked m) = ''panicked: '' @ m"

type_synonym 'a result = "device_error + 'a"

text \<open>A result is panic free when it is not the extra constructor.\<close>

definition panic_free :: "'a result \<Rightarrow> bool" where
  "panic_free r = (case r of Inl (Panicked _) \<Rightarrow> False | _ \<Rightarrow> True)"

lemma panic_free_Inr [simp]: "panic_free (Inr x)"
  by (simp add: panic_free_def)

lemma panic_free_Inl: "panic_free (Inl e) \<longleftrightarrow> (\<forall>m. e \<noteq> Panicked m)"
  by (auto simp: panic_free_def split: device_error.splits)

definition is_panic :: "device_error \<Rightarrow> bool" where
  "is_panic e = (case e of Panicked _ \<Rightarrow> True | _ \<Rightarrow> False)"

lemma is_panic_iff: "is_panic e \<longleftrightarrow> \<not> panic_free (Inl e :: 'a result)"
  by (simp add: is_panic_def panic_free_def split: device_error.splits)

lemma panic_free_simps [simp, result_simps]:
  "panic_free (Inl (Transport m))" "panic_free (Inl (InvalidArgument m))"
  "panic_free (Inl (Unsupported m))" "\<not> panic_free (Inl (Panicked m))"
  by (simp_all add: panic_free_def)

lemma panic_free_bindR:
  "panic_free r \<Longrightarrow> (\<And>x. r = Inr x \<Longrightarrow> panic_free (f x)) \<Longrightarrow> panic_free (bindR r f)"
  by (cases r) (auto simp: panic_free_Inl)

section \<open>Checked access\<close>

text \<open>
  Where the code indexes, slices, copies into a slice or calls \<open>expect\<close>, the model uses one of
  these: out of range, or on \<open>None\<close>, the result is the panic.
\<close>

definition out_of_range :: device_error where
  "out_of_range = Panicked ''index out of range''"

definition expect :: "string \<Rightarrow> 'a option \<Rightarrow> 'a result" where
  "expect message x = ok_or (Panicked message) x"

definition idx :: "'a list \<Rightarrow> nat \<Rightarrow> 'a result" where
  "idx xs i = (if i < length xs then Inr (xs ! i) else Inl out_of_range)"

definition sub_slice :: "nat \<Rightarrow> nat \<Rightarrow> 'a list \<Rightarrow> 'a list result" where
  "sub_slice from to xs =
     (if from \<le> to \<and> to \<le> length xs then Inr (slice from to xs) else Inl out_of_range)"

definition store_at :: "nat \<Rightarrow> 'a \<Rightarrow> 'a list \<Rightarrow> 'a list result" where
  "store_at i x xs = (if i < length xs then Inr (xs[i := x]) else Inl out_of_range)"

definition copy_at :: "nat \<Rightarrow> 'a list \<Rightarrow> 'a list \<Rightarrow> 'a list result" where
  "copy_at off src buf =
     (if off + length src \<le> length buf then Inr (write_at off src buf) else Inl out_of_range)"

definition load_u16 :: "u8 list \<Rightarrow> nat \<Rightarrow> u16 result" where
  "load_u16 bytes off =
     bindR (idx bytes off) (\<lambda>b0. bindR (idx bytes (off + 1)) (\<lambda>b1. Inr (u16_from_le b0 b1)))"

text \<open>A signed 16-bit read keeps the bits, as \<open>read_i16\<close> does.\<close>

definition load_i16 :: "u8 list \<Rightarrow> nat \<Rightarrow> u16 result" where
  "load_i16 bytes off =
     bindR (idx bytes off) (\<lambda>b0. bindR (idx bytes (off + 1)) (\<lambda>b1. Inr (u16_from_le b0 b1)))"

definition load_u32 :: "u8 list \<Rightarrow> nat \<Rightarrow> u32 result" where
  "load_u32 bytes off =
     bindR (idx bytes off) (\<lambda>b0. bindR (idx bytes (off + 1)) (\<lambda>b1.
     bindR (idx bytes (off + 2)) (\<lambda>b2. bindR (idx bytes (off + 3)) (\<lambda>b3.
       Inr (u32_from_le b0 b1 b2 b3)))))"

definition store_u16 :: "nat \<Rightarrow> u16 \<Rightarrow> u8 list \<Rightarrow> u8 list result" where
  "store_u16 off v bytes = copy_at off (u16_to_le v) bytes"

definition store_u32 :: "nat \<Rightarrow> u32 \<Rightarrow> u8 list \<Rightarrow> u8 list result" where
  "store_u32 off v bytes = copy_at off (u32_to_le v) bytes"

text \<open>In range, each is the total function on the list.\<close>

lemma checked_in_range:
  "i < length xs \<Longrightarrow> idx xs i = Inr (xs ! i)"
  "from \<le> to \<Longrightarrow> to \<le> length xs \<Longrightarrow> sub_slice from to xs = Inr (slice from to xs)"
  "i < length xs \<Longrightarrow> store_at i x xs = Inr (xs[i := x])"
  "off + length src \<le> length xs \<Longrightarrow> copy_at off src xs = Inr (write_at off src xs)"
  "off + 1 < length bytes \<Longrightarrow> load_u16 bytes off = Inr (read_u16 bytes off)"
  "off + 1 < length bytes \<Longrightarrow> load_i16 bytes off = Inr (read_i16 bytes off)"
  "off + 3 < length bytes \<Longrightarrow> load_u32 bytes off = Inr (read_u32 bytes off)"
  "off + 1 < length bytes \<Longrightarrow> store_u16 off v bytes = Inr (write_u16 bytes off v)"
  "off + 3 < length bytes \<Longrightarrow> store_u32 off w bytes = Inr (write_u32 bytes off w)"
  by (simp_all add: idx_def sub_slice_def store_at_def copy_at_def load_u16_def load_i16_def load_u32_def
      store_u16_def store_u32_def read_u16_def read_i16_def read_u32_def write_u16_def write_u32_def)

lemma checked_Inr:
  "idx xs i = Inr x \<longleftrightarrow> i < length xs \<and> x = xs ! i"
  "sub_slice from to xs = Inr ys \<longleftrightarrow> from \<le> to \<and> to \<le> length xs \<and> ys = slice from to xs"
  "load_u16 bytes off = Inr v \<longleftrightarrow> off + 1 < length bytes \<and> v = read_u16 bytes off"
  "load_i16 bytes off = Inr v \<longleftrightarrow> off + 1 < length bytes \<and> v = read_i16 bytes off"
  "load_u32 bytes off = Inr w \<longleftrightarrow> off + 3 < length bytes \<and> w = read_u32 bytes off"
  "copy_at off src buf = Inr buf' \<longleftrightarrow> off + length src \<le> length buf \<and> buf' = write_at off src buf"
  by (auto simp: idx_def sub_slice_def load_u16_def load_i16_def load_u32_def copy_at_def bindR_Inr
      read_u16_def read_i16_def read_u32_def)

lemma expect_simps [simp, result_simps]: "expect m (Some x) = Inr x" "expect m None = Inl (Panicked m)"
  by (simp_all add: expect_def)

section \<open>Screens\<close>

datatype screen = ScrMain | ScrCurrent | ScrTemp | ScrStatus | ScrSimple | ScrSame

definition screen_from_str :: "string \<Rightarrow> screen result" where
  "screen_from_str value = (let v = to_ascii_lowercase value in
     if v = ''main'' then Inr ScrMain
     else if v = ''current'' then Inr ScrCurrent
     else if v = ''temp'' \<or> v = ''temperature'' then Inr ScrTemp
     else if v = ''status'' then Inr ScrStatus
     else if v = ''simple'' then Inr ScrSimple
     else if v = ''same'' then Inr ScrSame
     else Inl (InvalidArgument (''unknown screen '' @ debug_str value)))"

section \<open>Telemetry\<close>

record pin_metrics =
  voltage_v :: f64
  current_a :: f64
  power_w :: f64

record temperatures =
  input_c :: f64
  output_c :: f64
  external_1_c :: "f64 option"
  external_2_c :: "f64 option"

record metrics =
  vdd_v :: f64
  avg_voltage_v :: f64
  total_current_a :: f64
  total_power_w :: f64
  fan_duty_percent :: f64
  cable_capability_w :: u16
  pins :: "pin_metrics list"
  m_temperatures :: temperatures

record telemetry =
  t_sequence :: u64
  t_session_id :: u64
  observed_at_ms :: u64
  stale :: bool
  t_metrics :: metrics
  active_fault_mask :: u16
  logged_fault_mask :: u16
  active_faults :: "string list"
  logged_faults :: "string list"

text \<open>A decimal literal is the nearest \<open>f64\<close>.\<close>

definition f64_lit :: "rat \<Rightarrow> f64" where
  "f64_lit = f64_of_rat"

text \<open>\<open>Telemetry::mock\<close>; the wall clock is an argument.\<close>

definition telemetry_mock :: "u64 \<Rightarrow> telemetry" where
  "telemetry_mock now_ms =
     \<lparr>t_sequence = 0, t_session_id = 0, observed_at_ms = now_ms, stale = False,
      t_metrics = \<lparr>vdd_v = f64_lit (33 / 10), avg_voltage_v = f64_lit (1208 / 100),
        total_current_a = f64_lit (555 / 100), total_power_w = f64_lit (6704 / 100),
        fan_duty_percent = f64_lit 40, cable_capability_w = 600,
        pins = map (\<lambda>index.
          let c = f64_add (f64_lit (9 / 10)) (f64_div_const (f64_of_int (int index)) 100)
          in \<lparr>voltage_v = f64_lit (1208 / 100), current_a = c,
              power_w = f64_mul (f64_lit (1208 / 100)) c\<rparr>) [0..<6],
        m_temperatures = \<lparr>input_c = f64_lit (428 / 10), output_c = f64_lit 38,
          external_1_c = None, external_2_c = None\<rparr>\<rparr>,
      active_fault_mask = 0, logged_fault_mask = 0, active_faults = [], logged_faults = []\<rparr>"

section \<open>Daemon state and events\<close>

record daemon_state =
  d_sequence :: u64
  d_session_id :: u64
  connection :: connection_state
  connected_port :: "string option"
  last_disconnect_reason :: "disconnect_reason option"
  identity :: "device_identity option"
  d_telemetry :: "telemetry option"

definition daemon_state_default :: daemon_state where
  "daemon_state_default =
     \<lparr>d_sequence = 0, d_session_id = 0, connection = Absent Startup, connected_port = None,
      last_disconnect_reason = Some Startup, identity = None, d_telemetry = None\<rparr>"

datatype device_event =
    Connected u64 u64 string
  | Disconnected u64 u64 disconnect_reason
  | TelemetryUpdated u64 u64
  | ScreenChanged u64 u64 screen

fun event_sequence :: "device_event \<Rightarrow> u64" where
  "event_sequence (Connected s _ _) = s"
| "event_sequence (Disconnected s _ _) = s"
| "event_sequence (TelemetryUpdated s _) = s"
| "event_sequence (ScreenChanged s _ _) = s"

lemma connection_state_name_inj_on_ready:
  "connection_state_name c = ''ready'' \<longleftrightarrow> (\<exists>s. c = Ready s)"
  by (cases c) auto

lemma screen_from_str_total: "panic_free (screen_from_str s)"
  by (simp add: screen_from_str_def Let_def)

end
