(* ===== verification/Config.thy ===== *)
theory Config
  imports Domain
begin

text \<open>
  \<open>crates/wireview-core/src/config.rs\<close>: the device configuration, its validation and the
  binary codec of its three protocol versions (72, 74 and 96 bytes). A buffer is a byte
  list; every index, slice and assignment \<open>bytes[i] = x\<close> is a checked access of \<open>Domain\<close>, so
  that a missing length check is a panic of the model.
  The lemmas characterise validation declaratively, show that encoding succeeds exactly on
  valid configurations, that decoding an encoded configuration gives its canonical form,
  and that every payload the decoder accepts survives a write back. The JSON document model
  (serde) is not part of this theory; the colour strings it holds are.
\<close>

section \<open>Types\<close>

definition CONFIG_V1_SIZE :: nat where "CONFIG_V1_SIZE = 72"
definition CONFIG_V2_SIZE :: nat where "CONFIG_V2_SIZE = 74"
definition CONFIG_V3_SIZE :: nat where "CONFIG_V3_SIZE = 96"
definition CONFIG_WRITE_PAYLOAD :: nat where "CONFIG_WRITE_PAYLOAD = 62"
definition FAULT_MASK :: u16 where "FAULT_MASK = 0x003f"

datatype nvm_operation = NvmReload | NvmStore | NvmReset

fun nvm_operation_byte :: "nvm_operation \<Rightarrow> u8" where
  "nvm_operation_byte NvmReload = 1"
| "nvm_operation_byte NvmStore = 2"
| "nvm_operation_byte NvmReset = 3"

datatype fan_mode = Curve | Fixed

datatype temperature_source =
    SourceInput
  | SourceOutput
  | SourceExternal1
  | SourceExternal2
  | SourceMaximum

datatype fault_kind =
    ChipOverTemperature
  | SensorOverTemperature
  | OverCurrent
  | WireOverCurrent
  | OverPower
  | CurrentImbalance

datatype config_screen =
    ConfigMain
  | ConfigSimple
  | ConfigCurrent
  | ConfigTemperature
  | ConfigStatus

datatype timeout_mode = TimeoutStatic | TimeoutCycle | TimeoutSleep

datatype power_scale = ScaleAuto | Watts300 | Watts600

datatype background = BackgroundThermalOrange | BackgroundThermalDark | BackgroundDisabled

datatype fan_theme = FanThermalOrange | FanThermalDark | FanBlackAndWhite

text \<open>\<open>value as u8\<close> of an enum is its position in the declaration.\<close>

fun fan_mode_ordinal :: "fan_mode \<Rightarrow> nat" where
  "fan_mode_ordinal Curve = 0"
| "fan_mode_ordinal Fixed = 1"

fun temperature_source_ordinal :: "temperature_source \<Rightarrow> nat" where
  "temperature_source_ordinal SourceInput = 0"
| "temperature_source_ordinal SourceOutput = 1"
| "temperature_source_ordinal SourceExternal1 = 2"
| "temperature_source_ordinal SourceExternal2 = 3"
| "temperature_source_ordinal SourceMaximum = 4"

fun fault_ordinal :: "fault_kind \<Rightarrow> nat" where
  "fault_ordinal ChipOverTemperature = 0"
| "fault_ordinal SensorOverTemperature = 1"
| "fault_ordinal OverCurrent = 2"
| "fault_ordinal WireOverCurrent = 3"
| "fault_ordinal OverPower = 4"
| "fault_ordinal CurrentImbalance = 5"

fun config_screen_ordinal :: "config_screen \<Rightarrow> nat" where
  "config_screen_ordinal ConfigMain = 0"
| "config_screen_ordinal ConfigSimple = 1"
| "config_screen_ordinal ConfigCurrent = 2"
| "config_screen_ordinal ConfigTemperature = 3"
| "config_screen_ordinal ConfigStatus = 4"

fun timeout_mode_ordinal :: "timeout_mode \<Rightarrow> nat" where
  "timeout_mode_ordinal TimeoutStatic = 0"
| "timeout_mode_ordinal TimeoutCycle = 1"
| "timeout_mode_ordinal TimeoutSleep = 2"

fun power_scale_ordinal :: "power_scale \<Rightarrow> nat" where
  "power_scale_ordinal ScaleAuto = 0"
| "power_scale_ordinal Watts300 = 1"
| "power_scale_ordinal Watts600 = 2"

record fan_configuration =
  fan_mode_of :: fan_mode
  temperature_source_of :: temperature_source
  duty_min_percent :: u8
  duty_max_percent :: u8
  temperature_min_c :: f64
  temperature_max_c :: f64

record fault_actions =
  act_display :: "fault_kind list"
  act_buzzer :: "fault_kind list"
  act_soft_power :: "fault_kind list"
  act_hard_power :: "fault_kind list"

record fault_thresholds =
  limit_temperature_c :: f64
  limit_total_current_a :: u8
  limit_wire_current_a :: f64
  limit_total_power_w :: u16
  current_imbalance_percent :: u8
  current_imbalance_min_load_a :: u8

record display_configuration =
  default_screen :: config_screen
  current_scale_a :: u8
  power_scale_of :: power_scale
  rotation_degrees :: u16
  timeout_mode_of :: timeout_mode
  cycle_screens :: "config_screen list"
  cycle_time_seconds :: u8
  timeout_seconds :: u8
  primary_color :: u32
  secondary_color :: u32
  highlight_color :: u32
  background_color :: u32
  background_of :: background
  fan_theme_of :: fan_theme
  inverted :: bool

record device_configuration =
  raw_version :: u8
  crc :: u16
  friendly_name :: string
  backlight_percent :: u8
  fan :: fan_configuration
  fault_actions_of :: fault_actions
  fault_thresholds_of :: fault_thresholds
  shutdown_wait_seconds :: u8
  logging_interval_seconds :: u8
  averaging_ms :: u16
  display :: display_configuration

text \<open>The user-editable part; its fields carry the prefix \<open>set_\<close>.\<close>

record device_settings =
  set_friendly_name :: string
  set_backlight_percent :: u8
  set_fan :: fan_configuration
  set_fault_actions :: fault_actions
  set_fault_thresholds :: fault_thresholds
  set_shutdown_wait_seconds :: u8
  set_logging_interval_seconds :: u8
  set_averaging_ms :: u16
  set_display :: display_configuration

definition settings_from_configuration :: "device_configuration \<Rightarrow> device_settings" where
  "settings_from_configuration c =
     \<lparr>set_friendly_name = friendly_name c,
      set_backlight_percent = backlight_percent c,
      set_fan = fan c,
      set_fault_actions = fault_actions_of c,
      set_fault_thresholds = fault_thresholds_of c,
      set_shutdown_wait_seconds = shutdown_wait_seconds c,
      set_logging_interval_seconds = logging_interval_seconds c,
      set_averaging_ms = averaging_ms c,
      set_display = display c\<rparr>"

section \<open>Errors and strings\<close>

abbreviation invalid :: "string \<Rightarrow> 'a result" where
  "invalid message \<equiv> Inl (InvalidArgument message)"

definition unknown :: "string \<Rightarrow> u8 \<Rightarrow> 'a result" where
  "unknown name value = Inl (Transport (''unknown '' @ name @ '' ordinal '' @ show_nat (unat value)))"

text \<open>
  \<open>str::chars().count()\<close> counts the bytes that start a character;
  \<open>all(is_ascii_graphic or space)\<close> holds exactly when every byte is in \<open>0x20..=0x7e\<close>, as a
  character outside ASCII has only bytes from \<open>0x80\<close> up.
\<close>

definition chars_count :: "string \<Rightarrow> nat" where
  "chars_count s = length (filter (\<lambda>c. \<not> (128 \<le> (of_char c :: nat) \<and> (of_char c :: nat) < 192)) s)"

definition is_printable :: "char \<Rightarrow> bool" where
  "is_printable c = (32 \<le> (of_char c :: nat) \<and> (of_char c :: nat) \<le> 126)"

text \<open>The length of the well-formed UTF-8 character a byte sequence starts with.\<close>

definition utf8_tail :: "u8 \<Rightarrow> bool" where
  "utf8_tail b = (0x80 \<le> b \<and> b \<le> 0xbf)"

definition utf8_char_len :: "u8 list \<Rightarrow> nat option" where
  "utf8_char_len bs = (case bs of [] \<Rightarrow> None | a # r \<Rightarrow>
     if a < 0x80 then Some 1
     else if 0xc2 \<le> a \<and> a \<le> 0xdf then
       (case r of b # _ \<Rightarrow> if utf8_tail b then Some 2 else None | _ \<Rightarrow> None)
     else if 0xe0 \<le> a \<and> a \<le> 0xef then
       (case r of b # c # _ \<Rightarrow>
          if utf8_tail b \<and> utf8_tail c \<and> (a = 0xe0 \<longrightarrow> 0xa0 \<le> b) \<and> (a = 0xed \<longrightarrow> b \<le> 0x9f)
          then Some 3 else None
        | _ \<Rightarrow> None)
     else if 0xf0 \<le> a \<and> a \<le> 0xf4 then
       (case r of b # c # d # _ \<Rightarrow>
          if utf8_tail b \<and> utf8_tail c \<and> utf8_tail d \<and> (a = 0xf0 \<longrightarrow> 0x90 \<le> b)
             \<and> (a = 0xf4 \<longrightarrow> b \<le> 0x8f)
          then Some 4 else None
        | _ \<Rightarrow> None)
     else None)"

lemma utf8_char_len_pos: "utf8_char_len bs = Some n \<Longrightarrow> 0 < n \<and> bs \<noteq> []"
  by (auto simp: utf8_char_len_def split: list.splits if_splits)

function utf8_valid :: "u8 list \<Rightarrow> bool" where
  "utf8_valid bs = (if bs = [] then True else
     case utf8_char_len bs of None \<Rightarrow> False | Some n \<Rightarrow> utf8_valid (drop n bs))"
  by pat_completeness auto
termination
  by (relation "measure length") (auto dest: utf8_char_len_pos)

declare utf8_valid.simps [simp del]

lemma utf8_valid_Nil [simp]: "utf8_valid []"
  by (simp add: utf8_valid.simps)

lemma utf8_valid_ascii: "\<forall>b\<in>set bs. b < 0x80 \<Longrightarrow> utf8_valid bs"
proof (induction bs)
  case (Cons b bs)
  then show ?case by (subst utf8_valid.simps) (simp add: utf8_char_len_def)
qed simp

text \<open>\<open>slice.get(i)\<close>.\<close>

definition get_at :: "'a list \<Rightarrow> nat \<Rightarrow> 'a option" where
  "get_at xs i = (if i < length xs then Some (xs ! i) else None)"

text \<open>\<open>u8::try_from(usize).ok()\<close>.\<close>

definition u8_try_from_usize :: "nat \<Rightarrow> u8 option" where
  "u8_try_from_usize n = (if n < 256 then Some (word_of_nat n) else None)"

section \<open>Ordinals\<close>

definition decode_fan_mode :: "u8 \<Rightarrow> fan_mode result" where
  "decode_fan_mode value =
    (if value = 0 then Inr Curve
     else if value = 1 then Inr Fixed
     else unknown ''fan mode'' value)"

definition decode_temperature_source :: "u8 \<Rightarrow> temperature_source result" where
  "decode_temperature_source value =
    (if value = 0 then Inr SourceInput
     else if value = 1 then Inr SourceOutput
     else if value = 2 then Inr SourceExternal1
     else if value = 3 then Inr SourceExternal2
     else if value = 4 then Inr SourceMaximum
     else unknown ''temperature source'' value)"

definition current_scales :: "u8 list" where
  "current_scales = [5, 10, 15, 20]"

definition decode_current_scale :: "u8 \<Rightarrow> u8 result" where
  "decode_current_scale value =
     ok_or (Transport (''unknown current scale ordinal '' @ show_nat (unat value)))
       (get_at current_scales (unat value))"

definition encode_current_scale :: "u8 \<Rightarrow> u8 result" where
  "encode_current_scale value =
     ok_or (InvalidArgument ''current scale must be 5, 10, 15, or 20'')
       (Option.bind (position (\<lambda>candidate. candidate = value) current_scales) u8_try_from_usize)"

definition decode_power_scale :: "u8 \<Rightarrow> power_scale result" where
  "decode_power_scale value =
    (if value = 0 then Inr ScaleAuto
     else if value = 1 then Inr Watts300
     else if value = 2 then Inr Watts600
     else unknown ''power scale'' value)"

definition decode_rotation :: "u8 \<Rightarrow> u16 result" where
  "decode_rotation value =
    (if value = 0 then Inr 0
     else if value = 1 then Inr 180
     else unknown ''display rotation'' value)"

definition encode_rotation :: "u16 \<Rightarrow> u8 result" where
  "encode_rotation value =
    (if value = 0 then Inr 0
     else if value = 180 then Inr 1
     else invalid ''display rotation must be 0 or 180'')"

definition decode_timeout_mode :: "u8 \<Rightarrow> timeout_mode result" where
  "decode_timeout_mode value =
    (if value = 0 then Inr TimeoutStatic
     else if value = 1 then Inr TimeoutCycle
     else if value = 2 then Inr TimeoutSleep
     else unknown ''timeout mode'' value)"

definition decode_screen :: "u8 \<Rightarrow> config_screen result" where
  "decode_screen value =
    (if value = 0 then Inr ConfigMain
     else if value = 1 then Inr ConfigSimple
     else if value = 2 then Inr ConfigCurrent
     else if value = 3 then Inr ConfigTemperature
     else if value = 4 then Inr ConfigStatus
     else unknown ''default screen'' value)"

text \<open>The \<open>expect\<close> in the closure of \<open>decode_screens\<close> is the panic case of \<open>expect_screen\<close>.\<close>

definition expect_screen :: "config_screen result \<Rightarrow> config_screen result" where
  "expect_screen r = (case r of Inl _ \<Rightarrow> Inl (Panicked ''known screen bit'') | Inr s \<Rightarrow> Inr s)"

definition decode_screens :: "u8 \<Rightarrow> config_screen list result" where
  "decode_screens sm =
    (if sm AND NOT 0x1f \<noteq> 0 then
       Inl (Transport (''cycle screen mask has unknown bits 0x''
         @ hex_digits hex_lower 2 (unat (sm AND NOT 0x1f))))
     else collectR (map (\<lambda>b. expect_screen (decode_screen (word_of_nat b)))
            (filter (\<lambda>b. sm AND push_bit b 1 \<noteq> 0) [0..<5])))"

definition encode_screens :: "config_screen list \<Rightarrow> u8" where
  "encode_screens screens = foldl (\<lambda>sm s. sm OR push_bit (config_screen_ordinal s) 1) 0 screens"

definition fault_of_bit :: "nat \<Rightarrow> fault_kind result" where
  "fault_of_bit b =
    (if b = 0 then Inr ChipOverTemperature
     else if b = 1 then Inr SensorOverTemperature
     else if b = 2 then Inr OverCurrent
     else if b = 3 then Inr WireOverCurrent
     else if b = 4 then Inr OverPower
     else if b = 5 then Inr CurrentImbalance
     else Inl (Panicked ''unreachable''))"

definition decode_fault_actions :: "u16 \<Rightarrow> fault_kind list result" where
  "decode_fault_actions fm =
    (if fm AND NOT FAULT_MASK \<noteq> 0 then
       Inl (Transport (''fault action mask has unknown bits 0x''
         @ hex_digits hex_lower 4 (unat (fm AND NOT FAULT_MASK))))
     else collectR (map fault_of_bit (filter (\<lambda>b. fm AND push_bit b 1 \<noteq> 0) [0..<6])))"

definition encode_faults :: "fault_kind list \<Rightarrow> u16" where
  "encode_faults faults = foldl (\<lambda>fm f. fm OR push_bit (fault_ordinal f) 1) 0 faults"

definition averaging_values :: "u16 list" where
  "averaging_values = [22, 44, 89, 177, 354, 709, 1417]"

definition decode_averaging :: "u8 \<Rightarrow> u16 result" where
  "decode_averaging value =
     ok_or (Transport (''unknown averaging ordinal '' @ show_nat (unat value)))
       (get_at averaging_values (unat value))"

definition encode_averaging :: "u16 \<Rightarrow> u8 result" where
  "encode_averaging value =
     ok_or (InvalidArgument (''unsupported averaging '' @ show_nat (unat value) @ '' ms''))
       (Option.bind (position (\<lambda>candidate. candidate = value) averaging_values) u8_try_from_usize)"

definition decode_background :: "u8 \<Rightarrow> background result" where
  "decode_background value =
    (if value = 1 then Inr BackgroundThermalOrange
     else if value = 2 then Inr BackgroundThermalDark
     else if value = 255 then Inr BackgroundDisabled
     else unknown ''background bitmap'' value)"

fun encode_background :: "background \<Rightarrow> u8" where
  "encode_background BackgroundThermalOrange = 1"
| "encode_background BackgroundThermalDark = 2"
| "encode_background BackgroundDisabled = 255"

definition decode_fan_theme :: "u8 \<Rightarrow> fan_theme result" where
  "decode_fan_theme value =
    (if value = 100 then Inr FanThermalOrange
     else if value = 117 then Inr FanThermalDark
     else if value = 152 then Inr FanBlackAndWhite
     else unknown ''fan bitmap'' value)"

fun encode_fan_theme :: "fan_theme \<Rightarrow> u8" where
  "encode_fan_theme FanThermalOrange = 100"
| "encode_fan_theme FanThermalDark = 117"
| "encode_fan_theme FanBlackAndWhite = 152"

fun legacy_theme_settings :: "background \<Rightarrow> fan_theme \<times> u32 list" where
  "legacy_theme_settings BackgroundThermalOrange =
     (FanThermalOrange, [0xffffffff, 0xff646464, 0xffe64121, 0xff000000])"
| "legacy_theme_settings BackgroundThermalDark =
     (FanThermalDark, [0xffffffff, 0xff646464, 0xffbebebe, 0xff000000])"
| "legacy_theme_settings BackgroundDisabled =
     (FanBlackAndWhite, [0xff969696, 0xff505050, 0xffffffff, 0xff000000])"

definition decode_legacy_theme :: "u8 \<Rightarrow> background \<times> fan_theme \<times> u32 list" where
  "decode_legacy_theme value =
     (let b = (if value = 0 then BackgroundThermalOrange
               else if value = 1 then BackgroundThermalDark
               else BackgroundDisabled);
          (theme, colors) = legacy_theme_settings b
      in (b, theme, colors))"

fun encode_legacy_theme :: "background \<Rightarrow> u8" where
  "encode_legacy_theme BackgroundThermalOrange = 0"
| "encode_legacy_theme BackgroundThermalDark = 1"
| "encode_legacy_theme BackgroundDisabled = 2"

section \<open>Values with one decimal place\<close>

definition scaled_off_grid :: "f64 \<Rightarrow> bool" where
  "scaled_off_grid scaled =
     f64_less (f64_lit (1 / 1000000)) (f64_abs (f64_sub scaled (f64_round scaled)))"

definition encode_scaled :: "string \<Rightarrow> f64 \<Rightarrow> int \<Rightarrow> int \<Rightarrow> int result" where
  "encode_scaled name value minimum maximum =
     (let scaled = f64_mul value (f64_lit 10)
      in if \<not> f64_is_finite scaled \<or> f64_less scaled (f64_of_int minimum)
            \<or> f64_less (f64_of_int maximum) scaled \<or> scaled_off_grid scaled
         then invalid (name @ '' must be representable with one decimal place'')
         else Inr (f64_to_i64 (f64_round scaled)))"

definition encode_tenths_i16 :: "string \<Rightarrow> f64 \<Rightarrow> u16 result" where
  "encode_tenths_i16 name value =
     bindR (encode_scaled name value (- 32768) 32767) (\<lambda>scaled.
       if - 32768 \<le> scaled \<and> scaled \<le> 32767 then Inr (word_of_int scaled)
       else Inl (Panicked ''unreachable''))"

definition encode_tenths_u8 :: "string \<Rightarrow> f64 \<Rightarrow> u8 result" where
  "encode_tenths_u8 name value =
     bindR (encode_scaled name value 0 255) (\<lambda>scaled.
       if 0 \<le> scaled \<and> scaled \<le> 255 then Inr (word_of_int scaled)
       else Inl (Panicked ''unreachable''))"

text \<open>The limits are whole numbers, which \<open>{:.1}\<close> prints with a zero.\<close>

definition validate_tenths_range :: "string \<Rightarrow> f64 \<Rightarrow> int \<Rightarrow> int \<Rightarrow> unit result" where
  "validate_tenths_range name value minimum maximum =
     (let scaled = f64_mul value (f64_lit 10)
      in if \<not> f64_is_finite scaled \<or> scaled_off_grid scaled
         then invalid (name @ '' must have at most one decimal place'')
         else failIf (f64_less value (f64_of_int minimum) \<or> f64_less (f64_of_int maximum) value)
           (InvalidArgument (name @ '' must be between '' @ show_int minimum @ ''.0 and ''
              @ show_int maximum @ ''.0'')))"

definition percent :: "string \<Rightarrow> u8 \<Rightarrow> unit result" where
  "percent name value =
     failIf (100 < value) (InvalidArgument (name @ '' must be between 0 and 100''))"

section \<open>Validation\<close>

definition validate_faults :: "string \<Rightarrow> fault_kind list \<Rightarrow> unit result" where
  "validate_faults name faults =
     failIf (count_ones (encode_faults faults) \<noteq> length faults)
       (InvalidArgument (name @ '' contains duplicate entries''))"

definition settings_validate :: "device_settings \<Rightarrow> unit result" where
  "settings_validate s =
     (let f = set_fan s; t = set_fault_thresholds s; a = set_fault_actions s; d = set_display s
      in first_error
       [failIf (32 < chars_count (set_friendly_name s) \<or> \<not> list_all is_printable (set_friendly_name s))
          (InvalidArgument ''friendly_name must contain at most 32 printable ASCII characters''),
        percent ''backlight_percent'' (set_backlight_percent s),
        percent ''fan.duty_min_percent'' (duty_min_percent f),
        percent ''fan.duty_max_percent'' (duty_max_percent f),
        failIf (duty_max_percent f < duty_min_percent f)
          (InvalidArgument ''fan duty minimum cannot exceed its maximum''),
        validate_tenths_range ''fan.temperature_min_c'' (temperature_min_c f) 0 50,
        validate_tenths_range ''fan.temperature_max_c'' (temperature_max_c f) 50 100,
        failIf (f64_less (temperature_max_c f) (temperature_min_c f))
          (InvalidArgument ''fan temperature minimum cannot exceed its maximum''),
        validate_tenths_range ''fault_thresholds.temperature_c'' (limit_temperature_c t) 0 120,
        failIf (150 < limit_total_current_a t)
          (InvalidArgument ''fault_thresholds.total_current_a must be between 0 and 150''),
        mapR (\<lambda>_. ()) (encode_tenths_u8 ''fault_thresholds.wire_current_a'' (limit_wire_current_a t)),
        failIf (2000 < limit_total_power_w t)
          (InvalidArgument ''fault_thresholds.total_power_w must be between 0 and 2000''),
        percent ''fault_thresholds.current_imbalance_percent'' (current_imbalance_percent t),
        failIf (10 < current_imbalance_min_load_a t)
          (InvalidArgument ''fault_thresholds.current_imbalance_min_load_a must be between 0 and 10''),
        validate_faults ''fault_actions.display'' (act_display a),
        validate_faults ''fault_actions.buzzer'' (act_buzzer a),
        validate_faults ''fault_actions.soft_power'' (act_soft_power a),
        validate_faults ''fault_actions.hard_power'' (act_hard_power a),
        failIf (current_scale_a d \<notin> {5, 10, 15, 20})
          (InvalidArgument ''display.current_scale_a must be 5, 10, 15, or 20''),
        failIf (rotation_degrees d \<notin> {0, 180})
          (InvalidArgument ''display.rotation_degrees must be 0 or 180''),
        failIf (count_ones (encode_screens (cycle_screens d)) \<noteq> length (cycle_screens d))
          (InvalidArgument ''display.cycle_screens contains duplicate entries''),
        failIf (set_averaging_ms s \<notin> {22, 44, 89, 177, 354, 709, 1417})
          (InvalidArgument ''averaging_ms must be 22, 44, 89, 177, 354, 709, or 1417'')])"

definition validate_version_specific_fields :: "device_configuration \<Rightarrow> unit result" where
  "validate_version_specific_fields c =
    (if raw_version c = 0 \<and> averaging_ms c \<noteq> 1417
     then invalid ''averaging_ms is fixed at 1417 on V1 devices''
     else if 2 \<le> raw_version c then Inr ()
     else if default_screen (display c) \<noteq> ConfigMain
     then invalid ''display.default_screen is fixed at main on V1 and V2 devices''
     else if inverted (display c)
     then invalid ''display.inverted is not supported on V1 and V2 devices''
     else (let (expected_fan_theme, expected_colors) = legacy_theme_settings (background_of (display c))
       in if fan_theme_of (display c) \<noteq> expected_fan_theme
       then invalid ''display.fan_theme must match display.background on V1 and V2 devices''
       else failIf ([primary_color (display c), secondary_color (display c),
                     highlight_color (display c), background_color (display c)] \<noteq> expected_colors)
         (InvalidArgument ''display colors are fixed by display.background on V1 and V2 devices'')))"

definition configuration_validate :: "device_configuration \<Rightarrow> unit result" where
  "configuration_validate c =
     first_error
       [failIf (2 < raw_version c) (InvalidArgument ''raw_version must be 0, 1, or 2''),
        settings_validate (settings_from_configuration c),
        validate_version_specific_fields c]"

definition with_protocol_metadata ::
  "device_settings \<Rightarrow> device_configuration \<Rightarrow> device_configuration result" where
  "with_protocol_metadata s current =
     bindR (settings_validate s) (\<lambda>_. Inr
       \<lparr>raw_version = raw_version current,
        crc = crc current,
        friendly_name = set_friendly_name s,
        backlight_percent = set_backlight_percent s,
        fan = set_fan s,
        fault_actions_of = set_fault_actions s,
        fault_thresholds_of = set_fault_thresholds s,
        shutdown_wait_seconds = set_shutdown_wait_seconds s,
        logging_interval_seconds = set_logging_interval_seconds s,
        averaging_ms = set_averaging_ms s,
        display = set_display s\<rparr>)"

definition all_faults :: "fault_kind list" where
  "all_faults = [ChipOverTemperature, SensorOverTemperature, OverCurrent, WireOverCurrent,
     OverPower, CurrentImbalance]"

definition all_config_screens :: "config_screen list" where
  "all_config_screens = [ConfigMain, ConfigSimple, ConfigCurrent, ConfigTemperature, ConfigStatus]"

definition configuration_mock :: device_configuration where
  "configuration_mock =
     \<lparr>raw_version = 2,
      crc = 0x1234,
      friendly_name = ''Mock WireView'',
      backlight_percent = 100,
      fan = \<lparr>fan_mode_of = Curve, temperature_source_of = SourceMaximum, duty_min_percent = 0,
        duty_max_percent = 100, temperature_min_c = f64_lit 50, temperature_max_c = f64_lit 80\<rparr>,
      fault_actions_of = \<lparr>
        act_display = [ChipOverTemperature, SensorOverTemperature, OverCurrent, WireOverCurrent,
          OverPower, CurrentImbalance],
        act_buzzer = [ChipOverTemperature, SensorOverTemperature, OverCurrent, WireOverCurrent,
          OverPower],
        act_soft_power = [],
        act_hard_power = [ChipOverTemperature, SensorOverTemperature, OverCurrent, WireOverCurrent,
          OverPower]\<rparr>,
      fault_thresholds_of = \<lparr>limit_temperature_c = f64_lit 80, limit_total_current_a = 55,
        limit_wire_current_a = f64_lit (105 / 10), limit_total_power_w = 660,
        current_imbalance_percent = 40, current_imbalance_min_load_a = 6\<rparr>,
      shutdown_wait_seconds = 10,
      logging_interval_seconds = 60,
      averaging_ms = 1417,
      display = \<lparr>default_screen = ConfigMain, current_scale_a = 10, power_scale_of = Watts600,
        rotation_degrees = 0, timeout_mode_of = TimeoutStatic,
        cycle_screens = [ConfigMain, ConfigSimple, ConfigCurrent, ConfigTemperature, ConfigStatus],
        cycle_time_seconds = 10, timeout_seconds = 30,
        primary_color = 0xffffffff, secondary_color = 0xff646464,
        highlight_color = 0xffe64121, background_color = 0xff000000,
        background_of = BackgroundThermalOrange, fan_theme_of = FanThermalOrange,
        inverted = False\<rparr>\<rparr>"

section \<open>Decoding\<close>

definition configuration_size :: "u8 \<Rightarrow> nat result" where
  "configuration_size version =
    (if version = 0 then Inr CONFIG_V1_SIZE
     else if version = 1 then Inr CONFIG_V2_SIZE
     else if version = 2 then Inr CONFIG_V3_SIZE
     else Inl (Unsupported (''configuration version '' @ show_nat (unat version))))"

definition ui_offset :: "u8 \<Rightarrow> nat result" where
  "ui_offset version =
    (if version = 0 then Inr 64
     else if version = 1 then Inr 65
     else if version = 2 then Inr 68
     else Inl (Panicked ''unreachable''))"

definition decode_name :: "u8 list \<Rightarrow> string result" where
  "decode_name bytes =
     (let name_end = (case position (\<lambda>b. b = 0) bytes of None \<Rightarrow> length bytes | Some i \<Rightarrow> i);
          name = take name_end bytes
      in if utf8_valid name then Inr (string_of_bytes name)
         else Inl (Transport ''configuration name is not valid UTF-8''))"

definition decode_legacy_display :: "u8 list \<Rightarrow> nat \<Rightarrow> display_configuration result" where
  "decode_legacy_display bytes ui =
     bindR (mapR decode_legacy_theme (idx bytes (ui + 2))) (\<lambda>(bg, theme, colors).
     bindR (bindR (idx bytes ui) decode_current_scale) (\<lambda>scale.
     bindR (bindR (idx bytes (ui + 1)) decode_power_scale) (\<lambda>power.
     bindR (bindR (idx bytes (ui + 3)) decode_rotation) (\<lambda>rotation.
     bindR (bindR (idx bytes (ui + 4)) decode_timeout_mode) (\<lambda>timeout.
     bindR (bindR (idx bytes (ui + 5)) decode_screens) (\<lambda>screens.
     bindR (idx bytes (ui + 6)) (\<lambda>cycle_time.
     bindR (idx bytes (ui + 7)) (\<lambda>timeout_after. Inr
       \<lparr>default_screen = ConfigMain, current_scale_a = scale, power_scale_of = power,
        rotation_degrees = rotation, timeout_mode_of = timeout, cycle_screens = screens,
        cycle_time_seconds = cycle_time, timeout_seconds = timeout_after,
        primary_color = colors ! 0, secondary_color = colors ! 1,
        highlight_color = colors ! 2, background_color = colors ! 3,
        background_of = bg, fan_theme_of = theme, inverted = False\<rparr>))))))))"

definition decode_inverted :: "u8 \<Rightarrow> bool result" where
  "decode_inverted value =
    (if value = 0 then Inr False
     else if value = 1 then Inr True
     else Inl (Transport (''unknown display inversion ordinal '' @ show_nat (unat value))))"

definition decode_v3_display :: "u8 list \<Rightarrow> nat \<Rightarrow> display_configuration result" where
  "decode_v3_display bytes ui =
     bindR (bindR (idx bytes ui) decode_screen) (\<lambda>default.
     bindR (bindR (idx bytes (ui + 1)) decode_current_scale) (\<lambda>scale.
     bindR (bindR (idx bytes (ui + 2)) decode_power_scale) (\<lambda>power.
     bindR (bindR (idx bytes (ui + 3)) decode_rotation) (\<lambda>rotation.
     bindR (bindR (idx bytes (ui + 4)) decode_timeout_mode) (\<lambda>timeout.
     bindR (bindR (idx bytes (ui + 5)) decode_screens) (\<lambda>screens.
     bindR (idx bytes (ui + 6)) (\<lambda>cycle_time.
     bindR (idx bytes (ui + 7)) (\<lambda>timeout_after.
     bindR (load_u32 bytes (ui + 8)) (\<lambda>primary.
     bindR (load_u32 bytes (ui + 12)) (\<lambda>secondary.
     bindR (load_u32 bytes (ui + 16)) (\<lambda>highlight.
     bindR (load_u32 bytes (ui + 20)) (\<lambda>back.
     bindR (bindR (idx bytes (ui + 24)) decode_background) (\<lambda>bg.
     bindR (bindR (idx bytes (ui + 25)) decode_fan_theme) (\<lambda>theme.
     bindR (bindR (idx bytes (ui + 26)) decode_inverted) (\<lambda>inv. Inr
       \<lparr>default_screen = default, current_scale_a = scale, power_scale_of = power,
        rotation_degrees = rotation, timeout_mode_of = timeout, cycle_screens = screens,
        cycle_time_seconds = cycle_time, timeout_seconds = timeout_after,
        primary_color = primary, secondary_color = secondary,
        highlight_color = highlight, background_color = back,
        background_of = bg, fan_theme_of = theme, inverted = inv\<rparr>)))))))))))))))"

definition decode_fields ::
  "u8 \<Rightarrow> u8 list \<Rightarrow> display_configuration \<Rightarrow> u16 \<Rightarrow> device_configuration result" where
  "decode_fields version bytes disp averaging =
     bindR (load_u16 bytes 0) (\<lambda>crc_word.
     bindR (bindR (sub_slice 3 35 bytes) decode_name) (\<lambda>name.
     bindR (bindR (idx bytes 36) decode_fan_mode) (\<lambda>fan_mode.
     bindR (bindR (idx bytes 37) decode_temperature_source) (\<lambda>source.
     bindR (idx bytes 38) (\<lambda>duty_min.
     bindR (idx bytes 39) (\<lambda>duty_max.
     bindR (load_i16 bytes 40) (\<lambda>temp_min.
     bindR (load_i16 bytes 42) (\<lambda>temp_max.
     bindR (idx bytes 44) (\<lambda>backlight.
     bindR (bindR (load_u16 bytes 46) decode_fault_actions) (\<lambda>display_faults.
     bindR (bindR (load_u16 bytes 48) decode_fault_actions) (\<lambda>buzzer_faults.
     bindR (bindR (load_u16 bytes 50) decode_fault_actions) (\<lambda>soft_faults.
     bindR (bindR (load_u16 bytes 52) decode_fault_actions) (\<lambda>hard_faults.
     bindR (load_i16 bytes 54) (\<lambda>temp_limit.
     bindR (idx bytes 56) (\<lambda>current_limit.
     bindR (idx bytes 57) (\<lambda>wire_limit.
     bindR (load_u16 bytes 58) (\<lambda>power_limit.
     bindR (idx bytes 60) (\<lambda>imbalance.
     bindR (idx bytes 61) (\<lambda>imbalance_load.
     bindR (idx bytes 62) (\<lambda>shutdown_wait.
     bindR (idx bytes 63) (\<lambda>logging_interval. Inr
       \<lparr>raw_version = version,
        crc = crc_word,
        friendly_name = name,
        backlight_percent = backlight,
        fan = \<lparr>fan_mode_of = fan_mode, temperature_source_of = source,
          duty_min_percent = duty_min, duty_max_percent = duty_max,
          temperature_min_c = f64_tenths (sint temp_min),
          temperature_max_c = f64_tenths (sint temp_max)\<rparr>,
        fault_actions_of = \<lparr>act_display = display_faults, act_buzzer = buzzer_faults,
          act_soft_power = soft_faults, act_hard_power = hard_faults\<rparr>,
        fault_thresholds_of = \<lparr>limit_temperature_c = f64_tenths (sint temp_limit),
          limit_total_current_a = current_limit,
          limit_wire_current_a = f64_tenths (uint wire_limit),
          limit_total_power_w = power_limit,
          current_imbalance_percent = imbalance,
          current_imbalance_min_load_a = imbalance_load\<rparr>,
        shutdown_wait_seconds = shutdown_wait,
        logging_interval_seconds = logging_interval,
        averaging_ms = averaging,
        display = disp\<rparr>)))))))))))))))))))))"

definition decode_configuration :: "u8 \<Rightarrow> u8 list \<Rightarrow> device_configuration result" where
  "decode_configuration version bytes =
     bindR (configuration_size version) (\<lambda>expected.
       if length bytes \<noteq> expected then
         Inl (Transport (''configuration V'' @ show_nat (unat (version + 1)) @ '' has ''
           @ show_nat (length bytes) @ '' bytes, expected '' @ show_nat expected))
       else bindR (idx bytes 2) (\<lambda>payload_version.
       if payload_version \<noteq> version then
         Inl (Transport (''configuration payload version '' @ show_nat (unat payload_version)
           @ '' does not match probed version '' @ show_nat (unat version) @ '' (first bytes: ''
           @ join '' '' (map (\<lambda>b. hex_digits hex_upper 2 (unat b)) (take 8 bytes)) @ '')''))
       else bindR (ui_offset version) (\<lambda>ui.
         bindR (if version < 2 then decode_legacy_display bytes ui else decode_v3_display bytes ui)
           (\<lambda>disp.
         bindR (if version = 0 then Inr 1417 else bindR (idx bytes 64) decode_averaging) (\<lambda>averaging.
         bindR (decode_fields version bytes disp averaging) (\<lambda>config.
         bindR (configuration_validate config) (\<lambda>_. Inr config)))))))"

section \<open>Encoding\<close>

text \<open>The fields common to the three versions, up to byte 63.\<close>

definition encode_fields :: "device_configuration \<Rightarrow> u8 list \<Rightarrow> u8 list result" where
  "encode_fields c bytes =
     bindR (store_u16 0 (crc c) bytes) (\<lambda>bytes.
     bindR (store_at 2 (raw_version c) bytes) (\<lambda>bytes.
     bindR (copy_at 3 (bytes_of_string (friendly_name c)) bytes) (\<lambda>bytes.
     bindR (store_at 36 (word_of_nat (fan_mode_ordinal (fan_mode_of (fan c)))) bytes) (\<lambda>bytes.
     bindR (store_at 37 (word_of_nat (temperature_source_ordinal (temperature_source_of (fan c)))) bytes) (\<lambda>bytes.
     bindR (store_at 38 (duty_min_percent (fan c)) bytes) (\<lambda>bytes.
     bindR (store_at 39 (duty_max_percent (fan c)) bytes) (\<lambda>bytes.
     bindR (encode_tenths_i16 ''fan.temperature_min_c'' (temperature_min_c (fan c))) (\<lambda>tmin.
     bindR (store_u16 40 tmin bytes) (\<lambda>bytes.
     bindR (encode_tenths_i16 ''fan.temperature_max_c'' (temperature_max_c (fan c))) (\<lambda>tmax.
     bindR (store_u16 42 tmax bytes) (\<lambda>bytes.
     bindR (store_at 44 (backlight_percent c) bytes) (\<lambda>bytes.
     bindR (store_u16 46 (encode_faults (act_display (fault_actions_of c))) bytes) (\<lambda>bytes.
     bindR (store_u16 48 (encode_faults (act_buzzer (fault_actions_of c))) bytes) (\<lambda>bytes.
     bindR (store_u16 50 (encode_faults (act_soft_power (fault_actions_of c))) bytes) (\<lambda>bytes.
     bindR (store_u16 52 (encode_faults (act_hard_power (fault_actions_of c))) bytes) (\<lambda>bytes.
     bindR (encode_tenths_i16 ''fault_thresholds.temperature_c''
              (limit_temperature_c (fault_thresholds_of c))) (\<lambda>tlimit.
     bindR (store_u16 54 tlimit bytes) (\<lambda>bytes.
     bindR (store_at 56 (limit_total_current_a (fault_thresholds_of c)) bytes) (\<lambda>bytes.
     bindR (encode_tenths_u8 ''fault_thresholds.wire_current_a''
              (limit_wire_current_a (fault_thresholds_of c))) (\<lambda>wire.
     bindR (store_at 57 wire bytes) (\<lambda>bytes.
     bindR (store_u16 58 (limit_total_power_w (fault_thresholds_of c)) bytes) (\<lambda>bytes.
     bindR (store_at 60 (current_imbalance_percent (fault_thresholds_of c)) bytes) (\<lambda>bytes.
     bindR (store_at 61 (current_imbalance_min_load_a (fault_thresholds_of c)) bytes) (\<lambda>bytes.
     bindR (store_at 62 (shutdown_wait_seconds c) bytes) (\<lambda>bytes.
       store_at 63 (logging_interval_seconds c) bytes)))))))))))))))))))))))))"

definition encode_legacy_display :: "display_configuration \<Rightarrow> nat \<Rightarrow> u8 list \<Rightarrow> u8 list result" where
  "encode_legacy_display d ui bytes =
     bindR (encode_current_scale (current_scale_a d)) (\<lambda>scale.
     bindR (store_at ui scale bytes) (\<lambda>bytes.
     bindR (store_at (ui + 1) (word_of_nat (power_scale_ordinal (power_scale_of d))) bytes) (\<lambda>bytes.
     bindR (store_at (ui + 2) (encode_legacy_theme (background_of d)) bytes) (\<lambda>bytes.
     bindR (encode_rotation (rotation_degrees d)) (\<lambda>rotation.
     bindR (store_at (ui + 3) rotation bytes) (\<lambda>bytes.
     bindR (store_at (ui + 4) (word_of_nat (timeout_mode_ordinal (timeout_mode_of d))) bytes) (\<lambda>bytes.
     bindR (store_at (ui + 5) (encode_screens (cycle_screens d)) bytes) (\<lambda>bytes.
     bindR (store_at (ui + 6) (cycle_time_seconds d) bytes) (\<lambda>bytes.
       store_at (ui + 7) (timeout_seconds d) bytes)))))))))"

definition encode_v3_display :: "display_configuration \<Rightarrow> nat \<Rightarrow> u8 list \<Rightarrow> u8 list result" where
  "encode_v3_display d ui bytes =
     bindR (store_at ui (word_of_nat (config_screen_ordinal (default_screen d))) bytes) (\<lambda>bytes.
     bindR (encode_current_scale (current_scale_a d)) (\<lambda>scale.
     bindR (store_at (ui + 1) scale bytes) (\<lambda>bytes.
     bindR (store_at (ui + 2) (word_of_nat (power_scale_ordinal (power_scale_of d))) bytes) (\<lambda>bytes.
     bindR (encode_rotation (rotation_degrees d)) (\<lambda>rotation.
     bindR (store_at (ui + 3) rotation bytes) (\<lambda>bytes.
     bindR (store_at (ui + 4) (word_of_nat (timeout_mode_ordinal (timeout_mode_of d))) bytes) (\<lambda>bytes.
     bindR (store_at (ui + 5) (encode_screens (cycle_screens d)) bytes) (\<lambda>bytes.
     bindR (store_at (ui + 6) (cycle_time_seconds d) bytes) (\<lambda>bytes.
     bindR (store_at (ui + 7) (timeout_seconds d) bytes) (\<lambda>bytes.
     bindR (store_u32 (ui + 8) (primary_color d) bytes) (\<lambda>bytes.
     bindR (store_u32 (ui + 12) (secondary_color d) bytes) (\<lambda>bytes.
     bindR (store_u32 (ui + 16) (highlight_color d) bytes) (\<lambda>bytes.
     bindR (store_u32 (ui + 20) (background_color d) bytes) (\<lambda>bytes.
     bindR (store_at (ui + 24) (encode_background (background_of d)) bytes) (\<lambda>bytes.
     bindR (store_at (ui + 25) (encode_fan_theme (fan_theme_of d)) bytes) (\<lambda>bytes.
       store_at (ui + 26) (if inverted d then 1 else 0) bytes))))))))))))))))"

definition encode_configuration :: "device_configuration \<Rightarrow> u8 list result" where
  "encode_configuration c =
     bindR (configuration_validate c) (\<lambda>_.
     bindR (configuration_size (raw_version c)) (\<lambda>size_bytes.
     bindR (encode_fields c (replicate size_bytes 0)) (\<lambda>bytes.
     bindR (ui_offset (raw_version c)) (\<lambda>ui.
     bindR (if raw_version c = 0 then Inr bytes
            else bindR (encode_averaging (averaging_ms c)) (\<lambda>ordinal. store_at 64 ordinal bytes))
       (\<lambda>bytes.
        if raw_version c < 2 then encode_legacy_display (display c) ui bytes
        else encode_v3_display (display c) ui bytes)))))"

section \<open>Colour strings\<close>

definition argb_serialize :: "u32 \<Rightarrow> string" where
  "argb_serialize value =
    (if value AND 0xff000000 = 0xff000000 then hex_digits hex_upper 6 (unat (value AND 0x00ffffff))
     else hex_digits hex_upper 8 (unat value))"

text \<open>\<open>u32::from_str_radix(_, 16)\<close> on a string of hexadecimal digits.\<close>

definition hex_value :: "char \<Rightarrow> nat option" where
  "hex_value c = (let n = (of_char c :: nat) in
     if 48 \<le> n \<and> n \<le> 57 then Some (n - 48)
     else if 97 \<le> n \<and> n \<le> 102 then Some (n - 87)
     else if 65 \<le> n \<and> n \<le> 70 then Some (n - 55)
     else None)"

definition from_hex :: "string \<Rightarrow> nat" where
  "from_hex s = foldl (\<lambda>acc c. acc * 16 + (case hex_value c of None \<Rightarrow> 0 | Some d \<Rightarrow> d)) 0 s"

definition argb_deserialize :: "string \<Rightarrow> string + u32" where
  "argb_deserialize value =
    (if \<not> (length value = 6 \<or> length value = 8) \<or> list_ex (\<lambda>c. hex_value c = None) value
     then Inl ''expected exactly 6 RGB or 8 ARGB hexadecimal characters''
     else (let color = word_of_nat (from_hex value)
           in Inr (if length value = 6 then 0xff000000 OR color else color)))"

section \<open>Ordinals round trip\<close>

lemma decode_ordinals [simp]:
  "decode_fan_mode (word_of_nat (fan_mode_ordinal fm)) = Inr fm"
  "decode_temperature_source (word_of_nat (temperature_source_ordinal src)) = Inr src"
  "decode_power_scale (word_of_nat (power_scale_ordinal ps)) = Inr ps"
  "decode_timeout_mode (word_of_nat (timeout_mode_ordinal tm)) = Inr tm"
  "decode_screen (word_of_nat (config_screen_ordinal scr)) = Inr scr"
  "decode_background (encode_background bg) = Inr bg"
  "decode_fan_theme (encode_fan_theme ft) = Inr ft"
  by (cases fm; simp add: decode_fan_mode_def; fail | cases src; simp add: decode_temperature_source_def; fail
    | cases ps; simp add: decode_power_scale_def; fail | cases tm; simp add: decode_timeout_mode_def; fail
    | cases scr; simp add: decode_screen_def; fail | cases bg; simp add: decode_background_def; fail
    | cases ft; simp add: decode_fan_theme_def; fail)+

lemma decode_legacy_theme_encode [simp]:
  "decode_legacy_theme (encode_legacy_theme bg) = (bg, legacy_theme_settings bg)"
  by (cases bg) (simp_all add: decode_legacy_theme_def)

lemma decode_inverted_bool [simp]: "decode_inverted (if b then 1 else 0) = Inr b"
  by (simp add: decode_inverted_def)

lemma encode_current_scale_ok:
  "v \<in> {5, 10, 15, 20} \<Longrightarrow> \<exists>ordinal. encode_current_scale v = Inr ordinal \<and> decode_current_scale ordinal = Inr v"
  by (auto simp: encode_current_scale_def decode_current_scale_def current_scales_def
      u8_try_from_usize_def get_at_def)

lemma encode_rotation_ok:
  "v \<in> {0, 180} \<Longrightarrow> \<exists>ordinal. encode_rotation v = Inr ordinal \<and> decode_rotation ordinal = Inr v"
  by (auto simp: encode_rotation_def decode_rotation_def)

lemma encode_averaging_ok:
  "v \<in> {22, 44, 89, 177, 354, 709, 1417} \<Longrightarrow>
     \<exists>ordinal. encode_averaging v = Inr ordinal \<and> decode_averaging ordinal = Inr v"
  by (auto simp: encode_averaging_def decode_averaging_def averaging_values_def
      u8_try_from_usize_def get_at_def)

section \<open>Masks\<close>

lemma bit_mask_fold:
  assumes "\<forall>x\<in>set xs. g x < LENGTH('a::len)"
  shows "bit (foldl (\<lambda>m x. m OR push_bit (g x) 1) (m0 :: 'a word) xs) n
     \<longleftrightarrow> bit m0 n \<or> (\<exists>x\<in>set xs. g x = n)"
  using assms by (induction xs arbitrary: m0) (auto simp: bit_simps)

lemma fault_ordinal_less: "fault_ordinal f < 6"
  by (cases f) auto

lemma config_screen_ordinal_less: "config_screen_ordinal s < 5"
  by (cases s) auto

lemma inj_fault_ordinal: "inj fault_ordinal"
  by (rule injI, rename_tac a b, case_tac a; case_tac b; simp)

lemma inj_config_screen_ordinal: "inj config_screen_ordinal"
  by (rule injI, rename_tac a b, case_tac a; case_tac b; simp)

lemma bit_encode_faults: "bit (encode_faults fs) n \<longleftrightarrow> (\<exists>f\<in>set fs. fault_ordinal f = n)"
  unfolding encode_faults_def
  by (subst bit_mask_fold) (auto intro: less_le_trans [OF fault_ordinal_less])

lemma bit_encode_screens: "bit (encode_screens ss) n \<longleftrightarrow> (\<exists>s\<in>set ss. config_screen_ordinal s = n)"
  unfolding encode_screens_def
  by (subst bit_mask_fold) (auto intro: less_le_trans [OF config_screen_ordinal_less])

lemma card_ordinals:
  assumes "inj g"
  shows "card {n. \<exists>x\<in>set xs. g x = n} = length xs \<longleftrightarrow> distinct xs"
proof -
  have "{n. \<exists>x\<in>set xs. g x = n} = g ` set xs" by auto
  then have "card {n. \<exists>x\<in>set xs. g x = n} = card (set xs)"
    using assms by (simp add: card_image inj_on_subset)
  then show ?thesis using card_distinct distinct_card by auto
qed

lemma count_ones_encode_faults: "count_ones (encode_faults fs) = length fs \<longleftrightarrow> distinct fs"
  by (simp add: count_ones_card bit_encode_faults card_ordinals inj_fault_ordinal)

lemma count_ones_encode_screens: "count_ones (encode_screens ss) = length ss \<longleftrightarrow> distinct ss"
  by (simp add: count_ones_card bit_encode_screens card_ordinals inj_config_screen_ordinal)

lemma and_not_mask_eq_0:
  "(m :: 'a::len word) AND NOT (mask k) = 0 \<longleftrightarrow> (\<forall>n. bit m n \<longrightarrow> n < k)"
  by (auto simp: bit_eq_iff bit_simps dest: bit_imp_le_length)

lemma collectR_Inr: "collectR (map (\<lambda>x. Inr (g x)) xs) = Inr (map g xs)"
  by (induction xs) auto

definition canonical_faults :: "fault_kind list \<Rightarrow> fault_kind list" where
  "canonical_faults fs = filter (\<lambda>f. f \<in> set fs) all_faults"

definition canonical_screens :: "config_screen list \<Rightarrow> config_screen list" where
  "canonical_screens ss = filter (\<lambda>s. s \<in> set ss) all_config_screens"

lemma set_all_faults [simp]: "f \<in> set all_faults"
  by (cases f) (simp_all add: all_faults_def)

lemma set_all_config_screens [simp]: "s \<in> set all_config_screens"
  by (cases s) (simp_all add: all_config_screens_def)

lemma FAULT_MASK_mask: "FAULT_MASK = mask 6"
  by (simp add: FAULT_MASK_def mask_eq_exp_minus_1)

lemma screen_mask_mask: "(0x1f :: u8) = mask 5"
  by (simp add: mask_eq_exp_minus_1)

lemma upt_5: "[0..<5] = [0, 1, 2, 3, 4 :: nat]" and upt_6: "[0..<6] = [0, 1, 2, 3, 4, 5 :: nat]"
  by code_simp+

lemma collect_faults:
  "collectR (map fault_of_bit (filter P [0..<6])) = Inr (filter (\<lambda>f. P (fault_ordinal f)) all_faults)"
  by (simp add: upt_6 all_faults_def fault_of_bit_def)

lemma collect_screens:
  "collectR (map (\<lambda>b. expect_screen (decode_screen (word_of_nat b))) (filter P [0..<5]))
     = Inr (filter (\<lambda>s. P (config_screen_ordinal s)) all_config_screens)"
  by (simp add: upt_5 all_config_screens_def expect_screen_def decode_screen_def)

lemma decode_fault_actions_Inr:
  "decode_fault_actions m = Inr fs \<longleftrightarrow>
     (\<forall>n. bit m n \<longrightarrow> n < 6) \<and> fs = filter (\<lambda>f. bit m (fault_ordinal f)) all_faults"
  unfolding decode_fault_actions_def FAULT_MASK_mask
  by (auto simp: and_not_mask_eq_0 collect_faults mask_bit_and)

lemma decode_screens_Inr:
  "decode_screens m = Inr ss \<longleftrightarrow>
     (\<forall>n. bit m n \<longrightarrow> n < 5) \<and> ss = filter (\<lambda>s. bit m (config_screen_ordinal s)) all_config_screens"
  unfolding decode_screens_def screen_mask_mask
  by (auto simp: and_not_mask_eq_0 collect_screens mask_bit_and)

lemma decode_fault_actions_encode [simp]:
  "decode_fault_actions (encode_faults fs) = Inr (canonical_faults fs)"
  by (auto simp: decode_fault_actions_Inr bit_encode_faults canonical_faults_def fault_ordinal_less
      inj_eq [OF inj_fault_ordinal] intro!: filter_cong)

lemma decode_screens_encode [simp]:
  "decode_screens (encode_screens ss) = Inr (canonical_screens ss)"
  by (auto simp: decode_screens_Inr bit_encode_screens canonical_screens_def config_screen_ordinal_less
      inj_eq [OF inj_config_screen_ordinal] intro!: filter_cong)

lemma canonical_decoded_faults: "decode_fault_actions m = Inr fs \<Longrightarrow> canonical_faults fs = fs"
  by (auto simp: decode_fault_actions_Inr canonical_faults_def intro!: filter_cong)

lemma canonical_decoded_screens: "decode_screens m = Inr ss \<Longrightarrow> canonical_screens ss = ss"
  by (auto simp: decode_screens_Inr canonical_screens_def intro!: filter_cong)

lemma distinct_canonical [simp]: "distinct (canonical_faults fs)" "distinct (canonical_screens ss)"
  by (simp_all add: canonical_faults_def canonical_screens_def all_faults_def all_config_screens_def)

lemma set_canonical [simp]:
  "set (canonical_faults fs) = set fs" "set (canonical_screens ss) = set ss"
  by (auto simp: canonical_faults_def canonical_screens_def)

section \<open>Tenths round trip\<close>

definition tenths_of :: "f64 \<Rightarrow> int" where
  "tenths_of v = f64_to_i64 (f64_round (f64_mul v (f64_lit 10)))"

text \<open>A value the grid test accepts: a finite number close to a multiple of one tenth.\<close>

definition on_tenths_grid :: "f64 \<Rightarrow> bool" where
  "on_tenths_grid v \<longleftrightarrow>
     f64_is_finite (f64_mul v (f64_lit 10)) \<and> \<not> scaled_off_grid (f64_mul v (f64_lit 10))"

lemma f64_lit_10: "f64_lit 10 = Finite 10"
  using f64_of_int_small [of 10] by (simp add: f64_lit_def f64_of_int_def)

lemma tolerance: "f64_lit (1 / 1000000) = Finite (round64 (1 / 1000000))"
  "1 / 1100000 < round64 (1 / 1000000)" "round64 (1 / 1000000) < 1 / 900000"
proof -
  show "f64_lit (1 / 1000000) = Finite (round64 (1 / 1000000))"
    unfolding f64_lit_def by (rule f64_of_rat_small) simp
  have "\<bar>round64 (1 / 1000000) - 1 / 1000000\<bar> \<le> (1 / 1000000 + 1) / 1000000000000000"
    using round64_error [of "1 / 1000000"] by simp
  also have "\<dots> \<le> (1 / 100000000 :: rat)" by simp
  finally show "1 / 1100000 < round64 (1 / 1000000)" "round64 (1 / 1000000) < 1 / 900000" by linarith+
qed

lemma round_away_error: "\<bar>of_int (round_away q) - q\<bar> \<le> 1 / 2"
proof (cases "q < 0")
  case True
  have "of_int \<lfloor>- q + 1 / 2\<rfloor> \<le> - q + 1 / 2" "- q + 1 / 2 < of_int \<lfloor>- q + 1 / 2\<rfloor> + 1" by linarith+
  then show ?thesis using True unfolding round_away_def if_P [OF True] of_int_minus by linarith
next
  case False
  have "of_int \<lfloor>q + 1 / 2\<rfloor> \<le> q + 1 / 2" "q + 1 / 2 < of_int \<lfloor>q + 1 / 2\<rfloor> + 1" by linarith+
  then show ?thesis unfolding round_away_def if_not_P [OF False] by linarith
qed

lemma round_away_scaled:
  assumes "\<bar>q\<bar> \<le> 100000"
  shows "f64_to_i64 (f64_round (Finite q)) = round_away q" "\<bar>round_away q\<bar> \<le> 100001"
proof -
  have "\<bar>of_int (round_away q) :: rat\<bar> \<le> 100001" using round_away_error [of q] assms by linarith
  then show le: "\<bar>round_away q\<bar> \<le> 100001" by linarith
  have "- \<lfloor>- (of_int (round_away q) :: rat)\<rfloor> = round_away q" by (metis floor_of_int minus_minus of_int_minus)
  then show "f64_to_i64 (f64_round (Finite q)) = round_away q"
    using le by (simp add: max_def min_def) linarith
qed

lemma tenths_scaled:
  assumes "\<bar>i\<bar> \<le> 40000"
  shows "\<exists>q. f64_mul (f64_tenths i) (f64_lit 10) = Finite q \<and> \<bar>q - of_int i\<bar> \<le> 1 / 1000000000"
proof -
  have i: "\<bar>of_int i :: rat\<bar> \<le> 40000" using assms by linarith
  let ?a = "round64 (of_int i / 10)"
  have v: "f64_tenths i = Finite ?a" using assms by (intro f64_tenths_small) simp
  have "\<bar>?a - of_int i / 10\<bar> \<le> (\<bar>of_int i / 10\<bar> + 1) / 1000000000000000" by (rule round64_error)
  also have "\<dots> \<le> 5000 / 1000000000000000" using i by (intro divide_right_mono) auto
  also have "\<dots> \<le> (1 :: rat)" by simp
  finally have "\<bar>?a * 10\<bar> \<le> 1000000000000000" using i by linarith
  then have q: "f64_mul (f64_tenths i) (f64_lit 10) = Finite (round64 (?a * 10))"
    by (simp add: v f64_lit_10 f64_of_rat_small)
  have "\<bar>round64 (?a * 10) - of_int i\<bar> \<le> (3 * \<bar>of_int i\<bar> + 12) / 1000000000000000"
    by (rule binary64.tenths_scaled_error)
  also have "\<dots> \<le> 200000 / 1000000000000000" using i by (intro divide_right_mono) auto
  finally show ?thesis using q by (intro exI conjI) auto
qed

lemma tenths_on_grid:
  assumes "\<bar>i\<bar> \<le> 40000"
  shows "on_tenths_grid (f64_tenths i)" "tenths_of (f64_tenths i) = i"
proof -
  obtain q where q: "f64_mul (f64_tenths i) (f64_lit 10) = Finite q" "\<bar>q - of_int i\<bar> \<le> 1 / 1000000000"
    using tenths_scaled [OF assms] by blast
  have i: "\<bar>of_int i :: rat\<bar> \<le> 40000" using assms by linarith
  have r: "round_away q = i" by (rule round_away_near) (use q(2) in linarith)
  have "\<bar>q\<bar> \<le> 100000" using q(2) i by linarith
  then show "tenths_of (f64_tenths i) = i"
    using round_away_scaled(1) [of q] by (simp add: tenths_of_def q(1) r)
  have s: "f64_of_rat (q - of_int i) = Finite (round64 (q - of_int i))"
    by (rule f64_of_rat_small) (use q(2) in linarith)
  have "\<bar>round64 (q - of_int i) - (q - of_int i)\<bar> \<le> (\<bar>q - of_int i\<bar> + 1) / 1000000000000000"
    by (rule round64_error)
  also have "\<dots> \<le> 2 / 1000000000000000" using q(2) by (intro divide_right_mono) auto
  finally have "\<bar>round64 (q - of_int i)\<bar> \<le> 1 / 100000000" using q(2) by linarith
  then have "\<not> round64 (1 / 1000000) < \<bar>round64 (q - of_int i)\<bar>" using tolerance(2) by linarith
  then show "on_tenths_grid (f64_tenths i)"
    by (simp add: on_tenths_grid_def q(1) scaled_off_grid_def f64_sub_def r s tolerance(1))
qed

text \<open>What the value of an accepted number is, when it lies in a small range.\<close>

lemma on_tenths_grid_Finite:
  assumes "on_tenths_grid v"
  obtains a where "v = Finite a"
  using assms by (cases v) (auto simp: on_tenths_grid_def f64_lit_10)

lemma small_scaled:
  assumes "\<bar>a\<bar> \<le> 5000"
  shows "f64_mul (Finite a) (f64_lit 10) = Finite (round64 (a * 10))"
    "\<bar>round64 (a * 10) - a * 10\<bar> \<le> 1 / 1000000000" "\<bar>round64 (a * 10)\<bar> \<le> 100000"
proof -
  show "f64_mul (Finite a) (f64_lit 10) = Finite (round64 (a * 10))"
    using assms by (simp add: f64_lit_10 f64_of_rat_small)
  have "\<bar>round64 (a * 10) - a * 10\<bar> \<le> (\<bar>a * 10\<bar> + 1) / 1000000000000000" by (rule round64_error)
  also have "\<dots> \<le> 60000 / 1000000000000000" using assms by (intro divide_right_mono) auto
  finally show "\<bar>round64 (a * 10) - a * 10\<bar> \<le> 1 / 1000000000" by simp
  then show "\<bar>round64 (a * 10)\<bar> \<le> 100000" using assms by linarith
qed

lemma tenths_of_range:
  assumes "of_int lo \<le> a" "a \<le> of_int hi" "\<bar>lo\<bar> \<le> 5000" "\<bar>hi\<bar> \<le> 5000"
  shows "10 * lo \<le> tenths_of (Finite a)" "tenths_of (Finite a) \<le> 10 * hi"
proof -
  have "\<bar>of_int lo :: rat\<bar> \<le> 5000" "\<bar>of_int hi :: rat\<bar> \<le> 5000" using assms(3,4) by linarith+
  then have a: "\<bar>a\<bar> \<le> 5000" using assms(1,2) by linarith
  have t: "tenths_of (Finite a) = round_away (round64 (a * 10))"
    unfolding tenths_of_def using small_scaled(1) [OF a] round_away_scaled(1) [OF small_scaled(3) [OF a]] by simp
  have "\<bar>of_int (tenths_of (Finite a)) - a * 10\<bar> < 1"
    using small_scaled(2) [OF a] round_away_error [of "round64 (a * 10)"] unfolding t by linarith
  then have "of_int (10 * lo) - 1 < (of_int (tenths_of (Finite a)) :: rat)"
    "(of_int (tenths_of (Finite a)) :: rat) < of_int (10 * hi) + 1" using assms(1,2) by simp_all
  then show "10 * lo \<le> tenths_of (Finite a)" "tenths_of (Finite a) \<le> 10 * hi" by linarith+
qed

lemma f64_tenths_range:
  assumes "10 * lo \<le> k" "k \<le> 10 * hi" "\<bar>lo\<bar> \<le> 4000" "\<bar>hi\<bar> \<le> 4000"
  shows "\<not> f64_less (f64_tenths k) (f64_of_int lo)" "\<not> f64_less (f64_of_int hi) (f64_tenths k)"
proof -
  have k: "\<bar>k\<bar> \<le> 40000" using assms by linarith
  have fin: "f64_tenths k = Finite (round64 (of_int k / 10))" using k by (intro f64_tenths_small) simp
  have "\<bar>round64 (of_int k / 10) - of_int k / 10\<bar> \<le> (\<bar>of_int k / 10\<bar> + 1) / 1000000000000000"
    by (rule round64_error)
  also have "\<dots> \<le> 5000 / 1000000000000000" using k by (intro divide_right_mono) (simp, linarith)
  finally have e: "\<bar>round64 (of_int k / 10) - of_int k / 10\<bar> \<le> 1 / 100000000" by simp
  have exact: "k = 10 * j \<Longrightarrow> round64 (of_int k / 10) = of_int j" for j
    using round64_int [of j] k by simp
  have "of_int lo \<le> round64 (of_int k / 10)"
  proof (cases "k = 10 * lo")
    case False
    then have "10 * lo + 1 \<le> k" using assms(1) by simp
    then have "of_int (10 * lo + 1) \<le> (of_int k :: rat)" by (rule of_int_le_iff [THEN iffD2])
    then have "10 * of_int lo + 1 \<le> (of_int k :: rat)" by simp
    then show ?thesis using e by linarith
  qed (use exact [of lo] in simp)
  moreover have "round64 (of_int k / 10) \<le> of_int hi"
  proof (cases "k = 10 * hi")
    case False
    then have "k \<le> 10 * hi - 1" using assms(2) by simp
    then have "(of_int k :: rat) \<le> of_int (10 * hi - 1)" by (rule of_int_le_iff [THEN iffD2])
    then have "(of_int k :: rat) \<le> 10 * of_int hi - 1" by simp
    then show ?thesis using e by linarith
  qed (use exact [of hi] in simp)
  ultimately show "\<not> f64_less (f64_tenths k) (f64_of_int lo)" "\<not> f64_less (f64_of_int hi) (f64_tenths k)"
    using assms(3,4) by (simp_all add: fin f64_of_int_small)
qed

lemma validate_tenths_range_Inr:
  assumes "\<bar>lo\<bar> \<le> 4000" "\<bar>hi\<bar> \<le> 4000"
  shows "validate_tenths_range name v lo hi = Inr () \<longleftrightarrow>
    on_tenths_grid v \<and> (\<exists>a. v = Finite a \<and> of_int lo \<le> a \<and> a \<le> of_int hi)"
proof (cases v)
  case (Finite a)
  then show ?thesis using assms
    by (auto simp: validate_tenths_range_def Let_def on_tenths_grid_def f64_of_int_small failIf_Inr)
qed (auto simp: validate_tenths_range_def Let_def on_tenths_grid_def f64_lit_10)

lemma validate_tenths_range_canonical:
  assumes "10 * lo \<le> k" "k \<le> 10 * hi" "\<bar>lo\<bar> \<le> 4000" "\<bar>hi\<bar> \<le> 4000"
  shows "validate_tenths_range name (f64_tenths k) lo hi = Inr ()"
  using tenths_on_grid(1) [of k] f64_tenths_range [OF assms] assms
  by (auto simp: validate_tenths_range_def Let_def on_tenths_grid_def failIf_Inr)

lemma encode_tenths_i16_ok:
  assumes "on_tenths_grid (Finite a)" "\<bar>a\<bar> \<le> 3000"
  shows "encode_tenths_i16 name (Finite a) = Inr (word_of_int (tenths_of (Finite a)))"
proof -
  have a: "\<bar>a\<bar> \<le> 5000" using assms(2) by simp
  let ?q = "round64 (a * 10)"
  have q: "\<bar>?q\<bar> \<le> 30001" using small_scaled(2) [OF a] assms(2) by linarith
  have t: "tenths_of (Finite a) = round_away ?q" "\<bar>tenths_of (Finite a)\<bar> \<le> 30002"
  proof -
    show t: "tenths_of (Finite a) = round_away ?q"
      unfolding tenths_of_def using small_scaled(1) [OF a] round_away_scaled(1) [OF small_scaled(3) [OF a]] by simp
    have "\<bar>of_int (round_away ?q) :: rat\<bar> \<le> 30002" using round_away_error [of ?q] q by linarith
    then show "\<bar>tenths_of (Finite a)\<bar> \<le> 30002" unfolding t by linarith
  qed
  have "f64_to_i64 (f64_round (Finite ?q)) = tenths_of (Finite a)"
    using round_away_scaled(1) [OF small_scaled(3) [OF a]] t(1) by simp
  moreover have "\<not> ?q < - 32768" "\<not> 32767 < ?q" using q by linarith+
  moreover have "- 32768 \<le> tenths_of (Finite a)" "tenths_of (Finite a) \<le> 32767" using t(2) by linarith+
  ultimately show ?thesis
    using assms(1) unfolding encode_tenths_i16_def encode_scaled_def Let_def on_tenths_grid_def
    by (simp add: small_scaled(1) [OF a] f64_of_int_small del: f64_to_i64.simps)
qed

lemma encode_tenths_u8_Inr:
  "encode_tenths_u8 name v = Inr w \<longleftrightarrow>
     on_tenths_grid v \<and> \<not> f64_less (f64_mul v (f64_lit 10)) (Finite 0)
     \<and> \<not> f64_less (Finite 255) (f64_mul v (f64_lit 10)) \<and> w = word_of_int (tenths_of v)"
  "encode_tenths_u8 name v = Inr w \<Longrightarrow> 0 \<le> tenths_of v \<and> tenths_of v \<le> 255"
proof -
  have range: "0 \<le> tenths_of v \<and> tenths_of v \<le> 255"
    if h: "f64_is_finite (f64_mul v (f64_lit 10))" "\<not> f64_less (f64_mul v (f64_lit 10)) (Finite 0)"
      "\<not> f64_less (Finite 255) (f64_mul v (f64_lit 10))"
  proof -
    obtain q where q: "f64_mul v (f64_lit 10) = Finite q" using h(1) by (cases "f64_mul v (f64_lit 10)") auto
    then have b: "0 \<le> q" "q \<le> 255" using h by auto
    then have t: "tenths_of v = round_away q" using round_away_scaled(1) [of q] by (simp add: tenths_of_def q)
    have "\<bar>of_int (round_away q) - q\<bar> \<le> 1 / 2" by (rule round_away_error)
    then have "- 1 < (of_int (round_away q) :: rat)" "(of_int (round_away q) :: rat) < 256" using b by linarith+
    then show ?thesis unfolding t by linarith
  qed
  have z: "f64_of_int 0 = Finite 0" "f64_of_int 255 = Finite 255" by (simp_all add: f64_of_int_small)
  show "encode_tenths_u8 name v = Inr w \<longleftrightarrow>
     on_tenths_grid v \<and> \<not> f64_less (f64_mul v (f64_lit 10)) (Finite 0)
     \<and> \<not> f64_less (Finite 255) (f64_mul v (f64_lit 10)) \<and> w = word_of_int (tenths_of v)"
  proof (cases "on_tenths_grid v \<and> \<not> f64_less (f64_mul v (f64_lit 10)) (Finite 0)
      \<and> \<not> f64_less (Finite 255) (f64_mul v (f64_lit 10))")
    case True
    then have "encode_scaled name v 0 255 = Inr (tenths_of v)"
      by (simp add: encode_scaled_def Let_def on_tenths_grid_def z tenths_of_def)
    then show ?thesis using True range by (auto simp: encode_tenths_u8_def on_tenths_grid_def)
  next
    case False
    then have "\<exists>e. encode_scaled name v 0 255 = Inl e"
      by (auto simp: encode_scaled_def Let_def on_tenths_grid_def z)
    then show ?thesis using False by (auto simp: encode_tenths_u8_def)
  qed
  then show "encode_tenths_u8 name v = Inr w \<Longrightarrow> 0 \<le> tenths_of v \<and> tenths_of v \<le> 255"
    using range by (auto simp: on_tenths_grid_def)
qed

lemma encode_tenths_u8_canonical:
  assumes "0 \<le> k" "k \<le> 255"
  shows "encode_tenths_u8 name (f64_tenths k) = Inr (word_of_int k)"
proof -
  have k: "\<bar>k\<bar> \<le> 40000" using assms by simp
  obtain q where q: "f64_mul (f64_tenths k) (f64_lit 10) = Finite q" "\<bar>q - of_int k\<bar> \<le> 1 / 1000000000"
    using tenths_scaled [OF k] by blast
  have 0: "f64_mul (f64_tenths 0) (f64_lit 10) = Finite 0"
    using round64_int [of 0] by (simp add: f64_tenths_small f64_lit_10 f64_of_rat_small)
  have r: "round64 (51 / 2) = 51 / 2" by code_simp
  have "f64_tenths 255 = Finite (51 / 2)" using f64_tenths_small [of 255] by (simp add: r)
  then have 255: "f64_mul (f64_tenths 255) (f64_lit 10) = Finite 255"
    using round64_int [of 255] by (simp add: f64_lit_10 f64_of_rat_small)
  have "0 \<le> q"
  proof (cases "k = 0")
    case False
    then have "1 \<le> k" using assms(1) by simp
    then have "1 \<le> (of_int k :: rat)" by simp
    then show ?thesis using q(2) by linarith
  qed (use 0 q in simp)
  moreover have "q \<le> 255"
  proof (cases "k = 255")
    case False
    then have "k \<le> 254" using assms(2) by simp
    then have "(of_int k :: rat) \<le> 254" by simp
    then show ?thesis using q(2) by linarith
  qed (use 255 q in simp)
  ultimately show ?thesis by (simp add: encode_tenths_u8_Inr tenths_on_grid [OF k] q(1))
qed

section \<open>What validation accepts\<close>

definition tenths_between :: "f64 \<Rightarrow> int \<Rightarrow> int \<Rightarrow> bool" where
  "tenths_between v lo hi \<longleftrightarrow>
     on_tenths_grid v \<and> (\<exists>a. v = Finite a \<and> of_int lo \<le> a \<and> a \<le> of_int hi)"

definition wire_current_ok :: "f64 \<Rightarrow> bool" where
  "wire_current_ok v \<longleftrightarrow> on_tenths_grid v \<and> \<not> f64_less (f64_mul v (f64_lit 10)) (Finite 0)
     \<and> \<not> f64_less (Finite 255) (f64_mul v (f64_lit 10))"

definition fan_ok :: "fan_configuration \<Rightarrow> bool" where
  "fan_ok f \<longleftrightarrow> duty_min_percent f \<le> duty_max_percent f \<and> duty_max_percent f \<le> 100
     \<and> tenths_between (temperature_min_c f) 0 50 \<and> tenths_between (temperature_max_c f) 50 100"

definition thresholds_ok :: "fault_thresholds \<Rightarrow> bool" where
  "thresholds_ok t \<longleftrightarrow> tenths_between (limit_temperature_c t) 0 120
     \<and> limit_total_current_a t \<le> 150 \<and> wire_current_ok (limit_wire_current_a t)
     \<and> limit_total_power_w t \<le> 2000 \<and> current_imbalance_percent t \<le> 100
     \<and> current_imbalance_min_load_a t \<le> 10"

definition settings_ok :: "device_settings \<Rightarrow> bool" where
  "settings_ok s \<longleftrightarrow>
     length (set_friendly_name s) \<le> 32 \<and> list_all is_printable (set_friendly_name s)
     \<and> set_backlight_percent s \<le> 100 \<and> fan_ok (set_fan s) \<and> thresholds_ok (set_fault_thresholds s)
     \<and> distinct (act_display (set_fault_actions s)) \<and> distinct (act_buzzer (set_fault_actions s))
     \<and> distinct (act_soft_power (set_fault_actions s)) \<and> distinct (act_hard_power (set_fault_actions s))
     \<and> current_scale_a (set_display s) \<in> {5, 10, 15, 20}
     \<and> rotation_degrees (set_display s) \<in> {0, 180}
     \<and> distinct (cycle_screens (set_display s))
     \<and> set_averaging_ms s \<in> {22, 44, 89, 177, 354, 709, 1417}"

definition legacy_display_ok :: "display_configuration \<Rightarrow> bool" where
  "legacy_display_ok d \<longleftrightarrow> default_screen d = ConfigMain \<and> \<not> inverted d
     \<and> legacy_theme_settings (background_of d) = (fan_theme_of d,
         [primary_color d, secondary_color d, highlight_color d, background_color d])"

definition configuration_ok :: "device_configuration \<Rightarrow> bool" where
  "configuration_ok c \<longleftrightarrow> raw_version c \<le> 2 \<and> settings_ok (settings_from_configuration c)
     \<and> (raw_version c = 0 \<longrightarrow> averaging_ms c = 1417)
     \<and> (raw_version c < 2 \<longrightarrow> legacy_display_ok (display c))"

lemma chars_count_printable: "list_all is_printable s \<Longrightarrow> chars_count s = length s"
  unfolding chars_count_def
  by (rule arg_cong [where f = length], rule filter_True) (auto simp: list_all_iff is_printable_def)

lemma chars_count_printable_le:
  "chars_count s \<le> n \<and> list_all is_printable s \<and> R \<longleftrightarrow> length s \<le> n \<and> list_all is_printable s \<and> R"
  by (auto simp: chars_count_printable)

lemma percent_Inr: "percent name v = Inr () \<longleftrightarrow> v \<le> 100"
  by (auto simp: percent_def failIf_Inr not_less)

lemma tenths_between_le: "tenths_between a l m \<Longrightarrow> tenths_between b m h \<Longrightarrow> \<not> f64_less b a"
  by (auto simp: tenths_between_def)

lemma validate_tenths_between:
  "\<bar>lo\<bar> \<le> 4000 \<Longrightarrow> \<bar>hi\<bar> \<le> 4000 \<Longrightarrow> validate_tenths_range name v lo hi = Inr () \<longleftrightarrow> tenths_between v lo hi"
  by (simp add: validate_tenths_range_Inr tenths_between_def)

lemma encode_wire_unit:
  "mapR (\<lambda>_. ()) (encode_tenths_u8 name v) = Inr () \<longleftrightarrow> wire_current_ok v"
  by (auto simp: mapR_Inr encode_tenths_u8_Inr wire_current_ok_def)

lemma validate_faults_Inr: "validate_faults name fs = Inr () \<longleftrightarrow> distinct fs"
  by (simp add: validate_faults_def failIf_Inr count_ones_encode_faults)

lemma settings_validate_iff: "settings_validate s = Inr () \<longleftrightarrow> settings_ok s"
proof
  assume "settings_validate s = Inr ()"
  then show "settings_ok s"
    unfolding settings_validate_def Let_def first_error_Inr
    by (simp add: settings_ok_def failIf_Inr percent_Inr validate_tenths_between encode_wire_unit
        validate_faults_Inr count_ones_encode_screens not_less fan_ok_def thresholds_ok_def
        chars_count_printable_le)
next
  assume ok: "settings_ok s"
  have fan: "fan_ok (set_fan s)" using ok by (simp add: settings_ok_def)
  have "duty_min_percent (set_fan s) \<le> 100"
    using fan by (auto simp: fan_ok_def)
  moreover have "chars_count (set_friendly_name s) \<le> 32"
    using ok by (simp add: settings_ok_def chars_count_printable)
  moreover have "\<not> f64_less (temperature_max_c (set_fan s)) (temperature_min_c (set_fan s))"
    using fan by (auto simp: fan_ok_def dest: tenths_between_le)
  ultimately show "settings_validate s = Inr ()"
    using ok unfolding settings_validate_def Let_def first_error_Inr
    by (simp add: settings_ok_def failIf_Inr percent_Inr validate_tenths_between encode_wire_unit
        validate_faults_Inr count_ones_encode_screens not_less fan_ok_def thresholds_ok_def
        chars_count_printable_le)
qed

lemma validate_version_iff:
  "validate_version_specific_fields c = Inr () \<longleftrightarrow>
     (raw_version c = 0 \<longrightarrow> averaging_ms c = 1417)
     \<and> (raw_version c < 2 \<longrightarrow> legacy_display_ok (display c))"
  by (auto simp: validate_version_specific_fields_def legacy_display_ok_def failIf_Inr not_le
      split: prod.splits)

lemma configuration_validate_iff: "configuration_validate c = Inr () \<longleftrightarrow> configuration_ok c"
  by (auto simp: configuration_validate_def configuration_ok_def settings_validate_iff
      validate_version_iff failIf_Inr not_less bindR_Inr)

section \<open>The canonical form\<close>

definition canonical_tenths :: "f64 \<Rightarrow> f64" where
  "canonical_tenths v = f64_tenths (tenths_of v)"

definition canonical_fan :: "fan_configuration \<Rightarrow> fan_configuration" where
  "canonical_fan f = f\<lparr>temperature_min_c := canonical_tenths (temperature_min_c f),
     temperature_max_c := canonical_tenths (temperature_max_c f)\<rparr>"

definition canonical_actions :: "fault_actions \<Rightarrow> fault_actions" where
  "canonical_actions a = \<lparr>act_display = canonical_faults (act_display a),
     act_buzzer = canonical_faults (act_buzzer a),
     act_soft_power = canonical_faults (act_soft_power a),
     act_hard_power = canonical_faults (act_hard_power a)\<rparr>"

definition canonical_thresholds :: "fault_thresholds \<Rightarrow> fault_thresholds" where
  "canonical_thresholds t = t\<lparr>limit_temperature_c := canonical_tenths (limit_temperature_c t),
     limit_wire_current_a := canonical_tenths (limit_wire_current_a t)\<rparr>"

definition canonical_display :: "display_configuration \<Rightarrow> display_configuration" where
  "canonical_display d = d\<lparr>cycle_screens := canonical_screens (cycle_screens d)\<rparr>"

text \<open>The lists in ordinal order, the decimal values on the exact grid the device stores.\<close>

definition canonical_configuration :: "device_configuration \<Rightarrow> device_configuration" where
  "canonical_configuration c = c\<lparr>fan := canonical_fan (fan c),
     fault_actions_of := canonical_actions (fault_actions_of c),
     fault_thresholds_of := canonical_thresholds (fault_thresholds_of c),
     display := canonical_display (display c)\<rparr>"

lemmas canonical_defs = canonical_configuration_def canonical_fan_def canonical_actions_def
  canonical_thresholds_def canonical_display_def

lemma tenths_between_bounds:
  "tenths_between v lo hi \<Longrightarrow> \<bar>lo\<bar> \<le> 3000 \<Longrightarrow> \<bar>hi\<bar> \<le> 3000 \<Longrightarrow> 10 * lo \<le> tenths_of v \<and> tenths_of v \<le> 10 * hi"
  using tenths_of_range by (fastforce simp: tenths_between_def)

lemma tenths_between_canonical:
  assumes "tenths_between v lo hi" "\<bar>lo\<bar> \<le> 3000" "\<bar>hi\<bar> \<le> 3000"
  shows "tenths_between (canonical_tenths v) lo hi"
proof -
  have "10 * lo \<le> tenths_of v \<and> tenths_of v \<le> 10 * hi" using assms by (rule tenths_between_bounds)
  then have "validate_tenths_range n (canonical_tenths v) lo hi = Inr ()" for n
    unfolding canonical_tenths_def using assms by (intro validate_tenths_range_canonical) auto
  then show ?thesis using assms(2,3) by (simp add: validate_tenths_between)
qed

lemma wire_current_bounds: "wire_current_ok v \<Longrightarrow> 0 \<le> tenths_of v \<and> tenths_of v \<le> 255"
  using encode_tenths_u8_Inr [of "[]" v "word_of_int (tenths_of v)"] by (auto simp: wire_current_ok_def)

lemma wire_current_canonical: "wire_current_ok v \<Longrightarrow> wire_current_ok (canonical_tenths v)"
  using encode_tenths_u8_canonical [of "tenths_of v" "[]"] wire_current_bounds
  unfolding canonical_tenths_def by (auto simp: encode_tenths_u8_Inr wire_current_ok_def)

lemma fan_ok_canonical: "fan_ok f \<Longrightarrow> fan_ok (canonical_fan f)"
  by (simp add: fan_ok_def canonical_fan_def tenths_between_canonical)

lemma thresholds_ok_canonical: "thresholds_ok t \<Longrightarrow> thresholds_ok (canonical_thresholds t)"
  by (simp add: thresholds_ok_def canonical_thresholds_def tenths_between_canonical wire_current_canonical)

lemma configuration_ok_canonical: "configuration_ok c \<Longrightarrow> configuration_ok (canonical_configuration c)"
  by (simp add: configuration_ok_def settings_ok_def settings_from_configuration_def fan_ok_canonical
      thresholds_ok_canonical canonical_configuration_def canonical_actions_def canonical_display_def
      legacy_display_ok_def)

section \<open>Decoding what was encoded\<close>

definition encoded_fields :: "device_configuration \<Rightarrow> u8 list \<Rightarrow> u8 list" where
  "encoded_fields c bytes =
     (let t = fault_thresholds_of c;
          b = write_at 3 (bytes_of_string (friendly_name c))
            ((write_u16 bytes 0 (crc c))[2 := raw_version c]);
          b = b[36 := word_of_nat (fan_mode_ordinal (fan_mode_of (fan c))),
            37 := word_of_nat (temperature_source_ordinal (temperature_source_of (fan c))),
            38 := duty_min_percent (fan c), 39 := duty_max_percent (fan c)];
          b = write_u16 b 40 (word_of_int (tenths_of (temperature_min_c (fan c))));
          b = write_u16 b 42 (word_of_int (tenths_of (temperature_max_c (fan c))));
          b = b[44 := backlight_percent c];
          b = write_u16 b 46 (encode_faults (act_display (fault_actions_of c)));
          b = write_u16 b 48 (encode_faults (act_buzzer (fault_actions_of c)));
          b = write_u16 b 50 (encode_faults (act_soft_power (fault_actions_of c)));
          b = write_u16 b 52 (encode_faults (act_hard_power (fault_actions_of c)));
          b = write_u16 b 54 (word_of_int (tenths_of (limit_temperature_c t)));
          b = b[56 := limit_total_current_a t,
            57 := word_of_int (tenths_of (limit_wire_current_a t))];
          b = write_u16 b 58 (limit_total_power_w t)
      in b[60 := current_imbalance_percent t, 61 := current_imbalance_min_load_a t,
           62 := shutdown_wait_seconds c, 63 := logging_interval_seconds c])"

text \<open>With the length checked every access is in range; the codec is then the following.\<close>

lemma length_write_words [simp]:
  "off + 2 \<le> length bytes \<Longrightarrow> length (write_u16 bytes off v) = length bytes"
  "off + 4 \<le> length bytes \<Longrightarrow> length (write_u32 bytes off w) = length bytes"
  by (simp_all add: write_u16_def write_u32_def)

lemma decode_legacy_display_in_range:
  assumes "ui + 8 \<le> length bytes"
  shows "decode_legacy_display bytes ui =
     (let (bg, theme, colors) = decode_legacy_theme (bytes ! (ui + 2))
      in bindR (decode_current_scale (bytes ! ui)) (\<lambda>scale.
         bindR (decode_power_scale (bytes ! (ui + 1))) (\<lambda>power.
         bindR (decode_rotation (bytes ! (ui + 3))) (\<lambda>rotation.
         bindR (decode_timeout_mode (bytes ! (ui + 4))) (\<lambda>timeout.
         bindR (decode_screens (bytes ! (ui + 5))) (\<lambda>screens. Inr
           \<lparr>default_screen = ConfigMain, current_scale_a = scale, power_scale_of = power,
            rotation_degrees = rotation, timeout_mode_of = timeout, cycle_screens = screens,
            cycle_time_seconds = bytes ! (ui + 6), timeout_seconds = bytes ! (ui + 7),
            primary_color = colors ! 0, secondary_color = colors ! 1,
            highlight_color = colors ! 2, background_color = colors ! 3,
            background_of = bg, fan_theme_of = theme, inverted = False\<rparr>))))))"
  using assms unfolding decode_legacy_display_def by (simp add: checked_in_range Let_def)

lemma decode_v3_display_in_range:
  assumes "ui + 27 \<le> length bytes"
  shows "decode_v3_display bytes ui =
     bindR (decode_screen (bytes ! ui)) (\<lambda>default.
     bindR (decode_current_scale (bytes ! (ui + 1))) (\<lambda>scale.
     bindR (decode_power_scale (bytes ! (ui + 2))) (\<lambda>power.
     bindR (decode_rotation (bytes ! (ui + 3))) (\<lambda>rotation.
     bindR (decode_timeout_mode (bytes ! (ui + 4))) (\<lambda>timeout.
     bindR (decode_screens (bytes ! (ui + 5))) (\<lambda>screens.
     bindR (decode_background (bytes ! (ui + 24))) (\<lambda>bg.
     bindR (decode_fan_theme (bytes ! (ui + 25))) (\<lambda>theme.
     bindR (decode_inverted (bytes ! (ui + 26))) (\<lambda>inv. Inr
       \<lparr>default_screen = default, current_scale_a = scale, power_scale_of = power,
        rotation_degrees = rotation, timeout_mode_of = timeout, cycle_screens = screens,
        cycle_time_seconds = bytes ! (ui + 6), timeout_seconds = bytes ! (ui + 7),
        primary_color = read_u32 bytes (ui + 8), secondary_color = read_u32 bytes (ui + 12),
        highlight_color = read_u32 bytes (ui + 16), background_color = read_u32 bytes (ui + 20),
        background_of = bg, fan_theme_of = theme, inverted = inv\<rparr>)))))))))"
  using assms unfolding decode_v3_display_def by (simp add: checked_in_range)

lemma decode_fields_in_range:
  assumes "64 \<le> length bytes"
  shows "decode_fields version bytes disp averaging =
     bindR (decode_name (slice 3 35 bytes)) (\<lambda>name.
     bindR (decode_fan_mode (bytes ! 36)) (\<lambda>fan_mode.
     bindR (decode_temperature_source (bytes ! 37)) (\<lambda>source.
     bindR (decode_fault_actions (read_u16 bytes 46)) (\<lambda>display_faults.
     bindR (decode_fault_actions (read_u16 bytes 48)) (\<lambda>buzzer_faults.
     bindR (decode_fault_actions (read_u16 bytes 50)) (\<lambda>soft_faults.
     bindR (decode_fault_actions (read_u16 bytes 52)) (\<lambda>hard_faults. Inr
       \<lparr>raw_version = version,
        crc = read_u16 bytes 0,
        friendly_name = name,
        backlight_percent = bytes ! 44,
        fan = \<lparr>fan_mode_of = fan_mode, temperature_source_of = source,
          duty_min_percent = bytes ! 38, duty_max_percent = bytes ! 39,
          temperature_min_c = f64_tenths (sint (read_i16 bytes 40)),
          temperature_max_c = f64_tenths (sint (read_i16 bytes 42))\<rparr>,
        fault_actions_of = \<lparr>act_display = display_faults, act_buzzer = buzzer_faults,
          act_soft_power = soft_faults, act_hard_power = hard_faults\<rparr>,
        fault_thresholds_of = \<lparr>limit_temperature_c = f64_tenths (sint (read_i16 bytes 54)),
          limit_total_current_a = bytes ! 56,
          limit_wire_current_a = f64_tenths (uint (bytes ! 57)),
          limit_total_power_w = read_u16 bytes 58,
          current_imbalance_percent = bytes ! 60,
          current_imbalance_min_load_a = bytes ! 61\<rparr>,
        shutdown_wait_seconds = bytes ! 62,
        logging_interval_seconds = bytes ! 63,
        averaging_ms = averaging,
        display = disp\<rparr>)))))))"
  using assms unfolding decode_fields_def by (simp add: checked_in_range)

text \<open>A decoder that answered read no byte outside its buffer.\<close>

lemma decoders_in_range:
  "decode_legacy_display bytes ui = Inr d \<Longrightarrow> ui + 8 \<le> length bytes"
  "decode_v3_display bytes ui = Inr d \<Longrightarrow> ui + 27 \<le> length bytes"
  "decode_fields v bytes disp a = Inr c \<Longrightarrow> 64 \<le> length bytes"
  unfolding decode_legacy_display_def decode_v3_display_def decode_fields_def
  by (auto simp: bindR_Inr checked_Inr)

lemma encode_tenths_i16_between:
  assumes "tenths_between v lo hi" "\<bar>lo\<bar> \<le> 3000" "\<bar>hi\<bar> \<le> 3000"
  shows "encode_tenths_i16 name v = Inr (word_of_int (tenths_of v))"
proof -
  obtain a where a: "v = Finite a" "of_int lo \<le> a" "a \<le> of_int hi" and g: "on_tenths_grid v"
    using assms(1) by (auto simp: tenths_between_def)
  have "\<bar>of_int lo :: rat\<bar> \<le> 3000" "\<bar>of_int hi :: rat\<bar> \<le> 3000" using assms(2,3) by linarith+
  then have "\<bar>a\<bar> \<le> 3000" using a by linarith
  then show ?thesis using encode_tenths_i16_ok g a(1) by simp
qed

lemma encode_tenths_u8_wire:
  "wire_current_ok v \<Longrightarrow> encode_tenths_u8 name v = Inr (word_of_int (tenths_of v))"
  by (simp add: encode_tenths_u8_Inr wire_current_ok_def)

lemma encode_fields_ok:
  assumes "fan_ok (fan c)" "thresholds_ok (fault_thresholds_of c)"
    and "length (friendly_name c) \<le> 32" "64 \<le> length bytes"
  shows "encode_fields c bytes = Inr (encoded_fields c bytes)"
proof -
  have t: "encode_tenths_i16 n (temperature_min_c (fan c)) = Inr (word_of_int (tenths_of (temperature_min_c (fan c))))"
    "encode_tenths_i16 n (temperature_max_c (fan c)) = Inr (word_of_int (tenths_of (temperature_max_c (fan c))))"
    "encode_tenths_i16 n (limit_temperature_c (fault_thresholds_of c))
      = Inr (word_of_int (tenths_of (limit_temperature_c (fault_thresholds_of c))))"
    "encode_tenths_u8 n (limit_wire_current_a (fault_thresholds_of c))
      = Inr (word_of_int (tenths_of (limit_wire_current_a (fault_thresholds_of c))))" for n
    using assms unfolding fan_ok_def thresholds_ok_def
    by (auto intro: encode_tenths_i16_between encode_tenths_u8_wire)
  show ?thesis using assms(3,4) unfolding encode_fields_def encoded_fields_def Let_def
    by (simp add: t checked_in_range)
qed

lemma write_u16_updates:
  "off + 2 \<le> length bytes \<Longrightarrow>
     write_u16 bytes off v = bytes[off := ucast v, Suc off := ucast (drop_bit 8 v)]"
  by (rule nth_equalityI)
    (auto simp: write_u16_def nth_write_at u16_to_le_def nth_list_update nth_Cons' )

lemma write_u32_updates:
  "off + 4 \<le> length bytes \<Longrightarrow>
     write_u32 bytes off v = bytes[off := ucast v, off + 1 := ucast (drop_bit 8 v),
       off + 2 := ucast (drop_bit 16 v), off + 3 := ucast (drop_bit 24 v)]"
  by (rule nth_equalityI)
    (auto simp: write_u32_def nth_write_at u32_to_le_def nth_list_update nth_Cons' )

lemma slice_update_outside: "k < i \<or> j \<le> k \<Longrightarrow> slice i j (xs[k := x]) = slice i j xs"
proof (rule nth_equalityI)
  fix t assume "k < i \<or> j \<le> k" "t < length (slice i j (xs[k := x]))"
  then have "t < j - i" "i + t < length xs" "i + t \<noteq> k" by auto
  then show "slice i j (xs[k := x]) ! t = slice i j xs ! t" by (simp add: slice_def)
qed simp

lemma encoded_fields_reads:
  assumes "length (friendly_name c) \<le> 32" "64 \<le> length bytes"
  defines "b \<equiv> encoded_fields c bytes"
  shows "length b = length bytes"
    "read_u16 b 0 = crc c" "b ! 2 = raw_version c"
    "slice 3 35 b = bytes_of_string (friendly_name c) @ slice (3 + length (friendly_name c)) 35 bytes"
    "b ! 36 = word_of_nat (fan_mode_ordinal (fan_mode_of (fan c)))"
    "b ! 37 = word_of_nat (temperature_source_ordinal (temperature_source_of (fan c)))"
    "b ! 38 = duty_min_percent (fan c)" "b ! 39 = duty_max_percent (fan c)"
    "read_i16 b 40 = word_of_int (tenths_of (temperature_min_c (fan c)))"
    "read_i16 b 42 = word_of_int (tenths_of (temperature_max_c (fan c)))"
    "b ! 44 = backlight_percent c"
    "read_u16 b 46 = encode_faults (act_display (fault_actions_of c))"
    "read_u16 b 48 = encode_faults (act_buzzer (fault_actions_of c))"
    "read_u16 b 50 = encode_faults (act_soft_power (fault_actions_of c))"
    "read_u16 b 52 = encode_faults (act_hard_power (fault_actions_of c))"
    "read_i16 b 54 = word_of_int (tenths_of (limit_temperature_c (fault_thresholds_of c)))"
    "b ! 56 = limit_total_current_a (fault_thresholds_of c)"
    "b ! 57 = word_of_int (tenths_of (limit_wire_current_a (fault_thresholds_of c)))"
    "read_u16 b 58 = limit_total_power_w (fault_thresholds_of c)"
    "b ! 60 = current_imbalance_percent (fault_thresholds_of c)"
    "b ! 61 = current_imbalance_min_load_a (fault_thresholds_of c)"
    "b ! 62 = shutdown_wait_seconds c" "b ! 63 = logging_interval_seconds c"
proof -
  have sl: "slice 3 35 (write_at 3 (bytes_of_string (friendly_name c)) xs)
      = bytes_of_string (friendly_name c) @ slice (3 + length (friendly_name c)) 35 xs"
    if "64 \<le> length xs" for xs
    using assms(1) that by (simp add: slice_def write_at_def)
  have ne: "bytes \<noteq> []" using assms(2) by auto
  show "length b = length bytes"
    "read_u16 b 0 = crc c" "b ! 2 = raw_version c"
    "slice 3 35 b = bytes_of_string (friendly_name c) @ slice (3 + length (friendly_name c)) 35 bytes"
    "b ! 36 = word_of_nat (fan_mode_ordinal (fan_mode_of (fan c)))"
    "b ! 37 = word_of_nat (temperature_source_ordinal (temperature_source_of (fan c)))"
    "b ! 38 = duty_min_percent (fan c)" "b ! 39 = duty_max_percent (fan c)"
    "read_i16 b 40 = word_of_int (tenths_of (temperature_min_c (fan c)))"
    "read_i16 b 42 = word_of_int (tenths_of (temperature_max_c (fan c)))"
    "b ! 44 = backlight_percent c"
    "read_u16 b 46 = encode_faults (act_display (fault_actions_of c))"
    "read_u16 b 48 = encode_faults (act_buzzer (fault_actions_of c))"
    "read_u16 b 50 = encode_faults (act_soft_power (fault_actions_of c))"
    "read_u16 b 52 = encode_faults (act_hard_power (fault_actions_of c))"
    "read_i16 b 54 = word_of_int (tenths_of (limit_temperature_c (fault_thresholds_of c)))"
    "b ! 56 = limit_total_current_a (fault_thresholds_of c)"
    "b ! 57 = word_of_int (tenths_of (limit_wire_current_a (fault_thresholds_of c)))"
    "read_u16 b 58 = limit_total_power_w (fault_thresholds_of c)"
    "b ! 60 = current_imbalance_percent (fault_thresholds_of c)"
    "b ! 61 = current_imbalance_min_load_a (fault_thresholds_of c)"
    "b ! 62 = shutdown_wait_seconds c" "b ! 63 = logging_interval_seconds c"
    unfolding b_def encoded_fields_def Let_def read_u16_def read_i16_def
    using assms(1,2) ne
    by (simp_all add: write_u16_updates nth_write_at nth_list_update slice_update_outside sl
        u16_le_roundtrip)
qed

lemma printable_bytes:
  assumes "list_all is_printable s" "b \<in> set (bytes_of_string s)"
  shows "b \<noteq> 0" "b < 0x80"
proof -
  obtain ch where ch: "b = word_of_nat (of_char ch)" "is_printable ch"
    using assms by (auto simp: bytes_of_string_def list_all_iff)
  then have u: "unat b = of_char ch" "32 \<le> unat b" "unat b \<le> 126"
    by (auto simp: is_printable_def unat_of_nat)
  show "b \<noteq> 0" using u(2) by auto
  show "b < 0x80" using u(3) by (simp add: word_less_nat_alt)
qed

lemma decode_name_padded:
  assumes "list_all is_printable s"
  shows "decode_name (bytes_of_string s @ replicate k 0) = Inr s"
proof -
  have nz: "\<forall>b\<in>set (bytes_of_string s). b \<noteq> 0" using printable_bytes(1) [OF assms] by blast
  have "utf8_valid (bytes_of_string s)" using printable_bytes(2) [OF assms] by (blast intro: utf8_valid_ascii)
  moreover have "(case position (\<lambda>b. b = 0) (bytes_of_string s @ replicate k 0) of
      None \<Rightarrow> length (bytes_of_string s @ replicate k 0) | Some i \<Rightarrow> i) = length s"
  proof (cases k)
    case 0
    have "position (\<lambda>b. b = 0) (bytes_of_string s) = None" using nz by (simp add: position_None)
    with 0 show ?thesis by simp
  next
    case (Suc m)
    have "position (\<lambda>b. b = 0) (bytes_of_string s @ 0 # replicate m 0) = Some (length (bytes_of_string s))"
      using nz by (intro position_append_hit) auto
    with Suc show ?thesis by simp
  qed
  ultimately show ?thesis by (simp add: decode_name_def Let_def)
qed

lemma decode_fields_cong:
  assumes "take 64 xs = take 64 ys" and "64 \<le> length xs" and "64 \<le> length ys"
  shows "decode_fields v xs d a = decode_fields v ys d a"
proof -
  have n: "xs ! i = ys ! i" if "i < 64" for i using assms(1) that by (metis nth_take)
  have "slice 3 35 xs = slice 3 35 (take 64 xs)" for xs :: "u8 list"
    by (simp add: slice_def drop_take take_take)
  then have s: "slice 3 35 xs = slice 3 35 ys" using assms(1) by metis
  show ?thesis
    unfolding decode_fields_in_range [OF assms(2)] decode_fields_in_range [OF assms(3)] read_u16_def read_i16_def
    by (simp add: n s)
qed

lemma sint_tenths: "- 32768 \<le> k \<Longrightarrow> k \<le> 32767 \<Longrightarrow> sint (word_of_int k :: u16) = k"
  by (subst signed_of_int) (simp add: signed_take_bit_int_eq_self)

lemma uint_tenths: "0 \<le> k \<Longrightarrow> k \<le> 255 \<Longrightarrow> uint (word_of_int k :: u8) = k"
  by (subst unsigned_of_int) (simp add: take_bit_int_eq_self)

lemma decode_encoded_fields:
  assumes "settings_ok (settings_from_configuration c)"
    and "b = encoded_fields c (replicate n 0)" and "64 \<le> n" and "take 64 b' = take 64 b"
  shows "decode_fields (raw_version c) b' (canonical_display (display c)) (averaging_ms c)
    = Inr (canonical_configuration c)"
proof -
  have ok: "length (friendly_name c) \<le> 32" "list_all is_printable (friendly_name c)"
    "fan_ok (fan c)" "thresholds_ok (fault_thresholds_of c)"
    using assms(1) by (simp_all add: settings_ok_def settings_from_configuration_def)
  have len: "64 \<le> length (replicate n (0 :: u8))" using assms(3) by simp
  note reads = encoded_fields_reads [OF ok(1) len, folded assms(2)]
  have long: "64 \<le> length b" using reads(1) assms(3) by simp
  have "length (take 64 b') = length (take 64 b)" using assms(4) by simp
  then have long': "64 \<le> length b'" using long by simp
  have pad: "slice (3 + length (friendly_name c)) 35 (replicate n (0 :: u8))
      = replicate (32 - length (friendly_name c)) 0"
    using assms(3) ok(1) by (simp add: slice_def min_def)
  have bounds: "0 \<le> tenths_of (temperature_min_c (fan c))" "tenths_of (temperature_min_c (fan c)) \<le> 500"
    "0 \<le> tenths_of (temperature_max_c (fan c))" "tenths_of (temperature_max_c (fan c)) \<le> 1000"
    "0 \<le> tenths_of (limit_temperature_c (fault_thresholds_of c))"
    "tenths_of (limit_temperature_c (fault_thresholds_of c)) \<le> 1200"
    "0 \<le> tenths_of (limit_wire_current_a (fault_thresholds_of c))"
    "tenths_of (limit_wire_current_a (fault_thresholds_of c)) \<le> 255"
    using ok(3,4) tenths_between_bounds [of "temperature_min_c (fan c)" 0 50]
      tenths_between_bounds [of "temperature_max_c (fan c)" 50 100]
      tenths_between_bounds [of "limit_temperature_c (fault_thresholds_of c)" 0 120] wire_current_bounds
    by (simp_all add: fan_ok_def thresholds_ok_def)
  have signs: "sint (word_of_int (tenths_of (temperature_min_c (fan c))) :: u16) = tenths_of (temperature_min_c (fan c))"
    "sint (word_of_int (tenths_of (temperature_max_c (fan c))) :: u16) = tenths_of (temperature_max_c (fan c))"
    "sint (word_of_int (tenths_of (limit_temperature_c (fault_thresholds_of c))) :: u16)
      = tenths_of (limit_temperature_c (fault_thresholds_of c))"
    "uint (word_of_int (tenths_of (limit_wire_current_a (fault_thresholds_of c))) :: u8)
      = tenths_of (limit_wire_current_a (fault_thresholds_of c))"
    using bounds by (intro sint_tenths uint_tenths; linarith)+
  have "decode_fields (raw_version c) b' (canonical_display (display c)) (averaging_ms c)
      = decode_fields (raw_version c) b (canonical_display (display c)) (averaging_ms c)"
    using assms(4) long' long by (rule decode_fields_cong)
  also have "\<dots> = Inr (canonical_configuration c)"
    unfolding decode_fields_in_range [OF long]
    by (simp add: reads pad decode_name_padded [OF ok(2)] signs)
      (simp add: canonical_configuration_def canonical_fan_def canonical_actions_def
        canonical_thresholds_def canonical_tenths_def device_configuration.equality
        fan_configuration.equality fault_thresholds.equality)
  finally show ?thesis .
qed

lemma encode_legacy_display_ok:
  assumes "current_scale_a d \<in> {5, 10, 15, 20}" "rotation_degrees d \<in> {0, 180}"
    and "legacy_display_ok d" and "64 \<le> ui" and "ui + 8 \<le> length bytes"
  shows "\<exists>b. encode_legacy_display d ui bytes = Inr b \<and> length b = length bytes
    \<and> (\<forall>i < ui. b ! i = bytes ! i) \<and> decode_legacy_display b ui = Inr (canonical_display d)"
proof -
  obtain s r where s: "encode_current_scale (current_scale_a d) = Inr s" "decode_current_scale s = Inr (current_scale_a d)"
    and r: "encode_rotation (rotation_degrees d) = Inr r" "decode_rotation r = Inr (rotation_degrees d)"
    using encode_current_scale_ok [OF assms(1)] encode_rotation_ok [OF assms(2)] by blast
  show ?thesis
    using assms(3-5) unfolding encode_legacy_display_def
    by (auto simp: s r checked_in_range decode_legacy_display_in_range nth_list_update legacy_display_ok_def canonical_display_def)
qed

lemma encode_v3_display_ok:
  assumes "current_scale_a d \<in> {5, 10, 15, 20}" "rotation_degrees d \<in> {0, 180}"
    and "64 \<le> ui" and "ui + 27 \<le> length bytes"
  shows "\<exists>b. encode_v3_display d ui bytes = Inr b \<and> length b = length bytes
    \<and> (\<forall>i < ui. b ! i = bytes ! i) \<and> decode_v3_display b ui = Inr (canonical_display d)"
proof -
  obtain s r where s: "encode_current_scale (current_scale_a d) = Inr s" "decode_current_scale s = Inr (current_scale_a d)"
    and r: "encode_rotation (rotation_degrees d) = Inr r" "decode_rotation r = Inr (rotation_degrees d)"
    using encode_current_scale_ok [OF assms(1)] encode_rotation_ok [OF assms(2)] by blast
  show ?thesis
    using assms(3,4) unfolding encode_v3_display_def
    by (simp add: s r checked_in_range decode_v3_display_in_range read_u32_def nth_list_update write_u32_updates u32_le_roundtrip canonical_display_def)
qed

lemma configuration_size_cases:
  "v \<le> 2 \<Longrightarrow> v = (0 :: u8) \<or> v = 1 \<or> v = 2"
proof -
  assume "v \<le> 2"
  then have "unat v = 0 \<or> unat v = 1 \<or> unat v = 2" by (simp add: word_le_nat_alt) linarith
  then show ?thesis by (auto simp: word_eq_iff_unsigned [where ?'a = nat])
qed

text \<open>Encoding a valid configuration: the parts the decoder finds again.\<close>

lemma encode_configuration_ok:
  assumes "configuration_ok c"
  shows "\<exists>bs. encode_configuration c = Inr bs \<and> configuration_size (raw_version c) = Inr (length bs)
    \<and> decode_configuration (raw_version c) bs = Inr (canonical_configuration c)"
proof -
  let ?d = "display c" and ?v = "raw_version c"
  have s: "settings_ok (settings_from_configuration c)" and "?v \<le> 2"
    and avg0: "?v = 0 \<Longrightarrow> averaging_ms c = 1417" and leg: "?v < 2 \<Longrightarrow> legacy_display_ok ?d"
    using assms by (auto simp: configuration_ok_def)
  then have v: "?v = 0 \<or> ?v = 1 \<or> ?v = 2" by (intro configuration_size_cases)
  have ok: "length (friendly_name c) \<le> 32" "fan_ok (fan c)" "thresholds_ok (fault_thresholds_of c)"
    "current_scale_a ?d \<in> {5, 10, 15, 20}" "rotation_degrees ?d \<in> {0, 180}"
    "averaging_ms c \<in> {22, 44, 89, 177, 354, 709, 1417}"
    using s by (simp_all add: settings_ok_def settings_from_configuration_def)
  obtain n where n: "configuration_size ?v = Inr n" "72 \<le> n" and
    ui: "\<exists>ui. ui_offset ?v = Inr ui \<and> 64 \<le> ui \<and> (?v < 2 \<longrightarrow> ui + 8 \<le> n) \<and> (\<not> ?v < 2 \<longrightarrow> ui + 27 \<le> n)
      \<and> (?v \<noteq> 0 \<longrightarrow> 65 \<le> ui)"
    using v by (auto simp: configuration_size_def ui_offset_def CONFIG_V1_SIZE_def CONFIG_V2_SIZE_def
        CONFIG_V3_SIZE_def)
  then obtain ui where ui: "ui_offset ?v = Inr ui" "64 \<le> ui" "?v < 2 \<Longrightarrow> ui + 8 \<le> n"
    "\<not> ?v < 2 \<Longrightarrow> ui + 27 \<le> n" "?v \<noteq> 0 \<Longrightarrow> 65 \<le> ui" by auto
  obtain ordinal where ordinal: "encode_averaging (averaging_ms c) = Inr ordinal"
    "decode_averaging ordinal = Inr (averaging_ms c)"
    using encode_averaging_ok [OF ok(6)] by blast
  define b where "b = encoded_fields c (replicate n 0)"
  define b1 where "b1 = (if ?v = 0 then b else b[64 := ordinal])"
  have "64 \<le> length (replicate n (0 :: u8))" using n(2) by simp
  note reads = encoded_fields_reads [OF ok(1) this, folded b_def]
  have len1: "length b1 = n" using reads(1) by (simp add: b1_def)
  have "\<exists>b2. (if ?v < 2 then encode_legacy_display ?d ui b1 else encode_v3_display ?d ui b1) = Inr b2
    \<and> length b2 = n \<and> (\<forall>i < ui. b2 ! i = b1 ! i)
    \<and> (if ?v < 2 then decode_legacy_display b2 ui else decode_v3_display b2 ui) = Inr (canonical_display ?d)"
  proof (cases "?v < 2")
    case True
    then show ?thesis using encode_legacy_display_ok [OF ok(4,5) leg [OF True] ui(2), of b1] ui(3) len1 by auto
  next
    case False
    then show ?thesis using encode_v3_display_ok [OF ok(4,5) ui(2), of b1] ui(4) len1 by auto
  qed
  then obtain b2 where b2: "(if ?v < 2 then encode_legacy_display ?d ui b1 else encode_v3_display ?d ui b1) = Inr b2"
    "length b2 = n" "\<forall>i < ui. b2 ! i = b1 ! i"
    "(if ?v < 2 then decode_legacy_display b2 ui else decode_v3_display b2 ui) = Inr (canonical_display ?d)"
    by blast
  have agree: "take 64 b2 = take 64 b"
    by (rule nth_equalityI) (use b2(2,3) ui(2) len1 reads(1) in \<open>auto simp: b1_def\<close>)
  have store64: "store_at 64 x (encoded_fields c (replicate n 0)) = Inr ((encoded_fields c (replicate n 0))[64 := x])" for x
    using reads(1) n(2) by (simp add: checked_in_range b_def)
  have fields: "encode_fields c (replicate n 0) = Inr (encoded_fields c (replicate n 0))"
    using n(2) by (intro encode_fields_ok ok) simp
  have enc: "encode_configuration c = Inr b2"
    using b2(1) assms [folded configuration_validate_iff] unfolding encode_configuration_def
    by (simp add: n(1) fields ui(1) ordinal store64
        b1_def [unfolded b_def] cong: if_cong split: if_splits)
  have "b2 ! 2 = ?v" using b2(3) ui(2) reads(3) by (simp add: b1_def)
  moreover have "idx b2 2 = Inr (b2 ! 2)" using b2(2) n(2) by (simp add: checked_in_range)
  moreover have "(if ?v = 0 then Inr 1417 else bindR (idx b2 64) decode_averaging) = Inr (averaging_ms c)"
    using b2(2,3) ui(5) avg0 ordinal(2) n(2) reads(1) by (auto simp: b1_def checked_in_range)
  moreover have "decode_fields ?v b2 (canonical_display ?d) (averaging_ms c) = Inr (canonical_configuration c)"
    using s b_def _ agree by (rule decode_encoded_fields) (use n(2) in simp)
  moreover have "configuration_validate (canonical_configuration c) = Inr ()"
    using configuration_ok_canonical [OF assms] by (simp add: configuration_validate_iff)
  ultimately have "decode_configuration ?v b2 = Inr (canonical_configuration c)"
    unfolding decode_configuration_def using n(1) b2(2,4) ui(1) by simp
  then show ?thesis using enc n(1) b2(2) by blast
qed

lemma encode_configuration_Inr:
  "encode_configuration c = Inr bs \<Longrightarrow> configuration_ok c"
  unfolding encode_configuration_def by (auto simp: bindR_Inr configuration_validate_iff)

lemma sint_u16_bound: "\<bar>sint (w :: u16)\<bar> \<le> 40000"
  using sint_greater_eq [of w] sint_less [of w] by simp

lemma uint_u8_bound: "\<bar>uint (w :: u8)\<bar> \<le> 40000"
  using uint_bounded [of w] by simp

lemma canonical_decoded_tenths [simp]:
  "canonical_tenths (f64_tenths (sint (w :: u16))) = f64_tenths (sint w)"
  "canonical_tenths (f64_tenths (uint (v :: u8))) = f64_tenths (uint v)"
  unfolding canonical_tenths_def tenths_on_grid(2) [OF sint_u16_bound] tenths_on_grid(2) [OF uint_u8_bound]
  by (rule refl)+

lemma canonical_decoded_display:
  "decode_legacy_display bytes ui = Inr d \<Longrightarrow> canonical_display d = d"
  "decode_v3_display bytes ui = Inr d \<Longrightarrow> canonical_display d = d"
proof -
  assume d: "decode_legacy_display bytes ui = Inr d"
  show "canonical_display d = d"
    using d unfolding decode_legacy_display_in_range [OF decoders_in_range(1) [OF d]]
    by (auto simp: bindR_Inr canonical_display_def canonical_decoded_screens split: prod.splits)
next
  assume d: "decode_v3_display bytes ui = Inr d"
  show "canonical_display d = d"
    using d unfolding decode_v3_display_in_range [OF decoders_in_range(2) [OF d]]
    by (auto simp: bindR_Inr canonical_display_def canonical_decoded_screens)
qed

lemma decode_fields_canonical:
  assumes "decode_fields v bytes d a = Inr c" and "canonical_display d = d"
  shows "canonical_configuration c = c"
proof -
  note fields = decode_fields_in_range [OF decoders_in_range(3) [OF assms(1)]]
  from assms(1) obtain f1 f2 f3 f4 where f: "decode_fault_actions (read_u16 bytes 46) = Inr f1"
    "decode_fault_actions (read_u16 bytes 48) = Inr f2" "decode_fault_actions (read_u16 bytes 50) = Inr f3"
    "decode_fault_actions (read_u16 bytes 52) = Inr f4"
    by (auto simp: fields bindR_Inr)
  note can = f [THEN canonical_decoded_faults]
  obtain name fm src where
    c: "c = \<lparr>raw_version = v, crc = read_u16 bytes 0, friendly_name = name, backlight_percent = bytes ! 44,
        fan = \<lparr>fan_mode_of = fm, temperature_source_of = src,
          duty_min_percent = bytes ! 38, duty_max_percent = bytes ! 39,
          temperature_min_c = f64_tenths (sint (read_i16 bytes 40)),
          temperature_max_c = f64_tenths (sint (read_i16 bytes 42))\<rparr>,
        fault_actions_of = \<lparr>act_display = f1, act_buzzer = f2, act_soft_power = f3, act_hard_power = f4\<rparr>,
        fault_thresholds_of = \<lparr>limit_temperature_c = f64_tenths (sint (read_i16 bytes 54)),
          limit_total_current_a = bytes ! 56,
          limit_wire_current_a = f64_tenths (uint (bytes ! 57)),
          limit_total_power_w = read_u16 bytes 58,
          current_imbalance_percent = bytes ! 60,
          current_imbalance_min_load_a = bytes ! 61\<rparr>,
        shutdown_wait_seconds = bytes ! 62, logging_interval_seconds = bytes ! 63,
        averaging_ms = a, display = d\<rparr>"
    using f assms(1) by (auto simp: fields bindR_Inr)
  show ?thesis
    unfolding c canonical_configuration_def canonical_fan_def canonical_actions_def canonical_thresholds_def
    by (simp add: can assms(2))
qed

lemma decode_configuration_Inr:
  assumes "decode_configuration v bytes = Inr c"
  shows "raw_version c = v" "configuration_ok c" "canonical_configuration c = c"
    "configuration_size v = Inr (length bytes)"
proof -
  define D where "D ui = (if v < 2 then decode_legacy_display bytes ui else decode_v3_display bytes ui)" for ui
  define A where "A = (if v = 0 then Inr 1417 else bindR (idx bytes 64) decode_averaging)"
  from assms obtain ui d a where size: "configuration_size v = Inr (length bytes)"
    and d: "D ui = Inr d"
    and c: "decode_fields v bytes d a = Inr c" and ok: "configuration_validate c = Inr ()"
    unfolding decode_configuration_def D_def [symmetric] A_def [symmetric]
    by (auto simp: bindR_Inr split: if_splits)
  show "configuration_size v = Inr (length bytes)" by (rule size)
  show "configuration_ok c" using ok by (simp add: configuration_validate_iff)
  show "raw_version c = v"
    using c by (auto simp: decode_fields_in_range [OF decoders_in_range(3) [OF c]] bindR_Inr)
  have "canonical_display d = d" using d canonical_decoded_display by (auto simp: D_def split: if_splits)
  with c show "canonical_configuration c = c" by (rule decode_fields_canonical)
qed

lemma first_error_panic_free: "(\<forall>r\<in>set rs. panic_free r) \<Longrightarrow> panic_free (first_error rs)"
  by (induction rs) (auto intro: panic_free_bindR)

lemma panic_free_failIf [simp]: "panic_free (failIf b (InvalidArgument m))"
  by (simp add: failIf_def)

lemma panic_free_ok_or [simp]:
  "panic_free (ok_or (InvalidArgument m) x)" "panic_free (ok_or (Transport m) x)"
  by (cases x; simp)+

lemma panic_free_mapR [simp]: "panic_free (mapR f r) \<longleftrightarrow> panic_free r"
  by (cases r) (auto simp: panic_free_Inl)

lemma panic_free_unknown [simp]: "panic_free (unknown n v)"
  by (simp add: unknown_def)

lemma encode_tenths_u8_panic_free [simp]: "panic_free (encode_tenths_u8 name v)"
proof (cases "\<exists>w. encode_tenths_u8 name v = Inr w")
  case False
  then have "\<not> (on_tenths_grid v \<and> \<not> f64_less (f64_mul v (f64_lit 10)) (Finite 0)
     \<and> \<not> f64_less (Finite 255) (f64_mul v (f64_lit 10)))"
    by (auto simp: encode_tenths_u8_Inr)
  then show ?thesis
    using f64_of_int_small [of 0] f64_of_int_small [of 255]
    by (auto simp: encode_tenths_u8_def encode_scaled_def Let_def on_tenths_grid_def)
qed auto

lemma validate_panic_free [simp]: "panic_free (configuration_validate c)" "panic_free (settings_validate s)"
proof -
  show sp: "panic_free (settings_validate s)" for s
    unfolding settings_validate_def Let_def
    by (rule first_error_panic_free)
      (simp add: percent_def validate_faults_def validate_tenths_range_def Let_def)
  have "panic_free (validate_version_specific_fields c)"
    by (simp add: validate_version_specific_fields_def split: prod.splits)
  then show "panic_free (configuration_validate c)"
    unfolding configuration_validate_def by (intro first_error_panic_free) (simp add: sp)
qed

lemma decode_masks_panic_free [simp]:
  "panic_free (decode_fault_actions m)" "panic_free (decode_screens sm)"
  by (simp_all add: decode_fault_actions_def decode_screens_def collect_faults collect_screens)

lemma decode_ordinals_panic_free [simp]:
  "panic_free (decode_fan_mode v)" "panic_free (decode_temperature_source v)"
  "panic_free (decode_current_scale v)" "panic_free (decode_power_scale v)"
  "panic_free (decode_rotation v)" "panic_free (decode_timeout_mode v)" "panic_free (decode_screen v)"
  "panic_free (decode_averaging v)" "panic_free (decode_background v)" "panic_free (decode_fan_theme v)"
  "panic_free (decode_inverted v)" "panic_free (decode_name bytes)"
  by (simp_all add: decode_fan_mode_def decode_temperature_source_def decode_current_scale_def
      decode_power_scale_def decode_rotation_def decode_timeout_mode_def decode_screen_def
      decode_averaging_def decode_background_def decode_fan_theme_def decode_inverted_def decode_name_def
      Let_def)

section \<open>The codecs as interfaces\<close>

interpretation background_codec: ordinal_codec encode_background decode_background
  by unfold_locales (simp, auto simp: decode_background_def unknown_def split: if_splits)

interpretation fan_theme_codec: ordinal_codec encode_fan_theme decode_fan_theme
  by unfold_locales (simp, auto simp: decode_fan_theme_def unknown_def split: if_splits)

interpretation fan_mode_codec: ordinal_codec "\<lambda>m. word_of_nat (fan_mode_ordinal m)" decode_fan_mode
  by unfold_locales (simp, auto simp: decode_fan_mode_def unknown_def split: if_splits)

interpretation temperature_source_codec:
  ordinal_codec "\<lambda>m. word_of_nat (temperature_source_ordinal m)" decode_temperature_source
  by unfold_locales (simp, auto simp: decode_temperature_source_def unknown_def split: if_splits)

interpretation config_screen_codec:
  ordinal_codec "\<lambda>m. word_of_nat (config_screen_ordinal m)" decode_screen
  by unfold_locales (simp, auto simp: decode_screen_def unknown_def split: if_splits)

interpretation timeout_mode_codec:
  ordinal_codec "\<lambda>m. word_of_nat (timeout_mode_ordinal m)" decode_timeout_mode
  by unfold_locales (simp, auto simp: decode_timeout_mode_def unknown_def split: if_splits)

interpretation power_scale_codec:
  ordinal_codec "\<lambda>m. word_of_nat (power_scale_ordinal m)" decode_power_scale
  by unfold_locales (simp, auto simp: decode_power_scale_def unknown_def split: if_splits)

interpretation configuration_codec:
  normalising_codec encode_configuration "decode_configuration v" canonical_configuration
    "\<lambda>c. configuration_ok c \<and> raw_version c = v" for v
  by unfold_locales (use encode_configuration_ok decode_configuration_Inr in blast)+

section \<open>Examples\<close>

lemma f64_lit_tenths: "f64_lit (of_int k / 10) = f64_tenths k" if "\<bar>k\<bar> \<le> 1000000000000000"
  using that by (simp add: f64_tenths_def f64_of_int_small f64_lit_def)

lemma mock_tenths: "f64_lit 50 = f64_tenths 500" "f64_lit 80 = f64_tenths 800"
  "f64_lit (21 / 2) = f64_tenths 105"
  using f64_lit_tenths [of 500] f64_lit_tenths [of 800] f64_lit_tenths [of 105] by simp_all

lemma tenths_between_tenths:
  assumes "10 * lo \<le> k" "k \<le> 10 * hi" "\<bar>lo\<bar> \<le> 3000" "\<bar>hi\<bar> \<le> 3000"
  shows "tenths_between (f64_tenths k) lo hi"
proof -
  have "validate_tenths_range [] (f64_tenths k) lo hi = Inr ()"
    using assms by (intro validate_tenths_range_canonical) auto
  then show ?thesis using assms(3,4) by (simp add: validate_tenths_between)
qed

lemma configuration_mock_ok: "configuration_ok configuration_mock"
proof -
  have wire: "wire_current_ok (f64_tenths 105)"
    using encode_tenths_u8_canonical [of 105 "[]"] by (auto simp: encode_tenths_u8_Inr wire_current_ok_def)
  have "fan_ok (fan configuration_mock)" "thresholds_ok (fault_thresholds_of configuration_mock)"
    unfolding fan_ok_def thresholds_ok_def
    by (simp_all add: configuration_mock_def mock_tenths tenths_between_tenths wire)
  moreover have "list_all is_printable ''Mock WireView''" by code_simp
  ultimately show ?thesis
    by (simp add: configuration_ok_def settings_ok_def settings_from_configuration_def configuration_mock_def)
qed

section \<open>Colour strings\<close>

lemma hex_value_upper: "d < 16 \<Longrightarrow> hex_value (hex_upper d) = Some d"
proof -
  have "\<forall>d \<in> set [0..<16]. hex_value (hex_upper d) = Some d" by code_simp
  then show "d < 16 \<Longrightarrow> hex_value (hex_upper d) = Some d" by simp
qed

lemma from_hex_snoc: "from_hex (s @ [ch]) = from_hex s * 16 + (case hex_value ch of None \<Rightarrow> 0 | Some d \<Rightarrow> d)"
  by (simp add: from_hex_def)

lemma from_hex_digits: "from_hex (hex_digits hex_upper k n) = n mod 16 ^ k"
proof (induction k arbitrary: n)
  case 0
  then show ?case by (simp add: from_hex_def)
next
  case (Suc k)
  have "from_hex (hex_digits hex_upper (Suc k) n) = (n div 16) mod 16 ^ k * 16 + n mod 16"
    by (simp add: from_hex_snoc Suc hex_value_upper)
  also have "\<dots> = n mod (16 * 16 ^ k)" by (simp add: mod_mult2_eq)
  finally show ?case by simp
qed

lemma hex_digits_valid: "\<forall>ch\<in>set (hex_digits hex_upper k n). hex_value ch \<noteq> None"
  by (induction k arbitrary: n) (auto simp: hex_value_upper)

lemma opaque_colour:
  assumes "(w :: u32) AND 0xff000000 = 0xff000000"
  shows "0xff000000 OR (w AND 0x00ffffff) = w"
proof -
  have "0xff000000 OR (w AND 0x00ffffff) = (w AND 0xff000000) OR (w AND 0x00ffffff)" by (simp add: assms)
  also have "\<dots> = w AND (0xff000000 OR 0x00ffffff)" by (simp only: and.left_commute bit.conj_disj_distrib)
  also have "(0xff000000 OR 0x00ffffff :: u32) = - 1" by simp
  finally show ?thesis by simp
qed

lemma argb_roundtrip: "argb_deserialize (argb_serialize w) = Inr w"
proof (cases "w AND 0xff000000 = 0xff000000")
  case True
  have "w AND 0x00ffffff \<le> 0x00ffffff" by (rule word_and_le1)
  then have "unat (w AND 0x00ffffff) < 16 ^ 6" by (simp add: word_le_nat_alt)
  then show ?thesis
    using True hex_digits_valid
    by (simp add: argb_serialize_def argb_deserialize_def from_hex_digits list_ex_iff Let_def opaque_colour)
next
  case False
  have "unat w < 2 ^ LENGTH(32)" by (rule unsigned_less)
  then have "unat w < 16 ^ 8" by simp
  then show ?thesis
    using False hex_digits_valid
    by (simp add: argb_serialize_def argb_deserialize_def from_hex_digits list_ex_iff Let_def)
qed
section \<open>Properties\<close>

text \<open>C28: validation accepts exactly the configurations the declarative description allows: a
  printable name of at most 32 bytes, ordered fan duties within 100 percent, temperatures
  with one decimal place in their ranges, thresholds in range, action and screen lists
  without duplicates (the code compares a mask's population count with the list's length),
  the listed scale, rotation and averaging values and, on V1 and V2 devices, the fixed
  averaging, default screen and theme.\<close>

theorem configuration_validate_spec:
  "configuration_validate c = Inr () \<longleftrightarrow> configuration_ok c"
  by (rule configuration_validate_iff)

text \<open>C30: encoding succeeds on exactly the valid configurations and then fills a payload of exactly
  the size of the configuration's protocol version.\<close>

theorem encode_configuration_total:
  "case encode_configuration c of
     Inl e \<Rightarrow> \<not> configuration_ok c
   | Inr bytes \<Rightarrow> configuration_ok c \<and> configuration_size (raw_version c) = Inr (length bytes)"
proof (cases "encode_configuration c")
  case (Inl e)
  then show ?thesis using encode_configuration_ok [of c] by auto
next
  case (Inr bytes)
  then show ?thesis using encode_configuration_Inr [OF Inr] encode_configuration_ok [of c] by auto
qed

text \<open>C4: decoding an encoded configuration gives its canonical form: every field back, the fault and
  screen lists in ordinal order, the decimal values on the device's grid of tenths.\<close>

theorem decode_encode_configuration:
  assumes "encode_configuration c = Inr bytes"
  shows "decode_configuration (raw_version c) bytes = Inr (canonical_configuration c)"
  using configuration_codec.encode_decode [of c "raw_version c" bytes] encode_configuration_Inr [OF assms]
    assms by simp

theorem decode_encode_configuration_witness:
  "\<exists>bytes. encode_configuration configuration_mock = Inr bytes
     \<and> decode_configuration 2 bytes = Inr (canonical_configuration configuration_mock)"
proof -
  obtain bytes where "encode_configuration configuration_mock = Inr bytes"
    using encode_configuration_ok [OF configuration_mock_ok] by blast
  then show ?thesis using decode_encode_configuration [of configuration_mock bytes]
    by (simp add: configuration_mock_def)
qed

text \<open>C29: whatever the decoder accepts can be written back: its configuration is valid, encodes to a
  payload of the same size, and that payload decodes to the same configuration.\<close>

theorem configuration_write_back:
  assumes "decode_configuration v bytes = Inr c"
  shows "\<exists>bytes'. encode_configuration c = Inr bytes' \<and> length bytes' = length bytes
    \<and> decode_configuration v bytes' = Inr c"
proof -
  obtain bytes' where b: "encode_configuration c = Inr bytes'" "decode_configuration v bytes' = Inr c"
    using configuration_codec.write_back [OF assms] by blast
  then show ?thesis
    using decode_configuration_Inr(4) [OF assms] decode_configuration_Inr(4) [OF b(2)] by auto
qed

theorem configuration_write_back_witness:
  "\<exists>bytes bytes'. decode_configuration 2 bytes = Inr (canonical_configuration configuration_mock)
     \<and> decode_configuration 2 bytes' = Inr (canonical_configuration configuration_mock)
     \<and> length bytes' = length bytes"
proof -
  obtain bytes where "decode_configuration 2 bytes = Inr (canonical_configuration configuration_mock)"
    using encode_configuration_ok [OF configuration_mock_ok] by (auto simp: configuration_mock_def)
  then show ?thesis using configuration_write_back [of 2 bytes] by blast
qed

lemma decode_configuration_no_panic: "panic_free (decode_configuration v bytes)"
proof (cases "configuration_size v = Inr (length bytes)")
  case False
  then show ?thesis
    unfolding decode_configuration_def by (intro panic_free_bindR) (auto simp: configuration_size_def)
next
  case True
  then obtain ui where ui: "ui_offset v = Inr ui" "64 \<le> length bytes" "2 < length bytes"
    "v < 2 \<Longrightarrow> ui + 8 \<le> length bytes" "\<not> v < 2 \<Longrightarrow> ui + 27 \<le> length bytes" "v \<noteq> 0 \<Longrightarrow> 64 < length bytes"
    by (auto simp: configuration_size_def ui_offset_def CONFIG_V1_SIZE_def CONFIG_V2_SIZE_def
        CONFIG_V3_SIZE_def split: if_splits)
  have "panic_free (decode_legacy_display bytes ui)" if "v < 2"
    unfolding decode_legacy_display_in_range [OF ui(4) [OF that]] Let_def
    by (auto intro!: panic_free_bindR split: prod.splits)
  moreover have "panic_free (decode_v3_display bytes ui)" if "\<not> v < 2"
    unfolding decode_v3_display_in_range [OF ui(5) [OF that]] by (auto intro!: panic_free_bindR)
  moreover have "panic_free (decode_fields v bytes disp averaging)" for disp averaging
    unfolding decode_fields_in_range [OF ui(2)] by (auto intro!: panic_free_bindR)
  moreover have "v \<noteq> 0 \<Longrightarrow> panic_free (idx bytes 64)" using ui(6) by (simp add: checked_in_range)
  ultimately show ?thesis
    unfolding decode_configuration_def using True ui(1,3)
    by (auto simp: checked_in_range intro!: panic_free_bindR)
qed


text \<open>A colour printed for the configuration document parses back to the same ARGB word, whether it
  was printed as six digits (opaque) or eight.\<close>

theorem argb_deserialize_serialize: "argb_deserialize (argb_serialize w) = Inr w"
  by (rule argb_roundtrip)

end
