(* ===== verification/Items.thy ===== *)
theory Items
  imports Config "HOL-Library.AList"
begin

text \<open>
  The editable configuration document of \<open>crates/wireview-core/src/config.rs\<close>: the settings as
  a JSON value, reading and changing one dotted-path item, and parsing the document back. The
  shape of the document is the derived \<open>Serialize\<close> and \<open>Deserialize\<close> of the structs (field names,
  snake case enum names, unknown and duplicate fields rejected). The JSON text syntax is
  third-party code: the record \<open>json_text\<close> holds its printer, its parser and the text of the
  deserializer's complaints, and is a parameter of every definition that needs it.
\<close>

section \<open>JSON values\<close>

text \<open>\<open>serde_json::Value\<close>; a number is a \<open>u64\<close>, a negative \<open>i64\<close> or an \<open>f64\<close>.\<close>

datatype json_number = PosInt u64 | NegInt int | FloatNumber f64

datatype json =
    JNull
  | JBool bool
  | JNumber json_number
  | JString string
  | JArray "json list"
  | JObject "(string \<times> json) list"

record json_text =
  json_print :: "json \<Rightarrow> string"
  json_parse :: "string \<Rightarrow> string + json"
  json_complaint :: "json \<Rightarrow> string"

fun is_object :: "json \<Rightarrow> bool" where
  "is_object (JObject obj) = True"
| "is_object _ = False"

fun is_number :: "json \<Rightarrow> bool" where
  "is_number (JNumber n) = True"
| "is_number _ = False"

section \<open>Enum names\<close>

fun fan_mode_name :: "fan_mode \<Rightarrow> string" where
  "fan_mode_name Curve = ''curve''"
| "fan_mode_name Fixed = ''fixed''"

definition fan_mode_of_name :: "string \<Rightarrow> fan_mode option" where
  "fan_mode_of_name s = List.find (\<lambda>x. fan_mode_name x = s)
     [Curve, Fixed]"

fun temperature_source_name :: "temperature_source \<Rightarrow> string" where
  "temperature_source_name SourceInput = ''input''"
| "temperature_source_name SourceOutput = ''output''"
| "temperature_source_name SourceExternal1 = ''external1''"
| "temperature_source_name SourceExternal2 = ''external2''"
| "temperature_source_name SourceMaximum = ''maximum''"

definition temperature_source_of_name :: "string \<Rightarrow> temperature_source option" where
  "temperature_source_of_name s = List.find (\<lambda>x. temperature_source_name x = s)
     [SourceInput, SourceOutput, SourceExternal1, SourceExternal2, SourceMaximum]"

fun fault_name :: "fault_kind \<Rightarrow> string" where
  "fault_name ChipOverTemperature = ''chip_over_temperature''"
| "fault_name SensorOverTemperature = ''sensor_over_temperature''"
| "fault_name OverCurrent = ''over_current''"
| "fault_name WireOverCurrent = ''wire_over_current''"
| "fault_name OverPower = ''over_power''"
| "fault_name CurrentImbalance = ''current_imbalance''"

definition fault_of_name :: "string \<Rightarrow> fault_kind option" where
  "fault_of_name s = List.find (\<lambda>x. fault_name x = s)
     [ChipOverTemperature, SensorOverTemperature, OverCurrent, WireOverCurrent, OverPower, CurrentImbalance]"

fun config_screen_name :: "config_screen \<Rightarrow> string" where
  "config_screen_name ConfigMain = ''main''"
| "config_screen_name ConfigSimple = ''simple''"
| "config_screen_name ConfigCurrent = ''current''"
| "config_screen_name ConfigTemperature = ''temperature''"
| "config_screen_name ConfigStatus = ''status''"

definition config_screen_of_name :: "string \<Rightarrow> config_screen option" where
  "config_screen_of_name s = List.find (\<lambda>x. config_screen_name x = s)
     [ConfigMain, ConfigSimple, ConfigCurrent, ConfigTemperature, ConfigStatus]"

fun timeout_mode_name :: "timeout_mode \<Rightarrow> string" where
  "timeout_mode_name TimeoutStatic = ''static''"
| "timeout_mode_name TimeoutCycle = ''cycle''"
| "timeout_mode_name TimeoutSleep = ''sleep''"

definition timeout_mode_of_name :: "string \<Rightarrow> timeout_mode option" where
  "timeout_mode_of_name s = List.find (\<lambda>x. timeout_mode_name x = s)
     [TimeoutStatic, TimeoutCycle, TimeoutSleep]"

fun power_scale_name :: "power_scale \<Rightarrow> string" where
  "power_scale_name ScaleAuto = ''auto''"
| "power_scale_name Watts300 = ''watts300''"
| "power_scale_name Watts600 = ''watts600''"

definition power_scale_of_name :: "string \<Rightarrow> power_scale option" where
  "power_scale_of_name s = List.find (\<lambda>x. power_scale_name x = s)
     [ScaleAuto, Watts300, Watts600]"

fun background_name :: "background \<Rightarrow> string" where
  "background_name BackgroundThermalOrange = ''thermal_grizzly_orange''"
| "background_name BackgroundThermalDark = ''thermal_grizzly_dark''"
| "background_name BackgroundDisabled = ''disabled''"

definition background_of_name :: "string \<Rightarrow> background option" where
  "background_of_name s = List.find (\<lambda>x. background_name x = s)
     [BackgroundThermalOrange, BackgroundThermalDark, BackgroundDisabled]"

fun fan_theme_name :: "fan_theme \<Rightarrow> string" where
  "fan_theme_name FanThermalOrange = ''thermal_grizzly_orange''"
| "fan_theme_name FanThermalDark = ''thermal_grizzly_dark''"
| "fan_theme_name FanBlackAndWhite = ''black_and_white''"

definition fan_theme_of_name :: "string \<Rightarrow> fan_theme option" where
  "fan_theme_of_name s = List.find (\<lambda>x. fan_theme_name x = s)
     [FanThermalOrange, FanThermalDark, FanBlackAndWhite]"

section \<open>Serializing\<close>

definition json_u8 :: "u8 \<Rightarrow> json" where
  "json_u8 v = JNumber (PosInt (ucast v))"

definition json_u16 :: "u16 \<Rightarrow> json" where
  "json_u16 v = JNumber (PosInt (ucast v))"

text \<open>A float that is not finite becomes null.\<close>

definition json_f64 :: "f64 \<Rightarrow> json" where
  "json_f64 v = (if f64_is_finite v then JNumber (FloatNumber v) else JNull)"

definition fan_fields :: "string list" where
  "fan_fields = [''mode'', ''temperature_source'', ''duty_min_percent'', ''duty_max_percent'',
     ''temperature_min_c'', ''temperature_max_c'']"

definition fan_to_json :: "fan_configuration \<Rightarrow> json" where
  "fan_to_json r = JObject
     [(''mode'', JString (fan_mode_name (fan_mode_of r))),
      (''temperature_source'', JString (temperature_source_name (temperature_source_of r))),
      (''duty_min_percent'', json_u8 (duty_min_percent r)),
      (''duty_max_percent'', json_u8 (duty_max_percent r)),
      (''temperature_min_c'', json_f64 (temperature_min_c r)),
      (''temperature_max_c'', json_f64 (temperature_max_c r))]"

definition actions_fields :: "string list" where
  "actions_fields = [''display'', ''buzzer'', ''soft_power'', ''hard_power'']"

definition actions_to_json :: "fault_actions \<Rightarrow> json" where
  "actions_to_json r = JObject
     [(''display'', JArray (map (\<lambda>x. JString (fault_name x)) (act_display r))),
      (''buzzer'', JArray (map (\<lambda>x. JString (fault_name x)) (act_buzzer r))),
      (''soft_power'', JArray (map (\<lambda>x. JString (fault_name x)) (act_soft_power r))),
      (''hard_power'', JArray (map (\<lambda>x. JString (fault_name x)) (act_hard_power r)))]"

definition thresholds_fields :: "string list" where
  "thresholds_fields = [''temperature_c'', ''total_current_a'', ''wire_current_a'', ''total_power_w'',
     ''current_imbalance_percent'', ''current_imbalance_min_load_a'']"

definition thresholds_to_json :: "fault_thresholds \<Rightarrow> json" where
  "thresholds_to_json r = JObject
     [(''temperature_c'', json_f64 (limit_temperature_c r)),
      (''total_current_a'', json_u8 (limit_total_current_a r)),
      (''wire_current_a'', json_f64 (limit_wire_current_a r)),
      (''total_power_w'', json_u16 (limit_total_power_w r)),
      (''current_imbalance_percent'', json_u8 (current_imbalance_percent r)),
      (''current_imbalance_min_load_a'', json_u8 (current_imbalance_min_load_a r))]"

definition display_fields :: "string list" where
  "display_fields = [''default_screen'', ''current_scale_a'', ''power_scale'', ''rotation_degrees'',
     ''timeout_mode'', ''cycle_screens'', ''cycle_time_seconds'', ''timeout_seconds'',
     ''primary_color'', ''secondary_color'', ''highlight_color'', ''background_color'',
     ''background'', ''fan_theme'', ''inverted'']"

definition display_to_json :: "display_configuration \<Rightarrow> json" where
  "display_to_json r = JObject
     [(''default_screen'', JString (config_screen_name (default_screen r))),
      (''current_scale_a'', json_u8 (current_scale_a r)),
      (''power_scale'', JString (power_scale_name (power_scale_of r))),
      (''rotation_degrees'', json_u16 (rotation_degrees r)),
      (''timeout_mode'', JString (timeout_mode_name (timeout_mode_of r))),
      (''cycle_screens'', JArray (map (\<lambda>x. JString (config_screen_name x)) (cycle_screens r))),
      (''cycle_time_seconds'', json_u8 (cycle_time_seconds r)),
      (''timeout_seconds'', json_u8 (timeout_seconds r)),
      (''primary_color'', JString (argb_serialize (primary_color r))),
      (''secondary_color'', JString (argb_serialize (secondary_color r))),
      (''highlight_color'', JString (argb_serialize (highlight_color r))),
      (''background_color'', JString (argb_serialize (background_color r))),
      (''background'', JString (background_name (background_of r))),
      (''fan_theme'', JString (fan_theme_name (fan_theme_of r))),
      (''inverted'', JBool (inverted r))]"

definition settings_fields :: "string list" where
  "settings_fields = [''friendly_name'', ''backlight_percent'', ''fan'', ''fault_actions'',
     ''fault_thresholds'', ''shutdown_wait_seconds'', ''logging_interval_seconds'', ''averaging_ms'',
     ''display'']"

definition settings_to_json :: "device_settings \<Rightarrow> json" where
  "settings_to_json r = JObject
     [(''friendly_name'', JString (set_friendly_name r)),
      (''backlight_percent'', json_u8 (set_backlight_percent r)),
      (''fan'', fan_to_json (set_fan r)),
      (''fault_actions'', actions_to_json (set_fault_actions r)),
      (''fault_thresholds'', thresholds_to_json (set_fault_thresholds r)),
      (''shutdown_wait_seconds'', json_u8 (set_shutdown_wait_seconds r)),
      (''logging_interval_seconds'', json_u8 (set_logging_interval_seconds r)),
      (''averaging_ms'', json_u16 (set_averaging_ms r)),
      (''display'', display_to_json (set_display r))]"

section \<open>Deserializing\<close>

text \<open>
  A struct is read from an object with exactly its fields, each once, or from an array with one
  value per field; the result lists the values in field order.
\<close>

definition struct_fields :: "string list \<Rightarrow> json \<Rightarrow> json list option" where
  "struct_fields names v = (case v of
       JObject obj \<Rightarrow>
         if distinct (map fst obj) \<and> set (map fst obj) = set names
         then Some (map (\<lambda>n. the (map_of obj n)) names) else None
     | JArray vs \<Rightarrow> if length vs = length names then Some vs else None
     | _ \<Rightarrow> None)"

fun int_of_json :: "json \<Rightarrow> nat option" where
  "int_of_json (JNumber (PosInt n)) = Some (unat n)"
| "int_of_json _ = None"

definition u8_of_json :: "json \<Rightarrow> u8 option" where
  "u8_of_json v = Option.bind (int_of_json v) (\<lambda>n. if n < 256 then Some (word_of_nat n) else None)"

definition u16_of_json :: "json \<Rightarrow> u16 option" where
  "u16_of_json v = Option.bind (int_of_json v) (\<lambda>n. if n < 65536 then Some (word_of_nat n) else None)"

fun f64_of_json :: "json \<Rightarrow> f64 option" where
  "f64_of_json (JNumber (PosInt n)) = Some (f64_of_int (uint n))"
| "f64_of_json (JNumber (NegInt i)) = Some (f64_of_int i)"
| "f64_of_json (JNumber (FloatNumber v)) = Some v"
| "f64_of_json _ = None"

fun bool_of_json :: "json \<Rightarrow> bool option" where
  "bool_of_json (JBool b) = Some b"
| "bool_of_json _ = None"

fun string_of_json :: "json \<Rightarrow> string option" where
  "string_of_json (JString s) = Some s"
| "string_of_json _ = None"

text \<open>A unit variant is its name, or an object from its name to null.\<close>

fun variant_of_json :: "json \<Rightarrow> string option" where
  "variant_of_json (JString s) = Some s"
| "variant_of_json (JObject [(s, JNull)]) = Some s"
| "variant_of_json _ = None"

definition enum_of_json :: "(string \<Rightarrow> 'a option) \<Rightarrow> json \<Rightarrow> 'a option" where
  "enum_of_json of_name v = Option.bind (variant_of_json v) of_name"

fun collect_options :: "'a option list \<Rightarrow> 'a list option" where
  "collect_options [] = Some []"
| "collect_options (None # rest) = None"
| "collect_options (Some x # rest) = map_option ((#) x) (collect_options rest)"

definition list_of_json :: "(json \<Rightarrow> 'a option) \<Rightarrow> json \<Rightarrow> 'a list option" where
  "list_of_json of_json v = (case v of JArray vs \<Rightarrow> collect_options (map of_json vs) | _ \<Rightarrow> None)"

definition argb_of_json :: "json \<Rightarrow> u32 option" where
  "argb_of_json v = Option.bind (string_of_json v)
     (\<lambda>s. case argb_deserialize s of Inl _ \<Rightarrow> None | Inr w \<Rightarrow> Some w)"

definition fan_of_json :: "json \<Rightarrow> fan_configuration option" where
  "fan_of_json v =
     Option.bind (struct_fields fan_fields v) (\<lambda>vs.
     Option.bind (enum_of_json fan_mode_of_name (vs ! 0)) (\<lambda>x0.
     Option.bind (enum_of_json temperature_source_of_name (vs ! 1)) (\<lambda>x1.
     Option.bind (u8_of_json (vs ! 2)) (\<lambda>x2.
     Option.bind (u8_of_json (vs ! 3)) (\<lambda>x3.
     Option.bind (f64_of_json (vs ! 4)) (\<lambda>x4.
     Option.bind (f64_of_json (vs ! 5)) (\<lambda>x5.
       Some \<lparr>fan_mode_of = x0, temperature_source_of = x1,
             duty_min_percent = x2, duty_max_percent = x3,
             temperature_min_c = x4, temperature_max_c = x5\<rparr>)))))))"

definition actions_of_json :: "json \<Rightarrow> fault_actions option" where
  "actions_of_json v =
     Option.bind (struct_fields actions_fields v) (\<lambda>vs.
     Option.bind (list_of_json (enum_of_json fault_of_name) (vs ! 0)) (\<lambda>x0.
     Option.bind (list_of_json (enum_of_json fault_of_name) (vs ! 1)) (\<lambda>x1.
     Option.bind (list_of_json (enum_of_json fault_of_name) (vs ! 2)) (\<lambda>x2.
     Option.bind (list_of_json (enum_of_json fault_of_name) (vs ! 3)) (\<lambda>x3.
       Some \<lparr>act_display = x0, act_buzzer = x1,
             act_soft_power = x2, act_hard_power = x3\<rparr>)))))"

definition thresholds_of_json :: "json \<Rightarrow> fault_thresholds option" where
  "thresholds_of_json v =
     Option.bind (struct_fields thresholds_fields v) (\<lambda>vs.
     Option.bind (f64_of_json (vs ! 0)) (\<lambda>x0.
     Option.bind (u8_of_json (vs ! 1)) (\<lambda>x1.
     Option.bind (f64_of_json (vs ! 2)) (\<lambda>x2.
     Option.bind (u16_of_json (vs ! 3)) (\<lambda>x3.
     Option.bind (u8_of_json (vs ! 4)) (\<lambda>x4.
     Option.bind (u8_of_json (vs ! 5)) (\<lambda>x5.
       Some \<lparr>limit_temperature_c = x0, limit_total_current_a = x1,
             limit_wire_current_a = x2, limit_total_power_w = x3,
             current_imbalance_percent = x4, current_imbalance_min_load_a = x5\<rparr>)))))))"

definition display_of_json :: "json \<Rightarrow> display_configuration option" where
  "display_of_json v =
     Option.bind (struct_fields display_fields v) (\<lambda>vs.
     Option.bind (enum_of_json config_screen_of_name (vs ! 0)) (\<lambda>x0.
     Option.bind (u8_of_json (vs ! 1)) (\<lambda>x1.
     Option.bind (enum_of_json power_scale_of_name (vs ! 2)) (\<lambda>x2.
     Option.bind (u16_of_json (vs ! 3)) (\<lambda>x3.
     Option.bind (enum_of_json timeout_mode_of_name (vs ! 4)) (\<lambda>x4.
     Option.bind (list_of_json (enum_of_json config_screen_of_name) (vs ! 5)) (\<lambda>x5.
     Option.bind (u8_of_json (vs ! 6)) (\<lambda>x6.
     Option.bind (u8_of_json (vs ! 7)) (\<lambda>x7.
     Option.bind (argb_of_json (vs ! 8)) (\<lambda>x8.
     Option.bind (argb_of_json (vs ! 9)) (\<lambda>x9.
     Option.bind (argb_of_json (vs ! 10)) (\<lambda>x10.
     Option.bind (argb_of_json (vs ! 11)) (\<lambda>x11.
     Option.bind (enum_of_json background_of_name (vs ! 12)) (\<lambda>x12.
     Option.bind (enum_of_json fan_theme_of_name (vs ! 13)) (\<lambda>x13.
     Option.bind (bool_of_json (vs ! 14)) (\<lambda>x14.
       Some \<lparr>default_screen = x0, current_scale_a = x1,
             power_scale_of = x2, rotation_degrees = x3,
             timeout_mode_of = x4, cycle_screens = x5,
             cycle_time_seconds = x6, timeout_seconds = x7,
             primary_color = x8, secondary_color = x9,
             highlight_color = x10, background_color = x11,
             background_of = x12, fan_theme_of = x13,
             inverted = x14\<rparr>))))))))))))))))"

definition settings_of_json :: "json \<Rightarrow> device_settings option" where
  "settings_of_json v =
     Option.bind (struct_fields settings_fields v) (\<lambda>vs.
     Option.bind (string_of_json (vs ! 0)) (\<lambda>x0.
     Option.bind (u8_of_json (vs ! 1)) (\<lambda>x1.
     Option.bind (fan_of_json (vs ! 2)) (\<lambda>x2.
     Option.bind (actions_of_json (vs ! 3)) (\<lambda>x3.
     Option.bind (thresholds_of_json (vs ! 4)) (\<lambda>x4.
     Option.bind (u8_of_json (vs ! 5)) (\<lambda>x5.
     Option.bind (u8_of_json (vs ! 6)) (\<lambda>x6.
     Option.bind (u16_of_json (vs ! 7)) (\<lambda>x7.
     Option.bind (display_of_json (vs ! 8)) (\<lambda>x8.
       Some \<lparr>set_friendly_name = x0, set_backlight_percent = x1,
             set_fan = x2, set_fault_actions = x3,
             set_fault_thresholds = x4, set_shutdown_wait_seconds = x5,
             set_logging_interval_seconds = x6, set_averaging_ms = x7,
             set_display = x8\<rparr>))))))))))"

definition settings_from_json :: "json_text \<Rightarrow> string \<Rightarrow> device_settings result" where
  "settings_from_json text json =
     (case json_parse text json of
        Inl complaint \<Rightarrow> invalid (''invalid configuration JSON: '' @ complaint)
      | Inr v \<Rightarrow> (case settings_of_json v of
            None \<Rightarrow> invalid (''invalid configuration JSON: '' @ json_complaint text v)
          | Some settings \<Rightarrow> bindR (settings_validate settings) (\<lambda>_. Inr settings)))"

definition settings_from_value :: "json_text \<Rightarrow> json \<Rightarrow> device_settings result" where
  "settings_from_value text document = settings_from_json text (json_print text document)"

section \<open>Items\<close>

text \<open>\<open>str::split\<close>: the pieces between the separators, at least one.\<close>

fun split_on :: "char \<Rightarrow> string \<Rightarrow> string list" where
  "split_on sep [] = [[]]"
| "split_on sep (c # cs) =
     (if c = sep then [] # split_on sep cs
      else (case split_on sep cs of p # ps \<Rightarrow> (c # p) # ps | [] \<Rightarrow> [[c]]))"

text \<open>\<open>str::trim\<close> removes the characters of Unicode's \<open>White_Space\<close> from both ends.\<close>

definition white_space :: "string list" where
  "white_space = map string_of_bytes
     ([[9], [10], [11], [12], [13], [32], [0xc2, 0x85], [0xc2, 0xa0], [0xe1, 0x9a, 0x80],
       [0xe2, 0x80, 0xa8], [0xe2, 0x80, 0xa9], [0xe2, 0x80, 0xaf], [0xe2, 0x81, 0x9f],
       [0xe3, 0x80, 0x80]] @ map (\<lambda>b. [0xe2, 0x80, b]) [0x80, 0x81, 0x82, 0x83, 0x84, 0x85, 0x86,
         0x87, 0x88, 0x89, 0x8a])"

definition space_length :: "(string \<Rightarrow> string \<Rightarrow> bool) \<Rightarrow> string \<Rightarrow> nat" where
  "space_length matches s = (case List.find (\<lambda>w. matches w s) white_space of
     None \<Rightarrow> 0 | Some w \<Rightarrow> length w)"

fun trim_start :: "nat \<Rightarrow> string \<Rightarrow> string" where
  "trim_start 0 s = s"
| "trim_start (Suc fuel) s =
     (let n = space_length (\<lambda>w s. take (length w) s = w) s
      in if n = 0 then s else trim_start fuel (drop n s))"

fun trim_end :: "nat \<Rightarrow> string \<Rightarrow> string" where
  "trim_end 0 s = s"
| "trim_end (Suc fuel) s =
     (let n = space_length (\<lambda>w s. length w \<le> length s \<and> drop (length s - length w) s = w) s
      in if n = 0 then s else trim_end fuel (take (length s - n) s))"

definition trim :: "string \<Rightarrow> string" where
  "trim s = trim_end (length s) (trim_start (length s) s)"

definition quoted :: "string \<Rightarrow> string" where
  "quoted key = CHR 0x22 # key @ [CHR 0x22]"

fun walk_item :: "string \<Rightarrow> string list \<Rightarrow> json \<Rightarrow> json result" where
  "walk_item key [] current = Inr current"
| "walk_item key (component # rest) current =
    (if component = [] then invalid (''invalid configuration key '' @ quoted key)
     else (case current of
         JObject obj \<Rightarrow> (case map_of obj component of
             None \<Rightarrow> invalid (''unknown configuration key '' @ quoted key)
           | Some v \<Rightarrow> walk_item key rest v)
       | _ \<Rightarrow> invalid (quoted key @ '' is not a configuration item'')))"

definition settings_item :: "device_settings \<Rightarrow> string \<Rightarrow> json result" where
  "settings_item s key =
    (if key = [] then invalid ''configuration key cannot be empty''
     else bindR (walk_item key (split_on (CHR 0x2e) key) (settings_to_json s)) (\<lambda>current.
       if is_object current
       then invalid (quoted key @ '' is a configuration section, not an item'')
       else Inr current))"

definition parse_list_item :: "string \<Rightarrow> string \<Rightarrow> json result" where
  "parse_list_item key value =
    (if value = [] then invalid (quoted key @ '' contains an empty comma-separated value'')
     else Inr (JString value))"

definition parse_item_value :: "json_text \<Rightarrow> string \<Rightarrow> json \<Rightarrow> string \<Rightarrow> json result" where
  "parse_item_value text key current raw_value = (case current of
       JString _ \<Rightarrow> Inr (JString raw_value)
     | JBool _ \<Rightarrow>
         if raw_value = ''true'' then Inr (JBool True)
         else if raw_value = ''false'' then Inr (JBool False)
         else invalid (quoted key @ '' expects true or false'')
     | JNumber _ \<Rightarrow>
         (case json_parse text raw_value of
            Inl _ \<Rightarrow> invalid (quoted key @ '' expects a number'')
          | Inr parsed \<Rightarrow>
              if is_number parsed then Inr parsed else invalid (quoted key @ '' expects a number''))
     | JArray _ \<Rightarrow>
         if raw_value = [] \<or> raw_value = ''none'' then Inr (JArray [])
         else mapR JArray (collectR (map (\<lambda>p. parse_list_item key (trim p)) (split_on (CHR 0x2c) raw_value)))
     | JObject _ \<Rightarrow> invalid (quoted key @ '' is a configuration section, not an editable item'')
     | JNull \<Rightarrow> invalid (quoted key @ '' cannot be changed''))"

text \<open>The mutable walk to the item, returning the changed document.\<close>

fun set_path :: "json_text \<Rightarrow> string \<Rightarrow> string \<Rightarrow> string list \<Rightarrow> json \<Rightarrow> json result" where
  "set_path text key raw_value [] current = invalid ''configuration key cannot be empty''"
| "set_path text key raw_value (component # rest) current =
    (if component = [] then invalid (''invalid configuration key '' @ quoted key)
     else (case current of
         JObject obj \<Rightarrow> (case map_of obj component of
             None \<Rightarrow> invalid (''unknown configuration key '' @ quoted key)
           | Some child \<Rightarrow>
               if rest = [] then
                 (if is_object child
                  then invalid (quoted key @ '' is a configuration section, not an editable item'')
                  else mapR (\<lambda>v. JObject (AList.update component v obj))
                         (parse_item_value text key child raw_value))
               else mapR (\<lambda>v. JObject (AList.update component v obj))
                      (set_path text key raw_value rest child))
       | _ \<Rightarrow> invalid (quoted key @ '' is not an editable configuration item'')))"

definition set_item_value :: "json_text \<Rightarrow> json \<Rightarrow> string \<Rightarrow> string \<Rightarrow> json result" where
  "set_item_value text document key raw_value =
    (if key = [] then invalid ''configuration key cannot be empty''
     else set_path text key raw_value (split_on (CHR 0x2e) key) document)"

definition with_item :: "json_text \<Rightarrow> device_settings \<Rightarrow> string \<Rightarrow> string \<Rightarrow> device_settings result" where
  "with_item text s key raw_value =
     bindR (set_item_value text (settings_to_json s) key raw_value) (settings_from_value text)"

fun set_item_values :: "json_text \<Rightarrow> json \<Rightarrow> (string \<times> string) list \<Rightarrow> json result" where
  "set_item_values text document [] = Inr document"
| "set_item_values text document ((key, raw_value) # items) =
     bindR (set_item_value text document key raw_value) (\<lambda>document'.
       set_item_values text document' items)"

definition with_items :: "json_text \<Rightarrow> device_settings \<Rightarrow> (string \<times> string) list \<Rightarrow> device_settings result" where
  "with_items text s items =
     bindR (set_item_values text (settings_to_json s) items) (settings_from_value text)"

end
