(* ===== verification/Protocol.thy ===== *)
theory Protocol
  imports Domain
begin

text \<open>
  \<open>src/protocol.rs\<close>: the USB command bytes, the decoders of the sensor and build responses
  and the fault-clear frame. A response is a byte list; every index and slice of the
  source is a checked access, shown to be in range under the length check that precedes it. The lemmas show the command ordinals
  are inverse to each other, the fault-name decoder reads exactly the known bits, and the
  clear frame carries the complement of the selected bits.
\<close>

section \<open>Commands\<close>

definition WELCOME_MESSAGE :: "u8 list" where
  "WELCOME_MESSAGE = bytes_of_string ''Thermal Grizzly WireView Pro II''"

definition WELCOME_RESPONSE_SIZE :: nat where
  "WELCOME_RESPONSE_SIZE = length WELCOME_MESSAGE + 1"

definition VENDOR_RESPONSE_SIZE :: nat where "VENDOR_RESPONSE_SIZE = 3"
definition UID_RESPONSE_SIZE :: nat where "UID_RESPONSE_SIZE = 12"
definition BUILD_RESPONSE_SIZE :: nat where "BUILD_RESPONSE_SIZE = 68"
definition CONFIG_VERSION_RESPONSE_SIZE :: nat where "CONFIG_VERSION_RESPONSE_SIZE = 4"
definition SENSOR_RESPONSE_SIZE :: nat where "SENSOR_RESPONSE_SIZE = 100"
definition KNOWN_FAULT_MASK :: u16 where "KNOWN_FAULT_MASK = 0x003f"

datatype usb_command =
    Welcome
  | ReadVendorData
  | ReadUid
  | ReadDeviceData
  | ReadSensorValues
  | ReadConfig
  | WriteConfig
  | ReadCalibration
  | WriteCalibration
  | SpiFlashWritePage
  | SpiFlashReadPage
  | SpiFlashEraseSector
  | ScreenChange
  | ReadBuildInfo
  | ClearFaults
  | Reset
  | Bootloader
  | NvmConfig
  | Nop

fun usb_command_byte :: "usb_command \<Rightarrow> u8" where
  "usb_command_byte Welcome = 0"
| "usb_command_byte ReadVendorData = 1"
| "usb_command_byte ReadUid = 2"
| "usb_command_byte ReadDeviceData = 3"
| "usb_command_byte ReadSensorValues = 4"
| "usb_command_byte ReadConfig = 5"
| "usb_command_byte WriteConfig = 6"
| "usb_command_byte ReadCalibration = 7"
| "usb_command_byte WriteCalibration = 8"
| "usb_command_byte SpiFlashWritePage = 9"
| "usb_command_byte SpiFlashReadPage = 10"
| "usb_command_byte SpiFlashEraseSector = 11"
| "usb_command_byte ScreenChange = 12"
| "usb_command_byte ReadBuildInfo = 13"
| "usb_command_byte ClearFaults = 14"
| "usb_command_byte Reset = 240"
| "usb_command_byte Bootloader = 241"
| "usb_command_byte NvmConfig = 242"
| "usb_command_byte Nop = 255"

text \<open>\<open>UsbCommand::try_from(u8)\<close>; the error carries the unknown byte.\<close>

definition usb_command_try_from :: "u8 \<Rightarrow> u8 + usb_command" where
  "usb_command_try_from value =
    (if value = 0 then Inr Welcome
     else if value = 1 then Inr ReadVendorData
     else if value = 2 then Inr ReadUid
     else if value = 3 then Inr ReadDeviceData
     else if value = 4 then Inr ReadSensorValues
     else if value = 5 then Inr ReadConfig
     else if value = 6 then Inr WriteConfig
     else if value = 7 then Inr ReadCalibration
     else if value = 8 then Inr WriteCalibration
     else if value = 9 then Inr SpiFlashWritePage
     else if value = 10 then Inr SpiFlashReadPage
     else if value = 11 then Inr SpiFlashEraseSector
     else if value = 12 then Inr ScreenChange
     else if value = 13 then Inr ReadBuildInfo
     else if value = 14 then Inr ClearFaults
     else if value = 240 then Inr Reset
     else if value = 241 then Inr Bootloader
     else if value = 242 then Inr NvmConfig
     else if value = 255 then Inr Nop
     else Inl value)"

datatype screen_command =
    CmdMain
  | CmdSimple
  | CmdCurrent
  | CmdTemp
  | CmdStatus
  | CmdSame
  | CmdPauseUpdates
  | CmdResumeUpdates

fun screen_command_byte :: "screen_command \<Rightarrow> u8" where
  "screen_command_byte CmdMain = 224"
| "screen_command_byte CmdSimple = 225"
| "screen_command_byte CmdCurrent = 226"
| "screen_command_byte CmdTemp = 227"
| "screen_command_byte CmdStatus = 228"
| "screen_command_byte CmdSame = 239"
| "screen_command_byte CmdPauseUpdates = 240"
| "screen_command_byte CmdResumeUpdates = 241"

section \<open>Fault registers\<close>

definition fault_names :: "string list" where
  "fault_names = [''chip_over_temperature'', ''sensor_over_temperature'', ''over_current'',
     ''wire_over_current'', ''over_power'', ''current_imbalance'']"

definition decode_faults :: "u16 \<Rightarrow> string list" where
  "decode_faults fm =
     map snd (filter (\<lambda>(b, _). fm AND push_bit b 1 \<noteq> 0) (enumerate 0 fault_names))"

definition clear_faults_command :: "u16 \<Rightarrow> u16 \<Rightarrow> u8 list" where
  "clear_faults_command active_clear_mask logged_clear_mask =
     (let command = replicate 5 0;
          command = command[0 := usb_command_byte ClearFaults];
          command = write_at 1 (u16_to_le (NOT active_clear_mask)) command
      in write_at 3 (u16_to_le (NOT logged_clear_mask)) command)"

section \<open>Sensor response\<close>

record decoded_sensors =
  s_metrics :: metrics
  fault_status :: u16
  fault_log :: u16

text \<open>The closures \<open>temp\<close> and \<open>external\<close> and the body of the pin loop.\<close>

definition sensor_temp :: "u8 list \<Rightarrow> nat \<Rightarrow> f64 result" where
  "sensor_temp bytes off = mapR (\<lambda>value. f64_tenths (sint value)) (load_i16 bytes off)"

definition sensor_external :: "u8 list \<Rightarrow> nat \<Rightarrow> f64 option result" where
  "sensor_external bytes off =
     mapR (\<lambda>value. if f64_less (f64_lit (- (999 / 10))) value then Some value else None)
       (sensor_temp bytes off)"

definition sensor_pin :: "u8 list \<Rightarrow> nat \<Rightarrow> pin_metrics result" where
  "sensor_pin bytes index =
     (let off = 12 + index * 12 in
      bindR (load_i16 bytes off) (\<lambda>raw_voltage.
      bindR (load_u32 bytes (off + 4)) (\<lambda>raw_current.
        (let voltage = f64_div_const (f64_of_int (sint raw_voltage)) 1000;
             current = f64_div_const (f64_of_int (uint raw_current)) 1000
         in Inr \<lparr>voltage_v = voltage, current_a = current, power_w = f64_mul voltage current\<rparr>))))"

definition cable_capability :: "u8 \<Rightarrow> u16 result" where
  "cable_capability value =
    (if value = 0 then Inr 600
     else if value = 1 then Inr 450
     else if value = 2 then Inr 300
     else if value = 3 then Inr 150
     else Inl (Transport (''unknown cable capability '' @ show_nat (unat value))))"

definition decode_sensor_response :: "u8 list \<Rightarrow> decoded_sensors result" where
  "decode_sensor_response bytes =
    (if length bytes \<noteq> SENSOR_RESPONSE_SIZE then
       Inl (Transport (''sensor response has '' @ show_nat (length bytes) @ '' bytes, expected ''
         @ show_nat SENSOR_RESPONSE_SIZE))
     else
       bindR (collectR (map (sensor_pin bytes) [0..<6])) (\<lambda>ps.
       (let total_current = f64_sum (map current_a ps);
            total_power = f64_sum (map power_w ps)
        in
       bindR (bindR (idx bytes 94) cable_capability) (\<lambda>capability.
       bindR (load_u16 bytes 8) (\<lambda>vdd.
       bindR (load_u16 bytes 92) (\<lambda>avg_voltage.
       bindR (idx bytes 10) (\<lambda>fan_duty.
       bindR (sensor_temp bytes 0) (\<lambda>input.
       bindR (sensor_temp bytes 2) (\<lambda>output.
       bindR (sensor_external bytes 4) (\<lambda>external_1.
       bindR (sensor_external bytes 6) (\<lambda>external_2.
       bindR (load_u16 bytes 96) (\<lambda>status.
       bindR (load_u16 bytes 98) (\<lambda>log_mask. Inr
         \<lparr>s_metrics =
            \<lparr>vdd_v = f64_div_const (f64_of_int (uint vdd)) 1000,
             avg_voltage_v = f64_div_const (f64_of_int (uint avg_voltage)) 1000,
             total_current_a = total_current,
             total_power_w = total_power,
             fan_duty_percent = f64_of_int (uint fan_duty),
             cable_capability_w = capability,
             pins = ps,
             m_temperatures =
               \<lparr>input_c = input, output_c = output,
                external_1_c = external_1, external_2_c = external_2\<rparr>\<rparr>,
          fault_status = status,
          fault_log = log_mask\<rparr>)))))))))))))"

section \<open>Build response\<close>

definition is_ascii_byte :: "u8 \<Rightarrow> bool" where
  "is_ascii_byte b = (b < 128)"

definition is_ascii_control_byte :: "u8 \<Rightarrow> bool" where
  "is_ascii_control_byte b = (b < 32 \<or> b = 127)"

definition decode_fixed_ansi :: "u8 list \<Rightarrow> string result" where
  "decode_fixed_ansi bytes =
     (let len = (case position (\<lambda>b. b = 0) bytes of None \<Rightarrow> length bytes | Some i \<Rightarrow> i);
          value = take len bytes
      in if \<not> list_all is_ascii_byte value \<or> list_ex is_ascii_control_byte value
         then Inl (Transport ''device build information is not printable ASCII'')
         else Inr (string_of_bytes value))"

definition decode_build_response :: "u8 list \<Rightarrow> (string \<times> string) result" where
  "decode_build_response bytes =
    (if length bytes \<noteq> BUILD_RESPONSE_SIZE then
       Inl (Transport (''build response has '' @ show_nat (length bytes) @ '' bytes, expected ''
         @ show_nat BUILD_RESPONSE_SIZE))
     else bindR (bindR (sub_slice 3 35 bytes) decode_fixed_ansi) (\<lambda>product_name.
          bindR (bindR (sub_slice 35 67 bytes) decode_fixed_ansi) (\<lambda>build_info.
            Inr (product_name, build_info))))"

section \<open>Lemmas\<close>

lemma usb_command_try_from_byte [simp]: "usb_command_try_from (usb_command_byte c) = Inr c"
  by (cases c) (simp_all add: usb_command_try_from_def)

lemma usb_command_try_from_Inr: "usb_command_try_from v = Inr c \<Longrightarrow> usb_command_byte c = v"
  by (auto simp: usb_command_try_from_def split: if_splits)

lemma decode_faults_bits:
  "decode_faults fm = map snd (filter (\<lambda>(b, _). bit fm b) (enumerate 0 fault_names))"
  by (simp only: decode_faults_def mask_bit_test)

lemma decode_faults_ignores_unknown: "decode_faults (fm AND KNOWN_FAULT_MASK) = decode_faults fm"
proof -
  have "bit (fm AND KNOWN_FAULT_MASK) n = bit fm n" if "n < 6" for n
  proof -
    have "bit KNOWN_FAULT_MASK n"
      using that unfolding KNOWN_FAULT_MASK_def
      by (simp add: less_Suc_eq numeral_eq_Suc) (auto simp: bit_simps bit_numeral_rec)
    then show ?thesis by (simp add: bit_and_iff)
  qed
  then show ?thesis
    by (simp add: decode_faults_bits fault_names_def)
qed

lemma clear_faults_command_bytes:
  "clear_faults_command a l = usb_command_byte ClearFaults # u16_to_le (NOT a) @ u16_to_le (NOT l)"
  by (simp add: clear_faults_command_def Let_def write_at_def u16_to_le_def numeral_eq_Suc)

text \<open>The sensor values at fixed offsets, as total functions.\<close>

definition temp_at :: "u8 list \<Rightarrow> nat \<Rightarrow> f64" where
  "temp_at bytes off = f64_tenths (sint (read_i16 bytes off))"

definition external_at :: "u8 list \<Rightarrow> nat \<Rightarrow> f64 option" where
  "external_at bytes off =
     (let value = temp_at bytes off
      in if f64_less (f64_lit (- (999 / 10))) value then Some value else None)"

definition pin_at :: "u8 list \<Rightarrow> nat \<Rightarrow> pin_metrics" where
  "pin_at bytes index =
     (let off = 12 + index * 12;
          voltage = f64_div_const (f64_of_int (sint (read_i16 bytes off))) 1000;
          current = f64_div_const (f64_of_int (uint (read_u32 bytes (off + 4)))) 1000
      in \<lparr>voltage_v = voltage, current_a = current, power_w = f64_mul voltage current\<rparr>)"

lemma sensor_parts_in_range:
  "off + 1 < length bytes \<Longrightarrow> sensor_temp bytes off = Inr (temp_at bytes off)"
  "off + 1 < length bytes \<Longrightarrow> sensor_external bytes off = Inr (external_at bytes off)"
  "12 * index + 19 < length bytes \<Longrightarrow> sensor_pin bytes index = Inr (pin_at bytes index)"
  by (simp_all add: sensor_temp_def temp_at_def sensor_external_def external_at_def sensor_pin_def
      pin_at_def checked_in_range Let_def)

lemma collectR_Inr_map: "(\<And>x. x \<in> set xs \<Longrightarrow> f x = Inr (g x)) \<Longrightarrow> collectR (map f xs) = Inr (map g xs)"
  by (induction xs) simp_all

text \<open>With the length checked, every access is in range.\<close>

lemma decode_sensor_response_eq:
  assumes "length bytes = SENSOR_RESPONSE_SIZE"
  shows "decode_sensor_response bytes =
    bindR (cable_capability (bytes ! 94)) (\<lambda>capability. Inr
      \<lparr>s_metrics =
         \<lparr>vdd_v = f64_div_const (f64_of_int (uint (read_u16 bytes 8))) 1000,
          avg_voltage_v = f64_div_const (f64_of_int (uint (read_u16 bytes 92))) 1000,
          total_current_a = f64_sum (map current_a (map (pin_at bytes) [0..<6])),
          total_power_w = f64_sum (map power_w (map (pin_at bytes) [0..<6])),
          fan_duty_percent = f64_of_int (uint (bytes ! 10)),
          cable_capability_w = capability,
          pins = map (pin_at bytes) [0..<6],
          m_temperatures = \<lparr>input_c = temp_at bytes 0, output_c = temp_at bytes 2,
            external_1_c = external_at bytes 4, external_2_c = external_at bytes 6\<rparr>\<rparr>,
       fault_status = read_u16 bytes 96, fault_log = read_u16 bytes 98\<rparr>)"
proof -
  have len: "length bytes = 100" using assms by (simp add: SENSOR_RESPONSE_SIZE_def)
  have ps: "collectR (map (sensor_pin bytes) [0..<6]) = Inr (map (pin_at bytes) [0..<6])"
    by (rule collectR_Inr_map) (auto intro!: sensor_parts_in_range simp: len)
  show ?thesis
    unfolding decode_sensor_response_def ps Let_def
    by (simp add: SENSOR_RESPONSE_SIZE_def checked_in_range sensor_parts_in_range len)
qed

lemma decode_sensor_response_panic_free: "panic_free (decode_sensor_response bytes)"
proof (cases "length bytes = SENSOR_RESPONSE_SIZE")
  case True
  show ?thesis unfolding decode_sensor_response_eq [OF True]
    by (intro panic_free_bindR) (simp_all add: cable_capability_def)
qed (simp add: decode_sensor_response_def)

lemma decode_build_response_panic_free: "panic_free (decode_build_response bytes)"
proof (cases "length bytes = BUILD_RESPONSE_SIZE")
  case True
  then have "sub_slice 3 35 bytes = Inr (slice 3 35 bytes)" "sub_slice 35 67 bytes = Inr (slice 35 67 bytes)"
    by (simp_all add: checked_in_range BUILD_RESPONSE_SIZE_def)
  moreover have "panic_free (decode_fixed_ansi bs)" for bs
    by (simp add: decode_fixed_ansi_def Let_def)
  ultimately show ?thesis
    by (auto simp: decode_build_response_def intro!: panic_free_bindR)
qed (simp add: decode_build_response_def)

end
