(* ===== verification/Ipc.thy ===== *)
theory Ipc
  imports Items Protocol Theme
begin

text \<open>
  The contract between the daemon and its clients, \<open>crates/wireview-ipc/src/lib.rs\<close>: the values on
  the socket, the error a client sees for every device error, the fingerprint of the contract
  and the client's check that a daemon is compatible. SHA-256 and the text of the checked-in
  interface description are parameters; the proxy trait is generated code and not modelled.
\<close>

section \<open>Fingerprint\<close>

definition API_VERSION :: u32 where "API_VERSION = 2"

definition API_CAPABILITIES :: "string list" where
  "API_CAPABILITIES = [''configuration-items'', ''device-control'', ''device-info'', ''display-leases'',
     ''fault-registers'', ''history-dump'', ''telemetry'', ''theme-assets-read'', ''theme-assets-write'']"

definition COMPATIBLE_SCHEMA_IDS :: "string list" where
  "COMPATIBLE_SCHEMA_IDS = [''wireview-2-047f86fdb168c045'']"

text \<open>
  \<open>chars().filter(!is_whitespace)\<close> on the UTF-8 bytes: no encoding of a white space character is
  a proper prefix of another, and a byte that starts no such encoding belongs to a character
  that stays.
\<close>

fun strip_white_space :: "nat \<Rightarrow> string \<Rightarrow> string" where
  "strip_white_space 0 s = []"
| "strip_white_space (Suc fuel) s = (case s of
       [] \<Rightarrow> []
     | c # rest \<Rightarrow>
         let n = space_length (\<lambda>w s. take (length w) s = w) s
         in if n = 0 then c # strip_white_space fuel rest else strip_white_space fuel (drop n s))"

fun join_with :: "string \<Rightarrow> string list \<Rightarrow> string" where
  "join_with sep [] = []"
| "join_with sep [p] = p"
| "join_with sep (p # q # ps) = p @ sep @ join_with sep (q # ps)"

definition api_compatibility_id :: "(u8 list \<Rightarrow> u8 list) \<Rightarrow> string \<Rightarrow> string" where
  "api_compatibility_id sha256 api_contract =
     (let canonical_contract = strip_white_space (length api_contract) api_contract;
          contract = ''api='' @ show_nat (unat API_VERSION) @ [CHR 0x0a] @ canonical_contract
            @ [CHR 0x0a] @ ''capabilities='' @ join_with '','' API_CAPABILITIES;
          digest = sha256 (bytes_of_string contract)
      in ''wireview-'' @ show_nat (unat API_VERSION) @ ''-''
           @ concat (map (\<lambda>b. hex_digits hex_lower 2 (unat b)) (take 8 digest)))"

section \<open>Values\<close>

record status_dto =
  st_api_version :: u32
  st_api_compatibility_id :: string
  st_api_capabilities :: "string list"
  st_daemon_version :: string
  st_daemon_build_id :: string
  st_state :: string
  st_sequence :: u64
  st_session_id :: u64
  st_connected_port :: string
  st_last_disconnect_reason :: string
  st_busy_operation :: string
  st_recovery_cause :: string
  st_candidates :: "string list"
  st_poll_interval_ms :: u64
  st_display_paused :: bool
  st_display_pause_debug_active :: bool
  st_display_pause_history_active :: bool
  st_display_pause_remaining_ms :: u64

record telemetry_dto =
  td_sequence :: u64
  td_session_id :: u64
  td_observed_at_ms :: u64
  td_stale :: bool
  td_vdd_v :: f64
  td_avg_voltage_v :: f64
  td_total_current_a :: f64
  td_total_power_w :: f64
  td_fan_duty_percent :: f64
  td_cable_capability_w :: u16
  td_pin_voltages_v :: "f64 list"
  td_pin_currents_a :: "f64 list"
  td_pin_power_w :: "f64 list"
  td_input_temp_c :: f64
  td_output_temp_c :: f64
  td_external_1_present :: bool
  td_external_1_temp_c :: f64
  td_external_2_present :: bool
  td_external_2_temp_c :: f64
  td_active_fault_mask :: u16
  td_logged_fault_mask :: u16
  td_unknown_active_fault_mask :: u16
  td_unknown_logged_fault_mask :: u16
  td_active_faults :: "string list"
  td_logged_faults :: "string list"

definition telemetry_dto_from :: "telemetry \<Rightarrow> telemetry_dto" where
  "telemetry_dto_from value =
     (let mt = t_metrics value; temps = m_temperatures mt in
      \<lparr>td_sequence = t_sequence value, td_session_id = t_session_id value,
       td_observed_at_ms = observed_at_ms value, td_stale = stale value, td_vdd_v = vdd_v mt,
       td_avg_voltage_v = avg_voltage_v mt, td_total_current_a = total_current_a mt,
       td_total_power_w = total_power_w mt, td_fan_duty_percent = fan_duty_percent mt,
       td_cable_capability_w = cable_capability_w mt,
       td_pin_voltages_v = map voltage_v (pins mt), td_pin_currents_a = map current_a (pins mt),
       td_pin_power_w = map power_w (pins mt), td_input_temp_c = input_c temps,
       td_output_temp_c = output_c temps,
       td_external_1_present = external_1_c temps \<noteq> None,
       td_external_1_temp_c = (case external_1_c temps of None \<Rightarrow> Finite 0 | Some t \<Rightarrow> t),
       td_external_2_present = external_2_c temps \<noteq> None,
       td_external_2_temp_c = (case external_2_c temps of None \<Rightarrow> Finite 0 | Some t \<Rightarrow> t),
       td_active_fault_mask = active_fault_mask value, td_logged_fault_mask = logged_fault_mask value,
       td_unknown_active_fault_mask = active_fault_mask value AND NOT FAULT_MASK,
       td_unknown_logged_fault_mask = logged_fault_mask value AND NOT FAULT_MASK,
       td_active_faults = active_faults value, td_logged_faults = logged_faults value\<rparr>)"

record history_chunk_dto =
  hc_offset :: u32
  hc_total_bytes :: u32
  hc_data :: "u8 list"

record history_dump_dto =
  hd_dump_id :: u64
  hd_session_id :: u64
  hd_total_bytes :: u32

record theme_asset_dto =
  ta_slot :: string
  ta_width :: u32
  ta_height :: u32
  ta_byte_length :: u32
  ta_sha256 :: string
  ta_data :: "u8 list"

record theme_asset_write_dto =
  tw_slot :: string
  tw_byte_length :: u32
  tw_sha256 :: string

record configuration_dto =
  configuration_json :: string
  revision :: string

record configuration_item_dto =
  ci_key :: string
  ci_value_json :: string

record device_info_dto =
  di_unique_id :: string
  di_vendor_id :: u8
  di_product_id :: u8
  di_firmware_version :: string
  di_hardware_revision :: string
  di_config_version :: u32
  di_product_name :: string
  di_build_string :: string
  di_capabilities :: "string list"

definition device_info_from :: "device_identity \<Rightarrow> device_info_dto" where
  "device_info_from value =
     \<lparr>di_unique_id = id_unique_id value, di_vendor_id = id_vendor_id value,
      di_product_id = id_product_id value, di_firmware_version = id_firmware_version value,
      di_hardware_revision = id_hardware_revision value, di_config_version = id_config_version value,
      di_product_name = id_product_name value, di_build_string = id_build_string value,
      di_capabilities = id_capabilities value\<rparr>"

record display_pause_dto =
  dp_paused :: bool
  dp_debug_lease_active :: bool
  dp_history_dump_active :: bool
  dp_remaining_ms :: u64

record device_event_dto =
  ev_event :: string
  ev_sequence :: u64
  ev_session_id :: u64
  ev_port :: "string option"
  ev_reason :: "string option"
  ev_screen :: "string option"

text \<open>The derived \<open>Debug\<close> of \<open>Screen\<close>.\<close>

fun screen_debug :: "screen \<Rightarrow> string" where
  "screen_debug ScrMain = ''Main''"
| "screen_debug ScrCurrent = ''Current''"
| "screen_debug ScrTemp = ''Temp''"
| "screen_debug ScrStatus = ''Status''"
| "screen_debug ScrSimple = ''Simple''"
| "screen_debug ScrSame = ''Same''"

definition event_snapshot :: "status_dto \<Rightarrow> device_event_dto" where
  "event_snapshot status =
     \<lparr>ev_event = ''snapshot'', ev_sequence = st_sequence status, ev_session_id = st_session_id status,
      ev_port = (if st_connected_port status = [] then None else Some (st_connected_port status)),
      ev_reason = (if st_last_disconnect_reason status = [] then None
                   else Some (st_last_disconnect_reason status)),
      ev_screen = None\<rparr>"

fun event_dto_from :: "device_event \<Rightarrow> device_event_dto" where
  "event_dto_from (Connected sequence session_id port) =
     \<lparr>ev_event = ''connected'', ev_sequence = sequence, ev_session_id = session_id,
      ev_port = Some port, ev_reason = None, ev_screen = None\<rparr>"
| "event_dto_from (Disconnected sequence session_id reason) =
     \<lparr>ev_event = ''disconnected'', ev_sequence = sequence, ev_session_id = session_id,
      ev_port = None, ev_reason = Some (disconnect_reason_to_string reason), ev_screen = None\<rparr>"
| "event_dto_from (TelemetryUpdated sequence session_id) =
     \<lparr>ev_event = ''telemetry_updated'', ev_sequence = sequence, ev_session_id = session_id,
      ev_port = None, ev_reason = None, ev_screen = None\<rparr>"
| "event_dto_from (ScreenChanged sequence session_id screen) =
     \<lparr>ev_event = ''screen_changed'', ev_sequence = sequence, ev_session_id = session_id,
      ev_port = None, ev_reason = None, ev_screen = Some (screen_debug screen)\<rparr>"

section \<open>Errors\<close>

text \<open>\<open>WPanicked\<close> is the value of a panic, as \<open>Panicked\<close> is for device errors.\<close>

datatype wireview_error =
    WUnavailable string
  | WInvalidArgument string
  | WRevisionConflict string
  | WBusy string
  | WOperationOutcomeUnknown string
  | WVerificationFailed string
  | WFailedAndRolledBack string
  | WRollbackFailed string
  | WUnsupported string
  | WDeviceError string
  | WPanicked string

type_synonym 'a service_result = "wireview_error + 'a"

fun wireview_error_to_string :: "wireview_error \<Rightarrow> string" where
  "wireview_error_to_string (WUnavailable m) = ''unavailable: '' @ m"
| "wireview_error_to_string (WInvalidArgument m) = ''invalid argument: '' @ m"
| "wireview_error_to_string (WRevisionConflict m) = ''revision conflict: '' @ m"
| "wireview_error_to_string (WBusy m) = ''busy: '' @ m"
| "wireview_error_to_string (WOperationOutcomeUnknown m) = ''operation outcome unknown: '' @ m"
| "wireview_error_to_string (WVerificationFailed m) = ''verification failed: '' @ m"
| "wireview_error_to_string (WFailedAndRolledBack m) = ''failed and rolled back: '' @ m"
| "wireview_error_to_string (WRollbackFailed m) = ''rollback failed: '' @ m"
| "wireview_error_to_string (WUnsupported m) = ''unsupported: '' @ m"
| "wireview_error_to_string (WDeviceError m) = ''device error: '' @ m"
| "wireview_error_to_string (WPanicked m) = ''panicked: '' @ m"

fun wireview_error_from :: "device_error \<Rightarrow> wireview_error" where
  "wireview_error_from (InvalidArgument message) = WInvalidArgument message"
| "wireview_error_from (RevisionConflict message) = WRevisionConflict message"
| "wireview_error_from (BusyError message) = WBusy message"
| "wireview_error_from OperationOutcomeUnknown =
     WOperationOutcomeUnknown (device_error_to_string OperationOutcomeUnknown)"
| "wireview_error_from (VerificationFailed message) = WVerificationFailed message"
| "wireview_error_from (FailedAndRolledBack message) = WFailedAndRolledBack message"
| "wireview_error_from (RollbackFailed operation rollback) =
     WRollbackFailed (''operation failed ('' @ operation @ ''); rollback failed ('' @ rollback @ '')'')"
| "wireview_error_from (Unsupported message) = WUnsupported message"
| "wireview_error_from (ProtocolUnverified message) = WUnsupported message"
| "wireview_error_from (Panicked message) = WPanicked message"
| "wireview_error_from other = WDeviceError (device_error_to_string other)"

section \<open>Compatibility\<close>

datatype compatibility_error =
    ApiVersion u32 u32
  | ApiSchema string string
  | MissingCapabilities string

definition validate_status ::
  "(u8 list \<Rightarrow> u8 list) \<Rightarrow> string \<Rightarrow> status_dto \<Rightarrow> compatibility_error + unit" where
  "validate_status sha256 api_contract status =
    (if st_api_version status \<noteq> API_VERSION then Inl (ApiVersion (st_api_version status) API_VERSION)
     else
       let required_schema = api_compatibility_id sha256 api_contract in
       if st_api_compatibility_id status \<noteq> required_schema
          \<and> st_api_compatibility_id status \<notin> set COMPATIBLE_SCHEMA_IDS
       then Inl (ApiSchema (if st_api_compatibility_id status = [] then ''not reported''
                            else st_api_compatibility_id status) required_schema)
       else
         let missing = filter (\<lambda>required. required \<notin> set (st_api_capabilities status)) API_CAPABILITIES
         in if missing = [] then Inr () else Inl (MissingCapabilities (join_with '', '' missing)))"

section \<open>Lemmas\<close>

text \<open>A client that accepts a daemon has every capability it needs, and a client with the same
  contract is never refused for its schema.\<close>

lemma validate_status_Inr:
  "validate_status sha256 api_contract status = Inr () \<longleftrightarrow>
     st_api_version status = API_VERSION
     \<and> st_api_compatibility_id status \<in> insert (api_compatibility_id sha256 api_contract) (set COMPATIBLE_SCHEMA_IDS)
     \<and> set API_CAPABILITIES \<subseteq> set (st_api_capabilities status)"
  by (auto simp: validate_status_def Let_def filter_empty_conv)

text \<open>An unknown outcome and a failed roll-back stay recognizable, and nothing else becomes one.\<close>

lemma wireview_error_outcome:
  "(\<exists>m. wireview_error_from e = WOperationOutcomeUnknown m) \<longleftrightarrow> e = OperationOutcomeUnknown"
  "(\<exists>m. wireview_error_from e = WRollbackFailed m) \<longleftrightarrow> (\<exists>a b. e = RollbackFailed a b)"
  "(\<exists>m. wireview_error_from e = WFailedAndRolledBack m) \<longleftrightarrow> (\<exists>m. e = FailedAndRolledBack m)"
  "(\<exists>m. wireview_error_from e = WPanicked m) \<longleftrightarrow> (\<exists>m. e = Panicked m)"
  by (cases e; simp)+

end
