(* ===== verification/History.thy ===== *)
theory History
  imports Domain
begin

text \<open>
  \<open>crates/wireview-core/src/history.rs\<close>: the decoder of the telemetry log in SPI flash. The
  loops over sectors and slots are recursive functions over the same variables; the visitor
  closure is a function on an explicit state that may stop the walk with an error. The
  lemmas show that every slice the walk takes is in range, that \<open>visit_history\<close> shows its
  visitor exactly the entries \<open>parse_history\<close> collects, and what every reported entry
  satisfies.
\<close>

section \<open>Types\<close>

definition FLASH_START_ADDRESS :: u32 where "FLASH_START_ADDRESS = 0x00800000"
definition FLASH_LENGTH :: nat where "FLASH_LENGTH = 0x00800000"
definition FLASH_READ_PAGE_SIZE :: nat where "FLASH_READ_PAGE_SIZE = 256"
definition FLASH_SECTOR_SIZE :: nat where "FLASH_SECTOR_SIZE = 4096"
definition ENTRY_SIZE :: nat where "ENTRY_SIZE = 21"
definition MAX_CHUNK_SIZE :: nat where "MAX_CHUNK_SIZE = 64 * 1024"
definition EMPTY_DATA :: u32 where "EMPTY_DATA = - 1"
definition EMPTY_RUN_END :: nat where "EMPTY_RUN_END = 32"

lemmas history_consts = FLASH_READ_PAGE_SIZE_def FLASH_SECTOR_SIZE_def ENTRY_SIZE_def
  EMPTY_RUN_END_def

datatype history_entry_kind = Measurement | PowerOn

record history_metrics =
  h_avg_voltage_v :: f64
  h_total_current_a :: f64
  h_total_power_w :: f64
  h_cable_capability_w :: u16
  h_pins :: "pin_metrics list"
  h_temperatures :: temperatures

record history_entry =
  h_kind :: history_entry_kind
  device_time_ms :: u32
  h_metrics :: history_metrics

record parsed_history =
  entries :: "history_entry list"
  end_found :: bool

text \<open>A record as the walk hands it on: its bytes, its first word, its kind.\<close>

type_synonym raw_entry = "u8 list \<times> u32 \<times> history_entry_kind"

section \<open>Decoding one record\<close>

definition decode_temperature :: "u8 \<Rightarrow> f64 option" where
  "decode_temperature value =
     (let v = sint value in if v \<noteq> 0 \<and> - 100 < v then Some (f64_of_int v) else None)"

text \<open>The catch-all arm is \<open>unreachable!\<close>; the walk checks the byte before it decodes.\<close>

definition history_cable_capability :: "u8 \<Rightarrow> u16 option" where
  "history_cable_capability value =
    (if value = 0 then Some 600
     else if value = 1 then Some 450
     else if value = 2 then Some 300
     else if value = 3 then Some 150
     else None)"

definition history_pins :: "u8 list \<Rightarrow> u8 list \<Rightarrow> pin_metrics list" where
  "history_pins voltages currents =
     map (\<lambda>(voltage, current).
       let v = f64_div_const (f64_of_int (uint voltage)) 10;
           c = f64_div_const (f64_of_int (uint current)) 10
       in \<lparr>voltage_v = v, current_a = c, power_w = f64_mul v c\<rparr>)
     (zip voltages currents)"

definition decode_entry :: "u8 list \<Rightarrow> u32 \<Rightarrow> history_entry_kind \<Rightarrow> history_entry option" where
  "decode_entry record_bytes encoded kind =
     (let ps = history_pins (slice 8 14 record_bytes) (slice 14 20 record_bytes);
          avg = (if ps = [] then Finite 0
                 else f64_div_const (f64_sum (map voltage_v ps)) (of_nat (length ps)))
      in map_option (\<lambda>capability.
        \<lparr>h_kind = kind,
         device_time_ms = drop_bit 2 encoded AND 0x3fffffff,
         h_metrics =
           \<lparr>h_avg_voltage_v = avg,
            h_total_current_a = f64_sum (map current_a ps),
            h_total_power_w = f64_sum (map power_w ps),
            h_cable_capability_w = capability,
            h_pins = ps,
            h_temperatures =
              \<lparr>input_c = f64_of_int (sint (record_bytes ! 4)),
               output_c = f64_of_int (sint (record_bytes ! 5)),
               external_1_c = decode_temperature (record_bytes ! 6),
               external_2_c = decode_temperature (record_bytes ! 7)\<rparr>\<rparr>\<rparr>)
        (history_cable_capability (record_bytes ! 20)))"

section \<open>The walk\<close>

text \<open>
  How a sector ends: the visitor's error, the erased run that ends the log, or the loop
  state (\<open>found_first\<close>, \<open>empty_run\<close>) the next sector starts from.
\<close>

datatype 'e sector_result = VisitorError 'e | EndOfLog | NextSector bool nat

definition plausible_voltages :: "u8 list \<Rightarrow> bool" where
  "plausible_voltages record_bytes =
     (let voltage_sum = sum_list (map unat (slice 8 14 record_bytes))
      in 60 < voltage_sum \<and> voltage_sum < 900)"

text \<open>The slot to continue from when a record would cross a flash page.\<close>

definition page_skip_slot :: "nat \<Rightarrow> nat \<Rightarrow> nat \<Rightarrow> nat" where
  "page_skip_slot sector_start slot off =
     (let off1 = off + (FLASH_READ_PAGE_SIZE - off mod 256);
          rest = off1 mod ENTRY_SIZE;
          off2 = (if rest \<noteq> 0 then off1 + (ENTRY_SIZE - rest) else off1)
      in max ((off2 - sector_start) div ENTRY_SIZE) (slot + 1))"

definition entries_per_sector :: nat where
  "entries_per_sector = FLASH_SECTOR_SIZE div ENTRY_SIZE"

definition crosses_page :: "nat \<Rightarrow> bool" where
  "crosses_page off = (off mod 256 > FLASH_READ_PAGE_SIZE - ENTRY_SIZE)"

lemma page_skip_slot_gt: "slot < page_skip_slot sector_start slot off"
  by (simp add: page_skip_slot_def Let_def less_max_iff_disj)

function walk_sector ::
  "(raw_entry \<Rightarrow> 's \<Rightarrow> ('e + unit) \<times> 's) \<Rightarrow> u8 list \<Rightarrow> nat \<Rightarrow> nat \<Rightarrow> nat \<Rightarrow> bool \<Rightarrow> nat \<Rightarrow> 's
     \<Rightarrow> 'e sector_result \<times> 's" where
  "walk_sector on_entry data complete_length sector_start slot found_first empty_run s =
    (if \<not> slot < entries_per_sector then (NextSector found_first empty_run, s)
     else
       let off = sector_start + slot * ENTRY_SIZE in
       if off + ENTRY_SIZE > complete_length then (NextSector found_first empty_run, s)
       else if found_first \<and> crosses_page off then
         walk_sector on_entry data complete_length sector_start
           (page_skip_slot sector_start slot off) found_first empty_run s
       else
         let record_bytes = slice off (off + ENTRY_SIZE) data;
             encoded = read_u32 record_bytes 0 in
         if encoded = EMPTY_DATA then
           (if found_first \<and> EMPTY_RUN_END \<le> empty_run + 1 then (EndOfLog, s)
            else walk_sector on_entry data complete_length sector_start (slot + 1) found_first
                   (if found_first then empty_run + 1 else empty_run) s)
         else if encoded AND 3 = 0 then
           (if record_bytes ! 20 > 3 then
              walk_sector on_entry data complete_length sector_start (slot + 1) found_first 0 s
            else if plausible_voltages record_bytes then
              (case on_entry (record_bytes, encoded, Measurement) s of
                 (Inl e, s') \<Rightarrow> (VisitorError e, s')
               | (Inr _, s') \<Rightarrow>
                   walk_sector on_entry data complete_length sector_start (slot + 1) True 0 s')
            else walk_sector on_entry data complete_length sector_start (slot + 1) True 0 s)
         else if encoded AND 3 = 2 then
           walk_sector on_entry data complete_length sector_start (slot + 1) True 0 s
         else
           walk_sector on_entry data complete_length sector_start (slot + 1) found_first 0 s)"
  by pat_completeness auto
termination
  by (relation "measure (\<lambda>(_, _, _, _, slot, _). entries_per_sector - slot)")
     (simp_all add: page_skip_slot_gt diff_less_mono2)

declare walk_sector.simps [simp del]

fun walk_sectors ::
  "(raw_entry \<Rightarrow> 's \<Rightarrow> ('e + unit) \<times> 's) \<Rightarrow> u8 list \<Rightarrow> nat \<Rightarrow> nat list \<Rightarrow> bool \<Rightarrow> nat \<Rightarrow> 's
     \<Rightarrow> ('e + bool) \<times> 's" where
  "walk_sectors on_entry data complete_length [] found_first empty_run s =
     (Inr (complete_length = FLASH_LENGTH), s)"
| "walk_sectors on_entry data complete_length (sector # rest) found_first empty_run s =
     (case walk_sector on_entry data complete_length (sector * FLASH_SECTOR_SIZE) 0
             found_first empty_run s of
        (VisitorError e, s') \<Rightarrow> (Inl e, s')
      | (EndOfLog, s') \<Rightarrow> (Inr True, s')
      | (NextSector found_first' empty_run', s') \<Rightarrow>
          walk_sectors on_entry data complete_length rest found_first' empty_run' s')"

definition walk_history ::
  "(raw_entry \<Rightarrow> 's \<Rightarrow> ('e + unit) \<times> 's) \<Rightarrow> u8 list \<Rightarrow> 's \<Rightarrow> ('e + bool) \<times> 's" where
  "walk_history on_entry data s =
     (let sectors = length data div FLASH_SECTOR_SIZE
      in walk_sectors on_entry data (sectors * FLASH_SECTOR_SIZE) [0..<sectors] False 0 s)"

section \<open>Visiting and parsing\<close>

text \<open>
  \<open>decode_entry\<close> panics on an unknown cable capability; in the closure that is the error
  \<open>None\<close>, kept apart from the visitor's own errors.
\<close>

definition visit_entry ::
  "(history_entry \<Rightarrow> 's \<Rightarrow> ('e + unit) \<times> 's) \<Rightarrow> raw_entry \<Rightarrow> 's \<times> nat
     \<Rightarrow> ('e option + unit) \<times> ('s \<times> nat)" where
  "visit_entry visitor = (\<lambda>(record_bytes, encoded, kind) (s, count).
     case decode_entry record_bytes encoded kind of
       None \<Rightarrow> (Inl None, (s, count))
     | Some entry \<Rightarrow> (case visitor entry s of
           (Inl e, s') \<Rightarrow> (Inl (Some e), (s', count))
         | (Inr _, s') \<Rightarrow> (Inr (), (s', count + 1))))"

definition visit_history ::
  "u8 list \<Rightarrow> (history_entry \<Rightarrow> 's \<Rightarrow> ('e + unit) \<times> 's) \<Rightarrow> 's
     \<Rightarrow> ('e option + nat \<times> bool) \<times> 's" where
  "visit_history data visitor s =
     (case walk_history (visit_entry visitor) data (s, 0) of
        (Inl e, (s', count)) \<Rightarrow> (Inl e, s')
      | (Inr found, (s', count)) \<Rightarrow> (Inr (count, found), s'))"

text \<open>\<open>parse_history\<close> pushes every entry and cannot fail; \<open>None\<close> is its \<open>expect\<close> failing.\<close>

definition parse_history :: "u8 list \<Rightarrow> parsed_history option" where
  "parse_history data =
     (case visit_history data (\<lambda>entry acc. (Inr () :: unit + unit, acc @ [entry])) [] of
        (Inl _, _) \<Rightarrow> None
      | (Inr (count, found), acc) \<Rightarrow> Some \<lparr>entries = acc, end_found = found\<rparr>)"

definition history_end_found :: "u8 list \<Rightarrow> bool option" where
  "history_end_found data =
     (case visit_history data (\<lambda>entry (u :: unit). (Inr () :: unit + unit, u)) () of
        (Inl _, _) \<Rightarrow> None
      | (Inr (count, found), _) \<Rightarrow> Some found)"

section \<open>The walk as a fold over a pure trace\<close>

text \<open>
  The reference: the records of a sector in order, without any visitor, and how the sector
  ends (\<open>None\<close> is the erased run). Running a visitor is folding it over this trace.
\<close>

fun fold_visit :: "('x \<Rightarrow> 's \<Rightarrow> ('e + unit) \<times> 's) \<Rightarrow> 'x list \<Rightarrow> 's \<Rightarrow> ('e + unit) \<times> 's" where
  "fold_visit f [] s = (Inr (), s)"
| "fold_visit f (x # xs) s =
     (case f x s of (Inl e, s') \<Rightarrow> (Inl e, s') | (Inr _, s') \<Rightarrow> fold_visit f xs s')"

function sector_trace ::
  "u8 list \<Rightarrow> nat \<Rightarrow> nat \<Rightarrow> nat \<Rightarrow> bool \<Rightarrow> nat \<Rightarrow> raw_entry list \<times> (bool \<times> nat) option" where
  "sector_trace data complete_length sector_start slot found_first empty_run =
    (if \<not> slot < entries_per_sector then ([], Some (found_first, empty_run))
     else
       let off = sector_start + slot * ENTRY_SIZE in
       if off + ENTRY_SIZE > complete_length then ([], Some (found_first, empty_run))
       else if found_first \<and> crosses_page off then
         sector_trace data complete_length sector_start
           (page_skip_slot sector_start slot off) found_first empty_run
       else
         let record_bytes = slice off (off + ENTRY_SIZE) data;
             encoded = read_u32 record_bytes 0 in
         if encoded = EMPTY_DATA then
           (if found_first \<and> EMPTY_RUN_END \<le> empty_run + 1 then ([], None)
            else sector_trace data complete_length sector_start (slot + 1) found_first
                   (if found_first then empty_run + 1 else empty_run))
         else if encoded AND 3 = 0 \<and> \<not> record_bytes ! 20 > 3 then
           (let (xs, r) = sector_trace data complete_length sector_start (slot + 1) True 0
            in (if plausible_voltages record_bytes
                then (record_bytes, encoded, Measurement) # xs else xs, r))
         else
           sector_trace data complete_length sector_start (slot + 1)
             (found_first \<or> encoded AND 3 = 2) 0)"
  by pat_completeness auto
termination
  by (relation "measure (\<lambda>(_, _, _, slot, _). entries_per_sector - slot)")
     (simp_all add: page_skip_slot_gt diff_less_mono2)

declare sector_trace.simps [simp del]

definition sector_outcome :: "(bool \<times> nat) option \<Rightarrow> 'e sector_result" where
  "sector_outcome r = (case r of None \<Rightarrow> EndOfLog | Some (f, n) \<Rightarrow> NextSector f n)"

lemma sector_outcome_simps [simp]:
  "sector_outcome None = EndOfLog" "sector_outcome (Some (f, n)) = NextSector f n"
  by (simp_all add: sector_outcome_def)

text \<open>
  One conditional equation per branch of the loop body, for the walk and for the trace; the
  proofs below only use these.
\<close>

definition slot_off :: "nat \<Rightarrow> nat \<Rightarrow> nat" where
  "slot_off ss slot = ss + slot * ENTRY_SIZE"

definition slot_record :: "u8 list \<Rightarrow> nat \<Rightarrow> nat \<Rightarrow> u8 list" where
  "slot_record data ss slot = slice (slot_off ss slot) (slot_off ss slot + ENTRY_SIZE) data"

definition slot_word :: "u8 list \<Rightarrow> nat \<Rightarrow> nat \<Rightarrow> u32" where
  "slot_word data ss slot = read_u32 (slot_record data ss slot) 0"

definition slot_open :: "nat \<Rightarrow> nat \<Rightarrow> nat \<Rightarrow> bool" where
  "slot_open cl ss slot \<longleftrightarrow> slot < entries_per_sector \<and> slot_off ss slot + ENTRY_SIZE \<le> cl"

definition slot_readable :: "nat \<Rightarrow> nat \<Rightarrow> nat \<Rightarrow> bool \<Rightarrow> bool" where
  "slot_readable cl ss slot ff \<longleftrightarrow> slot_open cl ss slot \<and> \<not> (ff \<and> crosses_page (slot_off ss slot))"

definition slot_measurement :: "u8 list \<Rightarrow> nat \<Rightarrow> nat \<Rightarrow> bool" where
  "slot_measurement data ss slot \<longleftrightarrow>
     slot_word data ss slot AND 3 = 0 \<and> \<not> slot_record data ss slot ! 20 > 3"

lemmas slot_defs = slot_off_def slot_record_def slot_word_def slot_open_def slot_readable_def
  slot_measurement_def

named_theorems slot_steps \<open>one equation per branch of the slot loop\<close>

lemma walk_closed [slot_steps]:
  "\<not> slot_open cl ss slot \<Longrightarrow> walk_sector f data cl ss slot ff er s = (NextSector ff er, s)"
  by (subst walk_sector.simps) (auto simp: slot_defs Let_def not_le)

lemma walk_skip [slot_steps]:
  "slot_open cl ss slot \<Longrightarrow> ff \<Longrightarrow> crosses_page (slot_off ss slot) \<Longrightarrow>
     walk_sector f data cl ss slot ff er s =
       walk_sector f data cl ss (page_skip_slot ss slot (slot_off ss slot)) ff er s"
  by (subst walk_sector.simps) (simp add: slot_defs Let_def)

lemma walk_empty [slot_steps]:
  "slot_readable cl ss slot ff \<Longrightarrow> slot_word data ss slot = EMPTY_DATA \<Longrightarrow>
     walk_sector f data cl ss slot ff er s =
       (if ff \<and> EMPTY_RUN_END \<le> er + 1 then (EndOfLog, s)
        else walk_sector f data cl ss (slot + 1) ff (if ff then er + 1 else er) s)"
  by (subst walk_sector.simps) (auto simp: slot_defs Let_def)

lemma walk_measurement [slot_steps]:
  "slot_readable cl ss slot ff \<Longrightarrow> slot_word data ss slot \<noteq> EMPTY_DATA \<Longrightarrow>
   slot_measurement data ss slot \<Longrightarrow>
     walk_sector f data cl ss slot ff er s =
       (if plausible_voltages (slot_record data ss slot) then
          (case f (slot_record data ss slot, slot_word data ss slot, Measurement) s of
             (Inl e, s') \<Rightarrow> (VisitorError e, s')
           | (Inr _, s') \<Rightarrow> walk_sector f data cl ss (slot + 1) True 0 s')
        else walk_sector f data cl ss (slot + 1) True 0 s)"
  by (subst walk_sector.simps) (auto simp: slot_defs Let_def)

lemma walk_other [slot_steps]:
  "slot_readable cl ss slot ff \<Longrightarrow> slot_word data ss slot \<noteq> EMPTY_DATA \<Longrightarrow>
   \<not> slot_measurement data ss slot \<Longrightarrow>
     walk_sector f data cl ss slot ff er s =
       walk_sector f data cl ss (slot + 1) (ff \<or> slot_word data ss slot AND 3 = 2) 0 s"
  by (subst walk_sector.simps) (auto simp: slot_defs Let_def)

lemma trace_closed [slot_steps]:
  "\<not> slot_open cl ss slot \<Longrightarrow> sector_trace data cl ss slot ff er = ([], Some (ff, er))"
  by (subst sector_trace.simps) (auto simp: slot_defs Let_def not_le)

lemma trace_skip [slot_steps]:
  "slot_open cl ss slot \<Longrightarrow> ff \<Longrightarrow> crosses_page (slot_off ss slot) \<Longrightarrow>
     sector_trace data cl ss slot ff er =
       sector_trace data cl ss (page_skip_slot ss slot (slot_off ss slot)) ff er"
  by (subst sector_trace.simps) (simp add: slot_defs Let_def)

lemma trace_empty [slot_steps]:
  "slot_readable cl ss slot ff \<Longrightarrow> slot_word data ss slot = EMPTY_DATA \<Longrightarrow>
     sector_trace data cl ss slot ff er =
       (if ff \<and> EMPTY_RUN_END \<le> er + 1 then ([], None)
        else sector_trace data cl ss (slot + 1) ff (if ff then er + 1 else er))"
  by (subst sector_trace.simps) (auto simp: slot_defs Let_def)

lemma trace_measurement [slot_steps]:
  "slot_readable cl ss slot ff \<Longrightarrow> slot_word data ss slot \<noteq> EMPTY_DATA \<Longrightarrow>
   slot_measurement data ss slot \<Longrightarrow>
     sector_trace data cl ss slot ff er =
       (case sector_trace data cl ss (slot + 1) True 0 of (xs, r) \<Rightarrow>
          (if plausible_voltages (slot_record data ss slot)
           then (slot_record data ss slot, slot_word data ss slot, Measurement) # xs else xs, r))"
  by (subst sector_trace.simps) (auto simp: slot_defs Let_def case_prod_unfold)

lemma trace_other [slot_steps]:
  "slot_readable cl ss slot ff \<Longrightarrow> slot_word data ss slot \<noteq> EMPTY_DATA \<Longrightarrow>
   \<not> slot_measurement data ss slot \<Longrightarrow>
     sector_trace data cl ss slot ff er =
       sector_trace data cl ss (slot + 1) (ff \<or> slot_word data ss slot AND 3 = 2) 0"
  by (subst sector_trace.simps) (auto simp: slot_defs Let_def)

text \<open>Induction over the remaining slots, with one case per branch.\<close>

lemma slot_induct [case_names Closed Skip Empty Measurement Other]:
  assumes "\<And>slot ff er. \<not> slot_open cl ss slot \<Longrightarrow> P slot ff er"
    and "\<And>slot ff er. slot_open cl ss slot \<Longrightarrow> ff \<Longrightarrow> crosses_page (slot_off ss slot) \<Longrightarrow>
           P (page_skip_slot ss slot (slot_off ss slot)) ff er \<Longrightarrow> P slot ff er"
    and "\<And>slot ff er. slot_readable cl ss slot ff \<Longrightarrow> slot_word data ss slot = EMPTY_DATA \<Longrightarrow>
           (\<not> (ff \<and> EMPTY_RUN_END \<le> er + 1) \<Longrightarrow> P (slot + 1) ff (if ff then er + 1 else er)) \<Longrightarrow>
           P slot ff er"
    and "\<And>slot ff er. slot_readable cl ss slot ff \<Longrightarrow> slot_word data ss slot \<noteq> EMPTY_DATA \<Longrightarrow>
           slot_measurement data ss slot \<Longrightarrow> P (slot + 1) True 0 \<Longrightarrow> P slot ff er"
    and "\<And>slot ff er. slot_readable cl ss slot ff \<Longrightarrow> slot_word data ss slot \<noteq> EMPTY_DATA \<Longrightarrow>
           \<not> slot_measurement data ss slot \<Longrightarrow>
           P (slot + 1) (ff \<or> slot_word data ss slot AND 3 = 2) 0 \<Longrightarrow> P slot ff er"
  shows "P slot ff er"
proof (induction "entries_per_sector - slot" arbitrary: slot ff er rule: less_induct)
  case less
  show ?case
  proof (cases "slot_open cl ss slot")
    case False
    then show ?thesis by (rule assms(1))
  next
    case True
    then have lt: "slot < entries_per_sector" by (simp add: slot_open_def)
    have IH: "P t g n" if "slot < t" for t g n
      by (rule less.hyps) (use lt that in simp)
    show ?thesis
    proof (cases "ff \<and> crosses_page (slot_off ss slot)")
      case True
      then have ff and "crosses_page (slot_off ss slot)" by auto
      with \<open>slot_open cl ss slot\<close> show ?thesis
        by (rule assms(2)) (rule IH, rule page_skip_slot_gt)
    next
      case False
      with \<open>slot_open cl ss slot\<close> have rd: "slot_readable cl ss slot ff"
        by (simp add: slot_readable_def)
      show ?thesis
      proof (cases "slot_word data ss slot = EMPTY_DATA")
        case True
        show ?thesis by (rule assms(3) [OF rd True], rule IH, simp)
      next
        case word: False
        show ?thesis
        proof (cases "slot_measurement data ss slot")
          case True
          show ?thesis by (rule assms(4) [OF rd word True], rule IH, simp)
        next
          case False
          show ?thesis by (rule assms(5) [OF rd word False], rule IH, simp)
        qed
      qed
    qed
  qed
qed

lemma walk_sector_trace:
  "walk_sector f data cl ss slot ff er s =
     (case sector_trace data cl ss slot ff er of (xs, r) \<Rightarrow>
       (case fold_visit f xs s of
          (Inl e, s') \<Rightarrow> (VisitorError e, s')
        | (Inr _, s') \<Rightarrow> (sector_outcome r, s')))"
  by (induction slot ff er arbitrary: s rule: slot_induct [where cl = cl and ss = ss and data = data])
     (auto simp: slot_steps split: prod.splits sum.splits)

text \<open>The whole walk: the records of every sector up to the end of the log.\<close>

fun sectors_trace ::
  "u8 list \<Rightarrow> nat \<Rightarrow> nat list \<Rightarrow> bool \<Rightarrow> nat \<Rightarrow> raw_entry list \<times> bool" where
  "sectors_trace data cl [] ff er = ([], cl = FLASH_LENGTH)"
| "sectors_trace data cl (sector # rest) ff er =
     (case sector_trace data cl (sector * FLASH_SECTOR_SIZE) 0 ff er of
        (xs, None) \<Rightarrow> (xs, True)
      | (xs, Some (ff', er')) \<Rightarrow>
          (case sectors_trace data cl rest ff' er' of (ys, found) \<Rightarrow> (xs @ ys, found)))"

definition history_trace :: "u8 list \<Rightarrow> raw_entry list \<times> bool" where
  "history_trace data =
     (let sectors = length data div FLASH_SECTOR_SIZE
      in sectors_trace data (sectors * FLASH_SECTOR_SIZE) [0..<sectors] False 0)"

lemma fold_visit_append:
  "fold_visit f (xs @ ys) s =
     (case fold_visit f xs s of (Inl e, s') \<Rightarrow> (Inl e, s') | (Inr _, s') \<Rightarrow> fold_visit f ys s')"
  by (induction xs arbitrary: s) (auto split: prod.splits sum.splits)

lemma walk_sectors_trace:
  "walk_sectors f data cl secs ff er s =
     (case fold_visit f (fst (sectors_trace data cl secs ff er)) s of
        (Inl e, s') \<Rightarrow> (Inl e, s')
      | (Inr _, s') \<Rightarrow> (Inr (snd (sectors_trace data cl secs ff er)), s'))"
proof (induction secs arbitrary: ff er s)
  case Nil
  then show ?case by simp
next
  case (Cons sector rest)
  then show ?case
    by (auto simp: walk_sector_trace Let_def fold_visit_append split: prod.splits sum.splits option.splits)
qed

lemma walk_history_trace:
  "walk_history f data s =
     (case fold_visit f (fst (history_trace data)) s of
        (Inl e, s') \<Rightarrow> (Inl e, s')
      | (Inr _, s') \<Rightarrow> (Inr (snd (history_trace data)), s'))"
  unfolding walk_history_def history_trace_def Let_def by (rule walk_sectors_trace)

section \<open>What a reported record satisfies\<close>

definition good_record :: "u8 list \<Rightarrow> raw_entry \<Rightarrow> bool" where
  "good_record data x = (case x of (record_bytes, encoded, kind) \<Rightarrow>
     (\<exists>off. off + ENTRY_SIZE \<le> length data \<and> record_bytes = slice off (off + ENTRY_SIZE) data)
     \<and> encoded = read_u32 record_bytes 0 \<and> encoded \<noteq> EMPTY_DATA \<and> encoded AND 3 = 0
     \<and> kind = Measurement \<and> record_bytes ! 20 \<le> 3 \<and> plausible_voltages record_bytes)"

lemma slot_record_good:
  "cl \<le> length data \<Longrightarrow> slot_readable cl ss slot ff \<Longrightarrow> slot_word data ss slot \<noteq> EMPTY_DATA \<Longrightarrow>
   slot_measurement data ss slot \<Longrightarrow> plausible_voltages (slot_record data ss slot) \<Longrightarrow>
     good_record data (slot_record data ss slot, slot_word data ss slot, Measurement)"
  unfolding good_record_def slot_measurement_def slot_readable_def slot_open_def
  by (auto simp: slot_record_def slot_word_def not_less intro!: exI [of _ "slot_off ss slot"])

lemma sector_trace_good:
  assumes "cl \<le> length data"
  shows "\<forall>x\<in>set (fst (sector_trace data cl ss slot ff er)). good_record data x"
  using assms
  by (induction slot ff er rule: slot_induct [where cl = cl and ss = ss and data = data])
     (auto simp: slot_steps slot_record_good split: prod.splits)

lemma sectors_trace_good:
  "cl \<le> length data \<Longrightarrow> \<forall>x\<in>set (fst (sectors_trace data cl secs ff er)). good_record data x"
proof (induction secs arbitrary: ff er)
  case Nil
  then show ?case by simp
next
  case (Cons sector rest)
  obtain xs r where xs: "sector_trace data cl (sector * FLASH_SECTOR_SIZE) 0 ff er = (xs, r)"
    by fastforce
  have "\<forall>x\<in>set xs. good_record data x"
    using sector_trace_good [OF Cons.prems] xs by (metis fst_conv)
  with Cons xs show ?case
    by (auto split: option.splits prod.splits) (metis Cons.IH fst_conv)+
qed

lemma history_trace_good: "\<forall>x\<in>set (fst (history_trace data)). good_record data x"
  unfolding history_trace_def Let_def by (rule sectors_trace_good) simp

section \<open>Decoded entries\<close>

definition entry_of :: "raw_entry \<Rightarrow> history_entry" where
  "entry_of x = (case x of (record_bytes, encoded, kind) \<Rightarrow> the (decode_entry record_bytes encoded kind))"

lemma history_cable_capability_le3: "v \<le> 3 \<Longrightarrow> \<exists>c\<in>{600, 450, 300, 150}. history_cable_capability v = Some c"
proof -
  assume "v \<le> 3"
  then have "unat v \<le> 3" by (simp add: word_le_nat_alt)
  then have "unat v = 0 \<or> unat v = 1 \<or> unat v = 2 \<or> unat v = 3" by linarith
  then have "v = 0 \<or> v = 1 \<or> v = 2 \<or> v = 3" by (auto simp: word_eq_iff_unsigned [where ?'a = nat])
  then show ?thesis by (auto simp: history_cable_capability_def)
qed

lemma decode_entry_good:
  assumes "good_record data x"
  shows "\<exists>e. decode_entry (fst x) (fst (snd x)) (snd (snd x)) = Some e"
proof -
  from assms have "fst x ! 20 \<le> 3" by (auto simp: good_record_def)
  then show ?thesis using history_cable_capability_le3 by (fastforce simp: decode_entry_def Let_def)
qed

definition well_formed_entry :: "history_entry \<Rightarrow> bool" where
  "well_formed_entry e \<longleftrightarrow> h_kind e = Measurement \<and> device_time_ms e < 2 ^ 30 \<and>
     h_cable_capability_w (h_metrics e) \<in> {600, 450, 300, 150} \<and> length (h_pins (h_metrics e)) = 6"

lemma drop_bit_2_bound: "drop_bit 2 (w :: u32) AND 0x3fffffff < 0x40000000"
proof -
  have "drop_bit 2 w AND 0x3fffffff \<le> 0x3fffffff" by (rule word_and_le1)
  then show ?thesis by (rule le_less_trans) simp
qed

lemma entry_of_well_formed:
  assumes "good_record data x"
  shows "well_formed_entry (entry_of x)"
proof -
  obtain rb enc k where x: "x = (rb, enc, k)" by (cases x) auto
  from assms obtain off where off: "off + ENTRY_SIZE \<le> length data" "rb = slice off (off + ENTRY_SIZE) data"
    and k: "k = Measurement" and le: "rb ! 20 \<le> 3"
    by (auto simp: good_record_def x)
  obtain c where c: "c \<in> {600, 450, 300, 150}" "history_cable_capability (rb ! 20) = Some c"
    using history_cable_capability_le3 [OF le] by auto
  have "length rb = 21" using off by (simp add: ENTRY_SIZE_def)
  then show ?thesis
    using c k by (auto simp: well_formed_entry_def entry_of_def x decode_entry_def Let_def
        history_pins_def drop_bit_2_bound)
qed

lemma fold_visit_entries:
  "\<forall>x\<in>set xs. good_record data x \<Longrightarrow>
   \<exists>m. fold_visit (visit_entry v) xs (s, n) =
     (case fold_visit v (map entry_of xs) s of
        (Inl e, s') \<Rightarrow> (Inl (Some e), (s', m))
      | (Inr _, s') \<Rightarrow> (Inr (), (s', n + length xs)))"
proof (induction xs arbitrary: s n)
  case Nil
  then show ?case by simp
next
  case (Cons x xs)
  obtain rb enc k where x: "x = (rb, enc, k)" by (cases x) auto
  obtain e where e: "decode_entry rb enc k = Some e" using decode_entry_good Cons.prems x by fastforce
  obtain r s' where r: "v e s = (r, s')" by fastforce
  show ?case
  proof (cases r)
    case (Inl a)
    then show ?thesis by (auto simp: visit_entry_def x e entry_of_def r)
  next
    case (Inr a)
    from Cons.IH [of s' "n + 1"] Cons.prems obtain m where
      "fold_visit (visit_entry v) xs (s', n + 1) =
        (case fold_visit v (map entry_of xs) s' of
          (Inl e, s'') \<Rightarrow> (Inl (Some e), (s'', m))
        | (Inr _, s'') \<Rightarrow> (Inr (), (s'', n + 1 + length xs)))" by auto
    moreover have "fold_visit (visit_entry v) (x # xs) (s, n) = fold_visit (visit_entry v) xs (s', n + 1)"
      by (simp add: visit_entry_def x e r Inr)
    moreover have "fold_visit v (map entry_of (x # xs)) s = fold_visit v (map entry_of xs) s'"
      by (simp add: x e r Inr entry_of_def)
    ultimately show ?thesis by (intro exI [of _ m]) (simp split: sum.splits prod.splits)
  qed
qed

lemma visit_history_trace:
  "visit_history data v s =
     (case fold_visit v (map entry_of (fst (history_trace data))) s of
        (Inl e, s') \<Rightarrow> (Inl (Some e), s')
      | (Inr _, s') \<Rightarrow> (Inr (length (fst (history_trace data)), snd (history_trace data)), s'))"
proof -
  obtain m where "fold_visit (visit_entry v) (fst (history_trace data)) (s, 0) =
     (case fold_visit v (map entry_of (fst (history_trace data))) s of
        (Inl e, s') \<Rightarrow> (Inl (Some e), (s', m))
      | (Inr _, s') \<Rightarrow> (Inr (), (s', 0 + length (fst (history_trace data)))))"
    using fold_visit_entries [OF history_trace_good, of v data s 0] by (elim exE)
  then show ?thesis
    by (auto simp: visit_history_def walk_history_trace split: prod.splits sum.splits)
qed

lemma fold_visit_collect:
  "fold_visit (\<lambda>x acc. (Inr (), acc @ [x])) xs acc = (Inr (), acc @ xs)"
  by (induction xs arbitrary: acc) auto

lemma parse_history_trace:
  "parse_history data =
     Some \<lparr>entries = map entry_of (fst (history_trace data)), end_found = snd (history_trace data)\<rparr>"
  by (simp add: parse_history_def visit_history_trace fold_visit_collect)

lemma fold_visit_unit: "fold_visit (\<lambda>x (u :: unit). (Inr (), u)) xs () = (Inr (), ())"
  by (induction xs) auto

lemma history_end_found_trace: "history_end_found data = Some (snd (history_trace data))"
  by (simp add: history_end_found_def visit_history_trace fold_visit_unit)

section \<open>The end of the log\<close>

lemma slot_in_sector: "slot < entries_per_sector \<Longrightarrow> slot_off ss slot + ENTRY_SIZE \<le> ss + FLASH_SECTOR_SIZE"
  by (simp add: slot_off_def entries_per_sector_def ENTRY_SIZE_def FLASH_SECTOR_SIZE_def)

text \<open>
  The walk as one pass over the offsets of the record positions: a skipped page end is one
  position, so once the log has begun the positions read are those that do not cross a page.
\<close>

definition sector_offsets :: "nat \<Rightarrow> nat list" where
  "sector_offsets sector_start = map (\<lambda>slot. sector_start + slot * ENTRY_SIZE) [0..<entries_per_sector]"

definition record_offsets :: "nat \<Rightarrow> nat list" where
  "record_offsets sectors = concat (map (\<lambda>sector. sector_offsets (sector * FLASH_SECTOR_SIZE)) [0..<sectors])"

text \<open>A position that begins the recorded region: a measurement or a power-on marker.\<close>

definition starts_log :: "u8 list \<Rightarrow> nat \<Rightarrow> bool" where
  "starts_log data off \<longleftrightarrow> \<not> crosses_page off \<and> read_u32 data off \<noteq> EMPTY_DATA
     \<and> (read_u32 data off AND 3 = 0 \<and> data ! (off + 20) \<le> 3 \<or> read_u32 data off AND 3 = 2)"

fun offsets_trace ::
  "u8 list \<Rightarrow> nat list \<Rightarrow> bool \<Rightarrow> nat \<Rightarrow> raw_entry list \<times> (bool \<times> nat) option" where
  "offsets_trace data [] ff er = ([], Some (ff, er))"
| "offsets_trace data (off # rest) ff er =
     (let record_bytes = slice off (off + ENTRY_SIZE) data; encoded = read_u32 record_bytes 0 in
      if ff \<and> crosses_page off then offsets_trace data rest ff er
      else if encoded = EMPTY_DATA then
        (if ff \<and> EMPTY_RUN_END \<le> er + 1 then ([], None)
         else offsets_trace data rest ff (if ff then er + 1 else er))
      else if encoded AND 3 = 0 \<and> \<not> record_bytes ! 20 > 3 then
        (case offsets_trace data rest True 0 of (xs, r) \<Rightarrow>
          (if plausible_voltages record_bytes then (record_bytes, encoded, Measurement) # xs else xs, r))
      else offsets_trace data rest (ff \<or> encoded AND 3 = 2) 0)"

lemma page_skip_next:
  assumes "crosses_page (slot_off ss slot)"
  shows "page_skip_slot ss slot (slot_off ss slot) = slot + 1"
proof -
  let ?off = "slot_off ss slot"
  define off1 where "off1 = ?off + (256 - ?off mod 256)"
  define off2 where "off2 = (if off1 mod 21 \<noteq> 0 then off1 + (21 - off1 mod 21) else off1)"
  have "?off mod 256 > 235" using assms by (simp add: crosses_page_def history_consts)
  then have "off1 \<le> ?off + 20" by (simp add: off1_def)
  then have "off2 \<le> ?off + 41" by (auto simp: off2_def)
  then have "off2 - ss < 21 * (slot + 2)" by (simp add: slot_off_def ENTRY_SIZE_def)
  then have "(off2 - ss) div 21 < slot + 2" by (simp add: div_less_iff_less_mult mult.commute)
  moreover have "page_skip_slot ss slot ?off = max ((off2 - ss) div 21) (slot + 1)"
    unfolding page_skip_slot_def Let_def history_consts off1_def [symmetric] off2_def ..
  ultimately show ?thesis by simp
qed

lemma sector_offsets_trace:
  assumes "ss + FLASH_SECTOR_SIZE \<le> cl"
  shows "sector_trace data cl ss slot ff er
    = offsets_trace data (map (\<lambda>t. ss + t * ENTRY_SIZE) [slot..<entries_per_sector]) ff er"
proof -
  have op: "slot_open cl ss t \<longleftrightarrow> t < entries_per_sector" for t
    using slot_in_sector [of t ss] assms by (auto simp: slot_open_def)
  have rest: "map (\<lambda>t. ss + t * ENTRY_SIZE) [t..<entries_per_sector]
      = slot_off ss t # map (\<lambda>t. ss + t * ENTRY_SIZE) [t + 1..<entries_per_sector]"
    if "t < entries_per_sector" for t
    using that by (simp add: upt_conv_Cons slot_off_def)
  show ?thesis
  proof (induction slot ff er rule: slot_induct [where cl = cl and ss = ss and data = data])
    case (Closed slot ff er)
    then show ?case by (simp add: slot_steps op)
  next
    case (Skip slot ff er)
    then show ?case by (simp add: slot_steps rest op page_skip_next Let_def)
  next
    case (Empty slot ff er)
    then show ?case by (auto simp: slot_steps rest op slot_readable_def slot_word_def slot_record_def Let_def)
  next
    case (Measurement slot ff er)
    then show ?case
      by (cases "offsets_trace data (map (\<lambda>t. ss + t * ENTRY_SIZE) [slot + 1..<entries_per_sector]) True 0")
        (auto simp: slot_steps rest op slot_readable_def slot_word_def slot_record_def
          slot_measurement_def Let_def)
  next
    case (Other slot ff er)
    then show ?case
      by (auto simp: slot_steps rest op slot_readable_def slot_word_def slot_record_def
          slot_measurement_def Let_def)
  qed
qed

lemma offsets_trace_append:
  "offsets_trace data (xs @ ys) ff er =
     (case offsets_trace data xs ff er of
        (es, None) \<Rightarrow> (es, None)
      | (es, Some (ff', er')) \<Rightarrow> (case offsets_trace data ys ff' er' of (fs, r) \<Rightarrow> (es @ fs, r)))"
  by (induction xs arbitrary: ff er) (auto simp: Let_def split: prod.splits option.splits)

lemma sectors_offsets_trace:
  assumes "\<forall>sec\<in>set secs. (sec + 1) * FLASH_SECTOR_SIZE \<le> cl"
  shows "sectors_trace data cl secs ff er =
    (case offsets_trace data (concat (map (\<lambda>sec. sector_offsets (sec * FLASH_SECTOR_SIZE)) secs)) ff er of
       (es, None) \<Rightarrow> (es, True) | (es, Some _) \<Rightarrow> (es, cl = FLASH_LENGTH))"
  using assms
proof (induction secs arbitrary: ff er)
  case (Cons sec rest)
  have "sector_trace data cl (sec * FLASH_SECTOR_SIZE) 0 ff er
      = offsets_trace data (sector_offsets (sec * FLASH_SECTOR_SIZE)) ff er"
    unfolding sector_offsets_def by (rule sector_offsets_trace) (use Cons.prems in auto)
  then show ?case
    using Cons by (auto simp: offsets_trace_append split: prod.splits option.splits)
qed simp

lemma history_offsets_trace:
  "history_trace data =
    (case offsets_trace data (record_offsets (length data div FLASH_SECTOR_SIZE)) False 0 of
       (es, None) \<Rightarrow> (es, True)
     | (es, Some _) \<Rightarrow> (es, length data div FLASH_SECTOR_SIZE * FLASH_SECTOR_SIZE = FLASH_LENGTH))"
  unfolding history_trace_def Let_def record_offsets_def
  by (rule sectors_offsets_trace) (auto simp: FLASH_SECTOR_SIZE_def)

lemma offsets_trace_cong:
  "(\<And>off. off \<in> set offs \<Longrightarrow> slice off (off + ENTRY_SIZE) a = slice off (off + ENTRY_SIZE) b) \<Longrightarrow>
     offsets_trace a offs ff er = offsets_trace b offs ff er"
  by (induction offs arbitrary: ff er) (simp_all add: Let_def)

lemma offsets_trace_run:
  assumes "\<forall>off\<in>set run. crosses_page off \<or> read_u32 (slice off (off + ENTRY_SIZE) data) 0 = EMPTY_DATA"
    and "EMPTY_RUN_END \<le> er + length (filter (\<lambda>off. \<not> crosses_page off) run)" and "er < EMPTY_RUN_END"
  shows "offsets_trace data run True er = ([], None)"
  using assms by (induction run arbitrary: er) (auto simp: Let_def)

text \<open>The positions of a sector, and of all sectors, are apart by a record.\<close>

lemma record_offsets_bound:
  "off \<in> set (record_offsets n) \<Longrightarrow> off + ENTRY_SIZE \<le> n * FLASH_SECTOR_SIZE"
proof -
  assume "off \<in> set (record_offsets n)"
  then obtain sec t where o: "off = sec * FLASH_SECTOR_SIZE + t * ENTRY_SIZE" "sec < n" "t < entries_per_sector"
    by (auto simp: record_offsets_def sector_offsets_def)
  have "off + ENTRY_SIZE \<le> (sec + 1) * FLASH_SECTOR_SIZE"
    using slot_in_sector [OF o(3), of "sec * FLASH_SECTOR_SIZE"] by (simp add: slot_off_def o(1))
  also have "\<dots> \<le> n * FLASH_SECTOR_SIZE" using o(2) by (intro mult_le_mono1) simp
  finally show ?thesis .
qed

lemma record_offsets_apart: "sorted_wrt (\<lambda>x y. x + ENTRY_SIZE \<le> y) (record_offsets n)"
proof (induction n)
  case (Suc n)
  have "sorted_wrt (\<lambda>x y. x + ENTRY_SIZE \<le> y) (map (\<lambda>slot. ss + slot * ENTRY_SIZE) [0..<k])" for ss k
    by (induction k) (auto simp: sorted_wrt_append ENTRY_SIZE_def)
  moreover have "record_offsets (Suc n) = record_offsets n @ sector_offsets (n * FLASH_SECTOR_SIZE)"
    by (simp add: record_offsets_def)
  ultimately show ?case
    using Suc record_offsets_bound [of _ n]
    by (auto simp: sorted_wrt_append sector_offsets_def intro: trans_le_add1)
qed (simp add: record_offsets_def)

lemma record_offsets_prefix:
  assumes "n \<le> m"
  shows "\<exists>later. record_offsets m = record_offsets n @ later \<and> (\<forall>off\<in>set later. n * FLASH_SECTOR_SIZE \<le> off)"
proof (intro exI conjI)
  have "[0..<m] = [0..<n] @ [n..<m]" using assms upt_add_eq_append [of 0 n "m - n"] by simp
  then show "record_offsets m = record_offsets n
      @ concat (map (\<lambda>sector. sector_offsets (sector * FLASH_SECTOR_SIZE)) [n..<m])"
    by (simp add: record_offsets_def)
  show "\<forall>off\<in>set (concat (map (\<lambda>sector. sector_offsets (sector * FLASH_SECTOR_SIZE)) [n..<m])).
      n * FLASH_SECTOR_SIZE \<le> off"
    by (auto simp: sector_offsets_def intro: trans_le_add1)
qed

lemma slice_agrees:
  assumes "take k a = take k b" and "j \<le> k"
  shows "slice i j a = slice i j b"
proof -
  have "slice i j xs = slice i j (take k xs)" for xs :: "'a list"
    using assms(2) by (simp add: slice_def drop_take min_def)
  then show ?thesis using assms(1) by metis
qed

lemma read_u32_slice:
  "off + ENTRY_SIZE \<le> length data \<Longrightarrow> read_u32 (slice off (off + ENTRY_SIZE) data) 0 = read_u32 data off"
  by (simp add: read_u32_def nth_slice ENTRY_SIZE_def)

lemma read_u32_agrees:
  assumes "take k a = take k b" and "off + 4 \<le> k"
  shows "read_u32 a off = read_u32 b off"
proof -
  have "a ! i = b ! i" if "i < k" for i using assms(1) that by (metis nth_take)
  then show ?thesis using assms(2) by (simp add: read_u32_def)
qed

lemma offsets_trace_marker:
  assumes "offsets_trace data (run @ after) True 0 = ([], None)" and "\<not> crosses_page marker"
    and "rb = slice marker (marker + ENTRY_SIZE) data" and "read_u32 rb 0 \<noteq> EMPTY_DATA"
    and "read_u32 rb 0 AND 3 = 0 \<and> rb ! 20 \<le> 3 \<or> read_u32 rb 0 AND 3 = 2"
  shows "offsets_trace data (marker # run @ after) ff er =
    (if read_u32 rb 0 AND 3 = 0 \<and> plausible_voltages rb then [(rb, read_u32 rb 0, Measurement)] else [], None)"
  using assms by (auto simp: Let_def)

lemma erased_run_stops:
  assumes offs: "record_offsets (length data div FLASH_SECTOR_SIZE) = before @ marker # run @ after"
    and ne: "run \<noteq> []" and m: "starts_log data marker"
    and erased: "\<forall>off\<in>set run. crosses_page off \<or> read_u32 data off = EMPTY_DATA"
    and count: "EMPTY_RUN_END \<le> length (filter (\<lambda>off. \<not> crosses_page off) run)"
    and agree: "take (List.last run + 4) other = take (List.last run + 4) data"
    and covers: "List.last run < length other div FLASH_SECTOR_SIZE * FLASH_SECTOR_SIZE"
  shows "\<exists>xs. history_trace data = (xs, True) \<and> history_trace other = (xs, True)"
proof -
  let ?n = "length data div FLASH_SECTOR_SIZE" and ?m = "length other div FLASH_SECTOR_SIZE"
  define stop where "stop = List.last run"
  have run: "run = butlast run @ [stop]" using ne by (simp add: stop_def)
  have apart: "off + ENTRY_SIZE \<le> stop" if "off \<in> set (before @ marker # butlast run)" for off
    using record_offsets_apart [of ?n] that unfolding offs
    by (subst (asm) run) (auto simp: sorted_wrt_append)
  have "\<exists>after'. record_offsets ?m = before @ marker # run @ after'"
  proof (cases "?n \<le> ?m")
    case True
    then show ?thesis using record_offsets_prefix [OF True] offs by auto
  next
    case False
    then obtain later where l: "before @ marker # run @ after = record_offsets ?m @ later"
      "\<forall>off\<in>set later. ?m * FLASH_SECTOR_SIZE \<le> off"
      using record_offsets_prefix [of ?m ?n] offs by auto
    from l(1) have "(before @ marker # run) @ after = record_offsets ?m @ later" by simp
    then obtain us where "before @ marker # run = record_offsets ?m @ us \<and> us @ after = later
        \<or> (before @ marker # run) @ us = record_offsets ?m \<and> after = us @ later"
      unfolding append_eq_append_conv2 by blast
    moreover have "us = []" if u: "before @ marker # run = record_offsets ?m @ us" "us @ after = later"
    proof (rule ccontr)
      assume "us \<noteq> []"
      then have "List.last us = stop" using arg_cong [OF u(1), of List.last] ne by (simp add: stop_def)
      then have "stop \<in> set later" using \<open>us \<noteq> []\<close> u(2) by (metis Un_iff last_in_set set_append)
      then show False using l(2) covers by (auto simp: stop_def not_less)
    qed
    ultimately consider "before @ marker # run = record_offsets ?m" | "record_offsets ?m = before @ marker # run @ us"
      by fastforce
    then show ?thesis by cases (metis append_Nil2 append_assoc append_Cons, blast)
  qed
  then obtain after' where offs': "record_offsets ?m = before @ marker # run @ after'" by blast
  have len: "off + ENTRY_SIZE \<le> length data" "off + ENTRY_SIZE \<le> length other"
    if "off \<in> set (before @ marker # run)" for off
    using record_offsets_bound [of off ?n] record_offsets_bound [of off ?m] that offs offs'
      div_times_less_eq_dividend [of "length data" FLASH_SECTOR_SIZE]
      div_times_less_eq_dividend [of "length other" FLASH_SECTOR_SIZE]
    by (auto intro: le_trans)
  have same: "slice off (off + ENTRY_SIZE) other = slice off (off + ENTRY_SIZE) data"
    if "off \<in> set (before @ [marker])" for off
    using apart [of off] that by (intro slice_agrees [OF agree]) (auto simp: stop_def)
  have word: "read_u32 other off = read_u32 data off" if "off \<in> set run" for off
  proof (rule read_u32_agrees [OF agree])
    have "off = stop \<or> off \<in> set (butlast run)" using that by (subst (asm) run) auto
    then show "off + 4 \<le> List.last run + 4" using apart [of off] by (auto simp: stop_def)
  qed
  have stops: "offsets_trace d (run @ rest) True 0 = ([], None)"
    if "d = data \<or> d = other" for d rest
  proof -
    have "offsets_trace d run True 0 = ([], None)"
      using that erased word len count
      by (intro offsets_trace_run) (auto simp: read_u32_slice EMPTY_RUN_END_def)
    then show ?thesis by (simp add: offsets_trace_append)
  qed
  define rb where "rb = slice marker (marker + ENTRY_SIZE) data"
  have rbo: "rb = slice marker (marker + ENTRY_SIZE) other" using same by (simp add: rb_def)
  have mk: "\<not> crosses_page marker" "read_u32 rb 0 \<noteq> EMPTY_DATA"
    "read_u32 rb 0 AND 3 = 0 \<and> rb ! 20 \<le> 3 \<or> read_u32 rb 0 AND 3 = 2"
    using m read_u32_slice [OF len(1) [of marker]] nth_slice [of marker 20 "marker + ENTRY_SIZE" data]
      len(1) [of marker]
    by (auto simp: starts_log_def rb_def ENTRY_SIZE_def)
  obtain es r where b: "offsets_trace data before False 0 = (es, r)" by fastforce
  then have bo: "offsets_trace other before False 0 = (es, r)"
    using offsets_trace_cong [of before other data False 0] same by simp
  show ?thesis
    unfolding history_offsets_trace offs offs'
    using offsets_trace_marker [OF stops [of data after] mk(1) rb_def mk(2,3)]
      offsets_trace_marker [OF stops [of other after'] mk(1) rbo mk(2,3)]
    by (cases r) (auto simp only: offsets_trace_append b bo split: option.splits prod.splits, auto)
qed

text \<open>A log for the witnesses: one sector with one measurement and the rest erased.\<close>

definition example_record :: "u8 list" where
  "example_record = [4, 0, 0, 0, 30, 31, 0, 156] @ replicate 6 120 @ replicate 6 80 @ [0]"

definition example_log :: "u8 list" where
  "example_log = example_record @ replicate 4075 255"

lemma length_example_record: "length example_record = 21"
  by (simp add: example_record_def)

lemma length_example_log: "length example_log = FLASH_SECTOR_SIZE"
  by (simp add: example_log_def example_record_def FLASH_SECTOR_SIZE_def)

lemma example_slot_0: "slot_record example_log 0 0 = example_record"
  by (simp add: slot_record_def slot_off_def slice_def ENTRY_SIZE_def example_log_def example_record_def)

lemma example_slot_erased:
  "0 < t \<Longrightarrow> slot_open 4096 0 t \<Longrightarrow> slot_record example_log 0 t = replicate 21 255"
  by (cases t) (auto simp: slot_record_def slot_off_def slice_def ENTRY_SIZE_def slot_open_def
      example_log_def length_example_record min_def)

lemma example_word_erased:
  "0 < t \<Longrightarrow> slot_open 4096 0 t \<Longrightarrow> slot_word example_log 0 t = EMPTY_DATA"
  by (simp add: slot_word_def example_slot_erased EMPTY_DATA_def)
    code_simp

lemma example_erased_run: "sector_trace example_log 4096 0 1 True 0 = ([], None)"
  by (simp add: slot_steps slot_readable_def example_word_erased crosses_page_def page_skip_slot_def
      slot_open_def slot_off_def entries_per_sector_def history_consts)

lemma example_record_plausible: "\<not> example_record ! 20 > 3 \<and> plausible_voltages example_record"
  by code_simp

lemma example_trace:
  "history_trace example_log = ([(example_record, 4, Measurement)], True)"
proof -
  have w: "slot_word example_log 0 0 = 4"
    by (simp add: slot_word_def example_slot_0) code_simp
  have "sector_trace example_log 4096 0 0 False 0 = ([(example_record, 4, Measurement)], None)"
    by (subst trace_measurement)
      (simp_all add: slot_readable_def slot_open_def slot_off_def entries_per_sector_def history_consts
        w EMPTY_DATA_def slot_measurement_def example_slot_0 example_erased_run [simplified]
        example_record_plausible)
  then show ?thesis by (simp add: history_trace_def length_example_log FLASH_SECTOR_SIZE_def)
qed

section \<open>Properties\<close>

text \<open>C21: streaming the log through \<open>visit_history\<close> is the same as parsing it completely and
  then showing the entries to the visitor one by one: the same entries in the same order, the
  visitor's first error stops the walk and is returned with the state at that moment, and
  otherwise the summary counts every entry and carries the parser's end flag. In particular
  \<open>parse_history\<close> returns for every input and the \<open>unreachable!\<close> in the record decoder is
  never reached.\<close>

theorem visit_history_streams_parse_history:
  "\<exists>p. parse_history data = Some p \<and>
     visit_history data visitor s =
       (case fold_visit visitor (entries p) s of
          (Inl e, s') \<Rightarrow> (Inl (Some e), s')
        | (Inr _, s') \<Rightarrow> (Inr (length (entries p), end_found p), s'))"
  unfolding parse_history_trace by (rule exI, rule conjI, rule refl)
    (simp add: visit_history_trace split: sum.splits prod.splits)

text \<open>C39: every entry the parser reports is a measurement (a power-on marker is never decoded as
  one), carries a 30-bit device time, one of the four cable capabilities and exactly six pins.\<close>

theorem parse_history_entries_well_formed:
  assumes "parse_history data = Some p" and "e \<in> set (entries p)"
  shows "h_kind e = Measurement \<and> device_time_ms e < 2 ^ 30
    \<and> h_cable_capability_w (h_metrics e) \<in> {600, 450, 300, 150} \<and> length (h_pins (h_metrics e)) = 6"
proof -
  from assms obtain x where "x \<in> set (fst (history_trace data))" "e = entry_of x"
    by (auto simp: parse_history_trace)
  then show ?thesis
    using history_trace_good entry_of_well_formed unfolding well_formed_entry_def by blast
qed

theorem parse_history_entries_well_formed_witness:
  "\<exists>e. device_time_ms e < 2 ^ 30 \<and> parse_history example_log = Some \<lparr>entries = [e], end_found = True\<rparr>"
proof -
  have p: "parse_history example_log =
      Some \<lparr>entries = [entry_of (example_record, 4, Measurement)], end_found = True\<rparr>"
    by (simp add: parse_history_trace example_trace)
  show ?thesis using parse_history_entries_well_formed [OF p] p by auto
qed

text \<open>C38: an erased run ends the log. When a record or a power-on marker is followed by record positions
  of which all that hold a record (the firmware pads a page's end) are erased, at least 32 of
  them, then nothing after the last erased word is read: whatever bytes follow it, in the same
  sector or later, and however long the rest of the log is, the entries are the same and the end
  is found.\<close>

theorem parse_history_stops_at_end_of_log:
  assumes "record_offsets (length data div FLASH_SECTOR_SIZE) = before @ marker # run @ after"
    and "starts_log data marker"
    and "\<forall>off\<in>set run. crosses_page off \<or> read_u32 data off = EMPTY_DATA"
    and "EMPTY_RUN_END \<le> length (filter (\<lambda>off. \<not> crosses_page off) run)"
    and "take (List.last run + 4) other = take (List.last run + 4) data"
    and "List.last run < length other div FLASH_SECTOR_SIZE * FLASH_SECTOR_SIZE"
  shows "parse_history other = parse_history data \<and> history_end_found other = Some True"
proof -
  have ne: "run \<noteq> []" using assms(4) by (auto simp: EMPTY_RUN_END_def)
  obtain xs where d: "history_trace data = (xs, True)" and o: "history_trace other = (xs, True)"
    using erased_run_stops [OF assms(1) ne assms(2-6)] by blast
  show ?thesis by (simp add: parse_history_trace history_end_found_trace d o)
qed

theorem parse_history_stops_at_end_of_log_witness:
  "\<exists>other. length other = 2 * FLASH_SECTOR_SIZE \<and> slice 1000 4096 other \<noteq> slice 1000 4096 example_log
     \<and> parse_history other = parse_history example_log \<and> history_end_found other = Some True"
proof -
  let ?other = "take 800 example_log @ replicate 7392 0"
  define run where "run = map (\<lambda>t. t * ENTRY_SIZE) [1..<36]"
  have offs: "record_offsets (length example_log div FLASH_SECTOR_SIZE)
      = [] @ 0 # run @ map (\<lambda>t. t * ENTRY_SIZE) [36..<195]"
    by (simp add: length_example_log record_offsets_def FLASH_SECTOR_SIZE_def sector_offsets_def run_def
        entries_per_sector_def ENTRY_SIZE_def upt_rec)
  have erased: "read_u32 example_log off = EMPTY_DATA" if "off \<in> set run" for off
  proof -
    have "21 \<le> off" "off + 3 < 4096" using that by (auto simp: run_def ENTRY_SIZE_def)
    then have "example_log ! (off + k) = 255" if "k < 4" for k
      using that by (simp add: example_log_def nth_append length_example_record)
    from this [of 0] this [of 1] this [of 2] this [of 3] show ?thesis
      by (simp add: read_u32_def u32_from_le_def EMPTY_DATA_def)
  qed
  have first: "starts_log example_log 0" by code_simp
  have last: "List.last run = 735" by (simp add: run_def ENTRY_SIZE_def upt_rec)
  have count: "EMPTY_RUN_END \<le> length (filter (\<lambda>off. \<not> crosses_page off) run)"
    by (simp add: run_def upt_rec crosses_page_def history_consts)
  have "parse_history ?other = parse_history example_log \<and> history_end_found ?other = Some True"
    by (rule parse_history_stops_at_end_of_log [OF offs first _ count])
      (use erased in \<open>auto simp: last length_example_log FLASH_SECTOR_SIZE_def\<close>)
  moreover have "slice 1000 4096 ?other \<noteq> slice 1000 4096 example_log"
  proof
    assume "slice 1000 4096 ?other = slice 1000 4096 example_log"
    then have "slice 1000 4096 ?other ! 0 = slice 1000 4096 example_log ! 0" by simp
    then show False
      by (simp add: nth_slice length_example_log FLASH_SECTOR_SIZE_def nth_append min_def)
        (simp add: example_log_def nth_append length_example_record)
  qed
  ultimately show ?thesis
    by (intro exI [of _ ?other]) (simp add: length_example_log FLASH_SECTOR_SIZE_def)
qed

end
