(* ===== verification/Backend.thy ===== *)
theory Backend
  imports Config Theme History
begin

text \<open>
  The interfaces of \<open>src/backend.rs\<close>. An operation that performs I/O is a function from the
  state of the world it acts on to a result and the new state. \<open>device_backend\<close> is the
  trait the manager drives and \<open>serial_io\<close> the trait the SPI routines drive, each a record
  of operations; \<open>tty\<close> holds the operations of the third-party serial port crate, which
  are parameters of the model. A cancellation token is seen as a predicate on the world: it
  may become true whenever the world advances. The locale \<open>lawful_backend\<close> states what the
  manager may rely on.
\<close>

section \<open>Actions\<close>

type_synonym ('s, 'a) action = "'s \<Rightarrow> 'a result \<times> 's"

definition retA :: "'a \<Rightarrow> ('s, 'a) action" where
  "retA x s = (Inr x, s)"

definition failA :: "device_error \<Rightarrow> ('s, 'a) action" where
  "failA e s = (Inl e, s)"

definition liftA :: "'a result \<Rightarrow> ('s, 'a) action" where
  "liftA r s = (r, s)"

text \<open>\<open>act.await?\<close> followed by the rest of the function.\<close>

definition bindA :: "('s, 'a) action \<Rightarrow> ('a \<Rightarrow> ('s, 'b) action) \<Rightarrow> ('s, 'b) action" where
  "bindA act f s = (case act s of (Inl e, s') \<Rightarrow> (Inl e, s') | (Inr x, s') \<Rightarrow> f x s')"

text \<open>A step that changes the world and cannot fail, such as a sleep.\<close>

definition updA :: "('s \<Rightarrow> 's) \<Rightarrow> ('s, unit) action" where
  "updA g s = (Inr (), g s)"

lemma action_simps [simp]:
  "retA x s = (Inr x, s)" "failA e s = (Inl e, s)" "liftA r s = (r, s)" "updA g s = (Inr (), g s)"
  by (simp_all add: retA_def failA_def liftA_def updA_def)

lemma bindA_Inr: "bindA act f s = (Inr y, t) \<longleftrightarrow> (\<exists>x s'. act s = (Inr x, s') \<and> f x s' = (Inr y, t))"
  by (auto simp: bindA_def split: prod.splits sum.splits)

lemma bindA_Inl: "bindA act f s = (Inl e, t) \<longleftrightarrow>
    act s = (Inl e, t) \<or> (\<exists>x s'. act s = (Inr x, s') \<and> f x s' = (Inl e, t))"
  by (auto simp: bindA_def split: prod.splits sum.splits)

lemma bindA_simps [simp]:
  "bindA (failA e) f s = (Inl e, s)" "bindA (retA x) f s = f x s" "bindA (updA g) k s = k () (g s)"
  "bindA (liftA r) f s = (case r of Inl e \<Rightarrow> (Inl e, s) | Inr x \<Rightarrow> f x s)"
  by (simp_all add: bindA_def split: sum.splits)

text \<open>A property of the state that every outcome of an action keeps.\<close>

definition keeps :: "('s \<Rightarrow> bool) \<Rightarrow> ('s, 'a) action \<Rightarrow> bool" where
  "keeps I act \<longleftrightarrow> (\<forall>s. I s \<longrightarrow> I (snd (act s)))"

text \<open>A relation every outcome of an action establishes between the world before and after.\<close>

definition moves :: "('s \<Rightarrow> 's \<Rightarrow> bool) \<Rightarrow> ('s, 'a) action \<Rightarrow> bool" where
  "moves R act \<longleftrightarrow> (\<forall>s. R s (snd (act s)))"

named_theorems keeps_intros \<open>which actions keep an invariant\<close>

lemma keeps_basic [keeps_intros, simp]:
  "keeps I (retA x)" "keeps I (failA e)" "keeps I (liftA r)"
  by (simp_all add: keeps_def)

lemma keeps_bindA [keeps_intros]: "keeps I act \<Longrightarrow> (\<And>x. keeps I (f x)) \<Longrightarrow> keeps I (bindA act f)"
  by (auto simp: keeps_def bindA_def split: prod.splits sum.splits)

lemma keepsD: "keeps I act \<Longrightarrow> I s \<Longrightarrow> act s = (r, s') \<Longrightarrow> I s'"
  by (auto simp: keeps_def dest: spec [of _ s])

section \<open>Device backends\<close>

text \<open>
  \<open>trait DeviceBackend\<close>. The last two fields stand for the runtime the backend and the
  manager share: the monotonic clock (nanoseconds) and sleeping.
\<close>

record 'b device_backend =
  be_connect :: "string \<Rightarrow> ('b, device_identity) action"
  be_disconnect :: "'b \<Rightarrow> 'b"
  be_read_build_information :: "('b, string \<times> string) action"
  be_read_telemetry :: "('b, telemetry) action"
  be_read_configuration :: "('b, device_configuration) action"
  be_write_configuration :: "device_configuration \<Rightarrow> ('b, unit) action"
  be_nvm_configuration :: "nvm_operation \<Rightarrow> ('b, unit) action"
  be_reboot_device :: "('b, unit) action"
  be_clear_faults :: "u16 \<Rightarrow> u16 \<Rightarrow> ('b, unit) action"
  be_pause_history_updates :: "('b, unit) action"
  be_resume_history_updates :: "('b, unit) action"
  be_read_history_chunk :: "nat \<Rightarrow> nat \<Rightarrow> ('b \<Rightarrow> bool) \<Rightarrow> ('b, u8 list) action"
  be_read_theme_asset :: "theme_asset_slot \<Rightarrow> ('b, u8 list) action"
  be_write_theme_asset :: "theme_asset_slot \<Rightarrow> u8 list \<Rightarrow> ('b, unit) action"
  be_set_screen :: "screen \<Rightarrow> ('b, unit) action"
  be_now :: "'b \<Rightarrow> nat"
  be_sleep :: "nat \<Rightarrow> 'b \<Rightarrow> 'b"

text \<open>Durations in nanoseconds.\<close>

definition ms :: "nat \<Rightarrow> nat" where "ms n = n * 1000000"

text \<open>\<open>validate_history_range\<close>; the subtraction cannot saturate after the first test.\<close>

definition validate_history_range :: "nat \<Rightarrow> nat \<Rightarrow> unit result" where
  "validate_history_range off len =
    (if MAX_CHUNK_SIZE < len then
       Inl (InvalidArgument (''history chunk is limited to '' @ show_nat MAX_CHUNK_SIZE @ '' bytes''))
     else failIf (FLASH_LENGTH < off \<or> FLASH_LENGTH - off < len)
       (InvalidArgument ''history range is outside the device log region''))"

lemma validate_history_range_Inr:
  "validate_history_range off len = Inr () \<longleftrightarrow> len \<le> MAX_CHUNK_SIZE \<and> off + len \<le> FLASH_LENGTH"
  by (auto simp: validate_history_range_def failIf_Inr not_less)

lemma validate_history_range_panic_free [simp]: "panic_free (validate_history_range off len)"
  by (simp add: validate_history_range_def)

text \<open>
  What a client of the trait may rely on, for every state that satisfies the backend's own
  invariant: the invariant persists, no operation panics, a history chunk has the requested
  length and lies in the log region, a theme asset has its slot's size and an accepted
  write had it too.
\<close>

locale lawful_backend =
  fixes ops :: "'b device_backend" and inv :: "'b \<Rightarrow> bool"
  assumes inv_connect: "inv b \<Longrightarrow> inv (snd (be_connect ops p b))"
    and inv_disconnect: "inv b \<Longrightarrow> inv (be_disconnect ops b)"
    and inv_build: "inv b \<Longrightarrow> inv (snd (be_read_build_information ops b))"
    and inv_telemetry: "inv b \<Longrightarrow> inv (snd (be_read_telemetry ops b))"
    and inv_read_configuration: "inv b \<Longrightarrow> inv (snd (be_read_configuration ops b))"
    and inv_write_configuration: "inv b \<Longrightarrow> inv (snd (be_write_configuration ops c b))"
    and inv_nvm: "inv b \<Longrightarrow> inv (snd (be_nvm_configuration ops n b))"
    and inv_reboot: "inv b \<Longrightarrow> inv (snd (be_reboot_device ops b))"
    and inv_clear: "inv b \<Longrightarrow> inv (snd (be_clear_faults ops x y b))"
    and inv_pause: "inv b \<Longrightarrow> inv (snd (be_pause_history_updates ops b))"
    and inv_resume: "inv b \<Longrightarrow> inv (snd (be_resume_history_updates ops b))"
    and inv_history: "inv b \<Longrightarrow> inv (snd (be_read_history_chunk ops off len tok b))"
    and inv_read_theme: "inv b \<Longrightarrow> inv (snd (be_read_theme_asset ops slot b))"
    and inv_write_theme: "inv b \<Longrightarrow> inv (snd (be_write_theme_asset ops slot bytes b))"
    and inv_screen: "inv b \<Longrightarrow> inv (snd (be_set_screen ops scr b))"
    and inv_sleep: "inv b \<Longrightarrow> inv (be_sleep ops d b)"
    and history_range: "inv b \<Longrightarrow> fst (be_read_history_chunk ops off len tok b) = Inr bytes \<Longrightarrow>
          length bytes = len \<and> validate_history_range off len = Inr ()"
    and theme_length: "inv b \<Longrightarrow> fst (be_read_theme_asset ops slot b) = Inr bytes \<Longrightarrow>
          length bytes = slot_byte_len slot"
    and theme_write_length: "inv b \<Longrightarrow> fst (be_write_theme_asset ops slot bytes b) = Inr () \<Longrightarrow>
          length bytes = slot_byte_len slot"
    and configuration_ok_read: "inv b \<Longrightarrow> fst (be_read_configuration ops b) = Inr c \<Longrightarrow>
          configuration_ok c"
begin

lemmas inv_intros = inv_connect inv_disconnect inv_build inv_telemetry inv_read_configuration
  inv_write_configuration inv_nvm inv_reboot inv_clear inv_pause inv_resume inv_history
  inv_read_theme inv_write_theme inv_screen inv_sleep

text \<open>A chunk that was read never leaves the log region.\<close>

lemma history_chunk_bounds:
  assumes "inv b" and "be_read_history_chunk ops off len tok b = (Inr bytes, b')"
  shows "off + length bytes \<le> FLASH_LENGTH" "length bytes \<le> MAX_CHUNK_SIZE"
  using history_range [OF assms(1), of off len tok bytes] assms(2)
  by (auto simp: validate_history_range_Inr)

end

section \<open>Serial ports\<close>

datatype read_outcome = ReadDone "u8 list" | ReadFailed device_error | ReadTimedOut

text \<open>
  \<open>trait SerialIo\<close>. A read is always wrapped in \<open>tokio::time::timeout\<close>, so the read
  operation takes the length and the timeout (milliseconds) and may also time out. Sleeps are
  in nanoseconds.
\<close>

record 'p serial_io =
  io_clear_input :: "('p, unit) action"
  io_write_all :: "u8 list \<Rightarrow> ('p, unit) action"
  io_flush :: "('p, unit) action"
  io_read_exact :: "nat \<Rightarrow> nat \<Rightarrow> 'p \<Rightarrow> read_outcome \<times> 'p"
  io_sleep :: "nat \<Rightarrow> 'p \<Rightarrow> 'p"

text \<open>Errors of the serial port crate and of the standard library's I/O.\<close>

datatype io_error_kind =
    KindNotFound
  | KindBrokenPipe
  | KindNotConnected
  | KindUnexpectedEof
  | KindOther
  | KindAny string

record io_failure =
  raw_os_error :: "int option"
  io_kind :: io_error_kind
  io_text :: string

datatype serial_error_kind = SerialIoKind io_error_kind | SerialNonIo

record serial_failure =
  serial_kind :: serial_error_kind
  serial_text :: string

definition serial_error :: "serial_failure \<Rightarrow> device_error" where
  "serial_error e =
    (if serial_kind e \<in> {SerialIoKind KindNotFound, SerialIoKind KindBrokenPipe,
         SerialIoKind KindNotConnected, SerialIoKind KindUnexpectedEof, SerialIoKind KindOther}
     then ConnectionLost else Transport (serial_text e))"

definition io_error :: "io_failure \<Rightarrow> device_error" where
  "io_error e =
    (if raw_os_error e \<in> {Some 5, Some 6, Some 19} then ConnectionLost
     else if io_kind e \<in> {KindNotFound, KindBrokenPipe, KindUnexpectedEof, KindNotConnected}
     then ConnectionLost
     else Transport (io_text e))"

text \<open>\<open>map_err\<close> on the result of an operation.\<close>

definition map_err :: "('e \<Rightarrow> device_error) \<Rightarrow> ('s \<Rightarrow> ('e + 'a) \<times> 's) \<Rightarrow> ('s, 'a) action" where
  "map_err f act s = (case act s of (Inl e, s') \<Rightarrow> (Inl (f e), s') | (Inr x, s') \<Rightarrow> (Inr x, s'))"

datatype tty_read = GotBytes "u8 list" | GotFailure io_failure | GotTimeout

text \<open>The operations of \<open>tokio_serial::SerialStream\<close> the code calls, and the runtime's clocks.\<close>

record 'p tty =
  tty_open :: "string \<Rightarrow> 'p \<Rightarrow> (serial_failure + unit) \<times> 'p"
  tty_set_exclusive :: "'p \<Rightarrow> (serial_failure + unit) \<times> 'p"
  tty_clear_input :: "'p \<Rightarrow> (serial_failure + unit) \<times> 'p"
  tty_request_to_send :: "bool \<Rightarrow> 'p \<Rightarrow> (serial_failure + unit) \<times> 'p"
  tty_write_all :: "u8 list \<Rightarrow> 'p \<Rightarrow> (io_failure + unit) \<times> 'p"
  tty_flush :: "'p \<Rightarrow> (io_failure + unit) \<times> 'p"
  tty_read_exact :: "nat \<Rightarrow> nat \<Rightarrow> 'p \<Rightarrow> tty_read \<times> 'p"
  tty_close :: "'p \<Rightarrow> 'p"
  tty_sleep :: "nat \<Rightarrow> 'p \<Rightarrow> 'p"
  tty_now :: "'p \<Rightarrow> nat"
  tty_unix_time_ms :: "'p \<Rightarrow> u64"

text \<open>\<open>impl SerialIo for SerialStream\<close>.\<close>

definition serial_io_of :: "'p tty \<Rightarrow> 'p serial_io" where
  "serial_io_of t =
     \<lparr>io_clear_input = map_err serial_error (tty_clear_input t),
      io_write_all = (\<lambda>bytes. map_err io_error (tty_write_all t bytes)),
      io_flush = map_err io_error (tty_flush t),
      io_read_exact = (\<lambda>len timeout p. case tty_read_exact t len timeout p of
          (GotBytes bytes, p') \<Rightarrow> (ReadDone bytes, p')
        | (GotFailure e, p') \<Rightarrow> (ReadFailed (io_error e), p')
        | (GotTimeout, p') \<Rightarrow> (ReadTimedOut, p')),
      io_sleep = (\<lambda>d. tty_sleep t d)\<rparr>"

text \<open>A read fills a buffer of fixed length, whatever the port delivers.\<close>

definition fit :: "nat \<Rightarrow> u8 list \<Rightarrow> u8 list" where
  "fit len bytes = take len (bytes @ replicate len 0)"

lemma length_fit [simp]: "length (fit len bytes) = len"
  by (simp add: fit_def)

lemma fit_id [simp]: "length bytes = len \<Longrightarrow> fit len bytes = bytes"
  by (simp add: fit_def)

text \<open>\<open>timeout(d, port.read_exact(buf)).await.map_err(|_| timed_out)??\<close>.\<close>

definition read_within :: "'p serial_io \<Rightarrow> nat \<Rightarrow> nat \<Rightarrow> string \<Rightarrow> ('p, u8 list) action" where
  "read_within io len timeout timed_out p =
     (case io_read_exact io len timeout p of
        (ReadDone bytes, p') \<Rightarrow> (Inr (fit len bytes), p')
      | (ReadFailed e, p') \<Rightarrow> (Inl e, p')
      | (ReadTimedOut, p') \<Rightarrow> (Inl (Transport timed_out), p'))"

text \<open>Which operating system errors count as a lost connection.\<close>

lemma io_error_ConnectionLost:
  "io_error e = ConnectionLost \<longleftrightarrow> raw_os_error e \<in> {Some 5, Some 6, Some 19}
     \<or> io_kind e \<in> {KindNotFound, KindBrokenPipe, KindUnexpectedEof, KindNotConnected}"
  by (auto simp: io_error_def)

lemma io_error_cases: "io_error e = ConnectionLost \<or> (\<exists>m. io_error e = Transport m)"
  by (auto simp: io_error_def)

lemma serial_error_cases: "serial_error e = ConnectionLost \<or> (\<exists>m. serial_error e = Transport m)"
  by (auto simp: serial_error_def)

end
