(* ===== verification/Manager.thy ===== *)
theory Manager
  imports Backend Items Protocol "HOL-Library.List_Lexorder" "HOL-Library.Char_ord"
begin

text \<open>
  The device manager of \<open>src/manager.rs\<close>: its state, the connection lifecycle, polling, the
  leases that keep the device's display paused and the clean-up of that pause. The manager owns
  the backend, so every handler is a function on the record \<open>manager\<close>. Time is the backend's
  clock. What the code sends to its watch and broadcast channels is appended to the fields
  \<open>published\<close> and \<open>events\<close>.

  A cancellation token is a shared flag, held by the manager and by the handles; the flags are
  cells of the store \<open>tokens\<close> and a token is the index of its cell. The \<open>u64\<close> counters wrap as
  in a release build.
\<close>

section \<open>State\<close>

definition MIN_NVM_MUTATION_INTERVAL :: nat where "MIN_NVM_MUTATION_INTERVAL = ms 1000"
definition DISPLAY_RESUME_RETRY_DELAY :: nat where "DISPLAY_RESUME_RETRY_DELAY = ms 1000"

record retry_state =
  retry_port :: string
  retry_attempt :: u32
  retry_not_before :: "nat option"

record history_dump =
  dump_id :: u64
  dump_session :: u64
  dump_total_bytes :: nat

record active_history_dump =
  active_id :: u64
  active_session :: u64
  active_expires_at :: nat
  active_token :: nat

record display_pause_state =
  pause_paused :: bool
  pause_debug_lease_active :: bool
  pause_history_dump_active :: bool
  pause_remaining_ms :: u64

record 'b manager =
  backend :: 'b
  poll_interval :: nat
  daemon :: daemon_state
  published :: "daemon_state list"
  events :: "device_event list"
  current_port :: "string option"
  retry :: "retry_state option"
  consecutive_poll_failures :: u8
  last_successful_poll :: "nat option"
  active_dump :: "active_history_dump option"
  next_history_dump_id :: u64
  debug_pause_expires_at :: "nat option"
  display_physically_paused :: bool
  display_resume_retry_at :: "nat option"
  history_cancellation :: "(u64 \<times> nat) option"
  last_nvm_mutation :: "nat option"
  tokens :: "bool list"
  next_poll :: nat
  stopped :: bool

text \<open>\<open>spawn_manager\<close> and the first line of \<open>run\<close>.\<close>

definition spawn_manager :: "'b device_backend \<Rightarrow> 'b \<Rightarrow> nat \<Rightarrow> 'b manager" where
  "spawn_manager ops b interval =
     \<lparr>backend = b, poll_interval = interval, daemon = daemon_state_default, published = [],
      events = [], current_port = None, retry = None, consecutive_poll_failures = 0,
      last_successful_poll = None, active_dump = None, next_history_dump_id = 0,
      debug_pause_expires_at = None, display_physically_paused = False,
      display_resume_retry_at = None, history_cancellation = None, last_nvm_mutation = None,
      tokens = [], next_poll = be_now ops b, stopped = False\<rparr>"

fun is_ready :: "connection_state \<Rightarrow> bool" where
  "is_ready (Ready _) = True"
| "is_ready _ = False"

fun is_busy :: "connection_state \<Rightarrow> bool" where
  "is_busy (Busy _ _) = True"
| "is_busy _ = False"

abbreviation now :: "'b device_backend \<Rightarrow> 'b manager \<Rightarrow> nat" where
  "now ops m \<equiv> be_now ops (backend m)"

abbreviation session :: "'b manager \<Rightarrow> u64" where
  "session m \<equiv> d_session_id (daemon m)"

abbreviation ready :: "'b manager \<Rightarrow> bool" where
  "ready m \<equiv> is_ready (connection (daemon m))"

text \<open>An operation of the backend, and a sleep, on the manager's state.\<close>

definition on_backend :: "('b, 'a) action \<Rightarrow> ('b manager, 'a) action" where
  "on_backend act m = (case act (backend m) of (r, b) \<Rightarrow> (r, m\<lparr>backend := b\<rparr>))"

definition sleep :: "'b device_backend \<Rightarrow> nat \<Rightarrow> ('b manager, unit) action" where
  "sleep ops d = updA (\<lambda>m. m\<lparr>backend := be_sleep ops d (backend m)\<rparr>)"

section \<open>Publishing\<close>

definition bump_and_publish :: "'b manager \<Rightarrow> 'b manager" where
  "bump_and_publish m =
     (let d = (daemon m)\<lparr>d_sequence := d_sequence (daemon m) + 1\<rparr>
      in m\<lparr>daemon := d, published := published m @ [d]\<rparr>)"

definition set_connection :: "connection_state \<Rightarrow> 'b manager \<Rightarrow> 'b manager" where
  "set_connection c m = m\<lparr>daemon := (daemon m)\<lparr>connection := c\<rparr>\<rparr>"

definition set_busy :: "string \<Rightarrow> 'b manager \<Rightarrow> 'b manager" where
  "set_busy operation m = bump_and_publish (set_connection (Busy (session m) operation) m)"

definition set_ready :: "'b manager \<Rightarrow> 'b manager" where
  "set_ready m = bump_and_publish (set_connection (Ready (session m)) m)"

text \<open>An event carries the published sequence number and the session.\<close>

definition send_event :: "(u64 \<Rightarrow> u64 \<Rightarrow> device_event) \<Rightarrow> 'b manager \<Rightarrow> 'b manager" where
  "send_event ev m = m\<lparr>events := events m @ [ev (d_sequence (daemon m)) (session m)]\<rparr>"

definition clear_history_cancellation :: "u64 option \<Rightarrow> 'b manager \<Rightarrow> 'b manager" where
  "clear_history_cancellation dump m =
    (if dump = None \<or> (case history_cancellation m of None \<Rightarrow> False | Some (i, _) \<Rightarrow> Some i = dump)
     then m\<lparr>history_cancellation := None\<rparr> else m)"

text \<open>The statements that end every lease on the display when a session begins or ends.\<close>

definition drop_leases :: "'b manager \<Rightarrow> 'b manager" where
  "drop_leases m =
     (clear_history_cancellation None (m\<lparr>active_dump := None\<rparr>))
       \<lparr>debug_pause_expires_at := None, display_physically_paused := False,
        display_resume_retry_at := None\<rparr>"

section \<open>Connecting and disconnecting\<close>

definition mark_stale :: "daemon_state \<Rightarrow> daemon_state" where
  "mark_stale d = d\<lparr>d_telemetry := map_option (\<lambda>t. t\<lparr>stale := True\<rparr>) (d_telemetry d)\<rparr>"

definition attached :: "'b manager \<Rightarrow> bool" where
  "attached m \<longleftrightarrow> current_port m \<noteq> None \<or> is_ready (connection (daemon m)) \<or> is_busy (connection (daemon m))"

definition disconnect :: "'b device_backend \<Rightarrow> disconnect_reason \<Rightarrow> 'b manager \<Rightarrow> 'b manager" where
  "disconnect ops reason m =
    (if \<not> attached m then
       (case connection (daemon m) of
          Absent _ \<Rightarrow> m
        | _ \<Rightarrow> bump_and_publish (m\<lparr>daemon := (daemon m)
                 \<lparr>connection := Absent reason, last_disconnect_reason := Some reason\<rparr>\<rparr>))
     else
       let m1 = bump_and_publish (set_connection (Disconnecting (session m) reason) m);
           m2 = drop_leases (m1\<lparr>backend := be_disconnect ops (backend m1)\<rparr>);
           d = (mark_stale ((daemon m2)\<lparr>connected_port := None\<rparr>))
                 \<lparr>connection := Absent reason, last_disconnect_reason := Some reason\<rparr>
       in send_event (\<lambda>sequence session_id. Disconnected sequence session_id reason)
            (bump_and_publish (m2\<lparr>current_port := None, daemon := d\<rparr>)))"

definition retry_delay :: "u32 \<Rightarrow> nat" where
  "retry_delay attempt = min (ms 250 * 2 ^ min (unat (saturating_dec attempt)) 7) (ms 30000)"

text \<open>The number of the attempt that just failed, and what a failure leads to.\<close>

definition failed_attempt :: "string \<Rightarrow> retry_state option \<Rightarrow> u32" where
  "failed_attempt port r = (case r of
       Some r \<Rightarrow> if retry_port r = port then saturating_inc (retry_attempt r) else 1
     | None \<Rightarrow> 1)"

definition failure_verdict ::
  "string \<Rightarrow> u32 \<Rightarrow> nat \<Rightarrow> device_error \<Rightarrow> retry_state \<times> connection_state" where
  "failure_verdict port attempt failed_at error =
     (let given_up = \<lparr>retry_port = port, retry_attempt = 1, retry_not_before = None\<rparr> in
      case error of
        ProtocolUnverified reason \<Rightarrow> (given_up, UnsupportedState reason)
      | Unsupported reason \<Rightarrow> (given_up, UnsupportedState reason)
      | other \<Rightarrow>
          (\<lparr>retry_port = port, retry_attempt = attempt,
            retry_not_before = Some (failed_at + retry_delay attempt)\<rparr>,
           Recovering attempt (device_error_to_string other)))"

definition connection_failed ::
  "'b device_backend \<Rightarrow> string \<Rightarrow> device_error \<Rightarrow> 'b manager \<Rightarrow> 'b manager" where
  "connection_failed ops port error m =
     (let m1 = (drop_leases (m\<lparr>backend := be_disconnect ops (backend m)\<rparr>))
            \<lparr>consecutive_poll_failures := 0, last_successful_poll := None, current_port := None\<rparr>
      in case failure_verdict port (failed_attempt port (retry m1)) (now ops m1) error of
           (r, c) \<Rightarrow> bump_and_publish (m1\<lparr>retry := Some r,
             daemon := (daemon m1)\<lparr>connected_port := None, identity := None, connection := c\<rparr>\<rparr>))"

definition connected_with ::
  "'b device_backend \<Rightarrow> string \<Rightarrow> device_identity \<Rightarrow> telemetry \<Rightarrow> 'b manager \<Rightarrow> 'b manager" where
  "connected_with ops port ident telem m =
     (let sid = session m + 1;
          telem = telem\<lparr>t_session_id := sid, t_sequence := d_sequence (daemon m) + 1\<rparr>;
          d = (daemon m)\<lparr>d_session_id := sid, connected_port := Some port, identity := Some ident,
                 d_telemetry := Some telem, connection := Ready sid\<rparr>;
          m1 = drop_leases (m\<lparr>daemon := d, current_port := Some port, consecutive_poll_failures := 0,
                 last_successful_poll := Some (now ops m)\<rparr>)
      in send_event (\<lambda>sequence session_id. Connected sequence session_id port)
           (bump_and_publish (m1\<lparr>retry := None\<rparr>)))"

definition connect :: "'b device_backend \<Rightarrow> string \<Rightarrow> 'b manager \<Rightarrow> 'b manager" where
  "connect ops port m =
     (case on_backend (be_connect ops port) (bump_and_publish (set_connection (Connecting port) m)) of
        (Inl error, m1) \<Rightarrow> connection_failed ops port error m1
      | (Inr ident, m1) \<Rightarrow>
          (case on_backend (be_read_telemetry ops) m1 of
             (Inl error, m2) \<Rightarrow> connection_failed ops port error m2
           | (Inr telem, m2) \<Rightarrow> connected_with ops port ident telem m2))"

definition retry_is_due :: "'b device_backend \<Rightarrow> string \<Rightarrow> 'b manager \<Rightarrow> bool \<times> 'b manager" where
  "retry_is_due ops port m =
     (case retry m of
        None \<Rightarrow> (True, m)
      | Some r \<Rightarrow>
          if retry_port r \<noteq> port then (True, m\<lparr>retry := None\<rparr>)
          else (case retry_not_before r of
              None \<Rightarrow> (False, m)
            | Some not_before \<Rightarrow> (not_before \<le> now ops m, m)))"

definition handle_candidates :: "'b device_backend \<Rightarrow> string list \<Rightarrow> 'b manager \<Rightarrow> 'b manager" where
  "handle_candidates ops found m =
     (let candidates = remdups_adj (sort found) in
      case candidates of
        [] \<Rightarrow> disconnect ops RemovedFromHost (m\<lparr>retry := None\<rparr>)
      | [port] \<Rightarrow>
          if current_port m = Some port then m
          else (case retry_is_due ops port m of
              (False, m1) \<Rightarrow> m1
            | (True, m1) \<Rightarrow>
                let m2 = (if current_port m1 \<noteq> None then disconnect ops Replaced m1 else m1)
                in connect ops port m2)
      | _ \<Rightarrow>
          let m1 = m\<lparr>retry := None\<rparr> in
          if connection (daemon m1) = AmbiguousDevice candidates then m1
          else bump_and_publish (set_connection (AmbiguousDevice candidates)
                 (disconnect ops RemovedFromHost m1)))"

section \<open>Polling\<close>

definition publish_telemetry :: "'b device_backend \<Rightarrow> telemetry \<Rightarrow> 'b manager \<Rightarrow> 'b manager" where
  "publish_telemetry ops telem m =
     (let telem = telem\<lparr>t_sequence := d_sequence (daemon m) + 1, t_session_id := session m\<rparr>
      in send_event TelemetryUpdated (bump_and_publish
           (m\<lparr>daemon := (daemon m)\<lparr>d_telemetry := Some telem\<rparr>, consecutive_poll_failures := 0,
              last_successful_poll := Some (now ops m)\<rparr>)))"

definition poll_failed :: "'b device_backend \<Rightarrow> 'b manager \<Rightarrow> 'b manager" where
  "poll_failed ops m =
     (let m1 = m\<lparr>consecutive_poll_failures := saturating_inc (consecutive_poll_failures m)\<rparr>;
          overdue = (case last_successful_poll m1 of None \<Rightarrow> False
            | Some success \<Rightarrow> poll_interval m1 * 2 \<le> now ops m1 - success);
          fresh = (case d_telemetry (daemon m1) of None \<Rightarrow> False | Some telem \<Rightarrow> \<not> stale telem);
          m2 = (if overdue \<and> fresh then bump_and_publish (m1\<lparr>daemon := mark_stale (daemon m1)\<rparr>) else m1)
      in if 3 \<le> consecutive_poll_failures m2 then disconnect ops PresenceCheckFailed m2 else m2)"

definition poll_once :: "'b device_backend \<Rightarrow> 'b manager \<Rightarrow> 'b manager" where
  "poll_once ops m =
    (if \<not> ready m then m
     else (case on_backend (be_read_telemetry ops) m of
         (Inr telem, m1) \<Rightarrow> publish_telemetry ops telem m1
       | (Inl ConnectionLost, m1) \<Rightarrow> disconnect ops SerialHangup m1
       | (Inl _, m1) \<Rightarrow> poll_failed ops m1))"

section \<open>The display pause\<close>

definition ensure_display_paused :: "'b device_backend \<Rightarrow> ('b manager, unit) action" where
  "ensure_display_paused ops m =
    (if display_physically_paused m then (Inr (), m)
     else bindA (on_backend (be_pause_history_updates ops)) (\<lambda>_.
       updA (\<lambda>m. m\<lparr>display_physically_paused := True, display_resume_retry_at := None\<rparr>)) m)"

definition display_owned :: "'b manager \<Rightarrow> bool" where
  "display_owned m \<longleftrightarrow> active_dump m \<noteq> None \<or> debug_pause_expires_at m \<noteq> None"

definition resume_display_if_unowned :: "'b device_backend \<Rightarrow> ('b manager, unit) action" where
  "resume_display_if_unowned ops m =
    (if display_owned m \<or> \<not> display_physically_paused m
     then (Inr (), m\<lparr>display_resume_retry_at := None\<rparr>)
     else (case on_backend (be_resume_history_updates ops) m of
         (Inr _, m1) \<Rightarrow>
           (Inr (), m1\<lparr>display_physically_paused := False, display_resume_retry_at := None\<rparr>)
       | (Inl error, m1) \<Rightarrow>
           (Inl error, if error \<noteq> ConnectionLost
              then m1\<lparr>display_resume_retry_at := Some (now ops m1 + DISPLAY_RESUME_RETRY_DELAY)\<rparr>
              else m1)))"

text \<open>
  The match that ends most handlers: on success the session is ready again, a lost connection
  ends it, any other error leaves it ready.
\<close>

definition settle :: "'b device_backend \<Rightarrow> 'a result \<times> 'b manager \<Rightarrow> 'b manager" where
  "settle ops rm = (case rm of
       (Inr _, m) \<Rightarrow> set_ready m
     | (Inl e, m) \<Rightarrow> if e = ConnectionLost then disconnect ops SerialHangup m else set_ready m)"

text \<open>The same match in a handler that never made the session busy.\<close>

definition drop_if_lost :: "'b device_backend \<Rightarrow> 'a result \<times> 'b manager \<Rightarrow> 'b manager" where
  "drop_if_lost ops rm = (case rm of
       (Inr _, m) \<Rightarrow> m
     | (Inl e, m) \<Rightarrow> if e = ConnectionLost then disconnect ops SerialHangup m else m)"

definition expire_history_dump :: "'b device_backend \<Rightarrow> 'b manager \<Rightarrow> 'b manager" where
  "expire_history_dump ops m =
     (case active_dump m of
        None \<Rightarrow> m
      | Some dump \<Rightarrow>
          if now ops m < active_expires_at dump then m
          else settle ops (resume_display_if_unowned ops
                 (clear_history_cancellation None (m\<lparr>active_dump := None\<rparr>))))"

definition expire_debug_pause :: "'b device_backend \<Rightarrow> 'b manager \<Rightarrow> 'b manager" where
  "expire_debug_pause ops m =
     (case debug_pause_expires_at m of
        None \<Rightarrow> m
      | Some expires_at \<Rightarrow>
          if now ops m < expires_at then m
          else drop_if_lost ops (resume_display_if_unowned ops (m\<lparr>debug_pause_expires_at := None\<rparr>)))"

definition retry_display_resume_cleanup :: "'b device_backend \<Rightarrow> 'b manager \<Rightarrow> 'b manager" where
  "retry_display_resume_cleanup ops m =
     (case display_resume_retry_at m of
        None \<Rightarrow> m
      | Some retry_at \<Rightarrow>
          if now ops m < retry_at \<or> \<not> ready m then m
          else if display_owned m \<or> \<not> display_physically_paused m
          then m\<lparr>display_resume_retry_at := None\<rparr>
          else (case resume_display_if_unowned ops m of
              (Inr _, m1) \<Rightarrow> bump_and_publish m1
            | (Inl e, m1) \<Rightarrow> if e = ConnectionLost then disconnect ops SerialHangup m1 else m1))"

definition display_pause_state_of :: "'b device_backend \<Rightarrow> 'b manager \<Rightarrow> display_pause_state" where
  "display_pause_state_of ops m =
     \<lparr>pause_paused = display_physically_paused m,
      pause_debug_lease_active = debug_pause_expires_at m \<noteq> None,
      pause_history_dump_active = active_dump m \<noteq> None,
      pause_remaining_ms = (case debug_pause_expires_at m of
          None \<Rightarrow> 0
        | Some expires_at \<Rightarrow> word_of_nat (min ((expires_at - now ops m) div ms 1) (2 ^ 64 - 1)))\<rparr>"

section \<open>The timer branch of the run loop\<close>

text \<open>The moment the loop sleeps until.\<close>

definition deadlines :: "'b manager \<Rightarrow> nat list" where
  "deadlines m = (case active_dump m of None \<Rightarrow> [] | Some dump \<Rightarrow> [active_expires_at dump])
     @ (case debug_pause_expires_at m of None \<Rightarrow> [] | Some t \<Rightarrow> [t])
     @ (case display_resume_retry_at m of None \<Rightarrow> [] | Some t \<Rightarrow> [t])"

definition wake_at :: "'b manager \<Rightarrow> nat" where
  "wake_at m = foldr min (deadlines m) (next_poll m)"

definition timer_fired :: "'b device_backend \<Rightarrow> 'b manager \<Rightarrow> 'b manager" where
  "timer_fired ops m =
     (let m1 = retry_display_resume_cleanup ops (expire_debug_pause ops (expire_history_dump ops m))
      in if next_poll m1 \<le> now ops m1
         then (let m2 = poll_once ops m1 in m2\<lparr>next_poll := now ops m2 + poll_interval m2\<rparr>)
         else m1)"

end
