(* ===== verification/ManagerCommands.thy ===== *)
theory ManagerCommands
  imports Manager
begin

text \<open>
  The commands of \<open>src/manager.rs\<close>: \<open>handle_command\<close>, one definition per command, and the
  configuration transactions they run. A command's result is the value sent through its
  reply channel. \<open>text\<close> is the JSON text syntax (third-party code) used by the item commands;
  \<open>interrupt\<close> says when another task cancels the token of a running history read.
\<close>

section \<open>Configuration revisions\<close>

text \<open>The 64-bit FNV-1a hash of the session and the encoded configuration.\<close>

definition fnv1a :: "u8 list \<Rightarrow> u64" where
  "fnv1a bytes = foldl (\<lambda>h byte. (h XOR ucast byte) * 0x100000001b3) 0xcbf29ce484222325 bytes"

definition configuration_revision :: "u64 \<Rightarrow> device_configuration \<Rightarrow> string result" where
  "configuration_revision session_id configuration =
     mapR (\<lambda>bytes. show_nat (unat session_id) @ '':''
              @ hex_digits hex_lower 16 (unat (fnv1a (u64_to_le session_id @ bytes))))
       (encode_configuration configuration)"

text \<open>\<open>PartialEq\<close> of the settings: floats compare by value, and NaN differs from itself.\<close>

definition settings_eq :: "device_settings \<Rightarrow> device_settings \<Rightarrow> bool" where
  "settings_eq a b \<longleftrightarrow> a = b \<and> NaN \<notin> {temperature_min_c (set_fan a), temperature_max_c (set_fan a),
     limit_temperature_c (set_fault_thresholds a), limit_wire_current_a (set_fault_thresholds a)}"

definition configuration_eq :: "device_configuration \<Rightarrow> device_configuration \<Rightarrow> bool" where
  "configuration_eq a b \<longleftrightarrow> a = b \<and> settings_eq (settings_from_configuration a) (settings_from_configuration b)"

definition same_settings :: "device_configuration \<Rightarrow> device_configuration \<Rightarrow> bool" where
  "same_settings a b \<longleftrightarrow> raw_version a = raw_version b
     \<and> settings_eq (settings_from_configuration a) (settings_from_configuration b)"

section \<open>Configuration transactions\<close>

text \<open>Two writes of the non-volatile memory are kept apart.\<close>

definition wait_for_nvm_mutation_slot :: "'b device_backend \<Rightarrow> 'b manager \<Rightarrow> 'b manager" where
  "wait_for_nvm_mutation_slot ops m =
     (let m1 = (case last_nvm_mutation m of
            None \<Rightarrow> m
          | Some mutated \<Rightarrow>
              let elapsed = now ops m - mutated in
              if elapsed < MIN_NVM_MUTATION_INTERVAL
              then m\<lparr>backend := be_sleep ops (MIN_NVM_MUTATION_INTERVAL - elapsed) (backend m)\<rparr>
              else m)
      in m1\<lparr>last_nvm_mutation := Some (now ops m1)\<rparr>)"

text \<open>Store the active configuration, read it back and compare with what was wanted.\<close>

definition store_and_verify ::
  "'b device_backend \<Rightarrow> device_configuration \<Rightarrow> string \<Rightarrow> ('b manager, device_configuration) action" where
  "store_and_verify ops wanted mismatch =
     bindA (on_backend (be_nvm_configuration ops NvmStore)) (\<lambda>_.
     bindA (sleep ops (ms 100)) (\<lambda>_.
     bindA (on_backend (be_read_configuration ops)) (\<lambda>stored.
     bindA (liftA (configuration_validate stored)) (\<lambda>_.
       if \<not> same_settings stored wanted then failA (VerificationFailed mismatch)
       else retA stored))))"

definition rollback_configuration ::
  "'b device_backend \<Rightarrow> device_configuration \<Rightarrow> bool \<Rightarrow> ('b manager, unit) action" where
  "rollback_configuration ops original persist =
     bindA (on_backend (be_write_configuration ops original)) (\<lambda>_.
     bindA (sleep ops (ms 50)) (\<lambda>_.
     bindA (on_backend (be_read_configuration ops)) (\<lambda>restored.
       if \<not> configuration_eq restored original then
         failA (VerificationFailed ''active configuration rollback did not restore the original bytes'')
       else if persist then
         bindA (updA (\<lambda>m. m\<lparr>last_nvm_mutation := Some (now ops m)\<rparr>)) (\<lambda>_.
         bindA (store_and_verify ops original
                  ''stored configuration rollback did not restore the original settings'') (\<lambda>_.
           retA ()))
       else retA ())))"

definition write_and_verify ::
  "'b device_backend \<Rightarrow> device_configuration \<Rightarrow> bool \<Rightarrow> ('b manager, device_configuration) action" where
  "write_and_verify ops configuration persist =
     bindA (on_backend (be_write_configuration ops configuration)) (\<lambda>_.
     bindA (sleep ops (ms 50)) (\<lambda>_.
     bindA (on_backend (be_read_configuration ops)) (\<lambda>applied.
       if \<not> configuration_eq applied configuration then
         failA (VerificationFailed ''configuration readback did not match the requested values'')
       else if persist then
         bindA (updA (wait_for_nvm_mutation_slot ops)) (\<lambda>_.
           store_and_verify ops configuration ''stored configuration did not match the requested values'')
       else retA applied)))"

definition finish_apply ::
  "'b device_backend \<Rightarrow> device_configuration \<Rightarrow> bool \<Rightarrow> device_configuration result
     \<Rightarrow> ('b manager, device_configuration) action" where
  "finish_apply ops current persist operation m =
     (case operation of
        Inr configuration \<Rightarrow> (Inr configuration, m)
      | Inl error \<Rightarrow>
          if error = ConnectionLost then (Inl ConnectionLost, m)
          else (case rollback_configuration ops current persist m of
              (Inr _, m1) \<Rightarrow> (Inl (FailedAndRolledBack (device_error_to_string error)), m1)
            | (Inl rollback, m1) \<Rightarrow>
                (if rollback = ConnectionLost then (Inl ConnectionLost, m1)
                 else (Inl (RollbackFailed (device_error_to_string error)
                              (device_error_to_string rollback)), m1))))"

text \<open>The checks between reading the current configuration and the first write.\<close>

definition check_current ::
  "u64 \<Rightarrow> device_configuration \<Rightarrow> string option \<Rightarrow> device_configuration \<Rightarrow> unit result" where
  "check_current session_id configuration expected_revision current =
     bindR (case expected_revision of
         None \<Rightarrow> Inr ()
       | Some expected \<Rightarrow> bindR (configuration_revision session_id current) (\<lambda>actual.
           failIf (expected \<noteq> actual)
             (RevisionConflict ''configuration changed; run `wireview config show --json` again''))) (\<lambda>_.
     if raw_version current \<noteq> raw_version configuration then
       invalid (''configuration version changed from V'' @ show_nat (unat (raw_version configuration + 1))
         @ '' to V'' @ show_nat (unat (raw_version current + 1)))
     else if crc current \<noteq> crc configuration then
       invalid ''configuration is stale; run `wireview config show --json` again''
     else Inr ())"

definition apply_configuration ::
  "'b device_backend \<Rightarrow> device_configuration \<Rightarrow> bool \<Rightarrow> string option
     \<Rightarrow> ('b manager, device_configuration) action" where
  "apply_configuration ops configuration persist expected_revision =
     bindA (liftA (configuration_validate configuration)) (\<lambda>_.
     bindA (on_backend (be_read_configuration ops)) (\<lambda>current m.
     bindA (liftA (check_current (session m) configuration expected_revision current)) (\<lambda>_ m.
       case write_and_verify ops configuration persist m of
         (operation, m1) \<Rightarrow> finish_apply ops current persist operation m1) m))"

definition set_configuration_item ::
  "'b device_backend \<Rightarrow> json_text \<Rightarrow> string \<Rightarrow> string \<Rightarrow> bool
     \<Rightarrow> ('b manager, device_configuration) action" where
  "set_configuration_item ops text key value persist =
     bindA (on_backend (be_read_configuration ops)) (\<lambda>current.
     bindA (liftA (with_item text (settings_from_configuration current) key value)) (\<lambda>settings.
     bindA (liftA (with_protocol_metadata settings current)) (\<lambda>configuration.
       apply_configuration ops configuration persist None)))"

text \<open>The configuration read after an NVM operation, with the checks on it.\<close>

definition check_loaded ::
  "device_configuration option \<Rightarrow> device_configuration \<Rightarrow> device_configuration result" where
  "check_loaded rollback configuration =
     bindR (configuration_validate configuration) (\<lambda>_.
       if (case rollback of None \<Rightarrow> False
           | Some previous \<Rightarrow> raw_version previous \<noteq> raw_version configuration)
       then invalid ''stored configuration has a different format version''
       else Inr configuration)"

definition restore_previous ::
  "'b device_backend \<Rightarrow> device_configuration \<Rightarrow> device_error
     \<Rightarrow> ('b manager, device_configuration) action" where
  "restore_previous ops previous load_error =
     bindA (on_backend (be_write_configuration ops previous)) (\<lambda>_.
     bindA (sleep ops (ms 50)) (\<lambda>_.
     bindA (on_backend (be_read_configuration ops)) (\<lambda>restored.
       if \<not> configuration_eq restored previous then
         failA (Transport
           ''saved configuration was invalid and restoring the active settings failed'')
       else failA (InvalidArgument
           (''saved configuration is invalid; the previous active settings were restored ('' @
            device_error_to_string load_error @ '')'')))))"

definition run_nvm_operation ::
  "'b device_backend \<Rightarrow> nvm_operation \<Rightarrow> ('b manager, device_configuration) action" where
  "run_nvm_operation ops operation =
     bindA (if operation = NvmReload
            then bindA (on_backend (be_read_configuration ops)) (\<lambda>c. retA (Some c))
            else retA None) (\<lambda>rollback.
     bindA (updA (if operation = NvmReset then wait_for_nvm_mutation_slot ops else id)) (\<lambda>_.
     bindA (on_backend (be_nvm_configuration ops operation)) (\<lambda>_.
     bindA (sleep ops (ms 100)) (\<lambda>_ m.
       case bindA (on_backend (be_read_configuration ops)) (\<lambda>c. liftA (check_loaded rollback c)) m of
         (Inr configuration, m1) \<Rightarrow> (Inr configuration, m1)
       | (Inl load_error, m1) \<Rightarrow>
           (case rollback of
              None \<Rightarrow> (Inl load_error, m1)
            | Some previous \<Rightarrow> restore_previous ops previous load_error m1)))))"

section \<open>Commands and replies\<close>

datatype manager_command =
    CmdSetScreen screen
  | CmdReadHistoryChunk nat nat
  | CmdReadThemeAsset theme_asset_slot
  | CmdWriteThemeAsset theme_asset_slot "u8 list"
  | CmdBeginHistoryDump
  | CmdReadHistoryDumpChunk u64 nat nat
  | CmdEndHistoryDump u64
  | CmdReadDeviceInfo
  | CmdClearFaults u16 u16
  | CmdGetPollInterval
  | CmdSetPollInterval u64
  | CmdGetDisplayPause
  | CmdPauseDisplay u64
  | CmdResumeDisplay
  | CmdReadConfiguration
  | CmdReadConfigurationItem string
  | CmdApplyConfiguration device_configuration bool "string option"
  | CmdSetConfigurationItem string string bool
  | CmdReloadConfiguration
  | CmdResetConfiguration
  | CmdRebootDevice

datatype reply =
    ReplyUnit "unit result"
  | ReplyBytes "u8 list result"
  | ReplyDump "history_dump result"
  | ReplyIdentity "device_identity result"
  | ReplyTelemetry "telemetry result"
  | ReplyInterval "u64 result"
  | ReplyPause "display_pause_state result"
  | ReplyConfiguration "device_configuration result"
  | ReplyItem "string result"

text \<open>What a client hears when the device vanished during an operation that may have acted.\<close>

definition hide_loss :: "'a result \<Rightarrow> 'a result" where
  "hide_loss r = (if r = Inl ConnectionLost then Inl OperationOutcomeUnknown else r)"

definition finish_configuration_mutation ::
  "'b device_backend \<Rightarrow> device_configuration result \<times> 'b manager \<Rightarrow> reply \<times> 'b manager" where
  "finish_configuration_mutation ops rm = (ReplyConfiguration (hide_loss (fst rm)), settle ops rm)"

section \<open>One definition per command\<close>

definition run_set_screen :: "'b device_backend \<Rightarrow> screen \<Rightarrow> 'b manager \<Rightarrow> reply \<times> 'b manager" where
  "run_set_screen ops screen m =
    (if \<not> ready m then (ReplyUnit (Inl NotConnected), m)
     else (case on_backend (be_set_screen ops screen) m of
         (Inr _, m1) \<Rightarrow>
           (ReplyUnit (Inr ()),
            send_event (\<lambda>sequence session_id. ScreenChanged sequence session_id screen) (bump_and_publish m1))
       | (Inl e, m1) \<Rightarrow> (ReplyUnit (hide_loss (Inl e)), drop_if_lost ops (Inl e :: unit result, m1))))"

definition open_dump :: "'b device_backend \<Rightarrow> 'b manager \<Rightarrow> history_dump \<times> 'b manager" where
  "open_dump ops m =
     (let i = saturating_inc (next_history_dump_id m);
          dump = \<lparr>dump_id = i, dump_session = session m, dump_total_bytes = FLASH_LENGTH\<rparr>;
          cancellation = length (tokens m);
          active = \<lparr>active_id = i, active_session = session m,
                    active_expires_at = now ops m + ms 10000, active_token = cancellation\<rparr>
      in (dump, set_busy ''reading_device_history''
           (m\<lparr>next_history_dump_id := i, tokens := tokens m @ [False],
              history_cancellation := Some (i, cancellation), active_dump := Some active\<rparr>)))"

definition run_begin_history_dump :: "'b device_backend \<Rightarrow> 'b manager \<Rightarrow> reply \<times> 'b manager" where
  "run_begin_history_dump ops m =
    (if \<not> ready m then
       (ReplyDump (Inl (if active_dump m \<noteq> None then BusyError ''another history dump is active''
                        else NotConnected)), m)
     else (case ensure_display_paused ops m of
         (Inr _, m1) \<Rightarrow> (case open_dump ops m1 of (dump, m2) \<Rightarrow> (ReplyDump (Inr dump), m2))
       | (Inl e, m1) \<Rightarrow> (ReplyDump (Inl e), drop_if_lost ops (Inl e :: unit result, m1))))"

text \<open>The two checks both dump commands start with.\<close>

definition find_dump :: "u64 \<Rightarrow> 'b manager \<Rightarrow> active_history_dump result" where
  "find_dump wanted m =
     (case active_dump m of
        None \<Rightarrow> invalid ''history dump is not active''
      | Some dump \<Rightarrow>
          if active_id dump \<noteq> wanted \<or> active_session dump \<noteq> session m
          then invalid ''history dump belongs to a different session''
          else Inr dump)"

text \<open>
  A chunk read renews the lease. While it runs, the token is cancelled by its own flag, by the
  timer task at the new deadline or by another task; what cancelled it stays set afterwards.
\<close>

definition run_read_history_dump_chunk ::
  "'b device_backend \<Rightarrow> ('b \<Rightarrow> bool) \<Rightarrow> u64 \<Rightarrow> nat \<Rightarrow> nat \<Rightarrow> 'b manager \<Rightarrow> reply \<times> 'b manager" where
  "run_read_history_dump_chunk ops interrupt wanted off len m =
     (case find_dump wanted m of
        Inl e \<Rightarrow> (ReplyBytes (Inl e), m)
      | Inr dump \<Rightarrow>
          let deadline = now ops m + ms 10000;
              i = active_token dump;
              cancelled = (\<lambda>b. tokens m ! i \<or> deadline \<le> be_now ops b \<or> interrupt b);
              m0 = m\<lparr>active_dump := Some (dump\<lparr>active_expires_at := deadline\<rparr>)\<rparr>
          in case on_backend (be_read_history_chunk ops off len cancelled) m0 of
               (r, m1) \<Rightarrow>
                 (let m2 = m1\<lparr>tokens := (tokens m1)[i := cancelled (backend m1)]\<rparr>
                  in (ReplyBytes r, drop_if_lost ops (r, m2))))"

definition run_end_history_dump :: "'b device_backend \<Rightarrow> u64 \<Rightarrow> 'b manager \<Rightarrow> reply \<times> 'b manager" where
  "run_end_history_dump ops wanted m =
     (case find_dump wanted m of
        Inl e \<Rightarrow> (ReplyUnit (Inl e), m)
      | Inr _ \<Rightarrow>
          (case resume_display_if_unowned ops
                  (clear_history_cancellation (Some wanted) (m\<lparr>active_dump := None\<rparr>)) of
             (r, m1) \<Rightarrow> (ReplyUnit r, settle ops (r, m1))))"

text \<open>
  The single chunk read: busy, pause, read, resume. The read's error hides the resume's; the
  token is local, so nothing cancels the read.
\<close>

definition paused_history_read ::
  "'b device_backend \<Rightarrow> nat \<Rightarrow> nat \<Rightarrow> ('b manager, u8 list) action" where
  "paused_history_read ops off len =
     bindA (ensure_display_paused ops) (\<lambda>_ m.
       case on_backend (be_read_history_chunk ops off len (\<lambda>_. False)) m of
         (read, m1) \<Rightarrow> (case resume_display_if_unowned ops m1 of
             (resume, m2) \<Rightarrow>
               ((case read of
                   Inl error \<Rightarrow> Inl error
                 | Inr bytes \<Rightarrow> (case resume of Inl error \<Rightarrow> Inl error | Inr _ \<Rightarrow> Inr bytes)), m2)))"

definition run_read_history_chunk ::
  "'b device_backend \<Rightarrow> nat \<Rightarrow> nat \<Rightarrow> 'b manager \<Rightarrow> reply \<times> 'b manager" where
  "run_read_history_chunk ops off len m =
    (if \<not> ready m then (ReplyBytes (Inl NotConnected), m)
     else (case paused_history_read ops off len (set_busy ''reading_device_history'' m) of
         (r, m1) \<Rightarrow> (ReplyBytes r, settle ops (r, m1))))"

definition not_ready_for_theme :: "'b manager \<Rightarrow> device_error" where
  "not_ready_for_theme m =
    (if active_dump m \<noteq> None then BusyError ''a history dump is active'' else NotConnected)"

text \<open>Ends the session when either result is a lost connection, and is ready otherwise.\<close>

definition settle_theme ::
  "'b device_backend \<Rightarrow> bool \<Rightarrow> unit result \<Rightarrow> 'b manager \<Rightarrow> 'b manager" where
  "settle_theme ops lost resume m =
    (if lost \<or> resume = Inl ConnectionLost then disconnect ops SerialHangup m else set_ready m)"

definition run_read_theme_asset ::
  "'b device_backend \<Rightarrow> theme_asset_slot \<Rightarrow> 'b manager \<Rightarrow> reply \<times> 'b manager" where
  "run_read_theme_asset ops slot m =
    (if \<not> ready m then (ReplyBytes (Inl (not_ready_for_theme m)), m)
     else (case ensure_display_paused ops (set_busy ''reading_theme_asset'' m) of
         (Inl error, m1) \<Rightarrow> (ReplyBytes (Inl error), settle ops (Inl error :: unit result, m1))
       | (Inr _, m1) \<Rightarrow>
           (case on_backend (be_read_theme_asset ops slot) m1 of
              (read, m2) \<Rightarrow> (case resume_display_if_unowned ops m2 of
                  (resume, m3) \<Rightarrow>
                    (ReplyBytes read, settle_theme ops (read = Inl ConnectionLost) resume m3)))))"

definition theme_write_result :: "unit result \<Rightarrow> unit result" where
  "theme_write_result write =
    (if write = Inl ConnectionLost then Inl OperationOutcomeUnknown
     else if write = Inl ConnectionLostBeforeMutation then Inl ConnectionLost
     else write)"

definition run_write_theme_asset ::
  "'b device_backend \<Rightarrow> theme_asset_slot \<Rightarrow> u8 list \<Rightarrow> 'b manager \<Rightarrow> reply \<times> 'b manager" where
  "run_write_theme_asset ops slot bytes m =
    (if \<not> ready m then (ReplyUnit (Inl (not_ready_for_theme m)), m)
     else (case ensure_display_paused ops (set_busy ''writing_theme_asset'' m) of
         (Inl error, m1) \<Rightarrow> (ReplyUnit (Inl error), settle ops (Inl error :: unit result, m1))
       | (Inr _, m1) \<Rightarrow>
           (case on_backend (be_write_theme_asset ops slot bytes) m1 of
              (write, m2) \<Rightarrow> (case resume_display_if_unowned ops m2 of
                  (resume, m3) \<Rightarrow>
                    (ReplyUnit (theme_write_result write),
                     settle_theme ops
                       (write \<in> {Inl ConnectionLost, Inl ConnectionLostBeforeMutation}) resume m3)))))"

text \<open>The \<open>expect\<close> on the identity is the panic of this handler.\<close>

definition run_read_device_info :: "'b device_backend \<Rightarrow> 'b manager \<Rightarrow> reply \<times> 'b manager" where
  "run_read_device_info ops m =
    (if \<not> ready m then (ReplyIdentity (Inl NotConnected), m)
     else (case on_backend (be_read_build_information ops) (set_busy ''reading_device_information'' m) of
         (Inr (product_name, build_string), m1) \<Rightarrow>
           (case identity (daemon m1) of
              None \<Rightarrow> (ReplyIdentity (Inl (Panicked ''ready state has an identity'')), m1)
            | Some ident \<Rightarrow>
                let ident = ident\<lparr>id_product_name := product_name, id_build_string := build_string\<rparr>
                in (ReplyIdentity (Inr ident),
                    set_ready (m1\<lparr>daemon := (daemon m1)\<lparr>identity := Some ident\<rparr>\<rparr>)))
       | (Inl e, m1) \<Rightarrow> (ReplyIdentity (Inl e), settle ops (Inl e :: unit result, m1))))"

definition clear_and_read ::
  "'b device_backend \<Rightarrow> u16 \<Rightarrow> u16 \<Rightarrow> ('b manager, telemetry) action" where
  "clear_and_read ops active_mask logged_mask =
     bindA (on_backend (be_clear_faults ops active_mask logged_mask)) (\<lambda>_.
     bindA (sleep ops (ms 50)) (\<lambda>_.
       on_backend (be_read_telemetry ops)))"

definition run_clear_faults ::
  "'b device_backend \<Rightarrow> u16 \<Rightarrow> u16 \<Rightarrow> 'b manager \<Rightarrow> reply \<times> 'b manager" where
  "run_clear_faults ops active_mask logged_mask m =
    (if \<not> ready m then (ReplyTelemetry (Inl NotConnected), m)
     else if active_mask AND NOT KNOWN_FAULT_MASK \<noteq> 0 \<or> logged_mask AND NOT KNOWN_FAULT_MASK \<noteq> 0 then
       (ReplyTelemetry (invalid (''fault masks may contain only known bits 0x''
          @ hex_digits hex_lower 4 (unat KNOWN_FAULT_MASK))), m)
     else if active_mask = 0 \<and> logged_mask = 0 then
       (ReplyTelemetry (invalid ''at least one active or logged fault must be selected''), m)
     else (case clear_and_read ops active_mask logged_mask (set_busy ''clearing_faults'' m) of
         (Inr telem, m1) \<Rightarrow>
           (let telem = telem\<lparr>t_session_id := session m1, t_sequence := d_sequence (daemon m1) + 1\<rparr>
            in (ReplyTelemetry (Inr telem),
                set_ready (m1\<lparr>daemon := (daemon m1)\<lparr>d_telemetry := Some telem\<rparr>\<rparr>)))
       | (Inl e, m1) \<Rightarrow> (ReplyTelemetry (hide_loss (Inl e)), settle ops (Inl e :: unit result, m1))))"

definition run_get_poll_interval :: "'b manager \<Rightarrow> reply \<times> 'b manager" where
  "run_get_poll_interval m =
     (ReplyInterval (Inr (word_of_nat (min (poll_interval m div ms 1) (2 ^ 64 - 1)))), m)"

definition run_set_poll_interval :: "u64 \<Rightarrow> 'b manager \<Rightarrow> reply \<times> 'b manager" where
  "run_set_poll_interval milliseconds m =
    (if \<not> (100 \<le> milliseconds \<and> milliseconds \<le> 5000) then
       (ReplyInterval (invalid ''poll interval must be from 100 to 5000 milliseconds''), m)
     else (ReplyInterval (Inr milliseconds), m\<lparr>poll_interval := ms (unat milliseconds)\<rparr>))"

definition run_pause_display :: "'b device_backend \<Rightarrow> u64 \<Rightarrow> 'b manager \<Rightarrow> reply \<times> 'b manager" where
  "run_pause_display ops milliseconds m =
    (if \<not> (100 \<le> milliseconds \<and> milliseconds \<le> 300000) then
       (ReplyPause (invalid ''display pause must be from 100 to 300000 milliseconds''), m)
     else if \<not> (ready m \<or> is_busy (connection (daemon m))) then (ReplyPause (Inl NotConnected), m)
     else (case ensure_display_paused ops m of
         (Inr _, m1) \<Rightarrow>
           (let m2 = m1\<lparr>debug_pause_expires_at := Some (now ops m1 + ms (unat milliseconds))\<rparr>
            in (ReplyPause (Inr (display_pause_state_of ops m2)), m2))
       | (Inl e, m1) \<Rightarrow> (ReplyPause (Inl e), drop_if_lost ops (Inl e :: unit result, m1))))"

definition run_resume_display :: "'b device_backend \<Rightarrow> 'b manager \<Rightarrow> reply \<times> 'b manager" where
  "run_resume_display ops m =
     (case resume_display_if_unowned ops (m\<lparr>debug_pause_expires_at := None\<rparr>) of
        (Inr _, m1) \<Rightarrow> (ReplyPause (Inr (display_pause_state_of ops m1)), m1)
      | (Inl e, m1) \<Rightarrow> (ReplyPause (Inl e), drop_if_lost ops (Inl e :: unit result, m1)))"

definition run_read_configuration :: "'b device_backend \<Rightarrow> 'b manager \<Rightarrow> reply \<times> 'b manager" where
  "run_read_configuration ops m =
    (if \<not> ready m then (ReplyConfiguration (Inl NotConnected), m)
     else (case on_backend (be_read_configuration ops) (set_busy ''reading_configuration'' m) of
         (r, m1) \<Rightarrow> (ReplyConfiguration r, settle ops (r, m1))))"

definition run_read_configuration_item ::
  "'b device_backend \<Rightarrow> json_text \<Rightarrow> string \<Rightarrow> 'b manager \<Rightarrow> reply \<times> 'b manager" where
  "run_read_configuration_item ops text key m =
    (if \<not> ready m then (ReplyItem (Inl NotConnected), m)
     else (case bindA (on_backend (be_read_configuration ops)) (\<lambda>c. liftA (mapR (json_print text)
                   (settings_item (settings_from_configuration c) key)))
                 (set_busy ''reading_configuration_item'' m) of
         (r, m1) \<Rightarrow> (ReplyItem r, settle ops (r, m1))))"

text \<open>The handlers that run a configuration transaction.\<close>

definition run_mutation ::
  "'b device_backend \<Rightarrow> string \<Rightarrow> ('b manager, device_configuration) action \<Rightarrow> 'b manager
     \<Rightarrow> reply \<times> 'b manager" where
  "run_mutation ops operation act m =
    (if \<not> ready m then (ReplyConfiguration (Inl NotConnected), m)
     else finish_configuration_mutation ops (act (set_busy operation m)))"

definition run_reboot_device :: "'b device_backend \<Rightarrow> 'b manager \<Rightarrow> reply \<times> 'b manager" where
  "run_reboot_device ops m =
    (if \<not> ready m then (ReplyUnit (Inl NotConnected), m)
     else (case on_backend (be_reboot_device ops) (set_busy ''rebooting_device'' m) of
         (r, m1) \<Rightarrow>
           (ReplyUnit (hide_loss r),
            if r = Inr () \<or> r = Inl ConnectionLost then disconnect ops DeviceReboot m1 else set_ready m1)))"

fun handle_command ::
  "'b device_backend \<Rightarrow> json_text \<Rightarrow> ('b \<Rightarrow> bool) \<Rightarrow> manager_command \<Rightarrow> 'b manager
     \<Rightarrow> reply \<times> 'b manager" where
  "handle_command ops text interrupt (CmdSetScreen screen) m = run_set_screen ops screen m"
| "handle_command ops text interrupt (CmdReadHistoryChunk off len) m = run_read_history_chunk ops off len m"
| "handle_command ops text interrupt (CmdReadThemeAsset slot) m = run_read_theme_asset ops slot m"
| "handle_command ops text interrupt (CmdWriteThemeAsset slot bytes) m = run_write_theme_asset ops slot bytes m"
| "handle_command ops text interrupt CmdBeginHistoryDump m = run_begin_history_dump ops m"
| "handle_command ops text interrupt (CmdReadHistoryDumpChunk i off len) m =
     run_read_history_dump_chunk ops interrupt i off len m"
| "handle_command ops text interrupt (CmdEndHistoryDump i) m = run_end_history_dump ops i m"
| "handle_command ops text interrupt CmdReadDeviceInfo m = run_read_device_info ops m"
| "handle_command ops text interrupt (CmdClearFaults active logged) m = run_clear_faults ops active logged m"
| "handle_command ops text interrupt CmdGetPollInterval m = run_get_poll_interval m"
| "handle_command ops text interrupt (CmdSetPollInterval d) m = run_set_poll_interval d m"
| "handle_command ops text interrupt CmdGetDisplayPause m =
     (ReplyPause (Inr (display_pause_state_of ops m)), m)"
| "handle_command ops text interrupt (CmdPauseDisplay d) m = run_pause_display ops d m"
| "handle_command ops text interrupt CmdResumeDisplay m = run_resume_display ops m"
| "handle_command ops text interrupt CmdReadConfiguration m = run_read_configuration ops m"
| "handle_command ops text interrupt (CmdReadConfigurationItem key) m =
     run_read_configuration_item ops text key m"
| "handle_command ops text interrupt (CmdApplyConfiguration c persist expected) m =
     run_mutation ops (if persist then ''storing_configuration'' else ''applying_configuration'')
       (apply_configuration ops c persist expected) m"
| "handle_command ops text interrupt (CmdSetConfigurationItem key value persist) m =
     run_mutation ops (if persist then ''storing_configuration_item'' else ''applying_configuration_item'')
       (set_configuration_item ops text key value persist) m"
| "handle_command ops text interrupt CmdReloadConfiguration m =
     run_mutation ops ''reloading_configuration'' (run_nvm_operation ops NvmReload) m"
| "handle_command ops text interrupt CmdResetConfiguration m =
     run_mutation ops ''resetting_configuration'' (run_nvm_operation ops NvmReset) m"
| "handle_command ops text interrupt CmdRebootDevice m = run_reboot_device ops m"

end
