(* ===== verification/ManagerRun.thy ===== *)
theory ManagerRun
  imports ManagerCommands
begin

text \<open>
  The run loop of \<open>src/manager.rs\<close> as a step relation, and its invariant. A step is one branch
  of the loop's \<open>select!\<close>, run to its end; which branch runs is not determined. Between
  branches the world may move (time passes, the device changes) and another task may cancel
  the token of the active dump through a handle. For every lawful backend the invariant
  \<open>rest\<close> holds between branches: what the connection state claims is true of the manager's
  fields, the leases on the display are consistent, and the published states are numbered
  consecutively and end with the current state.
\<close>

section \<open>Steps\<close>

text \<open>\<open>ManagerHandle::observe\<close> of a shutdown, and \<open>ManagerHandle::end_history_dump\<close>, cancel the
  shared token before they queue their message.\<close>

definition cancel_history :: "u64 option \<Rightarrow> 'b manager \<Rightarrow> 'b manager" where
  "cancel_history wanted m =
     (case history_cancellation m of
        None \<Rightarrow> m
      | Some (active, cancellation) \<Rightarrow>
          if wanted = None \<or> wanted = Some active
          then m\<lparr>tokens := (tokens m)[cancellation := True]\<rparr> else m)"

inductive manager_step ::
  "'b device_backend \<Rightarrow> json_text \<Rightarrow> ('b \<Rightarrow> 'b \<Rightarrow> bool) \<Rightarrow> 'b manager \<Rightarrow> 'b manager \<Rightarrow> bool"
  for ops :: "'b device_backend" and jt :: json_text and moves_on :: "'b \<Rightarrow> 'b \<Rightarrow> bool" where
  timer: "manager_step ops jt moves_on m (timer_fired ops m)"
    if "\<not> stopped m" and "wake_at m \<le> now ops m"
| candidates: "manager_step ops jt moves_on m (handle_candidates ops found m)"
    if "\<not> stopped m"
| shutdown: "manager_step ops jt moves_on m ((disconnect ops Shutdown m)\<lparr>stopped := True\<rparr>)"
    if "\<not> stopped m"
| command: "manager_step ops jt moves_on m (snd (handle_command ops jt interrupt cmd m))"
    if "\<not> stopped m"
| closed: "manager_step ops jt moves_on m (m\<lparr>stopped := True\<rparr>)"
    if "\<not> stopped m"
| cancel: "manager_step ops jt moves_on m (cancel_history wanted m)"
| world: "manager_step ops jt moves_on m (m\<lparr>backend := b\<rparr>)"
    if "moves_on (backend m) b"

inductive manager_reachable ::
  "'b device_backend \<Rightarrow> json_text \<Rightarrow> ('b \<Rightarrow> 'b \<Rightarrow> bool) \<Rightarrow> 'b manager \<Rightarrow> 'b manager \<Rightarrow> bool"
  for ops :: "'b device_backend" and jt :: json_text and moves_on :: "'b \<Rightarrow> 'b \<Rightarrow> bool"
    and m0 :: "'b manager" where
  start: "manager_reachable ops jt moves_on m0 m0"
| step: "manager_reachable ops jt moves_on m0 m'"
    if "manager_reachable ops jt moves_on m0 m" and "manager_step ops jt moves_on m m'"

inductive_cases manager_stepE: "manager_step ops jt moves_on m m'"
inductive_simps manager_step_stopped: "manager_step ops jt moves_on (m\<lparr>stopped := True\<rparr>) m'"

section \<open>The invariant\<close>

text \<open>The event agrees with a published state of its sequence number.\<close>

fun event_matches :: "device_event \<Rightarrow> daemon_state \<Rightarrow> bool" where
  "event_matches (Connected sequence sid port) d \<longleftrightarrow> d_sequence d = sequence \<and> d_session_id d = sid
     \<and> connection d = Ready sid \<and> connected_port d = Some port"
| "event_matches (Disconnected sequence sid reason) d \<longleftrightarrow> d_sequence d = sequence \<and> d_session_id d = sid
     \<and> connection d = Absent reason \<and> connected_port d = None \<and> last_disconnect_reason d = Some reason"
| "event_matches (TelemetryUpdated sequence sid) d \<longleftrightarrow> d_sequence d = sequence \<and> d_session_id d = sid
     \<and> (\<exists>telem. d_telemetry d = Some telem \<and> t_sequence telem = sequence \<and> t_session_id telem = sid)"
| "event_matches (ScreenChanged sequence sid scr) d \<longleftrightarrow> d_sequence d = sequence \<and> d_session_id d = sid
     \<and> connection d = Ready sid"

definition log_pre :: "'b manager \<Rightarrow> bool" where
  "log_pre m \<longleftrightarrow>
     map d_sequence (published m) = map word_of_nat [1..<Suc (length (published m))]
     \<and> d_sequence (daemon m) = word_of_nat (length (published m))
     \<and> (\<forall>ev\<in>set (events m). \<exists>d\<in>set (published m). event_matches ev d)
     \<and> (\<forall>telem. d_telemetry (daemon m) = Some telem \<longrightarrow> t_session_id telem = session m)"

definition log_ok :: "'b manager \<Rightarrow> bool" where
  "log_ok m \<longleftrightarrow> log_pre m \<and> last (daemon_state_default # published m) = daemon m"

definition attached_ok :: "'b manager \<Rightarrow> bool" where
  "attached_ok m \<longleftrightarrow> current_port m \<noteq> None \<and> connected_port (daemon m) = current_port m
     \<and> identity (daemon m) \<noteq> None \<and> d_telemetry (daemon m) \<noteq> None \<and> retry m = None
     \<and> consecutive_poll_failures m < 3"

definition leases_ok :: "'b manager \<Rightarrow> bool" where
  "leases_ok m \<longleftrightarrow>
     (debug_pause_expires_at m \<noteq> None \<longrightarrow> display_physically_paused m)
     \<and> (display_resume_retry_at m \<noteq> None \<longrightarrow> display_physically_paused m)
     \<and> (case active_dump m of
          None \<Rightarrow> history_cancellation m = None
        | Some dump \<Rightarrow> display_physically_paused m \<and> active_session dump = session m
            \<and> history_cancellation m = Some (active_id dump, active_token dump)
            \<and> active_token dump < length (tokens m))"

definition detached_ok :: "'b manager \<Rightarrow> bool" where
  "detached_ok m \<longleftrightarrow> current_port m = None \<and> connected_port (daemon m) = None
     \<and> active_dump m = None \<and> history_cancellation m = None \<and> debug_pause_expires_at m = None
     \<and> \<not> display_physically_paused m \<and> display_resume_retry_at m = None
     \<and> (\<forall>telem. d_telemetry (daemon m) = Some telem \<longrightarrow> stale telem)"

text \<open>Between branches.\<close>

definition phase_ok :: "'b manager \<Rightarrow> bool" where
  "phase_ok m = (case connection (daemon m) of
       Ready sid \<Rightarrow> sid = session m \<and> attached_ok m \<and> leases_ok m \<and> active_dump m = None
     | Busy sid operation \<Rightarrow> sid = session m \<and> attached_ok m \<and> leases_ok m \<and> active_dump m \<noteq> None
     | Absent reason \<Rightarrow> detached_ok m \<and> last_disconnect_reason (daemon m) = Some reason
     | Recovering attempt cause \<Rightarrow> detached_ok m \<and>
         (\<exists>r. retry m = Some r \<and> retry_attempt r = attempt \<and> retry_not_before r \<noteq> None)
     | UnsupportedState reason \<Rightarrow> detached_ok m \<and> (\<exists>r. retry m = Some r \<and> retry_not_before r = None)
     | AmbiguousDevice found \<Rightarrow> detached_ok m \<and> retry m = None \<and> sorted found \<and> distinct found
         \<and> 2 \<le> length found
     | _ \<Rightarrow> False)"

definition rest :: "('b \<Rightarrow> bool) \<Rightarrow> 'b manager \<Rightarrow> bool" where
  "rest good m \<longleftrightarrow> good (backend m) \<and> log_ok m \<and> phase_ok m"

text \<open>Inside a handler of an attached session, whatever the connection field says.\<close>

definition up :: "('b \<Rightarrow> bool) \<Rightarrow> 'b manager \<Rightarrow> bool" where
  "up good m \<longleftrightarrow> good (backend m) \<and> log_pre m \<and> attached_ok m \<and> leases_ok m"

definition down :: "('b \<Rightarrow> bool) \<Rightarrow> 'b manager \<Rightarrow> bool" where
  "down good m \<longleftrightarrow> good (backend m) \<and> log_pre m \<and> detached_ok m"

section \<open>The log\<close>

lemma log_pre_updates [simp]:
  "log_pre (m\<lparr>backend := b\<rparr>) = log_pre m" "log_pre (m\<lparr>poll_interval := d\<rparr>) = log_pre m"
  "log_pre (m\<lparr>current_port := p\<rparr>) = log_pre m" "log_pre (m\<lparr>retry := r\<rparr>) = log_pre m"
  "log_pre (m\<lparr>consecutive_poll_failures := n\<rparr>) = log_pre m"
  "log_pre (m\<lparr>last_successful_poll := t\<rparr>) = log_pre m" "log_pre (m\<lparr>active_dump := a\<rparr>) = log_pre m"
  "log_pre (m\<lparr>next_history_dump_id := i\<rparr>) = log_pre m"
  "log_pre (m\<lparr>debug_pause_expires_at := t\<rparr>) = log_pre m"
  "log_pre (m\<lparr>display_physically_paused := q\<rparr>) = log_pre m"
  "log_pre (m\<lparr>display_resume_retry_at := t\<rparr>) = log_pre m"
  "log_pre (m\<lparr>history_cancellation := c\<rparr>) = log_pre m" "log_pre (m\<lparr>last_nvm_mutation := t\<rparr>) = log_pre m"
  "log_pre (m\<lparr>tokens := ts\<rparr>) = log_pre m" "log_pre (m\<lparr>next_poll := d\<rparr>) = log_pre m"
  "log_pre (m\<lparr>stopped := q\<rparr>) = log_pre m"
  by (simp_all add: log_pre_def)

lemma log_ok_updates [simp]:
  "log_ok (m\<lparr>backend := b\<rparr>) = log_ok m" "log_ok (m\<lparr>poll_interval := d\<rparr>) = log_ok m"
  "log_ok (m\<lparr>current_port := p\<rparr>) = log_ok m" "log_ok (m\<lparr>retry := r\<rparr>) = log_ok m"
  "log_ok (m\<lparr>consecutive_poll_failures := n\<rparr>) = log_ok m"
  "log_ok (m\<lparr>last_successful_poll := t\<rparr>) = log_ok m" "log_ok (m\<lparr>active_dump := a\<rparr>) = log_ok m"
  "log_ok (m\<lparr>next_history_dump_id := i\<rparr>) = log_ok m"
  "log_ok (m\<lparr>debug_pause_expires_at := t\<rparr>) = log_ok m"
  "log_ok (m\<lparr>display_physically_paused := q\<rparr>) = log_ok m"
  "log_ok (m\<lparr>display_resume_retry_at := t\<rparr>) = log_ok m"
  "log_ok (m\<lparr>history_cancellation := c\<rparr>) = log_ok m" "log_ok (m\<lparr>last_nvm_mutation := t\<rparr>) = log_ok m"
  "log_ok (m\<lparr>tokens := ts\<rparr>) = log_ok m" "log_ok (m\<lparr>next_poll := d\<rparr>) = log_ok m"
  "log_ok (m\<lparr>stopped := q\<rparr>) = log_ok m"
  by (simp_all add: log_ok_def)

lemma log_pre_set_connection [simp]: "log_pre (set_connection c m) = log_pre m"
  by (simp add: set_connection_def log_pre_def)

lemma log_pre_daemon:
  "log_pre m \<Longrightarrow> d_sequence d = d_sequence (daemon m) \<Longrightarrow>
     (\<forall>telem. d_telemetry d = Some telem \<longrightarrow> t_session_id telem = d_session_id d) \<Longrightarrow>
     log_pre (m\<lparr>daemon := d\<rparr>)"
  by (simp add: log_pre_def)

lemma log_ok_imp_pre: "log_ok m \<Longrightarrow> log_pre m"
  by (simp add: log_ok_def)

lemma log_ok_bump: "log_pre m \<Longrightarrow> log_ok (bump_and_publish m)"
  unfolding log_ok_def log_pre_def bump_and_publish_def Let_def
  by (auto simp del: upt_Suc simp: upt_Suc_append)

lemma log_ok_send:
  assumes "log_pre m"
    and "event_matches (ev (d_sequence (daemon (bump_and_publish m))) (session m)) (daemon (bump_and_publish m))"
  shows "log_ok (send_event ev (bump_and_publish m))"
proof -
  have "log_ok (bump_and_publish m)" by (rule log_ok_bump) fact
  moreover have "daemon (bump_and_publish m) \<in> set (published (bump_and_publish m))"
    "session (bump_and_publish m) = session m"
    by (simp_all add: bump_and_publish_def Let_def)
  ultimately show ?thesis
    using assms(2) by (auto simp: log_ok_def log_pre_def send_event_def)
qed

section \<open>Fields the helpers keep\<close>

lemma bump_fields [simp]:
  "backend (bump_and_publish m) = backend m" "current_port (bump_and_publish m) = current_port m"
  "retry (bump_and_publish m) = retry m" "active_dump (bump_and_publish m) = active_dump m"
  "consecutive_poll_failures (bump_and_publish m) = consecutive_poll_failures m"
  "debug_pause_expires_at (bump_and_publish m) = debug_pause_expires_at m"
  "display_physically_paused (bump_and_publish m) = display_physically_paused m"
  "display_resume_retry_at (bump_and_publish m) = display_resume_retry_at m"
  "history_cancellation (bump_and_publish m) = history_cancellation m"
  "tokens (bump_and_publish m) = tokens m"
  "last_nvm_mutation (bump_and_publish m) = last_nvm_mutation m"
  "daemon (bump_and_publish m) = (daemon m)\<lparr>d_sequence := d_sequence (daemon m) + 1\<rparr>"
  by (simp_all add: bump_and_publish_def Let_def)

lemma set_connection_fields [simp]:
  "backend (set_connection c m) = backend m" "current_port (set_connection c m) = current_port m"
  "retry (set_connection c m) = retry m" "active_dump (set_connection c m) = active_dump m"
  "consecutive_poll_failures (set_connection c m) = consecutive_poll_failures m"
  "debug_pause_expires_at (set_connection c m) = debug_pause_expires_at m"
  "display_physically_paused (set_connection c m) = display_physically_paused m"
  "display_resume_retry_at (set_connection c m) = display_resume_retry_at m"
  "history_cancellation (set_connection c m) = history_cancellation m"
  "tokens (set_connection c m) = tokens m"
  "last_nvm_mutation (set_connection c m) = last_nvm_mutation m"
  "daemon (set_connection c m) = (daemon m)\<lparr>connection := c\<rparr>"
  by (simp_all add: set_connection_def)

lemma send_event_fields [simp]:
  "backend (send_event ev m) = backend m" "current_port (send_event ev m) = current_port m"
  "retry (send_event ev m) = retry m" "active_dump (send_event ev m) = active_dump m"
  "consecutive_poll_failures (send_event ev m) = consecutive_poll_failures m"
  "debug_pause_expires_at (send_event ev m) = debug_pause_expires_at m"
  "display_physically_paused (send_event ev m) = display_physically_paused m"
  "display_resume_retry_at (send_event ev m) = display_resume_retry_at m"
  "history_cancellation (send_event ev m) = history_cancellation m"
  "tokens (send_event ev m) = tokens m" "daemon (send_event ev m) = daemon m"
  by (simp_all add: send_event_def)

lemma drop_leases_fields [simp]:
  "backend (drop_leases m) = backend m" "current_port (drop_leases m) = current_port m"
  "retry (drop_leases m) = retry m" "active_dump (drop_leases m) = None"
  "consecutive_poll_failures (drop_leases m) = consecutive_poll_failures m"
  "debug_pause_expires_at (drop_leases m) = None"
  "\<not> display_physically_paused (drop_leases m)"
  "display_resume_retry_at (drop_leases m) = None" "history_cancellation (drop_leases m) = None"
  "tokens (drop_leases m) = tokens m" "daemon (drop_leases m) = daemon m"
  "published (drop_leases m) = published m" "events (drop_leases m) = events m"
  by (simp_all add: drop_leases_def clear_history_cancellation_def)

lemma log_pre_drop_leases [simp]: "log_pre (drop_leases m) = log_pre m"
  by (simp add: log_pre_def)

lemma mark_stale_fields [simp]:
  "d_sequence (mark_stale d) = d_sequence d" "d_session_id (mark_stale d) = d_session_id d"
  "connection (mark_stale d) = connection d" "connected_port (mark_stale d) = connected_port d"
  "identity (mark_stale d) = identity d" "last_disconnect_reason (mark_stale d) = last_disconnect_reason d"
  "d_telemetry (mark_stale d) = map_option (\<lambda>t. t\<lparr>stale := True\<rparr>) (d_telemetry d)"
  by (simp_all add: mark_stale_def)

lemmas phase_defs = attached_ok_def leases_ok_def detached_ok_def
lemmas invariant_defs = rest_def up_def down_def phase_ok_def phase_defs

section \<open>Disconnecting\<close>

lemma log_pre_telemetry_session:
  "log_pre m \<Longrightarrow> d_telemetry (daemon m) = Some telem \<Longrightarrow> t_session_id telem = session m"
  by (simp add: log_pre_def)

context lawful_backend
begin

text \<open>Disconnecting an attached session ends in a detached, published state.\<close>

lemma disconnect_attached:
  assumes "inv (backend m)" and "log_pre m" and "attached m"
  shows "rest inv (disconnect ops reason m)" "current_port (disconnect ops reason m) = None"
    "retry (disconnect ops reason m) = retry m"
proof -
  define m1 where "m1 = bump_and_publish (set_connection (Disconnecting (session m) reason) m)"
  define m2 where "m2 = drop_leases (m1\<lparr>backend := be_disconnect ops (backend m1)\<rparr>)"
  define d where "d = (mark_stale ((daemon m2)\<lparr>connected_port := None\<rparr>))
      \<lparr>connection := Absent reason, last_disconnect_reason := Some reason\<rparr>"
  define m3 where "m3 = m2\<lparr>current_port := None, daemon := d\<rparr>"
  have eq: "disconnect ops reason m =
      send_event (\<lambda>sequence session_id. Disconnected sequence session_id reason) (bump_and_publish m3)"
    using assms(3) by (simp add: disconnect_def Let_def m1_def m2_def d_def m3_def)
  have m1: "log_pre m1" using assms(2) by (simp add: m1_def log_ok_imp_pre log_ok_bump)
  have d: "d_sequence d = d_sequence (daemon m1)" "d_session_id d = session m1"
    "connection d = Absent reason" "connected_port d = None" "last_disconnect_reason d = Some reason"
    "d_telemetry d = map_option (\<lambda>t. t\<lparr>stale := True\<rparr>) (d_telemetry (daemon m1))"
    by (simp_all add: d_def m2_def)
  have "log_pre (m2\<lparr>daemon := d\<rparr>)"
    by (rule log_pre_daemon) (use m1 d log_pre_telemetry_session [OF m1] in \<open>auto simp: m2_def\<close>)
  moreover have "m3 = (m2\<lparr>daemon := d\<rparr>)\<lparr>current_port := None\<rparr>" by (simp add: m3_def)
  ultimately have "log_pre m3" by (simp del: manager.update_convs)
  then have "log_ok (disconnect ops reason m)"
    unfolding eq by (rule log_ok_send) (simp add: m3_def d)
  moreover have "detached_ok (disconnect ops reason m)"
    unfolding eq by (auto simp: detached_ok_def m3_def d m2_def)
  ultimately show "rest inv (disconnect ops reason m)"
    unfolding rest_def phase_ok_def unfolding eq
    using inv_disconnect [OF assms(1)] by (simp add: m3_def d m2_def m1_def)
  show "current_port (disconnect ops reason m) = None" "retry (disconnect ops reason m) = retry m"
    unfolding eq by (simp_all add: m3_def m2_def m1_def)
qed

lemma rest_attached: "rest inv m \<Longrightarrow> attached m \<longleftrightarrow> current_port m \<noteq> None"
  by (cases "connection (daemon m)") (auto simp: attached_def rest_def phase_ok_def phase_defs)

lemma rest_imp_log: "rest inv m \<Longrightarrow> log_pre m" "rest inv m \<Longrightarrow> inv (backend m)"
  by (simp_all add: rest_def log_ok_def)

lemma rest_down: "rest inv m \<Longrightarrow> \<not> attached m \<Longrightarrow> down inv m"
  by (cases "connection (daemon m)")
    (auto simp: attached_def rest_def phase_ok_def down_def log_ok_imp_pre)

lemma down_update_retry [simp]: "down inv (m\<lparr>retry := r\<rparr>) = down inv m"
  by (simp add: down_def detached_ok_def)

text \<open>Disconnecting when nothing is attached only records the reason.\<close>

lemma disconnect_detached:
  assumes "rest inv m" and "\<not> attached m"
  shows "rest inv (disconnect ops reason (m\<lparr>retry := r\<rparr>))"
    "current_port (disconnect ops reason (m\<lparr>retry := r\<rparr>)) = None"
    "retry (disconnect ops reason (m\<lparr>retry := r\<rparr>)) = r"
proof -
  have d: "down inv m" using assms by (rule rest_down)
  have n: "\<not> attached (m\<lparr>retry := r\<rparr>)" using assms(2) by (simp add: attached_def)
  have l: "log_pre (m\<lparr>daemon := (daemon m)\<lparr>connection := Absent reason, last_disconnect_reason := Some reason\<rparr>\<rparr>)"
    using d log_pre_telemetry_session by (intro log_pre_daemon) (auto simp: down_def)
  have u: "m\<lparr>retry := r, daemon := (daemon m)\<lparr>connection := Absent reason, last_disconnect_reason := Some reason\<rparr>\<rparr>
      = (m\<lparr>daemon := (daemon m)\<lparr>connection := Absent reason, last_disconnect_reason := Some reason\<rparr>\<rparr>)\<lparr>retry := r\<rparr>"
    by simp
  show "rest inv (disconnect ops reason (m\<lparr>retry := r\<rparr>))"
  proof (cases "\<exists>x. connection (daemon m) = Absent x")
    case True
    then show ?thesis
      using n assms(1) by (auto simp: disconnect_def rest_def phase_ok_def detached_ok_def)
  next
    case False
    then have "disconnect ops reason (m\<lparr>retry := r\<rparr>) = bump_and_publish (m\<lparr>retry := r, daemon := (daemon m)
        \<lparr>connection := Absent reason, last_disconnect_reason := Some reason\<rparr>\<rparr>)"
      using n by (auto simp: disconnect_def split: connection_state.splits)
    moreover have "log_ok \<dots>"
      unfolding u by (rule log_ok_bump) (use l in \<open>simp del: manager.update_convs\<close>)
    ultimately show ?thesis
      using d by (auto simp: rest_def phase_ok_def down_def detached_ok_def)
  qed
  show "current_port (disconnect ops reason (m\<lparr>retry := r\<rparr>)) = None"
    "retry (disconnect ops reason (m\<lparr>retry := r\<rparr>)) = r"
    using n d by (auto simp: disconnect_def down_def detached_ok_def split: connection_state.splits)
qed

lemma disconnect_rest:
  assumes "rest inv m"
  shows "rest inv (disconnect ops reason m)" "current_port (disconnect ops reason m) = None"
    "retry (disconnect ops reason m) = retry m"
proof -
  have "m = m\<lparr>retry := retry m\<rparr>" by simp
  then show "rest inv (disconnect ops reason m)" "current_port (disconnect ops reason m) = None"
    "retry (disconnect ops reason m) = retry m"
    using disconnect_attached [OF rest_imp_log(2,1) [OF assms]] disconnect_detached [OF assms, of reason "retry m"]
    by (metis)+
qed
end

section \<open>Connecting\<close>

lemma on_backend_fields:
  assumes "on_backend act m = (r, m')"
  shows "m' = m\<lparr>backend := snd (act (backend m))\<rparr>" "r = fst (act (backend m))"
  using assms by (auto simp: on_backend_def split: prod.splits)

lemma retry_delay_bounds: "ms 250 \<le> retry_delay attempt" "retry_delay attempt \<le> ms 30000"
proof -
  have "1 * 1 \<le> (2 :: nat) ^ min (unat (saturating_dec attempt)) 7" by simp
  then have "ms 250 * 1 \<le> ms 250 * 2 ^ min (unat (saturating_dec attempt)) 7"
    by (intro mult_le_mono2) simp
  then show "ms 250 \<le> retry_delay attempt" by (simp add: retry_delay_def ms_def)
  show "retry_delay attempt \<le> ms 30000" by (simp add: retry_delay_def)
qed

lemma distinct_remdups_adj_sorted: "sorted xs \<Longrightarrow> distinct (remdups_adj xs)"
  by (induction xs rule: remdups_adj.induct) (auto simp: less_le)

lemma retry_is_due_update: "\<exists>x. snd (retry_is_due ops port m) = m\<lparr>retry := x\<rparr>"
proof -
  have "snd (retry_is_due ops port m) \<in> {m\<lparr>retry := retry m\<rparr>, m\<lparr>retry := None\<rparr>}"
    by (simp add: retry_is_due_def split: option.splits)
  then show ?thesis by blast
qed

lemma failure_verdict_cases:
  "failure_verdict port attempt t error = (r, c) \<Longrightarrow>
     (\<exists>reason. c = UnsupportedState reason \<and> retry_not_before r = None)
     \<or> (\<exists>cause. c = Recovering (retry_attempt r) cause \<and> retry_not_before r \<noteq> None)"
  by (cases error) (auto simp: failure_verdict_def Let_def)

context lawful_backend
begin

lemma down_set_connection [simp]: "down inv (set_connection c m) = down inv m"
  by (simp add: down_def detached_ok_def)

lemma down_bump [simp]: "down inv m \<Longrightarrow> down inv (bump_and_publish m)"
  by (auto simp: down_def detached_ok_def log_ok_imp_pre log_ok_bump)

lemma down_on_backend:
  assumes "down inv m" and "on_backend act m = (r, m')" and "inv (snd (act (backend m)))"
  shows "down inv m'"
  using assms on_backend_fields(1) [OF assms(2)] by (simp add: down_def detached_ok_def)

lemma connection_failed_rest:
  assumes "down inv m"
  shows "rest inv (connection_failed ops port error m)"
    "current_port (connection_failed ops port error m) = None"
proof -
  define m1 where "m1 = (drop_leases (m\<lparr>backend := be_disconnect ops (backend m)\<rparr>))
      \<lparr>consecutive_poll_failures := 0, last_successful_poll := None, current_port := None\<rparr>"
  obtain r c where v: "failure_verdict port (failed_attempt port (retry m1)) (now ops m1) error = (r, c)"
    by fastforce
  have eq: "connection_failed ops port error m = bump_and_publish (m1\<lparr>retry := Some r,
      daemon := (daemon m1)\<lparr>connected_port := None, identity := None, connection := c\<rparr>\<rparr>)"
    unfolding connection_failed_def Let_def m1_def [symmetric] v by simp
  note c = failure_verdict_cases [OF v]
  let ?d = "(daemon m1)\<lparr>connected_port := None, identity := None, connection := c\<rparr>"
  have l: "log_pre m1" using assms by (simp add: m1_def down_def)
  have "log_pre (m1\<lparr>daemon := ?d\<rparr>)"
    by (rule log_pre_daemon [OF l]) (use l log_pre_telemetry_session in auto)
  then have "log_pre (m1\<lparr>retry := Some r, daemon := ?d\<rparr>)" by (simp add: log_pre_def)
  then have "log_ok (connection_failed ops port error m)"
    unfolding eq by (rule log_ok_bump)
  moreover have "detached_ok (connection_failed ops port error m)"
    unfolding eq using assms by (auto simp: detached_ok_def m1_def down_def)
  ultimately show "rest inv (connection_failed ops port error m)"
    using c inv_disconnect assms unfolding rest_def phase_ok_def unfolding eq
    by (auto simp: m1_def down_def)
  show "current_port (connection_failed ops port error m) = None"
    unfolding eq by (simp add: m1_def)
qed

lemma connected_with_rest:
  assumes "down inv m"
  shows "rest inv (connected_with ops port ident telem m)"
proof -
  define sid where "sid = session m + 1"
  define t where "t = telem\<lparr>t_session_id := sid, t_sequence := d_sequence (daemon m) + 1\<rparr>"
  define d where "d = (daemon m)\<lparr>d_session_id := sid, connected_port := Some port, identity := Some ident,
      d_telemetry := Some t, connection := Ready sid\<rparr>"
  define m1 where "m1 = (drop_leases (m\<lparr>daemon := d, current_port := Some port,
      consecutive_poll_failures := 0, last_successful_poll := Some (now ops m)\<rparr>))\<lparr>retry := None\<rparr>"
  have eq: "connected_with ops port ident telem m =
      send_event (\<lambda>sequence session_id. Connected sequence session_id port) (bump_and_publish m1)"
    by (simp add: connected_with_def Let_def sid_def t_def d_def m1_def)
  have "log_pre (m\<lparr>daemon := d\<rparr>)"
    by (rule log_pre_daemon) (use assms in \<open>simp_all add: d_def t_def down_def\<close>)
  then have "log_pre m1"
    unfolding m1_def by (simp add: log_pre_def)
  then have "log_ok (connected_with ops port ident telem m)"
    unfolding eq by (rule log_ok_send) (simp add: m1_def d_def)
  then show ?thesis
    unfolding rest_def phase_ok_def unfolding eq
    using assms by (simp add: m1_def d_def attached_ok_def leases_ok_def down_def)
qed

lemma connect_rest:
  assumes "down inv m"
  shows "rest inv (connect ops port m)"
proof -
  let ?m0 = "bump_and_publish (set_connection (Connecting port) m)"
  obtain r m1 where r: "on_backend (be_connect ops port) ?m0 = (r, m1)" by fastforce
  have d1: "down inv m1"
    by (rule down_on_backend [OF _ r]) (use assms inv_connect in \<open>simp_all, simp add: down_def\<close>)
  obtain q m2 where q: "on_backend (be_read_telemetry ops) m1 = (q, m2)" by fastforce
  have d2: "down inv m2"
    by (rule down_on_backend [OF d1 q]) (use d1 inv_telemetry in \<open>auto simp: down_def\<close>)
  show ?thesis
    using r q d1 d2 connection_failed_rest(1) connected_with_rest
    by (auto simp: connect_def split: sum.splits)
qed

lemma handle_candidates_rest:
  assumes "rest inv m"
  shows "rest inv (handle_candidates ops found m)"
proof -
  note dis = disconnect_rest [OF assms] disconnect_detached [OF assms] disconnect_attached
  have gone: "rest inv (disconnect ops RemovedFromHost (m\<lparr>retry := None\<rparr>))
     \<and> current_port (disconnect ops RemovedFromHost (m\<lparr>retry := None\<rparr>)) = None
     \<and> retry (disconnect ops RemovedFromHost (m\<lparr>retry := None\<rparr>)) = None"
  proof (cases "attached m")
    case True
    then have a: "attached (m\<lparr>retry := None\<rparr>)" by (simp add: attached_def)
    then show ?thesis
      using disconnect_attached [of "m\<lparr>retry := None\<rparr>" RemovedFromHost] rest_imp_log [OF assms] by simp
  next
    case False
    then show ?thesis using disconnect_detached [OF assms] by blast
  qed
  show ?thesis
  proof (cases "remdups_adj (sort found)" rule: remdups_adj.cases)
    case 1
    then show ?thesis using gone by (simp add: handle_candidates_def)
  next
    case (2 port)
    show ?thesis
    proof (cases "current_port m = Some port \<or> \<not> fst (retry_is_due ops port m)")
      case True
      then have "handle_candidates ops found m = m"
        using 2 by (cases "retry_is_due ops port m")
          (auto simp: handle_candidates_def retry_is_due_def split: option.splits if_splits)
      then show ?thesis using assms by simp
    next
      case False
      obtain m1 where due: "retry_is_due ops port m = (True, m1)"
        using False by (cases "retry_is_due ops port m") auto
      obtain x where m1: "m1 = m\<lparr>retry := x\<rparr>"
        using retry_is_due_update [of ops port m] due by auto
      have port: "current_port m \<noteq> Some port" using False by simp
      have eq: "handle_candidates ops found m =
          connect ops port (if current_port m \<noteq> None then disconnect ops Replaced m1 else m1)"
        unfolding handle_candidates_def 2 Let_def using due m1 port by simp
      show ?thesis
      proof (cases "current_port m")
        case None
        then have "down inv m" using rest_down [OF assms] rest_attached [OF assms] by simp
        then show ?thesis unfolding eq using None m1 by (simp add: connect_rest)
      next
        case (Some p)
        then have "attached m1" "inv (backend m1)" "log_pre m1"
          using m1 rest_imp_log [OF assms] by (auto simp: attached_def)
        from disconnect_attached [OF this(2,3,1)] have "down inv (disconnect ops Replaced m1)"
          using rest_down rest_attached by blast
        then show ?thesis unfolding eq using Some by (simp add: connect_rest)
      qed
    qed
  next
    case (3 p q others)
    define found' where "found' = remdups_adj (sort found)"
    have f: "sorted found'" "distinct found'" "2 \<le> length found'"
      unfolding found'_def by (simp_all add: sorted_remdups_adj distinct_remdups_adj_sorted) (simp add: 3)
    have eq: "handle_candidates ops found m =
       (if connection (daemon m) = AmbiguousDevice found' then m\<lparr>retry := None\<rparr>
        else bump_and_publish (set_connection (AmbiguousDevice found')
               (disconnect ops RemovedFromHost (m\<lparr>retry := None\<rparr>))))"
      using 3 by (simp add: handle_candidates_def found'_def)
    show ?thesis
    proof (cases "connection (daemon m) = AmbiguousDevice found'")
      case True
      then show ?thesis
        unfolding eq using assms by (auto simp: rest_def phase_ok_def detached_ok_def)
    next
      case False
      let ?m1 = "disconnect ops RemovedFromHost (m\<lparr>retry := None\<rparr>)"
      have d: "down inv ?m1" using gone rest_down rest_attached by blast
      then have "log_ok (bump_and_publish (set_connection (AmbiguousDevice found') ?m1))"
        by (intro log_ok_bump) (simp add: down_def)
      then show ?thesis
        unfolding eq using False d f gone
        by (auto simp: rest_def phase_ok_def down_def detached_ok_def)
    qed
  qed
qed
end

section \<open>Inside a session\<close>

text \<open>Steps that change at most the world and the display lease fields.\<close>

definition lease_step :: "'b manager \<Rightarrow> 'b manager \<Rightarrow> bool" where
  "lease_step m m' \<longleftrightarrow> daemon m' = daemon m \<and> published m' = published m \<and> events m' = events m
     \<and> current_port m' = current_port m \<and> retry m' = retry m \<and> active_dump m' = active_dump m
     \<and> consecutive_poll_failures m' = consecutive_poll_failures m \<and> tokens m' = tokens m
     \<and> history_cancellation m' = history_cancellation m"

lemma lease_step_refl [simp]: "lease_step m m"
  by (simp add: lease_step_def)

lemma lease_step_trans: "lease_step m m' \<Longrightarrow> lease_step m' m'' \<Longrightarrow> lease_step m m''"
  by (simp add: lease_step_def)

lemma lease_step_updates [simp]:
  "lease_step m (m'\<lparr>backend := b\<rparr>) = lease_step m m'"
  "lease_step m (m'\<lparr>display_physically_paused := q\<rparr>) = lease_step m m'"
  "lease_step m (m'\<lparr>display_resume_retry_at := t\<rparr>) = lease_step m m'"
  "lease_step m (m'\<lparr>debug_pause_expires_at := t\<rparr>) = lease_step m m'"
  "lease_step m (m'\<lparr>last_nvm_mutation := t\<rparr>) = lease_step m m'"
  by (simp_all add: lease_step_def)

lemma lease_step_on_backend: "on_backend act m = (r, m') \<Longrightarrow> lease_step m m'"
  by (auto simp: on_backend_def split: prod.splits)

lemma lease_step_log: "lease_step m m' \<Longrightarrow> log_pre m' = log_pre m" "lease_step m m' \<Longrightarrow> log_ok m' = log_ok m"
  by (simp_all add: lease_step_def log_pre_def log_ok_def)

text \<open>What a handler may do to the leases: the pause stays while it has an owner.\<close>

lemma ensure_display_paused_step:
  assumes "ensure_display_paused ops m = (r, m')"
  shows "lease_step m m'" "debug_pause_expires_at m' = debug_pause_expires_at m"
    "display_physically_paused m \<Longrightarrow> m' = m \<and> r = Inr ()"
    "r = Inr () \<Longrightarrow> display_physically_paused m'"
    "r \<noteq> Inr () \<Longrightarrow> m' = m\<lparr>backend := backend m'\<rparr>"
    "backend m' = backend m \<or> backend m' = snd (be_pause_history_updates ops (backend m))"
    "display_resume_retry_at m' \<noteq> None \<Longrightarrow>
       display_resume_retry_at m' = display_resume_retry_at m \<and> (display_physically_paused m \<longrightarrow> display_physically_paused m')"
  using assms
  by (auto simp: ensure_display_paused_def bindA_def on_backend_def split: prod.splits sum.splits if_splits)

lemma resume_display_step:
  assumes "resume_display_if_unowned ops m = (r, m')"
  shows "lease_step m m'" "debug_pause_expires_at m' = debug_pause_expires_at m"
    "display_owned m \<Longrightarrow> display_physically_paused m' = display_physically_paused m \<and> r = Inr ()"
    "r = Inr () \<Longrightarrow> \<not> display_owned m \<Longrightarrow> \<not> display_physically_paused m'"
    "r \<noteq> Inr () \<Longrightarrow> display_physically_paused m' = display_physically_paused m \<and> display_physically_paused m"
    "r = Inr () \<Longrightarrow> display_resume_retry_at m' = None"
    "r = Inl e \<Longrightarrow> e \<noteq> ConnectionLost \<Longrightarrow> display_resume_retry_at m' = Some (now ops m' + DISPLAY_RESUME_RETRY_DELAY)"
    "r = Inl ConnectionLost \<Longrightarrow> display_resume_retry_at m' = display_resume_retry_at m"
    "backend m' = backend m \<or> backend m' = snd (be_resume_history_updates ops (backend m))"
  using assms
  by (auto simp: resume_display_if_unowned_def on_backend_def split: prod.splits sum.splits if_splits)

context lawful_backend
begin

lemma up_attached: "up inv m \<Longrightarrow> attached m"
  by (simp add: up_def attached_ok_def attached_def)

lemma up_disconnect: "up inv m \<Longrightarrow> rest inv (disconnect ops reason m)"
  using disconnect_attached(1) up_attached by (auto simp: up_def)

lemma up_bump [simp]: "up inv m \<Longrightarrow> up inv (bump_and_publish m)"
  by (auto simp: up_def attached_ok_def leases_ok_def log_ok_imp_pre log_ok_bump split: option.splits)

lemma up_set_connection [simp]: "up inv (set_connection c m) = up inv m"
  by (simp add: up_def attached_ok_def leases_ok_def split: option.splits)

lemma up_set_busy [simp]: "up inv m \<Longrightarrow> up inv (set_busy operation m)"
  by (simp add: set_busy_def)

lemma set_busy_fields [simp]:
  "active_dump (set_busy operation m) = active_dump m" "backend (set_busy operation m) = backend m"
  "session (set_busy operation m) = session m"
  by (simp_all add: set_busy_def)

text \<open>Where a handler may stop.\<close>

lemma rest_from_up:
  assumes "up inv m" and "log_ok m"
    and "connection (daemon m) = Ready (session m) \<and> active_dump m = None
       \<or> (\<exists>operation. connection (daemon m) = Busy (session m) operation) \<and> active_dump m \<noteq> None"
  shows "rest inv m"
  using assms by (auto simp: rest_def phase_ok_def up_def)

lemma up_set_ready: "up inv m \<Longrightarrow> active_dump m = None \<Longrightarrow> rest inv (set_ready m)"
  unfolding set_ready_def
  by (rule rest_from_up) (simp_all add: log_ok_bump, simp add: up_def log_ok_bump)

lemma rest_session:
  assumes "rest inv m" and "ready m \<or> is_busy (connection (daemon m))"
  shows "up inv m" "log_ok m" "ready m \<Longrightarrow> active_dump m = None"
    "ready m \<Longrightarrow> connection (daemon m) = Ready (session m)"
    "\<not> ready m \<Longrightarrow> active_dump m \<noteq> None"
    "\<not> ready m \<Longrightarrow> \<exists>operation. connection (daemon m) = Busy (session m) operation"
  using assms by (cases "connection (daemon m)"; auto simp: rest_def phase_ok_def up_def log_ok_imp_pre)+

text \<open>A state that only differs in world and lease fields may be stopped in as well.\<close>

lemma rest_lease_step:
  assumes "rest inv m" and "ready m \<or> is_busy (connection (daemon m))"
    and "lease_step m m'" and "up inv m'"
  shows "rest inv m'"
proof (rule rest_from_up)
  show "log_ok m'" using rest_session(2) [OF assms(1,2)] lease_step_log(2) [OF assms(3)] by simp
  show "connection (daemon m') = Ready (session m') \<and> active_dump m' = None
       \<or> (\<exists>operation. connection (daemon m') = Busy (session m') operation) \<and> active_dump m' \<noteq> None"
    using rest_session(3-6) [OF assms(1,2)] assms(3) by (cases "ready m") (auto simp: lease_step_def)
qed fact

lemma up_on_backend:
  assumes "up inv m" and "on_backend act m = (r, m')" and "inv (snd (act (backend m)))"
  shows "up inv m'"
  using assms on_backend_fields(1) [OF assms(2)]
  by (auto simp: up_def attached_ok_def leases_ok_def split: option.splits)

lemma up_lease_step:
  assumes "up inv m" and "lease_step m m'" and "inv (backend m')"
    and "debug_pause_expires_at m' \<noteq> None \<Longrightarrow> display_physically_paused m'"
    and "display_resume_retry_at m' \<noteq> None \<Longrightarrow> display_physically_paused m'"
    and "active_dump m \<noteq> None \<Longrightarrow> display_physically_paused m'"
  shows "up inv m'"
  using assms lease_step_log(1) [OF assms(2)]
  by (auto simp: up_def attached_ok_def leases_ok_def lease_step_def split: option.splits)

lemma up_ensure:
  assumes "up inv m" and "ensure_display_paused ops m = (r, m')"
  shows "up inv m'"
proof -
  note e = ensure_display_paused_step [OF assms(2)]
  have l: "leases_ok m" "inv (backend m)" using assms(1) by (simp_all add: up_def)
  show ?thesis
  proof (cases "r = Inr ()")
    case True
    then show ?thesis
      using e l inv_pause by (intro up_lease_step [OF assms(1)]) (auto simp: leases_ok_def)
  next
    case False
    then have "display_physically_paused m' = display_physically_paused m" using e(5) by (metis manager.surjective manager.update_convs(1) manager.select_convs(13))
    then show ?thesis
      using e l inv_pause False
      by (intro up_lease_step [OF assms(1)]) (auto simp: leases_ok_def split: option.splits)
  qed
qed

lemma up_resume:
  assumes "up inv m" and "resume_display_if_unowned ops m = (r, m')"
  shows "up inv m'"
proof -
  note e = resume_display_step [OF assms(2)]
  have l: "leases_ok m" "inv (backend m)" using assms(1) by (simp_all add: up_def)
  have b: "inv (backend m')" using e(9) l(2) inv_resume by auto
  show ?thesis
  proof (cases "display_owned m")
    case True
    then show ?thesis
      using e l b by (intro up_lease_step [OF assms(1)]) (auto simp: leases_ok_def split: option.splits)
  next
    case False
    then have "debug_pause_expires_at m = None" "active_dump m = None" by (simp_all add: display_owned_def)
    then show ?thesis
      using e l b by (intro up_lease_step [OF assms(1)]) (cases r; auto)+
  qed
qed
end

section \<open>Timers keep the invariant\<close>

lemma lease_step_settle_fields:
  "lease_step m m' \<Longrightarrow> active_dump m' = active_dump m" "lease_step m m' \<Longrightarrow> daemon m' = daemon m"
  by (simp_all add: lease_step_def)

context lawful_backend
begin

lemma up_field_updates [simp]:
  "up inv (m\<lparr>last_successful_poll := t\<rparr>) = up inv m" "up inv (m\<lparr>poll_interval := d\<rparr>) = up inv m"
  "up inv (m\<lparr>next_poll := d\<rparr>) = up inv m" "up inv (m\<lparr>last_nvm_mutation := t\<rparr>) = up inv m"
  "up inv (m\<lparr>next_history_dump_id := i\<rparr>) = up inv m"
  by (simp_all add: up_def attached_ok_def leases_ok_def split: option.splits)

lemma rest_field_updates [simp]:
  "rest inv (m\<lparr>poll_interval := d\<rparr>) = rest inv m" "rest inv (m\<lparr>next_poll := t\<rparr>) = rest inv m"
  "rest inv (m\<lparr>stopped := q\<rparr>) = rest inv m"
  by (simp_all add: rest_def phase_ok_def phase_defs split: connection_state.splits option.splits)

lemma settle_rest: "up inv m \<Longrightarrow> active_dump m = None \<Longrightarrow> rest inv (settle ops (r, m))"
  by (cases r) (auto simp: settle_def up_disconnect up_set_ready)

lemma drop_if_lost_rest: "rest inv m \<Longrightarrow> rest inv (drop_if_lost ops (r, m))"
  by (cases r) (auto simp: drop_if_lost_def disconnect_rest)

lemma poll_failed_rest:
  assumes "up inv m" and "log_ok m" and "connection (daemon m) = Ready (session m)" and "active_dump m = None"
  shows "rest inv (poll_failed ops m)"
proof -
  define m1 where "m1 = m\<lparr>consecutive_poll_failures := saturating_inc (consecutive_poll_failures m)\<rparr>"
  define stale_m where "stale_m = m1\<lparr>daemon := mark_stale (daemon m1)\<rparr>"
  have "\<exists>b. poll_failed ops m = (if 3 \<le> consecutive_poll_failures (if b then bump_and_publish stale_m else m1)
      then disconnect ops PresenceCheckFailed (if b then bump_and_publish stale_m else m1)
      else (if b then bump_and_publish stale_m else m1))"
    unfolding poll_failed_def m1_def stale_m_def Let_def by (rule exI, rule refl)
  then obtain m2 where m2: "m2 = m1 \<or> m2 = bump_and_publish stale_m" and
    eq: "poll_failed ops m = (if 3 \<le> consecutive_poll_failures m2 then disconnect ops PresenceCheckFailed m2 else m2)"
    by metis
  have l: "log_pre m1" "inv (backend m1)" "attached m1"
    using assms(1) up_attached [OF assms(1)] by (auto simp: m1_def up_def attached_def)
  then have "log_pre stale_m"
    unfolding stale_m_def by (intro log_pre_daemon) (auto dest: log_pre_telemetry_session)
  then have m2_ok: "log_ok m2" "inv (backend m2)" "attached m2" "active_dump m2 = None"
    "connection (daemon m2) = Ready (session m2)"
    using m2 l assms(2-4) by (auto simp: log_ok_bump stale_m_def m1_def attached_def)
  show ?thesis
  proof (cases "3 \<le> consecutive_poll_failures m2")
    case True
    then show ?thesis unfolding eq using m2_ok by (simp add: disconnect_attached(1) log_ok_imp_pre)
  next
    case False
    then have "up inv m2"
      using m2 m2_ok assms(1) log_ok_imp_pre [OF m2_ok(1)]
      by (auto simp: up_def attached_ok_def leases_ok_def m1_def stale_m_def not_le)
    then show ?thesis unfolding eq using False m2_ok by (simp add: rest_from_up)
  qed
qed

lemma publish_telemetry_rest:
  assumes "up inv m" and "connection (daemon m) = Ready (session m)" and "active_dump m = None"
  shows "rest inv (publish_telemetry ops telem m)"
proof -
  define t where "t = telem\<lparr>t_sequence := d_sequence (daemon m) + 1, t_session_id := session m\<rparr>"
  define m1 where "m1 = m\<lparr>daemon := (daemon m)\<lparr>d_telemetry := Some t\<rparr>, consecutive_poll_failures := 0,
      last_successful_poll := Some (now ops m)\<rparr>"
  have eq: "publish_telemetry ops telem m = send_event TelemetryUpdated (bump_and_publish m1)"
    by (simp add: publish_telemetry_def Let_def t_def m1_def)
  have "log_pre (m\<lparr>daemon := (daemon m)\<lparr>d_telemetry := Some t\<rparr>\<rparr>)"
    by (rule log_pre_daemon) (use assms(1) in \<open>auto simp: up_def t_def\<close>)
  then have l: "log_pre m1" by (simp add: m1_def)
  then have log: "log_ok (publish_telemetry ops telem m)"
    unfolding eq by (rule log_ok_send) (simp add: m1_def t_def)
  have "up inv (publish_telemetry ops telem m)"
    using assms(1,3) log_ok_imp_pre [OF log]
    unfolding up_def attached_ok_def leases_ok_def unfolding eq by (simp add: m1_def)
  then show ?thesis
    by (rule rest_from_up [OF _ log]) (use assms(2,3) in \<open>simp add: eq m1_def\<close>)
qed

lemma poll_once_rest:
  assumes "rest inv m"
  shows "rest inv (poll_once ops m)"
proof (cases "ready m")
  case False
  then show ?thesis using assms by (simp add: poll_once_def)
next
  case True
  note s = rest_session [OF assms disjI1 [OF True]]
  obtain r m1 where r: "on_backend (be_read_telemetry ops) m = (r, m1)" by fastforce
  note l = lease_step_on_backend [OF r]
  have "up inv m1" by (rule up_on_backend [OF s(1) r]) (use assms inv_telemetry in \<open>simp add: rest_def\<close>)
  moreover have "log_ok m1" using s(2) lease_step_log(2) [OF l] by simp
  moreover have "connection (daemon m1) = Ready (session m1)" "active_dump m1 = None"
    using s(3,4) True l by (auto simp: lease_step_def)
  ultimately show ?thesis
    using True r publish_telemetry_rest poll_failed_rest up_disconnect
    by (auto simp: poll_once_def split: sum.splits device_error.splits)
qed

lemma up_end_dump:
  assumes "up inv m"
  shows "up inv (clear_history_cancellation None (m\<lparr>active_dump := None\<rparr>))"
  using assms by (auto simp: up_def attached_ok_def leases_ok_def clear_history_cancellation_def)

lemma clear_history_cancellation_None [simp]:
  "active_dump (clear_history_cancellation None m) = active_dump m"
  "display_physically_paused (clear_history_cancellation None m) = display_physically_paused m"
  by (simp_all add: clear_history_cancellation_def)

lemma expire_history_dump_rest:
  assumes "rest inv m"
  shows "rest inv (expire_history_dump ops m)"
proof (cases "active_dump m")
  case None
  then show ?thesis using assms by (simp add: expire_history_dump_def)
next
  case (Some dump)
  have "ready m \<or> is_busy (connection (daemon m))"
    using assms Some by (cases "connection (daemon m)") (auto simp: rest_def phase_ok_def detached_ok_def)
  note s = rest_session [OF assms this]
  let ?m = "clear_history_cancellation None (m\<lparr>active_dump := None\<rparr>)"
  obtain r m1 where r: "resume_display_if_unowned ops ?m = (r, m1)" by fastforce
  have "up inv m1" by (rule up_resume [OF up_end_dump [OF s(1)] r])
  moreover have "active_dump m1 = None"
    using resume_display_step(1) [OF r] by (simp add: lease_step_def)
  ultimately show ?thesis
    using assms Some r by (simp add: expire_history_dump_def settle_rest)
qed

lemma up_end_debug_pause [simp]: "up inv m \<Longrightarrow> up inv (m\<lparr>debug_pause_expires_at := None\<rparr>)"
  by (auto simp: up_def attached_ok_def leases_ok_def split: option.splits)

text \<open>Clearing the debug lease and resuming, in any attached state.\<close>

lemma resume_rest:
  assumes "rest inv m" and "ready m \<or> is_busy (connection (daemon m))"
    and "resume_display_if_unowned ops (m\<lparr>debug_pause_expires_at := None\<rparr>) = (r, m1)"
  shows "rest inv m1"
proof (rule rest_lease_step [OF assms(1,2)])
  show "lease_step m m1"
    using resume_display_step(1) [OF assms(3)] by (simp add: lease_step_def)
  show "up inv m1"
    by (rule up_resume [OF _ assms(3)]) (simp add: rest_session(1) [OF assms(1,2)])
qed

lemma expire_debug_pause_rest:
  assumes "rest inv m"
  shows "rest inv (expire_debug_pause ops m)"
proof (cases "debug_pause_expires_at m")
  case None
  then show ?thesis using assms by (simp add: expire_debug_pause_def)
next
  case (Some t)
  have "ready m \<or> is_busy (connection (daemon m))"
    using assms Some by (cases "connection (daemon m)") (auto simp: rest_def phase_ok_def detached_ok_def)
  then show ?thesis
    using assms Some resume_rest
    by (cases "resume_display_if_unowned ops (m\<lparr>debug_pause_expires_at := None\<rparr>)")
      (auto simp: expire_debug_pause_def drop_if_lost_rest)
qed

lemma retry_display_resume_cleanup_rest:
  assumes "rest inv m"
  shows "rest inv (retry_display_resume_cleanup ops m)"
proof (cases "display_resume_retry_at m = None \<or> \<not> ready m")
  case True
  then show ?thesis using assms by (auto simp: retry_display_resume_cleanup_def split: option.splits)
next
  case False
  then have ready: "ready m" by simp
  note s = rest_session [OF assms disjI1 [OF ready]]
  have cleared: "rest inv (m\<lparr>display_resume_retry_at := None\<rparr>)"
    using s(1) by (intro rest_lease_step [OF assms disjI1 [OF ready]])
      (auto simp: up_def attached_ok_def leases_ok_def split: option.splits)
  obtain r m1 where r: "resume_display_if_unowned ops m = (r, m1)" by fastforce
  have u: "up inv m1" by (rule up_resume [OF s(1) r])
  have l: "lease_step m m1" by (rule resume_display_step(1) [OF r])
  have "rest inv m1" by (rule rest_lease_step [OF assms disjI1 [OF ready] l u])
  moreover have "rest inv (bump_and_publish m1)"
  proof (rule rest_from_up)
    show "log_ok (bump_and_publish m1)" using u by (simp add: up_def log_ok_bump)
  qed (use u l s(3,4) ready in \<open>simp_all add: lease_step_def\<close>)
  ultimately show ?thesis
    using assms False r cleared up_disconnect [OF u]
    by (auto simp: retry_display_resume_cleanup_def split: option.splits sum.splits)
qed

lemma timer_fired_rest: "rest inv m \<Longrightarrow> rest inv (timer_fired ops m)"
  by (simp add: timer_fired_def Let_def expire_history_dump_rest expire_debug_pause_rest
      retry_display_resume_cleanup_rest poll_once_rest)
end

section \<open>Configuration transactions only touch the world\<close>

definition quiet :: "'b manager \<Rightarrow> 'b manager \<Rightarrow> bool" where
  "quiet m m' \<longleftrightarrow> m' = m\<lparr>backend := backend m', last_nvm_mutation := last_nvm_mutation m'\<rparr>"

lemma quiet_refl [simp]: "quiet m m"
  by (simp add: quiet_def)

lemma quiet_trans: "quiet m m' \<Longrightarrow> quiet m' m'' \<Longrightarrow> quiet m m''"
  by (cases m; cases m'; cases m'') (simp add: quiet_def)

definition tame :: "('b \<Rightarrow> bool) \<Rightarrow> ('b manager, 'a) action \<Rightarrow> bool" where
  "tame good act \<longleftrightarrow>
     (\<forall>m. good (backend m) \<longrightarrow> quiet m (snd (act m)) \<and> good (backend (snd (act m))))"

named_theorems tame_intros \<open>which actions only touch the world and keep its invariant\<close>

lemma tame_basic [tame_intros]:
  "tame good (retA x)" "tame good (failA e)" "tame good (liftA r)"
  by (simp_all add: tame_def)

lemma tame_Pair [tame_intros]: "tame good (Pair r)"
  by (simp add: tame_def)

lemma tame_bindA [tame_intros]:
  assumes "tame good act" and "\<And>x. tame good (k x)"
  shows "tame good (bindA act k)"
  unfolding tame_def
proof (intro allI impI)
  fix m :: "'a manager"
  assume g: "good (backend m)"
  obtain r m1 where r: "act m = (r, m1)" by fastforce
  have 1: "quiet m m1" "good (backend m1)" using assms(1) g r by (auto simp: tame_def)
  have 2: "quiet m1 (snd (k x m1)) \<and> good (backend (snd (k x m1)))" for x
    using assms(2) 1(2) by (auto simp: tame_def)
  show "quiet m (snd (bindA act k m)) \<and> good (backend (snd (bindA act k m)))"
    using 1 2 r by (cases r) (auto simp: bindA_def intro: quiet_trans)
qed

lemma tame_bindA_state [tame_intros]:
  assumes "tame good act" and "\<And>x m. tame good (k x m)"
  shows "tame good (bindA act (\<lambda>x m. k x m m))"
proof -
  have "tame good (\<lambda>m. k x m m)" for x
    using assms(2) by (simp add: tame_def)
  then show ?thesis by (rule tame_bindA [OF assms(1)])
qed

lemma tame_case:
  assumes "tame good act" and "\<And>r. tame good (f r)"
  shows "tame good (\<lambda>m. case act m of (r, m1) \<Rightarrow> f r m1)"
  unfolding tame_def
proof (intro allI impI)
  fix m :: "'a manager"
  assume g: "good (backend m)"
  obtain r m1 where r: "act m = (r, m1)" by fastforce
  then have "quiet m m1" "good (backend m1)" using assms(1) g by (auto simp: tame_def dest!: spec [of _ m])
  then show "quiet m (snd (case act m of (r, m1) \<Rightarrow> f r m1))
     \<and> good (backend (snd (case act m of (r, m1) \<Rightarrow> f r m1)))"
    using r assms(2) [of r] by (auto simp: tame_def intro: quiet_trans)
qed

lemma tame_on_backend:
  "(\<And>b. good b \<Longrightarrow> good (snd (act b))) \<Longrightarrow> tame good (on_backend act)"
  by (auto simp: tame_def on_backend_def quiet_def split: prod.splits) (metis snd_conv)+

lemma tame_sleep [tame_intros]:
  "(\<And>b. good b \<Longrightarrow> good (be_sleep ops d b)) \<Longrightarrow> tame good (sleep ops d)"
  by (simp add: tame_def sleep_def quiet_def)

lemma tame_wait:
  "(\<And>d b. good b \<Longrightarrow> good (be_sleep ops d b)) \<Longrightarrow> tame good (updA (wait_for_nvm_mutation_slot ops))"
  by (simp add: tame_def wait_for_nvm_mutation_slot_def quiet_def Let_def split: option.splits)

context lawful_backend
begin

lemma tame_ops [tame_intros]:
  "tame inv (on_backend (be_read_configuration ops))" "tame inv (on_backend (be_write_configuration ops c))"
  "tame inv (on_backend (be_nvm_configuration ops n))" "tame inv (on_backend (be_clear_faults ops x y))"
  "tame inv (on_backend (be_read_telemetry ops))" "tame inv (sleep ops d)"
  "tame inv (updA (wait_for_nvm_mutation_slot ops))"
  by (auto intro!: tame_on_backend tame_sleep tame_wait inv_intros)

lemma tame_note_mutation [tame_intros]:
  "tame inv (updA (\<lambda>m. m\<lparr>last_nvm_mutation := Some (now ops m)\<rparr>))"
  by (simp add: tame_def quiet_def)

lemma tame_store_and_verify [tame_intros]: "tame inv (store_and_verify ops wanted mismatch)"
  unfolding store_and_verify_def by (auto intro!: tame_intros)

lemma tame_rollback [tame_intros]: "tame inv (rollback_configuration ops original persist)"
  unfolding rollback_configuration_def by (auto intro!: tame_intros)

lemma tame_write_and_verify [tame_intros]: "tame inv (write_and_verify ops c persist)"
  unfolding write_and_verify_def by (auto intro!: tame_intros)

lemma tame_finish_apply [tame_intros]: "tame inv (finish_apply ops current persist operation)"
  unfolding tame_def
proof (intro allI impI)
  fix m :: "'b manager"
  assume g: "inv (backend m)"
  then have "quiet m (snd (rollback_configuration ops current persist m))"
    "inv (backend (snd (rollback_configuration ops current persist m)))"
    using tame_rollback by (auto simp: tame_def)
  then show "quiet m (snd (finish_apply ops current persist operation m))
     \<and> inv (backend (snd (finish_apply ops current persist operation m)))"
    using g by (auto simp: finish_apply_def split: sum.splits prod.splits)
qed

lemma tame_write_then_finish [tame_intros]:
  "tame inv (\<lambda>m. case write_and_verify ops c persist m of
     (operation, m1) \<Rightarrow> finish_apply ops current persist operation m1)"
  by (intro tame_case tame_intros)

lemma tame_apply [tame_intros]: "tame inv (apply_configuration ops c persist expected)"
  unfolding apply_configuration_def
  by (intro tame_bindA tame_bindA_state tame_intros)

lemma tame_set_item [tame_intros]: "tame inv (set_configuration_item ops jt key value persist)"
  unfolding set_configuration_item_def by (intro tame_intros)

lemma tame_restore_previous [tame_intros]: "tame inv (restore_previous ops previous e)"
  unfolding restore_previous_def by (auto intro!: tame_intros)

lemma tame_run_nvm [tame_intros]: "tame inv (run_nvm_operation ops operation)"
proof -
  have check: "tame inv (\<lambda>m. case bindA (on_backend (be_read_configuration ops)) (\<lambda>c. liftA (check_loaded rollback c)) m of
       (Inr configuration, m1) \<Rightarrow> (Inr configuration, m1)
     | (Inl load_error, m1) \<Rightarrow> (case rollback of
           None \<Rightarrow> (Inl load_error, m1)
         | Some previous \<Rightarrow> restore_previous ops previous load_error m1))" for rollback
  proof (rule tame_case, intro tame_intros)
    fix r :: "device_configuration result"
    show "tame inv (\<lambda>m1. case r of
         Inl load_error \<Rightarrow> (case rollback of None \<Rightarrow> (Inl load_error, m1)
           | Some previous \<Rightarrow> restore_previous ops previous load_error m1)
       | Inr configuration \<Rightarrow> (Inr configuration, m1))"
      by (cases r; cases rollback) (simp_all add: tame_intros)
  qed
  have first: "tame inv (if operation = NvmReload
      then bindA (on_backend (be_read_configuration ops)) (\<lambda>c. retA (Some c)) else retA None)"
    by (cases "operation = NvmReload") (auto intro!: tame_intros simp del: action_simps)
  have slot: "tame inv (updA (if operation = NvmReset then wait_for_nvm_mutation_slot ops else id))"
    by (cases "operation = NvmReset") (simp_all add: tame_ops(7), simp add: tame_def)
  show ?thesis
    unfolding run_nvm_operation_def
    by (intro tame_bindA first slot tame_ops check)
qed

lemma tame_clear_and_read [tame_intros]: "tame inv (clear_and_read ops active logged)"
  unfolding clear_and_read_def by (intro tame_intros)

lemma up_tame:
  assumes "up inv m" and "tame inv act" and "act m = (r, m')"
  shows "up inv m'" "active_dump m' = active_dump m" "daemon m' = daemon m"
proof -
  have "quiet m m'" "inv (backend m')"
    using assms by (auto simp: tame_def up_def dest!: spec [of _ m])
  then show "up inv m'" "active_dump m' = active_dump m" "daemon m' = daemon m"
    using assms(1)
    by (cases m; cases m'; auto simp: quiet_def up_def attached_ok_def leases_ok_def log_pre_def split: option.splits)+
qed
end

section \<open>Commands keep the invariant\<close>

context lawful_backend
begin

lemma busy_start:
  assumes "rest inv m" and "ready m"
  shows "up inv (set_busy operation m)" "active_dump (set_busy operation m) = None"
  using rest_session(1,3) [OF assms(1) disjI1 [OF assms(2)]] assms(2) by simp_all

lemma rest_on_backend:
  assumes "rest inv m" and "ready m \<or> is_busy (connection (daemon m))"
    and "on_backend act m = (r, m')" and "inv (snd (act (backend m)))"
  shows "rest inv m'" "up inv m'"
proof -
  show "up inv m'" by (rule up_on_backend [OF rest_session(1) [OF assms(1,2)] assms(3,4)])
  then show "rest inv m'" by (rule rest_lease_step [OF assms(1,2) lease_step_on_backend [OF assms(3)]])
qed

lemma run_set_screen_rest:
  assumes "rest inv m"
  shows "rest inv (snd (run_set_screen ops screen m))"
proof (cases "ready m")
  case False
  then show ?thesis using assms by (simp add: run_set_screen_def)
next
  case True
  obtain r m1 where r: "on_backend (be_set_screen ops screen) m = (r, m1)" by fastforce
  have m1: "rest inv m1" "up inv m1"
    using rest_on_backend [OF assms disjI1 [OF True] r] assms inv_screen by (auto simp: rest_def)
  have c: "connection (daemon m1) = Ready (session m1)" "active_dump m1 = None"
    using rest_session(3,4) [OF assms disjI1 [OF True]] True lease_step_on_backend [OF r]
    by (simp_all add: lease_step_def)
  let ?m2 = "send_event (\<lambda>sequence session_id. ScreenChanged sequence session_id screen) (bump_and_publish m1)"
  have log: "log_ok ?m2" by (rule log_ok_send) (use m1(2) c in \<open>simp_all add: up_def\<close>)
  have "up inv ?m2"
    using up_bump [OF m1(2)] log_ok_imp_pre [OF log]
    by (simp add: up_def attached_ok_def leases_ok_def split: option.splits)
  then have "rest inv ?m2" by (rule rest_from_up [OF _ log]) (simp add: c)
  then show ?thesis
    using True r m1 by (auto simp: run_set_screen_def drop_if_lost_rest split: sum.splits)
qed

lemma open_dump_rest:
  assumes "up inv m" and "display_physically_paused m" and "active_dump m = None"
  shows "rest inv (snd (open_dump ops m))"
proof -
  define i where "i = saturating_inc (next_history_dump_id m)"
  define m1 where "m1 = m\<lparr>next_history_dump_id := i, tokens := tokens m @ [False],
      history_cancellation := Some (i, length (tokens m)),
      active_dump := Some \<lparr>active_id = i, active_session = session m,
         active_expires_at = now ops m + ms 10000, active_token = length (tokens m)\<rparr>\<rparr>"
  have eq: "snd (open_dump ops m) = set_busy ''reading_device_history'' m1"
    by (simp add: open_dump_def Let_def m1_def i_def)
  have "up inv m1"
    using assms by (auto simp: up_def attached_ok_def leases_ok_def m1_def)
  moreover have "log_pre m1" using calculation by (simp add: up_def)
  moreover have "active_dump m1 \<noteq> None" "session m1 = session m" by (simp_all add: m1_def)
  ultimately show ?thesis
    unfolding eq set_busy_def
    by (intro rest_from_up up_bump) (simp_all add: log_ok_bump)
qed

lemma run_begin_history_dump_rest:
  assumes "rest inv m"
  shows "rest inv (snd (run_begin_history_dump ops m))"
proof (cases "ready m")
  case False
  then show ?thesis using assms by (simp add: run_begin_history_dump_def)
next
  case True
  note s = rest_session [OF assms disjI1 [OF True]]
  obtain r m1 where r: "ensure_display_paused ops m = (r, m1)" by fastforce
  have u: "up inv m1" by (rule up_ensure [OF s(1) r])
  have l: "lease_step m m1" by (rule ensure_display_paused_step(1) [OF r])
  have "rest inv m1" by (rule rest_lease_step [OF assms disjI1 [OF True] l u])
  moreover have "r = Inr () \<Longrightarrow> rest inv (snd (open_dump ops m1))"
    using open_dump_rest [OF u] ensure_display_paused_step(4) [OF r] s(3) True l
    by (simp add: lease_step_def)
  ultimately show ?thesis
    using True r by (auto simp: run_begin_history_dump_def drop_if_lost_rest split: sum.splits prod.splits)
qed

lemma find_dump_busy:
  assumes "rest inv m" and "find_dump wanted m = Inr dump"
  shows "active_dump m = Some dump" "active_id dump = wanted" "is_busy (connection (daemon m))"
  using assms
  by (auto simp: find_dump_def rest_def phase_ok_def detached_ok_def
      split: option.splits if_splits connection_state.splits)

lemma rest_tokens [simp]: "rest inv (m\<lparr>tokens := (tokens m)[i := q]\<rparr>) = rest inv m"
  by (simp add: rest_def phase_ok_def phase_defs split: connection_state.splits option.splits)

lemma run_read_history_dump_chunk_rest:
  assumes "rest inv m"
  shows "rest inv (snd (run_read_history_dump_chunk ops interrupt wanted off len m))"
proof (cases "find_dump wanted m")
  case (Inl e)
  then show ?thesis using assms by (simp add: run_read_history_dump_chunk_def)
next
  case (Inr dump)
  note d = find_dump_busy [OF assms Inr]
  define m0 where "m0 = m\<lparr>active_dump := Some (dump\<lparr>active_expires_at := now ops m + ms 10000\<rparr>)\<rparr>"
  have b: "ready m \<or> is_busy (connection (daemon m))" using d by simp
  note s = rest_session [OF assms b]
  have u0: "up inv m0"
    using s(1) d by (auto simp: up_def attached_ok_def leases_ok_def m0_def)
  have "\<not> ready m" using d(3) by (cases "connection (daemon m)") auto
  then have m0: "rest inv m0"
    using s by (intro rest_from_up [OF u0]) (auto simp: m0_def)
  obtain r m1 where r: "on_backend (be_read_history_chunk ops off len (\<lambda>b. tokens m ! active_token dump
       \<or> now ops m + ms 10000 \<le> be_now ops b \<or> interrupt b)) m0 = (r, m1)" by fastforce
  have "rest inv m1"
    by (rule rest_on_backend(1) [OF m0 _ r]) (use d m0 inv_history in \<open>auto simp: m0_def rest_def\<close>)
  then show ?thesis
    using Inr r by (simp add: run_read_history_dump_chunk_def Let_def m0_def drop_if_lost_rest)
qed

lemma run_end_history_dump_rest:
  assumes "rest inv m"
  shows "rest inv (snd (run_end_history_dump ops wanted m))"
proof (cases "find_dump wanted m")
  case (Inl e)
  then show ?thesis using assms by (simp add: run_end_history_dump_def)
next
  case (Inr dump)
  note d = find_dump_busy [OF assms Inr]
  have s: "up inv m" using rest_session(1) [OF assms disjI2 [OF d(3)]] .
  then have "history_cancellation m = Some (wanted, active_token dump)"
    using d by (auto simp: up_def leases_ok_def)
  then have eq: "clear_history_cancellation (Some wanted) (m\<lparr>active_dump := None\<rparr>)
      = clear_history_cancellation None (m\<lparr>active_dump := None\<rparr>)"
    by (simp add: clear_history_cancellation_def)
  obtain r m1 where r: "resume_display_if_unowned ops
      (clear_history_cancellation None (m\<lparr>active_dump := None\<rparr>)) = (r, m1)" by fastforce
  have "up inv m1" by (rule up_resume [OF up_end_dump [OF s] r])
  moreover have "active_dump m1 = None"
    using resume_display_step(1) [OF r] by (simp add: lease_step_def)
  ultimately show ?thesis
    using Inr r by (simp add: run_end_history_dump_def eq settle_rest)
qed

lemma paused_history_read_up:
  assumes "up inv m" and "active_dump m = None" and "paused_history_read ops off len m = (r, m')"
  shows "up inv m'" "active_dump m' = None"
proof -
  obtain q m1 where q: "ensure_display_paused ops m = (q, m1)" by fastforce
  have u1: "up inv m1" "active_dump m1 = None"
    using up_ensure [OF assms(1) q] ensure_display_paused_step(1) [OF q] assms(2)
    by (simp_all add: lease_step_def)
  obtain x m2 where x: "on_backend (be_read_history_chunk ops off len (\<lambda>_. False)) m1 = (x, m2)" by fastforce
  have u2: "up inv m2" "active_dump m2 = None"
    using up_on_backend [OF u1(1) x] u1 inv_history lease_step_on_backend [OF x]
    by (auto simp: up_def lease_step_def)
  obtain y m3 where y: "resume_display_if_unowned ops m2 = (y, m3)" by fastforce
  have u3: "up inv m3" "active_dump m3 = None"
    using up_resume [OF u2(1) y] resume_display_step(1) [OF y] u2(2) by (simp_all add: lease_step_def)
  show "up inv m'" "active_dump m' = None"
    using assms(3) q x y u1 u3
    by (auto simp: paused_history_read_def bindA_def split: sum.splits)
qed

lemma run_read_history_chunk_rest:
  assumes "rest inv m"
  shows "rest inv (snd (run_read_history_chunk ops off len m))"
proof (cases "ready m")
  case False
  then show ?thesis using assms by (simp add: run_read_history_chunk_def)
next
  case True
  obtain r m1 where r: "paused_history_read ops off len (set_busy ''reading_device_history'' m) = (r, m1)"
    by fastforce
  show ?thesis
    using True r settle_rest paused_history_read_up [OF busy_start [OF assms True] r]
    by (simp add: run_read_history_chunk_def)
qed

lemma settle_theme_rest:
  "up inv m \<Longrightarrow> active_dump m = None \<Longrightarrow> rest inv (settle_theme ops lost resume m)"
  by (simp add: settle_theme_def up_disconnect up_set_ready)

text \<open>The common part of the theme commands: pause, act, resume.\<close>

lemma theme_steps:
  assumes "rest inv m" and "ready m"
    and "ensure_display_paused ops (set_busy operation m) = (q, m1)"
    and "on_backend act m1 = (x, m2)" and "\<And>b. inv b \<Longrightarrow> inv (snd (act b))"
    and "resume_display_if_unowned ops m2 = (y, m3)"
  shows "up inv m1" "active_dump m1 = None" "up inv m3" "active_dump m3 = None"
proof -
  note b = busy_start [OF assms(1,2), of operation]
  show u1: "up inv m1" "active_dump m1 = None"
    using up_ensure [OF b(1) assms(3)] ensure_display_paused_step(1) [OF assms(3)] b(2)
    by (simp_all add: lease_step_def)
  have u2: "up inv m2" "active_dump m2 = None"
    using up_on_backend [OF u1(1) assms(4)] u1 assms(5) lease_step_on_backend [OF assms(4)]
    by (auto simp: up_def lease_step_def)
  show "up inv m3" "active_dump m3 = None"
    using up_resume [OF u2(1) assms(6)] resume_display_step(1) [OF assms(6)] u2(2)
    by (simp_all add: lease_step_def)
qed

lemma run_read_theme_asset_rest:
  assumes "rest inv m"
  shows "rest inv (snd (run_read_theme_asset ops slot m))"
proof (cases "ready m")
  case False
  then show ?thesis using assms by (simp add: run_read_theme_asset_def)
next
  case True
  obtain q m1 where q: "ensure_display_paused ops (set_busy ''reading_theme_asset'' m) = (q, m1)" by fastforce
  obtain x m2 where x: "on_backend (be_read_theme_asset ops slot) m1 = (x, m2)" by fastforce
  obtain y m3 where y: "resume_display_if_unowned ops m2 = (y, m3)" by fastforce
  note t = theme_steps [OF assms True q x inv_read_theme y]
  show ?thesis
    using True q x y t
    by (cases q) (simp_all add: run_read_theme_asset_def settle_rest settle_theme_rest)
qed

lemma run_write_theme_asset_rest:
  assumes "rest inv m"
  shows "rest inv (snd (run_write_theme_asset ops slot bytes m))"
proof (cases "ready m")
  case False
  then show ?thesis using assms by (simp add: run_write_theme_asset_def)
next
  case True
  obtain q m1 where q: "ensure_display_paused ops (set_busy ''writing_theme_asset'' m) = (q, m1)" by fastforce
  obtain x m2 where x: "on_backend (be_write_theme_asset ops slot bytes) m1 = (x, m2)" by fastforce
  obtain y m3 where y: "resume_display_if_unowned ops m2 = (y, m3)" by fastforce
  note t = theme_steps [OF assms True q x inv_write_theme y]
  show ?thesis
    using True q x y t
    by (cases q) (simp_all add: run_write_theme_asset_def settle_rest settle_theme_rest)
qed
end

context lawful_backend
begin

lemma log_pre_up_daemon:
  assumes "up inv m" and "d_sequence d = d_sequence (daemon m)" and "d_session_id d = session m"
    and "connected_port d = connected_port (daemon m)" and "identity d \<noteq> None"
    and "\<exists>telem. d_telemetry d = Some telem \<and> t_session_id telem = session m"
  shows "up inv (m\<lparr>daemon := d\<rparr>)"
proof -
  have "log_pre (m\<lparr>daemon := d\<rparr>)"
    by (rule log_pre_daemon) (use assms in \<open>auto simp: up_def\<close>)
  then show ?thesis
    using assms by (auto simp: up_def attached_ok_def leases_ok_def split: option.splits)
qed

lemma up_has: "up inv m \<Longrightarrow> \<exists>ident. identity (daemon m) = Some ident"
  "up inv m \<Longrightarrow> \<exists>telem. d_telemetry (daemon m) = Some telem \<and> t_session_id telem = session m"
  by (auto simp: up_def attached_ok_def dest: log_pre_telemetry_session)

lemma run_read_device_info_rest:
  assumes "rest inv m"
  shows "rest inv (snd (run_read_device_info ops m))"
    and "fst (run_read_device_info ops m) = ReplyIdentity (Inl e) \<Longrightarrow>
      e = NotConnected \<or> (\<exists>b. inv b \<and> fst (be_read_build_information ops b) = Inl e)"
proof -
  have "rest inv (snd (run_read_device_info ops m)) \<and>
    (fst (run_read_device_info ops m) = ReplyIdentity (Inl e) \<longrightarrow>
      e = NotConnected \<or> (\<exists>b. inv b \<and> fst (be_read_build_information ops b) = Inl e))"
  proof (cases "ready m")
    case False
    then show ?thesis using assms by (simp add: run_read_device_info_def)
  next
    case True
    let ?m0 = "set_busy ''reading_device_information'' m"
    note b = busy_start [OF assms True]
    obtain r m1 where r: "on_backend (be_read_build_information ops) ?m0 = (r, m1)" by fastforce
    have u: "up inv m1" "active_dump m1 = None"
      using up_on_backend [OF b(1) r] b inv_build lease_step_on_backend [OF r]
      by (auto simp: up_def lease_step_def)
    have i0: "inv (backend ?m0)" using b(1) by (simp add: up_def)
    show ?thesis
    proof (cases r)
      case (Inl e')
      then show ?thesis
        using True r u i0 on_backend_fields(2) [OF r]
        by (auto simp: run_read_device_info_def settle_rest)
    next
      case (Inr names)
      obtain ident where ident: "identity (daemon m1) = Some ident" using up_has(1) [OF u(1)] by blast
      let ?i = "ident\<lparr>id_product_name := fst names, id_build_string := snd names\<rparr>"
      have "up inv (m1\<lparr>daemon := (daemon m1)\<lparr>identity := Some ?i\<rparr>\<rparr>)"
        by (rule log_pre_up_daemon) (use u up_has(2) [OF u(1)] in auto)
      then show ?thesis
        using True r Inr ident u by (auto simp: run_read_device_info_def Let_def up_set_ready split: prod.splits)
    qed
  qed
  then show "rest inv (snd (run_read_device_info ops m))"
    and "fst (run_read_device_info ops m) = ReplyIdentity (Inl e) \<Longrightarrow>
      e = NotConnected \<or> (\<exists>b. inv b \<and> fst (be_read_build_information ops b) = Inl e)" by auto
qed

lemma run_clear_faults_rest:
  assumes "rest inv m"
  shows "rest inv (snd (run_clear_faults ops x y m))"
proof (cases "ready m")
  case False
  then show ?thesis using assms by (simp add: run_clear_faults_def)
next
  case True
  obtain r m1 where r: "clear_and_read ops x y (set_busy ''clearing_faults'' m) = (r, m1)" by fastforce
  note b = busy_start [OF assms True]
  note u = up_tame [OF b(1) tame_clear_and_read r]
  have "up inv (m1\<lparr>daemon := (daemon m1)\<lparr>d_telemetry := Some (telem\<lparr>t_session_id := session m1,
      t_sequence := d_sequence (daemon m1) + 1\<rparr>)\<rparr>\<rparr>)" for telem
    by (rule log_pre_up_daemon) (use u up_has(1) [OF u(1)] in auto)
  then show ?thesis
    using True r u b assms
    by (auto simp: run_clear_faults_def Let_def settle_rest up_set_ready split: sum.splits)
qed

lemma run_pause_display_rest:
  assumes "rest inv m"
  shows "rest inv (snd (run_pause_display ops d m))"
proof (cases "(100 \<le> d \<and> d \<le> 300000) \<and> (ready m \<or> is_busy (connection (daemon m)))")
  case False
  then show ?thesis using assms by (auto simp: run_pause_display_def)
next
  case True
  then have b: "ready m \<or> is_busy (connection (daemon m))" by simp
  obtain r m1 where r: "ensure_display_paused ops m = (r, m1)" by fastforce
  have u: "up inv m1" by (rule up_ensure [OF rest_session(1) [OF assms b] r])
  have l: "lease_step m m1" by (rule ensure_display_paused_step(1) [OF r])
  have m1: "rest inv m1" by (rule rest_lease_step [OF assms b l u])
  have "r = Inr () \<Longrightarrow> up inv (m1\<lparr>debug_pause_expires_at := Some t\<rparr>)" for t
    using u ensure_display_paused_step(4) [OF r]
    by (auto simp: up_def attached_ok_def leases_ok_def split: option.splits)
  then have "r = Inr () \<Longrightarrow> rest inv (m1\<lparr>debug_pause_expires_at := Some t\<rparr>)" for t
    using l by (intro rest_lease_step [OF assms b]) simp_all
  then show ?thesis
    using True r m1 by (auto simp: run_pause_display_def Let_def drop_if_lost_rest split: sum.splits)
qed

lemma run_resume_display_rest:
  assumes "rest inv m"
  shows "rest inv (snd (run_resume_display ops m))"
proof (cases "ready m \<or> is_busy (connection (daemon m))")
  case True
  obtain r m1 where r: "resume_display_if_unowned ops (m\<lparr>debug_pause_expires_at := None\<rparr>) = (r, m1)"
    by fastforce
  have "rest inv m1" by (rule resume_rest [OF assms True r])
  then show ?thesis
    using r by (auto simp: run_resume_display_def drop_if_lost_rest split: sum.splits)
next
  case False
  then have d: "detached_ok m"
    using assms by (cases "connection (daemon m)") (auto simp: rest_def phase_ok_def)
  then have "snd (run_resume_display ops m) = m"
    by (cases m) (simp add: detached_ok_def run_resume_display_def resume_display_if_unowned_def)
  then show ?thesis using assms by simp
qed

lemma settle_tame_rest:
  assumes "rest inv m" and "ready m" and "tame inv act" and "act (set_busy operation m) = (r, m1)"
  shows "rest inv (settle ops (r, m1))"
  using settle_rest up_tame [OF busy_start(1) [OF assms(1,2)] assms(3,4)] busy_start(2) [OF assms(1,2)]
  by simp

lemma run_read_configuration_rest:
  assumes "rest inv m"
  shows "rest inv (snd (run_read_configuration ops m))"
  using assms settle_tame_rest [OF assms _ tame_ops(1)]
  by (cases "on_backend (be_read_configuration ops) (set_busy ''reading_configuration'' m)")
    (auto simp: run_read_configuration_def)

lemma run_read_configuration_item_rest:
  assumes "rest inv m"
  shows "rest inv (snd (run_read_configuration_item ops jt key m))"
proof -
  let ?act = "bindA (on_backend (be_read_configuration ops)) (\<lambda>c. liftA (mapR (json_print jt)
                (settings_item (settings_from_configuration c) key))) :: ('b manager, string) action"
  have "tame inv ?act" by (intro tame_intros)
  then show ?thesis
    using assms settle_tame_rest [OF assms, of ?act]
    by (cases "?act (set_busy ''reading_configuration_item'' m)")
      (auto simp: run_read_configuration_item_def)
qed

lemma run_mutation_rest:
  assumes "rest inv m" and "tame inv act"
  shows "rest inv (snd (run_mutation ops operation act m))"
  using assms(1) settle_tame_rest [OF assms(1) _ assms(2)]
  by (cases "act (set_busy operation m)") (auto simp: run_mutation_def finish_configuration_mutation_def)

lemma run_reboot_device_rest:
  assumes "rest inv m"
  shows "rest inv (snd (run_reboot_device ops m))"
proof (cases "ready m")
  case False
  then show ?thesis using assms by (simp add: run_reboot_device_def)
next
  case True
  note b = busy_start [OF assms True]
  obtain r m1 where r: "on_backend (be_reboot_device ops) (set_busy ''rebooting_device'' m) = (r, m1)"
    by fastforce
  have u: "up inv m1" "active_dump m1 = None"
    using up_on_backend [OF b(1) r] b inv_reboot lease_step_on_backend [OF r]
    by (auto simp: up_def lease_step_def)
  then show ?thesis
    using True r by (simp add: run_reboot_device_def up_disconnect up_set_ready)
qed

lemma handle_command_rest:
  "rest inv m \<Longrightarrow> rest inv (snd (handle_command ops jt interrupt cmd m))"
  by (cases cmd)
    (simp_all add: run_set_screen_rest run_read_history_chunk_rest run_read_theme_asset_rest
      run_write_theme_asset_rest run_begin_history_dump_rest run_read_history_dump_chunk_rest
      run_end_history_dump_rest run_read_device_info_rest run_clear_faults_rest run_pause_display_rest
      run_resume_display_rest run_read_configuration_rest run_read_configuration_item_rest
      run_mutation_rest run_reboot_device_rest tame_apply tame_set_item tame_run_nvm
      run_get_poll_interval_def run_set_poll_interval_def)

text \<open>Every step keeps the invariant, so every reachable state has it.\<close>

lemma manager_step_rest:
  assumes "manager_step ops jt moves_on m m'" and "rest inv m"
    and "\<And>b b'. inv b \<Longrightarrow> moves_on b b' \<Longrightarrow> inv b'"
  shows "rest inv m'"
  using assms
proof (induction rule: manager_step.induct)
  case (cancel wanted m)
  then show ?case by (auto simp: cancel_history_def split: option.splits)
next
  case (world m b)
  then have "inv b" by (auto simp: rest_def)
  then show ?case using world(2)
    by (simp add: rest_def phase_ok_def phase_defs split: connection_state.splits option.splits)
qed (simp_all add: timer_fired_rest handle_candidates_rest handle_command_rest disconnect_rest)

lemma spawn_rest: "inv b \<Longrightarrow> rest inv (spawn_manager ops b interval)"
  by (simp add: rest_def spawn_manager_def phase_ok_def detached_ok_def log_ok_def log_pre_def
      daemon_state_default_def)

lemma reachable_rest:
  assumes "manager_reachable ops jt moves_on m0 m" and "rest inv m0"
    and "\<And>b b'. inv b \<Longrightarrow> moves_on b b' \<Longrightarrow> inv b'"
  shows "rest inv m"
  using assms by (induction rule: manager_reachable.induct) (auto intro: manager_step_rest)
end

end
