(* ===== verification/MockBackend.thy ===== *)
theory MockBackend
  imports Backend Protocol
begin

text \<open>
  The synthetic backend of \<open>src/backend.rs\<close> (\<open>MockState\<close>, \<open>MockControl\<close>,
  \<open>MockBackend\<close>), the daemon's \<open>--mock\<close> mode and the reference the manager's tests use.
  One record holds the fields of \<open>MockState\<close>; the mutex is the atomicity of an operation.
  The fields \<open>mock_clock\<close> and \<open>mock_wall\<close> stand for the runtime's clock and the wall
  clock. The mock is shown to be a lawful backend whose writes are read back unchanged.
\<close>

section \<open>State\<close>

datatype mock_theme_write_failure =
    ThemeBeforeMutation
  | ThemeDisconnectBeforeMutation
  | ThemeFailedAndRolledBack
  | ThemeRollbackFailed
  | ThemeDisconnect

datatype mock_display_resume_failure = ResumeTransport | ResumeDisconnect

record mock_state =
  connected :: bool
  connection_attempts :: u64
  fail_next_connect :: bool
  reads :: u64
  fail_next_read :: bool
  screens :: "screen list"
  mock_configuration :: "device_configuration option"
  saved_configuration :: "device_configuration option"
  nvm_operations :: "nvm_operation list"
  device_reboots :: u64
  change_crc_on_store :: bool
  mock_active_faults :: u16
  mock_logged_faults :: u16
  history_pause_depth :: u32
  fail_configuration_writes :: u8
  fail_nvm_operations :: u8
  transient_telemetry_failures :: u8
  theme_assets :: "theme_asset_slot \<Rightarrow> u8 list option"
  theme_mutations :: u64
  next_theme_write_failure :: "mock_theme_write_failure option"
  next_display_resume_failure :: "mock_display_resume_failure option"
  block_next_history_read :: bool
  history_reads_started :: u64
  mock_clock :: nat
  mock_wall :: u64

definition mock_default :: mock_state where
  "mock_default =
     \<lparr>connected = False, connection_attempts = 0, fail_next_connect = False, reads = 0,
      fail_next_read = False, screens = [], mock_configuration = None, saved_configuration = None,
      nvm_operations = [], device_reboots = 0, change_crc_on_store = False,
      mock_active_faults = 0, mock_logged_faults = 0, history_pause_depth = 0,
      fail_configuration_writes = 0, fail_nvm_operations = 0, transient_telemetry_failures = 0,
      theme_assets = Map.empty, theme_mutations = 0, next_theme_write_failure = None,
      next_display_resume_failure = None, block_next_history_read = False,
      history_reads_started = 0, mock_clock = 0, mock_wall = 0\<rparr>"

section \<open>Test controls\<close>

text \<open>The setters of \<open>MockControl\<close>; its getters are the record's fields.\<close>

definition control_block_next_history_read :: "mock_state \<Rightarrow> mock_state" where
  "control_block_next_history_read s = s\<lparr>block_next_history_read := True\<rparr>"

definition control_fail_next_connect :: "mock_state \<Rightarrow> mock_state" where
  "control_fail_next_connect s = s\<lparr>fail_next_connect := True\<rparr>"

definition control_fail_next_read :: "mock_state \<Rightarrow> mock_state" where
  "control_fail_next_read s = s\<lparr>fail_next_read := True\<rparr>"

definition control_set_saved_configuration ::
  "device_configuration \<Rightarrow> mock_state \<Rightarrow> mock_state" where
  "control_set_saved_configuration c s = s\<lparr>saved_configuration := Some c\<rparr>"

definition control_change_crc_on_store :: "mock_state \<Rightarrow> mock_state" where
  "control_change_crc_on_store s = s\<lparr>change_crc_on_store := True\<rparr>"

definition control_set_fault_masks :: "u16 \<Rightarrow> u16 \<Rightarrow> mock_state \<Rightarrow> mock_state" where
  "control_set_fault_masks active logged s =
     s\<lparr>mock_active_faults := active, mock_logged_faults := logged\<rparr>"

definition control_fail_configuration_writes :: "u8 \<Rightarrow> mock_state \<Rightarrow> mock_state" where
  "control_fail_configuration_writes n s = s\<lparr>fail_configuration_writes := n\<rparr>"

definition control_fail_next_configuration_write :: "mock_state \<Rightarrow> mock_state" where
  "control_fail_next_configuration_write = control_fail_configuration_writes 1"

definition control_fail_nvm_operations :: "u8 \<Rightarrow> mock_state \<Rightarrow> mock_state" where
  "control_fail_nvm_operations n s = s\<lparr>fail_nvm_operations := n\<rparr>"

definition control_fail_next_nvm_operation :: "mock_state \<Rightarrow> mock_state" where
  "control_fail_next_nvm_operation = control_fail_nvm_operations 1"

definition control_fail_transient_telemetry_reads :: "u8 \<Rightarrow> mock_state \<Rightarrow> mock_state" where
  "control_fail_transient_telemetry_reads n s = s\<lparr>transient_telemetry_failures := n\<rparr>"

definition control_fail_next_theme_write :: "mock_theme_write_failure \<Rightarrow> mock_state \<Rightarrow> mock_state" where
  "control_fail_next_theme_write f s = s\<lparr>next_theme_write_failure := Some f\<rparr>"

definition control_fail_next_display_resume ::
  "mock_display_resume_failure \<Rightarrow> mock_state \<Rightarrow> mock_state" where
  "control_fail_next_display_resume f s = s\<lparr>next_display_resume_failure := Some f\<rparr>"

section \<open>Operations\<close>

text \<open>\<open>ThemeAssetSlot::ALL\<close> with the filler byte of each slot's position.\<close>

definition mock_factory_assets :: "theme_asset_slot \<Rightarrow> u8 list option" where
  "mock_factory_assets =
     map_of (map (\<lambda>(slot_index, slot). (slot, replicate (slot_byte_len slot) (word_of_nat (slot_index + 1))))
       (enumerate 0 all_slots))"

definition config_capabilities :: "u8 \<Rightarrow> string list" where
  "config_capabilities version =
     [''telemetry'', ''history'', ''screen'', ''device-info'', ''fault-clear'']
     @ (if version \<le> 2 then [''config-v'' @ show_nat (unat (version + 1))] else [])
     @ (if version = 2 then [''theme-assets-read'', ''theme-assets-write''] else [])"

definition mock_connect :: "string \<Rightarrow> (mock_state, device_identity) action" where
  "mock_connect port s0 =
     (let s = s0\<lparr>connection_attempts := connection_attempts s0 + 1\<rparr> in
      if fail_next_connect s then
        (Inl (Transport ''synthetic connection failure''),
         s\<lparr>fail_next_connect := False, connected := False\<rparr>)
      else
        (let saved = (case saved_configuration s of None \<Rightarrow> configuration_mock | Some c \<Rightarrow> c);
             version = raw_version saved;
             s = s\<lparr>connected := True, saved_configuration := Some saved,
                   mock_configuration := Some saved,
                   theme_assets := (if list_all (\<lambda>slot. theme_assets s slot = None) all_slots then mock_factory_assets
                                    else theme_assets s)\<rparr>
         in (Inr \<lparr>id_unique_id = ''MOCK-WIREVIEW-0001'', id_vendor_id = 0xef, id_product_id = 0x05,
                  id_firmware_version = ''mock-v3'', id_hardware_revision = ''mock-2.0'',
                  id_config_version = ucast version, id_product_name = ''WireView Pro II'',
                  id_build_string = ''mock-build'', id_capabilities = config_capabilities version\<rparr>, s)))"

definition mock_disconnect :: "mock_state \<Rightarrow> mock_state" where
  "mock_disconnect s = s\<lparr>connected := False\<rparr>"

text \<open>The guard most operations start with.\<close>

definition when_connected :: "(mock_state, 'a) action \<Rightarrow> (mock_state, 'a) action" where
  "when_connected act s = (if \<not> connected s then (Inl ConnectionLost, s) else act s)"

definition mock_read_build_information :: "(mock_state, string \<times> string) action" where
  "mock_read_build_information =
     when_connected (\<lambda>s. (Inr (''WireView Pro II'', ''mock-build''), s))"

definition mock_read_telemetry :: "(mock_state, telemetry) action" where
  "mock_read_telemetry = when_connected (\<lambda>s.
     if fail_next_read s then
       (Inl ConnectionLost, s\<lparr>fail_next_read := False, connected := False\<rparr>)
     else if 0 < transient_telemetry_failures s then
       (Inl (Transport ''synthetic transient telemetry failure''),
        s\<lparr>transient_telemetry_failures := transient_telemetry_failures s - 1\<rparr>)
     else
       (let s = s\<lparr>reads := reads s + 1\<rparr>;
            t = telemetry_mock (mock_wall s);
            bounded_reads = min (uint (reads s)) (2 ^ 32 - 1);
            m = (t_metrics t)\<lparr>total_power_w :=
                  f64_add (total_power_w (t_metrics t)) (f64_div_const (f64_of_int bounded_reads) 10)\<rparr>
        in (Inr (t\<lparr>observed_at_ms := mock_wall s, t_metrics := m,
                  active_fault_mask := mock_active_faults s,
                  logged_fault_mask := mock_logged_faults s,
                  active_faults := decode_faults (mock_active_faults s),
                  logged_faults := decode_faults (mock_logged_faults s)\<rparr>), s)))"

definition mock_history_sample :: "u8 list" where
  "mock_history_sample =
     u32_to_le (push_bit 2 42) @ [39, 34, 156, 25] @ [121, 120, 119, 118, 117, 116]
       @ [3, 4, 5, 6, 7, 8] @ [0]"

definition mock_history_bytes :: "nat \<Rightarrow> nat \<Rightarrow> u8 list" where
  "mock_history_bytes off len =
     (let sample_end = min (off + len) ENTRY_SIZE
      in if off < sample_end
         then write_at 0 (slice off sample_end mock_history_sample) (replicate len 0xff)
         else replicate len 0xff)"

definition mock_pass_time :: "nat \<Rightarrow> mock_state \<Rightarrow> mock_state" where
  "mock_pass_time d s = s\<lparr>mock_clock := mock_clock s + d\<rparr>"

text \<open>
  A blocked read only returns once the token is cancelled, so its outcome is the
  cancellation; otherwise the token is observed over a sleep of five milliseconds.
\<close>

definition mock_read_history_chunk ::
  "nat \<Rightarrow> nat \<Rightarrow> (mock_state \<Rightarrow> bool) \<Rightarrow> (mock_state, u8 list) action" where
  "mock_read_history_chunk off len cancelled = when_connected (\<lambda>s.
     let block_until_cancelled = block_next_history_read s;
         s = s\<lparr>history_reads_started := saturating_inc (history_reads_started s),
               block_next_history_read := False\<rparr>
     in case validate_history_range off len of
          Inl e \<Rightarrow> (Inl e, s)
        | Inr _ \<Rightarrow>
            if block_until_cancelled then (Inl OperationCancelled, s)
            else if cancelled s then (Inl OperationCancelled, s)
            else (let s = mock_pass_time (ms 5) s
                  in if cancelled s then (Inl OperationCancelled, s)
                     else (Inr (mock_history_bytes off len), s)))"

definition mock_read_configuration :: "(mock_state, device_configuration) action" where
  "mock_read_configuration = when_connected (\<lambda>s.
     (ok_or (Transport ''mock configuration is unavailable'') (mock_configuration s), s))"

definition mock_theme_supported :: "mock_state \<Rightarrow> bool" where
  "mock_theme_supported s = (map_option raw_version (mock_configuration s) = Some 2)"

definition theme_unsupported :: device_error where
  "theme_unsupported = Unsupported ''theme assets require configuration V3''"

definition mock_read_theme_asset :: "theme_asset_slot \<Rightarrow> (mock_state, u8 list) action" where
  "mock_read_theme_asset slot = when_connected (\<lambda>s.
     if \<not> mock_theme_supported s then (Inl theme_unsupported, s)
     else (ok_or (Transport ''mock theme asset is unavailable'') (theme_assets s slot), s))"

definition mock_write_theme_asset :: "theme_asset_slot \<Rightarrow> u8 list \<Rightarrow> (mock_state, unit) action" where
  "mock_write_theme_asset slot bytes = when_connected (\<lambda>s.
     if \<not> mock_theme_supported s then (Inl theme_unsupported, s)
     else if length bytes \<noteq> slot_byte_len slot then (Inl (theme_size_error slot), s)
     else
       (let failure = next_theme_write_failure s;
            s = s\<lparr>next_theme_write_failure := None\<rparr>;
            mutated = s\<lparr>theme_mutations := theme_mutations s + 1\<rparr>
        in case failure of
             Some ThemeBeforeMutation \<Rightarrow> (Inl (Transport ''synthetic pre-mutation theme failure''), s)
           | Some ThemeDisconnectBeforeMutation \<Rightarrow>
               (Inl ConnectionLostBeforeMutation, s\<lparr>connected := False\<rparr>)
           | Some ThemeFailedAndRolledBack \<Rightarrow>
               (Inl (FailedAndRolledBack ''synthetic theme write failure''), mutated)
           | Some ThemeRollbackFailed \<Rightarrow>
               (Inl (RollbackFailed ''synthetic theme write failure'' ''synthetic theme rollback failure''),
                mutated\<lparr>theme_assets := (theme_assets s)(slot \<mapsto> replicate (slot_byte_len slot) 0)\<rparr>)
           | Some ThemeDisconnect \<Rightarrow> (Inl ConnectionLost, mutated\<lparr>connected := False\<rparr>)
           | None \<Rightarrow> (Inr (), mutated\<lparr>theme_assets := (theme_assets s)(slot \<mapsto> bytes)\<rparr>)))"

definition mock_write_configuration :: "device_configuration \<Rightarrow> (mock_state, unit) action" where
  "mock_write_configuration c s =
     (case configuration_validate c of
        Inl e \<Rightarrow> (Inl e, s)
      | Inr _ \<Rightarrow> when_connected (\<lambda>s.
          if 0 < fail_configuration_writes s then
            (Inl (Transport ''synthetic configuration write failure''),
             s\<lparr>fail_configuration_writes := fail_configuration_writes s - 1\<rparr>)
          else (Inr (), s\<lparr>mock_configuration := Some c\<rparr>)) s)"

definition mock_nvm_configuration :: "nvm_operation \<Rightarrow> (mock_state, unit) action" where
  "mock_nvm_configuration operation = when_connected (\<lambda>s.
     if 0 < fail_nvm_operations s then
       (Inl (Transport ''synthetic NVM operation failure''),
        s\<lparr>fail_nvm_operations := fail_nvm_operations s - 1\<rparr>)
     else
       (let s = (case operation of
            NvmReload \<Rightarrow> s\<lparr>mock_configuration := saved_configuration s\<rparr>
          | NvmStore \<Rightarrow>
              (let active = (if change_crc_on_store s
                     then map_option (\<lambda>c. c\<lparr>crc := crc c + 1\<rparr>) (mock_configuration s)
                     else mock_configuration s)
               in s\<lparr>mock_configuration := active, saved_configuration := active\<rparr>)
          | NvmReset \<Rightarrow> s\<lparr>mock_configuration := Some configuration_mock,
                          saved_configuration := Some configuration_mock\<rparr>)
        in (Inr (), s\<lparr>nvm_operations := nvm_operations s @ [operation]\<rparr>)))"

definition mock_reboot_device :: "(mock_state, unit) action" where
  "mock_reboot_device = when_connected (\<lambda>s. (Inr (), s\<lparr>device_reboots := device_reboots s + 1\<rparr>))"

definition mock_clear_faults :: "u16 \<Rightarrow> u16 \<Rightarrow> (mock_state, unit) action" where
  "mock_clear_faults active_mask logged_mask = when_connected (\<lambda>s.
     (Inr (), s\<lparr>mock_active_faults := mock_active_faults s AND NOT active_mask,
                mock_logged_faults := mock_logged_faults s AND NOT logged_mask\<rparr>))"

definition mock_pause_history_updates :: "(mock_state, unit) action" where
  "mock_pause_history_updates = when_connected (\<lambda>s.
     (Inr (), s\<lparr>history_pause_depth := saturating_inc (history_pause_depth s)\<rparr>))"

definition mock_resume_history_updates :: "(mock_state, unit) action" where
  "mock_resume_history_updates = when_connected (\<lambda>s.
     let failure = next_display_resume_failure s;
         s = s\<lparr>next_display_resume_failure := None\<rparr>
     in case failure of
          Some ResumeTransport \<Rightarrow> (Inl (Transport ''synthetic display resume failure''), s)
        | Some ResumeDisconnect \<Rightarrow> (Inl ConnectionLost, s\<lparr>connected := False\<rparr>)
        | None \<Rightarrow> (Inr (), s\<lparr>history_pause_depth := saturating_dec (history_pause_depth s)\<rparr>))"

definition mock_set_screen :: "screen \<Rightarrow> (mock_state, unit) action" where
  "mock_set_screen screen = when_connected (\<lambda>s. (Inr (), s\<lparr>screens := screens s @ [screen]\<rparr>))"

definition mock_backend :: "mock_state device_backend" where
  "mock_backend =
     \<lparr>be_connect = mock_connect,
      be_disconnect = mock_disconnect,
      be_read_build_information = mock_read_build_information,
      be_read_telemetry = mock_read_telemetry,
      be_read_configuration = mock_read_configuration,
      be_write_configuration = mock_write_configuration,
      be_nvm_configuration = mock_nvm_configuration,
      be_reboot_device = mock_reboot_device,
      be_clear_faults = mock_clear_faults,
      be_pause_history_updates = mock_pause_history_updates,
      be_resume_history_updates = mock_resume_history_updates,
      be_read_history_chunk = mock_read_history_chunk,
      be_read_theme_asset = mock_read_theme_asset,
      be_write_theme_asset = mock_write_theme_asset,
      be_set_screen = mock_set_screen,
      be_now = mock_clock,
      be_sleep = mock_pass_time\<rparr>"

section \<open>The mock keeps the contract\<close>

definition mock_inv :: "mock_state \<Rightarrow> bool" where
  "mock_inv s \<longleftrightarrow>
     (\<forall>c. mock_configuration s = Some c \<longrightarrow> configuration_ok c)
     \<and> (\<forall>c. saved_configuration s = Some c \<longrightarrow> configuration_ok c)
     \<and> (\<forall>slot bytes. theme_assets s slot = Some bytes \<longrightarrow> length bytes = slot_byte_len slot)"

lemma configuration_ok_crc [simp]: "configuration_ok (c\<lparr>crc := x\<rparr>) = configuration_ok c"
  by (simp add: configuration_ok_def settings_from_configuration_def)

lemma mock_factory_assets_length:
  "mock_factory_assets slot = Some bytes \<Longrightarrow> length bytes = slot_byte_len slot"
  unfolding mock_factory_assets_def by (drule map_of_SomeD) auto

lemma length_mock_history_bytes [simp]: "length (mock_history_bytes off len) = len"
proof -
  have "length mock_history_sample = ENTRY_SIZE"
    by (simp add: mock_history_sample_def ENTRY_SIZE_def)
  then show ?thesis by (simp add: mock_history_bytes_def Let_def)
qed

lemmas mock_op_defs = mock_connect_def mock_disconnect_def mock_read_build_information_def
  mock_read_telemetry_def mock_read_configuration_def mock_write_configuration_def
  mock_nvm_configuration_def mock_reboot_device_def mock_clear_faults_def
  mock_pause_history_updates_def mock_resume_history_updates_def mock_read_history_chunk_def
  mock_read_theme_asset_def mock_write_theme_asset_def mock_set_screen_def mock_pass_time_def

lemma mock_keeps_inv:
  assumes "mock_inv s"
  shows "mock_inv (snd (mock_connect p s))" "mock_inv (mock_disconnect s)"
    "mock_inv (snd (mock_read_build_information s))" "mock_inv (snd (mock_read_telemetry s))"
    "mock_inv (snd (mock_read_configuration s))" "mock_inv (snd (mock_write_configuration c s))"
    "mock_inv (snd (mock_nvm_configuration n s))" "mock_inv (snd (mock_reboot_device s))"
    "mock_inv (snd (mock_clear_faults x y s))" "mock_inv (snd (mock_pause_history_updates s))"
    "mock_inv (snd (mock_resume_history_updates s))"
    "mock_inv (snd (mock_read_history_chunk off len tok s))"
    "mock_inv (snd (mock_read_theme_asset slot s))"
    "mock_inv (snd (mock_write_theme_asset slot bytes s))" "mock_inv (snd (mock_set_screen scr s))"
    "mock_inv (mock_pass_time d s)"
proof -
  note u = mock_inv_def when_connected_def Let_def
  show "mock_inv (snd (mock_connect p s))"
    using assms configuration_mock_ok mock_factory_assets_length
    by (auto simp: u mock_connect_def split: option.splits)
  show "mock_inv (snd (mock_write_configuration c s))"
    using assms configuration_validate_iff
    by (auto simp: u mock_write_configuration_def split: sum.splits)
  show "mock_inv (snd (mock_nvm_configuration n s))"
    using assms configuration_mock_ok
    by (auto simp: u mock_nvm_configuration_def split: nvm_operation.splits option.splits)
  show "mock_inv (snd (mock_write_theme_asset slot bytes s))"
    using assms
    by (auto simp: u mock_write_theme_asset_def split: option.splits mock_theme_write_failure.splits)
  show "mock_inv (mock_disconnect s)"
    "mock_inv (snd (mock_read_build_information s))" "mock_inv (snd (mock_read_telemetry s))"
    "mock_inv (snd (mock_read_configuration s))" "mock_inv (snd (mock_reboot_device s))"
    "mock_inv (snd (mock_clear_faults x y s))" "mock_inv (snd (mock_pause_history_updates s))"
    "mock_inv (snd (mock_resume_history_updates s))"
    "mock_inv (snd (mock_read_history_chunk off len tok s))"
    "mock_inv (snd (mock_read_theme_asset slot s))" "mock_inv (snd (mock_set_screen scr s))"
    "mock_inv (mock_pass_time d s)"
    using assms
    by (simp_all add: u mock_op_defs split: option.splits sum.splits mock_display_resume_failure.splits)
qed

lemma mock_results:
  "fst (mock_read_history_chunk off len tok s) = Inr bytes \<Longrightarrow>
     length bytes = len \<and> validate_history_range off len = Inr ()"
  "mock_inv s \<Longrightarrow> fst (mock_read_theme_asset slot s) = Inr bytes \<Longrightarrow> length bytes = slot_byte_len slot"
  "fst (mock_write_theme_asset slot bytes s) = Inr () \<Longrightarrow> length bytes = slot_byte_len slot"
  "mock_inv s \<Longrightarrow> fst (mock_read_configuration s) = Inr c \<Longrightarrow> configuration_ok c"
     apply (auto simp: mock_read_history_chunk_def when_connected_def Let_def split: if_splits sum.splits) [1]
    apply (auto simp: mock_read_theme_asset_def when_connected_def mock_inv_def ok_or_Inr split: if_splits) [1]
   apply (auto simp: mock_write_theme_asset_def when_connected_def Let_def
      split: if_splits option.splits mock_theme_write_failure.splits) [1]
  apply (auto simp: mock_read_configuration_def when_connected_def mock_inv_def ok_or_Inr split: if_splits) [1]
  done

interpretation mock: lawful_backend mock_backend mock_inv
  by unfold_locales (simp_all add: mock_backend_def mock_keeps_inv mock_results)

lemma mock_default_inv: "mock_inv mock_default"
  by (simp add: mock_inv_def mock_default_def)

end
