(* ===== verification/ManagerExamples.thy ===== *)
theory ManagerExamples
  imports ManagerRun MockBackend
begin

text \<open>
  A manager that owns the mock device and has connected to it, the state from which the
  witnesses of the manager's properties start.
\<close>

definition example_json :: json_text where
  "example_json = \<lparr>json_print = (\<lambda>_. ''null''), json_parse = (\<lambda>_. Inr JNull), json_complaint = (\<lambda>_. ''invalid type'')\<rparr>"

definition example_start :: "mock_state manager" where
  "example_start = spawn_manager mock_backend mock_default (ms 1000)"

definition example_session :: "mock_state manager" where
  "example_session = handle_candidates mock_backend [''/dev/ttyACM0''] example_start"

definition time_passes :: "mock_state \<Rightarrow> mock_state \<Rightarrow> bool" where
  "time_passes s s' \<longleftrightarrow> (\<exists>d. s' = mock_pass_time d s)"

lemma time_passes_inv: "mock_inv s \<Longrightarrow> time_passes s s' \<Longrightarrow> mock_inv s'"
  by (auto simp: time_passes_def mock_keeps_inv)

text \<open>The world never breaks the backend's own invariant.\<close>

definition world_safe :: "('b \<Rightarrow> bool) \<Rightarrow> ('b \<Rightarrow> 'b \<Rightarrow> bool) \<Rightarrow> bool" where
  "world_safe good moves_on \<longleftrightarrow> (\<forall>x y. good x \<longrightarrow> moves_on x y \<longrightarrow> good y)"

lemma time_passes_safe: "world_safe mock_inv time_passes"
  using time_passes_inv by (auto simp: world_safe_def)

lemma reachable_from_spawn:
  assumes "lawful_backend ops good" and "good b" and "world_safe good moves_on"
    and "manager_reachable ops jt moves_on (spawn_manager ops b interval) m"
  shows "rest good m"
  by (rule lawful_backend.reachable_rest [OF assms(1,4) lawful_backend.spawn_rest [OF assms(1,2)]])
    (use assms(3) in \<open>auto simp: world_safe_def\<close>)

lemma example_start_rest: "rest mock_inv example_start"
  unfolding example_start_def by (rule lawful_backend.spawn_rest [OF mock.lawful_backend_axioms mock_default_inv])

lemma example_session_reachable:
  "manager_reachable mock_backend example_json time_passes example_start example_session"
  unfolding example_session_def
  by (rule manager_reachable.step [OF manager_reachable.start manager_step.candidates])
    (simp add: example_start_def spawn_manager_def)

lemma example_session_rest: "rest mock_inv example_session"
  unfolding example_session_def by (rule lawful_backend.handle_candidates_rest [OF mock.lawful_backend_axioms example_start_rest])

lemma mock_backend_simps [simp]:
  "be_connect mock_backend = mock_connect" "be_disconnect mock_backend = mock_disconnect"
  "be_read_build_information mock_backend = mock_read_build_information"
  "be_read_telemetry mock_backend = mock_read_telemetry"
  "be_read_configuration mock_backend = mock_read_configuration"
  "be_write_configuration mock_backend = mock_write_configuration"
  "be_nvm_configuration mock_backend = mock_nvm_configuration"
  "be_reboot_device mock_backend = mock_reboot_device"
  "be_clear_faults mock_backend = mock_clear_faults"
  "be_pause_history_updates mock_backend = mock_pause_history_updates"
  "be_resume_history_updates mock_backend = mock_resume_history_updates"
  "be_read_history_chunk mock_backend = mock_read_history_chunk"
  "be_read_theme_asset mock_backend = mock_read_theme_asset"
  "be_write_theme_asset mock_backend = mock_write_theme_asset"
  "be_set_screen mock_backend = mock_set_screen" "be_now mock_backend = mock_clock"
  "be_sleep mock_backend = mock_pass_time"
  by (simp_all add: mock_backend_def)

lemma example_session_ready:
  "connection (daemon example_session) = Ready 1"
  "mock_configuration (backend example_session) = Some configuration_mock"
  "connected (backend example_session)" "mock_clock (backend example_session) = 0"
  "fail_next_read (backend example_session) = False"
  "next_display_resume_failure (backend example_session) = None"
  "next_poll example_session = 0" "\<not> stopped example_session"
  "poll_interval example_session = ms 1000"
  "next_history_dump_id example_session = 0" "tokens example_session = []"
  by (simp_all add: example_session_def example_start_def spawn_manager_def handle_candidates_def
      retry_is_due_def connect_def on_backend_def mock_connect_def mock_default_def
      mock_read_telemetry_def when_connected_def Let_def connected_with_def daemon_state_default_def
      bump_and_publish_def set_connection_def drop_leases_def clear_history_cancellation_def send_event_def)

text \<open>The hypotheses of the properties of reachable states hold for this run.\<close>

lemmas example_run = mock.lawful_backend_axioms mock_default_inv time_passes_safe
  example_session_reachable [unfolded example_start_def]

text \<open>The same start with a device whose first connection fails.\<close>

definition example_failed :: "mock_state manager" where
  "example_failed = handle_candidates mock_backend [''/dev/ttyACM0'']
     (spawn_manager mock_backend (control_fail_next_connect mock_default) (ms 1000))"

lemma example_failed_inv: "mock_inv (control_fail_next_connect mock_default)"
  using mock_default_inv by (simp add: mock_inv_def control_fail_next_connect_def)

lemma example_failed_reachable:
  "manager_reachable mock_backend example_json time_passes
     (spawn_manager mock_backend (control_fail_next_connect mock_default) (ms 1000)) example_failed"
  unfolding example_failed_def
  by (rule manager_reachable.step [OF manager_reachable.start manager_step.candidates])
    (simp add: spawn_manager_def)

lemma example_failed_recovering:
  "connection (daemon example_failed) = Recovering 1 ''transport error: synthetic connection failure''"
  by (simp add: example_failed_def spawn_manager_def handle_candidates_def retry_is_due_def connect_def
      on_backend_def mock_connect_def control_fail_next_connect_def mock_default_def Let_def
      connection_failed_def failure_verdict_def failed_attempt_def bump_and_publish_def
      set_connection_def drop_leases_def clear_history_cancellation_def)

lemmas example_failed_run = mock.lawful_backend_axioms example_failed_inv time_passes_safe
  example_failed_reachable

end
