(* ===== verification/Handle.thy ===== *)
theory Handle
  imports ManagerExamples
begin

text \<open>
  \<open>ManagerHandle\<close> of \<open>src/manager.rs\<close>: how a client task reaches the manager. A method sends a
  command and waits for the answer; between two awaits of a client the run loop may have made
  any number of steps for others. The record \<open>server\<close> holds what the tasks of the daemon share
  and, as \<open>sv_others k\<close>, what happened before the client's \<open>k\<close>-th await; the properties
  let it be any run of the manager.
\<close>

section \<open>Waiting for the manager\<close>

record 'b server =
  sv_ops :: "'b device_backend"
  sv_json :: json_text
  sv_sha256 :: "u8 list \<Rightarrow> u8 list"
  sv_contract :: string
  sv_version :: string
  sv_build_id :: string
  sv_interrupt :: "'b \<Rightarrow> bool"
  sv_others :: "nat \<Rightarrow> 'b manager \<Rightarrow> 'b manager"
  sv_lag :: "nat \<Rightarrow> nat"

text \<open>
  Sending a command and awaiting its reply; the channel of a stopped manager is closed.
\<close>

definition ask :: "'b server \<Rightarrow> nat \<Rightarrow> manager_command \<Rightarrow> 'b manager \<Rightarrow> reply option \<times> 'b manager" where
  "ask sv k command m =
     (let m1 = sv_others sv k m in
      if stopped m1 then (None, m1)
      else case handle_command (sv_ops sv) (sv_json sv) (sv_interrupt sv) command m1 of
        (r, m2) \<Rightarrow> (Some r, m2))"

text \<open>
  The last state sent to the watch channel, which starts with the default. A client may look while
  a handler is still running: then \<open>sv_lag k\<close> of the states published by the end of the handler
  are not there yet.
\<close>

definition handle_state :: "'b server \<Rightarrow> nat \<Rightarrow> 'b manager \<Rightarrow> daemon_state \<times> 'b manager" where
  "handle_state sv k m =
     (let m1 = sv_others sv k m;
          seen = max (length (published m)) (length (published m1) - sv_lag sv k)
      in (last (daemon_state_default # take seen (published m1)), m1))"

section \<open>Replies\<close>

text \<open>A dropped reply channel is a stopped manager; a reply of another type does not type-check in
  the code.\<close>

fun unit_reply :: "reply option \<Rightarrow> unit result" where
  "unit_reply (Some (ReplyUnit r)) = r"
| "unit_reply _ = Inl ManagerStopped"

fun bytes_reply :: "reply option \<Rightarrow> (u8 list) result" where
  "bytes_reply (Some (ReplyBytes r)) = r"
| "bytes_reply _ = Inl ManagerStopped"

fun dump_reply :: "reply option \<Rightarrow> history_dump result" where
  "dump_reply (Some (ReplyDump r)) = r"
| "dump_reply _ = Inl ManagerStopped"

fun identity_reply :: "reply option \<Rightarrow> device_identity result" where
  "identity_reply (Some (ReplyIdentity r)) = r"
| "identity_reply _ = Inl ManagerStopped"

fun telemetry_reply :: "reply option \<Rightarrow> telemetry result" where
  "telemetry_reply (Some (ReplyTelemetry r)) = r"
| "telemetry_reply _ = Inl ManagerStopped"

fun interval_reply :: "reply option \<Rightarrow> u64 result" where
  "interval_reply (Some (ReplyInterval r)) = r"
| "interval_reply _ = Inl ManagerStopped"

fun pause_reply :: "reply option \<Rightarrow> display_pause_state result" where
  "pause_reply (Some (ReplyPause r)) = r"
| "pause_reply _ = Inl ManagerStopped"

fun configuration_reply :: "reply option \<Rightarrow> device_configuration result" where
  "configuration_reply (Some (ReplyConfiguration r)) = r"
| "configuration_reply _ = Inl ManagerStopped"

fun item_reply :: "reply option \<Rightarrow> string result" where
  "item_reply (Some (ReplyItem r)) = r"
| "item_reply _ = Inl ManagerStopped"

section \<open>The methods\<close>

definition answer ::
  "'b server \<Rightarrow> nat \<Rightarrow> (reply option \<Rightarrow> 'a result) \<Rightarrow> manager_command \<Rightarrow> ('b manager, 'a) action" where
  "answer sv k project command m = (case ask sv k command m of (r, m1) \<Rightarrow> (project r, m1))"

definition handle_set_screen ::
  "'b server \<Rightarrow> nat \<Rightarrow> screen \<Rightarrow> ('b manager, unit) action" where
  "handle_set_screen sv k screen = answer sv k unit_reply (CmdSetScreen screen)"

definition handle_read_history_chunk ::
  "'b server \<Rightarrow> nat \<Rightarrow> nat \<Rightarrow> nat \<Rightarrow> ('b manager, u8 list) action" where
  "handle_read_history_chunk sv k off len = answer sv k bytes_reply (CmdReadHistoryChunk off len)"

definition handle_read_theme_asset ::
  "'b server \<Rightarrow> nat \<Rightarrow> theme_asset_slot \<Rightarrow> ('b manager, u8 list) action" where
  "handle_read_theme_asset sv k slot = answer sv k bytes_reply (CmdReadThemeAsset slot)"

definition handle_write_theme_asset ::
  "'b server \<Rightarrow> nat \<Rightarrow> theme_asset_slot \<Rightarrow> u8 list \<Rightarrow> ('b manager, unit) action" where
  "handle_write_theme_asset sv k slot bytes = answer sv k unit_reply (CmdWriteThemeAsset slot bytes)"

definition handle_begin_history_dump ::
  "'b server \<Rightarrow> nat \<Rightarrow> ('b manager, history_dump) action" where
  "handle_begin_history_dump sv k = answer sv k dump_reply CmdBeginHistoryDump"

definition handle_read_history_dump_chunk ::
  "'b server \<Rightarrow> nat \<Rightarrow> u64 \<Rightarrow> nat \<Rightarrow> nat \<Rightarrow> ('b manager, u8 list) action" where
  "handle_read_history_dump_chunk sv k dump off len = answer sv k bytes_reply (CmdReadHistoryDumpChunk dump off len)"

definition handle_read_device_info ::
  "'b server \<Rightarrow> nat \<Rightarrow> ('b manager, device_identity) action" where
  "handle_read_device_info sv k = answer sv k identity_reply CmdReadDeviceInfo"

definition handle_clear_faults ::
  "'b server \<Rightarrow> nat \<Rightarrow> u16 \<Rightarrow> u16 \<Rightarrow> ('b manager, telemetry) action" where
  "handle_clear_faults sv k active_mask logged_mask = answer sv k telemetry_reply (CmdClearFaults active_mask logged_mask)"

definition handle_poll_interval_ms ::
  "'b server \<Rightarrow> nat \<Rightarrow> ('b manager, u64) action" where
  "handle_poll_interval_ms sv k = answer sv k interval_reply CmdGetPollInterval"

definition handle_set_poll_interval_ms ::
  "'b server \<Rightarrow> nat \<Rightarrow> u64 \<Rightarrow> ('b manager, u64) action" where
  "handle_set_poll_interval_ms sv k milliseconds = answer sv k interval_reply (CmdSetPollInterval milliseconds)"

definition handle_display_pause_state ::
  "'b server \<Rightarrow> nat \<Rightarrow> ('b manager, display_pause_state) action" where
  "handle_display_pause_state sv k = answer sv k pause_reply CmdGetDisplayPause"

definition handle_pause_display ::
  "'b server \<Rightarrow> nat \<Rightarrow> u64 \<Rightarrow> ('b manager, display_pause_state) action" where
  "handle_pause_display sv k milliseconds = answer sv k pause_reply (CmdPauseDisplay milliseconds)"

definition handle_resume_display ::
  "'b server \<Rightarrow> nat \<Rightarrow> ('b manager, display_pause_state) action" where
  "handle_resume_display sv k = answer sv k pause_reply CmdResumeDisplay"

definition handle_read_configuration ::
  "'b server \<Rightarrow> nat \<Rightarrow> ('b manager, device_configuration) action" where
  "handle_read_configuration sv k = answer sv k configuration_reply CmdReadConfiguration"

definition handle_read_configuration_item ::
  "'b server \<Rightarrow> nat \<Rightarrow> string \<Rightarrow> ('b manager, string) action" where
  "handle_read_configuration_item sv k key = answer sv k item_reply (CmdReadConfigurationItem key)"

definition handle_apply_configuration ::
  "'b server \<Rightarrow> nat \<Rightarrow> device_configuration \<Rightarrow> bool \<Rightarrow> ('b manager, device_configuration) action" where
  "handle_apply_configuration sv k configuration persist = answer sv k configuration_reply (CmdApplyConfiguration configuration persist None)"

definition handle_apply_configuration_if_revision ::
  "'b server \<Rightarrow> nat \<Rightarrow> device_configuration \<Rightarrow> bool \<Rightarrow> string \<Rightarrow> ('b manager, device_configuration) action" where
  "handle_apply_configuration_if_revision sv k configuration persist expected_revision = answer sv k configuration_reply (CmdApplyConfiguration configuration persist (Some expected_revision))"

definition handle_reload_configuration ::
  "'b server \<Rightarrow> nat \<Rightarrow> ('b manager, device_configuration) action" where
  "handle_reload_configuration sv k = answer sv k configuration_reply CmdReloadConfiguration"

definition handle_set_configuration_item ::
  "'b server \<Rightarrow> nat \<Rightarrow> string \<Rightarrow> string \<Rightarrow> bool \<Rightarrow> ('b manager, device_configuration) action" where
  "handle_set_configuration_item sv k key val persist = answer sv k configuration_reply (CmdSetConfigurationItem key val persist)"

definition handle_reset_configuration ::
  "'b server \<Rightarrow> nat \<Rightarrow> ('b manager, device_configuration) action" where
  "handle_reset_configuration sv k = answer sv k configuration_reply CmdResetConfiguration"

definition handle_reboot_device ::
  "'b server \<Rightarrow> nat \<Rightarrow> ('b manager, unit) action" where
  "handle_reboot_device sv k = answer sv k unit_reply CmdRebootDevice"

text \<open>Ending a dump cancels its token before the message is queued, while the manager may be busy
  with the read the token stops.\<close>

definition handle_end_history_dump :: "'b server \<Rightarrow> nat \<Rightarrow> u64 \<Rightarrow> ('b manager, unit) action" where
  "handle_end_history_dump sv k dump m =
     answer sv k unit_reply (CmdEndHistoryDump dump) (cancel_history (Some dump) m)"

end
