(* ===== verification/ItemProps.thy ===== *)
theory ItemProps
  imports Items
begin

text \<open>
  The configuration document reads back as what was written, its items are exactly the leaves
  of the settings, and changing one item changes nothing else.
\<close>

section \<open>Reading back what was written\<close>

lemma enum_of_name [simp]:
  "fan_mode_of_name (fan_mode_name x1) = Some x1"
  "temperature_source_of_name (temperature_source_name x2) = Some x2"
  "fault_of_name (fault_name x3) = Some x3"
  "config_screen_of_name (config_screen_name x4) = Some x4"
  "timeout_mode_of_name (timeout_mode_name x5) = Some x5"
  "power_scale_of_name (power_scale_name x6) = Some x6"
  "background_of_name (background_name x7) = Some x7"
  "fan_theme_of_name (fan_theme_name x8) = Some x8"
  by (cases x1; simp add: fan_mode_of_name_def; fail | cases x2; simp add: temperature_source_of_name_def; fail
    | cases x3; simp add: fault_of_name_def; fail | cases x4; simp add: config_screen_of_name_def; fail
    | cases x5; simp add: timeout_mode_of_name_def; fail | cases x6; simp add: power_scale_of_name_def; fail
    | cases x7; simp add: background_of_name_def; fail | cases x8; simp add: fan_theme_of_name_def; fail)+

lemma scalar_of_json [simp]:
  "u8_of_json (json_u8 v) = Some v" "u16_of_json (json_u16 w) = Some w"
  "f64_is_finite x \<Longrightarrow> f64_of_json (json_f64 x) = Some x"
  "bool_of_json (JBool b) = Some b" "string_of_json (JString s) = Some s"
  "argb_of_json (JString (argb_serialize c)) = Some c"
proof -
  have "unat v < 2 ^ LENGTH(8)" "unat w < 2 ^ LENGTH(16)" by (rule unsigned_less)+
  then have bounds: "unat v < 256" "unat w < 65536" by simp_all
  then have "unat (ucast v :: u64) = unat v" "unat (ucast w :: u64) = unat w"
    by (simp_all add: unsigned_ucast_eq take_bit_nat_eq_self)
  then show "u8_of_json (json_u8 v) = Some v" "u16_of_json (json_u16 w) = Some w"
    using bounds by (simp_all add: u8_of_json_def u16_of_json_def json_u8_def json_u16_def)
  show "argb_of_json (JString (argb_serialize c)) = Some c"
    by (simp add: argb_of_json_def argb_roundtrip)
qed (simp_all add: json_f64_def)

lemma enum_of_json_string [simp]: "enum_of_json of_name (JString s) = of_name s"
  by (simp add: enum_of_json_def)

lemma collect_options_Some: "collect_options (map (\<lambda>x. Some (g x)) xs) = Some (map g xs)"
  by (induction xs) auto

lemma list_of_json_map [simp]:
  "(\<And>x. of_name (name x) = Some x) \<Longrightarrow>
     list_of_json (enum_of_json of_name) (JArray (map (\<lambda>x. JString (name x)) xs)) = Some xs"
  by (simp add: list_of_json_def comp_def collect_options_Some)

section \<open>Structs as rows of values\<close>

lemma struct_fields_zip:
  assumes "distinct names" and "length vs = length names"
  shows "struct_fields names (JObject (zip names vs)) = Some vs"
proof -
  have "map (\<lambda>n. the (map_of (zip names vs) n)) names = vs"
    using assms by (intro nth_equalityI) (simp_all add: map_of_zip_nth)
  then show ?thesis using assms by (simp add: struct_fields_def)
qed

lemma update_zip:
  assumes "distinct names" and "length vs = length names" and "i < length names"
  shows "AList.update (names ! i) v (zip names vs) = zip names (vs[i := v])"
  using assms
proof (induction names arbitrary: vs i)
  case (Cons n names)
  then obtain w ws where vs: "vs = w # ws" by (cases vs) auto
  show ?case
  proof (cases i)
    case (Suc j)
    then have "names ! j \<noteq> n" using Cons.prems by auto
    then show ?thesis using Cons vs Suc by simp
  qed (simp add: vs)
qed simp

lemma map_of_zip_index:
  "distinct names \<Longrightarrow> length vs = length names \<Longrightarrow> i < length names \<Longrightarrow> map_of (zip names vs) (names ! i) = Some (vs ! i)"
  by (rule map_of_zip_nth) auto
definition fan_values :: "fan_configuration \<Rightarrow> json list" where
  "fan_values r =
     [JString (fan_mode_name (fan_mode_of r)),
      JString (temperature_source_name (temperature_source_of r)),
      json_u8 (duty_min_percent r),
      json_u8 (duty_max_percent r),
      json_f64 (temperature_min_c r),
      json_f64 (temperature_max_c r)]"

definition actions_values :: "fault_actions \<Rightarrow> json list" where
  "actions_values r =
     [JArray (map (\<lambda>x. JString (fault_name x)) (act_display r)),
      JArray (map (\<lambda>x. JString (fault_name x)) (act_buzzer r)),
      JArray (map (\<lambda>x. JString (fault_name x)) (act_soft_power r)),
      JArray (map (\<lambda>x. JString (fault_name x)) (act_hard_power r))]"

definition thresholds_values :: "fault_thresholds \<Rightarrow> json list" where
  "thresholds_values r =
     [json_f64 (limit_temperature_c r),
      json_u8 (limit_total_current_a r),
      json_f64 (limit_wire_current_a r),
      json_u16 (limit_total_power_w r),
      json_u8 (current_imbalance_percent r),
      json_u8 (current_imbalance_min_load_a r)]"

definition display_values :: "display_configuration \<Rightarrow> json list" where
  "display_values r =
     [JString (config_screen_name (default_screen r)),
      json_u8 (current_scale_a r),
      JString (power_scale_name (power_scale_of r)),
      json_u16 (rotation_degrees r),
      JString (timeout_mode_name (timeout_mode_of r)),
      JArray (map (\<lambda>x. JString (config_screen_name x)) (cycle_screens r)),
      json_u8 (cycle_time_seconds r),
      json_u8 (timeout_seconds r),
      JString (argb_serialize (primary_color r)),
      JString (argb_serialize (secondary_color r)),
      JString (argb_serialize (highlight_color r)),
      JString (argb_serialize (background_color r)),
      JString (background_name (background_of r)),
      JString (fan_theme_name (fan_theme_of r)),
      JBool (inverted r)]"

definition settings_values :: "device_settings \<Rightarrow> json list" where
  "settings_values r =
     [JString (set_friendly_name r),
      json_u8 (set_backlight_percent r),
      fan_to_json (set_fan r),
      actions_to_json (set_fault_actions r),
      thresholds_to_json (set_fault_thresholds r),
      json_u8 (set_shutdown_wait_seconds r),
      json_u8 (set_logging_interval_seconds r),
      json_u16 (set_averaging_ms r),
      display_to_json (set_display r)]"

lemma fan_row:
  "fan_to_json r = JObject (zip fan_fields (fan_values r))"
  "distinct fan_fields" "length (fan_values r) = length fan_fields" "length fan_fields = 6"
  by (simp_all add: fan_to_json_def fan_fields_def fan_values_def)

lemma actions_row:
  "actions_to_json r = JObject (zip actions_fields (actions_values r))"
  "distinct actions_fields" "length (actions_values r) = length actions_fields" "length actions_fields = 4"
  by (simp_all add: actions_to_json_def actions_fields_def actions_values_def)

lemma thresholds_row:
  "thresholds_to_json r = JObject (zip thresholds_fields (thresholds_values r))"
  "distinct thresholds_fields" "length (thresholds_values r) = length thresholds_fields" "length thresholds_fields = 6"
  by (simp_all add: thresholds_to_json_def thresholds_fields_def thresholds_values_def)

lemma display_row:
  "display_to_json r = JObject (zip display_fields (display_values r))"
  "distinct display_fields" "length (display_values r) = length display_fields" "length display_fields = 15"
  by (simp_all add: display_to_json_def display_fields_def display_values_def)

lemma settings_row:
  "settings_to_json r = JObject (zip settings_fields (settings_values r))"
  "distinct settings_fields" "length (settings_values r) = length settings_fields" "length settings_fields = 9"
  by (simp_all add: settings_to_json_def settings_fields_def settings_values_def)

text \<open>Reading a row back.\<close>

definition finite_fan :: "fan_configuration \<Rightarrow> bool" where
  "finite_fan r \<longleftrightarrow> f64_is_finite (temperature_min_c r) \<and> f64_is_finite (temperature_max_c r)"

definition finite_thresholds :: "fault_thresholds \<Rightarrow> bool" where
  "finite_thresholds r \<longleftrightarrow> f64_is_finite (limit_temperature_c r) \<and> f64_is_finite (limit_wire_current_a r)"

definition finite_settings :: "device_settings \<Rightarrow> bool" where
  "finite_settings s \<longleftrightarrow> finite_fan (set_fan s) \<and> finite_thresholds (set_fault_thresholds s)"

lemma fan_of_to_json [simp]: "finite_fan r \<Longrightarrow> fan_of_json (fan_to_json r) = Some r"
  unfolding fan_of_json_def fan_row(1) struct_fields_zip [OF fan_row(2,3)]
  by (simp add: fan_values_def finite_fan_def)

lemma actions_of_to_json [simp]: "actions_of_json (actions_to_json r) = Some r"
  unfolding actions_of_json_def actions_row(1) struct_fields_zip [OF actions_row(2,3)]
  by (simp add: actions_values_def)

lemma thresholds_of_to_json [simp]: "finite_thresholds r \<Longrightarrow> thresholds_of_json (thresholds_to_json r) = Some r"
  unfolding thresholds_of_json_def thresholds_row(1) struct_fields_zip [OF thresholds_row(2,3)]
  by (simp add: thresholds_values_def finite_thresholds_def)

lemma display_of_to_json [simp]: "display_of_json (display_to_json r) = Some r"
  unfolding display_of_json_def display_row(1) struct_fields_zip [OF display_row(2,3)]
  by (simp add: display_values_def)

lemma settings_of_to_json [simp]: "finite_settings r \<Longrightarrow> settings_of_json (settings_to_json r) = Some r"
  unfolding settings_of_json_def settings_row(1) struct_fields_zip [OF settings_row(2,3)]
  by (simp add: settings_values_def finite_settings_def)

section \<open>Changing one item\<close>

text \<open>The document with the value at a path replaced.\<close>

fun put_path :: "string list \<Rightarrow> json \<Rightarrow> json \<Rightarrow> json" where
  "put_path [] v j = v"
| "put_path (c # cs) v (JObject obj) =
     (case map_of obj c of None \<Rightarrow> JObject obj
      | Some child \<Rightarrow> JObject (AList.update c (put_path cs v child) obj))"
| "put_path (c # cs) v j = j"

lemma is_object_iff: "is_object j \<longleftrightarrow> (\<exists>obj. j = JObject obj)"
  by (cases j) auto

lemma set_path_Inr:
  assumes "set_path jt key raw path doc = Inr doc'"
  shows "\<exists>v leaf. doc' = put_path path v doc \<and> walk_item key path doc = Inr leaf \<and> \<not> is_object leaf"
  using assms
proof (induction path arbitrary: doc doc')
  case (Cons c cs)
  from Cons.prems obtain obj child where doc: "doc = JObject obj" "c \<noteq> []" "map_of obj c = Some child"
    by (auto split: if_splits json.splits option.splits)
  show ?case
  proof (cases "cs = []")
    case True
    then have "\<not> is_object child" "\<exists>v. doc' = JObject (AList.update c v obj)"
      using Cons.prems doc by (auto simp: mapR_Inr split: if_splits)
    then show ?thesis using doc True by auto
  next
    case False
    then obtain d where "set_path jt key raw cs child = Inr d" "doc' = JObject (AList.update c d obj)"
      using Cons.prems doc by (auto simp: mapR_Inr)
    then show ?thesis using Cons.IH [of child d] doc by auto
  qed
qed simp

lemma walk_after_put:
  assumes "walk_item key p doc = Inr leaf" and "\<not> is_object leaf"
    and "walk_item key' q doc = Inr v" and "\<not> is_object v" and "q \<noteq> p"
  shows "walk_item key' q (put_path p w doc) = Inr v"
  using assms
proof (induction p arbitrary: q doc)
  case Nil
  then show ?case by (cases q) (auto split: if_splits json.splits)
next
  case (Cons c cs)
  from Cons.prems(1) obtain obj child where doc: "doc = JObject obj" "map_of obj c = Some child"
    and walk: "walk_item key cs child = Inr leaf"
    by (auto split: if_splits json.splits option.splits)
  from Cons.prems(3,4) doc obtain d ds where q: "q = d # ds" by (cases q) auto
  show ?case
  proof (cases "d = c")
    case True
    then show ?thesis using Cons.IH [OF walk Cons.prems(2), of ds] Cons.prems doc q
      by (auto simp: update_conv split: if_splits)
  next
    case False
    then show ?thesis using Cons.prems doc q by (auto simp: update_conv split: if_splits)
  qed
qed

lemma put_path_row:
  assumes "distinct names" and "length vs = length names" and "i < length names"
  shows "put_path [names ! i] v (JObject (zip names vs)) = JObject (zip names (vs[i := v]))"
  using assms by (simp add: map_of_zip_index update_zip)

lemma fan_of_put:
  assumes "fan_of_json (JObject (zip fan_fields ((fan_values r)[i := v]))) = Some r'" and "finite_fan r"
    and "i < 6"
  shows "fan_values r' = (fan_values r)[i := fan_values r' ! i]"
proof -
  have "struct_fields fan_fields (JObject (zip fan_fields ((fan_values r)[i := v]))) = Some ((fan_values r)[i := v])"
    by (rule struct_fields_zip) (simp_all add: fan_row)
  moreover have "list_ex (\<lambda>k. i = k) [0..<6]" using assms(3) by (simp add: list_ex_iff)
  ultimately show ?thesis
    using assms(1,2) by (auto simp: upt_conv_Cons fan_of_json_def fan_values_def finite_fan_def bind_eq_Some_conv)
qed

lemma display_of_put:
  assumes "display_of_json (JObject (zip display_fields ((display_values r)[i := v]))) = Some r'"
    and "i < 15"
  shows "display_values r' = (display_values r)[i := display_values r' ! i]"
proof -
  have "struct_fields display_fields (JObject (zip display_fields ((display_values r)[i := v])))
      = Some ((display_values r)[i := v])"
    by (rule struct_fields_zip) (simp_all add: display_row)
  moreover have "list_ex (\<lambda>k. i = k) [0..<15]" using assms(2) by (simp add: list_ex_iff)
  ultimately show ?thesis
    using assms(1) by (auto simp: upt_conv_Cons display_of_json_def display_values_def bind_eq_Some_conv)
qed
lemma thresholds_of_put:
  assumes "thresholds_of_json (JObject (zip thresholds_fields ((thresholds_values r)[i := v]))) = Some r'" and "finite_thresholds r"
    and "i < 6"
  shows "thresholds_values r' = (thresholds_values r)[i := thresholds_values r' ! i]"
proof -
  have "struct_fields thresholds_fields (JObject (zip thresholds_fields ((thresholds_values r)[i := v]))) = Some ((thresholds_values r)[i := v])"
    by (rule struct_fields_zip) (simp_all add: thresholds_row)
  moreover have "list_ex (\<lambda>k. i = k) [0..<6]" using assms by (simp add: list_ex_iff)
  ultimately show ?thesis
    using assms by (auto simp: upt_conv_Cons thresholds_of_json_def thresholds_values_def finite_thresholds_def bind_eq_Some_conv)
qed

lemma actions_of_put:
  assumes "actions_of_json (JObject (zip actions_fields ((actions_values r)[i := v]))) = Some r'"
    and "i < 4"
  shows "actions_values r' = (actions_values r)[i := actions_values r' ! i]"
proof -
  have "struct_fields actions_fields (JObject (zip actions_fields ((actions_values r)[i := v]))) = Some ((actions_values r)[i := v])"
    by (rule struct_fields_zip) (simp_all add: actions_row)
  moreover have "list_ex (\<lambda>k. i = k) [0..<4]" using assms by (simp add: list_ex_iff)
  ultimately show ?thesis
    using assms by (auto simp: upt_conv_Cons actions_of_json_def actions_values_def bind_eq_Some_conv)
qed

lemma settings_of_put:
  assumes "settings_of_json (JObject (zip settings_fields ((settings_values r)[i := v]))) = Some r'" and "finite_settings r"
    and "i < 9"
  shows "settings_values r' = (settings_values r)[i := settings_values r' ! i]"
proof -
  have "struct_fields settings_fields (JObject (zip settings_fields ((settings_values r)[i := v]))) = Some ((settings_values r)[i := v])"
    by (rule struct_fields_zip) (simp_all add: settings_row)
  moreover have "list_ex (\<lambda>k. i = k) [0..<9]" using assms by (simp add: list_ex_iff)
  ultimately show ?thesis
    using assms by (auto simp: upt_conv_Cons settings_of_json_def settings_values_def finite_settings_def bind_eq_Some_conv)
qed

text \<open>The leaves of the document.\<close>

definition scalar_fields :: "string list" where
  "scalar_fields = [''friendly_name'', ''backlight_percent'', ''shutdown_wait_seconds'',
     ''logging_interval_seconds'', ''averaging_ms'']"

definition item_paths :: "string list list" where
  "item_paths = map (\<lambda>c. [c]) scalar_fields @ map (\<lambda>c. [''fan'', c]) fan_fields
     @ map (\<lambda>c. [''fault_actions'', c]) actions_fields
     @ map (\<lambda>c. [''fault_thresholds'', c]) thresholds_fields
     @ map (\<lambda>c. [''display'', c]) display_fields"

lemma leaf_values:
  "\<forall>v\<in>set (fan_values f). \<not> is_object v" "\<forall>v\<in>set (actions_values a). \<not> is_object v"
  "\<forall>v\<in>set (thresholds_values t). \<not> is_object v" "\<forall>v\<in>set (display_values d). \<not> is_object v"
  by (simp_all add: fan_values_def actions_values_def thresholds_values_def display_values_def
      json_u8_def json_u16_def json_f64_def)

lemma walk_leaf [simp]: "\<not> is_object j \<Longrightarrow> walk_item key path j = Inr v \<longleftrightarrow> path = [] \<and> v = j"
  by (cases path) (auto split: json.splits)

lemma walk_row:
  assumes "distinct names" and "length vs = length names" and "\<forall>v\<in>set vs. \<not> is_object v"
    and "\<forall>n\<in>set names. n \<noteq> []"
  shows "(\<exists>v. walk_item key path (JObject (zip names vs)) = Inr v \<and> \<not> is_object v) \<longleftrightarrow> (\<exists>c\<in>set names. path = [c])"
proof (cases path)
  case (Cons d ds)
  show ?thesis
  proof (cases "d \<in> set names")
    case True
    then obtain i where "i < length names" "d = names ! i" by (auto simp: in_set_conv_nth)
    then have "map_of (zip names vs) d = Some (vs ! i)" "\<not> is_object (vs ! i)"
      using assms by (simp_all add: map_of_zip_index)
    then show ?thesis using Cons True assms(4) by auto
  next
    case False
    then have "map_of (zip names vs) d = None" using assms(2) by simp
    then show ?thesis using Cons False by auto
  qed
qed simp

lemma item_paths_iff:
  "c # cs \<in> set item_paths \<longleftrightarrow> c \<in> set scalar_fields \<and> cs = []
     \<or> c = ''fan'' \<and> (\<exists>x\<in>set fan_fields. cs = [x])
     \<or> c = ''fault_actions'' \<and> (\<exists>x\<in>set actions_fields. cs = [x])
     \<or> c = ''fault_thresholds'' \<and> (\<exists>x\<in>set thresholds_fields. cs = [x])
     \<or> c = ''display'' \<and> (\<exists>x\<in>set display_fields. cs = [x])"
  by (auto simp: item_paths_def image_iff)

lemma walk_struct:
  "(\<exists>v. walk_item key cs (fan_to_json f) = Inr v \<and> \<not> is_object v)
     \<longleftrightarrow> (\<exists>c\<in>set fan_fields. cs = [c])"
  "(\<exists>v. walk_item key cs (actions_to_json a) = Inr v \<and> \<not> is_object v)
     \<longleftrightarrow> (\<exists>c\<in>set actions_fields. cs = [c])"
  "(\<exists>v. walk_item key cs (thresholds_to_json t) = Inr v \<and> \<not> is_object v)
     \<longleftrightarrow> (\<exists>c\<in>set thresholds_fields. cs = [c])"
  "(\<exists>v. walk_item key cs (display_to_json d) = Inr v \<and> \<not> is_object v)
     \<longleftrightarrow> (\<exists>c\<in>set display_fields. cs = [c])"
proof -
  show "(\<exists>v. walk_item key cs (fan_to_json f) = Inr v \<and> \<not> is_object v)
     \<longleftrightarrow> (\<exists>c\<in>set fan_fields. cs = [c])"
    unfolding fan_row(1)
    by (rule walk_row) (simp_all add: fan_row leaf_values, simp_all add: fan_fields_def)
  show "(\<exists>v. walk_item key cs (actions_to_json a) = Inr v \<and> \<not> is_object v)
     \<longleftrightarrow> (\<exists>c\<in>set actions_fields. cs = [c])"
    unfolding actions_row(1)
    by (rule walk_row) (simp_all add: actions_row leaf_values, simp_all add: actions_fields_def)
  show "(\<exists>v. walk_item key cs (thresholds_to_json t) = Inr v \<and> \<not> is_object v)
     \<longleftrightarrow> (\<exists>c\<in>set thresholds_fields. cs = [c])"
    unfolding thresholds_row(1)
    by (rule walk_row) (simp_all add: thresholds_row leaf_values, simp_all add: thresholds_fields_def)
  show "(\<exists>v. walk_item key cs (display_to_json d) = Inr v \<and> \<not> is_object v)
     \<longleftrightarrow> (\<exists>c\<in>set display_fields. cs = [c])"
    unfolding display_row(1)
    by (rule walk_row) (simp_all add: display_row leaf_values, simp_all add: display_fields_def)
qed

lemma settings_child:
  "walk_item key (c # cs) (settings_to_json s) =
     (if c = [] then invalid (''invalid configuration key '' @ quoted key)
      else case map_of (zip settings_fields (settings_values s)) c of
         None \<Rightarrow> invalid (''unknown configuration key '' @ quoted key)
       | Some v \<Rightarrow> walk_item key cs v)"
  by (simp add: settings_row(1))

lemma settings_children:
  "c \<in> set settings_fields \<longleftrightarrow> c \<in> set scalar_fields \<or> c = ''fan'' \<or> c = ''fault_actions''
     \<or> c = ''fault_thresholds'' \<or> c = ''display''"
  "map_of (zip settings_fields (settings_values s)) ''fan'' = Some (fan_to_json (set_fan s))"
  "map_of (zip settings_fields (settings_values s)) ''fault_actions'' = Some (actions_to_json (set_fault_actions s))"
  "map_of (zip settings_fields (settings_values s)) ''fault_thresholds'' = Some (thresholds_to_json (set_fault_thresholds s))"
  "map_of (zip settings_fields (settings_values s)) ''display'' = Some (display_to_json (set_display s))"
  "c \<in> set scalar_fields \<Longrightarrow> \<exists>v. map_of (zip settings_fields (settings_values s)) c = Some v \<and> \<not> is_object v"
  "c \<in> set scalar_fields \<Longrightarrow> c \<noteq> ''fan'' \<and> c \<noteq> ''fault_actions'' \<and> c \<noteq> ''fault_thresholds'' \<and> c \<noteq> ''display'' \<and> c \<noteq> []"
proof -
  show "c \<in> set settings_fields \<longleftrightarrow> c \<in> set scalar_fields \<or> c = ''fan'' \<or> c = ''fault_actions''
     \<or> c = ''fault_thresholds'' \<or> c = ''display''"
    by (simp only: settings_fields_def scalar_fields_def list.set insert_iff empty_iff disj_ac simp_thms)
  assume "c \<in> set scalar_fields"
  then have "c = ''friendly_name'' \<or> c = ''backlight_percent'' \<or> c = ''shutdown_wait_seconds''
     \<or> c = ''logging_interval_seconds'' \<or> c = ''averaging_ms''"
    by (simp only: scalar_fields_def list.set insert_iff empty_iff simp_thms)
  then show "\<exists>v. map_of (zip settings_fields (settings_values s)) c = Some v \<and> \<not> is_object v"
     "c \<noteq> ''fan'' \<and> c \<noteq> ''fault_actions'' \<and> c \<noteq> ''fault_thresholds'' \<and> c \<noteq> ''display'' \<and> c \<noteq> []"
    by (elim disjE; simp add: settings_fields_def settings_values_def json_u8_def json_u16_def)+
qed (simp_all add: settings_fields_def settings_values_def)

lemma walk_settings:
  "(\<exists>v. walk_item key path (settings_to_json s) = Inr v \<and> \<not> is_object v) \<longleftrightarrow> path \<in> set item_paths"
proof (cases path)
  case Nil
  then show ?thesis by (auto simp: settings_row(1) item_paths_def)
next
  case (Cons c cs)
  consider (scalar) "c \<in> set scalar_fields" | (sect) "c \<in> {''fan'', ''fault_actions'', ''fault_thresholds'', ''display''}"
    | (other) "c \<notin> set settings_fields"
    using settings_children(1) by blast
  then show ?thesis
  proof cases
    case scalar
    then obtain v where "map_of (zip settings_fields (settings_values s)) c = Some v" "\<not> is_object v"
      using settings_children(6) by blast
    then show ?thesis
      using scalar settings_children(7) [OF scalar] by (auto simp: Cons item_paths_iff settings_child simp del: walk_item.simps)
  next
    case sect
    moreover have "c \<notin> set scalar_fields" using sect settings_children(7) by blast
    ultimately show ?thesis
      by (elim insertE emptyE; simp add: Cons item_paths_iff settings_child settings_children(2-5) walk_struct del: walk_item.simps)
  next
    case other
    then have "map_of (zip settings_fields (settings_values s)) c = None" by (simp add: settings_row)
    then show ?thesis
      using other settings_children(1) by (auto simp: Cons item_paths_iff settings_child simp del: walk_item.simps)
  qed
qed

lemma put_path_step:
  assumes "distinct names" and "length vs = length names" and "i < length names"
  shows "put_path (names ! i # cs) v (JObject (zip names vs)) = JObject (zip names (vs[i := put_path cs v (vs ! i)]))"
  using assms by (simp add: map_of_zip_index update_zip)

lemma settings_of_parts:
  assumes "settings_of_json (JObject (zip settings_fields vs)) = Some r" and "length vs = 9"
  shows "fan_of_json (vs ! 2) = Some (set_fan r) \<and> actions_of_json (vs ! 3) = Some (set_fault_actions r)
    \<and> thresholds_of_json (vs ! 4) = Some (set_fault_thresholds r) \<and> display_of_json (vs ! 8) = Some (set_display r)"
proof -
  have "struct_fields settings_fields (JObject (zip settings_fields vs)) = Some vs"
    by (rule struct_fields_zip) (simp_all add: assms settings_row)
  then show ?thesis using assms(1) by (auto simp: upt_conv_Cons settings_of_json_def bind_eq_Some_conv)
qed

text \<open>If a changed section still reads back, only the changed field differs.\<close>

lemma fan_put:
  assumes "c \<in> set fan_fields" and "fan_of_json (put_path [c] v (fan_to_json r)) = Some r'" and "finite_fan r"
  shows "\<exists>w. fan_to_json r' = put_path [c] w (fan_to_json r)"
proof -
  obtain i where i: "i < length fan_fields" "c = fan_fields ! i" using assms(1) by (auto simp: in_set_conv_nth)
  have "fan_values r' = (fan_values r)[i := fan_values r' ! i]"
    by (rule fan_of_put [of r i v]) (use assms i in \<open>simp_all add: fan_row put_path_row del: put_path.simps\<close>)
  then have "fan_to_json r' = put_path [c] (fan_values r' ! i) (fan_to_json r)"
    using i by (simp add: fan_row put_path_row del: put_path.simps)
  then show ?thesis by blast
qed

lemma actions_put:
  assumes "c \<in> set actions_fields" and "actions_of_json (put_path [c] v (actions_to_json r)) = Some r'"
  shows "\<exists>w. actions_to_json r' = put_path [c] w (actions_to_json r)"
proof -
  obtain i where i: "i < length actions_fields" "c = actions_fields ! i" using assms(1) by (auto simp: in_set_conv_nth)
  have "actions_values r' = (actions_values r)[i := actions_values r' ! i]"
    by (rule actions_of_put [of r i v]) (use assms i in \<open>simp_all add: actions_row put_path_row del: put_path.simps\<close>)
  then have "actions_to_json r' = put_path [c] (actions_values r' ! i) (actions_to_json r)"
    using i by (simp add: actions_row put_path_row del: put_path.simps)
  then show ?thesis by blast
qed

lemma thresholds_put:
  assumes "c \<in> set thresholds_fields" and "thresholds_of_json (put_path [c] v (thresholds_to_json r)) = Some r'" and "finite_thresholds r"
  shows "\<exists>w. thresholds_to_json r' = put_path [c] w (thresholds_to_json r)"
proof -
  obtain i where i: "i < length thresholds_fields" "c = thresholds_fields ! i" using assms(1) by (auto simp: in_set_conv_nth)
  have "thresholds_values r' = (thresholds_values r)[i := thresholds_values r' ! i]"
    by (rule thresholds_of_put [of r i v]) (use assms i in \<open>simp_all add: thresholds_row put_path_row del: put_path.simps\<close>)
  then have "thresholds_to_json r' = put_path [c] (thresholds_values r' ! i) (thresholds_to_json r)"
    using i by (simp add: thresholds_row put_path_row del: put_path.simps)
  then show ?thesis by blast
qed

lemma display_put:
  assumes "c \<in> set display_fields" and "display_of_json (put_path [c] v (display_to_json r)) = Some r'"
  shows "\<exists>w. display_to_json r' = put_path [c] w (display_to_json r)"
proof -
  obtain i where i: "i < length display_fields" "c = display_fields ! i" using assms(1) by (auto simp: in_set_conv_nth)
  have "display_values r' = (display_values r)[i := display_values r' ! i]"
    by (rule display_of_put [of r i v]) (use assms i in \<open>simp_all add: display_row put_path_row del: put_path.simps\<close>)
  then have "display_to_json r' = put_path [c] (display_values r' ! i) (display_to_json r)"
    using i by (simp add: display_row put_path_row del: put_path.simps)
  then show ?thesis by blast
qed

lemma settings_put_child:
  assumes "settings_of_json (put_path (c # cs) v (settings_to_json s)) = Some s'" and "finite_settings s"
    and "i < 9" and "c = settings_fields ! i"
    and "settings_values s' ! i = put_path cs w (settings_values s ! i)"
  shows "settings_to_json s' = put_path (c # cs) w (settings_to_json s)"
proof -
  have "settings_values s' = (settings_values s)[i := settings_values s' ! i]"
    by (rule settings_of_put [of s i "put_path cs v (settings_values s ! i)"])
      (use assms in \<open>simp_all add: settings_row(1) put_path_step settings_row(2-4) del: put_path.simps\<close>)
  then show ?thesis
    using assms by (simp add: settings_row(1) put_path_step settings_row(2-4) del: put_path.simps)
qed

lemma settings_put:
  assumes "path \<in> set item_paths" and "finite_settings s"
    and read: "settings_of_json (put_path path v (settings_to_json s)) = Some s'"
  shows "\<exists>w. settings_to_json s' = put_path path w (settings_to_json s)"
proof -
  have "[] \<notin> set item_paths" by (auto simp: item_paths_def)
  with assms(1) have "path \<noteq> []" by metis
  then obtain c cs where path: "path = c # cs" using list.exhaust by metis
  note read = read [unfolded path]
  have finite: "finite_fan (set_fan s)" "finite_thresholds (set_fault_thresholds s)"
    using assms(2) by (simp_all add: finite_settings_def)
  have parts: "j < 9 \<Longrightarrow> c = settings_fields ! j \<Longrightarrow>
      settings_of_json (JObject (zip settings_fields ((settings_values s)[j := put_path cs v (settings_values s ! j)]))) = Some s'" for j
    using read by (simp add: settings_row(1) put_path_step settings_row(2-4) del: put_path.simps)
  from assms(1) [unfolded path item_paths_iff] show ?thesis
    unfolding path
  proof (elim disjE conjE bexE)
    assume c: "c \<in> set scalar_fields" and cs: "cs = []"
    then have "c \<in> set settings_fields" using settings_children(1) by blast
    then obtain i where i: "i < length settings_fields" "c = settings_fields ! i" by (auto simp: in_set_conv_nth)
    have "settings_to_json s' = put_path (c # cs) (settings_values s' ! i) (settings_to_json s)"
      by (rule settings_put_child [OF read assms(2), of i]) (use i in \<open>simp_all add: settings_row cs\<close>)
    then show "\<exists>w. settings_to_json s' = put_path (c # cs) w (settings_to_json s)" ..
  next
    fix x
    assume c: "c = ''fan''" and x: "x \<in> set fan_fields" and cs: "cs = [x]"
    have i: "c = settings_fields ! 2" "settings_values r ! 2 = fan_to_json (set_fan r)" for r
      by (simp_all add: c settings_fields_def settings_values_def)
    have "fan_of_json (put_path [x] v (fan_to_json (set_fan s))) = Some (set_fan s')"
      using settings_of_parts [OF parts [OF _ i(1)]]
      by (simp add: i(2) cs settings_row(3,4) del: put_path.simps)
    from fan_put [OF x this finite(1)] obtain w
      where "fan_to_json (set_fan s') = put_path [x] w (fan_to_json (set_fan s))" by blast
    then have "settings_to_json s' = put_path (c # cs) w (settings_to_json s)"
      by (intro settings_put_child [OF read assms(2) _ i(1)]) (simp_all add: i(2) cs del: put_path.simps)
    then show "\<exists>w. settings_to_json s' = put_path (c # cs) w (settings_to_json s)" ..
  next
    fix x
    assume c: "c = ''fault_actions''" and x: "x \<in> set actions_fields" and cs: "cs = [x]"
    have i: "c = settings_fields ! 3" "settings_values r ! 3 = actions_to_json (set_fault_actions r)" for r
      by (simp_all add: c settings_fields_def settings_values_def)
    have "actions_of_json (put_path [x] v (actions_to_json (set_fault_actions s))) = Some (set_fault_actions s')"
      using settings_of_parts [OF parts [OF _ i(1)]]
      by (simp add: i(2) cs settings_row(3,4) del: put_path.simps)
    from actions_put [OF x this] obtain w
      where "actions_to_json (set_fault_actions s') = put_path [x] w (actions_to_json (set_fault_actions s))" by blast
    then have "settings_to_json s' = put_path (c # cs) w (settings_to_json s)"
      by (intro settings_put_child [OF read assms(2) _ i(1)]) (simp_all add: i(2) cs del: put_path.simps)
    then show "\<exists>w. settings_to_json s' = put_path (c # cs) w (settings_to_json s)" ..
  next
    fix x
    assume c: "c = ''fault_thresholds''" and x: "x \<in> set thresholds_fields" and cs: "cs = [x]"
    have i: "c = settings_fields ! 4" "settings_values r ! 4 = thresholds_to_json (set_fault_thresholds r)" for r
      by (simp_all add: c settings_fields_def settings_values_def)
    have "thresholds_of_json (put_path [x] v (thresholds_to_json (set_fault_thresholds s))) = Some (set_fault_thresholds s')"
      using settings_of_parts [OF parts [OF _ i(1)]]
      by (simp add: i(2) cs settings_row(3,4) del: put_path.simps)
    from thresholds_put [OF x this finite(2)] obtain w
      where "thresholds_to_json (set_fault_thresholds s') = put_path [x] w (thresholds_to_json (set_fault_thresholds s))" by blast
    then have "settings_to_json s' = put_path (c # cs) w (settings_to_json s)"
      by (intro settings_put_child [OF read assms(2) _ i(1)]) (simp_all add: i(2) cs del: put_path.simps)
    then show "\<exists>w. settings_to_json s' = put_path (c # cs) w (settings_to_json s)" ..
  next
    fix x
    assume c: "c = ''display''" and x: "x \<in> set display_fields" and cs: "cs = [x]"
    have i: "c = settings_fields ! 8" "settings_values r ! 8 = display_to_json (set_display r)" for r
      by (simp_all add: c settings_fields_def settings_values_def)
    have "display_of_json (put_path [x] v (display_to_json (set_display s))) = Some (set_display s')"
      using settings_of_parts [OF parts [OF _ i(1)]]
      by (simp add: i(2) cs settings_row(3,4) del: put_path.simps)
    from display_put [OF x this] obtain w
      where "display_to_json (set_display s') = put_path [x] w (display_to_json (set_display s))" by blast
    then have "settings_to_json s' = put_path (c # cs) w (settings_to_json s)"
      by (intro settings_put_child [OF read assms(2) _ i(1)]) (simp_all add: i(2) cs del: put_path.simps)
    then show "\<exists>w. settings_to_json s' = put_path (c # cs) w (settings_to_json s)" ..
  qed
qed

section \<open>Keys\<close>

fun join_on :: "char \<Rightarrow> string list \<Rightarrow> string" where
  "join_on sep [] = []"
| "join_on sep [p] = p"
| "join_on sep (p # q # ps) = p @ sep # join_on sep (q # ps)"

lemma split_on_not_Nil [simp]: "split_on sep s \<noteq> []"
  by (induction s) (auto split: list.splits)

lemma join_split: "join_on sep (split_on sep s) = s"
proof (induction s)
  case (Cons c s)
  obtain p ps where "split_on sep s = p # ps" by (cases "split_on sep s") auto
  then show ?case using Cons by (cases ps) auto
qed simp

lemma split_on_free: "sep \<notin> set p \<Longrightarrow> split_on sep p = [p]"
  by (induction p) auto

lemma split_on_append: "sep \<notin> set p \<Longrightarrow> split_on sep (p @ sep # s) = p # split_on sep s"
  by (induction p) auto

lemma split_join: "ps \<noteq> [] \<Longrightarrow> \<forall>p\<in>set ps. sep \<notin> set p \<Longrightarrow> split_on sep (join_on sep ps) = ps"
  by (induction sep ps rule: join_on.induct) (auto simp: split_on_free split_on_append)

text \<open>Every item's dotted key.\<close>

definition item_keys :: "string list" where
  "item_keys = map (join_on (CHR 0x2e)) item_paths"

lemma item_paths_free: "list_all (\<lambda>path. path \<noteq> [] \<and> list_all (\<lambda>p. CHR 0x2e \<notin> set p) path) item_paths"
  by (simp add: item_paths_def scalar_fields_def fan_fields_def actions_fields_def thresholds_fields_def
      display_fields_def)

lemma item_keys_iff: "key \<in> set item_keys \<longleftrightarrow> split_on (CHR 0x2e) key \<in> set item_paths"
proof
  assume "key \<in> set item_keys"
  then obtain path where "path \<in> set item_paths" "key = join_on (CHR 0x2e) path" by (auto simp: item_keys_def)
  then show "split_on (CHR 0x2e) key \<in> set item_paths"
    using item_paths_free by (auto simp: list_all_iff split_join)
next
  assume "split_on (CHR 0x2e) key \<in> set item_paths"
  then have "join_on (CHR 0x2e) (split_on (CHR 0x2e) key) \<in> set item_keys"
    unfolding item_keys_def set_map by (rule imageI)
  then show "key \<in> set item_keys" by (simp only: join_split)
qed

lemma empty_not_item: "[] \<notin> set item_keys"
  by (simp add: item_keys_iff) (auto simp: item_paths_def scalar_fields_def fan_fields_def actions_fields_def
      thresholds_fields_def display_fields_def)

lemma settings_item_Inr:
  "settings_item s key = Inr v \<longleftrightarrow> key \<noteq> []
     \<and> walk_item key (split_on (CHR 0x2e) key) (settings_to_json s) = Inr v \<and> \<not> is_object v"
  by (auto simp: settings_item_def bindR_def split: sum.splits)

lemma settings_item_present: "(\<exists>v. settings_item s key = Inr v) \<longleftrightarrow> key \<in> set item_keys"
proof (cases "key = []")
  case False
  then show ?thesis
    using walk_settings [of key "split_on (CHR 0x2e) key" s]
    by (simp add: settings_item_Inr item_keys_iff)
qed (simp add: empty_not_item settings_item_Inr)

lemma walk_item_Inl: "walk_item key path j = Inl e \<Longrightarrow> \<exists>msg. e = InvalidArgument msg"
  by (induction key path j rule: walk_item.induct)
    (auto split: if_splits json.splits option.splits)

lemma settings_item_Inl: "settings_item s key = Inl e \<Longrightarrow> \<exists>msg. e = InvalidArgument msg"
  by (auto simp: settings_item_def bindR_def split: if_splits sum.splits dest: walk_item_Inl)

lemma distinct_item_paths: "distinct item_paths"
proof -
  have "distinct scalar_fields" by (simp add: scalar_fields_def)
  then show ?thesis
    using fan_row(2) actions_row(2) thresholds_row(2) display_row(2)
    unfolding item_paths_def distinct_append distinct_map set_append set_map
    by (auto simp: inj_on_def)
qed

lemma item_keys_table: "length item_keys = 36" "distinct item_keys"
proof -
  show "length item_keys = 36"
    by (simp add: item_keys_def item_paths_def scalar_fields_def fan_row(4) actions_row(4) thresholds_row(4)
        display_row(4))
  have "inj_on (join_on (CHR 0x2e)) (set item_paths)"
    by (rule inj_on_inverseI [where g = "split_on (CHR 0x2e)"])
      (use item_paths_free in \<open>auto simp: list_all_iff split_join\<close>)
  then show "distinct item_keys" by (simp add: item_keys_def distinct_map distinct_item_paths)
qed

text \<open>C36: \<open>DeviceSettings::item\<close> answers exactly the thirty-six leaf keys of the configuration
  document, whatever the settings hold, and rejects every other key (the empty key, a section, an
  unknown field, a path below a leaf, an empty component) as an invalid argument.\<close>
theorem settings_item_keys:
  "(if key \<in> set item_keys then \<exists>v. settings_item s key = Inr v
    else \<exists>msg. settings_item s key = Inl (InvalidArgument msg))
   \<and> length item_keys = 36 \<and> distinct item_keys"
proof (intro conjI; (rule item_keys_table)?)
  show "if key \<in> set item_keys then \<exists>v. settings_item s key = Inr v
    else \<exists>msg. settings_item s key = Inl (InvalidArgument msg)"
  proof (cases "settings_item s key")
    case (Inl e)
    then show ?thesis using settings_item_present [of s key] settings_item_Inl [of s key e] by auto
  qed (use settings_item_present [of s key] in auto)
qed

section \<open>The document\<close>

lemma on_tenths_grid_finite: "on_tenths_grid v \<Longrightarrow> f64_is_finite v"
  using on_tenths_grid_Finite by fastforce

lemma settings_validate_finite: "settings_validate s = Inr () \<Longrightarrow> finite_settings s"
  by (simp add: settings_validate_iff settings_ok_def finite_settings_def finite_fan_def finite_thresholds_def
      fan_ok_def thresholds_ok_def tenths_between_def wire_current_ok_def on_tenths_grid_finite)

text \<open>C37: Valid settings survive the JSON document: the parser that reads the printed document back
  as the value that was printed gives the same settings, accepted by validation.\<close>
theorem settings_document_roundtrip:
  assumes "settings_validate s = Inr ()"
    and "json_parse jt (json_print jt (settings_to_json s)) = Inr (settings_to_json s)"
  shows "settings_from_json jt (json_print jt (settings_to_json s)) = Inr s"
  using assms settings_validate_finite [OF assms(1)] by (simp add: settings_from_json_def)

text \<open>An example: the factory configuration's settings, and a reader of one document.\<close>

definition example_settings :: device_settings where
  "example_settings = settings_from_configuration configuration_mock"

definition json_of_document :: "json \<Rightarrow> json_text" where
  "json_of_document document = \<lparr>json_print = (\<lambda>_. ''{}''), json_parse = (\<lambda>_. Inr document),
     json_complaint = (\<lambda>_. ''invalid type'')\<rparr>"

lemma example_settings_ok: "settings_validate example_settings = Inr ()"
  using configuration_mock_ok
  by (simp add: settings_validate_iff example_settings_def configuration_ok_def)

theorem settings_document_roundtrip_witness:
  "settings_from_json (json_of_document (settings_to_json example_settings)) ''{}'' = Inr example_settings"
  using settings_document_roundtrip [OF example_settings_ok, of "json_of_document (settings_to_json example_settings)"]
  by (simp add: json_of_document_def)

section \<open>Changing one item\<close>

lemma with_item_Inr:
  assumes valid: "settings_validate s = Inr ()" and changed: "with_item jt s key raw = Inr s'"
    and faithful: "\<And>document. set_item_value jt (settings_to_json s) key raw = Inr document
      \<Longrightarrow> json_parse jt (json_print jt document) = Inr document"
  shows "key \<in> set item_keys \<and> settings_validate s' = Inr ()
    \<and> (\<exists>w. settings_to_json s' = put_path (split_on (CHR 0x2e) key) w (settings_to_json s))"
proof -
  let ?path = "split_on (CHR 0x2e) key"
  obtain doc where doc: "set_item_value jt (settings_to_json s) key raw = Inr doc"
    and read: "settings_from_value jt doc = Inr s'"
    using changed by (auto simp: with_item_def bindR_Inr)
  have "settings_of_json doc = Some s' \<and> settings_validate s' = Inr ()"
    using read faithful [OF doc]
    by (auto simp: settings_from_value_def settings_from_json_def bindR_Inr split: option.splits)
  moreover have "set_path jt key raw ?path (settings_to_json s) = Inr doc"
    using doc by (simp add: set_item_value_def split: if_splits)
  then obtain v leaf where "doc = put_path ?path v (settings_to_json s)"
    and "walk_item key ?path (settings_to_json s) = Inr leaf" "\<not> is_object leaf"
    using set_path_Inr by blast
  moreover from this have "?path \<in> set item_paths" using walk_settings by blast
  ultimately show ?thesis
    using settings_put [OF _ settings_validate_finite [OF valid]] by (auto simp: item_keys_iff)
qed

text \<open>C6: \<open>DeviceSettings::with_item\<close> changes one item only: when it succeeds on valid settings, the
  key is an item, the result is valid, and every other item reads the same as before. The JSON
  crate is assumed to read back the one changed document it has just printed.\<close>
theorem with_item_frame:
  assumes "settings_validate s = Inr ()" and "with_item jt s key raw = Inr s'"
    and "\<And>document. set_item_value jt (settings_to_json s) key raw = Inr document
      \<Longrightarrow> json_parse jt (json_print jt document) = Inr document"
  shows "key \<in> set item_keys \<and> settings_validate s' = Inr ()
    \<and> (\<forall>other\<in>set item_keys - {key}. settings_item s' other = settings_item s other)"
proof -
  let ?split = "split_on (CHR 0x2e)"
  note facts = with_item_Inr [OF assms]
  then obtain w where w: "settings_to_json s' = put_path (?split key) w (settings_to_json s)" by blast
  have "?split key \<in> set item_paths" using facts item_keys_iff by blast
  then obtain leaf where leaf: "walk_item key (?split key) (settings_to_json s) = Inr leaf" "\<not> is_object leaf"
    using walk_settings [of key "?split key" s] by blast
  have "settings_item s' other = settings_item s other" if other: "other \<in> set item_keys - {key}" for other
  proof -
    obtain v where "settings_item s other = Inr v" using other settings_item_present by blast
    moreover have "?split other \<noteq> ?split key" using other join_split by (metis DiffE singletonI)
    ultimately have "settings_item s' other = Inr v"
      using walk_after_put [OF leaf] by (simp add: settings_item_Inr w)
    then show ?thesis using \<open>settings_item s other = Inr v\<close> by simp
  qed
  then show ?thesis using facts by blast
qed

definition renamed_settings :: device_settings where
  "renamed_settings = example_settings\<lparr>set_friendly_name := ''Bench''\<rparr>"

lemma renamed_settings_ok: "settings_validate renamed_settings = Inr ()"
  using example_settings_ok
  by (simp add: settings_validate_iff settings_ok_def renamed_settings_def is_printable_def)

lemma renamed_document:
  "set_item_value jt (settings_to_json example_settings) ''friendly_name'' ''Bench'' = Inr (settings_to_json renamed_settings)"
  by (simp add: set_item_value_def settings_to_json_def renamed_settings_def parse_item_value_def mapR_def)

lemma renamed_with_item:
  "with_item (json_of_document (settings_to_json renamed_settings)) example_settings ''friendly_name'' ''Bench''
     = Inr renamed_settings"
  using settings_validate_finite [OF renamed_settings_ok]
  by (simp add: with_item_def renamed_document settings_from_value_def settings_from_json_def
      json_of_document_def renamed_settings_ok)

theorem with_item_frame_witness:
  "settings_validate renamed_settings = Inr ()
   \<and> settings_item renamed_settings ''fan.mode'' = settings_item example_settings ''fan.mode''"
proof -
  have "''fan.mode'' \<in> set item_keys - {''friendly_name''}"
    by (simp add: item_keys_def item_paths_def fan_fields_def)
  then show ?thesis
    using with_item_frame [OF example_settings_ok renamed_with_item]
    by (simp add: renamed_document json_of_document_def)
qed

end
