(* ===== verification/ConfigTransactions.thy ===== *)
theory ConfigTransactions
  imports ManagerExamples
begin

text \<open>
  What the configuration transactions of \<open>src/manager.rs\<close> leave on the device. The contract
  \<open>configuration_device\<close> says that a read returns the active configuration and that storing
  copies it to the non-volatile memory; writes are trusted with nothing, because the
  transaction reads back what it wrote. The mock device provides the contract.
\<close>

lemma on_tenths_grid_not_NaN: "on_tenths_grid v \<Longrightarrow> v \<noteq> NaN"
  by (auto simp: on_tenths_grid_def f64_lit_10)

lemma same_settings_refl:
  assumes "configuration_ok c"
  shows "same_settings c c"
proof -
  let ?s = "settings_from_configuration c"
  have "fan_ok (set_fan ?s)" "thresholds_ok (set_fault_thresholds ?s)"
    using assms by (simp_all only: configuration_ok_def settings_ok_def)
  then have "on_tenths_grid (temperature_min_c (set_fan ?s))" "on_tenths_grid (temperature_max_c (set_fan ?s))"
    "on_tenths_grid (limit_temperature_c (set_fault_thresholds ?s))"
    "on_tenths_grid (limit_wire_current_a (set_fault_thresholds ?s))"
    by (simp_all only: fan_ok_def thresholds_ok_def tenths_between_def wire_current_ok_def)
  then show ?thesis
    using on_tenths_grid_not_NaN by (simp add: same_settings_def settings_eq_def) metis
qed

locale configuration_device = lawful_backend ops inv
  for ops :: "'b device_backend" and inv :: "'b \<Rightarrow> bool" +
  fixes active stored :: "'b \<Rightarrow> device_configuration option"
  assumes read_truth: "inv b \<Longrightarrow> be_read_configuration ops b = (r, b') \<Longrightarrow>
      active b' = active b \<and> stored b' = stored b \<and> (\<forall>c. r = Inr c \<longrightarrow> active b = Some c)"
    and active_ok: "inv b \<Longrightarrow> active b = Some c \<Longrightarrow> configuration_ok c"
    and sleep_keeps: "active (be_sleep ops d b) = active b" "stored (be_sleep ops d b) = stored b"
    and store_copies: "inv b \<Longrightarrow> be_nvm_configuration ops NvmStore b = (Inr (), b') \<Longrightarrow> stored b' = active b'"
begin

lemma on_read:
  assumes "inv (backend m)" and "on_backend (be_read_configuration ops) m = (r, m')"
  shows "active (backend m') = active (backend m)" "stored (backend m') = stored (backend m)"
    "r = Inr c \<Longrightarrow> active (backend m) = Some c \<and> configuration_ok c" "inv (backend m')"
proof -
  obtain b' where b: "be_read_configuration ops (backend m) = (r, b')" "backend m' = b'"
    using assms(2) by (auto simp: on_backend_def split: prod.splits)
  note t = read_truth [OF assms(1) b(1)]
  show "active (backend m') = active (backend m)" "stored (backend m') = stored (backend m)"
    using t b by auto
  show "r = Inr c \<Longrightarrow> active (backend m) = Some c \<and> configuration_ok c"
    using t configuration_ok_read [OF assms(1), of c] b(1) by auto
  show "inv (backend m')" using inv_read_configuration [OF assms(1)] b by auto
qed

lemma on_sleep:
  "sleep ops d m = (r, m') \<Longrightarrow> active (backend m') = active (backend m)
     \<and> stored (backend m') = stored (backend m) \<and> (inv (backend m) \<longrightarrow> inv (backend m'))"
  by (auto simp: sleep_def sleep_keeps inv_sleep)

lemma tame_inv: "tame inv act \<Longrightarrow> inv (backend m) \<Longrightarrow> act m = (r, m') \<Longrightarrow> inv (backend m')"
  by (auto simp: tame_def dest!: spec [of _ m])

lemma store_and_verify_stored:
  assumes "inv (backend m)" and "store_and_verify ops wanted mismatch m = (Inr c, m')"
  shows "active (backend m') = Some c \<and> stored (backend m') = Some c \<and> same_settings c wanted"
proof -
  from assms(2) obtain m1 m2 u where
    1: "on_backend (be_nvm_configuration ops NvmStore) m = (Inr (), m1)" and
    2: "sleep ops (ms 100) m1 = (Inr u, m2)" and
    3: "on_backend (be_read_configuration ops) m2 = (Inr c, m')" and same: "same_settings c wanted"
    by (auto simp: store_and_verify_def bindA_Inr split: if_splits sum.splits)
      (metis old.sum.exhaust old.unit.exhaust)+
  have "inv (backend m1)" by (rule tame_inv [OF tame_ops(3) assms(1) 1])
  then have "inv (backend m2)" using on_sleep [OF 2] by simp
  note r = on_read [OF this 3]
  have "stored (backend m1) = active (backend m1)"
    using 1 store_copies [OF assms(1)] by (auto simp: on_backend_def split: prod.splits)
  then show ?thesis using r on_sleep [OF 2] same by auto
qed

lemma write_and_verify_applied:
  assumes "inv (backend m)" and "write_and_verify ops c persist m = (Inr d, m')"
  shows "active (backend m') = Some d"
    "\<not> persist \<Longrightarrow> d = c" "persist \<Longrightarrow> stored (backend m') = Some d \<and> same_settings d c"
proof -
  from assms(2) obtain m1 m2 m3 u applied where
    1: "on_backend (be_write_configuration ops c) m = (Inr (), m1)" and
    2: "sleep ops (ms 50) m1 = (Inr u, m2)" and
    3: "on_backend (be_read_configuration ops) m2 = (Inr applied, m3)" and
    eq: "configuration_eq applied c" and
    4: "(if persist then bindA (updA (wait_for_nvm_mutation_slot ops)) (\<lambda>_.
           store_and_verify ops c ''stored configuration did not match the requested values'')
         else retA applied) m3 = (Inr d, m')"
    by (auto simp: write_and_verify_def bindA_Inr split: if_splits simp del: bindA_simps action_simps)
      (auto split: if_splits)
  have i2: "inv (backend m2)" using tame_inv [OF tame_ops(2) assms(1) 1] on_sleep [OF 2] by simp
  note r = on_read [OF i2 3]
  show "active (backend m') = Some d" "\<not> persist \<Longrightarrow> d = c"
    "persist \<Longrightarrow> stored (backend m') = Some d \<and> same_settings d c"
  proof -
    have p: "persist \<Longrightarrow> active (backend m') = Some d \<and> stored (backend m') = Some d \<and> same_settings d c"
    proof -
      assume persist
      then have "store_and_verify ops c ''stored configuration did not match the requested values''
          (wait_for_nvm_mutation_slot ops m3) = (Inr d, m')" using 4 by simp
      moreover have "inv (backend (wait_for_nvm_mutation_slot ops m3))"
        using tame_inv [OF tame_ops(7) r(4)] by simp
      ultimately show ?thesis using store_and_verify_stored by blast
    qed
    show "active (backend m') = Some d" "\<not> persist \<Longrightarrow> d = c"
      "persist \<Longrightarrow> stored (backend m') = Some d \<and> same_settings d c"
      using p 4 r eq by (cases persist; auto simp: configuration_eq_def)+
  qed
qed

lemma rollback_restored:
  assumes "inv (backend m)" and "rollback_configuration ops original persist m = (Inr u, m')"
  shows "\<not> persist \<Longrightarrow> active (backend m') = Some original"
    "persist \<Longrightarrow> \<exists>c. active (backend m') = Some c \<and> stored (backend m') = Some c \<and> same_settings c original"
proof -
  from assms(2) obtain m1 m2 m3 v restored where
    1: "on_backend (be_write_configuration ops original) m = (Inr (), m1)" and
    2: "sleep ops (ms 50) m1 = (Inr v, m2)" and
    3: "on_backend (be_read_configuration ops) m2 = (Inr restored, m3)" and
    eq: "configuration_eq restored original" and
    4: "(if persist then bindA (updA (\<lambda>m. m\<lparr>last_nvm_mutation := Some (now ops m)\<rparr>)) (\<lambda>_.
           bindA (store_and_verify ops original
             ''stored configuration rollback did not restore the original settings'') (\<lambda>_. retA ()))
         else retA ()) m3 = (Inr u, m')"
    by (auto simp: rollback_configuration_def bindA_Inr split: if_splits simp del: bindA_simps action_simps)
      (auto split: if_splits)
  have i2: "inv (backend m2)" using tame_inv [OF tame_ops(2) assms(1) 1] on_sleep [OF 2] by simp
  note r = on_read [OF i2 3]
  show "\<not> persist \<Longrightarrow> active (backend m') = Some original"
    using 4 r eq by (auto simp: configuration_eq_def)
  show "\<exists>c. active (backend m') = Some c \<and> stored (backend m') = Some c \<and> same_settings c original" if persist
  proof -
    from 4 that obtain c where s: "store_and_verify ops original
        ''stored configuration rollback did not restore the original settings''
        (m3\<lparr>last_nvm_mutation := Some (now ops m3)\<rparr>) = (Inr c, m')"
      by (auto simp: bindA_Inr)
    show ?thesis using store_and_verify_stored [OF _ s] r(4) by auto
  qed
qed

text \<open>The checks before the first write leave the device alone.\<close>

lemma apply_configuration_outcome:
  assumes "inv (backend m)" and "active (backend m) = Some orig"
    and "apply_configuration ops configuration persist expected m = (r, m')"
  shows "case r of
      Inr c \<Rightarrow> active (backend m') = Some c
        \<and> (if persist then stored (backend m') = Some c \<and> same_settings c configuration
           else c = configuration)
    | Inl (FailedAndRolledBack _) \<Rightarrow>
        (\<exists>c. active (backend m') = Some c \<and> same_settings c orig
          \<and> (persist \<longrightarrow> stored (backend m') = Some c \<or> stored (backend m') = stored (backend m))
          \<and> (\<not> persist \<longrightarrow> c = orig))
    | Inl ConnectionLost \<Rightarrow> True
    | Inl (RollbackFailed _ _) \<Rightarrow> True
    | Inl _ \<Rightarrow> active (backend m') = active (backend m) \<and> stored (backend m') = stored (backend m)"
proof -
  have ok: "same_settings orig orig"
    using active_ok [OF assms(1,2)] by (rule same_settings_refl)
  show ?thesis
  proof (cases "configuration_validate configuration")
    case (Inl e)
    then have "r = Inl e" "m' = m" using assms(3) by (simp_all add: apply_configuration_def)
    then show ?thesis using assms(2) ok by (auto split: device_error.splits)
  next
    case (Inr _)
    obtain q m1 where q: "on_backend (be_read_configuration ops) m = (q, m1)" by fastforce
    note rd = on_read [OF assms(1) q]
    define checked where "checked = bindR q (check_current (session m1) configuration expected)"
    show ?thesis
    proof (cases checked)
      case (Inl e)
      then have "r = Inl e" "m' = m1"
        using assms(3) Inr q by (auto simp: apply_configuration_def bindA_def checked_def split: sum.splits)
      then show ?thesis using assms(2) ok rd(1,2) by (auto split: device_error.splits)
    next
      case (Inr _)
      then obtain current where cur: "q = Inr current" by (cases q) (auto simp: checked_def)
      then have "current = orig" using rd(3) assms(2) by auto
      obtain operation m2 where w: "write_and_verify ops configuration persist m1 = (operation, m2)" by fastforce
      have fin: "finish_apply ops orig persist operation m2 = (r, m')"
        using assms(3) \<open>configuration_validate configuration = Inr _\<close> q Inr cur w \<open>current = orig\<close>
        by (simp add: apply_configuration_def bindA_def checked_def)
      have i2: "inv (backend m2)" by (rule tame_inv [OF tame_write_and_verify rd(4) w])
      show ?thesis
      proof (cases operation)
        case (Inr d)
        then show ?thesis
          using fin write_and_verify_applied [OF rd(4) w [unfolded Inr]]
          by (auto simp: finish_apply_def)
      next
        case (Inl e)
        obtain rb m3 where rb: "rollback_configuration ops orig persist m2 = (rb, m3)" by fastforce
        then show ?thesis
          using fin Inl rollback_restored [OF i2, of orig persist "()" m3] ok
          by (cases rb; cases persist) (auto simp: finish_apply_def split: if_splits)
      qed
    qed
  qed
qed
end

interpretation mock_configuration: configuration_device mock_backend mock_inv
  mock_configuration saved_configuration
proof unfold_locales
  fix b b' :: mock_state and r :: "device_configuration result" and c d
  assume "mock_inv b"
  then show "mock_configuration b = Some c \<Longrightarrow> configuration_ok c" by (simp add: mock_inv_def)
  show "be_read_configuration mock_backend b = (r, b') \<Longrightarrow>
      mock_configuration b' = mock_configuration b \<and> saved_configuration b' = saved_configuration b
      \<and> (\<forall>c. r = Inr c \<longrightarrow> mock_configuration b = Some c)"
    by (auto simp: mock_backend_def mock_read_configuration_def when_connected_def ok_or_Inr split: if_splits)
  show "be_nvm_configuration mock_backend NvmStore b = (Inr (), b') \<Longrightarrow>
      saved_configuration b' = mock_configuration b'"
    by (auto simp: mock_backend_def mock_nvm_configuration_def when_connected_def Let_def split: if_splits)
next
  fix d b
  show "mock_configuration (be_sleep mock_backend d b) = mock_configuration b"
    "saved_configuration (be_sleep mock_backend d b) = saved_configuration b"
    by (simp_all add: mock_backend_def mock_pass_time_def)
qed

text \<open>The common end of the configuration commands.\<close>

lemma settle_connection:
  "connection (daemon (settle ops (r, m))) =
     (if r = Inl ConnectionLost then connection (daemon (disconnect ops SerialHangup m))
      else Ready (session m))"
  by (cases r) (auto simp: settle_def set_ready_def)

lemma settle_backend: "r \<noteq> Inl ConnectionLost \<Longrightarrow> backend (settle ops (r, m)) = backend m"
  by (cases r) (auto simp: settle_def set_ready_def)

text \<open>C1: what a client that sends a configuration learns from the reply, for every device that
  reports its active configuration truthfully. Success means the device runs exactly what the
  reply says, which is the requested configuration and, if it was to be persisted, is also
  what the non-volatile memory holds; a failure reported as rolled back means the original
  settings are active again; every error found before the first write leaves both untouched.
  The session is ready again unless the outcome is unknown.\<close>

theorem apply_configuration_reply:
  assumes "configuration_device ops good active stored" and "good (backend m)" and "ready m"
    and "active (backend m) = Some orig"
    and "handle_command ops jt interrupt (CmdApplyConfiguration configuration persist expected) m
           = (ReplyConfiguration r, m')"
  shows "(case r of
      Inr c \<Rightarrow> active (backend m') = Some c
        \<and> (if persist then stored (backend m') = Some c \<and> same_settings c configuration
           else c = configuration)
    | Inl (FailedAndRolledBack _) \<Rightarrow>
        (\<exists>c. active (backend m') = Some c \<and> same_settings c orig
          \<and> (persist \<longrightarrow> stored (backend m') = Some c \<or> stored (backend m') = stored (backend m))
          \<and> (\<not> persist \<longrightarrow> c = orig))
    | Inl OperationOutcomeUnknown \<Rightarrow> True
    | Inl (RollbackFailed _ _) \<Rightarrow> True
    | Inl _ \<Rightarrow> active (backend m') = active (backend m) \<and> stored (backend m') = stored (backend m))
    \<and> (r \<noteq> Inl OperationOutcomeUnknown \<longrightarrow> ready m')"
proof -
  let ?operation = "if persist then ''storing_configuration'' else ''applying_configuration''"
  obtain q m1 where q: "apply_configuration ops configuration persist expected (set_busy ?operation m) = (q, m1)"
    by fastforce
  have r: "r = hide_loss q" "m' = settle ops (q, m1)"
    using assms(3,5) q by (auto simp: run_mutation_def finish_configuration_mutation_def)
  have b: "backend (set_busy ?operation m) = backend m" by (simp add: set_busy_def)
  note out = configuration_device.apply_configuration_outcome [OF assms(1) _ _ q, unfolded b, OF assms(2,4)]
  show ?thesis
  proof (cases "q = Inl ConnectionLost")
    case True
    then show ?thesis using r by (simp add: hide_loss_def)
  next
    case False
    then have "r = q" "backend m' = backend m1" "ready m'"
      using r by (simp_all add: hide_loss_def settle_backend settle_connection)
    then show ?thesis
      using out False by (cases q) (auto split: device_error.splits if_splits)
  qed
qed

text \<open>Renaming the mock device and storing the new name.\<close>

definition renamed_mock :: device_configuration where
  "renamed_mock = configuration_mock\<lparr>friendly_name := ''Bench''\<rparr>"

lemma renamed_mock_ok: "configuration_ok renamed_mock"
  using configuration_mock_ok
  by (simp add: renamed_mock_def configuration_ok_def settings_ok_def settings_from_configuration_def
      is_printable_def)

definition renaming_run :: "reply \<times> mock_state manager" where
  "renaming_run = handle_command mock_backend example_json (\<lambda>_. False)
     (CmdApplyConfiguration renamed_mock True None) example_session"

lemma example_session_device:
  "fail_configuration_writes (backend example_session) = 0" "fail_nvm_operations (backend example_session) = 0"
  "\<not> change_crc_on_store (backend example_session)" "last_nvm_mutation example_session = None"
  by (simp_all add: example_session_def example_start_def spawn_manager_def handle_candidates_def
      retry_is_due_def connect_def on_backend_def mock_connect_def mock_default_def
      mock_read_telemetry_def when_connected_def Let_def connected_with_def daemon_state_default_def
      bump_and_publish_def set_connection_def drop_leases_def clear_history_cancellation_def send_event_def)

lemma renaming_reply_at:
  assumes "ready m" and "backend m = backend example_session" and "last_nvm_mutation m = None"
    and check: "check_current (session m) renamed_mock expected configuration_mock = Inr ()"
  shows "fst (handle_command mock_backend jt interrupt (CmdApplyConfiguration renamed_mock True expected) m)
    = ReplyConfiguration (Inr renamed_mock)"
proof -
  have validate: "configuration_validate renamed_mock = Inr ()"
    using renamed_mock_ok by (simp add: configuration_validate_iff)
  have same: "same_settings renamed_mock renamed_mock" by (rule same_settings_refl [OF renamed_mock_ok])
  then have eq: "configuration_eq renamed_mock renamed_mock"
    by (simp add: configuration_eq_def same_settings_def)
  show ?thesis
    by (simp add: run_mutation_def finish_configuration_mutation_def apply_configuration_def
        write_and_verify_def store_and_verify_def wait_for_nvm_mutation_slot_def sleep_def bindA_def liftA_def
        retA_def updA_def on_backend_def mock_write_configuration_def mock_read_configuration_def
        mock_nvm_configuration_def when_connected_def mock_pass_time_def ok_or_def set_busy_def
        bump_and_publish_def set_connection_def Let_def finish_apply_def hide_loss_def
        example_session_ready example_session_device assms validate same eq)
qed

lemma renaming_reply: "fst renaming_run = ReplyConfiguration (Inr renamed_mock)"
  unfolding renaming_run_def
  by (rule renaming_reply_at)
    (simp_all add: example_session_ready example_session_device check_current_def renamed_mock_def)

theorem apply_configuration_reply_witness:
  "mock_configuration (backend (snd renaming_run)) = Some renamed_mock
   \<and> saved_configuration (backend (snd renaming_run)) = Some renamed_mock \<and> ready (snd renaming_run)"
proof -
  have run: "handle_command mock_backend example_json (\<lambda>_. False)
       (CmdApplyConfiguration renamed_mock True None) example_session
     = (ReplyConfiguration (Inr renamed_mock), snd renaming_run)"
    using renaming_reply by (simp only: renaming_run_def [symmetric]) (metis prod.collapse)
  have "mock_inv (backend example_session)"
    using example_session_rest by (simp add: rest_def)
  then show ?thesis
    using apply_configuration_reply [OF mock_configuration.configuration_device_axioms _ _ _ run]
      example_session_ready(1,2) by simp
qed

end
