(* ===== verification/ManagerProps.thy ===== *)
theory ManagerProps
  imports ManagerExamples
begin

text \<open>
  What the manager promises: the properties of the states it can reach over any lawful
  backend, of its retries, leases and shutdown, and two defects of its clean-up, each shown on
  a run with the mock device.
\<close>

section \<open>Reachable states\<close>

text \<open>C2: a published connection state never lies. In every state between two branches of the
  run loop, ready and busy carry the current session, a port, an identity and telemetry are
  present, busy means exactly that a history dump is open, and in every other state the device
  is released, no lease is left and the last telemetry is marked stale; the transient states
  (connecting, disconnecting) are never left standing.\<close>

theorem manager_state_truthful:
  assumes "lawful_backend ops good" and "good b" and "world_safe good moves_on"
    and "manager_reachable ops jt moves_on (spawn_manager ops b interval) m"
  shows "case connection (daemon m) of
      Ready sid \<Rightarrow> sid = session m \<and> attached_ok m \<and> active_dump m = None
    | Busy sid operation \<Rightarrow> sid = session m \<and> attached_ok m \<and> active_dump m \<noteq> None
    | Connecting port \<Rightarrow> False
    | Disconnecting sid reason \<Rightarrow> False
    | Discovering \<Rightarrow> False
    | other \<Rightarrow> detached_ok m"
proof -
  have "rest good m"
    by (rule reachable_from_spawn [OF assms(1-4)])
  then show ?thesis by (auto simp: rest_def phase_ok_def split: connection_state.splits)
qed

theorem manager_state_truthful_witness:
  "connection (daemon example_session) = Ready 1 \<and> attached_ok example_session"
  using manager_state_truthful [OF example_run]
  by (simp add: example_session_ready)

text \<open>C23: the leases on the display are consistent in every reachable state: an open history dump
  belongs to the current session, keeps the display paused and is the one whose token a
  shutdown or an end of the dump cancels; no token stays registered without a dump; a debug
  lease or a pending clean-up means the display is paused; and a paused display belongs to an
  attached device.\<close>

theorem manager_leases_consistent:
  assumes "lawful_backend ops good" and "good b" and "world_safe good moves_on"
    and "manager_reachable ops jt moves_on (spawn_manager ops b interval) m"
  shows "(case active_dump m of
        None \<Rightarrow> history_cancellation m = None
      | Some dump \<Rightarrow> display_physically_paused m \<and> active_session dump = session m
          \<and> history_cancellation m = Some (active_id dump, active_token dump)
          \<and> active_token dump < length (tokens m))
    \<and> (debug_pause_expires_at m \<noteq> None \<or> display_resume_retry_at m \<noteq> None \<longrightarrow> display_physically_paused m)
    \<and> (display_physically_paused m \<longrightarrow> current_port m \<noteq> None)"
proof -
  have "rest good m"
    by (rule reachable_from_spawn [OF assms(1-4)])
  then show ?thesis
    by (auto simp: rest_def phase_ok_def leases_ok_def detached_ok_def attached_ok_def
        split: connection_state.splits option.splits)
qed

text \<open>C5: a subscriber sees every state: the published states are numbered 1, 2, 3, ... (modulo
  \<open>2^64\<close>) without a gap, the last one is the manager's current state, and every event names the
  number and session of a published state that shows what the event says.\<close>

theorem manager_publishes_every_state:
  assumes "lawful_backend ops good" and "good b" and "world_safe good moves_on"
    and "manager_reachable ops jt moves_on (spawn_manager ops b interval) m"
  shows "map d_sequence (published m) = map word_of_nat [1..<Suc (length (published m))]
    \<and> last (daemon_state_default # published m) = daemon m
    \<and> (\<forall>ev\<in>set (events m). \<exists>d\<in>set (published m). event_matches ev d)"
proof -
  have "rest good m"
    by (rule reachable_from_spawn [OF assms(1-4)])
  then show ?thesis by (auto simp only: rest_def log_ok_def log_pre_def)
qed

theorem manager_publishes_every_state_witness:
  "last (daemon_state_default # published example_session) = daemon example_session"
  using manager_publishes_every_state [OF example_run]
  by simp

section \<open>Retries\<close>

text \<open>C25: a device that failed to connect is retried, and not too early: in every reachable
  recovering state the manager remembers the port and a moment, ignores the device until then
  and connects to it at the first observation afterwards.\<close>

theorem recovering_device_is_retried:
  assumes "lawful_backend ops good" and "good b" and "world_safe good moves_on"
    and "manager_reachable ops jt moves_on (spawn_manager ops b interval) m"
    and "connection (daemon m) = Recovering attempt cause"
  shows "\<exists>port not_before.
      retry m = Some \<lparr>retry_port = port, retry_attempt = attempt, retry_not_before = Some not_before\<rparr>
    \<and> handle_candidates ops [port] m = (if not_before \<le> now ops m then connect ops port m else m)"
proof -
  have "rest good m"
    by (rule reachable_from_spawn [OF assms(1-4)])
  then obtain r t where r: "retry m = Some r" "retry_attempt r = attempt" "retry_not_before r = Some t"
    and p: "current_port m = None"
    using assms(5) by (auto simp: rest_def phase_ok_def detached_ok_def)
  then have "r = \<lparr>retry_port = retry_port r, retry_attempt = attempt, retry_not_before = Some t\<rparr>" by simp
  moreover have "handle_candidates ops [retry_port r] m = (if t \<le> now ops m then connect ops (retry_port r) m else m)"
    using r p by (simp add: handle_candidates_def retry_is_due_def)
  ultimately show ?thesis using r(1) by metis
qed

theorem recovering_device_is_retried_witness:
  "\<exists>port not_before. handle_candidates mock_backend [port] example_failed
     = (if not_before \<le> now mock_backend example_failed then connect mock_backend port example_failed
        else example_failed)"
  using recovering_device_is_retried [OF example_failed_run example_failed_recovering] by blast

text \<open>The wait after the \<open>n\<close>-th consecutive failure on a port doubles from 250 milliseconds
  and stops at 30 seconds.\<close>

theorem retry_delay_doubles:
  assumes "1 \<le> n" and "n < 2 ^ 32"
  shows "retry_delay (word_of_nat n) = min (ms (250 * 2 ^ (n - 1))) (ms 30000)"
proof -
  have "unat (saturating_dec (word_of_nat n :: u32)) = n - 1"
  proof -
    have "unat (word_of_nat n :: u32) = n" using assms by (simp add: unat_of_nat)
    then show ?thesis
      using assms by (auto simp: saturating_dec_def unat_sub unat_minus_one)
  qed
  moreover have "min (ms 250 * 2 ^ min k 7) (ms 30000) = min (ms (250 * 2 ^ k)) (ms 30000)" for k
  proof (cases "k \<le> 7")
    case True
    then show ?thesis by (simp add: ms_def mult.assoc)
  next
    case False
    then have "(2 :: nat) ^ 7 \<le> 2 ^ k" by (intro power_increasing) auto
    then show ?thesis using False by (simp add: ms_def min_def)
  qed
  ultimately show ?thesis by (simp add: retry_delay_def)
qed

theorem retry_delay_doubles_witness: "retry_delay 3 = ms 1000"
  using retry_delay_doubles [of 3] by (simp add: ms_def)

section \<open>Leases end\<close>

lemma no_dump_stays:
  assumes "active_dump m = None"
  shows "active_dump (disconnect ops reason m) = None" "active_dump (poll_once ops m) = None"
    "active_dump (expire_debug_pause ops m) = None" "active_dump (retry_display_resume_cleanup ops m) = None"
proof -
  have d: "active_dump (disconnect ops reason m) = None" if "active_dump m = None"
      for m :: "'a manager" and reason
    using that by (auto simp: disconnect_def Let_def split: connection_state.splits)
  have f: "active_dump (poll_failed ops m) = None" if "active_dump m = None" for m :: "'a manager"
    using that d by (auto simp: poll_failed_def Let_def)
  have b: "active_dump m' = active_dump m" if "on_backend act m = (r, m')"
      for m m' :: "'a manager" and act :: "('a, telemetry) action" and r
    using lease_step_on_backend [OF that] by (simp add: lease_step_def)
  show "active_dump (poll_once ops m) = None"
    using assms d f b
    by (auto simp: poll_once_def publish_telemetry_def Let_def split: prod.splits sum.splits device_error.splits)
  have r: "active_dump m' = None" if "resume_display_if_unowned ops m = (r, m')" "active_dump m = None"
      for m m' :: "'a manager" and r
    using resume_display_step(1) [OF that(1)] that(2) by (simp add: lease_step_def)
  show "active_dump (expire_debug_pause ops m) = None"
    using assms d r [of "m\<lparr>debug_pause_expires_at := None\<rparr>"]
    by (auto simp: expire_debug_pause_def drop_if_lost_def split: option.splits prod.splits sum.splits)
  show "active_dump (retry_display_resume_cleanup ops m) = None"
    using assms d r [of m]
    by (auto simp: retry_display_resume_cleanup_def split: option.splits prod.splits sum.splits)
  show "active_dump (disconnect ops reason m) = None" using d [OF assms] .
qed

text \<open>C32: a history dump whose client vanished does not block the device: once its lease is over,
  the next run of the timer branch closes it, whatever the device answers.\<close>

theorem expired_dump_is_closed:
  assumes "active_dump m = Some dump" and "active_expires_at dump \<le> now ops m"
  shows "wake_at m \<le> now ops m \<and> active_dump (timer_fired ops m) = None"
proof
  show "wake_at m \<le> now ops m"
    using assms by (auto simp: wake_at_def deadlines_def)
  obtain r m1 where r: "resume_display_if_unowned ops
      (clear_history_cancellation None (m\<lparr>active_dump := None\<rparr>)) = (r, m1)" by fastforce
  have "active_dump m1 = None"
    using resume_display_step(1) [OF r] by (simp add: lease_step_def clear_history_cancellation_def)
  then have "active_dump (settle ops (r, m1)) = None"
    using no_dump_stays(1) by (cases r) (auto simp: settle_def set_ready_def)
  then have "active_dump (expire_history_dump ops m) = None"
    using assms r by (simp add: expire_history_dump_def not_less)
  then show "active_dump (timer_fired ops m) = None"
    by (simp add: timer_fired_def Let_def no_dump_stays)
qed

section \<open>Shutdown\<close>

text \<open>C31: a shutdown releases the device and is final: from any reachable state the manager stops
  with the port closed, and no later message, timer or cancellation changes what it published.\<close>

theorem shutdown_is_final:
  assumes "lawful_backend ops good" and "good b" and "world_safe good moves_on"
    and "manager_reachable ops jt moves_on (spawn_manager ops b interval) m"
    and "manager_reachable ops jt moves_on ((disconnect ops Shutdown m)\<lparr>stopped := True\<rparr>) m'"
  shows "current_port m' = None \<and> (\<exists>reason. connection (daemon m') = Absent reason)
    \<and> daemon m' = daemon (disconnect ops Shutdown m) \<and> published m' = published (disconnect ops Shutdown m)
    \<and> events m' = events (disconnect ops Shutdown m)"
proof -
  have r: "rest good m" by (rule reachable_from_spawn [OF assms(1-4)])
  let ?m1 = "disconnect ops Shutdown m"
  have "stopped m' \<and> daemon m' = daemon ?m1 \<and> published m' = published ?m1 \<and> events m' = events ?m1
      \<and> current_port m' = current_port ?m1"
    using assms(5)
  proof (induction rule: manager_reachable.induct)
    case start
    then show ?case by simp
  next
    case (step m2 m3)
    from step(2) step.IH show ?case
      by (cases rule: manager_step.cases) (auto simp: cancel_history_def split: option.splits)
  qed
  moreover have "current_port ?m1 = None" "rest good ?m1"
    using lawful_backend.disconnect_rest [OF assms(1) r] by auto
  moreover have "\<exists>reason. connection (daemon ?m1) = Absent reason"
    by (auto simp: disconnect_def Let_def mark_stale_def split: connection_state.splits)
  ultimately show ?thesis by auto
qed

theorem shutdown_is_final_witness:
  "current_port ((disconnect mock_backend Shutdown example_session)\<lparr>stopped := True\<rparr>) = None"
  using shutdown_is_final [OF example_run manager_reachable.start] by blast

section \<open>Two defects of the display clean-up\<close>

text \<open>C33: a defect, stated as the code behaves. When the clean-up of a failed display resume is due
  while a history dump is open (the dump found the display still paused, so beginning it did
  not clear the pending clean-up), the timer branch changes nothing and its deadline stays in
  the past: the run loop fires it again at once, until the dump ends or the next poll is due.\<close>

theorem pending_cleanup_spins_during_dump:
  assumes "display_resume_retry_at m = Some t" and "t \<le> now ops m"
    and "active_dump m = Some dump" and "now ops m < active_expires_at dump"
    and "is_busy (connection (daemon m))" and "debug_pause_expires_at m = None" and "now ops m < next_poll m"
  shows "wake_at m \<le> now ops m \<and> timer_fired ops m = m"
proof
  show "wake_at m \<le> now ops m" using assms(1,2) by (auto simp: wake_at_def deadlines_def split: option.splits)
  have "\<not> ready m" using assms(5) by (cases "connection (daemon m)") auto
  then show "timer_fired ops m = m"
    using assms by (simp add: timer_fired_def expire_history_dump_def expire_debug_pause_def
        retry_display_resume_cleanup_def)
qed

text \<open>The run: a chunk read whose resume fails, a dump, two seconds, one timer.\<close>

definition spin_start :: "mock_state manager" where
  "spin_start = handle_candidates mock_backend [''/dev/ttyACM0'']
     (spawn_manager mock_backend (control_fail_next_display_resume ResumeTransport mock_default) (ms 1000))"

definition spin_chunk :: "mock_state manager" where
  "spin_chunk = snd (handle_command mock_backend example_json (\<lambda>_. False) (CmdReadHistoryChunk 0 1) spin_start)"

definition spin_dump :: "mock_state manager" where
  "spin_dump = snd (handle_command mock_backend example_json (\<lambda>_. False) CmdBeginHistoryDump spin_chunk)"

definition spin_state :: "mock_state manager" where
  "spin_state = timer_fired mock_backend
     (spin_dump\<lparr>backend := mock_pass_time (ms 2000) (backend spin_dump)\<rparr>)"

lemmas manager_run_simps = spawn_manager_def handle_candidates_def retry_is_due_def connect_def
  on_backend_def mock_connect_def mock_default_def mock_read_telemetry_def when_connected_def Let_def
  connected_with_def daemon_state_default_def bump_and_publish_def set_connection_def drop_leases_def
  clear_history_cancellation_def send_event_def

lemma spin_start_state:
  "connection (daemon spin_start) = Ready 1" "d_session_id (daemon spin_start) = 1"
  "connected (backend spin_start)" "mock_clock (backend spin_start) = 0"
  "next_display_resume_failure (backend spin_start) = Some ResumeTransport"
  "block_next_history_read (backend spin_start) = False"
  "\<not> display_physically_paused spin_start" "active_dump spin_start = None"
  "debug_pause_expires_at spin_start = None" "display_resume_retry_at spin_start = None"
  "next_poll spin_start = 0" "poll_interval spin_start = ms 1000" "\<not> stopped spin_start"
  by (simp_all add: spin_start_def control_fail_next_display_resume_def manager_run_simps)

lemma spin_chunk_state:
  "connection (daemon spin_chunk) = Ready 1" "d_session_id (daemon spin_chunk) = 1"
  "display_physically_paused spin_chunk" "active_dump spin_chunk = None"
  "debug_pause_expires_at spin_chunk = None" "display_resume_retry_at spin_chunk = Some (ms 1005)"
  "mock_clock (backend spin_chunk) = ms 5" "next_poll spin_chunk = 0" "poll_interval spin_chunk = ms 1000"
  "\<not> stopped spin_chunk"
  by (simp_all add: spin_chunk_def run_read_history_chunk_def paused_history_read_def spin_start_state
      ensure_display_paused_def mock_pause_history_updates_def mock_read_history_chunk_def bindA_def
      set_busy_def set_ready_def set_connection_def bump_and_publish_def Let_def on_backend_def
      when_connected_def validate_history_range_def mock_pass_time_def resume_display_if_unowned_def
      display_owned_def mock_resume_history_updates_def settle_def DISPLAY_RESUME_RETRY_DELAY_def ms_def
      MAX_CHUNK_SIZE_def FLASH_LENGTH_def)

lemma spin_dump_state:
  "connection (daemon spin_dump) = Busy 1 ''reading_device_history''"
  "active_dump spin_dump = Some \<lparr>active_id = saturating_inc (next_history_dump_id spin_chunk),
     active_session = 1, active_expires_at = ms 10005, active_token = length (tokens spin_chunk)\<rparr>"
  "debug_pause_expires_at spin_dump = None" "display_resume_retry_at spin_dump = Some (ms 1005)"
  "mock_clock (backend spin_dump) = ms 5" "next_poll spin_dump = 0" "poll_interval spin_dump = ms 1000"
  "\<not> stopped spin_dump"
  by (simp_all add: spin_dump_def run_begin_history_dump_def ensure_display_paused_def spin_chunk_state
      open_dump_def Let_def set_busy_def set_connection_def bump_and_publish_def ms_def)

lemma spin_state_facts:
  "connection (daemon spin_state) = Busy 1 ''reading_device_history''"
  "active_dump spin_state = active_dump spin_dump"
  "debug_pause_expires_at spin_state = None" "display_resume_retry_at spin_state = Some (ms 1005)"
  "mock_clock (backend spin_state) = ms 2005" "next_poll spin_state = ms 3005"
  by (simp_all add: spin_state_def timer_fired_def expire_history_dump_def expire_debug_pause_def
      retry_display_resume_cleanup_def poll_once_def spin_dump_state mock_pass_time_def Let_def ms_def)

lemma spin_state_reachable:
  "manager_reachable mock_backend example_json time_passes
     (spawn_manager mock_backend (control_fail_next_display_resume ResumeTransport mock_default) (ms 1000))
     spin_state"
  unfolding spin_state_def
proof (rule manager_reachable.step [OF _ manager_step.timer])
  have "manager_reachable mock_backend example_json time_passes
     (spawn_manager mock_backend (control_fail_next_display_resume ResumeTransport mock_default) (ms 1000))
     spin_start"
    unfolding spin_start_def
    by (rule manager_reachable.step [OF manager_reachable.start manager_step.candidates])
      (simp add: spawn_manager_def)
  then have "manager_reachable mock_backend example_json time_passes
     (spawn_manager mock_backend (control_fail_next_display_resume ResumeTransport mock_default) (ms 1000))
     spin_chunk"
    unfolding spin_chunk_def
    by (rule manager_reachable.step [OF _ manager_step.command]) (rule spin_start_state)
  then have "manager_reachable mock_backend example_json time_passes
     (spawn_manager mock_backend (control_fail_next_display_resume ResumeTransport mock_default) (ms 1000))
     spin_dump"
    unfolding spin_dump_def
    by (rule manager_reachable.step [OF _ manager_step.command]) (rule spin_chunk_state)
  then show "manager_reachable mock_backend example_json time_passes
     (spawn_manager mock_backend (control_fail_next_display_resume ResumeTransport mock_default) (ms 1000))
     (spin_dump\<lparr>backend := mock_pass_time (ms 2000) (backend spin_dump)\<rparr>)"
    by (rule manager_reachable.step [OF _ manager_step.world]) (auto simp: time_passes_def)
qed (simp_all add: spin_dump_state wake_at_def deadlines_def)

theorem pending_cleanup_spins_during_dump_witness:
  "manager_reachable mock_backend example_json time_passes
     (spawn_manager mock_backend (control_fail_next_display_resume ResumeTransport mock_default) (ms 1000))
     spin_state
   \<and> wake_at spin_state \<le> now mock_backend spin_state \<and> timer_fired mock_backend spin_state = spin_state"
  using pending_cleanup_spins_during_dump [of spin_state "ms 1005" mock_backend] spin_state_reachable
  by (simp add: spin_state_facts spin_dump_state ms_def)

theorem manager_leases_consistent_witness:
  "display_physically_paused spin_state \<and> current_port spin_state \<noteq> None
   \<and> history_cancellation spin_state
       = Some (saturating_inc (next_history_dump_id spin_chunk), length (tokens spin_chunk))"
proof -
  have good: "mock_inv (control_fail_next_display_resume ResumeTransport mock_default)"
    using mock_default_inv by (simp add: mock_inv_def control_fail_next_display_resume_def)
  show ?thesis
    using manager_leases_consistent [OF mock.lawful_backend_axioms good time_passes_safe spin_state_reachable]
    by (simp add: spin_state_facts spin_dump_state)
qed

text \<open>The run: a chunk read whose range is refused and whose resume loses the connection.\<close>

definition strand_start :: "mock_state manager" where
  "strand_start = handle_candidates mock_backend [''/dev/ttyACM0'']
     (spawn_manager mock_backend (control_fail_next_display_resume ResumeDisconnect mock_default) (ms 1000))"

definition strand_state :: "mock_state manager" where
  "strand_state = snd (handle_command mock_backend example_json (\<lambda>_. False)
     (CmdReadHistoryChunk FLASH_LENGTH 1) strand_start)"

lemma strand_start_state:
  "connection (daemon strand_start) = Ready 1" "d_session_id (daemon strand_start) = 1"
  "connected (backend strand_start)" "next_display_resume_failure (backend strand_start) = Some ResumeDisconnect"
  "\<not> display_physically_paused strand_start" "active_dump strand_start = None"
  "debug_pause_expires_at strand_start = None" "display_resume_retry_at strand_start = None"
  "\<not> stopped strand_start"
  by (simp_all add: strand_start_def control_fail_next_display_resume_def manager_run_simps)

lemma strand_device:
  "\<exists>b1 b2 b3. mock_pause_history_updates (backend strand_start) = (Inr (), b1)
     \<and> mock_read_history_chunk FLASH_LENGTH 1 (\<lambda>_. False) b1
         = (Inl (InvalidArgument ''history range is outside the device log region''), b2)
     \<and> mock_resume_history_updates b2 = (Inl ConnectionLost, b3)
     \<and> fst (mock_read_telemetry b3) = Inl ConnectionLost"
  by (simp add: strand_start_state(3,4) mock_pause_history_updates_def mock_read_history_chunk_def
      when_connected_def validate_history_range_def failIf_def MAX_CHUNK_SIZE_def FLASH_LENGTH_def
      mock_resume_history_updates_def mock_read_telemetry_def)

text \<open>C35: a defect, stated as the code behaves. On any device, when a single chunk read pauses the display,
  the read fails with an error that is not a lost connection and the resume after it reports
  that the connection is lost, the client is told the read's error only: the session stays
  ready, the display stays paused with no lease that owns it, and no clean-up is scheduled.\<close>

theorem lost_resume_strands_display:
  assumes "ready m" and "\<not> display_owned m" and "\<not> display_physically_paused m"
    and "be_pause_history_updates ops (backend m) = (Inr (), b1)"
    and "be_read_history_chunk ops off len (\<lambda>_. False) b1 = (Inl e, b2)" and "e \<noteq> ConnectionLost"
    and "be_resume_history_updates ops b2 = (Inl ConnectionLost, b3)"
    and "handle_command ops jt interrupt (CmdReadHistoryChunk off len) m = (r, m')"
  shows "r = ReplyBytes (Inl e) \<and> ready m' \<and> d_session_id (daemon m') = d_session_id (daemon m)
    \<and> backend m' = b3 \<and> display_physically_paused m' \<and> \<not> display_owned m'
    \<and> display_resume_retry_at m' = None"
  using assms
  by (auto simp: run_read_history_chunk_def paused_history_read_def ensure_display_paused_def
      resume_display_if_unowned_def display_owned_def on_backend_def bindA_def updA_def settle_def
      set_busy_def set_ready_def set_connection_def bump_and_publish_def Let_def)

theorem lost_resume_strands_display_witness:
  "\<exists>m. manager_reachable mock_backend example_json time_passes
        (spawn_manager mock_backend (control_fail_next_display_resume ResumeDisconnect mock_default) (ms 1000)) m
     \<and> ready m \<and> display_physically_paused m \<and> \<not> display_owned m \<and> display_resume_retry_at m = None
     \<and> fst (mock_read_telemetry (backend m)) = Inl ConnectionLost"
proof (rule exI [of _ strand_state])
  let ?start = "spawn_manager mock_backend (control_fail_next_display_resume ResumeDisconnect mock_default) (ms 1000)"
  have "manager_reachable mock_backend example_json time_passes ?start strand_start"
    unfolding strand_start_def
    by (rule manager_reachable.step [OF manager_reachable.start manager_step.candidates])
      (simp add: spawn_manager_def)
  then have reach: "manager_reachable mock_backend example_json time_passes ?start strand_state"
    unfolding strand_state_def
    by (rule manager_reachable.step [OF _ manager_step.command]) (rule strand_start_state)
  obtain b1 b2 b3 where b: "be_pause_history_updates mock_backend (backend strand_start) = (Inr (), b1)"
    "be_read_history_chunk mock_backend FLASH_LENGTH 1 (\<lambda>_. False) b1
       = (Inl (InvalidArgument ''history range is outside the device log region''), b2)"
    "be_resume_history_updates mock_backend b2 = (Inl ConnectionLost, b3)"
    "fst (mock_read_telemetry b3) = Inl ConnectionLost"
    using strand_device by auto
  obtain r where "handle_command mock_backend example_json (\<lambda>_. False) (CmdReadHistoryChunk FLASH_LENGTH 1) strand_start
      = (r, strand_state)"
    unfolding strand_state_def by (metis prod.collapse)
  from lost_resume_strands_display [OF _ _ _ b(1,2) _ b(3) this] reach b(4)
  show "manager_reachable mock_backend example_json time_passes ?start strand_state
     \<and> ready strand_state \<and> display_physically_paused strand_state \<and> \<not> display_owned strand_state
     \<and> display_resume_retry_at strand_state = None
     \<and> fst (mock_read_telemetry (backend strand_state)) = Inl ConnectionLost"
    by (auto simp: strand_start_state display_owned_def)
qed

section \<open>Spacing of non-volatile writes\<close>

text \<open>Before it lets a store or a reset of the non-volatile memory through, the manager waits until
  a second has passed since the last one, if sleeping takes at least the time asked for.\<close>

theorem nvm_mutations_are_spaced:
  assumes "\<And>d b. be_now ops b + d \<le> be_now ops (be_sleep ops d b)"
    and "last_nvm_mutation m = Some t" and "t \<le> now ops m"
  shows "t + ms 1000 \<le> now ops (wait_for_nvm_mutation_slot ops m)
    \<and> last_nvm_mutation (wait_for_nvm_mutation_slot ops m) = Some (now ops (wait_for_nvm_mutation_slot ops m))"
proof -
  have "t + ms 1000 \<le> be_now ops (be_sleep ops (ms 1000 - (now ops m - t)) (backend m))"
    using assms(1) [of "backend m" "ms 1000 - (now ops m - t)"] assms(3) by linarith
  then show ?thesis
    using assms(2,3) by (auto simp: wait_for_nvm_mutation_slot_def Let_def MIN_NVM_MUTATION_INTERVAL_def)
qed

theorem nvm_mutations_are_spaced_witness:
  "5 + ms 1000 \<le> now mock_backend (wait_for_nvm_mutation_slot mock_backend
     (example_session\<lparr>last_nvm_mutation := Some 5, backend := mock_pass_time 7 (backend example_session)\<rparr>))"
  using nvm_mutations_are_spaced [of mock_backend
      "example_session\<lparr>last_nvm_mutation := Some 5, backend := mock_pass_time 7 (backend example_session)\<rparr>" 5]
  by (simp add: mock_pass_time_def)

section \<open>Device information\<close>

text \<open>The \<open>expect\<close> in the device information handler never fails: over a lawful backend whose own
  read does not panic, the handler answers without a panic in every reachable state.\<close>

theorem device_info_never_panics:
  assumes "lawful_backend ops good" and "good b" and "world_safe good moves_on"
    and "manager_reachable ops jt moves_on (spawn_manager ops b interval) m"
    and "\<And>s. good s \<Longrightarrow> panic_free (fst (be_read_build_information ops s))"
  shows "\<exists>r. fst (handle_command ops jt interrupt CmdReadDeviceInfo m) = ReplyIdentity r \<and> panic_free r"
proof -
  have rest: "rest good m" by (rule reachable_from_spawn [OF assms(1-4)])
  have "\<exists>r. fst (run_read_device_info ops m) = ReplyIdentity r"
    by (simp add: run_read_device_info_def Let_def split: prod.split sum.split option.split)
  then obtain r where r: "fst (run_read_device_info ops m) = ReplyIdentity r" ..
  have "panic_free r"
  proof (cases r)
    case (Inl e)
    then have "e = NotConnected \<or> (\<exists>s. good s \<and> fst (be_read_build_information ops s) = Inl e)"
      using lawful_backend.run_read_device_info_rest(2) [OF assms(1) rest, of e] r by simp
    then show ?thesis using assms(5) Inl by (auto simp: panic_free_Inl) (metis panic_free_Inl)
  qed simp
  then show ?thesis using r by simp
qed

theorem device_info_never_panics_witness:
  "\<exists>r. fst (handle_command mock_backend example_json (\<lambda>_. False) CmdReadDeviceInfo example_session)
     = ReplyIdentity r \<and> panic_free r"
  by (rule device_info_never_panics [OF example_run])
    (simp add: mock_read_build_information_def when_connected_def panic_free_Inl)

section \<open>An abandoned dump\<close>

definition abandoned_dump :: "mock_state manager" where
  "abandoned_dump = spin_dump\<lparr>backend := mock_pass_time (ms 11000) (backend spin_dump)\<rparr>"

theorem expired_dump_is_closed_witness:
  "active_dump abandoned_dump \<noteq> None \<and> active_dump (timer_fired mock_backend abandoned_dump) = None"
proof -
  have dump: "active_dump abandoned_dump = Some \<lparr>active_id = saturating_inc (next_history_dump_id spin_chunk),
     active_session = 1, active_expires_at = ms 10005, active_token = length (tokens spin_chunk)\<rparr>"
    by (simp add: abandoned_dump_def spin_dump_state)
  show ?thesis
    using expired_dump_is_closed [OF dump, of mock_backend]
    by (simp add: abandoned_dump_def spin_dump_state mock_pass_time_def ms_def)
qed

end
