(* ===== verification/Spi.thy ===== *)
theory Spi
  imports Backend Protocol
begin

text \<open>
  The SPI flash routines of \<open>src/backend.rs\<close> over a \<open>SerialIo\<close> port: page reads with retries,
  sector erase, page writes, and the theme-asset transaction with its backup, verification
  and rollback. The locale \<open>flash_port\<close> states what a port to a flash device promises;
  in it the transaction is shown to commit exactly the requested bytes or to report that
  it did not.
\<close>

section \<open>Constants and frames\<close>

definition SPI_READ_ATTEMPTS :: nat where "SPI_READ_ATTEMPTS = 3"
definition SPI_READ_TIMEOUT_MS :: nat where "SPI_READ_TIMEOUT_MS = 2000"
definition SPI_READ_RETRY_DELAY_MS :: nat where "SPI_READ_RETRY_DELAY_MS = 10"
definition SPI_FLASH_SIZE :: u32 where "SPI_FLASH_SIZE = 0x01000000"
definition SPI_SECTOR_SIZE :: u32 where "SPI_SECTOR_SIZE = 4096"
definition SPI_WRITE_PAGE_SIZE :: nat where "SPI_WRITE_PAGE_SIZE = 256"

definition u32_try_from :: "nat \<Rightarrow> u32 option" where
  "u32_try_from n = (if n < 2 ^ 32 then Some (word_of_nat n) else None)"

lemma u32_try_from_Some: "u32_try_from n = Some w \<longleftrightarrow> n < 2 ^ 32 \<and> w = word_of_nat n"
  by (auto simp: u32_try_from_def)

text \<open>\<open>usize::try_from\<close> on a 32-bit value, where \<open>usize\<close> has 64 bits.\<close>

definition usize_try_from :: "u32 \<Rightarrow> nat option" where
  "usize_try_from w = (if unat w < 2 ^ 64 then Some (unat w) else None)"

lemma usize_try_from_u32 [simp]: "usize_try_from w = Some (unat w)"
  using unsigned_less [of w, where ?'a = nat] by (simp add: usize_try_from_def)

definition show_address :: "u32 \<Rightarrow> string" where
  "show_address address = ''0x'' @ hex_digits hex_lower 8 (unat address)"

text \<open>The nine-byte header: command, address and length, little endian.\<close>

definition spi_command :: "usb_command \<Rightarrow> u32 \<Rightarrow> u32 \<Rightarrow> u8 list" where
  "spi_command command address len =
     (let frame = (replicate 9 0)[0 := usb_command_byte command];
          frame = write_at 1 (u32_to_le address) frame
      in write_at 5 (u32_to_le len) frame)"

text \<open>\<open>clear_input\<close>, \<open>write_all\<close> of each buffer, \<open>flush\<close>.\<close>

definition send_frame :: "'p serial_io \<Rightarrow> u8 list \<Rightarrow> ('p, unit) action" where
  "send_frame io frame =
     bindA (io_clear_input io) (\<lambda>_. bindA (io_write_all io frame) (\<lambda>_. io_flush io))"

section \<open>Reading\<close>

text \<open>The loop over \<open>1..=SPI_READ_ATTEMPTS\<close>; the empty list is the \<open>unreachable!\<close> after it.\<close>

fun read_spi_attempts ::
  "'p serial_io \<Rightarrow> u32 \<Rightarrow> u8 list \<Rightarrow> nat \<Rightarrow> ('p \<Rightarrow> bool) \<Rightarrow> nat list \<Rightarrow> ('p, u8 list) action" where
  "read_spi_attempts io address command len cancelled [] p =
     (Inl (Panicked ''SPI read attempt loop always returns''), p)"
| "read_spi_attempts io address command len cancelled (attempt # rest) p =
    (if cancelled p then (Inl OperationCancelled, p)
     else bindA (send_frame io command) (\<lambda>_ p.
       case io_read_exact io len SPI_READ_TIMEOUT_MS p of
         (ReadDone bytes, p') \<Rightarrow> (Inr (fit len bytes), p')
       | (ReadFailed e, p') \<Rightarrow> (Inl e, p')
       | (ReadTimedOut, p') \<Rightarrow>
           if cancelled p' then (Inl OperationCancelled, p')
           else if attempt < SPI_READ_ATTEMPTS then
             (let p'' = io_sleep io (ms SPI_READ_RETRY_DELAY_MS) p'
              in if cancelled p'' then (Inl OperationCancelled, p'')
                 else read_spi_attempts io address command len cancelled rest p'')
           else (Inl (Transport (''SPI flash read at '' @ show_address address @ '' timed out after ''
                   @ show_nat SPI_READ_ATTEMPTS @ '' attempts'')), p')) p)"

text \<open>The destination slice is given by its length; its new bytes are the result.\<close>

definition read_spi_page ::
  "'p serial_io \<Rightarrow> u32 \<Rightarrow> nat \<Rightarrow> ('p \<Rightarrow> bool) \<Rightarrow> ('p, u8 list) action" where
  "read_spi_page io address len cancelled =
     bindA (liftA (expect ''SPI page length fits u32'' (u32_try_from len))) (\<lambda>length_word.
       read_spi_attempts io address (spi_command SpiFlashReadPage address length_word) len cancelled
         [1..<Suc SPI_READ_ATTEMPTS])"

text \<open>The slice \<open>&mut bytes[read..read + page_length]\<close> is taken before the page is read into it.\<close>

function read_spi_loop ::
  "'p serial_io \<Rightarrow> u32 \<Rightarrow> nat \<Rightarrow> ('p \<Rightarrow> bool) \<Rightarrow> nat \<Rightarrow> u8 list \<Rightarrow> ('p, u8 list) action" where
  "read_spi_loop io address len cancelled read bytes =
    (if \<not> read < len then retA bytes
     else (let page_length = min (len - read) FLASH_READ_PAGE_SIZE in
       case u32_try_from read of
         None \<Rightarrow> failA (InvalidArgument ''SPI flash offset is too large'')
       | Some off \<Rightarrow> (case checked_add address off of
           None \<Rightarrow> failA (InvalidArgument ''SPI flash address overflowed'')
         | Some page_address \<Rightarrow>
             bindA (liftA (sub_slice read (read + page_length) bytes)) (\<lambda>destination.
             bindA (read_spi_page io page_address (length destination) cancelled) (\<lambda>page.
               read_spi_loop io address len cancelled (read + page_length)
                 (write_at read page bytes))))))"
  by pat_completeness auto
termination
  by (relation "measure (\<lambda>(_, _, len, _, read, _). len - read)")
    (auto simp: FLASH_READ_PAGE_SIZE_def)

declare read_spi_loop.simps [simp del]

definition read_spi_bytes ::
  "'p serial_io \<Rightarrow> u32 \<Rightarrow> nat \<Rightarrow> ('p \<Rightarrow> bool) \<Rightarrow> ('p, u8 list) action" where
  "read_spi_bytes io address len cancelled p =
     (if cancelled p then (Inl OperationCancelled, p)
      else read_spi_loop io address len cancelled 0 (replicate len 0) p)"

text \<open>\<open>ReadCancellation::default()\<close> that nobody else holds.\<close>

definition never_cancelled :: "'p \<Rightarrow> bool" where
  "never_cancelled p = False"

section \<open>Erasing and writing\<close>

definition read_spi_status :: "'p serial_io \<Rightarrow> nat \<Rightarrow> string \<Rightarrow> ('p, unit) action" where
  "read_spi_status io timeout operation =
     bindA (read_within io 1 timeout (operation @ '' acknowledgement timed out'')) (\<lambda>status.
     bindA (liftA (idx status 0)) (\<lambda>code.
       if code \<noteq> 1
       then failA (Transport (operation @ '' returned status '' @ show_nat (unat code)))
       else retA ()))"

definition erase_spi_sectors :: "'p serial_io \<Rightarrow> u32 \<Rightarrow> u32 \<Rightarrow> ('p, unit) action" where
  "erase_spi_sectors io address len =
    (if len = 0 \<or> address mod SPI_SECTOR_SIZE \<noteq> 0 \<or> len mod SPI_SECTOR_SIZE \<noteq> 0 then
       failA (InvalidArgument ''SPI erase range must contain complete aligned sectors'')
     else (case checked_add address len of
         None \<Rightarrow> failA (InvalidArgument ''SPI erase range overflowed'')
       | Some range_end \<Rightarrow>
           if SPI_FLASH_SIZE < range_end
           then failA (InvalidArgument ''SPI erase range exceeds flash size'')
           else bindA (send_frame io (spi_command SpiFlashEraseSector address len)) (\<lambda>_.
             read_spi_status io (unat (len div SPI_SECTOR_SIZE) * 100 + 1000)
               (''SPI erase at '' @ show_address address))))"

definition write_spi_page :: "'p serial_io \<Rightarrow> u32 \<Rightarrow> u8 list \<Rightarrow> ('p, unit) action" where
  "write_spi_page io address page =
    (if page = [] \<or> SPI_WRITE_PAGE_SIZE < length page then
       failA (InvalidArgument (''SPI page write must contain 1..='' @ show_nat SPI_WRITE_PAGE_SIZE
         @ '' bytes''))
     else
     bindA (liftA (expect ''SPI page length fits u32'' (u32_try_from (length page)))) (\<lambda>length_word.
     bindA (liftA (expect ''page offset fits usize'' (usize_try_from (address AND 0xff)))) (\<lambda>page_offset.
     if SPI_WRITE_PAGE_SIZE < page_offset + length page then
       failA (InvalidArgument ''SPI page write crosses a page boundary'')
     else if (case checked_add address length_word of
                None \<Rightarrow> True | Some page_end \<Rightarrow> SPI_FLASH_SIZE < page_end) then
       failA (InvalidArgument ''SPI page write exceeds flash size'')
     else
       bindA (io_clear_input io) (\<lambda>_.
       bindA (io_write_all io (spi_command SpiFlashWritePage address length_word)) (\<lambda>_.
       bindA (io_write_all io page) (\<lambda>_.
       bindA (io_flush io) (\<lambda>_.
         read_spi_status io SPI_READ_TIMEOUT_MS (''SPI page write at '' @ show_address address))))))))"

text \<open>\<open>chunks_exact\<close>, with the index the loop enumerates.\<close>

fun write_spi_chunks :: "'p serial_io \<Rightarrow> u32 \<Rightarrow> nat \<Rightarrow> u8 list list \<Rightarrow> ('p, unit) action" where
  "write_spi_chunks io address index [] = retA ()"
| "write_spi_chunks io address index (page # rest) =
     (if length page < SPI_WRITE_PAGE_SIZE then retA ()
      else (case u32_try_from (index * SPI_WRITE_PAGE_SIZE) of
          None \<Rightarrow> failA (InvalidArgument ''SPI write offset is too large'')
        | Some off \<Rightarrow> (case checked_add address off of
            None \<Rightarrow> failA (InvalidArgument ''SPI write address overflowed'')
          | Some page_address \<Rightarrow>
              bindA (write_spi_page io page_address page) (\<lambda>_.
                write_spi_chunks io address (index + 1) rest))))"

definition write_spi_pages :: "'p serial_io \<Rightarrow> u32 \<Rightarrow> u8 list \<Rightarrow> ('p, unit) action" where
  "write_spi_pages io address bytes =
     write_spi_chunks io address 0 (chunks SPI_WRITE_PAGE_SIZE bytes)"

definition restore_spi_range :: "'p serial_io \<Rightarrow> u32 \<Rightarrow> u8 list \<Rightarrow> ('p, unit) action" where
  "restore_spi_range io address backup =
     (case u32_try_from (length backup) of
        None \<Rightarrow> failA (InvalidArgument ''SPI backup is too large'')
      | Some len \<Rightarrow>
          bindA (erase_spi_sectors io address len) (\<lambda>_.
          bindA (write_spi_pages io address backup) (\<lambda>_.
          bindA (read_spi_bytes io address (length backup) never_cancelled) (\<lambda>restored.
            if restored \<noteq> backup
            then failA (VerificationFailed
              ''theme rollback readback did not match the sector backup'')
            else retA ()))))"

section \<open>The theme asset transaction\<close>

text \<open>The mutation: erase, write and verify the sectors.\<close>

definition theme_operation ::
  "'p serial_io \<Rightarrow> u32 \<Rightarrow> u32 \<Rightarrow> nat \<Rightarrow> u8 list \<Rightarrow> ('p, unit) action" where
  "theme_operation io sector_start erase_length sector_length requested =
     bindA (erase_spi_sectors io sector_start erase_length) (\<lambda>_.
     bindA (write_spi_pages io sector_start requested) (\<lambda>_.
     bindA (read_spi_bytes io sector_start sector_length never_cancelled) (\<lambda>verified.
       if verified \<noteq> requested
       then failA (VerificationFailed
         ''theme asset sector readback did not match the requested bytes'')
       else retA ())))"

text \<open>The outcome of the mutation, with the rollback of a failure other than a lost connection.\<close>

definition finish_theme_operation ::
  "'p serial_io \<Rightarrow> u32 \<Rightarrow> u8 list \<Rightarrow> unit result \<Rightarrow> ('p, unit) action" where
  "finish_theme_operation io sector_start backup operation p =
     (case operation of
        Inr _ \<Rightarrow> (Inr (), p)
      | Inl operation_error \<Rightarrow>
          if operation_error = ConnectionLost then (Inl operation_error, p)
          else (case restore_spi_range io sector_start backup p of
              (Inr _, p') \<Rightarrow> (Inl (FailedAndRolledBack (device_error_to_string operation_error)), p')
            | (Inl rollback_error, p') \<Rightarrow>
                (if rollback_error = ConnectionLost then (Inl ConnectionLost, p')
                 else (Inl (RollbackFailed (device_error_to_string operation_error)
                              (device_error_to_string rollback_error)), p'))))"

text \<open>
  The \<open>expect\<close> on the erase length is the first thing the mutation block evaluates; a panic
  there leaves the function without a rollback, so it is taken before the block.
\<close>

definition write_theme_asset_transaction ::
  "'p serial_io \<Rightarrow> theme_asset_slot \<Rightarrow> u8 list \<Rightarrow> ('p, unit) action" where
  "write_theme_asset_transaction io slot bytes =
    (if length bytes \<noteq> slot_byte_len slot then failA (theme_size_error slot)
     else
      (let asset_start = slot_address slot;
           sector_start = asset_start div SPI_SECTOR_SIZE * SPI_SECTOR_SIZE in
       bindA (liftA (expect ''theme asset length fits u32'' (u32_try_from (length bytes)))) (\<lambda>asset_length.
       bindA (liftA (ok_or (InvalidArgument ''theme asset range overflowed'')
                (checked_add asset_start asset_length))) (\<lambda>asset_end.
       bindA (liftA (ok_or (InvalidArgument ''theme sector range overflowed'')
                (checked_add asset_end (SPI_SECTOR_SIZE - 1)))) (\<lambda>rounded.
       (let sector_end = rounded div SPI_SECTOR_SIZE * SPI_SECTOR_SIZE in
       bindA (liftA (expect ''theme sector range fits usize''
                (usize_try_from (sector_end - sector_start)))) (\<lambda>sector_length.
       bindA (map_err (\<lambda>e. if e = ConnectionLost then ConnectionLostBeforeMutation else e)
                (read_spi_bytes io sector_start sector_length never_cancelled)) (\<lambda>backup.
       bindA (liftA (expect ''asset sector offset fits usize''
                (usize_try_from (asset_start - sector_start)))) (\<lambda>asset_offset.
       bindA (liftA (copy_at asset_offset bytes backup)) (\<lambda>requested.
       bindA (liftA (expect ''theme sector length fits u32'' (u32_try_from sector_length))) (\<lambda>erase_length p.
         case theme_operation io sector_start erase_length sector_length requested p of
           (operation, p') \<Rightarrow> finish_theme_operation io sector_start backup operation p')))))))))))"

section \<open>Every access is in range\<close>

text \<open>What the checked operations are where the code uses them.\<close>

lemma read_spi_page_in_range:
  "n < 2 ^ 32 \<Longrightarrow> read_spi_page io a n c =
     read_spi_attempts io a (spi_command SpiFlashReadPage a (word_of_nat n)) n c [1..<Suc SPI_READ_ATTEMPTS]"
  by (rule ext) (simp add: read_spi_page_def u32_try_from_def del: upt_Suc)

lemma read_spi_loop_in_range:
  assumes "read < len" and "length bytes = len"
  shows "read_spi_loop io a len c read bytes =
    (let page_length = min (len - read) FLASH_READ_PAGE_SIZE in
     case u32_try_from read of
       None \<Rightarrow> failA (InvalidArgument ''SPI flash offset is too large'')
     | Some off \<Rightarrow> (case checked_add a off of
         None \<Rightarrow> failA (InvalidArgument ''SPI flash address overflowed'')
       | Some page_address \<Rightarrow>
           bindA (read_spi_page io page_address page_length c) (\<lambda>page.
             read_spi_loop io a len c (read + page_length) (write_at read page bytes))))"
proof -
  have "sub_slice read (read + min (len - read) FLASH_READ_PAGE_SIZE) bytes
      = Inr (slice read (read + min (len - read) FLASH_READ_PAGE_SIZE) bytes)"
    using assms by (intro checked_in_range) simp_all
  moreover have "length (slice read (read + min (len - read) FLASH_READ_PAGE_SIZE) bytes)
      = min (len - read) FLASH_READ_PAGE_SIZE"
    using assms by simp
  ultimately show ?thesis
    using assms(1) by (subst read_spi_loop.simps) (simp add: Let_def fun_eq_iff split: option.split)
qed

lemma write_spi_page_in_range:
  assumes "page \<noteq> []" "length page \<le> SPI_WRITE_PAGE_SIZE"
  shows "write_spi_page io a page =
    (if SPI_WRITE_PAGE_SIZE < unat (a AND 0xff) + length page then
       failA (InvalidArgument ''SPI page write crosses a page boundary'')
     else if (case checked_add a (word_of_nat (length page)) of
                None \<Rightarrow> True | Some page_end \<Rightarrow> SPI_FLASH_SIZE < page_end) then
       failA (InvalidArgument ''SPI page write exceeds flash size'')
     else
       bindA (io_clear_input io) (\<lambda>_.
       bindA (io_write_all io (spi_command SpiFlashWritePage a (word_of_nat (length page)))) (\<lambda>_.
       bindA (io_write_all io page) (\<lambda>_.
       bindA (io_flush io) (\<lambda>_.
         read_spi_status io SPI_READ_TIMEOUT_MS (''SPI page write at '' @ show_address a))))))"
proof -
  have "u32_try_from (length page) = Some (word_of_nat (length page))"
    using assms(2) by (simp add: u32_try_from_def SPI_WRITE_PAGE_SIZE_def)
  then show ?thesis
    using assms unfolding write_spi_page_def by (simp add: fun_eq_iff)
qed

lemma read_within_length: "read_within io n d m p = (Inr bytes, p') \<Longrightarrow> length bytes = n"
  by (auto simp: read_within_def split: prod.splits read_outcome.splits)

lemma read_spi_status_in_range:
  "read_spi_status io timeout operation =
     bindA (read_within io 1 timeout (operation @ '' acknowledgement timed out'')) (\<lambda>status.
       if status ! 0 \<noteq> 1
       then failA (Transport (operation @ '' returned status '' @ show_nat (unat (status ! 0))))
       else retA ())"
proof
  fix p
  obtain r p' where r: "read_within io 1 timeout (operation @ '' acknowledgement timed out'') p = (r, p')"
    by fastforce
  then show "read_spi_status io timeout operation p =
     bindA (read_within io 1 timeout (operation @ '' acknowledgement timed out'')) (\<lambda>status.
       if status ! 0 \<noteq> 1
       then failA (Transport (operation @ '' returned status '' @ show_nat (unat (status ! 0))))
       else retA ()) p"
    unfolding read_spi_status_def
    by (cases r) (auto simp: bindA_def idx_def dest: read_within_length)
qed

lemma read_spi_attempts_length:
  "read_spi_attempts io a command n c attempts p = (Inr bytes, p') \<Longrightarrow> length bytes = n"
  by (induction attempts arbitrary: p)
    (auto simp: bindA_def Let_def split: if_splits prod.splits sum.splits read_outcome.splits)

lemma read_spi_loop_length:
  "read_spi_loop io a len c read buf p = (Inr bytes, p') \<Longrightarrow> length buf = len \<Longrightarrow> length bytes = len"
proof (induction "len - read" arbitrary: read buf p rule: less_induct)
  case less
  show ?case
  proof (cases "read < len")
    case False
    then show ?thesis using less.prems by (simp add: read_spi_loop.simps)
  next
    case True
    define m where "m = min (len - read) FLASH_READ_PAGE_SIZE"
    have m: "0 < m" "read + m \<le> len" using True by (auto simp: m_def FLASH_READ_PAGE_SIZE_def)
    from less.prems True obtain pa page p1 where
      page: "read_spi_page io pa m c p = (Inr page, p1)" and
      rest: "read_spi_loop io a len c (read + m) (write_at read page buf) p1 = (Inr bytes, p')"
      by (auto simp: read_spi_loop_in_range Let_def m_def [symmetric] bindA_Inr
          split: option.splits)
    have dec: "len - (read + m) < len - read" using m by linarith
    have "m < 2 ^ 32" by (simp add: m_def FLASH_READ_PAGE_SIZE_def min_def)
    then have "length page = m" using read_spi_attempts_length page by (auto simp: read_spi_page_in_range simp del: upt_Suc)
    then have "length (write_at read page buf) = len" using less.prems(2) m by simp
    from less.hyps [OF dec rest this] show ?thesis .
  qed
qed

lemma read_spi_bytes_length:
  "read_spi_bytes io a len c p = (Inr bytes, p') \<Longrightarrow> length bytes = len"
  using read_spi_loop_length by (fastforce simp: read_spi_bytes_def split: if_splits)

section \<open>What a flash port promises\<close>

text \<open>
  The world \<open>p'\<close> is good and differs from \<open>p\<close> only in flash bytes of \<open>S\<close>, and commands in
  flight can only still change bytes of \<open>S\<close>.
\<close>

definition stays ::
  "('p \<Rightarrow> nat \<Rightarrow> u8) \<Rightarrow> ('p \<Rightarrow> nat set) \<Rightarrow> ('p \<Rightarrow> bool) \<Rightarrow> nat set \<Rightarrow> 'p \<Rightarrow> 'p \<Rightarrow> bool" where
  "stays flash scope good S p p' \<longleftrightarrow>
     good p' \<and> scope p' \<subseteq> S \<and> (\<forall>a. a \<notin> S \<longrightarrow> flash p' a = flash p a)"

definition span :: "nat \<Rightarrow> nat \<Rightarrow> nat set" where
  "span a n = {a..<a + n}"

lemma span_simps [simp]: "x \<in> span a n \<longleftrightarrow> a \<le> x \<and> x < a + n"
  by (simp add: span_def)

lemma span_subset: "a \<le> b \<Longrightarrow> b + m \<le> a + n \<Longrightarrow> span b m \<subseteq> span a n"
  by (auto simp: span_def)

definition window :: "(nat \<Rightarrow> 'a) \<Rightarrow> nat \<Rightarrow> nat \<Rightarrow> 'a list" where
  "window f a n = map f [a..<a + n]"

lemma window_simps [simp]: "length (window f a n) = n" "i < n \<Longrightarrow> window f a n ! i = f (a + i)"
  by (simp_all add: window_def)

lemma window_cong: "(\<And>x. a \<le> x \<Longrightarrow> x < a + n \<Longrightarrow> f x = g x) \<Longrightarrow> window f a n = window g a n"
  by (simp add: window_def)

text \<open>
  A port to a device with SPI flash: \<open>flash\<close> is its content, \<open>scope\<close> the addresses that
  commands already sent may still change, \<open>read_request\<close> and \<open>write_request\<close> the command the
  device is about to answer or whose data it expects. The device executes commands in
  order, so a completed page read shows the content and leaves nothing in flight. (A page of
  nine bytes, which the code never writes, could not be told from a header.)
\<close>

locale flash_port =
  fixes io :: "'p serial_io"
    and flash :: "'p \<Rightarrow> nat \<Rightarrow> u8" and scope :: "'p \<Rightarrow> nat set" and good :: "'p \<Rightarrow> bool"
    and read_request :: "'p \<Rightarrow> (nat \<times> nat) option" and write_request :: "'p \<Rightarrow> (nat \<times> nat) option"
  assumes clear_stays: "good p \<Longrightarrow> io_clear_input io p = (r, p') \<Longrightarrow>
      stays flash scope good (scope p) p p'"
    and read_header: "good p \<Longrightarrow> io_write_all io (spi_command SpiFlashReadPage a n) p = (r, p') \<Longrightarrow>
      stays flash scope good (scope p) p p'
      \<and> (r = Inr () \<longrightarrow> read_request p' = Some (unat a, unat n))"
    and erase_header: "good p \<Longrightarrow> io_write_all io (spi_command SpiFlashEraseSector a n) p = (r, p') \<Longrightarrow>
      stays flash scope good (scope p \<union> span (unat a) (unat n)) p p'"
    and write_header: "good p \<Longrightarrow> unat n \<noteq> 9 \<Longrightarrow> io_write_all io (spi_command SpiFlashWritePage a n) p = (r, p') \<Longrightarrow>
      stays flash scope good (scope p \<union> span (unat a) (unat n)) p p'
      \<and> (r = Inr () \<longrightarrow> write_request p' = Some (unat a, unat n))"
    and write_data: "good p \<Longrightarrow> write_request p = Some (x, length bytes) \<Longrightarrow>
      io_write_all io bytes p = (r, p') \<Longrightarrow>
      stays flash scope good (scope p \<union> span x (length bytes)) p p'"
    and flush_stays: "good p \<Longrightarrow> io_flush io p = (r, p') \<Longrightarrow>
      stays flash scope good (scope p) p p' \<and> (r = Inr () \<longrightarrow> read_request p' = read_request p)"
    and read_stays: "good p \<Longrightarrow> io_read_exact io len t p = (out, p') \<Longrightarrow>
      stays flash scope good (scope p) p p'"
    and read_answer: "good p \<Longrightarrow> io_read_exact io len t p = (ReadDone bytes, p') \<Longrightarrow>
      read_request p = Some (x, len) \<Longrightarrow> scope p' = {} \<and> fit len bytes = window (flash p') x len"
    and sleep_stays: "good p \<Longrightarrow> stays flash scope good (scope p) p (io_sleep io d p)"
begin

abbreviation ok_within :: "nat set \<Rightarrow> 'p \<Rightarrow> bool" where
  "ok_within S p \<equiv> good p \<and> scope p \<subseteq> S"

abbreviation stays_in :: "nat set \<Rightarrow> 'p \<Rightarrow> 'p \<Rightarrow> bool" where
  "stays_in \<equiv> stays flash scope good"

lemma stays_refl: "ok_within S p \<Longrightarrow> stays_in S p p"
  by (simp add: stays_def)

lemma stays_ok: "stays_in S p p' \<Longrightarrow> ok_within S p'"
  by (simp add: stays_def)

lemma stays_trans: "stays_in S p q \<Longrightarrow> stays_in S q r \<Longrightarrow> stays_in S p r"
  by (simp add: stays_def)

lemma stays_mono: "stays_in S p q \<Longrightarrow> S \<subseteq> T \<Longrightarrow> stays_in T p q"
  by (auto simp: stays_def)

text \<open>An action that stays within \<open>S\<close> whatever its outcome.\<close>

definition act_stays :: "nat set \<Rightarrow> ('p, 'a) action \<Rightarrow> bool" where
  "act_stays S act \<longleftrightarrow> (\<forall>p r p'. ok_within S p \<longrightarrow> act p = (r, p') \<longrightarrow> stays_in S p p')"

lemma act_staysI: "(\<And>p r p'. ok_within S p \<Longrightarrow> act p = (r, p') \<Longrightarrow> stays_in S p p') \<Longrightarrow> act_stays S act"
  by (auto simp: act_stays_def)

lemma act_staysD: "act_stays S act \<Longrightarrow> ok_within S p \<Longrightarrow> act p = (r, p') \<Longrightarrow> stays_in S p p'"
  by (auto simp: act_stays_def)

lemma act_stays_simple: "act_stays S (retA x)" "act_stays S (failA e)"
  by (auto intro!: act_staysI stays_refl)

lemma act_stays_bind:
  assumes "act_stays S act" and "\<And>x. act_stays S (k x)"
  shows "act_stays S (bindA act k)"
proof (rule act_staysI)
  fix p r p' assume p: "ok_within S p" and b: "bindA act k p = (r, p')"
  obtain r1 p1 where a: "act p = (r1, p1)" by fastforce
  have s: "stays_in S p p1" using assms(1) p a by (rule act_staysD)
  show "stays_in S p p'"
  proof (cases r1)
    case (Inl e)
    then show ?thesis using s a b by (simp add: bindA_def)
  next
    case (Inr x)
    then have "k x p1 = (r, p')" using a b by (simp add: bindA_def)
    then show ?thesis using stays_trans [OF s] act_staysD [OF assms(2) stays_ok [OF s]] by blast
  qed
qed

lemma act_stays_clear: "act_stays S (io_clear_input io)"
  by (rule act_staysI) (auto intro: stays_mono [OF clear_stays])

lemma act_stays_flush: "act_stays S (io_flush io)"
  by (rule act_staysI) (auto intro: stays_mono [OF conjunct1 [OF flush_stays]])

lemma act_stays_read_within: "act_stays S (read_within io n t msg)"
proof (rule act_staysI)
  fix p r p' assume p: "ok_within S p" and e: "read_within io n t msg p = (r, p')"
  obtain out q where o: "io_read_exact io n t p = (out, q)" by fastforce
  then have "q = p'" using e by (auto simp: read_within_def split: read_outcome.splits)
  then show "stays_in S p p'" using stays_mono [OF read_stays] p o by blast
qed

lemma act_stays_erase_frame:
  assumes "span (unat a) (unat n) \<subseteq> S"
  shows "act_stays S (send_frame io (spi_command SpiFlashEraseSector a n))"
proof -
  have "act_stays S (io_write_all io (spi_command SpiFlashEraseSector a n))"
    by (rule act_staysI) (use assms in \<open>auto intro: stays_mono [OF erase_header]\<close>)
  then show ?thesis unfolding send_frame_def by (intro act_stays_bind act_stays_clear act_stays_flush)
qed

lemma act_stays_status: "act_stays S (read_spi_status io t msg)"
  unfolding read_spi_status_in_range
  by (intro act_stays_bind act_stays_read_within) (simp add: act_stays_simple)

lemma act_stays_erase:
  assumes "span (unat a) (unat n) \<subseteq> S"
  shows "act_stays S (erase_spi_sectors io a n)"
  unfolding erase_spi_sectors_def
  by (auto simp: act_stays_simple split: option.split
      intro!: act_stays_bind act_stays_status act_stays_erase_frame assms)

text \<open>A page write: the header announces the range, the data stays in it.\<close>

lemma act_stays_write_page:
  assumes "span (unat a) (length page) \<subseteq> S" and "length page \<noteq> 9"
  shows "act_stays S (write_spi_page io a page)"
proof (cases "page = [] \<or> SPI_WRITE_PAGE_SIZE < length page")
  case True
  then show ?thesis by (simp add: write_spi_page_def act_stays_simple)
next
  case False
  then have n: "unat (word_of_nat (length page) :: u32) = length page"
    by (simp add: SPI_WRITE_PAGE_SIZE_def unat_of_nat)
  have body: "act_stays S
      (bindA (io_write_all io (spi_command SpiFlashWritePage a (word_of_nat (length page)))) (\<lambda>_.
       bindA (io_write_all io page) (\<lambda>_. bindA (io_flush io) (\<lambda>_.
         read_spi_status io t msg))))" for t msg
  proof (rule act_staysI)
    fix p r p' assume p: "ok_within S p"
      and e: "bindA (io_write_all io (spi_command SpiFlashWritePage a (word_of_nat (length page)))) (\<lambda>_.
       bindA (io_write_all io page) (\<lambda>_. bindA (io_flush io) (\<lambda>_. read_spi_status io t msg))) p = (r, p')"
    obtain r1 p1 where h: "io_write_all io (spi_command SpiFlashWritePage a (word_of_nat (length page))) p = (r1, p1)"
      by fastforce
    have s1: "stays_in S p p1"
      using stays_mono [OF conjunct1 [OF write_header [OF _ _ h]]] p assms n by auto
    show "stays_in S p p'"
    proof (cases r1)
      case (Inl x)
      then show ?thesis using s1 h e by (simp add: bindA_def)
    next
      case (Inr u)
      then have req: "write_request p1 = Some (unat a, length page)"
        using write_header [OF _ _ h] p n assms(2) by auto
      obtain r2 p2 where d: "io_write_all io page p1 = (r2, p2)" by fastforce
      have s2: "stays_in S p1 p2"
        using stays_mono [OF write_data [OF _ req d]] stays_ok [OF s1] assms by auto
      have tail: "act_stays S (bindA (io_flush io) (\<lambda>_. read_spi_status io t msg))"
        by (intro act_stays_bind act_stays_flush act_stays_status)
      show ?thesis
      proof (cases r2)
        case (Inl x)
        then show ?thesis using stays_trans [OF s1 s2] h d Inr e by (simp add: bindA_def)
      next
        case r2: (Inr v)
        then have "bindA (io_flush io) (\<lambda>_. read_spi_status io t msg) p2 = (r, p')"
          using h d Inr e by (simp add: bindA_def [of "io_write_all io page"]
              bindA_def [of "io_write_all io (spi_command SpiFlashWritePage a (word_of_nat (length page)))"])
        then show ?thesis
          using stays_trans [OF s1 stays_trans [OF s2]] act_staysD [OF tail stays_ok [OF s2]] by blast
      qed
    qed
  qed
  show ?thesis using False unfolding not_less de_Morgan_disj
    by (auto simp: act_stays_simple write_spi_page_in_range intro!: act_stays_bind [OF act_stays_clear] body)
qed
text \<open>Reading: a completed read shows the content and leaves the device idle.\<close>

lemma read_attempts:
  assumes "ok_within S p" and "n < 2 ^ 32"
    and "read_spi_attempts io a (spi_command SpiFlashReadPage a (word_of_nat n)) n c attempts p = (r, p')"
  shows "stays_in S p p' \<and> (\<forall>bytes. r = Inr bytes \<longrightarrow>
    scope p' = {} \<and> bytes = window (flash p') (unat a) n)"
  using assms
proof (induction attempts arbitrary: p)
  case Nil
  then show ?case by (auto intro: stays_refl)
next
  case (Cons attempt rest)
  let ?h = "spi_command SpiFlashReadPage a (word_of_nat n)"
  have un: "unat (word_of_nat n :: u32) = n" using Cons.prems(2) by (simp add: unat_of_nat)
  show ?case
  proof (cases "c p")
    case True
    then show ?thesis using Cons.prems by (auto intro: stays_refl)
  next
    case False
    obtain r1 p1 where f1: "send_frame io ?h p = (r1, p1)" by fastforce
    have frame: "stays_in S p p1 \<and> (r1 = Inr () \<longrightarrow> read_request p1 = Some (unat a, n))"
    proof -
      obtain ra pa where a: "io_clear_input io p = (ra, pa)" by fastforce
      have sa: "stays_in S p pa" using act_staysD [OF act_stays_clear Cons.prems(1) a] .
      obtain rb pb where b: "io_write_all io ?h pa = (rb, pb)" by fastforce
      have sb: "stays_in S pa pb" "rb = Inr () \<longrightarrow> read_request pb = Some (unat a, n)"
        using read_header [OF _ b] stays_ok [OF sa] un by (auto intro: stays_mono)
      obtain rc pc where c: "io_flush io pb = (rc, pc)" by fastforce
      have sc: "stays_in S pb pc" "rc = Inr () \<longrightarrow> read_request pc = read_request pb"
        using flush_stays [OF _ c] stays_ok [OF sb(1)] by (auto intro: stays_mono)
      show ?thesis
        using f1 a b c sa sb sc stays_trans [OF sa sb(1)] stays_trans [OF stays_trans [OF sa sb(1)] sc(1)]
        unfolding send_frame_def by (auto simp: bindA_def split: sum.splits)
    qed
    show ?thesis
    proof (cases r1)
      case (Inl e)
      then show ?thesis using Cons.prems(3) False f1 frame by (auto simp: bindA_def)
    next
      case (Inr u)
      obtain out p2 where o: "io_read_exact io n SPI_READ_TIMEOUT_MS p1 = (out, p2)" by fastforce
      have s1: "stays_in S p p1" and req: "read_request p1 = Some (unat a, n)" using frame Inr by auto
      have s2: "stays_in S p1 p2" using stays_mono [OF read_stays [OF _ o]] stays_ok [OF s1] by auto
      note s12 = stays_trans [OF s1 s2]
      show ?thesis
      proof (cases out)
        case (ReadDone bs)
        then show ?thesis
          using read_answer [OF _ _ req, of SPI_READ_TIMEOUT_MS bs p2] o stays_ok [OF s1] s12
            Cons.prems(3) False f1 Inr by (auto simp: bindA_def)
      next
        case (ReadFailed e)
        then show ?thesis using s12 Cons.prems(3) False f1 Inr o by (auto simp: bindA_def)
      next
        case ReadTimedOut
        let ?p3 = "io_sleep io (ms SPI_READ_RETRY_DELAY_MS) p2"
        have s3: "stays_in S p ?p3"
          using stays_trans [OF s12] stays_mono [OF sleep_stays] stays_ok [OF s12] by blast
        have e: "(if c p2 then (Inl OperationCancelled, p2)
            else if attempt < SPI_READ_ATTEMPTS then
              (if c ?p3 then (Inl OperationCancelled, ?p3) else read_spi_attempts io a ?h n c rest ?p3)
            else (Inl (Transport (''SPI flash read at '' @ show_address a @ '' timed out after ''
                   @ show_nat SPI_READ_ATTEMPTS @ '' attempts'')), p2)) = (r, p')"
          using Cons.prems(3) False f1 Inr o ReadTimedOut by (simp add: bindA_def Let_def cong: if_cong)
        show ?thesis
        proof (cases "\<not> c p2 \<and> attempt < SPI_READ_ATTEMPTS \<and> \<not> c ?p3")
          case True
          then have "read_spi_attempts io a ?h n c rest ?p3 = (r, p')" using e by simp
          then show ?thesis
            using Cons.IH [OF stays_ok [OF s3] Cons.prems(2)] stays_trans [OF s3] by blast
        next
          case False
          then show ?thesis using e s12 s3 by (auto split: if_splits)
        qed
      qed
    qed
  qed
qed

lemma window_append: "window f a (m + n) = window f a m @ window f (a + m) n"
  by (simp only: window_def add.assoc [symmetric] upt_add_eq_append [of a "a + m" n] map_append le_add1)

lemma write_at_window:
  assumes "length buf = len" "m + n \<le> len" "take m buf = window f a m" "length page = n"
    "page = window f (a + m) n"
  shows "take (m + n) (write_at m page buf) = window f a (m + n)"
  using assms by (simp add: write_at_def window_append min_def)

lemma read_loop:
  assumes "ok_within S p" and "length buf = len" and "unat a + len < 2 ^ 32" and "read \<le> len"
    and "0 < read \<Longrightarrow> scope p = {} \<and> take read buf = window (flash p) (unat a) read"
    and "read_spi_loop io a len c read buf p = (r, p')"
  shows "stays_in S p p' \<and> (\<forall>bytes. r = Inr bytes \<longrightarrow>
    length bytes = len \<and> (0 < len \<longrightarrow> scope p' = {} \<and> bytes = window (flash p') (unat a) len))"
  using assms
proof (induction "len - read" arbitrary: read buf p rule: less_induct)
  case less
  show ?case
  proof (cases "read < len")
    case False
    then show ?thesis using less.prems by (auto simp: read_spi_loop.simps intro: stays_refl)
  next
    case True
    define m where "m = min (len - read) FLASH_READ_PAGE_SIZE"
    have m: "0 < m" "read + m \<le> len" using True by (auto simp: m_def FLASH_READ_PAGE_SIZE_def)
    have rd: "u32_try_from read = Some (word_of_nat read)"
      using less.prems(3) True by (simp add: u32_try_from_def)
    have "unat a + read < 2 ^ 32" using less.prems(3) True by linarith
    note off = checked_add_offset [OF this]
    define pa where "pa = a + word_of_nat read"
    have pa: "checked_add a (word_of_nat read) = Some pa" "unat pa = unat a + read"
      unfolding pa_def by (rule off(1), rule off(2))
    obtain r1 p1 where p1: "read_spi_page io pa m c p = (r1, p1)" by fastforce
    have m32: "m < 2 ^ 32" using less.prems(3) m by simp
    note att = p1 [unfolded read_spi_page_in_range [OF m32]]
    have s1: "stays_in S p p1" and ok1: "\<And>bs. r1 = Inr bs \<Longrightarrow> scope p1 = {} \<and> bs = window (flash p1) (unat pa) m"
      using read_attempts [OF less.prems(1) m32 att] by auto
    have e: "bindA (read_spi_page io pa m c) (\<lambda>page.
        read_spi_loop io a len c (read + m) (write_at read page buf)) p = (r, p')"
      using less.prems(6) rd pa(1) unfolding read_spi_loop_in_range [OF True less.prems(2)]
      by (simp add: Let_def m_def)
    show ?thesis
    proof (cases r1)
      case (Inl x)
      then show ?thesis using e p1 s1 by (auto simp: bindA_def)
    next
      case (Inr page)
      have pg: "scope p1 = {}" "page = window (flash p1) (unat a + read) m" using ok1 [OF Inr] pa(2) by auto
      have keep: "take read buf = window (flash p1) (unat a) read"
      proof (cases "0 < read")
        case True
        then have sp: "scope p = {}" and tk: "take read buf = window (flash p) (unat a) read"
          using less.prems(5) by auto
        have "stays_in {} p p1"
          using read_attempts [OF _ m32 att, of "{}"] less.prems(1) sp by auto
        then show ?thesis using tk by (simp add: stays_def window_def)
      qed (simp add: window_def)
      have len: "length (write_at read page buf) = len" using less.prems(2) m pg by simp
      have tk: "take (read + m) (write_at read page buf) = window (flash p1) (unat a) (read + m)"
        using less.prems(2) m(2) keep pg by (intro write_at_window) auto
      have run: "read_spi_loop io a len c (read + m) (write_at read page buf) p1 = (r, p')"
        using e p1 Inr by (simp add: bindA_def)
      have dec: "len - (read + m) < len - read" using m by linarith
      have inv: "0 < read + m \<Longrightarrow> scope p1 = {} \<and> take (read + m) (write_at read page buf)
          = window (flash p1) (unat a) (read + m)" using pg(1) tk by blast
      have "stays_in S p1 p' \<and> (\<forall>bytes. r = Inr bytes \<longrightarrow>
          length bytes = len \<and> (0 < len \<longrightarrow> scope p' = {} \<and> bytes = window (flash p') (unat a) len))"
        by (rule less.hyps [OF dec stays_ok [OF s1] len less.prems(3) m(2) inv run])
      then show ?thesis using stays_trans [OF s1] by blast
    qed
  qed
qed

lemma read_bytes:
  assumes "ok_within S p" and "0 < len" and "unat a + len < 2 ^ 32"
    and "read_spi_bytes io a len c p = (r, p')"
  shows "stays_in S p p' \<and> (\<forall>bytes. r = Inr bytes \<longrightarrow>
    scope p' = {} \<and> bytes = window (flash p') (unat a) len)"
proof (cases "c p")
  case True
  then show ?thesis using assms by (auto simp: read_spi_bytes_def intro: stays_refl)
next
  case False
  then have "read_spi_loop io a len c 0 (replicate len 0) p = (r, p')"
    using assms(4) by (simp add: read_spi_bytes_def)
  from read_loop [OF assms(1) _ assms(3) _ _ this] assms(2) show ?thesis by auto
qed

end

section \<open>The sectors of a slot\<close>

definition sector_base :: "theme_asset_slot \<Rightarrow> nat" where
  "sector_base slot = slot_start slot div 4096 * 4096"

definition sector_span :: "theme_asset_slot \<Rightarrow> nat" where
  "sector_span slot = (slot_end slot + 4095) div 4096 * 4096 - sector_base slot"

definition sector_address :: "theme_asset_slot \<Rightarrow> u32" where
  "sector_address slot = slot_address slot div SPI_SECTOR_SIZE * SPI_SECTOR_SIZE"

lemma unat_sector_address: "unat (sector_address slot) = sector_base slot"
  by (cases slot) (simp_all add: sector_address_def sector_base_def slot_start_def SPI_SECTOR_SIZE_def)

lemma sector_geometry:
  "sector_base slot \<le> slot_start slot" "slot_end slot \<le> sector_base slot + sector_span slot"
  "sector_base slot + sector_span slot \<le> 0x66000" "0 < sector_span slot" "sector_span slot mod 4096 = 0"
  by (cases slot; simp add: sector_base_def sector_span_def slot_start_def slot_end_def slot_byte_len_numeral)+

text \<open>The range computation of the transaction never overflows for the eight slots.\<close>

lemma transaction_range:
  assumes "length bytes = slot_byte_len slot"
  shows "u32_try_from (length bytes) = Some (word_of_nat (length bytes))"
    "\<exists>asset_end rounded. checked_add (slot_address slot) (word_of_nat (length bytes)) = Some asset_end
      \<and> checked_add asset_end (SPI_SECTOR_SIZE - 1) = Some rounded
      \<and> unat (rounded div SPI_SECTOR_SIZE * SPI_SECTOR_SIZE - sector_address slot) = sector_span slot"
    "unat (slot_address slot - sector_address slot) = slot_start slot - sector_base slot"
    "slot_start slot - sector_base slot + length bytes \<le> sector_span slot"
    "u32_try_from (sector_span slot) = Some (word_of_nat (sector_span slot))"
  by (cases slot; simp add: assms u32_try_from_def checked_add_def SPI_SECTOR_SIZE_def sector_address_def
      sector_span_def sector_base_def slot_start_def slot_end_def slot_byte_len_numeral)+

lemma write_theme_asset_transaction_eq:
  assumes "length bytes = slot_byte_len slot"
  shows "write_theme_asset_transaction io slot bytes p =
    (case read_spi_bytes io (sector_address slot) (sector_span slot) never_cancelled p of
       (Inl e, p') \<Rightarrow> (Inl (if e = ConnectionLost then ConnectionLostBeforeMutation else e), p')
     | (Inr backup, p') \<Rightarrow>
         (let requested = write_at (slot_start slot - sector_base slot) bytes backup
          in case theme_operation io (sector_address slot) (word_of_nat (sector_span slot)) (sector_span slot)
                    requested p' of
               (operation, p'') \<Rightarrow>
                 finish_theme_operation io (sector_address slot) backup operation p''))"
proof -
  note range = transaction_range [OF assms]
  obtain asset_end rounded where
    e: "checked_add (slot_address slot) (word_of_nat (length bytes)) = Some asset_end"
      "checked_add asset_end (SPI_SECTOR_SIZE - 1) = Some rounded"
      "unat (rounded div SPI_SECTOR_SIZE * SPI_SECTOR_SIZE - sector_address slot) = sector_span slot"
    using range(2) by blast
  obtain r p1 where r: "read_spi_bytes io (sector_address slot) (sector_span slot) never_cancelled p = (r, p1)"
    by fastforce
  have "length backup = sector_span slot" if "r = Inr backup" for backup
    using read_spi_bytes_length [OF r [unfolded that]] .
  then have "copy_at (slot_start slot - sector_base slot) bytes backup
      = Inr (write_at (slot_start slot - sector_base slot) bytes backup)" if "r = Inr backup" for backup
    using that range(4) by (simp add: checked_in_range)
  then show ?thesis
    using assms r unfolding write_theme_asset_transaction_def sector_address_def [symmetric] Let_def
    by (cases r) (simp_all add: e [unfolded assms] range [unfolded assms] map_err_def bindA_def)
qed

section \<open>The transaction on a flash port\<close>

context flash_port begin

lemma act_stays_write_chunks:
  assumes "span (unat a + index * 256) (length bytes) \<subseteq> S"
    and "unat a + index * 256 + length bytes < 2 ^ 32"
  shows "act_stays S (write_spi_chunks io a index (chunks 256 bytes))"
  using assms
proof (induction "length bytes" arbitrary: bytes index rule: less_induct)
  case less
  show ?case
  proof (cases "length bytes < 256")
    case True
    then show ?thesis
      by (cases "bytes = []")
        (simp_all add: chunks.simps [of 256 bytes] chunks.simps [of 256 "[]"] SPI_WRITE_PAGE_SIZE_def
          act_stays_simple)
  next
    case False
    then have ne: "bytes \<noteq> []" by auto
    have "unat a + index * 256 < 2 ^ 32" using less.prems(2) by linarith
    note off = checked_add_offset [OF this]
    have u: "u32_try_from (index * 256) = Some (word_of_nat (index * 256))"
      using less.prems(2) by (simp add: u32_try_from_def)
    have page: "act_stays S (write_spi_page io (a + word_of_nat (index * 256)) (take 256 bytes))"
      using less.prems(1) False unfolding off(2) [symmetric]
      by (intro act_stays_write_page) (auto simp: span_def)
    have rest: "act_stays S (write_spi_chunks io a (index + 1) (chunks 256 (drop 256 bytes)))"
      using less.prems False by (intro less.hyps) (auto simp: span_def)
    show ?thesis
      using ne False act_stays_bind [OF page, of "\<lambda>_. write_spi_chunks io a (index + 1) (chunks 256 (drop 256 bytes))"]
        rest
      by (simp add: chunks.simps [of 256 bytes] u off(1) SPI_WRITE_PAGE_SIZE_def del: of_nat_mult of_nat_add)
  qed
qed

lemma act_stays_read_bytes:
  assumes "0 < len" "unat a + len < 2 ^ 32"
  shows "act_stays S (read_spi_bytes io a len c)"
  by (rule act_staysI) (use read_bytes assms in blast)

lemma act_stays_operation:
  assumes "span (unat a) (length bytes) \<subseteq> S" "0 < length bytes" "unat a + length bytes < 2 ^ 32"
  shows "act_stays S (theme_operation io a (word_of_nat (length bytes)) (length bytes) bytes)"
proof -
  have n: "unat (word_of_nat (length bytes) :: u32) = length bytes"
    using assms(3) by (simp add: unat_of_nat)
  show ?thesis unfolding theme_operation_def write_spi_pages_def
    using assms n unfolding SPI_WRITE_PAGE_SIZE_def
    by (intro act_stays_bind act_stays_erase act_stays_read_bytes act_stays_write_chunks)
      (simp_all add: act_stays_simple)
qed

lemma act_stays_restore:
  assumes "span (unat a) (length bytes) \<subseteq> S" "0 < length bytes" "unat a + length bytes < 2 ^ 32"
  shows "act_stays S (restore_spi_range io a bytes)"
proof -
  have n: "unat (word_of_nat (length bytes) :: u32) = length bytes"
    "u32_try_from (length bytes) = Some (word_of_nat (length bytes))"
    using assms(3) by (simp_all add: unat_of_nat u32_try_from_def)
  show ?thesis unfolding restore_spi_range_def write_spi_pages_def n(2) option.case
    using assms n unfolding SPI_WRITE_PAGE_SIZE_def
    by (intro act_stays_bind act_stays_erase act_stays_read_bytes act_stays_write_chunks)
      (simp_all add: act_stays_simple)
qed

text \<open>A successful operation or restore ends with a readback equal to what was written.\<close>

lemma verified_readback:
  assumes "ok_within S p" "0 < length bytes" "unat a + length bytes < 2 ^ 32"
    and "bindA (read_spi_bytes io a (length bytes) c)
      (\<lambda>readback. if readback \<noteq> bytes then failA err else retA ()) p = (Inr (), p')"
  shows "scope p' = {} \<and> bytes = window (flash p') (unat a) (length bytes)"
proof -
  from assms(4) obtain readback q where b: "read_spi_bytes io a (length bytes) c p = (Inr readback, q)"
    and "(if readback \<noteq> bytes then failA err else retA ()) q = (Inr (), p')"
    by (auto simp: bindA_Inr)
  then have "readback = bytes" "q = p'" by (auto split: if_splits)
  then show ?thesis using read_bytes [OF assms(1-3) b] by auto
qed

lemma operation_verified:
  assumes "ok_within S p" "span (unat a) (length bytes) \<subseteq> S" "0 < length bytes"
    and "unat a + length bytes < 2 ^ 32" and "theme_operation io a (word_of_nat (length bytes)) (length bytes) bytes p = (Inr (), p')"
  shows "scope p' = {} \<and> bytes = window (flash p') (unat a) (length bytes)"
proof -
  have n: "unat (word_of_nat (length bytes) :: u32) = length bytes"
    using assms(4) by (simp add: unat_of_nat)
  from assms(5) obtain p1 p2 u v where 1: "erase_spi_sectors io a (word_of_nat (length bytes)) p = (Inr u, p1)"
    and 2: "write_spi_pages io a bytes p1 = (Inr v, p2)"
    and 3: "bindA (read_spi_bytes io a (length bytes) never_cancelled) (\<lambda>verified. if verified \<noteq> bytes
      then failA (VerificationFailed ''theme asset sector readback did not match the requested bytes'')
      else retA ()) p2 = (Inr (), p')"
    by (auto simp: theme_operation_def bindA_Inr simp del: bindA_simps)
  have "act_stays S (erase_spi_sectors io a (word_of_nat (length bytes)))"
    using assms(2) n by (intro act_stays_erase) simp
  from act_staysD [OF this assms(1) 1] have ok1: "ok_within S p1" by (rule stays_ok)
  have "act_stays S (write_spi_pages io a bytes)"
    unfolding write_spi_pages_def SPI_WRITE_PAGE_SIZE_def
    using assms(2,4) by (intro act_stays_write_chunks) simp_all
  from act_staysD [OF this ok1 2] have ok2: "ok_within S p2" by (rule stays_ok)
  show ?thesis by (rule verified_readback [OF ok2 assms(3,4) 3])
qed

lemma restore_verified:
  assumes "ok_within S p" "span (unat a) (length bytes) \<subseteq> S" "0 < length bytes"
    and "unat a + length bytes < 2 ^ 32" and "restore_spi_range io a bytes p = (Inr (), p')"
  shows "scope p' = {} \<and> bytes = window (flash p') (unat a) (length bytes)"
proof -
  have n: "unat (word_of_nat (length bytes) :: u32) = length bytes"
    "u32_try_from (length bytes) = Some (word_of_nat (length bytes))"
    using assms(4) by (simp_all add: unat_of_nat u32_try_from_def)
  from assms(5) obtain p1 p2 u v where 1: "erase_spi_sectors io a (word_of_nat (length bytes)) p = (Inr u, p1)"
    and 2: "write_spi_pages io a bytes p1 = (Inr v, p2)"
    and 3: "bindA (read_spi_bytes io a (length bytes) never_cancelled) (\<lambda>restored. if restored \<noteq> bytes
      then failA (VerificationFailed ''theme rollback readback did not match the sector backup'')
      else retA ()) p2 = (Inr (), p')"
    by (auto simp: restore_spi_range_def n(2) bindA_Inr simp del: bindA_simps)
  have "act_stays S (erase_spi_sectors io a (word_of_nat (length bytes)))"
    using assms(2) n by (intro act_stays_erase) simp
  from act_staysD [OF this assms(1) 1] have ok1: "ok_within S p1" by (rule stays_ok)
  have "act_stays S (write_spi_pages io a bytes)"
    unfolding write_spi_pages_def SPI_WRITE_PAGE_SIZE_def
    using assms(2,4) by (intro act_stays_write_chunks) simp_all
  from act_staysD [OF this ok1 2] have ok2: "ok_within S p2" by (rule stays_ok)
  show ?thesis by (rule verified_readback [OF ok2 assms(3,4) 3])
qed

text \<open>
  What the caller can conclude from the outcome: success means the slot holds exactly the
  new bytes and every other byte of the flash is untouched; any error other than a lost
  connection and a failed rollback means the flash is unchanged; and in every case nothing
  outside the slot's sectors changed.
\<close>

lemma transaction_outcome:
  assumes "good p" "scope p = {}"
    and run: "write_theme_asset_transaction io slot bytes p = (r, p')"
  shows "(\<forall>x. x \<notin> span (sector_base slot) (sector_span slot) \<longrightarrow> flash p' x = flash p x)
    \<and> (case r of
         Inr _ \<Rightarrow> length bytes = slot_byte_len slot \<and> scope p' = {} \<and> (\<forall>x. flash p' x =
           (if slot_start slot \<le> x \<and> x < slot_end slot then bytes ! (x - slot_start slot) else flash p x))
       | Inl e \<Rightarrow> e = ConnectionLost \<or> (\<exists>m m'. e = RollbackFailed m m')
           \<or> (scope p' = {} \<and> flash p' = flash p))"
proof (cases "length bytes = slot_byte_len slot")
  case False
  then show ?thesis using run assms(2) by (auto simp: write_theme_asset_transaction_def)
next
  case True
  let ?a = "sector_address slot" and ?b = "sector_base slot" and ?n = "sector_span slot"
  let ?S = "span ?b ?n" and ?o = "slot_start slot - sector_base slot"
  have g: "?b \<le> slot_start slot" "slot_end slot \<le> ?b + ?n" "?b + ?n < 2 ^ 32" "0 < ?n"
    using sector_geometry [of slot] by auto
  obtain r1 p1 where b: "read_spi_bytes io ?a ?n never_cancelled p = (r1, p1)" by fastforce
  have "ok_within {} p" using assms by simp
  from read_bytes [OF this g(4) _ b] have s1: "stays_in {} p p1"
    and bk: "\<And>bs. r1 = Inr bs \<Longrightarrow> scope p1 = {} \<and> bs = window (flash p1) ?b ?n"
    using g(3) by (auto simp: unat_sector_address)
  have f1: "flash p1 = flash p" "scope p1 = {}" "good p1" using s1 by (auto simp: stays_def)
  show ?thesis
  proof (cases r1)
    case (Inl e)
    then show ?thesis using run b f1 by (auto simp: write_theme_asset_transaction_eq [OF True])
  next
    case (Inr backup)
    have bk: "backup = window (flash p) ?b ?n" using bk [OF Inr] f1 by simp
    define req where "req = write_at ?o bytes backup"
    have fits: "?o + length bytes \<le> ?n" using g True by (simp add: slot_end_def)
    then have lreq: "length req = ?n" by (simp add: req_def bk)
    obtain op p2 where o: "theme_operation io ?a (word_of_nat (length req)) (length req) req p1 = (op, p2)"
      by fastforce
    have fin: "finish_theme_operation io ?a backup op p2 = (r, p')"
      using run b Inr o by (simp add: write_theme_asset_transaction_eq [OF True] lreq req_def [symmetric] Let_def)
    have rng: "span (unat ?a) (length req) \<subseteq> ?S" "0 < length req" "unat ?a + length req < 2 ^ 32"
      "span (unat ?a) (length backup) \<subseteq> ?S" "0 < length backup" "unat ?a + length backup < 2 ^ 32"
      using g by (simp_all add: lreq bk unat_sector_address)
    have ok1: "ok_within ?S p1" using f1 by simp
    have s2: "stays_in ?S p1 p2" by (rule act_staysD [OF act_stays_operation [OF rng(1-3)] ok1 o])
    have out2: "\<forall>x. x \<notin> ?S \<longrightarrow> flash p2 x = flash p x" using s2 f1 by (simp add: stays_def)
    show ?thesis
    proof (cases op)
      case (Inr u)
      then have "r = Inr ()" "p' = p2" using fin by (auto simp: finish_theme_operation_def)
      moreover have v: "scope p2 = {}" "req = window (flash p2) ?b ?n"
        using operation_verified [OF ok1 rng(1-3)] o Inr by (simp_all add: lreq unat_sector_address)
      moreover have "flash p2 x = (if slot_start slot \<le> x \<and> x < slot_end slot
          then bytes ! (x - slot_start slot) else flash p x)" for x
      proof (cases "x \<in> ?S")
        case True
        then have x: "?b \<le> x" "x - ?b < ?n" by auto
        have "flash p2 x = req ! (x - ?b)" using x v(2) by simp
        also have "\<dots> = (if ?o \<le> x - ?b \<and> x - ?b < ?o + length bytes
            then bytes ! (x - ?b - ?o) else backup ! (x - ?b))"
          unfolding req_def using fits x by (intro nth_write_at) (simp_all add: bk)
        also have "\<dots> = (if slot_start slot \<le> x \<and> x < slot_end slot
            then bytes ! (x - slot_start slot) else flash p x)"
          using x g(1) \<open>length bytes = slot_byte_len slot\<close> by (auto simp: bk slot_end_def)
        finally show ?thesis .
      next
        case False
        then have "\<not> (slot_start slot \<le> x \<and> x < slot_end slot)" using g by auto
        then show ?thesis using out2 False by auto
      qed
      ultimately show ?thesis using out2 True by simp
    next
      case (Inl e)
      show ?thesis
      proof (cases "e = ConnectionLost")
        case True
        then show ?thesis using fin Inl out2 by (auto simp: finish_theme_operation_def)
      next
        case False
        obtain r3 p3 where rs: "restore_spi_range io ?a backup p2 = (r3, p3)" by fastforce
        have s3: "stays_in ?S p2 p3"
          by (rule act_staysD [OF act_stays_restore [OF rng(4-6)] stays_ok [OF s2] rs])
        have out3: "\<forall>x. x \<notin> ?S \<longrightarrow> flash p3 x = flash p x" using s3 out2 by (simp add: stays_def)
        have p3: "p' = p3" using fin Inl False rs
          by (auto simp: finish_theme_operation_def split: sum.splits if_splits)
        show ?thesis
        proof (cases r3)
          case (Inr u)
          have v: "scope p3 = {}" "backup = window (flash p3) ?b ?n"
            using restore_verified [OF stays_ok [OF s2] rng(4-6)] rs Inr by (simp_all add: bk unat_sector_address)
          have "flash p3 x = flash p x" for x
          proof (cases "x \<in> ?S")
            case True
            then have "x - ?b < ?n" "?b \<le> x" by auto
            moreover have "window (flash p3) ?b ?n ! (x - ?b) = window (flash p) ?b ?n ! (x - ?b)"
              using v(2) bk by simp
            ultimately show ?thesis by simp
          qed (use out3 in simp)
          then have "flash p3 = flash p" by (rule ext)
          then show ?thesis using fin Inl False rs Inr v(1) p3
            by (auto simp: finish_theme_operation_def)
        next
          case (Inl e3)
          then show ?thesis using fin \<open>op = Inl e\<close> False rs out3 p3
            by (auto simp: finish_theme_operation_def split: if_splits)
        qed
      qed
    qed
  qed
qed

end

end
