(* ===== verification/SerialBackend.thy ===== *)
theory SerialBackend
  imports Spi
begin

text \<open>
  \<open>SerialBackend\<close> of \<open>src/backend.rs\<close>: the device protocol over a serial port. The port's
  operations are those of a third-party crate and are the parameter \<open>t\<close> of every
  definition. The state holds the world the port acts on, whether a port is open, and the
  probed configuration version. For every port the backend is shown to be lawful.
\<close>

section \<open>State and plumbing\<close>

record 'p serial_backend =
  world :: 'p
  port_open :: bool
  config_version :: "u8 option"

definition serial_backend_new :: "'p \<Rightarrow> 'p serial_backend" where
  "serial_backend_new w = \<lparr>world = w, port_open = False, config_version = None\<rparr>"

text \<open>An action on the world, and one that needs the open port.\<close>

definition on_world :: "('p, 'a) action \<Rightarrow> ('p serial_backend, 'a) action" where
  "on_world act sb = (case act (world sb) of (r, w) \<Rightarrow> (r, sb\<lparr>world := w\<rparr>))"

definition on_port :: "('p, 'a) action \<Rightarrow> ('p serial_backend, 'a) action" where
  "on_port act sb = (if \<not> port_open sb then (Inl NotConnected, sb) else on_world act sb)"

definition serial_sleep :: "'p tty \<Rightarrow> nat \<Rightarrow> 'p serial_backend \<Rightarrow> 'p serial_backend" where
  "serial_sleep t d sb = sb\<lparr>world := tty_sleep t d (world sb)\<rparr>"

text \<open>Dropping the port closes it.\<close>

definition drop_port :: "'p tty \<Rightarrow> 'p serial_backend \<Rightarrow> 'p serial_backend" where
  "drop_port t sb = (if port_open sb then sb\<lparr>world := tty_close t (world sb), port_open := False\<rparr> else sb)"

definition response :: "'p tty \<Rightarrow> u8 list \<Rightarrow> nat \<Rightarrow> ('p serial_backend, u8 list) action" where
  "response t command size_bytes =
     (let io = serial_io_of t in on_port
       (bindA (io_clear_input io) (\<lambda>_.
        bindA (io_write_all io command) (\<lambda>_.
        bindA (io_flush io) (\<lambda>_.
          read_within io size_bytes 1000 ''serial response timed out'')))))"

definition send :: "'p tty \<Rightarrow> u8 list \<Rightarrow> ('p serial_backend, unit) action" where
  "send t command = on_port (send_frame (serial_io_of t) command)"

section \<open>Connecting\<close>

text \<open>
  The greeting, from opening to its check; an early error drops the local port. The result
  is whether the greeting timed out. The request-to-send line is released before the
  greeting is judged.
\<close>

definition greet :: "'p tty \<Rightarrow> ('p, bool) action" where
  "greet t =
     bindA (map_err serial_error (tty_set_exclusive t)) (\<lambda>_.
     bindA (map_err serial_error (tty_clear_input t)) (\<lambda>_.
     bindA (map_err serial_error (tty_request_to_send t True)) (\<lambda>_ w.
       case tty_read_exact t WELCOME_RESPONSE_SIZE 1000 w of (welcome_result, w') \<Rightarrow>
         bindA (map_err serial_error (tty_request_to_send t False)) (\<lambda>_.
           case welcome_result of
             GotBytes bytes \<Rightarrow>
               (let welcome = fit WELCOME_RESPONSE_SIZE bytes in
                if take (length WELCOME_MESSAGE) welcome \<noteq> WELCOME_MESSAGE
                   \<or> welcome ! length WELCOME_MESSAGE \<noteq> 0
                then failA (Unsupported ''serial device returned an unexpected greeting'')
                else retA False)
           | GotFailure e \<Rightarrow> failA (io_error e)
           | GotTimeout \<Rightarrow> retA True) w')))"

definition open_port :: "'p tty \<Rightarrow> string \<Rightarrow> ('p serial_backend, bool) action" where
  "open_port t path sb =
     (case map_err serial_error (tty_open t path) (world sb) of
        (Inl e, w) \<Rightarrow> (Inl e, sb\<lparr>world := w\<rparr>)
      | (Inr _, w) \<Rightarrow>
          (case greet t w of
             (Inl e, w') \<Rightarrow> (Inl e, sb\<lparr>world := tty_close t w'\<rparr>)
           | (Inr timed_out, w') \<Rightarrow> (Inr timed_out, sb\<lparr>world := w', port_open := True\<rparr>)))"

text \<open>The version probe: up to three reads of the configuration's prefix.\<close>

fun probe_version :: "'p tty \<Rightarrow> nat \<Rightarrow> ('p serial_backend, u8 option) action" where
  "probe_version t 0 = retA None"
| "probe_version t (Suc tries) =
     bindA (response t [usb_command_byte ReadConfig] CONFIG_VERSION_RESPONSE_SIZE) (\<lambda>config.
     bindA (liftA (idx config 2)) (\<lambda>version.
       if version \<le> 2 then retA (Some version)
       else bindA (updA (serial_sleep t (ms 50))) (\<lambda>_. probe_version t tries)))"

definition serial_capabilities :: "u8 \<Rightarrow> string list" where
  "serial_capabilities version =
     [''telemetry'', ''history'', ''screen'', ''device-info'', ''fault-clear'']
     @ (if version \<le> 2 then [''config-v'' @ show_nat (unat (version + 1))] else [])
     @ (if version = 2 then [''theme-assets-read'', ''theme-assets-write''] else [])"

definition show_hex2 :: "u8 \<Rightarrow> string" where
  "show_hex2 b = hex_digits hex_upper 2 (unat b)"

definition serial_connect :: "'p tty \<Rightarrow> string \<Rightarrow> ('p serial_backend, device_identity) action" where
  "serial_connect t path =
     bindA (open_port t path) (\<lambda>greeting_timed_out.
     bindA (response t [usb_command_byte ReadVendorData] VENDOR_RESPONSE_SIZE) (\<lambda>vendor.
     bindA (liftA (idx vendor 0)) (\<lambda>vendor_0.
     bindA (liftA (idx vendor 1)) (\<lambda>vendor_1.
     if vendor_0 \<noteq> 0xef \<or> vendor_1 \<noteq> 0x05 then
       bindA (updA (drop_port t)) (\<lambda>_.
         failA (Unsupported (''unexpected device identity '' @ show_hex2 vendor_0 @ show_hex2 vendor_1)))
     else
     bindA (probe_version t 3) (\<lambda>probed.
     bindA (liftA (ok_or (Unsupported ''device returned an unknown configuration version'') probed)) (\<lambda>version.
     bindA (updA (serial_sleep t (ms 50))) (\<lambda>_.
     bindA (on_port (io_clear_input (serial_io_of t))) (\<lambda>_.
     bindA (response t [usb_command_byte ReadUid] UID_RESPONSE_SIZE) (\<lambda>uid.
     bindA (send t [usb_command_byte ScreenChange, screen_command_byte CmdResumeUpdates]) (\<lambda>_.
     bindA (updA (\<lambda>sb. sb\<lparr>config_version := Some version\<rparr>)) (\<lambda>_.
     bindA (liftA (idx vendor 2)) (\<lambda>vendor_2.
       retA \<lparr>id_unique_id = concat (map show_hex2 uid),
             id_vendor_id = vendor_0,
             id_product_id = vendor_1,
             id_firmware_version = show_nat (unat vendor_2),
             id_hardware_revision = show_hex2 vendor_0 @ show_hex2 vendor_1,
             id_config_version = ucast version,
             id_product_name = [],
             id_build_string = [],
             id_capabilities = serial_capabilities version\<rparr>))))))))))))"

definition serial_disconnect :: "'p tty \<Rightarrow> 'p serial_backend \<Rightarrow> 'p serial_backend" where
  "serial_disconnect t sb = (drop_port t sb)\<lparr>config_version := None\<rparr>"

section \<open>Operations\<close>

definition serial_read_build_information :: "'p tty \<Rightarrow> ('p serial_backend, string \<times> string) action" where
  "serial_read_build_information t =
     bindA (response t [usb_command_byte ReadBuildInfo] BUILD_RESPONSE_SIZE) (\<lambda>bytes.
       liftA (decode_build_response bytes))"

definition serial_read_telemetry :: "'p tty \<Rightarrow> ('p serial_backend, telemetry) action" where
  "serial_read_telemetry t =
     bindA (response t [usb_command_byte ReadSensorValues] SENSOR_RESPONSE_SIZE) (\<lambda>bytes.
     bindA (liftA (decode_sensor_response bytes)) (\<lambda>sensors sb.
       (Inr \<lparr>t_sequence = 0, t_session_id = 0, observed_at_ms = tty_unix_time_ms t (world sb),
             stale = False, t_metrics = s_metrics sensors,
             active_fault_mask = fault_status sensors, logged_fault_mask = fault_log sensors,
             active_faults = decode_faults (fault_status sensors),
             logged_faults = decode_faults (fault_log sensors)\<rparr>, sb)))"

text \<open>A cancellation predicate on the backend's state, seen from the port's world.\<close>

definition on_world_cancel :: "('p serial_backend \<Rightarrow> bool) \<Rightarrow> 'p serial_backend \<Rightarrow> 'p \<Rightarrow> bool" where
  "on_world_cancel cancelled sb w = cancelled (sb\<lparr>world := w\<rparr>)"

definition serial_read_history_chunk ::
  "'p tty \<Rightarrow> nat \<Rightarrow> nat \<Rightarrow> ('p serial_backend \<Rightarrow> bool) \<Rightarrow> ('p serial_backend, u8 list) action" where
  "serial_read_history_chunk t off len cancelled sb =
     bindA (liftA (validate_history_range off len)) (\<lambda>_.
       if len = 0 then retA []
       else
       bindA (liftA (ok_or (InvalidArgument ''history offset is too large'') (u32_try_from off))) (\<lambda>off32.
       bindA (liftA (ok_or (InvalidArgument ''history address overflowed'')
                (checked_add FLASH_START_ADDRESS off32))) (\<lambda>address.
         on_port (read_spi_bytes (serial_io_of t) address len (on_world_cancel cancelled sb))))) sb"

text \<open>Up to three reads, keeping the last decoding error; a panic of the decoder is not retried.\<close>

fun read_configuration_attempts ::
  "'p tty \<Rightarrow> u8 \<Rightarrow> nat \<Rightarrow> nat \<Rightarrow> device_error option \<Rightarrow> ('p serial_backend, device_configuration) action" where
  "read_configuration_attempts t version size_bytes 0 last_error =
     liftA (case last_error of None \<Rightarrow> Inl (Panicked ''configuration decode was attempted'')
                             | Some e \<Rightarrow> Inl e)"
| "read_configuration_attempts t version size_bytes (Suc tries) last_error =
     bindA (response t [usb_command_byte ReadConfig] size_bytes) (\<lambda>bytes.
       case decode_configuration version bytes of
         Inr configuration \<Rightarrow> retA configuration
       | Inl error \<Rightarrow>
           if is_panic error then failA error
           else bindA (updA (serial_sleep t (ms 50))) (\<lambda>_.
             read_configuration_attempts t version size_bytes tries (Some error)))"

definition serial_read_configuration :: "'p tty \<Rightarrow> ('p serial_backend, device_configuration) action" where
  "serial_read_configuration t sb =
     bindA (liftA (ok_or NotConnected (config_version sb))) (\<lambda>version.
     bindA (liftA (configuration_size version)) (\<lambda>size_bytes.
       read_configuration_attempts t version size_bytes 3 None)) sb"

definition theme_requires_v3 :: device_error where
  "theme_requires_v3 = Unsupported ''theme assets require configuration V3''"

definition serial_read_theme_asset :: "'p tty \<Rightarrow> theme_asset_slot \<Rightarrow> ('p serial_backend, u8 list) action" where
  "serial_read_theme_asset t slot sb =
    (if config_version sb \<noteq> Some 2 then (Inl theme_requires_v3, sb)
     else on_port (read_spi_bytes (serial_io_of t) (slot_address slot) (slot_byte_len slot)
       never_cancelled) sb)"

definition serial_write_theme_asset ::
  "'p tty \<Rightarrow> theme_asset_slot \<Rightarrow> u8 list \<Rightarrow> ('p serial_backend, unit) action" where
  "serial_write_theme_asset t slot bytes sb =
    (if config_version sb \<noteq> Some 2 then (Inl theme_requires_v3, sb)
     else on_port (write_theme_asset_transaction (serial_io_of t) slot bytes) sb)"

text \<open>The frames of a configuration write: command, byte offset, up to 62 payload bytes.\<close>

fun write_config_frames :: "'p serial_io \<Rightarrow> nat \<Rightarrow> u8 list list \<Rightarrow> ('p, unit) action" where
  "write_config_frames io off [] = retA ()"
| "write_config_frames io off (payload # rest) =
     bindA (liftA (ok_or (Transport ''configuration offset overflowed'')
              (u8_try_from_usize (off * CONFIG_WRITE_PAYLOAD)))) (\<lambda>byte_offset.
     bindA (io_write_all io (usb_command_byte WriteConfig # byte_offset # payload)) (\<lambda>_.
     bindA (io_flush io) (\<lambda>_.
       write_config_frames io (off + 1) rest)))"

definition serial_write_configuration ::
  "'p tty \<Rightarrow> device_configuration \<Rightarrow> ('p serial_backend, unit) action" where
  "serial_write_configuration t c sb =
     bindA (liftA (ok_or NotConnected (config_version sb))) (\<lambda>version.
       if raw_version c \<noteq> version then
         failA (InvalidArgument (''configuration is V'' @ show_nat (unat (raw_version c + 1))
           @ '', but the connected device uses V'' @ show_nat (unat (version + 1))))
       else
       bindA (liftA (encode_configuration c)) (\<lambda>bytes.
         (let io = serial_io_of t in
          on_port (bindA (io_clear_input io) (\<lambda>_.
            write_config_frames io 0 (chunks CONFIG_WRITE_PAYLOAD bytes)))))) sb"

definition serial_nvm_configuration :: "'p tty \<Rightarrow> nvm_operation \<Rightarrow> ('p serial_backend, unit) action" where
  "serial_nvm_configuration t operation =
     send t [usb_command_byte NvmConfig, 0x55, 0xaa, 0x55, 0xaa, nvm_operation_byte operation]"

definition serial_reboot_device :: "'p tty \<Rightarrow> ('p serial_backend, unit) action" where
  "serial_reboot_device t = send t [usb_command_byte Reset]"

definition serial_clear_faults :: "'p tty \<Rightarrow> u16 \<Rightarrow> u16 \<Rightarrow> ('p serial_backend, unit) action" where
  "serial_clear_faults t active_mask logged_mask =
     bindA (send t (clear_faults_command active_mask logged_mask)) (\<lambda>_.
       send t [usb_command_byte ScreenChange, screen_command_byte CmdSame])"

definition serial_pause_history_updates :: "'p tty \<Rightarrow> ('p serial_backend, unit) action" where
  "serial_pause_history_updates t =
     send t [usb_command_byte ScreenChange, screen_command_byte CmdPauseUpdates]"

definition serial_resume_history_updates :: "'p tty \<Rightarrow> ('p serial_backend, unit) action" where
  "serial_resume_history_updates t =
     send t [usb_command_byte ScreenChange, screen_command_byte CmdResumeUpdates]"

fun screen_command_of :: "screen \<Rightarrow> screen_command" where
  "screen_command_of ScrMain = CmdMain"
| "screen_command_of ScrCurrent = CmdCurrent"
| "screen_command_of ScrTemp = CmdTemp"
| "screen_command_of ScrStatus = CmdStatus"
| "screen_command_of ScrSimple = CmdSimple"
| "screen_command_of ScrSame = CmdSame"

definition serial_set_screen :: "'p tty \<Rightarrow> screen \<Rightarrow> ('p serial_backend, unit) action" where
  "serial_set_screen t screen =
     send t [usb_command_byte ScreenChange, screen_command_byte (screen_command_of screen)]"

definition serial_device :: "'p tty \<Rightarrow> 'p serial_backend device_backend" where
  "serial_device t =
     \<lparr>be_connect = serial_connect t,
      be_disconnect = serial_disconnect t,
      be_read_build_information = serial_read_build_information t,
      be_read_telemetry = serial_read_telemetry t,
      be_read_configuration = serial_read_configuration t,
      be_write_configuration = serial_write_configuration t,
      be_nvm_configuration = serial_nvm_configuration t,
      be_reboot_device = serial_reboot_device t,
      be_clear_faults = serial_clear_faults t,
      be_pause_history_updates = serial_pause_history_updates t,
      be_resume_history_updates = serial_resume_history_updates t,
      be_read_history_chunk = serial_read_history_chunk t,
      be_read_theme_asset = serial_read_theme_asset t,
      be_write_theme_asset = serial_write_theme_asset t,
      be_set_screen = serial_set_screen t,
      be_now = (\<lambda>sb. tty_now t (world sb)),
      be_sleep = serial_sleep t\<rparr>"

section \<open>The serial backend is lawful\<close>

lemma on_port_Inr:
  "on_port act sb = (Inr x, sb') \<longleftrightarrow>
     port_open sb \<and> (\<exists>w. act (world sb) = (Inr x, w) \<and> sb' = sb\<lparr>world := w\<rparr>)"
  by (auto simp: on_port_def on_world_def split: prod.splits)

lemma write_theme_asset_transaction_length:
  "write_theme_asset_transaction io slot bytes p = (Inr (), p') \<Longrightarrow> length bytes = slot_byte_len slot"
  by (auto simp: write_theme_asset_transaction_def split: if_splits)

lemma read_configuration_attempts_ok:
  "read_configuration_attempts t version n tries e sb = (Inr c, sb') \<Longrightarrow>
     configuration_ok c \<and> raw_version c = version"
proof (induction tries arbitrary: e sb)
  case 0
  then show ?case by (auto split: option.splits)
next
  case (Suc tries)
  from Suc.prems obtain bytes s1 where
    "(case decode_configuration version bytes of
        Inr configuration \<Rightarrow> retA configuration
      | Inl error \<Rightarrow> if is_panic error then failA error
          else bindA (updA (serial_sleep t (ms 50))) (\<lambda>_.
            read_configuration_attempts t version n tries (Some error))) s1 = (Inr c, sb')"
    by (auto simp: bindA_Inr)
  then show ?case
    using Suc.IH decode_configuration_Inr by (auto split: sum.splits if_splits)
qed

interpretation serial: lawful_backend "serial_device t" "\<lambda>_. True" for t :: "'p tty"
proof
  fix b :: "'p serial_backend" and off len tok bytes
  assume "fst (be_read_history_chunk (serial_device t) off len tok b) = Inr bytes"
  then show "length bytes = len \<and> validate_history_range off len = Inr ()"
    by (auto simp: serial_device_def serial_read_history_chunk_def on_port_def on_world_def bindA_def
        dest: read_spi_bytes_length split: prod.splits sum.splits if_splits)
next
  fix b :: "'p serial_backend" and slot bytes
  assume "fst (be_read_theme_asset (serial_device t) slot b) = Inr bytes"
  then show "length bytes = slot_byte_len slot"
    by (auto simp: serial_device_def serial_read_theme_asset_def on_port_def on_world_def
        dest: read_spi_bytes_length split: prod.splits if_splits)
next
  fix b :: "'p serial_backend" and slot bytes
  assume "fst (be_write_theme_asset (serial_device t) slot bytes b) = Inr ()"
  then show "length bytes = slot_byte_len slot"
    by (auto simp: serial_device_def serial_write_theme_asset_def on_port_def on_world_def
        dest: write_theme_asset_transaction_length split: prod.splits if_splits)
next
  fix b :: "'p serial_backend" and c
  assume "fst (be_read_configuration (serial_device t) b) = Inr c"
  then obtain sb' where "serial_read_configuration t b = (Inr c, sb')"
    by (cases "serial_read_configuration t b") (simp add: serial_device_def)
  then obtain version n s where "read_configuration_attempts t version n 3 None s = (Inr c, sb')"
    by (auto simp: serial_read_configuration_def bindA_Inr simp del: bindA_simps)
  then show "configuration_ok c" using read_configuration_attempts_ok by blast
qed simp_all

section \<open>No operation panics\<close>

text \<open>Actions whose results are panic free in every state.\<close>

definition calm :: "('s, 'a) action \<Rightarrow> bool" where
  "calm act \<longleftrightarrow> (\<forall>s. panic_free (fst (act s)))"

named_theorems calm_intros \<open>which actions never panic\<close>

lemma calm_basic [calm_intros]:
  "calm (retA x)" "calm (updA g)" "panic_free (Inl e :: 'a result) \<Longrightarrow> calm (failA e :: ('s, 'a) action)"
  "panic_free r \<Longrightarrow> calm (liftA r)"
  by (simp_all add: calm_def panic_free_Inl)

lemma calm_Pair [calm_intros]: "panic_free r \<Longrightarrow> calm (Pair r)"
  by (simp add: calm_def)

lemma calm_read_state [calm_intros]: "(\<And>s. panic_free (f s)) \<Longrightarrow> calm (\<lambda>s. (f s, s))"
  by (simp add: calm_def)

lemma calm_eta: "(\<And>s. \<exists>act'. act s = act' s \<and> calm act') \<Longrightarrow> calm act"
  unfolding calm_def by metis

lemma calm_bindA [calm_intros]:
  assumes "calm act" and "\<And>x. calm (k x)"
  shows "calm (bindA act k)"
  unfolding calm_def
proof
  fix s
  have "panic_free (fst (k x s'))" for x s'
    using assms(2) [unfolded calm_def] by blast
  then show "panic_free (fst (bindA act k s))"
    using assms(1) [unfolded calm_def, rule_format, of s]
    by (cases "act s") (auto simp: bindA_def panic_free_Inl split: sum.splits)
qed

text \<open>The rest of the function may use what the action returned.\<close>

lemma calm_bindA_result:
  assumes "calm act" and "\<And>s x s'. act s = (Inr x, s') \<Longrightarrow> calm (k x)"
  shows "calm (bindA act k)"
  unfolding calm_def
proof
  fix s
  obtain r s' where r: "act s = (r, s')" by fastforce
  show "panic_free (fst (bindA act k s))"
  proof (cases r)
    case (Inl e)
    then show ?thesis
      using assms(1) [unfolded calm_def, rule_format, of s] r by (simp add: bindA_def panic_free_Inl)
  next
    case (Inr x)
    then show ?thesis
      using assms(2) [of s x s', unfolded calm_def, rule_format, of s'] r by (simp add: bindA_def)
  qed
qed

lemma calm_map_err [calm_intros]:
  "(\<And>e. panic_free (Inl (f e) :: 'a result)) \<Longrightarrow> calm (map_err f act :: ('s, 'a) action)"
  by (auto simp: calm_def map_err_def split: prod.splits sum.splits)

lemma calm_on_port [calm_intros]:
  assumes "calm act"
  shows "calm (on_port act)"
  unfolding calm_def
proof
  fix s :: "'a serial_backend"
  show "panic_free (fst (on_port act s))"
    using assms [unfolded calm_def, rule_format, of "world s"]
    by (auto simp: on_port_def on_world_def panic_free_Inl split: prod.splits)
qed

lemma port_errors [simp]:
  "panic_free (Inl (io_error e) :: 'a result)" "panic_free (Inl (serial_error e') :: 'a result)"
  using io_error_cases [of e] serial_error_cases [of e'] by (auto simp: panic_free_Inl)

lemma calm_io [calm_intros]:
  "calm (io_clear_input (serial_io_of t))" "calm (io_write_all (serial_io_of t) bytes)"
  "calm (io_flush (serial_io_of t))" "calm (read_within (serial_io_of t) n d msg)"
  unfolding serial_io_of_def
     apply (auto intro!: calm_map_err) [3]
  apply (auto simp: calm_def read_within_def split: prod.splits tty_read.splits read_outcome.splits)
  done

lemma calm_send_frame [calm_intros]: "calm (send_frame (serial_io_of t) frame)"
  unfolding send_frame_def by (intro calm_intros)

lemma calm_response [calm_intros]: "calm (response t command n)"
  unfolding response_def Let_def by (intro calm_intros)

lemma calm_send [calm_intros]: "calm (send t command)"
  unfolding send_def by (intro calm_intros)

lemma calm_read_attempts:
  assumes "attempts \<noteq> []" "last attempts = SPI_READ_ATTEMPTS"
    and "\<forall>a\<in>set (butlast attempts). a < SPI_READ_ATTEMPTS"
  shows "panic_free (fst (read_spi_attempts (serial_io_of t) a command n c attempts p))"
  using assms
proof (induction attempts arbitrary: p)
  case Nil
  then show ?case by simp
next
  case (Cons attempt rest)
  show ?case
  proof (cases "c p")
    case True
    then show ?thesis by (simp add: panic_free_Inl)
  next
    case False
    obtain r1 p1 where f: "send_frame (serial_io_of t) command p = (r1, p1)"
      by fastforce
    show ?thesis
    proof (cases r1)
      case (Inl e)
      have "panic_free (fst (send_frame (serial_io_of t) command p))"
        by (rule calm_send_frame [unfolded calm_def, rule_format])
      then show ?thesis using False f Inl by (simp add: bindA_def panic_free_Inl)
    next
      case (Inr u)
      obtain out p2 where o: "io_read_exact (serial_io_of t) n SPI_READ_TIMEOUT_MS p1 = (out, p2)" by fastforce
      have e: "out = ReadFailed err \<Longrightarrow> panic_free (Inl err :: u8 list result)" for err
        using o by (auto simp: serial_io_of_def split: prod.splits tty_read.splits)
      have ih: "attempt < SPI_READ_ATTEMPTS \<Longrightarrow> panic_free (fst (read_spi_attempts (serial_io_of t) a command n c rest q))" for q
        using Cons by (cases rest) auto
      show ?thesis
        using False f Inr o e ih by (cases out) (auto simp: bindA_def Let_def panic_free_Inl)
    qed
  qed
qed

lemma calm_read_page:
  assumes "n < 2 ^ 32"
  shows "calm (read_spi_page (serial_io_of t) a n c)"
proof -
  have "[1..<Suc SPI_READ_ATTEMPTS] = [1, 2, 3]" by (simp add: SPI_READ_ATTEMPTS_def upt_rec)
  then show ?thesis
    using calm_read_attempts [of "[1, 2, 3]" t a _ n c] unfolding calm_def read_spi_page_in_range [OF assms]
    by (simp add: SPI_READ_ATTEMPTS_def)
qed

text \<open>The loop's slices stay inside its buffer because of the clamp on the page length.\<close>

lemma calm_read_loop: "length buf = len \<Longrightarrow> calm (read_spi_loop (serial_io_of t) a len c read buf)"
proof (induction "len - read" arbitrary: read buf rule: less_induct)
  case less
  show ?case
  proof (cases "read < len")
    case False
    then show ?thesis by (simp add: read_spi_loop.simps calm_intros)
  next
    case True
    define m where "m = min (len - read) FLASH_READ_PAGE_SIZE"
    have m: "len - (read + m) < len - read" "read + m \<le> len" "m < 2 ^ 32"
      using True by (auto simp: m_def FLASH_READ_PAGE_SIZE_def min_def)
    have "calm (bindA (read_spi_page (serial_io_of t) pa m c) (\<lambda>page.
        read_spi_loop (serial_io_of t) a len c (read + m) (write_at read page buf)))" for pa
    proof (rule calm_bindA_result [OF calm_read_page [OF m(3)]])
      fix s page s' assume "read_spi_page (serial_io_of t) pa m c s = (Inr page, s')"
      then have "length page = m"
        using read_spi_attempts_length by (auto simp: read_spi_page_in_range [OF m(3)] simp del: upt_Suc)
      then show "calm (read_spi_loop (serial_io_of t) a len c (read + m) (write_at read page buf))"
        using less.prems m(2) by (intro less.hyps [OF m(1)]) simp
    qed
    then show ?thesis
      unfolding read_spi_loop_in_range [OF True less.prems] m_def [symmetric] Let_def
      by (auto intro!: calm_intros split: option.split)
  qed
qed

lemma calm_read_bytes [calm_intros]: "calm (read_spi_bytes (serial_io_of t) a len c)"
  unfolding calm_def read_spi_bytes_def
  by (auto simp: panic_free_Inl intro: calm_read_loop [unfolded calm_def, rule_format])

lemma calm_status [calm_intros]: "calm (read_spi_status (serial_io_of t) d msg)"
  unfolding read_spi_status_in_range by (auto intro!: calm_intros)

lemma calm_erase [calm_intros]: "calm (erase_spi_sectors (serial_io_of t) a n)"
  unfolding erase_spi_sectors_def by (auto intro!: calm_intros split: option.splits)

lemma calm_write_page [calm_intros]: "calm (write_spi_page (serial_io_of t) a page)"
proof (cases "page \<noteq> [] \<and> length page \<le> SPI_WRITE_PAGE_SIZE")
  case True
  then show ?thesis by (auto simp: write_spi_page_in_range intro!: calm_intros)
next
  case False
  then have "page = [] \<or> SPI_WRITE_PAGE_SIZE < length page" by auto
  then show ?thesis by (simp add: write_spi_page_def calm_intros)
qed

lemma calm_write_chunks [calm_intros]: "calm (write_spi_chunks (serial_io_of t) a index pages)"
  by (induction pages arbitrary: index) (auto intro!: calm_intros split: option.splits)

lemma calm_theme_operation [calm_intros]: "calm (theme_operation (serial_io_of t) a w n bytes)"
  unfolding theme_operation_def write_spi_pages_def
  by (auto intro!: calm_intros simp: panic_free_Inl)

lemma calm_restore [calm_intros]: "calm (restore_spi_range (serial_io_of t) a bytes)"
  unfolding restore_spi_range_def write_spi_pages_def
  by (auto intro!: calm_intros simp: panic_free_Inl split: option.splits)

lemma calmD: "calm act \<Longrightarrow> act s = (r, s') \<Longrightarrow> panic_free r"
  unfolding calm_def by (metis fst_conv)

lemma calm_finish_theme_operation:
  "panic_free operation \<Longrightarrow>
     panic_free (fst (finish_theme_operation (serial_io_of t) a backup operation p))"
  by (auto simp: finish_theme_operation_def panic_free_Inl split: sum.splits prod.splits)

lemma calm_transaction [calm_intros]:
  "calm (write_theme_asset_transaction (serial_io_of t) slot bytes)"
  unfolding calm_def
proof
  fix s
  show "panic_free (fst (write_theme_asset_transaction (serial_io_of t) slot bytes s))"
  proof (cases "length bytes = slot_byte_len slot")
    case False
    then show ?thesis
      by (simp add: write_theme_asset_transaction_def theme_size_error_def panic_free_Inl)
  next
    case True
    note read = calm_read_bytes [of t "sector_address slot" "sector_span slot" never_cancelled,
        unfolded calm_def, rule_format, of s]
    show ?thesis
      unfolding write_theme_asset_transaction_eq [OF True] Let_def
      using read calmD [OF calm_theme_operation]
      by (auto simp: panic_free_Inl intro!: calm_finish_theme_operation split: prod.splits sum.splits)
  qed
qed

lemma encode_configuration_no_panic: "panic_free (encode_configuration c)"
proof (cases "configuration_ok c")
  case True
  then show ?thesis using encode_configuration_ok [of c] by auto
next
  case False
  then obtain e where e: "configuration_validate c = Inl e"
    using configuration_validate_iff [of c] by (cases "configuration_validate c") auto
  then have "encode_configuration c = Inl e" by (simp add: encode_configuration_def)
  then show ?thesis using e validate_panic_free(1) [of c] by (simp add: panic_free_Inl)
qed

lemma calm_config_frames [calm_intros]: "calm (write_config_frames (serial_io_of t) off payloads)"
  by (induction payloads arbitrary: off) (auto intro!: calm_intros simp: panic_free_Inl)

lemma calm_read_configuration_attempts:
  "(case err of None \<Rightarrow> 0 < tries | Some e \<Rightarrow> panic_free (Inl e :: device_configuration result)) \<Longrightarrow>
     calm (read_configuration_attempts t version n tries err)"
proof (induction tries arbitrary: err)
  case 0
  then show ?case by (auto intro!: calm_intros split: option.splits)
next
  case (Suc tries)
  have "panic_free (Inl e :: device_configuration result)" if "decode_configuration version bytes = Inl e" for e bytes
    using that decode_configuration_no_panic [of version bytes] by simp
  then show ?case
    by (auto intro!: calm_intros Suc.IH split: sum.splits)
qed

lemma response_length: "response t command n sb = (Inr bytes, sb') \<Longrightarrow> length bytes = n"
  by (auto simp: response_def Let_def on_port_def on_world_def bindA_Inr
      dest!: read_within_length split: if_splits prod.splits)

lemma calm_probe [calm_intros]: "calm (probe_version t tries)"
proof (induction tries)
  case (Suc tries)
  then show ?case
    by (auto intro!: calm_intros calm_bindA_result [OF calm_response]
        dest!: response_length simp: checked_in_range CONFIG_VERSION_RESPONSE_SIZE_def)
qed (simp add: calm_intros)

lemma calm_greet [calm_intros]: "calm (greet t)"
  unfolding greet_def
  apply (intro calm_intros)
     apply (auto simp: calm_def map_err_def bindA_def Let_def split: prod.splits sum.splits tty_read.splits)
  done

lemma calm_open_port [calm_intros]: "calm (open_port t path)"
  using calmD [OF calm_greet, of t]
  by (auto simp: calm_def open_port_def map_err_def split: prod.splits sum.splits)

lemma serial_calm:
  "calm (serial_connect t path)" "calm (serial_read_build_information t)"
  "calm (serial_read_telemetry t)" "calm (serial_read_configuration t)"
  "calm (serial_write_configuration t c)" "calm (serial_nvm_configuration t n)"
  "calm (serial_reboot_device t)" "calm (serial_clear_faults t x y)"
  "calm (serial_pause_history_updates t)" "calm (serial_resume_history_updates t)"
  "calm (serial_read_history_chunk t off len tok)" "calm (serial_read_theme_asset t slot)"
  "calm (serial_write_theme_asset t slot bytes)" "calm (serial_set_screen t scr)"
proof -
  have vendor: "calm (bindA (response t command VENDOR_RESPONSE_SIZE) k)"
    if "\<And>v. length v = 3 \<Longrightarrow> calm (k v)" for command and k :: "u8 list \<Rightarrow> ('a serial_backend, device_identity) action"
    by (rule calm_bindA_result [OF calm_response]) (auto dest!: response_length intro!: that simp: VENDOR_RESPONSE_SIZE_def)
  show "calm (serial_connect t path)"
    unfolding serial_connect_def
    by (intro calm_bindA calm_open_port vendor)
      (auto intro!: calm_intros simp: ok_or_def checked_in_range split: option.splits)
  show "calm (serial_read_build_information t)"
    unfolding serial_read_build_information_def
    by (auto intro!: calm_intros decode_build_response_panic_free)
  show "calm (serial_read_telemetry t)"
    unfolding serial_read_telemetry_def
    by (intro calm_intros decode_sensor_response_panic_free) simp
  show "calm (serial_read_configuration t)"
    by (rule calm_eta, unfold serial_read_configuration_def, rule exI, rule conjI, rule refl)
      (auto intro!: calm_intros calm_read_configuration_attempts
        simp: ok_or_def configuration_size_def panic_free_Inl split: option.splits)
  show "calm (serial_write_configuration t c)"
    by (rule calm_eta, unfold serial_write_configuration_def Let_def, rule exI, rule conjI, rule refl)
      (auto intro!: calm_intros simp: ok_or_def panic_free_Inl encode_configuration_no_panic split: option.splits)
  show "calm (serial_read_history_chunk t off len tok)"
    by (rule calm_eta, unfold serial_read_history_chunk_def, rule exI, rule conjI, rule refl)
      (auto intro!: calm_intros)
  show "calm (serial_read_theme_asset t slot)" "calm (serial_write_theme_asset t slot bytes)"
    by (auto simp: calm_def serial_read_theme_asset_def serial_write_theme_asset_def theme_requires_v3_def
        intro!: calm_on_port [unfolded calm_def, rule_format] calm_read_bytes [unfolded calm_def, rule_format]
          calm_transaction [unfolded calm_def, rule_format])
qed (simp_all add: serial_nvm_configuration_def serial_reboot_device_def serial_clear_faults_def
    serial_pause_history_updates_def serial_resume_history_updates_def serial_set_screen_def calm_intros)

end
