(* ===== verification/Daemon.thy ===== *)
theory Daemon
  imports ItemProps ConfigTransactions ManagerProps SerialBackend
begin

text \<open>
  The manager on top of a backend whose operations never panic, and on top of the serial backend:
  no command of the daemon panics, whatever the device sends.
\<close>

section \<open>Actions of the manager\<close>

lemma calm_on_backend [calm_intros]: "calm act \<Longrightarrow> calm (on_backend act)"
  by (auto simp: calm_def on_backend_def split: prod.splits) (metis fst_conv)

lemma calm_sleep [calm_intros]: "calm (sleep ops d)"
  unfolding sleep_def by (intro calm_intros)

lemma panic_free_hide_loss [simp]: "panic_free (hide_loss r) \<longleftrightarrow> panic_free r"
  by (auto simp: hide_loss_def panic_free_Inl)

lemma panic_free_error: "r = Inl e \<Longrightarrow> panic_free r \<Longrightarrow> panic_free (Inl e)"
  by (simp add: panic_free_Inl)

fun reply_panic_free :: "reply \<Rightarrow> bool" where
  "reply_panic_free (ReplyUnit r) = panic_free r"
| "reply_panic_free (ReplyBytes r) = panic_free r"
| "reply_panic_free (ReplyDump r) = panic_free r"
| "reply_panic_free (ReplyIdentity r) = panic_free r"
| "reply_panic_free (ReplyTelemetry r) = panic_free r"
| "reply_panic_free (ReplyInterval r) = panic_free r"
| "reply_panic_free (ReplyPause r) = panic_free r"
| "reply_panic_free (ReplyConfiguration r) = panic_free r"
| "reply_panic_free (ReplyItem r) = panic_free r"

section \<open>Pure parts\<close>

lemma configuration_revision_panic_free [simp]: "panic_free (configuration_revision sid c)"
  by (simp add: configuration_revision_def encode_configuration_no_panic)

lemma check_current_panic_free [simp]: "panic_free (check_current sid c expected current)"
  unfolding check_current_def
  by (rule panic_free_bindR) (auto intro!: panic_free_bindR simp: failIf_def panic_free_Inl split: option.splits)

lemma check_loaded_panic_free [simp]: "panic_free (check_loaded rollback c)"
  unfolding check_loaded_def by (rule panic_free_bindR) auto

lemma with_protocol_metadata_panic_free [simp]: "panic_free (with_protocol_metadata s c)"
  unfolding with_protocol_metadata_def by (rule panic_free_bindR) auto

lemma settings_item_panic_free [simp]: "panic_free (settings_item s key)"
  using settings_item_Inl [of s key] by (cases "settings_item s key") auto

lemma collectR_panic_free: "\<forall>r\<in>set rs. panic_free r \<Longrightarrow> panic_free (collectR rs)"
  by (induction rs) (simp_all add: panic_free_bindR)

lemma parse_item_value_panic_free [simp]: "panic_free (parse_item_value jt key current raw)"
proof (cases current)
  case (JArray vs)
  have "panic_free (parse_list_item key p)" for p by (simp add: parse_list_item_def)
  then show ?thesis by (simp add: parse_item_value_def JArray collectR_panic_free)
qed (auto simp: parse_item_value_def split: sum.splits)

lemma set_path_panic_free [simp]: "panic_free (set_path jt key raw path doc)"
  by (induction path arbitrary: doc) (auto split: json.splits option.splits)

lemma with_item_panic_free [simp]: "panic_free (with_item jt s key raw)"
proof -
  have "panic_free (settings_from_value jt doc)" for doc
    unfolding settings_from_value_def settings_from_json_def
    by (auto intro!: panic_free_bindR split: sum.splits option.splits)
  then show ?thesis unfolding with_item_def set_item_value_def by (auto intro!: panic_free_bindR)
qed

section \<open>Backends that never panic\<close>

locale panic_free_backend = lawful_backend +
  assumes calm_connect: "calm (be_connect ops p)"
    and calm_build: "calm (be_read_build_information ops)"
    and calm_telemetry: "calm (be_read_telemetry ops)"
    and calm_read_configuration: "calm (be_read_configuration ops)"
    and calm_write_configuration: "calm (be_write_configuration ops c)"
    and calm_nvm: "calm (be_nvm_configuration ops n)"
    and calm_reboot: "calm (be_reboot_device ops)"
    and calm_clear: "calm (be_clear_faults ops x y)"
    and calm_pause: "calm (be_pause_history_updates ops)"
    and calm_resume: "calm (be_resume_history_updates ops)"
    and calm_history: "calm (be_read_history_chunk ops off len tok)"
    and calm_read_theme: "calm (be_read_theme_asset ops slot)"
    and calm_write_theme: "calm (be_write_theme_asset ops slot bytes)"
    and calm_screen: "calm (be_set_screen ops scr)"
begin

lemmas backend_calm = calm_connect calm_build calm_telemetry calm_read_configuration
  calm_write_configuration calm_nvm calm_reboot calm_clear calm_pause calm_resume calm_history
  calm_read_theme calm_write_theme calm_screen

lemma ensure_calm: "calm (ensure_display_paused ops)"
proof -
  have "calm (bindA (on_backend (be_pause_history_updates ops)) (\<lambda>_.
       updA (\<lambda>m. m\<lparr>display_physically_paused := True, display_resume_retry_at := None\<rparr>)))"
    by (intro calm_intros backend_calm)
  then show ?thesis by (simp add: ensure_display_paused_def calm_def)
qed

lemma resume_calm: "calm (resume_display_if_unowned ops)"
  using calmD [OF calm_on_backend [OF calm_resume]]
  by (auto simp: calm_def resume_display_if_unowned_def split: prod.splits sum.splits)

lemma store_calm: "calm (store_and_verify ops wanted mismatch)"
  unfolding store_and_verify_def by (auto intro!: calm_intros backend_calm simp: panic_free_Inl)

lemma rollback_calm: "calm (rollback_configuration ops original persist)"
  unfolding rollback_configuration_def by (auto intro!: calm_intros backend_calm store_calm simp: panic_free_Inl)

lemma write_and_verify_calm: "calm (write_and_verify ops c persist)"
  unfolding write_and_verify_def by (auto intro!: calm_intros backend_calm store_calm simp: panic_free_Inl)

lemma finish_apply_panic_free:
  "panic_free operation \<Longrightarrow> panic_free (fst (finish_apply ops current persist operation m))"
  by (auto simp: finish_apply_def panic_free_Inl split: sum.splits prod.splits)

lemma apply_calm: "calm (apply_configuration ops c persist expected)"
  unfolding apply_configuration_def
proof (intro calm_intros backend_calm)
  fix current
  show "calm (\<lambda>m. bindA (liftA (check_current (session m) c expected current)) (\<lambda>_ m.
       case write_and_verify ops c persist m of
         (operation, m1) \<Rightarrow> finish_apply ops current persist operation m1) m)"
    unfolding calm_def
    by (auto simp: bindA_def liftA_def finish_apply_panic_free calmD [OF write_and_verify_calm]
        split: prod.splits sum.splits intro: panic_free_error [OF _ check_current_panic_free])
qed simp

lemma set_item_calm: "calm (set_configuration_item ops jt key raw persist)"
  unfolding set_configuration_item_def by (auto intro!: calm_intros backend_calm apply_calm)

lemma restore_calm: "calm (restore_previous ops previous e)"
  unfolding restore_previous_def by (auto intro!: calm_intros backend_calm simp: panic_free_Inl)

lemma loaded_calm:
  "calm (\<lambda>m. case bindA (on_backend (be_read_configuration ops)) (\<lambda>c. liftA (check_loaded rollback c)) m of
       (Inr configuration, m1) \<Rightarrow> (Inr configuration, m1)
     | (Inl load_error, m1) \<Rightarrow> (case rollback of
           None \<Rightarrow> (Inl load_error, m1)
         | Some previous \<Rightarrow> restore_previous ops previous load_error m1))"
proof -
  have load: "calm (bindA (on_backend (be_read_configuration ops)) (\<lambda>c. liftA (check_loaded rollback c)))"
    by (auto intro!: calm_intros backend_calm)
  show ?thesis
    unfolding calm_def
    using calmD [OF load] restore_calm
    by (auto split: prod.split sum.split option.split simp: calm_def)
qed

lemma nvm_calm: "calm (run_nvm_operation ops operation)"
  unfolding run_nvm_operation_def by (intro calm_intros backend_calm loaded_calm) (auto intro!: calm_intros backend_calm)

lemma run_mutation_panic_free:
  "calm act \<Longrightarrow> reply_panic_free (fst (run_mutation ops operation act m))"
  by (auto simp: run_mutation_def finish_configuration_mutation_def panic_free_Inl [of NotConnected]
      calm_def)

lemma paused_read_calm: "calm (paused_history_read ops off len)"
  unfolding paused_history_read_def
proof (intro calm_intros ensure_calm)
  show "calm (\<lambda>m. case on_backend (be_read_history_chunk ops off len (\<lambda>_. False)) m of
         (read, m1) \<Rightarrow> (case resume_display_if_unowned ops m1 of
             (resume, m2) \<Rightarrow>
               ((case read of
                   Inl error \<Rightarrow> Inl error
                 | Inr bytes \<Rightarrow> (case resume of Inl error \<Rightarrow> Inl error | Inr _ \<Rightarrow> Inr bytes)), m2)))"
    unfolding calm_def
    by (auto split: prod.split sum.split dest: calmD [OF calm_on_backend [OF calm_history]] calmD [OF resume_calm])
      (auto dest!: calmD [OF calm_on_backend [OF calm_history]] calmD [OF resume_calm] simp: panic_free_Inl)
qed

lemma clear_and_read_calm: "calm (clear_and_read ops active logged)"
  unfolding clear_and_read_def by (auto intro!: calm_intros backend_calm)

lemma find_dump_panic_free: "panic_free (find_dump wanted m)"
  by (auto simp: find_dump_def split: option.splits)

lemma theme_write_result_panic_free: "panic_free r \<Longrightarrow> panic_free (theme_write_result r)"
  by (auto simp: theme_write_result_def panic_free_Inl)

section \<open>Replies\<close>

lemma not_panic [simp]:
  "panic_free (Inl NotConnected)" "panic_free (Inl (BusyError msg))" "panic_free (Inl ConnectionLost)"
  "panic_free (Inl OperationOutcomeUnknown)"
  by (simp_all add: panic_free_Inl)

lemmas reply_calm = calm_on_backend [OF calm_screen, THEN calmD] ensure_calm [THEN calmD]
  resume_calm [THEN calmD] calm_on_backend [OF calm_history, THEN calmD] paused_read_calm [THEN calmD]
  calm_on_backend [OF calm_read_theme, THEN calmD] calm_on_backend [OF calm_write_theme, THEN calmD]
  clear_and_read_calm [THEN calmD] calm_on_backend [OF calm_read_configuration, THEN calmD]
  calm_on_backend [OF calm_reboot, THEN calmD]

lemma short_replies:
  "reply_panic_free (fst (run_set_screen ops scr m))"
  "reply_panic_free (fst (run_begin_history_dump ops m))"
  "reply_panic_free (fst (run_end_history_dump ops i m))"
  "reply_panic_free (fst (run_read_history_chunk ops off len m))"
  "reply_panic_free (fst (run_clear_faults ops active logged m))"
  "reply_panic_free (fst (run_pause_display ops d m))"
  "reply_panic_free (fst (run_resume_display ops m))"
  "reply_panic_free (fst (run_read_configuration ops m))"
  "reply_panic_free (fst (run_reboot_device ops m))"
proof -
  show "reply_panic_free (fst (run_set_screen ops scr m))"
    by (auto simp: run_set_screen_def split: prod.split sum.split dest: reply_calm)
  show "reply_panic_free (fst (run_begin_history_dump ops m))"
    by (auto simp: run_begin_history_dump_def split: prod.split sum.split dest: reply_calm intro: panic_free_error)
  show "reply_panic_free (fst (run_end_history_dump ops i m))"
    by (auto simp: run_end_history_dump_def split: prod.split sum.split dest: reply_calm
        intro: panic_free_error [OF _ find_dump_panic_free])
  show "reply_panic_free (fst (run_read_history_chunk ops off len m))"
    by (auto simp: run_read_history_chunk_def split: prod.split dest: reply_calm)
  show "reply_panic_free (fst (run_clear_faults ops active logged m))"
    by (auto simp: run_clear_faults_def Let_def split: prod.split sum.split dest: reply_calm)
  show "reply_panic_free (fst (run_pause_display ops d m))"
    by (auto simp: run_pause_display_def Let_def split: prod.split sum.split dest: reply_calm intro: panic_free_error)
  show "reply_panic_free (fst (run_resume_display ops m))"
    by (auto simp: run_resume_display_def split: prod.split sum.split dest: reply_calm intro: panic_free_error)
  show "reply_panic_free (fst (run_read_configuration ops m))"
    by (auto simp: run_read_configuration_def split: prod.split dest: reply_calm)
  show "reply_panic_free (fst (run_reboot_device ops m))"
    by (auto simp: run_reboot_device_def split: prod.split dest: reply_calm)
qed

lemma chunk_reply: "reply_panic_free (fst (run_read_history_dump_chunk ops interrupt i off len m))"
  by (auto simp: run_read_history_dump_chunk_def Let_def split: prod.split sum.split dest: reply_calm
      intro: panic_free_error [OF _ find_dump_panic_free])

lemma theme_replies:
  "reply_panic_free (fst (run_read_theme_asset ops slot m))"
  "reply_panic_free (fst (run_write_theme_asset ops slot bytes m))"
  by (auto simp: run_read_theme_asset_def run_write_theme_asset_def not_ready_for_theme_def
      split: prod.split sum.split dest: reply_calm intro: panic_free_error theme_write_result_panic_free)

lemma item_reply: "reply_panic_free (fst (run_read_configuration_item ops jt key m))"
proof -
  have "calm (bindA (on_backend (be_read_configuration ops)) (\<lambda>c. liftA (mapR (json_print jt)
                   (settings_item (settings_from_configuration c) key))))"
    by (auto intro!: calm_intros backend_calm)
  from calmD [OF this] show ?thesis
    by (auto simp: run_read_configuration_item_def split: prod.split)
qed

lemma device_info_reply:
  assumes "rest inv m" shows "reply_panic_free (fst (run_read_device_info ops m))"
proof -
  have "\<exists>r. fst (run_read_device_info ops m) = ReplyIdentity r"
    by (simp add: run_read_device_info_def Let_def split: prod.split sum.split option.split)
  then obtain r where r: "fst (run_read_device_info ops m) = ReplyIdentity r" ..
  have "panic_free r"
  proof (cases r)
    case (Inl e)
    then have "e = NotConnected \<or> (\<exists>s. fst (be_read_build_information ops s) = Inl e)"
      using run_read_device_info_rest(2) [OF assms, of e] r by auto
    then show ?thesis
      using calm_build [unfolded calm_def] Inl by (auto intro: panic_free_error)
  qed simp
  then show ?thesis using r by simp
qed

lemma handle_command_panic_free:
  assumes "rest inv m" shows "reply_panic_free (fst (handle_command ops jt interrupt cmd m))"
  by (cases cmd) (simp_all add: short_replies chunk_reply theme_replies item_reply device_info_reply [OF assms]
      run_mutation_panic_free apply_calm set_item_calm nvm_calm run_get_poll_interval_def run_set_poll_interval_def)

end

section \<open>The daemon on the serial port\<close>

interpretation serial_daemon: panic_free_backend "serial_device t" "\<lambda>_. True" for t :: "'p tty"
  by unfold_locales (simp_all add: serial_device_def serial_calm)

text \<open>A port that answers the greeting, the vendor and version probes, and zeros otherwise.\<close>

definition answering_port :: "nat tty" where
  "answering_port = \<lparr>tty_open = (\<lambda>path w. (Inr (), w)), tty_set_exclusive = Pair (Inr ()),
     tty_clear_input = Pair (Inr ()), tty_request_to_send = (\<lambda>on. Pair (Inr ())),
     tty_write_all = (\<lambda>bytes. Pair (Inr ())), tty_flush = Pair (Inr ()),
     tty_read_exact = (\<lambda>n timeout w. (GotBytes
        (if n = WELCOME_RESPONSE_SIZE then WELCOME_MESSAGE @ [0]
         else if n = VENDOR_RESPONSE_SIZE then [0xef, 5, 1]
         else if n = CONFIG_VERSION_RESPONSE_SIZE then [0, 0, 2, 0]
         else replicate n 0), w)),
     tty_close = id, tty_sleep = (\<lambda>d w. w + d), tty_now = id, tty_unix_time_ms = word_of_nat\<rparr>"

definition serial_start :: "nat serial_backend manager" where
  "serial_start = spawn_manager (serial_device answering_port) (serial_backend_new 0) (ms 1000)"

definition serial_session :: "nat serial_backend manager" where
  "serial_session = handle_candidates (serial_device answering_port) [''/dev/ttyACM0''] serial_start"

lemma answering_port_simps [simp]:
  "tty_open answering_port path w = (Inr (), w)" "tty_sleep answering_port d w = w + d"
  "io_clear_input (serial_io_of answering_port) = Pair (Inr ())"
  "io_write_all (serial_io_of answering_port) bytes = Pair (Inr ())"
  "io_flush (serial_io_of answering_port) = Pair (Inr ())"
  "read_within (serial_io_of answering_port) n d msg = Pair (Inr (fit n
      (if n = WELCOME_RESPONSE_SIZE then WELCOME_MESSAGE @ [0]
         else if n = VENDOR_RESPONSE_SIZE then [0xef, 5, 1]
         else if n = CONFIG_VERSION_RESPONSE_SIZE then [0, 0, 2, 0]
         else replicate n 0)))"
  by (auto simp: serial_io_of_def answering_port_def map_err_def read_within_def fun_eq_iff)

lemma answering_response:
  "port_open sb \<Longrightarrow> response answering_port command n sb = (Inr (fit n
      (if n = WELCOME_RESPONSE_SIZE then WELCOME_MESSAGE @ [0]
         else if n = VENDOR_RESPONSE_SIZE then [0xef, 5, 1]
         else if n = CONFIG_VERSION_RESPONSE_SIZE then [0, 0, 2, 0]
         else replicate n 0)), sb)"
  by (simp add: response_def on_port_def on_world_def bindA_def Let_def)

lemma answering_greet: "greet answering_port w = (Inr False, w)"
  by (simp add: greet_def answering_port_def map_err_def bindA_def WELCOME_RESPONSE_SIZE_def fit_def nth_append)

lemma answering_connect:
  "\<exists>ident sb. serial_connect answering_port path (serial_backend_new 0) = (Inr ident, sb) \<and> port_open sb"
proof -
  have vendor: "fit VENDOR_RESPONSE_SIZE [0xef, 5, 1] = [0xef, 5, 1]"
    by (simp add: fit_def VENDOR_RESPONSE_SIZE_def)
  have version: "fit CONFIG_VERSION_RESPONSE_SIZE [0, 0, 2, 0] = [0, 0, 2, 0]"
    by (simp add: fit_def CONFIG_VERSION_RESPONSE_SIZE_def)
  have sizes: "VENDOR_RESPONSE_SIZE \<noteq> WELCOME_RESPONSE_SIZE" "CONFIG_VERSION_RESPONSE_SIZE \<noteq> WELCOME_RESPONSE_SIZE"
    "CONFIG_VERSION_RESPONSE_SIZE \<noteq> VENDOR_RESPONSE_SIZE"
    by (simp_all add: VENDOR_RESPONSE_SIZE_def CONFIG_VERSION_RESPONSE_SIZE_def WELCOME_RESPONSE_SIZE_def WELCOME_MESSAGE_def bytes_of_string_def)
  have open_it: "open_port answering_port path (serial_backend_new 0)
      = (Inr False, \<lparr>world = 0, port_open = True, config_version = None\<rparr>)"
    by (simp add: open_port_def answering_greet map_err_def serial_backend_new_def)
  show ?thesis
    by (simp add: serial_connect_def open_it idx_def bindA_def answering_response vendor version sizes numeral_3_eq_3
        serial_sleep_def send_def send_frame_def on_port_def on_world_def ok_or_def)
qed

lemma answering_telemetry:
  assumes "port_open sb" shows "\<exists>telem. serial_read_telemetry answering_port sb = (Inr telem, sb)"
proof -
  have sizes: "SENSOR_RESPONSE_SIZE \<noteq> WELCOME_RESPONSE_SIZE" "SENSOR_RESPONSE_SIZE \<noteq> VENDOR_RESPONSE_SIZE"
    "SENSOR_RESPONSE_SIZE \<noteq> CONFIG_VERSION_RESPONSE_SIZE"
    by (simp_all add: VENDOR_RESPONSE_SIZE_def CONFIG_VERSION_RESPONSE_SIZE_def WELCOME_RESPONSE_SIZE_def
        WELCOME_MESSAGE_def SENSOR_RESPONSE_SIZE_def bytes_of_string_def)
  have "\<exists>sensors. decode_sensor_response (fit SENSOR_RESPONSE_SIZE (replicate SENSOR_RESPONSE_SIZE 0)) = Inr sensors"
    by (simp add: decode_sensor_response_eq fit_def SENSOR_RESPONSE_SIZE_def cable_capability_def bindR_def)
  then show ?thesis
    using assms by (auto simp: serial_read_telemetry_def answering_response sizes bindA_def liftA_def)
qed

lemma serial_session_ready: "ready serial_session"
proof -
  obtain ident sb where c: "serial_connect answering_port ''/dev/ttyACM0'' (serial_backend_new 0) = (Inr ident, sb)"
    and "port_open sb"
    using answering_connect by blast
  moreover obtain telem where "serial_read_telemetry answering_port sb = (Inr telem, sb)"
    using answering_telemetry [OF \<open>port_open sb\<close>] by blast
  ultimately show ?thesis
    by (simp add: serial_session_def serial_start_def spawn_manager_def handle_candidates_def retry_is_due_def
        connect_def bump_and_publish_def set_connection_def Let_def on_backend_def serial_device_def
        connected_with_def send_event_def drop_leases_def clear_history_cancellation_def)
qed

text \<open>
  No operation of the backend panics in a state, whatever its arguments. The manager and the
  theme write turn some errors of an operation into a rollback or a retry; a panic there would
  not show in a reply.
\<close>

definition backend_panic_free :: "'b device_backend \<Rightarrow> 'b \<Rightarrow> bool" where
  "backend_panic_free ops b \<longleftrightarrow>
     (\<forall>path. panic_free (fst (be_connect ops path b)))
     \<and> panic_free (fst (be_read_build_information ops b))
     \<and> panic_free (fst (be_read_telemetry ops b))
     \<and> panic_free (fst (be_read_configuration ops b))
     \<and> (\<forall>c. panic_free (fst (be_write_configuration ops c b)))
     \<and> (\<forall>n. panic_free (fst (be_nvm_configuration ops n b)))
     \<and> panic_free (fst (be_reboot_device ops b))
     \<and> (\<forall>x y. panic_free (fst (be_clear_faults ops x y b)))
     \<and> panic_free (fst (be_pause_history_updates ops b))
     \<and> panic_free (fst (be_resume_history_updates ops b))
     \<and> (\<forall>off len cancelled. panic_free (fst (be_read_history_chunk ops off len cancelled b)))
     \<and> (\<forall>slot. panic_free (fst (be_read_theme_asset ops slot b)))
     \<and> (\<forall>slot bytes. panic_free (fst (be_write_theme_asset ops slot bytes b)))
     \<and> (\<forall>scr. panic_free (fst (be_set_screen ops scr b)))"

lemma serial_device_panic_free: "backend_panic_free (serial_device t) sb"
  unfolding backend_panic_free_def serial_device_def device_backend.simps
  by (intro conjI allI serial_calm [unfolded calm_def, rule_format])



end
