(* ===== verification/Service.thy ===== *)
theory Service
  imports Ipc Handle Daemon
begin

text \<open>
  The varlink service of \<open>src/varlink.rs\<close>: one definition per method, as an action on the manager
  the method's awaits reach (\<open>Handle\<close>). The service macro, the socket and the event stream's
  channel are third-party code; what the publisher task puts into the stream is \<open>event_feed\<close>. A
  \<open>u32\<close> always fits a \<open>usize\<close> on the targets of the daemon, so those conversions have no error
  branch here.
\<close>

section \<open>Actions with service errors\<close>

type_synonym ('s, 'a) service = "'s \<Rightarrow> 'a service_result \<times> 's"

definition retS :: "'a \<Rightarrow> ('s, 'a) service" where
  "retS x s = (Inr x, s)"

definition failS :: "wireview_error \<Rightarrow> ('s, 'a) service" where
  "failS e s = (Inl e, s)"

definition bindS :: "('s, 'a) service \<Rightarrow> ('a \<Rightarrow> ('s, 'b) service) \<Rightarrow> ('s, 'b) service" where
  "bindS act f s = (case act s of (Inl e, s') \<Rightarrow> (Inl e, s') | (Inr x, s') \<Rightarrow> f x s')"

text \<open>\<open>?\<close> on a device result, with the conversion of its error.\<close>

definition service_result :: "'a result \<Rightarrow> 'a service_result" where
  "service_result r = (case r of Inl e \<Rightarrow> Inl (wireview_error_from e) | Inr x \<Rightarrow> Inr x)"

definition liftS :: "'a result \<Rightarrow> ('s, 'a) service" where
  "liftS r s = (service_result r, s)"

definition dev :: "('s, 'a) action \<Rightarrow> ('s, 'a) service" where
  "dev act s = (case act s of (r, s') \<Rightarrow> (service_result r, s'))"

text \<open>Reading the watch channel.\<close>

definition see :: "('s \<Rightarrow> 'a \<times> 's) \<Rightarrow> ('s, 'a) service" where
  "see f s = (case f s of (x, s') \<Rightarrow> (Inr x, s'))"

definition expectS :: "string \<Rightarrow> 'a option \<Rightarrow> ('s, 'a) service" where
  "expectS msg x = (case x of None \<Rightarrow> failS (WPanicked msg) | Some v \<Rightarrow> retS v)"

lemma service_simps [simp]:
  "retS x s = (Inr x, s)" "failS e s = (Inl e, s)" "liftS r s = (service_result r, s)"
  "expectS msg (Some v) = retS v"
  by (simp_all add: retS_def failS_def liftS_def expectS_def)

lemma service_result_Inr [simp]: "service_result r = Inr x \<longleftrightarrow> r = Inr x"
  by (simp add: service_result_def split: sum.splits)

lemma bindS_Inr: "bindS act f s = (Inr y, t) \<longleftrightarrow> (\<exists>x s'. act s = (Inr x, s') \<and> f x s' = (Inr y, t))"
  by (auto simp: bindS_def split: prod.splits sum.splits)

lemma bindS_simps [simp]:
  "bindS (failS e) f s = (Inl e, s)" "bindS (retS x) f s = f x s"
  by (simp_all add: bindS_def)

section \<open>Conversions\<close>

definition status_from_state :: "'b server \<Rightarrow> daemon_state \<Rightarrow> status_dto" where
  "status_from_state sv value =
     \<lparr>st_api_version = API_VERSION,
      st_api_compatibility_id = api_compatibility_id (sv_sha256 sv) (sv_contract sv),
      st_api_capabilities = API_CAPABILITIES,
      st_daemon_version = sv_version sv,
      st_daemon_build_id = sv_build_id sv,
      st_state = connection_state_name (connection value),
      st_sequence = d_sequence value,
      st_session_id = d_session_id value,
      st_connected_port = (case connected_port value of None \<Rightarrow> [] | Some port \<Rightarrow> port),
      st_last_disconnect_reason = (case last_disconnect_reason value of None \<Rightarrow> []
         | Some reason \<Rightarrow> disconnect_reason_to_string reason),
      st_busy_operation = (case connection value of Busy _ operation \<Rightarrow> operation | _ \<Rightarrow> []),
      st_recovery_cause = (case connection value of Recovering _ cause \<Rightarrow> cause
         | UnsupportedState cause \<Rightarrow> cause | _ \<Rightarrow> []),
      st_candidates = (case connection value of AmbiguousDevice candidates \<Rightarrow> candidates | _ \<Rightarrow> []),
      st_poll_interval_ms = 0,
      st_display_paused = False,
      st_display_pause_debug_active = False,
      st_display_pause_history_active = False,
      st_display_pause_remaining_ms = 0\<rparr>"

text \<open>\<open>DeviceService::new\<close>: the stream starts with a snapshot of the state the service was created in
  and continues with the manager's events; a publisher that lags behind the channel skips some.\<close>

definition event_feed :: "'b server \<Rightarrow> daemon_state \<Rightarrow> device_event list \<Rightarrow> device_event_dto list" where
  "event_feed sv created received =
     event_snapshot (status_from_state sv created) # map event_dto_from received"

definition configuration_dto_of ::
  "'b server \<Rightarrow> device_configuration \<Rightarrow> u64 \<Rightarrow> configuration_dto service_result" where
  "configuration_dto_of sv configuration session_id =
     mapR (\<lambda>rev. \<lparr>configuration_json =
              json_print (sv_json sv) (settings_to_json (settings_from_configuration configuration)),
            revision = rev\<rparr>)
       (service_result (configuration_revision session_id configuration))"

definition configuration_settings :: "'b server \<Rightarrow> configuration_dto \<Rightarrow> device_settings service_result" where
  "configuration_settings sv dto = service_result (settings_from_json (sv_json sv) (configuration_json dto))"

definition display_pause_dto_of :: "display_pause_state \<Rightarrow> display_pause_dto" where
  "display_pause_dto_of value =
     \<lparr>dp_paused = pause_paused value, dp_debug_lease_active = pause_debug_lease_active value,
      dp_history_dump_active = pause_history_dump_active value,
      dp_remaining_ms = pause_remaining_ms value\<rparr>"

definition require_confirmation :: "bool \<Rightarrow> string \<Rightarrow> ('s, unit) service" where
  "require_confirmation confirm operation =
    (if confirm then retS ()
     else failS (WInvalidArgument (operation @ '' requires explicit confirmation'')))"

definition session_now :: "'b server \<Rightarrow> nat \<Rightarrow> ('b manager, u64) service" where
  "session_now sv k = bindS (see (handle_state sv k)) (\<lambda>d. retS (d_session_id d))"

section \<open>Methods\<close>

text \<open>Replies with a single field are that field.\<close>

definition get_status :: "'b server \<Rightarrow> 'b manager \<Rightarrow> status_dto \<times> 'b manager" where
  "get_status sv m =
     (case handle_state sv 0 m of (d, m1) \<Rightarrow>
      case handle_poll_interval_ms sv 1 m1 of (interval, m2) \<Rightarrow>
      case handle_display_pause_state sv 2 m2 of (pause, m3) \<Rightarrow>
        let status = (status_from_state sv d)
              \<lparr>st_poll_interval_ms := (case interval of Inl _ \<Rightarrow> 0 | Inr v \<Rightarrow> v)\<rparr>
        in ((case pause of
               Inl _ \<Rightarrow> status
             | Inr p \<Rightarrow> status\<lparr>st_display_paused := pause_paused p,
                 st_display_pause_debug_active := pause_debug_lease_active p,
                 st_display_pause_history_active := pause_history_dump_active p,
                 st_display_pause_remaining_ms := pause_remaining_ms p\<rparr>), m3))"

definition get_telemetry :: "'b server \<Rightarrow> ('b manager, telemetry_dto) service" where
  "get_telemetry sv =
     bindS (see (handle_state sv 0)) (\<lambda>d. case d_telemetry d of
         None \<Rightarrow> failS (WUnavailable ''telemetry is not available'')
       | Some telem \<Rightarrow> retS (telemetry_dto_from telem))"

definition svc_set_screen :: "'b server \<Rightarrow> string \<Rightarrow> ('b manager, string) service" where
  "svc_set_screen sv screen =
     bindS (liftS (screen_from_str screen)) (\<lambda>screen.
     bindS (dev (handle_set_screen sv 0 screen)) (\<lambda>_. retS (screen_debug screen)))"

definition history_reply :: "string \<Rightarrow> nat \<Rightarrow> u8 list \<Rightarrow> ('s, history_chunk_dto) service" where
  "history_reply misfit off bytes =
     bindS (expectS misfit (u32_try_from off)) (\<lambda>off.
     bindS (expectS ''history length fits u32'' (u32_try_from FLASH_LENGTH)) (\<lambda>total_len.
       retS \<lparr>hc_offset = off, hc_total_bytes = total_len, hc_data = bytes\<rparr>))"

definition svc_read_history_chunk ::
  "'b server \<Rightarrow> u32 \<Rightarrow> u32 \<Rightarrow> ('b manager, history_chunk_dto) service" where
  "svc_read_history_chunk sv off len =
     bindS (dev (handle_read_history_chunk sv 0 (unat off) (unat len)))
       (history_reply ''Varlink offset originated as u32'' (unat off))"

definition svc_begin_history_dump :: "'b server \<Rightarrow> ('b manager, history_dump_dto) service" where
  "svc_begin_history_dump sv =
     bindS (dev (handle_begin_history_dump sv 0)) (\<lambda>dump.
       case u32_try_from (dump_total_bytes dump) of
         None \<Rightarrow> failS (WDeviceError ''history length does not fit the Varlink contract'')
       | Some total_len \<Rightarrow> retS \<lparr>hd_dump_id = dump_id dump, hd_session_id = dump_session dump,
                             hd_total_bytes = total_len\<rparr>)"

definition svc_read_history_dump_chunk ::
  "'b server \<Rightarrow> u64 \<Rightarrow> u32 \<Rightarrow> u32 \<Rightarrow> ('b manager, history_chunk_dto) service" where
  "svc_read_history_dump_chunk sv dump off len =
     bindS (dev (handle_read_history_dump_chunk sv 0 dump (unat off) (unat len)))
       (history_reply ''offset originated as u32'' (unat off))"

definition svc_end_history_dump :: "'b server \<Rightarrow> u64 \<Rightarrow> ('b manager, unit) service" where
  "svc_end_history_dump sv dump = dev (handle_end_history_dump sv 0 dump)"

definition svc_read_theme_asset :: "'b server \<Rightarrow> string \<Rightarrow> ('b manager, theme_asset_dto) service" where
  "svc_read_theme_asset sv slot =
     bindS (liftS (slot_from_str slot)) (\<lambda>slot.
     bindS (dev (handle_read_theme_asset sv 0 slot)) (\<lambda>bytes.
       if length bytes \<noteq> slot_byte_len slot then
         failS (WDeviceError (''device returned '' @ show_nat (length bytes) @ '' bytes for ''
           @ slot_name slot @ '', expected '' @ show_nat (slot_byte_len slot)))
       else bindS (expectS ''theme asset length fits u32'' (u32_try_from (length bytes))) (\<lambda>len.
         retS \<lparr>ta_slot = slot_name slot, ta_width = slot_width slot, ta_height = slot_height slot,
               ta_byte_length = len, ta_sha256 = sha256_hex (sv_sha256 sv) bytes, ta_data = bytes\<rparr>)))"

definition svc_write_theme_asset ::
  "'b server \<Rightarrow> string \<Rightarrow> u32 \<Rightarrow> string \<Rightarrow> u8 list \<Rightarrow> bool \<Rightarrow> ('b manager, theme_asset_write_dto) service" where
  "svc_write_theme_asset sv slot byte_length sha256 bytes confirm =
     bindS (require_confirmation confirm ''writing a theme asset'') (\<lambda>_.
     bindS (liftS (slot_from_str slot)) (\<lambda>slot.
       if unat byte_length \<noteq> length bytes \<or> length bytes \<noteq> slot_byte_len slot then
         failS (WInvalidArgument (''theme asset '' @ slot_name slot @ '' must be exactly ''
           @ show_nat (slot_byte_len slot) @ '' bytes''))
       else
         let actual_sha256 = sha256_hex (sv_sha256 sv) bytes in
         if sha256 \<noteq> actual_sha256 then
           failS (WInvalidArgument ''theme asset SHA-256 does not match its data'')
         else bindS (dev (handle_write_theme_asset sv 0 slot bytes)) (\<lambda>_.
           retS \<lparr>tw_slot = slot_name slot, tw_byte_length = byte_length, tw_sha256 = actual_sha256\<rparr>)))"

definition svc_get_device_info :: "'b server \<Rightarrow> ('b manager, device_info_dto) service" where
  "svc_get_device_info sv =
     bindS (dev (handle_read_device_info sv 0)) (\<lambda>ident. retS (device_info_from ident))"

definition svc_clear_faults ::
  "'b server \<Rightarrow> u16 \<Rightarrow> u16 \<Rightarrow> bool \<Rightarrow> ('b manager, telemetry_dto) service" where
  "svc_clear_faults sv active_mask logged_mask confirm =
     bindS (require_confirmation confirm ''clearing device faults'') (\<lambda>_.
     bindS (dev (handle_clear_faults sv 0 active_mask logged_mask)) (\<lambda>telem.
       retS (telemetry_dto_from telem)))"

definition svc_get_poll_interval :: "'b server \<Rightarrow> ('b manager, u64) service" where
  "svc_get_poll_interval sv = dev (handle_poll_interval_ms sv 0)"

definition svc_set_poll_interval :: "'b server \<Rightarrow> u64 \<Rightarrow> ('b manager, u64) service" where
  "svc_set_poll_interval sv milliseconds = dev (handle_set_poll_interval_ms sv 0 milliseconds)"

definition svc_pause_display :: "'b server \<Rightarrow> u64 \<Rightarrow> ('b manager, display_pause_dto) service" where
  "svc_pause_display sv milliseconds =
     bindS (dev (handle_pause_display sv 0 milliseconds)) (\<lambda>p. retS (display_pause_dto_of p))"

definition svc_resume_display :: "'b server \<Rightarrow> ('b manager, display_pause_dto) service" where
  "svc_resume_display sv =
     bindS (dev (handle_resume_display sv 0)) (\<lambda>p. retS (display_pause_dto_of p))"

text \<open>The configuration that was read or changed, with the session at the time of the reply.\<close>

definition reply_configuration ::
  "'b server \<Rightarrow> nat \<Rightarrow> device_configuration \<Rightarrow> ('b manager, configuration_dto) service" where
  "reply_configuration sv k configuration =
     bindS (session_now sv k) (\<lambda>session_id m. (configuration_dto_of sv configuration session_id, m))"

definition svc_get_configuration :: "'b server \<Rightarrow> ('b manager, configuration_dto) service" where
  "svc_get_configuration sv =
     bindS (dev (handle_read_configuration sv 0)) (reply_configuration sv 1)"

definition svc_get_configuration_item ::
  "'b server \<Rightarrow> string \<Rightarrow> ('b manager, configuration_item_dto) service" where
  "svc_get_configuration_item sv key =
     bindS (dev (handle_read_configuration_item sv 0 key)) (\<lambda>json.
       retS \<lparr>ci_key = key, ci_value_json = json\<rparr>)"

text \<open>The common body of \<open>apply_configuration\<close> and \<open>store_configuration\<close>.\<close>

definition change_configuration ::
  "'b server \<Rightarrow> configuration_dto \<Rightarrow> bool \<Rightarrow> ('b manager, configuration_dto) service" where
  "change_configuration sv dto persist =
     bindS (dev (handle_read_configuration sv 0)) (\<lambda>current.
     bindS (session_now sv 1) (\<lambda>session_id.
     bindS (liftS (configuration_revision session_id current)) (\<lambda>current_revision.
     if revision dto \<noteq> current_revision then
       failS (WRevisionConflict ''configuration changed; run `wireview config show --json` again'')
     else
       bindS (\<lambda>m. (configuration_settings sv dto, m)) (\<lambda>settings.
       bindS (liftS (with_protocol_metadata settings current)) (\<lambda>configuration.
       bindS (dev (handle_apply_configuration_if_revision sv 2 configuration persist current_revision))
         (reply_configuration sv 3))))))"

definition svc_apply_configuration ::
  "'b server \<Rightarrow> configuration_dto \<Rightarrow> ('b manager, configuration_dto) service" where
  "svc_apply_configuration sv dto = change_configuration sv dto False"

definition svc_store_configuration ::
  "'b server \<Rightarrow> configuration_dto \<Rightarrow> bool \<Rightarrow> ('b manager, configuration_dto) service" where
  "svc_store_configuration sv dto confirm =
     bindS (require_confirmation confirm ''storing device configuration'') (\<lambda>_.
       change_configuration sv dto True)"

definition svc_set_configuration_item ::
  "'b server \<Rightarrow> string \<Rightarrow> string \<Rightarrow> bool \<Rightarrow> bool \<Rightarrow> ('b manager, configuration_item_dto) service" where
  "svc_set_configuration_item sv key val persist confirm =
     bindS (if persist then require_confirmation confirm ''storing a device configuration item'' else retS ()) (\<lambda>_.
     bindS (dev (handle_set_configuration_item sv 0 key val persist)) (\<lambda>configuration.
     bindS (liftS (settings_item (settings_from_configuration configuration) key)) (\<lambda>v.
       retS \<lparr>ci_key = key, ci_value_json = json_print (sv_json sv) v\<rparr>)))"

definition svc_reload_configuration :: "'b server \<Rightarrow> ('b manager, configuration_dto) service" where
  "svc_reload_configuration sv =
     bindS (dev (handle_reload_configuration sv 0)) (reply_configuration sv 1)"

definition svc_reset_configuration :: "'b server \<Rightarrow> bool \<Rightarrow> ('b manager, configuration_dto) service" where
  "svc_reset_configuration sv confirm =
     bindS (require_confirmation confirm ''resetting device configuration'') (\<lambda>_.
     bindS (dev (handle_reset_configuration sv 0)) (reply_configuration sv 1))"

definition svc_reboot_device :: "'b server \<Rightarrow> bool \<Rightarrow> ('b manager, bool) service" where
  "svc_reboot_device sv confirm =
     bindS (require_confirmation confirm ''rebooting the device'') (\<lambda>_.
     bindS (dev (handle_reboot_device sv 0)) (\<lambda>_. retS True))"

end
