(* ===== verification/ServiceProps.thy ===== *)
theory ServiceProps
  imports Service
begin

text \<open>
  Properties of the service over the manager and the devices: confirmation and checks before
  anything destructive, the revision guard of a configuration change end to end, the status a
  client reads, and that no method panics. Between two awaits of a method the manager may have
  run any steps for other clients (\<open>serves\<close>).
\<close>

definition serves :: "'b server \<Rightarrow> ('b \<Rightarrow> 'b \<Rightarrow> bool) \<Rightarrow> bool" where
  "serves sv moves_on \<longleftrightarrow>
     (\<forall>k m. manager_reachable (sv_ops sv) (sv_json sv) moves_on m (sv_others sv k m))"

lemma others_rest:
  assumes "lawful_backend (sv_ops sv) good" and "serves sv moves_on" and "world_safe good moves_on"
    and "rest good m"
  shows "rest good (sv_others sv k m)"
  by (rule lawful_backend.reachable_rest [OF assms(1) _ assms(4), where moves_on = moves_on and jt = "sv_json sv"])
    (use assms(2,3) in \<open>auto simp: serves_def world_safe_def\<close>)

section \<open>No method panics\<close>

definition service_panic_free :: "'a service_result \<Rightarrow> bool" where
  "service_panic_free r \<longleftrightarrow> (\<forall>msg. r \<noteq> Inl (WPanicked msg))"

lemma service_result_panic_free [simp]: "service_panic_free (service_result r) \<longleftrightarrow> panic_free r"
  by (cases r) (use wireview_error_outcome(4) in
      \<open>auto simp: service_panic_free_def service_result_def panic_free_Inl\<close>)

lemma service_panic_free_simps [simp]:
  "service_panic_free (Inr x)" "service_panic_free (Inl (WInvalidArgument msg))"
  "service_panic_free (Inl (WDeviceError msg))" "service_panic_free (Inl (WUnavailable msg))"
  "service_panic_free (Inl (WRevisionConflict msg))"
  by (simp_all add: service_panic_free_def)

lemma service_panic_free_mapR [simp]: "service_panic_free (mapR f r) \<longleftrightarrow> service_panic_free r"
  by (cases r) (simp_all add: service_panic_free_def)

text \<open>A method that keeps the manager between branches and never panics, from states of a kind.\<close>

definition serene :: "('s \<Rightarrow> bool) \<Rightarrow> ('s, 'a) service \<Rightarrow> bool" where
  "serene I act \<longleftrightarrow> (\<forall>s. I s \<longrightarrow> service_panic_free (fst (act s)) \<and> I (snd (act s)))"

named_theorems serene_intros \<open>which methods never panic\<close>

lemma serene_basic [serene_intros]:
  "serene I (retS x)" "service_panic_free (Inl e :: 'a service_result) \<Longrightarrow> serene I (failS e :: ('s, 'a) service)"
  "panic_free r \<Longrightarrow> serene I (liftS r)" "serene I (require_confirmation confirm operation)"
  by (simp_all add: serene_def require_confirmation_def)

lemma serene_bindS [serene_intros]:
  assumes "serene I act" and "\<And>x. serene I (f x)"
  shows "serene I (bindS act f)"
  unfolding serene_def
proof (intro allI impI)
  fix s assume s: "I s"
  obtain r s' where act: "act s = (r, s')" by fastforce
  then have r: "service_panic_free r" "I s'" using assms(1) s by (auto simp: serene_def)
  show "service_panic_free (fst (bindS act f s)) \<and> I (snd (bindS act f s))"
  proof (cases r)
    case (Inl e)
    then show ?thesis using act r by (simp add: bindS_def service_panic_free_def)
  next
    case (Inr x)
    then show ?thesis using act r(2) assms(2) [of x] by (simp add: bindS_def serene_def)
  qed
qed

lemma serene_if [serene_intros]:
  "(c \<Longrightarrow> serene I a) \<Longrightarrow> (\<not> c \<Longrightarrow> serene I b) \<Longrightarrow> serene I (if c then a else b)"
  by simp

lemma project_panic_free:
  assumes "reply_panic_free r"
  shows "panic_free (unit_reply (Some r))" "panic_free (bytes_reply (Some r))" "panic_free (dump_reply (Some r))"
    "panic_free (identity_reply (Some r))" "panic_free (telemetry_reply (Some r))"
    "panic_free (interval_reply (Some r))" "panic_free (pause_reply (Some r))"
    "panic_free (configuration_reply (Some r))" "panic_free (item_reply (Some r))"
  using assms by (cases r; simp add: panic_free_Inl)+

lemma project_stopped:
  "panic_free (unit_reply None)" "panic_free (bytes_reply None)" "panic_free (dump_reply None)"
  "panic_free (identity_reply None)" "panic_free (telemetry_reply None)" "panic_free (interval_reply None)"
  "panic_free (pause_reply None)" "panic_free (configuration_reply None)" "panic_free (item_reply None)"
  by (simp_all add: panic_free_Inl)

context panic_free_backend
begin

lemma answer_serene:
  assumes "sv_ops sv = ops" and "serves sv moves_on" and "world_safe inv moves_on"
    and "panic_free (project None)" and "\<And>r. reply_panic_free r \<Longrightarrow> panic_free (project (Some r))"
  shows "serene (rest inv) (dev (answer sv k project cmd))"
  unfolding serene_def
proof (intro allI impI)
  fix m :: "'a manager" assume m: "rest inv m"
  have lawful: "lawful_backend (sv_ops sv) inv" unfolding assms(1) by (rule lawful_backend_axioms)
  have "rest inv (sv_others sv k m)" by (rule others_rest [OF lawful assms(2,3) m])
  then show "service_panic_free (fst (dev (answer sv k project cmd) m))
      \<and> rest inv (snd (dev (answer sv k project cmd) m))"
    using handle_command_panic_free handle_command_rest assms(1,4,5)
    by (auto simp: dev_def answer_def ask_def Let_def split: prod.split) (metis fst_conv snd_conv)+
qed

lemma see_serene:
  assumes "sv_ops sv = ops" and "serves sv moves_on" and "world_safe inv moves_on"
  shows "serene (rest inv) (see (handle_state sv k))"
  unfolding serene_def
proof (intro allI impI)
  fix m :: "'a manager" assume m: "rest inv m"
  have lawful: "lawful_backend (sv_ops sv) inv" unfolding assms(1) by (rule lawful_backend_axioms)
  have r: "rest inv (sv_others sv k m)" by (rule others_rest [OF lawful assms(2,3) m])
  then show "service_panic_free (fst (see (handle_state sv k) m)) \<and> rest inv (snd (see (handle_state sv k) m))"
    by (simp add: see_def handle_state_def Let_def)
qed

lemma end_dump_serene:
  assumes "sv_ops sv = ops" and "serves sv moves_on" and "world_safe inv moves_on"
  shows "serene (rest inv) (dev (handle_end_history_dump sv k dump))"
  unfolding serene_def
proof (intro allI impI)
  fix m :: "'a manager" assume m: "rest inv m"
  have "rest inv (cancel_history (Some dump) m)"
    by (rule manager_step_rest [OF manager_step.cancel m, where moves_on = "(=)"]) simp
  then show "service_panic_free (fst (dev (handle_end_history_dump sv k dump) m))
      \<and> rest inv (snd (dev (handle_end_history_dump sv k dump) m))"
    using answer_serene [OF assms, of unit_reply k "CmdEndHistoryDump dump"] project_panic_free(1)
    by (simp add: serene_def dev_def handle_end_history_dump_def panic_free_Inl)
qed

lemma handles_serene:
  assumes "sv_ops sv = ops" and "serves sv moves_on" and "world_safe inv moves_on"
  shows "serene (rest inv) (dev (handle_set_screen sv k scr))"
    "serene (rest inv) (dev (handle_read_history_chunk sv k off len))"
    "serene (rest inv) (dev (handle_read_theme_asset sv k slot))"
    "serene (rest inv) (dev (handle_write_theme_asset sv k slot bytes))"
    "serene (rest inv) (dev (handle_begin_history_dump sv k))"
    "serene (rest inv) (dev (handle_read_history_dump_chunk sv k dump off len))"
    "serene (rest inv) (dev (handle_read_device_info sv k))"
    "serene (rest inv) (dev (handle_clear_faults sv k active logged))"
    "serene (rest inv) (dev (handle_poll_interval_ms sv k))"
    "serene (rest inv) (dev (handle_set_poll_interval_ms sv k d))"
    "serene (rest inv) (dev (handle_pause_display sv k d))"
    "serene (rest inv) (dev (handle_resume_display sv k))"
    "serene (rest inv) (dev (handle_read_configuration sv k))"
    "serene (rest inv) (dev (handle_read_configuration_item sv k key))"
    "serene (rest inv) (dev (handle_apply_configuration_if_revision sv k c persist rv))"
    "serene (rest inv) (dev (handle_reload_configuration sv k))"
    "serene (rest inv) (dev (handle_set_configuration_item sv k key val persist))"
    "serene (rest inv) (dev (handle_reset_configuration sv k))"
    "serene (rest inv) (dev (handle_reboot_device sv k))"
  unfolding handle_set_screen_def handle_read_history_chunk_def handle_read_theme_asset_def
    handle_write_theme_asset_def handle_begin_history_dump_def handle_read_history_dump_chunk_def
    handle_read_device_info_def handle_clear_faults_def handle_poll_interval_ms_def
    handle_set_poll_interval_ms_def handle_pause_display_def handle_resume_display_def
    handle_read_configuration_def handle_read_configuration_item_def
    handle_apply_configuration_if_revision_def handle_reload_configuration_def
    handle_set_configuration_item_def handle_reset_configuration_def handle_reboot_device_def
  by (rule answer_serene [OF assms]; (rule project_stopped | erule project_panic_free))+

lemma reply_configuration_serene:
  assumes "sv_ops sv = ops" and "serves sv moves_on" and "world_safe inv moves_on"
  shows "serene (rest inv) (reply_configuration sv k c)"
proof -
  have "serene (rest inv) (\<lambda>m. (configuration_dto_of sv c sid, m))" for sid
  proof -
    have "service_panic_free (configuration_dto_of sv c sid)"
      by (simp add: configuration_dto_of_def)
    then show ?thesis by (simp add: serene_def)
  qed
  then show ?thesis
    unfolding reply_configuration_def session_now_def
    by (intro serene_intros see_serene [OF assms])
qed

lemma history_reply_serene: "off < 2 ^ 32 \<Longrightarrow> serene I (history_reply misfit off bytes)"
  unfolding history_reply_def
  by (intro serene_intros) (simp_all add: u32_try_from_def FLASH_LENGTH_def serene_basic)

lemma change_configuration_serene:
  assumes "sv_ops sv = ops" and "serves sv moves_on" and "world_safe inv moves_on"
  shows "serene (rest inv) (change_configuration sv dto persist)"
proof -
  have "serene (rest inv) (\<lambda>m. (configuration_settings sv dto, m))"
  proof -
    have "panic_free (settings_from_json (sv_json sv) (configuration_json dto))"
      unfolding settings_from_json_def by (auto intro!: panic_free_bindR split: sum.splits option.splits)
    then show ?thesis by (simp add: serene_def configuration_settings_def)
  qed
  then show ?thesis
    unfolding change_configuration_def session_now_def
    by (intro serene_intros handles_serene [OF assms] see_serene [OF assms] reply_configuration_serene [OF assms])
      simp_all
qed

lemmas method_serene = handles_serene see_serene end_dump_serene reply_configuration_serene
  change_configuration_serene

lemma methods_serene:
  assumes "sv_ops sv = ops" and "serves sv moves_on" and "world_safe inv moves_on"
  shows "serene (rest inv) (get_telemetry sv)"
    "serene (rest inv) (svc_set_screen sv scr)"
    "serene (rest inv) (svc_read_history_chunk sv off len)"
    "serene (rest inv) (svc_begin_history_dump sv)"
    "serene (rest inv) (svc_read_history_dump_chunk sv dump off len)"
    "serene (rest inv) (svc_end_history_dump sv dump)"
    "serene (rest inv) (svc_read_theme_asset sv slot)"
    "serene (rest inv) (svc_write_theme_asset sv slot n sha bytes confirm)"
    "serene (rest inv) (svc_get_device_info sv)"
    "serene (rest inv) (svc_clear_faults sv active logged confirm)"
    "serene (rest inv) (svc_get_poll_interval sv)"
    "serene (rest inv) (svc_set_poll_interval sv d)"
    "serene (rest inv) (svc_pause_display sv d)"
    "serene (rest inv) (svc_resume_display sv)"
    "serene (rest inv) (svc_get_configuration sv)"
    "serene (rest inv) (svc_get_configuration_item sv key)"
    "serene (rest inv) (svc_apply_configuration sv dto)"
    "serene (rest inv) (svc_store_configuration sv dto confirm)"
    "serene (rest inv) (svc_set_configuration_item sv key val persist confirm)"
    "serene (rest inv) (svc_reload_configuration sv)"
    "serene (rest inv) (svc_reset_configuration sv confirm)"
    "serene (rest inv) (svc_reboot_device sv confirm)"
proof -
  note ms = method_serene [OF assms]
  show "serene (rest inv) (get_telemetry sv)"
    unfolding get_telemetry_def by (intro serene_intros ms) (auto split: option.split intro: serene_intros)
  show "serene (rest inv) (svc_set_screen sv scr)"
    unfolding svc_set_screen_def by (intro serene_intros ms screen_from_str_total)
  show "serene (rest inv) (svc_read_history_chunk sv off len)"
    "serene (rest inv) (svc_read_history_dump_chunk sv dump off len)"
  proof -
    have "unat off < 2 ^ LENGTH(32)" by (rule unsigned_less)
    then have off: "unat off < 2 ^ 32" by simp
    show "serene (rest inv) (svc_read_history_chunk sv off len)"
      "serene (rest inv) (svc_read_history_dump_chunk sv dump off len)"
      unfolding svc_read_history_chunk_def svc_read_history_dump_chunk_def
      by (intro serene_intros ms history_reply_serene [OF off])+
  qed
  show "serene (rest inv) (svc_begin_history_dump sv)"
    unfolding svc_begin_history_dump_def
    by (intro serene_intros ms) (auto split: option.split intro: serene_intros)
  show "serene (rest inv) (svc_read_theme_asset sv slot)"
    unfolding svc_read_theme_asset_def
    by (intro serene_intros ms) (auto simp: slot_from_str_def u32_try_from_def slot_byte_len_numeral
        split: theme_asset_slot.splits intro!: serene_intros)
  show "serene (rest inv) (svc_write_theme_asset sv slot n sha bytes confirm)"
    unfolding svc_write_theme_asset_def Let_def
    by (intro serene_intros ms) (simp_all add: slot_from_str_def)
  show "serene (rest inv) (svc_set_configuration_item sv key val persist confirm)"
    unfolding svc_set_configuration_item_def by (intro serene_intros ms) simp
qed (unfold svc_end_history_dump_def svc_get_device_info_def svc_clear_faults_def svc_get_poll_interval_def
    svc_set_poll_interval_def svc_pause_display_def svc_resume_display_def svc_get_configuration_def
    svc_get_configuration_item_def svc_apply_configuration_def svc_store_configuration_def
    svc_reload_configuration_def svc_reset_configuration_def svc_reboot_device_def,
    (intro serene_intros method_serene [OF assms])+)

end

lemma serene_run:
  assumes "serene (rest good) act" and "rest good m"
  shows "service_panic_free (fst (act m))"
  using assms by (simp add: serene_def)

lemma answering_serves_rest:
  assumes "manager_reachable (serial_device t) jt moves_on (spawn_manager (serial_device t) b interval) m"
  shows "rest (\<lambda>_. True) m" and "world_safe (\<lambda>_. True) moves_on"
  using reachable_from_spawn [OF serial.lawful_backend_axioms TrueI _ assms] by (simp_all add: world_safe_def)


text \<open>The device of \<open>Daemon\<close> behind the service.\<close>

definition answering_server :: "nat serial_backend server" where
  "answering_server = \<lparr>sv_ops = serial_device answering_port, sv_json = example_json,
     sv_sha256 = (\<lambda>_. replicate 32 0), sv_contract = ''interface'', sv_version = ''1.1.1'',
     sv_build_id = ''test'', sv_interrupt = (\<lambda>_. False), sv_others = (\<lambda>_ m. m), sv_lag = (\<lambda>_. 0)\<rparr>"


section \<open>What a method does to the manager\<close>

abbreviation service_run :: "'b server \<Rightarrow> ('b \<Rightarrow> 'b \<Rightarrow> bool) \<Rightarrow> 'b manager \<Rightarrow> 'b manager \<Rightarrow> bool" where
  "service_run sv moves_on \<equiv> manager_reachable (sv_ops sv) (sv_json sv) moves_on"

lemma manager_reachable_trans:
  assumes "manager_reachable ops jt moves_on m2 m3" and "manager_reachable ops jt moves_on m1 m2"
  shows "manager_reachable ops jt moves_on m1 m3"
  using assms by (induction rule: manager_reachable.induct) (auto intro: manager_reachable.step)

text \<open>An answered command was handled in a state the manager reached by itself.\<close>

lemma answer_Inr:
  assumes "dev (answer sv k project cmd) m = (Inr x, m')" and "serves sv moves_on"
    and "project None = Inl ManagerStopped"
  shows "\<exists>n r. service_run sv moves_on m n \<and> \<not> stopped n
    \<and> handle_command (sv_ops sv) (sv_json sv) (sv_interrupt sv) cmd n = (r, m')
    \<and> project (Some r) = Inr x \<and> service_run sv moves_on n m'"
proof -
  let ?n = "sv_others sv k m"
  have running: "\<not> stopped ?n"
    using assms(1,3) by (auto simp: dev_def answer_def ask_def Let_def split: if_splits)
  obtain r n' where h: "handle_command (sv_ops sv) (sv_json sv) (sv_interrupt sv) cmd ?n = (r, n')" by fastforce
  then have "n' = m'" "project (Some r) = Inr x"
    using assms(1) running by (auto simp: dev_def answer_def ask_def Let_def)
  moreover have "service_run sv moves_on m ?n" using assms(2) by (simp add: serves_def)
  moreover have "service_run sv moves_on ?n m'"
    using manager_step.command [OF running, of "sv_ops sv" "sv_json sv" moves_on "sv_interrupt sv" cmd] h \<open>n' = m'\<close>
    by (auto intro: manager_reachable.step [OF manager_reachable.start])
  ultimately show ?thesis using running h by blast
qed

lemma see_Inr:
  "see (handle_state sv k) m = (r, m') \<Longrightarrow> serves sv moves_on \<Longrightarrow> service_run sv moves_on m m'"
  by (auto simp: see_def handle_state_def Let_def serves_def)

section \<open>The revision guard\<close>

context configuration_device
begin

text \<open>A change that names a revision only succeeds on the configuration that has it.\<close>

lemma apply_configuration_revision:
  assumes "inv (backend m)" and "apply_configuration ops c persist (Some rv) m = (Inr d, m')"
  shows "\<exists>old. active (backend m) = Some old \<and> configuration_revision (session m) old = Inr rv"
proof -
  obtain q m1 where q: "on_backend (be_read_configuration ops) m = (q, m1)" by fastforce
  obtain old where old: "q = Inr old" "check_current (session m1) c (Some rv) old = Inr ()"
    using assms(2) q
    by (auto simp: apply_configuration_def bindA_def split: sum.splits)
  have "session m1 = session m" using q by (auto simp: on_backend_def split: prod.splits)
  then have "configuration_revision (session m) old = Inr rv"
    using old(2) by (auto simp: check_current_def bindR_Inr failIf_Inr)
  then show ?thesis using on_read(3) [OF assms(1) q] old(1) by auto
qed

lemma apply_command_guard:
  assumes "inv (backend m)"
    and "handle_command ops jt interrupt (CmdApplyConfiguration c True (Some rv)) m
      = (ReplyConfiguration (Inr d), m')"
  shows "ready m \<and> (\<exists>old. active (backend m) = Some old \<and> configuration_revision (session m) old = Inr rv)
    \<and> active (backend m') = Some d \<and> stored (backend m') = Some d \<and> same_settings d c"
proof -
  let ?busy = "set_busy ''storing_configuration'' m"
  have ready: "ready m" using assms(2) by (auto simp: run_mutation_def split: if_splits)
  obtain q m1 where q: "apply_configuration ops c True (Some rv) ?busy = (q, m1)" by fastforce
  have "hide_loss q = Inr d" "m' = settle ops (q, m1)"
    using assms(2) q ready by (auto simp: run_mutation_def finish_configuration_mutation_def)
  then have r: "q = Inr d" "backend m' = backend m1"
    by (auto simp: hide_loss_def settle_backend split: if_splits)
  have b: "backend ?busy = backend m" "session ?busy = session m"
    by (simp_all add: set_busy_def set_connection_def)
  obtain old where "active (backend m) = Some old" "configuration_revision (session m) old = Inr rv"
    using apply_configuration_revision [OF _ q [unfolded r(1)], unfolded b, OF assms(1)] by blast
  then show ?thesis
    using apply_configuration_outcome [OF _ _ q [unfolded r(1)], unfolded b, OF assms(1)] ready r(2)
    by auto
qed

end

lemma configuration_reply_Inr: "configuration_reply (Some r) = Inr c \<longleftrightarrow> r = ReplyConfiguration (Inr c)"
  by (cases r) auto

lemma with_protocol_metadata_settings:
  "with_protocol_metadata settings current = Inr c \<Longrightarrow> settings_from_configuration c = settings"
  by (auto simp: with_protocol_metadata_def bindR_Inr settings_from_configuration_def)

lemma change_configuration_Inr:
  assumes "change_configuration sv dto persist m = (Inr dto', m')" and "serves sv moves_on"
  shows "\<exists>settings c n applied n'. settings_from_json (sv_json sv) (configuration_json dto) = Inr settings
    \<and> settings_from_configuration c = settings \<and> service_run sv moves_on m n
    \<and> handle_command (sv_ops sv) (sv_json sv) (sv_interrupt sv)
          (CmdApplyConfiguration c persist (Some (revision dto))) n = (ReplyConfiguration (Inr applied), n')
    \<and> service_run sv moves_on n n' \<and> (\<exists>sid. configuration_dto_of sv applied sid = Inr dto')"
proof -
  obtain current m1 sid m2 settings c applied m3 where
    1: "dev (handle_read_configuration sv 0) m = (Inr current, m1)" and
    2: "session_now sv 1 m1 = (Inr sid, m2)" and
    3: "configuration_revision sid current = Inr (revision dto)"
      "configuration_settings sv dto = Inr settings" "with_protocol_metadata settings current = Inr c" and
    4: "dev (handle_apply_configuration_if_revision sv 2 c persist (revision dto)) m2 = (Inr applied, m3)" and
    5: "reply_configuration sv 3 applied m3 = (Inr dto', m')"
    using assms(1) by (auto simp: change_configuration_def bindS_Inr split: if_splits)
  have r1: "service_run sv moves_on m m1"
    using answer_Inr [OF 1 [unfolded handle_read_configuration_def] assms(2)] by (auto intro: manager_reachable_trans)
  have r2: "service_run sv moves_on m1 m2"
    using 2 by (auto simp: session_now_def bindS_Inr dest: see_Inr [OF _ assms(2)])
  obtain n where n: "service_run sv moves_on m2 n"
    "handle_command (sv_ops sv) (sv_json sv) (sv_interrupt sv)
       (CmdApplyConfiguration c persist (Some (revision dto))) n = (ReplyConfiguration (Inr applied), m3)" "service_run sv moves_on n m3"
    using answer_Inr [OF 4 [unfolded handle_apply_configuration_if_revision_def] assms(2)]
    by (auto simp: configuration_reply_Inr)
  have "\<exists>sid. configuration_dto_of sv applied sid = Inr dto'"
    using 5 by (auto simp: reply_configuration_def bindS_Inr)
  moreover have "service_run sv moves_on m n"
    using manager_reachable_trans [OF n(1) manager_reachable_trans [OF r2 r1]] .
  moreover have "settings_from_json (sv_json sv) (configuration_json dto) = Inr settings"
    using 3(2) by (simp add: configuration_settings_def)
  ultimately show ?thesis
    using n(2,3) with_protocol_metadata_settings [OF 3(3)] by blast
qed

text \<open>C7: storing a configuration is guarded end to end. When the service reports success, the client
  had confirmed; the manager, in the state in which it took the command (whatever other clients
  did since the client read the configuration), held the device to be ready and to run a
  configuration whose revision is the one the client named; and the device then ran, and its
  memory held, a configuration with exactly the settings of the client's document, which is the
  one the reply shows.\<close>
theorem store_configuration_guarded:
  assumes "configuration_device (sv_ops sv) good active stored" and "serves sv moves_on"
    and "good b" and "world_safe good moves_on"
    and "service_run sv moves_on (spawn_manager (sv_ops sv) b interval) m"
    and "svc_store_configuration sv dto confirm m = (Inr dto', m')"
  shows "confirm \<and> (\<exists>settings n old applied n'. service_run sv moves_on m n \<and> ready n
    \<and> settings_from_json (sv_json sv) (configuration_json dto) = Inr settings
    \<and> active (backend n) = Some old \<and> configuration_revision (session n) old = Inr (revision dto)
    \<and> service_run sv moves_on n n' \<and> active (backend n') = Some applied \<and> stored (backend n') = Some applied
    \<and> settings_eq (settings_from_configuration applied) settings
    \<and> configuration_json dto' = json_print (sv_json sv) (settings_to_json (settings_from_configuration applied)))"
proof -
  have lawful: "lawful_backend (sv_ops sv) good"
    using assms(1) by (simp add: configuration_device_def)
  have confirm: confirm "change_configuration sv dto True m = (Inr dto', m')"
    using assms(6) by (auto simp: svc_store_configuration_def require_confirmation_def split: if_splits)
  from change_configuration_Inr [OF confirm(2) assms(2)] obtain settings c n applied n' sid where
    s: "settings_from_json (sv_json sv) (configuration_json dto) = Inr settings"
      "settings_from_configuration c = settings" and n: "service_run sv moves_on m n" and
    h: "handle_command (sv_ops sv) (sv_json sv) (sv_interrupt sv)
          (CmdApplyConfiguration c True (Some (revision dto))) n = (ReplyConfiguration (Inr applied), n')" and
    d: "configuration_dto_of sv applied sid = Inr dto'" and n': "service_run sv moves_on n n'"
    by blast
  have "rest good n"
    using reachable_from_spawn [OF lawful assms(3,4) manager_reachable_trans [OF n assms(5)]] .
  then have guard: "ready n" "\<exists>old. active (backend n) = Some old \<and> configuration_revision (session n) old = Inr (revision dto)"
    "active (backend n') = Some applied" "stored (backend n') = Some applied" "same_settings applied c"
    using configuration_device.apply_command_guard [OF assms(1) _ h] by (auto simp: rest_def)
  have "configuration_json dto' = json_print (sv_json sv) (settings_to_json (settings_from_configuration applied))"
    using d by (auto simp: configuration_dto_of_def mapR_Inr)
  then show ?thesis
    using confirm(1) s n n' guard by (auto simp: same_settings_def)
qed

text \<open>A client renames the mock device.\<close>

definition renaming_server :: "mock_state server" where
  "renaming_server = \<lparr>sv_ops = mock_backend,
     sv_json = json_of_document (settings_to_json (settings_from_configuration renamed_mock)),
     sv_sha256 = (\<lambda>_. replicate 32 0), sv_contract = ''interface'', sv_version = ''1.1.1'',
     sv_build_id = ''test'', sv_interrupt = (\<lambda>_. False), sv_others = (\<lambda>_ m. m), sv_lag = (\<lambda>_. 0)\<rparr>"

definition renaming_request :: configuration_dto where
  "renaming_request = \<lparr>configuration_json = ''{}'',
     revision = (case configuration_revision 1 configuration_mock of Inr r \<Rightarrow> r | Inl _ \<Rightarrow> [])\<rparr>"

definition after_read :: "mock_state manager" where
  "after_read = set_ready (set_busy ''reading_configuration'' example_session)"

lemma renaming_server_serves: "serves renaming_server time_passes"
  by (simp add: serves_def renaming_server_def manager_reachable.start)

lemma configuration_revision_ok: "configuration_ok c \<Longrightarrow> \<exists>r. configuration_revision sid c = Inr r"
  using encode_configuration_ok [of c] by (auto simp: configuration_revision_def)

lemma after_read_facts:
  "connection (daemon after_read) = Ready 1" "d_session_id (daemon after_read) = 1"
  "backend after_read = backend example_session" "stopped after_read = stopped example_session"
  "last_nvm_mutation after_read = last_nvm_mutation example_session"
  "published after_read \<noteq> []" "last (published after_read) = daemon after_read"
proof -
  have "session example_session = 1"
    using example_session_rest example_session_ready(1) by (simp add: rest_def phase_ok_def)
  then show "connection (daemon after_read) = Ready 1" "d_session_id (daemon after_read) = 1"
    "backend after_read = backend example_session" "stopped after_read = stopped example_session"
    "last_nvm_mutation after_read = last_nvm_mutation example_session"
    "published after_read \<noteq> []" "last (published after_read) = daemon after_read"
    by (simp_all add: after_read_def set_ready_def set_busy_def set_connection_def bump_and_publish_def Let_def)
qed

lemma renaming_read:
  "dev (handle_read_configuration renaming_server 0) example_session = (Inr configuration_mock, after_read)"
  by (simp add: dev_def handle_read_configuration_def answer_def ask_def renaming_server_def Let_def
      run_read_configuration_def example_session_ready on_backend_def mock_read_configuration_def
      when_connected_def ok_or_def settle_def after_read_def set_busy_def set_connection_def bump_and_publish_def)

lemma renaming_session: "session_now renaming_server 1 after_read = (Inr 1, after_read)"
  by (simp add: session_now_def bindS_def see_def handle_state_def renaming_server_def Let_def after_read_facts)

lemma renaming_apply:
  "\<exists>m'. dev (handle_apply_configuration_if_revision renaming_server 2 renamed_mock True (revision renaming_request))
     after_read = (Inr renamed_mock, m')"
proof -
  obtain r where r: "configuration_revision 1 configuration_mock = Inr r"
    using configuration_revision_ok [OF configuration_mock_ok] by blast
  let ?cmd = "CmdApplyConfiguration renamed_mock True (Some (revision renaming_request))"
  obtain reply m' where h: "handle_command (sv_ops renaming_server) (sv_json renaming_server)
      (sv_interrupt renaming_server) ?cmd after_read = (reply, m')" by fastforce
  have "fst (handle_command mock_backend (sv_json renaming_server) (sv_interrupt renaming_server) ?cmd after_read)
      = ReplyConfiguration (Inr renamed_mock)"
    by (rule renaming_reply_at)
      (simp_all add: after_read_facts example_session_device check_current_def r renaming_request_def
        failIf_def renamed_mock_def)
  then have "reply = ReplyConfiguration (Inr renamed_mock)"
    using h by (simp add: renaming_server_def)
  then show ?thesis
    using h by (simp add: dev_def handle_apply_configuration_if_revision_def answer_def ask_def Let_def
        renaming_server_def after_read_facts example_session_ready service_result_def del: handle_command.simps)
qed

lemma renaming_stored:
  "\<exists>dto' m'. svc_store_configuration renaming_server renaming_request True example_session = (Inr dto', m')"
proof -
  let ?settings = "settings_from_configuration renamed_mock"
  obtain r where r: "configuration_revision 1 configuration_mock = Inr r"
    using configuration_revision_ok [OF configuration_mock_ok] by blast
  have valid: "settings_validate ?settings = Inr ()"
    using renamed_mock_ok by (simp add: settings_validate_iff configuration_ok_def)
  then have parsed: "configuration_settings renaming_server renaming_request = Inr ?settings"
    using settings_validate_finite [OF valid]
    by (simp add: configuration_settings_def renaming_server_def settings_from_json_def json_of_document_def)
  have meta: "with_protocol_metadata ?settings configuration_mock = Inr renamed_mock"
    using valid by (simp add: with_protocol_metadata_def renamed_mock_def settings_from_configuration_def)
  obtain m' where apply_it: "dev (handle_apply_configuration_if_revision renaming_server 2 renamed_mock True
      (revision renaming_request)) after_read = (Inr renamed_mock, m')"
    using renaming_apply by blast
  have rv: "revision renaming_request = r" by (simp add: renaming_request_def r)
  obtain sid where sid: "session_now renaming_server 3 m' = (Inr sid, m')"
    by (simp add: session_now_def bindS_def see_def handle_state_def renaming_server_def Let_def)
  obtain r' where r': "configuration_revision sid renamed_mock = Inr r'"
    using configuration_revision_ok [OF renamed_mock_ok] by blast
  show ?thesis
    using apply_it
    by (simp add: svc_store_configuration_def require_confirmation_def change_configuration_def bindS_def
        renaming_read renaming_session r rv service_result_def parsed meta reply_configuration_def sid
        configuration_dto_of_def r' del: One_nat_def)
qed

theorem store_configuration_guarded_witness:
  "\<exists>(n :: mock_state manager) (n' :: mock_state manager). ready n \<and> (\<exists>old. mock_configuration (backend n) = Some old
       \<and> configuration_revision (session n) old = configuration_revision 1 configuration_mock)
     \<and> saved_configuration (backend n') = mock_configuration (backend n') \<and> mock_configuration (backend n') \<noteq> None"
proof -
  obtain dto' m' where stored: "svc_store_configuration renaming_server renaming_request True example_session = (Inr dto', m')"
    using renaming_stored by blast
  have device: "configuration_device (sv_ops renaming_server) mock_inv mock_configuration saved_configuration"
    by (simp add: renaming_server_def mock_configuration.configuration_device_axioms)
  have run: "service_run renaming_server time_passes (spawn_manager (sv_ops renaming_server) mock_default (ms 1000)) example_session"
    unfolding example_session_def example_start_def renaming_server_def server.simps
    by (rule manager_reachable.step [OF manager_reachable.start manager_step.candidates]) (simp add: spawn_manager_def)
  obtain r where r: "configuration_revision 1 configuration_mock = Inr r"
    using configuration_revision_ok [OF configuration_mock_ok] by blast
  obtain n n' :: "mock_state manager" and old applied where "ready n" "mock_configuration (backend n) = Some old"
    "configuration_revision (session n) old = Inr (revision renaming_request)"
    "mock_configuration (backend n') = Some applied" "saved_configuration (backend n') = Some applied"
    using store_configuration_guarded [OF device renaming_server_serves mock_default_inv time_passes_safe run stored]
    by blast
  then show ?thesis
    by (intro exI [of _ n] exI [of _ n']) (simp add: renaming_request_def r)
qed

section \<open>Uploads\<close>

lemma unit_reply_Inr: "unit_reply (Some r) = Inr () \<longleftrightarrow> r = ReplyUnit (Inr ())"
  by (cases r) auto

text \<open>A confirmed upload that is for one slot, has its size and is the data the digest is of.\<close>

definition upload_sound :: "'b server \<Rightarrow> string \<Rightarrow> u32 \<Rightarrow> string \<Rightarrow> u8 list \<Rightarrow> bool \<Rightarrow> theme_asset_slot \<Rightarrow> bool" where
  "upload_sound sv name byte_length sha256 bytes confirm slot \<longleftrightarrow>
     confirm \<and> slot_from_str name = Inr slot \<and> unat byte_length = slot_byte_len slot
     \<and> length bytes = slot_byte_len slot \<and> sha256 = sha256_hex (sv_sha256 sv) bytes"

lemma svc_write_theme_asset_cases:
  "upload_sound sv name n sha bytes confirm slot \<Longrightarrow>
     svc_write_theme_asset sv name n sha bytes confirm =
       bindS (dev (handle_write_theme_asset sv 0 slot bytes)) (\<lambda>_.
         retS \<lparr>tw_slot = slot_name slot, tw_byte_length = n, tw_sha256 = sha\<rparr>)"
  "(\<And>slot. \<not> upload_sound sv name n sha bytes confirm slot) \<Longrightarrow>
     \<exists>msg. svc_write_theme_asset sv name n sha bytes confirm m = (Inl (WInvalidArgument msg), m)"
proof -
  show "upload_sound sv name n sha bytes confirm slot \<Longrightarrow>
     svc_write_theme_asset sv name n sha bytes confirm =
       bindS (dev (handle_write_theme_asset sv 0 slot bytes)) (\<lambda>_.
         retS \<lparr>tw_slot = slot_name slot, tw_byte_length = n, tw_sha256 = sha\<rparr>)"
    by (rule ext) (simp add: upload_sound_def svc_write_theme_asset_def require_confirmation_def
        bindS_def liftS_def service_result_def Let_def)
  assume unsound: "\<And>slot. \<not> upload_sound sv name n sha bytes confirm slot"
  show "\<exists>msg. svc_write_theme_asset sv name n sha bytes confirm m = (Inl (WInvalidArgument msg), m)"
  proof (cases "slot_from_str name")
    case (Inl e)
    then have "\<exists>msg. e = InvalidArgument msg" by (auto simp: slot_from_str_def ok_or_def split: option.splits)
    then show ?thesis using Inl
      by (auto simp: svc_write_theme_asset_def require_confirmation_def bindS_def service_result_def)
  next
    case (Inr slot)
    then show ?thesis using unsound [of slot]
      by (auto simp: upload_sound_def svc_write_theme_asset_def require_confirmation_def bindS_def
          service_result_def Let_def)
  qed
qed

lemma run_write_theme_asset_success:
  assumes "run_write_theme_asset ops slot bytes n = (ReplyUnit (Inr ()), m')"
  shows "ready n \<and> (\<exists>p b. ensure_display_paused ops (set_busy ''writing_theme_asset'' n) = (Inr (), p)
    \<and> display_physically_paused p \<and> be_write_theme_asset ops slot bytes (backend p) = (Inr (), b))"
proof -
  let ?busy = "set_busy ''writing_theme_asset'' n"
  have ready: "ready n" using assms by (auto simp: run_write_theme_asset_def split: if_splits)
  obtain q p where q: "ensure_display_paused ops ?busy = (q, p)" by fastforce
  obtain w m2 where w: "on_backend (be_write_theme_asset ops slot bytes) p = (w, m2)" by fastforce
  have "q = Inr ()" "theme_write_result w = Inr ()"
    using assms ready q w by (auto simp: run_write_theme_asset_def split: sum.splits prod.splits)
  moreover from this(2) have "w = Inr ()" by (auto simp: theme_write_result_def split: if_splits)
  moreover have "display_physically_paused p"
    using q \<open>q = Inr ()\<close>
    by (auto simp: ensure_display_paused_def bindA_def updA_def split: if_splits sum.splits prod.splits)
  ultimately show ?thesis
    using ready q w by (auto simp: on_backend_def split: prod.splits)
qed

text \<open>C19: an upload is either refused without reaching the manager, as an invalid argument, or it is
  confirmed, names a slot, has exactly the slot's size (and says so) and carries the digest of
  its data. If it succeeds, the manager took it in a ready state, the display was paused, and
  the device itself reported that exactly these bytes were written to this slot and verified.\<close>
theorem theme_upload_guarded:
  assumes "serves sv moves_on" and "svc_write_theme_asset sv name n sha bytes confirm m = (r, m')"
  shows "(m' = m \<and> (\<exists>msg. r = Inl (WInvalidArgument msg)))
    \<or> (\<exists>slot. upload_sound sv name n sha bytes confirm slot
        \<and> (case r of Inl e \<Rightarrow> True
           | Inr dto \<Rightarrow> dto = \<lparr>tw_slot = slot_name slot, tw_byte_length = n, tw_sha256 = sha\<rparr>
               \<and> (\<exists>k p b. service_run sv moves_on m k \<and> ready k
                   \<and> ensure_display_paused (sv_ops sv) (set_busy ''writing_theme_asset'' k) = (Inr (), p)
                   \<and> display_physically_paused p
                   \<and> be_write_theme_asset (sv_ops sv) slot bytes (backend p) = (Inr (), b))))"
proof (cases "\<exists>slot. upload_sound sv name n sha bytes confirm slot")
  case False
  then show ?thesis using svc_write_theme_asset_cases(2) [of sv name n sha bytes confirm m] assms(2) by auto
next
  case True
  then obtain slot where slot: "upload_sound sv name n sha bytes confirm slot" by blast
  note w = assms(2) [unfolded svc_write_theme_asset_cases(1) [OF slot]]
  show ?thesis
  proof (cases r)
    case Inl
    then show ?thesis using slot by auto
  next
    case (Inr dto)
    have d: "dev (handle_write_theme_asset sv 0 slot bytes) m = (Inr (), m')"
      and dto: "dto = \<lparr>tw_slot = slot_name slot, tw_byte_length = n, tw_sha256 = sha\<rparr>"
      using w Inr by (auto simp: bindS_Inr)
    obtain k where k: "service_run sv moves_on m k"
      "run_write_theme_asset (sv_ops sv) slot bytes k = (ReplyUnit (Inr ()), m')"
      using answer_Inr [OF d [unfolded handle_write_theme_asset_def] assms(1)] by (auto simp: unit_reply_Inr)
    show ?thesis using run_write_theme_asset_success [OF k(2)] k(1) slot Inr dto by fastforce
  qed
qed

text \<open>A client uploads the first background to the mock device.\<close>

definition upload_request :: "u8 list" where
  "upload_request = replicate (slot_byte_len BackgroundOrange) 7"

abbreviation uploading :: "mock_state manager \<Rightarrow> theme_asset_write_dto service_result \<times> mock_state manager" where
  "uploading \<equiv> svc_write_theme_asset renaming_server (slot_name BackgroundOrange)
     (word_of_nat (slot_byte_len BackgroundOrange)) (sha256_hex (sv_sha256 renaming_server) upload_request)
     upload_request True"

lemma upload_request_sound:
  "upload_sound renaming_server (slot_name BackgroundOrange) (word_of_nat (slot_byte_len BackgroundOrange))
     (sha256_hex (sv_sha256 renaming_server) upload_request) upload_request True BackgroundOrange"
  by (simp add: upload_sound_def upload_request_def slot_from_str_def ok_or_def all_slots_def
      eq_ignore_ascii_case_def slot_byte_len_numeral unat_of_nat)

lemma example_session_undecided:
  "next_theme_write_failure (backend example_session) = None" "active_dump example_session = None"
  "debug_pause_expires_at example_session = None" "\<not> display_physically_paused example_session"
  by (simp_all add: example_session_def example_start_def spawn_manager_def handle_candidates_def
      retry_is_due_def connect_def on_backend_def mock_connect_def mock_default_def
      mock_read_telemetry_def when_connected_def Let_def connected_with_def daemon_state_default_def
      bump_and_publish_def set_connection_def drop_leases_def clear_history_cancellation_def send_event_def)

lemma upload_succeeds: "\<exists>dto. fst (uploading example_session) = Inr dto"
proof -
  have len: "length upload_request = slot_byte_len BackgroundOrange" by (simp add: upload_request_def)
  have "fst (run_write_theme_asset mock_backend BackgroundOrange upload_request example_session) = ReplyUnit (Inr ())"
    by (simp add: run_write_theme_asset_def example_session_ready ensure_display_paused_def set_busy_def
        set_connection_def bump_and_publish_def example_session_undecided bindA_def updA_def on_backend_def
        mock_pause_history_updates_def mock_write_theme_asset_def when_connected_def mock_theme_supported_def
        configuration_mock_def len theme_write_result_def Let_def split: prod.split)
  then show ?thesis
    unfolding svc_write_theme_asset_cases(1) [OF upload_request_sound]
    by (auto simp: bindS_def dev_def handle_write_theme_asset_def answer_def ask_def Let_def renaming_server_def
        example_session_ready service_result_def split: prod.split sum.split)
qed

theorem theme_upload_guarded_witness:
  "\<exists>(k :: mock_state manager) p b. ready k \<and> display_physically_paused p
     \<and> mock_write_theme_asset BackgroundOrange upload_request (backend (p :: mock_state manager)) = (Inr (), b)"
proof -
  obtain r m' where w: "uploading example_session = (r, m')" by fastforce
  then obtain dto where r: "r = Inr dto" using upload_succeeds by auto
  have one: "slot = BackgroundOrange" if "upload_sound renaming_server (slot_name BackgroundOrange)
     (word_of_nat (slot_byte_len BackgroundOrange)) (sha256_hex (sv_sha256 renaming_server) upload_request)
     upload_request True slot" for slot
    using that upload_request_sound by (simp add: upload_sound_def)
  have ops: "be_write_theme_asset (sv_ops renaming_server) = mock_write_theme_asset"
    by (simp add: renaming_server_def)
  show ?thesis
    using theme_upload_guarded [OF renaming_server_serves w] r one ops by fastforce
qed

end
