(* ===== verification/HistoryClient.thy ===== *)
theory HistoryClient
  imports ServiceProps
begin

text \<open>
  The client side of a history download, \<open>wireview history\<close> of \<open>src/bin/wireview.rs\<close>: open a dump,
  read it chunk by chunk until it is complete or interrupted, end it on every path. The client is
  modelled over any daemon (\<open>link\<close>): its socket is third-party code and the daemon at the other
  end may answer anything. \<open>service_link\<close> is the link to the service of this development. Progress
  output is not modelled.
\<close>

section \<open>Errors of the command line client\<close>

text \<open>The boxed errors, as far as the exit code and the messages tell them apart; \<open>BoxedError\<close> is that of
  any other crate.\<close>

datatype io_error_kind = Interrupted | UnexpectedEof | TimedOut | InvalidData | InvalidInput | AlreadyExists
  | OtherKind

datatype cli_error =
    IoError io_error_kind string
  | ApiError wireview_error
  | TransportError string
  | BoxedError string
  | CliPanicked string

fun cli_error_to_string :: "cli_error \<Rightarrow> string" where
  "cli_error_to_string (IoError kind message) = message"
| "cli_error_to_string (ApiError e) = wireview_error_to_string e"
| "cli_error_to_string (TransportError message) = message"
| "cli_error_to_string (BoxedError message) = message"
| "cli_error_to_string (CliPanicked message) = message"

definition history_interrupted_error :: cli_error where
  "history_interrupted_error =
     IoError Interrupted ''History dump interrupted; daemon state cleaned up.''"

definition error_exit_code :: "cli_error \<Rightarrow> int" where
  "error_exit_code e = (case e of IoError Interrupted _ \<Rightarrow> 130 | _ \<Rightarrow> 1)"

section \<open>The link to the daemon\<close>

text \<open>A call ends with a transport error, an error of the service, or a value.\<close>

type_synonym 'a rpc = "string + 'a service_result"

definition rpc_result :: "'a rpc \<Rightarrow> cli_error + 'a" where
  "rpc_result r = (case r of
       Inl message \<Rightarrow> Inl (TransportError message)
     | Inr (Inl e) \<Rightarrow> Inl (ApiError e)
     | Inr (Inr x) \<Rightarrow> Inr x)"

text \<open>
  \<open>lk_chunk\<close> is the \<open>select!\<close> of a chunk request and the cancellation: \<open>None\<close> when the cancellation
  was first, whatever the daemon did with the request. \<open>lk_fresh_end\<close> closes the connection and
  ends the dump on a new one; \<open>None\<close> when that takes longer than \<open>HISTORY_CLEANUP_TIMEOUT\<close>.
\<close>

record 's link =
  lk_begin :: "'s \<Rightarrow> history_dump_dto rpc \<times> 's"
  lk_requested :: "'s \<Rightarrow> bool \<times> 's"
  lk_chunk :: "u64 \<Rightarrow> u32 \<Rightarrow> u32 \<Rightarrow> 's \<Rightarrow> history_chunk_dto rpc option \<times> 's"
  lk_end :: "u64 \<Rightarrow> 's \<Rightarrow> unit rpc \<times> 's"
  lk_fresh_end :: "u64 \<Rightarrow> 's \<Rightarrow> unit rpc option \<times> 's"

section \<open>The download\<close>

definition HISTORY_CLIENT_CHUNK_SIZE :: nat where "HISTORY_CLIENT_CHUNK_SIZE = 16 * 1024"

definition wrong_offset :: cli_error where
  "wrong_offset = IoError OtherKind ''daemon returned a history chunk at the wrong offset''"

definition short_chunk :: cli_error where
  "short_chunk = IoError UnexpectedEof ''daemon returned a short history chunk''"

text \<open>The loop; its flag says whether the cancellation ended it.\<close>

function download_chunks ::
  "'s link \<Rightarrow> u64 \<Rightarrow> nat \<Rightarrow> u8 list \<Rightarrow> 's \<Rightarrow> ((cli_error + u8 list) \<times> bool) \<times> 's" where
  "download_chunks lk dump expected_total bytes s =
    (if expected_total \<le> length bytes then ((Inr bytes, False), s)
     else
       let len = min (expected_total - length bytes) HISTORY_CLIENT_CHUNK_SIZE in
       case u32_try_from (length bytes) of
         None \<Rightarrow> ((Inl (CliPanicked ''history offset fits u32''), False), s)
       | Some off \<Rightarrow> (case u32_try_from len of
           None \<Rightarrow> ((Inl (CliPanicked ''history chunk length fits u32''), False), s)
         | Some req \<Rightarrow> (case lk_chunk lk dump off req s of
             (None, s1) \<Rightarrow> ((Inl history_interrupted_error, True), s1)
           | (Some reply, s1) \<Rightarrow> (case rpc_result reply of
               Inl e \<Rightarrow> ((Inl e, False), s1)
             | Inr chunk \<Rightarrow>
                 if unat (hc_offset chunk) \<noteq> length bytes then ((Inl wrong_offset, False), s1)
                 else if length (hc_data chunk) \<noteq> len then ((Inl short_chunk, False), s1)
                 else download_chunks lk dump expected_total (bytes @ hc_data chunk) s1))))"
  by pat_completeness auto

termination
  by (relation "measure (\<lambda>(lk, dump, expected_total, bytes, s). expected_total - length bytes)")
    (auto simp: HISTORY_CLIENT_CHUNK_SIZE_def)

declare download_chunks.simps [simp del]

definition cleanup_timed_out :: cli_error where
  "cleanup_timed_out = IoError TimedOut ''timed out waiting for daemon history cleanup''"

text \<open>Reading the dump that was opened; interrupted says whether the signal came before.\<close>

definition read_dump ::
  "'s link \<Rightarrow> history_dump_dto \<Rightarrow> 's \<Rightarrow> ((cli_error + u8 list) \<times> bool) \<times> 's" where
  "read_dump lk dump s =
    (case lk_requested lk s of (interrupted, s1) \<Rightarrow>
      if interrupted then ((Inl history_interrupted_error, True), s1)
      else
        let expected_total = unat (hd_total_bytes dump) in
        if expected_total \<noteq> FLASH_LENGTH then
          ((Inl (IoError OtherKind (''daemon reported an unexpected history size of ''
              @ show_nat expected_total @ '' bytes'')), False), s1)
        else download_chunks lk (hd_dump_id dump) expected_total [] s1)"

text \<open>Ending the dump, on a fresh connection after an interruption.\<close>

definition end_dump :: "'s link \<Rightarrow> u64 \<Rightarrow> bool \<Rightarrow> 's \<Rightarrow> (cli_error + unit) \<times> 's" where
  "end_dump lk dump interrupted s =
    (if interrupted then
       (case lk_fresh_end lk dump s of
          (None, s1) \<Rightarrow> (Inl cleanup_timed_out, s1)
        | (Some reply, s1) \<Rightarrow> (rpc_result reply, s1))
     else (case lk_end lk dump s of (reply, s1) \<Rightarrow> (rpc_result reply, s1)))"

definition dump_result :: "cli_error + u8 list \<Rightarrow> cli_error + unit \<Rightarrow> cli_error + u8 list" where
  "dump_result read_result end_result =
    (case (read_result, end_result) of
       (Inr bytes, Inr _) \<Rightarrow> Inr bytes
     | (Inl read_error, Inr _) \<Rightarrow> Inl read_error
     | (Inr _, Inl cleanup_error) \<Rightarrow>
         Inl (IoError OtherKind (''history data was read, but daemon cleanup failed: ''
           @ cli_error_to_string cleanup_error
           @ ''; the daemon safety lease will retry within 10 seconds''))
     | (Inl read_error, Inl cleanup_error) \<Rightarrow>
         Inl (IoError OtherKind (''history read failed: '' @ cli_error_to_string read_error
           @ ''; daemon cleanup also failed: '' @ cli_error_to_string cleanup_error
           @ ''; the daemon safety lease will retry within 10 seconds'')))"

definition download_history :: "'s link \<Rightarrow> 's \<Rightarrow> (cli_error + u8 list) \<times> 's" where
  "download_history lk s =
    (case lk_begin lk s of (reply, s1) \<Rightarrow> (case rpc_result reply of
        Inl e \<Rightarrow> (Inl e, s1)
      | Inr dump \<Rightarrow> (case read_dump lk dump s1 of ((read_result, interrupted), s2) \<Rightarrow>
          (case end_dump lk (hd_dump_id dump) interrupted s2 of (end_result, s3) \<Rightarrow>
            (dump_result read_result end_result, s3)))))"

section \<open>Requests\<close>

text \<open>A link that writes down the chunk requests.\<close>

definition recording :: "'s link \<Rightarrow> ((u32 \<times> u32) list \<times> 's) link" where
  "recording lk =
     \<lparr>lk_begin = (\<lambda>(sent, s). case lk_begin lk s of (r, s1) \<Rightarrow> (r, (sent, s1))),
      lk_requested = (\<lambda>(sent, s). case lk_requested lk s of (r, s1) \<Rightarrow> (r, (sent, s1))),
      lk_chunk = (\<lambda>dump off len (sent, s). case lk_chunk lk dump off len s of
        (r, s1) \<Rightarrow> (r, (sent @ [(off, len)], s1))),
      lk_end = (\<lambda>dump (sent, s). case lk_end lk dump s of (r, s1) \<Rightarrow> (r, (sent, s1))),
      lk_fresh_end = (\<lambda>dump (sent, s). case lk_fresh_end lk dump s of (r, s1) \<Rightarrow> (r, (sent, s1)))\<rparr>"

definition chunk_request :: "nat \<Rightarrow> u32 \<times> u32" where
  "chunk_request i = (word_of_nat (i * HISTORY_CLIENT_CHUNK_SIZE), word_of_nat HISTORY_CLIENT_CHUNK_SIZE)"

lemma sizes: "FLASH_LENGTH = 8388608" "HISTORY_CLIENT_CHUNK_SIZE = 16384"
  by (simp_all add: FLASH_LENGTH_def HISTORY_CLIENT_CHUNK_SIZE_def)

lemma u32_try_from_small: "n < 2 ^ 32 \<Longrightarrow> u32_try_from n = Some (word_of_nat n)"
  by (simp add: u32_try_from_def)

text \<open>One round of the loop, below the size of the log.\<close>

lemma download_chunks_step:
  assumes "length bytes = i * HISTORY_CLIENT_CHUNK_SIZE" and "i < 512"
  shows "download_chunks lk dump FLASH_LENGTH bytes s =
    (case lk_chunk lk dump (fst (chunk_request i)) (snd (chunk_request i)) s of
       (None, s1) \<Rightarrow> ((Inl history_interrupted_error, True), s1)
     | (Some reply, s1) \<Rightarrow> (case rpc_result reply of
         Inl e \<Rightarrow> ((Inl e, False), s1)
       | Inr chunk \<Rightarrow>
           if unat (hc_offset chunk) \<noteq> length bytes then ((Inl wrong_offset, False), s1)
           else if length (hc_data chunk) \<noteq> HISTORY_CLIENT_CHUNK_SIZE then ((Inl short_chunk, False), s1)
           else download_chunks lk dump FLASH_LENGTH (bytes @ hc_data chunk) s1))"
proof -
  have len: "(FLASH_LENGTH \<le> length bytes) = False" "min (FLASH_LENGTH - length bytes) HISTORY_CLIENT_CHUNK_SIZE = HISTORY_CLIENT_CHUNK_SIZE"
    using assms by (simp_all add: sizes)
  have u: "u32_try_from (length bytes) = Some (fst (chunk_request i))"
    "u32_try_from HISTORY_CLIENT_CHUNK_SIZE = Some (snd (chunk_request i))"
    using assms by (simp_all add: u32_try_from_small sizes chunk_request_def)
  show ?thesis
    by (subst download_chunks.simps) (simp only: len u Let_def if_False option.case)
qed

lemma download_chunks_requests:
  assumes "length bytes = i * HISTORY_CLIENT_CHUNK_SIZE" and "i \<le> 512"
  shows "\<exists>j. i \<le> j \<and> j \<le> 512
    \<and> fst (snd (download_chunks (recording lk) dump FLASH_LENGTH bytes (sent, s))) = sent @ map chunk_request [i..<j]
    \<and> (\<forall>result. fst (fst (download_chunks (recording lk) dump FLASH_LENGTH bytes (sent, s))) = Inr result
         \<longrightarrow> j = 512 \<and> length result = FLASH_LENGTH)"
  using assms
proof (induction "512 - i" arbitrary: i bytes sent s)
  case 0
  then have "i = 512" by simp
  moreover have "download_chunks (recording lk) dump FLASH_LENGTH bytes (sent, s) = ((Inr bytes, False), (sent, s))"
    using 0 by (subst download_chunks.simps) (simp add: sizes)
  ultimately show ?case using 0 by (auto intro!: exI [of _ 512] simp: sizes)
next
  case (Suc n)
  then have i: "i < 512" by simp
  obtain r s1 where r: "lk_chunk lk dump (fst (chunk_request i)) (snd (chunk_request i)) s = (r, s1)" by fastforce
  then have c: "lk_chunk (recording lk) dump (fst (chunk_request i)) (snd (chunk_request i)) (sent, s)
      = (r, (sent @ [chunk_request i], s1))"
    by (simp add: recording_def)
  note step = download_chunks_step [OF Suc.prems(1) i, of "recording lk" dump "(sent, s)", unfolded c]
  show ?case
  proof (cases "\<exists>chunk. r = Some (Inr (Inr chunk)) \<and> unat (hc_offset chunk) = length bytes
      \<and> length (hc_data chunk) = HISTORY_CLIENT_CHUNK_SIZE")
    case True
    then obtain chunk where chunk: "r = Some (Inr (Inr chunk))" "unat (hc_offset chunk) = length bytes"
      "length (hc_data chunk) = HISTORY_CLIENT_CHUNK_SIZE" by blast
    then have next_round: "download_chunks (recording lk) dump FLASH_LENGTH bytes (sent, s)
        = download_chunks (recording lk) dump FLASH_LENGTH (bytes @ hc_data chunk) (sent @ [chunk_request i], s1)"
      using step by (simp add: rpc_result_def)
    have "length (bytes @ hc_data chunk) = Suc i * HISTORY_CLIENT_CHUNK_SIZE"
      using Suc.prems(1) chunk(3) by simp
    then obtain j where j: "Suc i \<le> j" "j \<le> 512"
      "fst (snd (download_chunks (recording lk) dump FLASH_LENGTH (bytes @ hc_data chunk) (sent @ [chunk_request i], s1)))
        = (sent @ [chunk_request i]) @ map chunk_request [Suc i..<j]"
      "\<forall>result. fst (fst (download_chunks (recording lk) dump FLASH_LENGTH (bytes @ hc_data chunk) (sent @ [chunk_request i], s1)))
         = Inr result \<longrightarrow> j = 512 \<and> length result = FLASH_LENGTH"
      using Suc.hyps(1) [of "Suc i" "bytes @ hc_data chunk" "sent @ [chunk_request i]" s1] Suc.hyps(2) i by fastforce
    then show ?thesis unfolding next_round by (intro exI [of _ j]) (simp add: upt_conv_Cons)
  next
    case False
    have "\<exists>e f. download_chunks (recording lk) dump FLASH_LENGTH bytes (sent, s) = ((Inl e, f), (sent @ [chunk_request i], s1))"
      using False step by (auto simp: rpc_result_def split: option.splits sum.splits)
    then show ?thesis using i by (auto intro!: exI [of _ "Suc i"])
  qed
qed

text \<open>C17: the download terminates against any daemon, whatever it answers: it is a total function, it
  asks for the chunks of the log in order, each once, of 16 KiB at the expected offset, and for
  at most the 512 there are; when it returns bytes it asked for every one of them and has
  exactly the size of the log.\<close>
theorem download_asks_each_chunk_once:
  "\<exists>j\<le>512. fst (snd (download_chunks (recording lk) dump FLASH_LENGTH [] ([], s))) = map chunk_request [0..<j]
     \<and> (case fst (fst (download_chunks (recording lk) dump FLASH_LENGTH [] ([], s))) of
          Inr bytes \<Rightarrow> j = 512 \<and> length bytes = FLASH_LENGTH | Inl e \<Rightarrow> True)"
  using download_chunks_requests [of "[]" 0 lk dump "[]" s] by (auto split: sum.split)

section \<open>A daemon that serves a log\<close>

lemma unat_word_32: "n < 2 ^ 32 \<Longrightarrow> unat (word_of_nat n :: u32) = n"
  by (simp add: unat_of_nat)

lemma download_chunks_interrupted:
  "download_chunks lk dump n bytes s = ((r, True), s') \<Longrightarrow> r = Inl history_interrupted_error"
proof (induction lk dump n bytes s rule: download_chunks.induct)
  case (1 lk dump n bytes s)
  from "1.prems" show ?case
    by (subst (asm) download_chunks.simps)
      (auto simp: Let_def split: option.splits sum.splits if_splits prod.splits dest!: "1.IH" [rotated -1])
qed

text \<open>What the client relies on: a chunk that is answered is the one of the log that was asked for.\<close>

locale history_link =
  fixes lk :: "'s link" and ok :: "'s \<Rightarrow> bool" and image :: "u8 list"
  assumes image_length: "length image = FLASH_LENGTH"
    and begin_ok: "ok s \<Longrightarrow> ok (snd (lk_begin lk s))"
    and requested_ok: "ok s \<Longrightarrow> ok (snd (lk_requested lk s))"
    and chunk_ok: "ok s \<Longrightarrow> ok (snd (lk_chunk lk dump off len s))"
    and chunk_data: "ok s \<Longrightarrow> fst (lk_chunk lk dump off len s) = Some (Inr (Inr chunk)) \<Longrightarrow>
          hc_data chunk = take (unat len) (drop (unat off) image)"
begin

lemma download_chunks_image:
  assumes "ok s" and "bytes = take (length bytes) image"
    and "length bytes = i * HISTORY_CLIENT_CHUNK_SIZE" and "i \<le> 512"
    and "download_chunks lk dump FLASH_LENGTH bytes s = ((Inr result, interrupted), s')"
  shows "result = image \<and> ok s'"
  using assms
proof (induction "512 - i" arbitrary: i bytes s)
  case 0
  then have "i = 512" by simp
  moreover have "download_chunks lk dump FLASH_LENGTH bytes s = ((Inr bytes, False), s)"
    using 0 by (subst download_chunks.simps) (simp add: sizes)
  ultimately show ?case using 0 image_length by (simp add: sizes)
next
  case (Suc n)
  then have i: "i < 512" by simp
  obtain r s1 where r: "lk_chunk lk dump (fst (chunk_request i)) (snd (chunk_request i)) s = (r, s1)" by fastforce
  note step = download_chunks_step [OF Suc.prems(3) i, of lk dump s, unfolded r]
  obtain chunk where chunk: "r = Some (Inr (Inr chunk))" "length (hc_data chunk) = HISTORY_CLIENT_CHUNK_SIZE"
    and next_round: "download_chunks lk dump FLASH_LENGTH bytes s
        = download_chunks lk dump FLASH_LENGTH (bytes @ hc_data chunk) s1"
    using step Suc.prems(5) by (auto simp: rpc_result_def split: option.splits sum.splits if_splits)
  have req: "unat (fst (chunk_request i)) = length bytes" "unat (snd (chunk_request i)) = HISTORY_CLIENT_CHUNK_SIZE"
    using i Suc.prems(3) unat_word_32 [of "i * HISTORY_CLIENT_CHUNK_SIZE"]
      unat_word_32 [of HISTORY_CLIENT_CHUNK_SIZE] by (simp_all only: chunk_request_def fst_conv snd_conv, simp_all add: sizes)
  have data: "hc_data chunk = take HISTORY_CLIENT_CHUNK_SIZE (drop (length bytes) image)"
    using chunk_data [OF Suc.prems(1), of "dump" "fst (chunk_request i)" "snd (chunk_request i)" chunk] r chunk(1) req
    by simp
  let ?bytes = "bytes @ hc_data chunk"
  have "take (length ?bytes) image = take (length bytes) image @ take (length (hc_data chunk)) (drop (length bytes) image)"
    by (simp add: take_add)
  then have "?bytes = take (length ?bytes) image"
    using Suc.prems(2) data chunk(2) by simp
  moreover have "ok s1" using chunk_ok [OF Suc.prems(1)] r by (metis snd_conv)
  moreover have "length ?bytes = Suc i * HISTORY_CLIENT_CHUNK_SIZE" using Suc.prems(3) chunk(2) by simp
  ultimately show ?case
    using Suc.hyps(1) [of "Suc i" s1 ?bytes] Suc.hyps(2) i Suc.prems(5) unfolding next_round by fastforce
qed

lemma download_history_image:
  assumes "ok s" and "download_history lk s = (Inr bytes, s')"
  shows "bytes = image \<and> (\<exists>dump s1 s2. lk_begin lk s = (Inr (Inr dump), s1)
    \<and> lk_end lk (hd_dump_id dump) s2 = (Inr (Inr ()), s') \<and> ok s2)"
proof -
  obtain dump s1 where d: "lk_begin lk s = (Inr (Inr dump), s1)"
    using assms(2) by (auto simp: download_history_def rpc_result_def split: prod.splits sum.splits)
  obtain q interrupted s2 where q: "read_dump lk dump s1 = ((q, interrupted), s2)" by (metis prod.collapse)
  obtain e where e: "end_dump lk (hd_dump_id dump) interrupted s2 = (e, s')" "dump_result q e = Inr bytes"
    using assms(2) d q by (auto simp: download_history_def rpc_result_def split: prod.splits)
  then have result: "q = Inr bytes" "e = Inr ()" by (auto simp: dump_result_def split: sum.splits)
  obtain w s0 where w: "lk_requested lk s1 = (w, s0)" by fastforce
  have c: "download_chunks lk (hd_dump_id dump) FLASH_LENGTH [] s0 = ((Inr bytes, interrupted), s2)"
    using q result(1) w by (auto simp: read_dump_def Let_def split: if_splits)
  have "ok s0" using begin_ok [OF assms(1)] requested_ok [of s1] d w by (metis snd_conv)
  then have "bytes = image" "ok s2"
    using download_chunks_image [of s0 "[]" 0, OF _ _ _ _ c] by simp_all
  moreover have "\<not> interrupted"
    using c by (auto dest: download_chunks_interrupted)
  then have "lk_end lk (hd_dump_id dump) s2 = (Inr (Inr ()), s')"
    using e(1) result(2) by (auto simp: end_dump_def rpc_result_def split: prod.splits sum.splits)
  ultimately show ?thesis using d by blast
qed

end

section \<open>The link to the service\<close>

text \<open>
  What can happen to a call on its way: the request or the reply may be lost with the connection.
  The \<open>k\<close>-th call of the client meets the daemon as \<open>svs k\<close>, after whatever others did; a signal may
  arrive before any call; and a clean-up on a fresh connection may take too long.
\<close>

datatype delivery = Delivered | RequestLost string | ReplyLost string

record network =
  net_delivery :: "nat \<Rightarrow> delivery"
  net_signal :: "nat \<Rightarrow> bool"
  net_slow :: "nat \<Rightarrow> bool"

definition wire ::
  "network \<Rightarrow> (nat \<Rightarrow> 'b server) \<Rightarrow> ('b server \<Rightarrow> ('b manager, 'a) service)
     \<Rightarrow> nat \<times> 'b manager \<Rightarrow> 'a rpc \<times> (nat \<times> 'b manager)" where
  "wire net svs call km = (case km of (k, m) \<Rightarrow>
     case net_delivery net k of
       RequestLost message \<Rightarrow> (Inl message, (Suc k, m))
     | ReplyLost message \<Rightarrow> (Inl message, (Suc k, snd (call (svs k) m)))
     | Delivered \<Rightarrow> (case call (svs k) m of (r, m1) \<Rightarrow> (Inr r, (Suc k, m1))))"

definition service_link :: "network \<Rightarrow> (nat \<Rightarrow> 'b server) \<Rightarrow> (nat \<times> 'b manager) link" where
  "service_link net svs =
     \<lparr>lk_begin = wire net svs svc_begin_history_dump,
      lk_requested = (\<lambda>km. (net_signal net (fst km), km)),
      lk_chunk = (\<lambda>dump off len km.
        case wire net svs (\<lambda>sv. svc_read_history_dump_chunk sv dump off len) km of (r, km1) \<Rightarrow>
          (if net_signal net (fst km) then None else Some r, km1)),
      lk_end = (\<lambda>dump. wire net svs (\<lambda>sv. svc_end_history_dump sv dump)),
      lk_fresh_end = (\<lambda>dump km.
        case wire net svs (\<lambda>sv. svc_end_history_dump sv dump) km of (r, km1) \<Rightarrow>
          (if net_slow net (fst km) then None else Some r, km1))\<rparr>"

lemma wire_Inr:
  assumes "wire net svs call (k, m) = (Inr r, (k', m'))"
  shows "call (svs k) m = (r, m') \<and> k' = Suc k"
  using assms by (auto simp: wire_def split: delivery.splits prod.splits)

lemma wire_keeps:
  assumes "ok m" and "\<And>sv. sv \<in> range svs \<Longrightarrow> ok (snd (call sv m))"
  shows "ok (snd (snd (wire net svs call (k, m))))"
  using assms by (auto simp: wire_def split: delivery.split prod.split) (metis rangeI snd_conv)

lemma run_chunk_reply:
  assumes "run_read_history_dump_chunk ops interrupt wanted off len n = (ReplyBytes (Inr bytes), m')"
  shows "\<exists>tok. fst (be_read_history_chunk ops off len tok (backend n)) = Inr bytes"
proof (cases "find_dump wanted n")
  case (Inl e)
  then show ?thesis using assms by (simp add: run_read_history_dump_chunk_def)
next
  case (Inr dump)
  let ?tok = "\<lambda>b. tokens n ! active_token dump \<or> now ops n + ms 10000 \<le> be_now ops b \<or> interrupt b"
  obtain r b where "be_read_history_chunk ops off len ?tok (backend n) = (r, b)" by fastforce
  then have "fst (be_read_history_chunk ops off len ?tok (backend n)) = Inr bytes"
    using assms Inr by (simp add: run_read_history_dump_chunk_def on_backend_def Let_def)
  then show ?thesis by blast
qed

section \<open>Devices with a log\<close>

text \<open>A lawful device whose log region holds the same bytes in all its states.\<close>

locale logged_device = lawful_backend +
  fixes image :: "u8 list"
  assumes log_length: "length image = FLASH_LENGTH"
    and log_chunk: "inv b \<Longrightarrow> fst (be_read_history_chunk ops off len tok b) = Inr bytes \<Longrightarrow>
          bytes = take len (drop off image)"
begin

text \<open>The states a client's calls lead through.\<close>

definition visited :: "json_text \<Rightarrow> ('a \<Rightarrow> 'a \<Rightarrow> bool) \<Rightarrow> 'a manager \<Rightarrow> 'a manager \<Rightarrow> bool" where
  "visited jt moves_on m0 m \<longleftrightarrow> rest inv m \<and> manager_reachable ops jt moves_on m0 m"

lemma visited_step:
  assumes "visited jt moves_on m0 m" and "world_safe inv moves_on" and "manager_reachable ops jt moves_on m m'"
  shows "visited jt moves_on m0 m'"
  using assms reachable_rest [OF assms(3)] manager_reachable_trans [OF assms(3)]
  by (auto simp: visited_def world_safe_def)

lemma answer_reachable:
  assumes "sv_ops sv = ops" and "sv_json sv = jt" and "serves sv moves_on"
  shows "manager_reachable ops jt moves_on m (snd (dev (answer sv k project cmd) m))"
proof -
  have o: "manager_reachable ops jt moves_on m (sv_others sv k m)"
    using assms by (simp add: serves_def)
  show ?thesis
    using o manager_step.command [of "sv_others sv k m" ops jt moves_on "sv_interrupt sv" cmd] assms
    by (auto simp: dev_def answer_def ask_def Let_def split: prod.split intro: manager_reachable.step)
qed

lemma dump_methods_reachable:
  assumes "sv_ops sv = ops" and "sv_json sv = jt" and "serves sv moves_on"
  shows "manager_reachable ops jt moves_on m (snd (svc_begin_history_dump sv m))"
    "manager_reachable ops jt moves_on m (snd (svc_read_history_dump_chunk sv dump off len m))"
    "manager_reachable ops jt moves_on m (snd (svc_end_history_dump sv dump m))"
proof -
  have b: "snd (bindS act f m) = snd (act m)" if "\<And>x s. snd (f x s) = s" for act f
    using that by (auto simp: bindS_def split: prod.split sum.split)
  show "manager_reachable ops jt moves_on m (snd (svc_begin_history_dump sv m))"
    unfolding svc_begin_history_dump_def
    by (subst b) (auto simp: handle_begin_history_dump_def answer_reachable [OF assms] split: option.split)
  have h: "snd (history_reply misfit n bytes s) = s" for misfit n bytes s
    unfolding history_reply_def by (auto simp: bindS_def expectS_def u32_try_from_def)
  show "manager_reachable ops jt moves_on m (snd (svc_read_history_dump_chunk sv dump off len m))"
    unfolding svc_read_history_dump_chunk_def
    by (subst b) (auto simp: handle_read_history_dump_chunk_def answer_reachable [OF assms] h)
  have "snd (svc_end_history_dump sv dump m) = snd (dev (answer sv 0 unit_reply (CmdEndHistoryDump dump)) (cancel_history (Some dump) m))"
    by (simp add: svc_end_history_dump_def dev_def handle_end_history_dump_def)
  then show "manager_reachable ops jt moves_on m (snd (svc_end_history_dump sv dump m))"
    using manager_reachable_trans [OF answer_reachable [OF assms] 
        manager_reachable.step [OF manager_reachable.start manager_step.cancel]] by metis
qed

lemma chunk_from_log:
  assumes "sv_ops sv = ops" and "serves sv moves_on" and "rest inv m" and "world_safe inv moves_on"
    and "svc_read_history_dump_chunk sv dump off len m = (Inr chunk, m')"
  shows "hc_data chunk = take (unat len) (drop (unat off) image)"
proof -
  obtain bytes m1 where b: "dev (handle_read_history_dump_chunk sv 0 dump (unat off) (unat len)) m = (Inr bytes, m1)"
    and c: "history_reply ''offset originated as u32'' (unat off) bytes m1 = (Inr chunk, m')"
    using assms(5) by (auto simp: svc_read_history_dump_chunk_def bindS_Inr)
  have data: "hc_data chunk = bytes"
    using c by (auto simp: history_reply_def bindS_Inr)
  obtain n r where n: "manager_reachable ops (sv_json sv) moves_on m n"
    "handle_command ops (sv_json sv) (sv_interrupt sv) (CmdReadHistoryDumpChunk dump (unat off) (unat len)) n = (r, m1)"
    "bytes_reply (Some r) = Inr bytes"
    using answer_Inr [OF b [unfolded handle_read_history_dump_chunk_def] assms(2)] assms(1) by auto
  have good: "inv (backend n)"
    using reachable_rest [OF n(1) assms(3)] assms(4) by (auto simp: rest_def world_safe_def)
  have r: "r = ReplyBytes (Inr bytes)" using n(3) by (cases r) auto
  obtain tok where "fst (be_read_history_chunk ops (unat off) (unat len) tok (backend n)) = Inr bytes"
    using run_chunk_reply [of ops "sv_interrupt sv" dump "unat off" "unat len" n bytes m1] n(2) r by auto
  then show ?thesis using log_chunk [OF good] data by simp
qed

lemma service_history_link:
  assumes "\<And>k. sv_ops (svs k) = ops \<and> sv_json (svs k) = jt \<and> serves (svs k) moves_on"
    and "world_safe inv moves_on"
  shows "history_link (service_link net svs) (\<lambda>(k, m). visited jt moves_on m0 m) image"
proof -
  have v: "visited jt moves_on m0 (snd (snd (wire net svs call (k, m))))"
    if "visited jt moves_on m0 m" and "\<And>sv. sv \<in> range svs \<Longrightarrow> manager_reachable ops jt moves_on m (snd (call sv m))"
    for call :: "'a server \<Rightarrow> ('a manager, 'x) service" and k m
    by (rule wire_keeps) (use that visited_step [OF that(1) assms(2)] in auto)
  have d: "manager_reachable ops jt moves_on m (snd (svc_begin_history_dump sv m))"
    "manager_reachable ops jt moves_on m (snd (svc_read_history_dump_chunk sv dump off len m))"
    if "sv \<in> range svs" for sv m dump off len
    using that assms(1) dump_methods_reachable by auto
  show ?thesis
  proof
    show "length image = FLASH_LENGTH" by (rule log_length)
    fix s :: "nat \<times> 'a manager" assume s: "case s of (k, m) \<Rightarrow> visited jt moves_on m0 m"
    show "case snd (lk_begin (service_link net svs) s) of (k, m) \<Rightarrow> visited jt moves_on m0 m"
      using s v [of "snd s" svc_begin_history_dump "fst s"] d by (auto simp: service_link_def split: prod.splits)
    show "case snd (lk_requested (service_link net svs) s) of (k, m) \<Rightarrow> visited jt moves_on m0 m"
      using s by (simp add: service_link_def)
    fix dump off len
    show "case snd (lk_chunk (service_link net svs) dump off len s) of (k, m) \<Rightarrow> visited jt moves_on m0 m"
      using s v [of "snd s" "\<lambda>sv. svc_read_history_dump_chunk sv dump off len" "fst s"] d
      by (auto simp: service_link_def split: prod.splits)
    fix chunk assume c: "fst (lk_chunk (service_link net svs) dump off len s) = Some (Inr (Inr chunk))"
    obtain k m where km: "s = (k, m)" by fastforce
    obtain k' m' where "wire net svs (\<lambda>sv. svc_read_history_dump_chunk sv dump off len) (k, m) = (Inr (Inr chunk), (k', m'))"
      using c km by (auto simp: service_link_def split: prod.splits if_splits)
    then have "svc_read_history_dump_chunk (svs k) dump off len m = (Inr chunk, m')"
      using wire_Inr by blast
    then show "hc_data chunk = take (unat len) (drop (unat off) image)"
      using chunk_from_log [of "svs k" moves_on m dump off len chunk m'] assms s km by (simp add: visited_def)
  qed
qed

lemma end_dump_effect:
  assumes "sv_ops sv = ops" and "svc_end_history_dump sv dump m = (Inr (), m')" and "serves sv moves_on"
  shows "ready m' \<and> active_dump m' = None"
proof -
  have d: "dev (answer sv 0 unit_reply (CmdEndHistoryDump dump)) (cancel_history (Some dump) m) = (Inr (), m')"
    using assms(2) by (simp add: svc_end_history_dump_def dev_def handle_end_history_dump_def)
  obtain n where n: "run_end_history_dump ops dump n = (ReplyUnit (Inr ()), m')"
    using answer_Inr [OF d assms(3)] assms(1) by (auto simp: unit_reply_Inr)
  then obtain m1 where "resume_display_if_unowned ops
       (clear_history_cancellation (Some dump) (n\<lparr>active_dump := None\<rparr>)) = (Inr (), m1)" "m' = set_ready m1"
    by (auto simp: run_end_history_dump_def settle_def split: sum.splits prod.splits)
  then show ?thesis
    by (auto simp: resume_display_if_unowned_def clear_history_cancellation_def on_backend_def set_ready_def
        set_connection_def bump_and_publish_def Let_def split: if_splits sum.splits prod.splits)
qed

end

section \<open>The mock device's log\<close>

definition mock_log :: "u8 list" where
  "mock_log = mock_history_bytes 0 FLASH_LENGTH"

lemma nth_mock_history_bytes:
  "i < len \<Longrightarrow> mock_history_bytes off len ! i =
     (if off + i < ENTRY_SIZE then mock_history_sample ! (off + i) else 0xff)"
proof -
  assume i: "i < len"
  have "length mock_history_sample = ENTRY_SIZE"
    by (simp add: mock_history_sample_def ENTRY_SIZE_def)
  then show ?thesis using i
    by (auto simp: mock_history_bytes_def Let_def nth_write_at nth_slice min_def)
qed

lemma mock_history_bytes_log:
  assumes "off + len \<le> FLASH_LENGTH"
  shows "mock_history_bytes off len = take len (drop off mock_log)"
proof (rule nth_equalityI)
  show "length (mock_history_bytes off len) = length (take len (drop off mock_log))"
    using assms by (simp add: mock_log_def)
  fix i assume "i < length (mock_history_bytes off len)"
  then show "mock_history_bytes off len ! i = take len (drop off mock_log) ! i"
    using assms by (simp add: mock_log_def nth_mock_history_bytes)
qed

interpretation mock_logged: logged_device mock_backend mock_inv mock_log
proof
  show "length mock_log = FLASH_LENGTH" by (simp add: mock_log_def)
  fix b off len tok bytes
  assume "fst (be_read_history_chunk mock_backend off len tok b) = Inr bytes"
  then show "bytes = take len (drop off mock_log)"
    by (auto simp: mock_read_history_chunk_def when_connected_def Let_def validate_history_range_def failIf_def
        mock_history_bytes_log split: if_splits sum.splits)
qed

text \<open>The client of the mock daemon, when nothing is lost and no signal comes.\<close>

definition calm_network :: network where
  "calm_network = \<lparr>net_delivery = (\<lambda>_. Delivered), net_signal = (\<lambda>_. False), net_slow = (\<lambda>_. False)\<rparr>"

abbreviation mock_link :: "(nat \<times> mock_state manager) link" where
  "mock_link \<equiv> service_link calm_network (\<lambda>_. renaming_server)"

interpretation mock_download: history_link mock_link
  "\<lambda>(k, m). mock_logged.visited (sv_json renaming_server) time_passes m0 m" mock_log for m0
  by (rule mock_logged.service_history_link)
    (simp_all add: renaming_server_serves time_passes_safe, simp add: renaming_server_def)

section \<open>A download\<close>

text \<open>C10: a download is exact, end to end. When \<open>wireview history\<close> has its bytes (through the service,
  the manager and the device, with other clients' commands, lost replies and signals anywhere in
  between), they are exactly the device's log, the daemon has acknowledged the end of the dump,
  and the manager is ready again with no dump open.\<close>
theorem history_download_exact:
  assumes "logged_device ops good contents" and "world_safe good moves_on" and "good b"
    and "\<And>k. sv_ops (svs k) = ops \<and> sv_json (svs k) = jt \<and> serves (svs k) moves_on"
    and "manager_reachable ops jt moves_on (spawn_manager ops b interval) m"
    and "download_history (service_link net svs) (k, m) = (Inr bytes, (k', m'))"
  shows "bytes = contents \<and> manager_reachable ops jt moves_on m m' \<and> ready m' \<and> active_dump m' = None"
proof -
  let ?ok = "\<lambda>(k :: nat, n). logged_device.visited ops good jt moves_on m n"
  note def = logged_device.visited_def [OF assms(1)]
  have link: "history_link (service_link net svs) ?ok contents"
    by (rule logged_device.service_history_link [OF assms(1,4,2)])
  have "rest good m"
    using reachable_from_spawn [OF _ assms(3,2,5)] assms(1) by (simp add: logged_device_def)
  then have "?ok (k, m)" by (simp add: def manager_reachable.start)
  from history_link.download_history_image [OF link this assms(6)] obtain dump km where
    bytes: "bytes = contents" and
    end_it: "lk_end (service_link net svs) dump km = (Inr (Inr ()), (k', m'))" and ok: "?ok km"
    by blast
  obtain i n where km: "km = (i, n)" by fastforce
  have e: "svc_end_history_dump (svs i) dump n = (Inr (), m')"
    using end_it km wire_Inr [of net svs "\<lambda>sv. svc_end_history_dump sv dump" i n "Inr ()" k' m']
    by (simp add: service_link_def)
  have "ready m' \<and> active_dump m' = None"
    using logged_device.end_dump_effect [OF assms(1) _ e] assms(4) by blast
  moreover have "manager_reachable ops jt moves_on n m'"
    using logged_device.dump_methods_reachable(3) [OF assms(1), of "svs i" jt moves_on n dump] assms(4) e by simp
  ultimately show ?thesis
    using bytes ok km manager_reachable_trans by (auto simp: def)
qed

text \<open>A link that answers every request lets the download finish.\<close>

lemma download_chunks_succeeds:
  assumes "\<And>i s. i < 512 \<Longrightarrow> serving s \<Longrightarrow>
       \<exists>chunk s'. lk_chunk lk dump (fst (chunk_request i)) (snd (chunk_request i)) s = (Some (Inr (Inr chunk)), s')
         \<and> unat (hc_offset chunk) = i * HISTORY_CLIENT_CHUNK_SIZE
         \<and> length (hc_data chunk) = HISTORY_CLIENT_CHUNK_SIZE \<and> serving s'"
    and "serving s" and "length bytes = i * HISTORY_CLIENT_CHUNK_SIZE" and "i \<le> 512"
  shows "\<exists>result s'. download_chunks lk dump FLASH_LENGTH bytes s = ((Inr result, False), s') \<and> serving s'"
  using assms(2-)
proof (induction "512 - i" arbitrary: i bytes s)
  case 0
  then have "download_chunks lk dump FLASH_LENGTH bytes s = ((Inr bytes, False), s)"
    by (subst download_chunks.simps) (simp add: sizes)
  then show ?case using 0 by simp
next
  case (Suc n)
  then have i: "i < 512" by simp
  obtain chunk s1 where c: "lk_chunk lk dump (fst (chunk_request i)) (snd (chunk_request i)) s = (Some (Inr (Inr chunk)), s1)"
    "unat (hc_offset chunk) = i * HISTORY_CLIENT_CHUNK_SIZE"
    "length (hc_data chunk) = HISTORY_CLIENT_CHUNK_SIZE" "serving s1"
    using assms(1) [OF i Suc.prems(1)] by blast
  have "download_chunks lk dump FLASH_LENGTH bytes s = download_chunks lk dump FLASH_LENGTH (bytes @ hc_data chunk) s1"
    using download_chunks_step [OF Suc.prems(2) i, of lk dump s] c Suc.prems(2) by (simp add: rpc_result_def)
  then show ?case
    using Suc.hyps(1) [of "Suc i" s1 "bytes @ hc_data chunk"] Suc.hyps(2) Suc.prems c i by simp
qed

definition serving_dump :: "u64 \<Rightarrow> mock_state manager \<Rightarrow> bool" where
  "serving_dump dump m \<longleftrightarrow> \<not> stopped m \<and> (\<exists>d. active_dump m = Some d \<and> active_id d = dump
     \<and> active_session d = session m \<and> active_token d < length (tokens m) \<and> \<not> tokens m ! active_token d)
     \<and> connected (backend m) \<and> \<not> block_next_history_read (backend m)
     \<and> next_display_resume_failure (backend m) = None \<and> debug_pause_expires_at m = None"

lemma serving_dump_chunk:
  assumes "serving_dump dump m" and "unat len \<le> MAX_CHUNK_SIZE" and "unat off + unat len \<le> FLASH_LENGTH"
  shows "\<exists>m'. svc_read_history_dump_chunk renaming_server dump off len m
      = (Inr \<lparr>hc_offset = off, hc_total_bytes = word_of_nat FLASH_LENGTH,
              hc_data = mock_history_bytes (unat off) (unat len)\<rparr>, m') \<and> serving_dump dump m'"
proof -
  obtain d where d: "active_dump m = Some d" "active_id d = dump" "active_session d = session m"
    "active_token d < length (tokens m)" "\<not> tokens m ! active_token d"
    using assms(1) by (auto simp: serving_dump_def)
  have range: "validate_history_range (unat off) (unat len) = Inr ()"
    using assms(2,3) by (simp add: validate_history_range_Inr)
  have alive: "\<not> stopped m" "connected (backend m)" "\<not> block_next_history_read (backend m)"
    "next_display_resume_failure (backend m) = None" "debug_pause_expires_at m = None"
    using assms(1) by (auto simp: serving_dump_def)
  have off: "u32_try_from (unat off) = Some off" "u32_try_from FLASH_LENGTH = Some (word_of_nat FLASH_LENGTH)"
    using unsigned_less [of off] by (simp_all add: u32_try_from_def FLASH_LENGTH_def)
  show ?thesis
    by (simp add: svc_read_history_dump_chunk_def bindS_def dev_def handle_read_history_dump_chunk_def answer_def
        ask_def renaming_server_def Let_def alive run_read_history_dump_chunk_def find_dump_def d on_backend_def
        mock_read_history_chunk_def when_connected_def range mock_pass_time_def service_result_def
        history_reply_def off drop_if_lost_def serving_dump_def ms_def)
qed

lemma mock_begin:
  "\<exists>dump m. svc_begin_history_dump renaming_server example_session = (Inr dump, m)
     \<and> unat (hd_total_bytes dump) = FLASH_LENGTH \<and> hd_session_id dump = 1 \<and> serving_dump (hd_dump_id dump) m"
proof -
  have total: "u32_try_from FLASH_LENGTH = Some (word_of_nat FLASH_LENGTH)" "unat (word_of_nat FLASH_LENGTH :: u32) = FLASH_LENGTH"
    by (simp_all add: u32_try_from_def FLASH_LENGTH_def)
  have blocked: "\<not> block_next_history_read (backend example_session)" "session example_session = 1"
    using example_session_rest example_session_ready(1)
    by (simp_all add: rest_def phase_ok_def example_session_def example_start_def spawn_manager_def handle_candidates_def
      retry_is_due_def connect_def on_backend_def mock_connect_def mock_default_def
      mock_read_telemetry_def when_connected_def Let_def connected_with_def daemon_state_default_def
      bump_and_publish_def set_connection_def drop_leases_def clear_history_cancellation_def send_event_def)
  show ?thesis
    by (simp add: svc_begin_history_dump_def bindS_def dev_def handle_begin_history_dump_def answer_def ask_def
        renaming_server_def Let_def example_session_ready run_begin_history_dump_def ensure_display_paused_def
        example_session_undecided bindA_def updA_def on_backend_def mock_pause_history_updates_def when_connected_def
        open_dump_def set_busy_def set_connection_def bump_and_publish_def service_result_def total serving_dump_def
        blocked)
qed

lemma mock_end:
  assumes "serving_dump dump m"
  shows "\<exists>m'. svc_end_history_dump renaming_server dump m = (Inr (), m')"
proof -
  obtain d where d: "active_dump m = Some d" "active_id d = dump" "active_session d = session m"
    using assms by (auto simp: serving_dump_def)
  have alive: "\<not> stopped m" "connected (backend m)" "next_display_resume_failure (backend m) = None"
    using assms by (auto simp: serving_dump_def)
  have c: "active_dump (cancel_history w m) = active_dump m" "session (cancel_history w m) = session m"
    "stopped (cancel_history w m) = stopped m" "backend (cancel_history w m) = backend m" for w
    by (auto simp: cancel_history_def split: option.splits)
  show ?thesis
    by (auto simp: svc_end_history_dump_def dev_def handle_end_history_dump_def answer_def ask_def
        renaming_server_def Let_def c alive run_end_history_dump_def find_dump_def d resume_display_if_unowned_def
        clear_history_cancellation_def on_backend_def mock_resume_history_updates_def when_connected_def
        service_result_def split: prod.split)
qed

lemma mock_downloads: "\<exists>bytes km. download_history mock_link (0, example_session) = (Inr bytes, km)"
proof -
  obtain dump m where b: "svc_begin_history_dump renaming_server example_session = (Inr dump, m)"
    "unat (hd_total_bytes dump) = FLASH_LENGTH" "serving_dump (hd_dump_id dump) m"
    using mock_begin by blast
  have w: "wire calm_network (\<lambda>_. renaming_server) call (k, n)
      = (case call renaming_server n of (r, n') \<Rightarrow> (Inr r, (Suc k, n')))" for call k n
    by (simp add: wire_def calm_network_def)
  let ?Q = "\<lambda>(k :: nat, n). serving_dump (hd_dump_id dump) n"
  have step: "\<exists>chunk s'. lk_chunk mock_link (hd_dump_id dump) (fst (chunk_request i)) (snd (chunk_request i)) s
        = (Some (Inr (Inr chunk)), s') \<and> unat (hc_offset chunk) = i * HISTORY_CLIENT_CHUNK_SIZE
        \<and> length (hc_data chunk) = HISTORY_CLIENT_CHUNK_SIZE \<and> ?Q s'"
    if i: "i < 512" and s: "?Q s" for i s
  proof -
    obtain k n where kn: "s = (k, n)" by fastforce
    have off: "unat (fst (chunk_request i)) = i * HISTORY_CLIENT_CHUNK_SIZE"
      "unat (snd (chunk_request i)) = HISTORY_CLIENT_CHUNK_SIZE"
      using i unat_word_32 [of "i * HISTORY_CLIENT_CHUNK_SIZE"] unat_word_32 [of HISTORY_CLIENT_CHUNK_SIZE]
      by (simp_all only: chunk_request_def fst_conv snd_conv, simp_all add: sizes)
    obtain n' where c: "svc_read_history_dump_chunk renaming_server (hd_dump_id dump) (fst (chunk_request i))
        (snd (chunk_request i)) n = (Inr \<lparr>hc_offset = fst (chunk_request i), hc_total_bytes = word_of_nat FLASH_LENGTH,
           hc_data = mock_history_bytes (i * HISTORY_CLIENT_CHUNK_SIZE) HISTORY_CLIENT_CHUNK_SIZE\<rparr>, n')"
      "serving_dump (hd_dump_id dump) n'"
      using serving_dump_chunk [of "hd_dump_id dump" n "snd (chunk_request i)" "fst (chunk_request i)"] s kn off i
      by (auto simp: sizes MAX_CHUNK_SIZE_def)
    show ?thesis
      using c off by (simp add: kn service_link_def w) (simp add: calm_network_def)
  qed
  have Q: "?Q (1, m)" using b(3) by simp
  obtain bytes s' where d: "download_chunks mock_link (hd_dump_id dump) FLASH_LENGTH [] (1, m) = ((Inr bytes, False), s')"
    "?Q s'"
    using download_chunks_succeeds [of ?Q mock_link "hd_dump_id dump", OF step Q, of "[]" 0] by auto
  obtain k n where s': "s' = (k, n)" by fastforce
  obtain n' where e: "svc_end_history_dump renaming_server (hd_dump_id dump) n = (Inr (), n')"
    using mock_end d(2) s' by auto
  have begin_it: "lk_begin mock_link (0, example_session) = (Inr (Inr dump), (1, m))"
    by (simp add: service_link_def w b(1))
  have "read_dump mock_link dump (1, m) = ((Inr bytes, False), s')"
    using d(1) b(2) by (simp add: read_dump_def) (simp add: service_link_def calm_network_def)
  moreover have "end_dump mock_link (hd_dump_id dump) False s' = (Inr (), (Suc k, n'))"
    by (simp add: end_dump_def s' rpc_result_def) (simp add: service_link_def w e)
  ultimately show ?thesis
    by (simp add: download_history_def begin_it rpc_result_def dump_result_def)
qed

theorem history_download_exact_witness:
  "\<exists>km. download_history mock_link (0, example_session) = (Inr mock_log, km)"
proof -
  obtain bytes k m' where d: "download_history mock_link (0, example_session) = (Inr bytes, (k, m'))"
    using mock_downloads by (metis prod.collapse)
  have servers: "sv_ops renaming_server = mock_backend \<and> sv_json renaming_server = sv_json renaming_server
      \<and> serves renaming_server time_passes" for i :: nat
    by (simp add: renaming_server_serves) (simp add: renaming_server_def)
  have run: "manager_reachable mock_backend (sv_json renaming_server) time_passes
      (spawn_manager mock_backend mock_default (ms 1000)) example_session"
    unfolding example_session_def example_start_def
    by (rule manager_reachable.step [OF manager_reachable.start manager_step.candidates]) (simp add: spawn_manager_def)
  have "bytes = mock_log"
    using history_download_exact [OF mock_logged.logged_device_axioms time_passes_safe mock_default_inv servers run d] by simp
  then show ?thesis using d by blast
qed

end
