(* ===== verification/Numbers.thy ===== *)
theory Numbers
  imports Floats
begin

text \<open>
  What the clients do with numbers: \<open>f32\<close> arithmetic, conversions and the decimal text of a float
  with a fixed number of places. A value of \<open>f32\<close> is a value of the same datatype on the coarser
  grid, and again the two zeros are one value, so a negative zero prints without its sign.
\<close>

section \<open>\<open>f32\<close>\<close>

type_synonym f32 = f64

definition f32_of_rat :: "rat \<Rightarrow> f32" where
  "f32_of_rat q = (let r = round_binary 23 (- 126) q
     in if \<bar>r\<bar> < pow2 128 then Finite r else Infinite (q < 0))"

text \<open>\<open>value as f32\<close>.\<close>

fun f32_of_f64 :: "f64 \<Rightarrow> f32" where
  "f32_of_f64 (Finite a) = f32_of_rat a"
| "f32_of_f64 (Infinite s) = Infinite s"
| "f32_of_f64 NaN = NaN"

fun f32_add :: "f32 \<Rightarrow> f32 \<Rightarrow> f32" where
  "f32_add (Finite a) (Finite b) = f32_of_rat (a + b)"
| "f32_add (Finite a) (Infinite s) = Infinite s"
| "f32_add (Infinite s) (Finite b) = Infinite s"
| "f32_add (Infinite s) (Infinite t) = (if s = t then Infinite s else NaN)"
| "f32_add _ _ = NaN"

definition f32_sub :: "f32 \<Rightarrow> f32 \<Rightarrow> f32" where
  "f32_sub a b = f32_add a (f64_neg b)"

fun f32_mul :: "f32 \<Rightarrow> f32 \<Rightarrow> f32" where
  "f32_mul (Finite a) (Finite b) = f32_of_rat (a * b)"
| "f32_mul (Finite a) (Infinite s) = (if a = 0 then NaN else Infinite ((a < 0) \<noteq> s))"
| "f32_mul (Infinite s) (Finite b) = (if b = 0 then NaN else Infinite ((b < 0) \<noteq> s))"
| "f32_mul (Infinite s) (Infinite t) = Infinite (s \<noteq> t)"
| "f32_mul _ _ = NaN"

text \<open>A divisor of zero is the positive zero: it is a difference of equal values.\<close>

fun f32_div :: "f32 \<Rightarrow> f32 \<Rightarrow> f32" where
  "f32_div (Finite a) (Finite b) =
     (if b = 0 then if a = 0 then NaN else Infinite (a < 0) else f32_of_rat (a / b))"
| "f32_div (Finite a) (Infinite s) = Finite 0"
| "f32_div (Infinite s) (Finite b) = Infinite ((b < 0) \<noteq> s)"
| "f32_div _ _ = NaN"

text \<open>\<open>max\<close> and \<open>min\<close> ignore a NaN.\<close>

definition float_max :: "f64 \<Rightarrow> f64 \<Rightarrow> f64" where
  "float_max a b = (if a = NaN then b else if b = NaN then a else if f64_less a b then b else a)"

definition float_min :: "f64 \<Rightarrow> f64 \<Rightarrow> f64" where
  "float_min a b = (if a = NaN then b else if b = NaN then a else if f64_less b a then b else a)"

definition float_clamp :: "f64 \<Rightarrow> f64 \<Rightarrow> f64 \<Rightarrow> f64" where
  "float_clamp low high x = (if f64_less x low then low else if f64_less high x then high else x)"

text \<open>\<open>value as u16\<close> saturates and maps NaN to zero.\<close>

fun float_to_u16 :: "f64 \<Rightarrow> nat" where
  "float_to_u16 (Finite a) = nat (max 0 (min 65535 (if a < 0 then - \<lfloor>- a\<rfloor> else \<lfloor>a\<rfloor>)))"
| "float_to_u16 (Infinite s) = (if s then 0 else 65535)"
| "float_to_u16 NaN = 0"

text \<open>Division by a value that is not zero; a quotient of infinities is NaN.\<close>

fun f64_div :: "f64 \<Rightarrow> f64 \<Rightarrow> f64" where
  "f64_div x (Finite b) = f64_div_const x b"
| "f64_div (Finite a) (Infinite s) = Finite 0"
| "f64_div _ _ = NaN"

section \<open>Decimal text\<close>

definition pad_left :: "char \<Rightarrow> nat \<Rightarrow> string \<Rightarrow> string" where
  "pad_left c width text = replicate (width - length text) c @ text"

text \<open>\<open>{:0w}\<close> of an unsigned number.\<close>

definition show_padded :: "nat \<Rightarrow> nat \<Rightarrow> string" where
  "show_padded width n = pad_left (CHR ''0'') width (show_nat n)"

text \<open>\<open>{:.p}\<close>: the exact value, rounded half to even at \<open>p\<close> decimal places.\<close>

definition show_decimal :: "nat \<Rightarrow> rat \<Rightarrow> string" where
  "show_decimal p q =
     (let scaled = nat (round_half_even (\<bar>q\<bar> * 10 ^ p))
      in (if q < 0 then ''-'' else [])
         @ show_nat (scaled div 10 ^ p)
         @ (if p = 0 then [] else ''.'' @ show_padded p (scaled mod 10 ^ p)))"

fun show_fixed :: "nat \<Rightarrow> f64 \<Rightarrow> string" where
  "show_fixed p (Finite q) = show_decimal p q"
| "show_fixed p (Infinite s) = (if s then ''-inf'' else ''inf'')"
| "show_fixed p NaN = ''NaN''"

section \<open>Lemmas\<close>

lemma length_pad_left: "length (pad_left c width text) = max width (length text)"
  by (simp add: pad_left_def)

text \<open>The characters of a number's text: digits, the sign, the point, and the letters of the others.\<close>

definition number_char :: "char \<Rightarrow> bool" where
  "number_char c = (let n = (of_char c :: nat) in n = 45 \<or> n = 46 \<or> 48 \<le> n \<and> n \<le> 57 \<or> 65 \<le> n \<and> n \<le> 122)"

lemma number_char_digit: "d < 10 \<Longrightarrow> number_char (digit_char d)"
  by (simp add: number_char_def digit_char_def Let_def)

lemma number_char_show_nat: "list_all number_char (show_nat n)"
proof (induction n rule: show_nat.induct)
  case (1 n)
  then show ?case by (cases "n < 10") (simp_all add: show_nat.simps [of n] number_char_digit)
qed

lemma number_char_show_padded: "list_all number_char (show_padded w n)"
proof -
  have "number_char CHR ''0''" by (simp add: number_char_def)
  then show ?thesis
    using number_char_show_nat [of n] by (auto simp: show_padded_def pad_left_def list_all_iff)
qed

lemma number_char_show_decimal: "list_all number_char (show_decimal p q)"
proof -
  have "number_char CHR ''-''" "number_char CHR ''.''" by (simp_all add: number_char_def)
  then show ?thesis
    by (simp add: show_decimal_def Let_def number_char_show_nat number_char_show_padded)
qed

text \<open>The text of a number never has a separator in it.\<close>

lemma number_char_show_fixed: "list_all number_char (show_fixed p x)"
proof (cases x)
  case (Finite q)
  then show ?thesis by (simp add: number_char_show_decimal)
next
  case (Infinite s)
  then show ?thesis by (simp add: number_char_def)
next
  case NaN
  then show ?thesis by (simp add: number_char_def)
qed

lemma min_floor_le: "x \<le> h \<Longrightarrow> min c \<lfloor>x :: rat\<rfloor> \<le> \<lfloor>h\<rfloor>"
  using floor_mono [of x h] by (simp add: min_le_iff_disj)

lemma float_to_u16_clamped:
  assumes "0 \<le> h"
  shows "float_to_u16 (float_clamp (Finite 0) (Finite h) x) \<le> nat \<lfloor>h\<rfloor>"
  using assms by (cases x) (auto simp: float_clamp_def not_less intro!: nat_mono min_floor_le split: if_splits)

end
