(* ===== verification/Output.thy ===== *)
theory Output
  imports HistoryClient Numbers
begin

text \<open>
  Where the command line client writes (\<open>AtomicOutput\<close> and \<open>with_output\<close> of \<open>src/bin/wireview.rs\<close>): a
  temporary file beside the destination that replaces it in one step once it is complete. The file
  system is a map from paths to contents in which any operation can fail, a failed write after some
  of its bytes; it remembers every content it went through, which is what a crash could leave
  behind. Buffering is not modelled: a written byte reaches the temporary file at once.
\<close>

section \<open>Paths\<close>

text \<open>A path is absolute or not and has components, as \<open>Path::components\<close> gives them.\<close>

datatype path = Path (absolute: bool) (components: "string list")

definition file_name :: "path \<Rightarrow> string option" where
  "file_name p = (if components p = [] \<or> last (components p) \<in> {''.'', ''..''} then None else Some (last (components p)))"

definition parent :: "path \<Rightarrow> path option" where
  "parent p = (if components p = [] then None else Some (Path (absolute p) (butlast (components p))))"

definition join_path :: "path \<Rightarrow> string \<Rightarrow> path" where
  "join_path p name = Path (absolute p) (components p @ [name])"

text \<open>The file a path names: a component \<open>.\<close> stays in the directory.\<close>

definition resolve :: "path \<Rightarrow> path" where
  "resolve p = Path (absolute p) (filter (\<lambda>c. c \<noteq> ''.'') (components p))"

section \<open>The file system\<close>

record disk =
  files :: "path \<Rightarrow> string option"
  stdout_text :: string
  ops_done :: nat
  next_temporary_id :: u64
  seen :: "(path \<Rightarrow> string option) list"

text \<open>Which operation fails, with what, and how much of a failing write still happens.\<close>

record faults =
  fault :: "nat \<Rightarrow> (io_error_kind \<times> string) option"
  partial_write :: "nat \<Rightarrow> nat"
  process_id :: nat

type_synonym 'a disk_action = "disk \<Rightarrow> (cli_error + 'a) \<times> disk"

definition set_files :: "(path \<Rightarrow> string option) \<Rightarrow> disk \<Rightarrow> disk" where
  "set_files fs d = d\<lparr>files := fs, seen := seen d @ [fs]\<rparr>"

definition bindD ::
  "(disk \<Rightarrow> ('e + 'a) \<times> disk) \<Rightarrow> ('a \<Rightarrow> disk \<Rightarrow> ('e + 'b) \<times> disk) \<Rightarrow> disk \<Rightarrow> ('e + 'b) \<times> disk" where
  "bindD act f d = (case act d of (Inl e, d1) \<Rightarrow> (Inl e, d1) | (Inr x, d1) \<Rightarrow> f x d1)"

definition disk_op :: "faults \<Rightarrow> 'a disk_action \<Rightarrow> 'a disk_action" where
  "disk_op flt act d =
    (case fault flt (ops_done d) of
       Some (kind, message) \<Rightarrow> (Inl (IoError kind message), d\<lparr>ops_done := Suc (ops_done d)\<rparr>)
     | None \<Rightarrow> act (d\<lparr>ops_done := Suc (ops_done d)\<rparr>))"

definition create_new :: "faults \<Rightarrow> path \<Rightarrow> unit disk_action" where
  "create_new flt p = disk_op flt (\<lambda>d.
     if files d (resolve p) \<noteq> None then (Inl (IoError AlreadyExists ''File exists''), d)
     else (Inr (), set_files ((files d)(resolve p \<mapsto> [])) d))"

definition append_file :: "path \<Rightarrow> string \<Rightarrow> disk \<Rightarrow> disk" where
  "append_file p bytes d =
    (case files d (resolve p) of
       None \<Rightarrow> d
     | Some old \<Rightarrow> set_files ((files d)(resolve p \<mapsto> old @ bytes)) d)"

text \<open>\<open>write_all\<close> on an open file.\<close>

definition write_file :: "faults \<Rightarrow> path \<Rightarrow> string \<Rightarrow> unit disk_action" where
  "write_file flt p bytes d =
    (case disk_op flt (Pair (Inr ())) d of
       (Inl e, d1) \<Rightarrow> (Inl e, append_file p (take (partial_write flt (ops_done d)) bytes) d1)
     | (Inr _, d1) \<Rightarrow> (Inr (), append_file p bytes d1))"

definition flush_file :: "faults \<Rightarrow> unit disk_action" where
  "flush_file flt = disk_op flt (Pair (Inr ()))"

definition rename_file :: "faults \<Rightarrow> path \<Rightarrow> path \<Rightarrow> unit disk_action" where
  "rename_file flt from to = disk_op flt (\<lambda>d.
     case files d (resolve from) of
       None \<Rightarrow> (Inl (IoError OtherKind ''No such file or directory''), d)
     | Some text \<Rightarrow> (Inr (), set_files ((files d)(resolve from := None, resolve to := Some text)) d))"

definition remove_file :: "faults \<Rightarrow> path \<Rightarrow> unit disk_action" where
  "remove_file flt p = disk_op flt (\<lambda>d. (Inr (), set_files ((files d)(resolve p := None)) d))"

section \<open>Atomic output\<close>

record atomic_output =
  ao_destination :: path
  ao_temporary :: path

definition temporary_name :: "faults \<Rightarrow> string \<Rightarrow> u64 \<Rightarrow> string" where
  "temporary_name flt name i =
     ''.'' @ name @ ''.wireview-'' @ show_nat (process_id flt) @ ''-'' @ show_nat (unat i) @ ''.tmp''"

fun try_temporaries :: "faults \<Rightarrow> nat \<Rightarrow> path \<Rightarrow> path \<Rightarrow> string \<Rightarrow> atomic_output disk_action" where
  "try_temporaries flt 0 destination directory name d =
     (Inl (IoError AlreadyExists ''could not allocate a temporary output file''), d)"
| "try_temporaries flt (Suc n) destination directory name d =
    (let i = next_temporary_id d;
         temporary = join_path directory (temporary_name flt name i)
     in case create_new flt temporary (d\<lparr>next_temporary_id := i + 1\<rparr>) of
          (Inr _, d1) \<Rightarrow> (Inr \<lparr>ao_destination = destination, ao_temporary = temporary\<rparr>, d1)
        | (Inl (IoError AlreadyExists message), d1) \<Rightarrow> try_temporaries flt n destination directory name d1
        | (Inl e, d1) \<Rightarrow> (Inl e, d1))"

definition create_output :: "faults \<Rightarrow> path \<Rightarrow> atomic_output disk_action" where
  "create_output flt destination d =
    (let directory = (case parent destination of
            Some p \<Rightarrow> if p = Path False [] then Path False [''.''] else p
          | None \<Rightarrow> Path False [''.''])
     in case file_name destination of
          None \<Rightarrow> (Inl (IoError InvalidInput ''output path must name a file''), d)
        | Some name \<Rightarrow> try_temporaries flt 100 destination directory name d)"

text \<open>\<open>Drop\<close>: an output that was not committed removes its temporary file, if it can.\<close>

definition drop_output :: "faults \<Rightarrow> atomic_output \<Rightarrow> disk \<Rightarrow> disk" where
  "drop_output flt out d = snd (remove_file flt (ao_temporary out) d)"

definition commit_output :: "faults \<Rightarrow> atomic_output \<Rightarrow> unit disk_action" where
  "commit_output flt out d =
    (case bindD (flush_file flt) (\<lambda>_. bindD (flush_file flt) (\<lambda>_.
            rename_file flt (ao_temporary out) (ao_destination out))) d of
       (Inl e, d1) \<Rightarrow> (Inl e, drop_output flt out d1)
     | (Inr _, d1) \<Rightarrow>
         (case parent (ao_destination out) of
            None \<Rightarrow> (Inr (), d1)
          | Some p \<Rightarrow> if p = Path False [] then (Inr (), d1)
              else bindD (flush_file flt) (\<lambda>_. flush_file flt) d1))"

text \<open>
  \<open>with_output\<close>: an operation on a writer, which is the temporary file or the standard output.
\<close>

type_synonym 'a writing = "(string \<Rightarrow> unit disk_action) \<Rightarrow> 'a disk_action"

definition write_stdout :: "faults \<Rightarrow> string \<Rightarrow> unit disk_action" where
  "write_stdout flt bytes = disk_op flt (\<lambda>d. (Inr (), d\<lparr>stdout_text := stdout_text d @ bytes\<rparr>))"

definition with_output :: "faults \<Rightarrow> path option \<Rightarrow> 'a writing \<Rightarrow> 'a disk_action" where
  "with_output flt output_path operation =
    (case output_path of
       Some p \<Rightarrow> bindD (create_output flt p) (\<lambda>out d.
         case operation (write_file flt (ao_temporary out)) d of
           (Inl e, d1) \<Rightarrow> (Inl e, drop_output flt out d1)
         | (Inr x, d1) \<Rightarrow> bindD (commit_output flt out) (\<lambda>_ d2. (Inr x, d2)) d1)
     | None \<Rightarrow> bindD (operation (write_stdout flt)) (\<lambda>x. bindD (flush_file flt) (\<lambda>_ d. (Inr x, d))))"

end
