(* ===== verification/HistoryOutput.thy ===== *)
theory HistoryOutput
  imports Output
begin

text \<open>
  The text of \<open>wireview history\<close> (\<open>src/bin/wireview.rs\<close>): the table, the CSV and the JSON of the log,
  streamed to a writer entry by entry, and the raw bytes; between two entries an interruption is
  noticed. The JSON of one entry is third-party code and a parameter.
\<close>

datatype history_format = TableFormat | CsvFormat | JsonFormat | RawFormat

section \<open>Columns\<close>

text \<open>The width of a text is its number of characters; continuation bytes of UTF-8 have none.\<close>

definition char_count :: "string \<Rightarrow> nat" where
  "char_count s = length (filter (\<lambda>c. let n = (of_char c :: nat) in n < 128 \<or> 192 \<le> n) s)"

definition align_right :: "nat \<Rightarrow> string \<Rightarrow> string" where
  "align_right width s = replicate (width - char_count s) (CHR '' '') @ s"

definition align_left :: "nat \<Rightarrow> string \<Rightarrow> string" where
  "align_left width s = s @ replicate (width - char_count s) (CHR '' '')"

definition nl :: string where "nl = [CHR 0x0A]"
definition em_dash :: string where "em_dash = [CHR 0xE2, CHR 0x80, CHR 0x94]"
definition degree :: string where "degree = [CHR 0xC2, CHR 0xB0]"

definition format_device_time :: "u32 \<Rightarrow> string" where
  "format_device_time milliseconds =
    (let total_seconds = unat milliseconds div 1000;
         days = total_seconds div 86400;
         hours = total_seconds mod 86400 div 3600;
         minutes = total_seconds mod 3600 div 60;
         seconds = total_seconds mod 60;
         clock = show_padded 2 hours @ '':'' @ show_padded 2 minutes @ '':'' @ show_padded 2 seconds
           @ ''.'' @ show_padded 3 (unat milliseconds mod 1000)
     in if days = 0 then clock else show_nat days @ ''d '' @ clock)"

definition history_kind :: "history_entry \<Rightarrow> string" where
  "history_kind entry = (case h_kind entry of Measurement \<Rightarrow> ''measurement'' | PowerOn \<Rightarrow> ''power-on'')"

definition format_optional_number :: "f64 option \<Rightarrow> string" where
  "format_optional_number value = (case value of None \<Rightarrow> em_dash | Some v \<Rightarrow> show_fixed 0 v)"

definition optional_csv :: "f64 option \<Rightarrow> string" where
  "optional_csv value = (case value of None \<Rightarrow> [] | Some v \<Rightarrow> show_fixed 0 v)"

definition history_table_header :: string where
  "history_table_header =
     ''Device time  Event        Total       Average      Temperatures ('' @ degree @ ''C)       Connector pins (V/A)'' @ nl
     @ ''                         power/current voltage      in/out/ext1/ext2'' @ nl"

definition history_table_entry :: "history_entry \<Rightarrow> string" where
  "history_table_entry entry =
    (let mt = h_metrics entry; temps = h_temperatures mt;
         ps = join_with ''  '' (map (\<lambda>(index, pin). show_nat (index + 1) @ '':'' @ show_fixed 1 (voltage_v pin)
                @ ''/'' @ show_fixed 1 (current_a pin)) (enumerate 0 (h_pins mt)))
     in align_right 11 (format_device_time (device_time_ms entry)) @ ''  ''
        @ align_left 11 (history_kind entry) @ '' ''
        @ align_right 6 (show_fixed 1 (h_total_power_w mt)) @ '' W/''
        @ align_left 5 (show_fixed 1 (h_total_current_a mt)) @ '' A ''
        @ align_right 6 (show_fixed 1 (h_avg_voltage_v mt)) @ '' V  ''
        @ align_right 4 (show_fixed 0 (input_c temps)) @ ''/''
        @ align_right 4 (show_fixed 0 (output_c temps)) @ ''/''
        @ align_right 4 (format_optional_number (external_1_c temps)) @ ''/''
        @ align_right 4 (format_optional_number (external_2_c temps)) @ ''  '' @ ps @ nl)"

text \<open>A row of cells.\<close>

definition history_csv_header_cells :: "string list" where
  "history_csv_header_cells =
     [''device_time_ms'', ''event'', ''total_power_w'', ''total_current_a'', ''average_voltage_v'']
     @ concat (map (\<lambda>pin. [''pin_'' @ show_nat pin @ ''_voltage_v'', ''pin_'' @ show_nat pin @ ''_current_a'',
         ''pin_'' @ show_nat pin @ ''_power_w'']) [1..<7])
     @ [''onboard_input_c'', ''onboard_output_c'', ''external_1_c'', ''external_2_c'', ''cable_rating_w'']"

definition history_csv_header :: "string list" where
  "history_csv_header =
     [''device_time_ms,event,total_power_w,total_current_a,average_voltage_v'']
     @ map (\<lambda>pin. '',pin_'' @ show_nat pin @ ''_voltage_v,pin_'' @ show_nat pin @ ''_current_a,pin_''
         @ show_nat pin @ ''_power_w'') [1..<7]
     @ ['',onboard_input_c,onboard_output_c,external_1_c,external_2_c,cable_rating_w'' @ nl]"

text \<open>The pieces of one entry, as the code writes them one after the other.\<close>

definition history_csv_entry :: "history_entry \<Rightarrow> string list" where
  "history_csv_entry entry =
    (let mt = h_metrics entry; temps = h_temperatures mt in
     [show_nat (unat (device_time_ms entry)) @ '','' @ history_kind entry @ '',''
        @ show_fixed 1 (h_total_power_w mt) @ '','' @ show_fixed 1 (h_total_current_a mt) @ '',''
        @ show_fixed 1 (h_avg_voltage_v mt)]
     @ map (\<lambda>pin. '','' @ show_fixed 1 (voltage_v pin) @ '','' @ show_fixed 1 (current_a pin) @ '',''
         @ show_fixed 1 (power_w pin)) (h_pins mt)
     @ ['','' @ show_fixed 0 (input_c temps) @ '','' @ show_fixed 0 (output_c temps) @ '','',
        optional_csv (external_1_c temps), '','', optional_csv (external_2_c temps),
        '','' @ show_nat (unat (h_cable_capability_w mt)) @ nl])"

text \<open>\<open>json.replace('\n', "\n  ")\<close>.\<close>

definition indent_lines :: "string \<Rightarrow> string" where
  "indent_lines json = concat (map (\<lambda>c. if c = CHR 0x0A then nl @ ''  '' else [c]) json)"

section \<open>Streaming\<close>

definition put_all ::
  "(string \<Rightarrow> disk \<Rightarrow> ('e + unit) \<times> disk) \<Rightarrow> string list \<Rightarrow> disk \<Rightarrow> ('e + unit) \<times> disk" where
  "put_all put pieces = foldr (\<lambda>piece rest_of. bindD (put piece) (\<lambda>_. rest_of)) pieces (Pair (Inr ()))"

definition ensure_history_not_cancelled :: "(disk \<Rightarrow> bool) \<Rightarrow> unit disk_action" where
  "ensure_history_not_cancelled requested d =
    (if requested d then (Inl history_interrupted_error, d) else (Inr (), d))"

text \<open>What precedes an entry: the header before the first, a separator between two of JSON.\<close>

definition entry_prefix :: "history_format \<Rightarrow> bool \<Rightarrow> string list" where
  "entry_prefix fmt started =
    (if \<not> started then (case fmt of
        TableFormat \<Rightarrow> [history_table_header]
      | CsvFormat \<Rightarrow> history_csv_header
      | JsonFormat \<Rightarrow> [''['' @ nl]
      | RawFormat \<Rightarrow> [])
     else if fmt = JsonFormat then ['','' @ nl] else [])"

definition entry_text :: "(history_entry \<Rightarrow> string) \<Rightarrow> history_format \<Rightarrow> history_entry \<Rightarrow> string list" where
  "entry_text json fmt entry = (case fmt of
       TableFormat \<Rightarrow> [history_table_entry entry]
     | CsvFormat \<Rightarrow> history_csv_entry entry
     | JsonFormat \<Rightarrow> [''  '' @ indent_lines (json entry)]
     | RawFormat \<Rightarrow> [])"

definition stream_entry ::
  "(history_entry \<Rightarrow> string) \<Rightarrow> history_format \<Rightarrow> (disk \<Rightarrow> bool) \<Rightarrow> (string \<Rightarrow> unit disk_action)
     \<Rightarrow> history_entry \<Rightarrow> bool \<times> disk \<Rightarrow> (cli_error + unit) \<times> (bool \<times> disk)" where
  "stream_entry json fmt requested put entry s =
    (case s of (started, d) \<Rightarrow>
      if fmt = RawFormat then
        (Inl (CliPanicked ''raw history is written without record decoding''), s)
      else case bindD (ensure_history_not_cancelled requested) (\<lambda>_.
             bindD (put_all put (entry_prefix fmt started)) (\<lambda>_.
               put_all put (entry_text json fmt entry))) d of
        (r, d1) \<Rightarrow> (r, (True, d1)))"

definition history_tail :: "history_format \<Rightarrow> nat \<Rightarrow> string list" where
  "history_tail fmt count =
    (if count = 0 then [''No telemetry history is stored on the device.'' @ nl]
     else if fmt = JsonFormat then [nl @ '']'' @ nl] else [])"

definition stream_history ::
  "(history_entry \<Rightarrow> string) \<Rightarrow> u8 list \<Rightarrow> history_format \<Rightarrow> (disk \<Rightarrow> bool) \<Rightarrow> nat writing" where
  "stream_history json bytes fmt requested put d =
    (case visit_history bytes (stream_entry json fmt requested put) (False, d) of
       (Inl None, (_, d1)) \<Rightarrow> (Inl (CliPanicked ''internal error: entered unreachable code''), d1)
     | (Inl (Some e), (_, d1)) \<Rightarrow> (Inl e, d1)
     | (Inr (count, found), (_, d1)) \<Rightarrow>
         bindD (ensure_history_not_cancelled requested) (\<lambda>_.
         bindD (put_all put (history_tail fmt count)) (\<lambda>_ d2. (Inr count, d2))) d1)"

definition OUTPUT_WRITE_CHUNK :: nat where "OUTPUT_WRITE_CHUNK = 64 * 1024"

definition raw_history :: "u8 list \<Rightarrow> (disk \<Rightarrow> bool) \<Rightarrow> unit writing" where
  "raw_history bytes requested put =
     bindD (foldr (\<lambda>chunk rest_of. bindD (ensure_history_not_cancelled requested) (\<lambda>_.
              bindD (put (string_of_bytes chunk)) (\<lambda>_. rest_of))) (chunks OUTPUT_WRITE_CHUNK bytes) (Pair (Inr ())))
       (\<lambda>_. ensure_history_not_cancelled requested)"

text \<open>\<open>write_raw_history\<close> or \<open>write_history\<close>, by format.\<close>

definition write_history ::
  "(history_entry \<Rightarrow> string) \<Rightarrow> faults \<Rightarrow> (disk \<Rightarrow> bool) \<Rightarrow> u8 list \<Rightarrow> history_format \<Rightarrow> path option
     \<Rightarrow> unit disk_action" where
  "write_history json flt requested bytes fmt output_path =
    (if fmt = RawFormat then with_output flt output_path (raw_history bytes requested)
     else bindD (with_output flt output_path (stream_history json bytes fmt requested)) (\<lambda>_ d. (Inr (), d)))"

end
