(* ===== verification/OutputProps.thy ===== *)
theory OutputProps
  imports HistoryOutput
begin

text \<open>
  What the written history is. The interface \<open>text_writer\<close> is what the printing code relies on in
  its writer; the temporary file and the standard output both provide it, and the document the
  code prints piece by piece is computed once from the parsed log. With \<open>AtomicOutput\<close> around it,
  a crash at any moment leaves the old file or the complete document.
\<close>

section \<open>The interface of a writer\<close>

text \<open>
  An action that appends \<open>w\<close> to the content when it succeeds, changes nothing outside the frame,
  and succeeds when the surroundings are healthy.
\<close>

definition appends ::
  "bool \<Rightarrow> (disk \<Rightarrow> string option) \<Rightarrow> (disk \<Rightarrow> disk \<Rightarrow> bool) \<Rightarrow> string
     \<Rightarrow> (disk \<Rightarrow> ('e + 'a) \<times> disk) \<Rightarrow> bool" where
  "appends healthy content frame w act \<longleftrightarrow>
     (\<forall>d. frame d (snd (act d))
        \<and> (\<forall>old x. content d = Some old \<longrightarrow> fst (act d) = Inr x \<longrightarrow> content (snd (act d)) = Some (old @ w))
        \<and> (healthy \<longrightarrow> (\<exists>x. fst (act d) = Inr x)))"

locale text_writer =
  fixes healthy :: bool
    and content :: "disk \<Rightarrow> string option"
    and frame :: "disk \<Rightarrow> disk \<Rightarrow> bool"
    and put :: "string \<Rightarrow> disk \<Rightarrow> ('e + unit) \<times> disk"
  assumes frame_refl: "frame d d"
    and frame_trans: "frame d1 d2 \<Longrightarrow> frame d2 d3 \<Longrightarrow> frame d1 d3"
    and put_appends: "appends healthy content frame w (put w)"
begin

lemma appends_pure: "appends healthy content frame [] (\<lambda>d. (Inr x, d))"
  by (simp add: appends_def frame_refl)

lemma appends_pair: "appends healthy content frame [] (Pair (Inr x))"
  by (simp add: appends_def frame_refl)

lemma appends_bind:
  assumes "appends healthy content frame w1 act" and "\<And>x. appends healthy content frame w2 (f x)"
  shows "appends healthy content frame (w1 @ w2) (bindD act f)"
  unfolding appends_def
proof (intro allI conjI impI)
  fix d
  obtain r d1 where r: "act d = (r, d1)" by fastforce
  have f1: "frame d d1" and ok1: "healthy \<Longrightarrow> \<exists>x. r = Inr x"
    and c1: "content d = Some old \<Longrightarrow> r = Inr x \<Longrightarrow> content d1 = Some (old @ w1)" for old x
    using assms(1) r unfolding appends_def by (metis fst_conv snd_conv)+
  have f2: "frame d1 (snd (f x d1))" and ok2: "healthy \<Longrightarrow> \<exists>y. fst (f x d1) = Inr y"
    and c2: "content d1 = Some mid \<Longrightarrow> fst (f x d1) = Inr y \<Longrightarrow> content (snd (f x d1)) = Some (mid @ w2)"
    for x mid y
    using assms(2) [of x] unfolding appends_def by blast+
  show "frame d (snd (bindD act f d))"
    using f1 f2 frame_trans by (cases r) (auto simp: bindD_def r)
  show "content (snd (bindD act f d)) = Some (old @ w1 @ w2)"
    if "content d = Some old" "fst (bindD act f d) = Inr x" for old x
    using that c1 c2 by (cases r) (auto simp: bindD_def r)
  show "\<exists>x. fst (bindD act f d) = Inr x" if healthy
    using ok1 ok2 that by (cases r) (auto simp: bindD_def r)
qed

lemma put_all_appends: "appends healthy content frame (concat ws) (put_all put ws)"
  by (induction ws) (auto simp: put_all_def appends_pair intro!: appends_bind put_appends)

end

text \<open>The writers of the command line client.\<close>

locale cli_writer = text_writer healthy content frame put
  for healthy content frame and put :: "string \<Rightarrow> unit disk_action"
begin

lemma ensure_appends:
  assumes "\<And>d. healthy \<Longrightarrow> \<not> requested d"
  shows "appends healthy content frame [] (ensure_history_not_cancelled requested)"
  using assms by (auto simp: appends_def ensure_history_not_cancelled_def frame_refl)

end

section \<open>The printed document\<close>

fun history_pieces :: "(history_entry \<Rightarrow> string) \<Rightarrow> history_format \<Rightarrow> bool \<Rightarrow> history_entry list \<Rightarrow> string list" where
  "history_pieces json fmt started [] = []"
| "history_pieces json fmt started (e # es) =
     entry_prefix fmt started @ entry_text json fmt e @ history_pieces json fmt True es"

definition history_document :: "(history_entry \<Rightarrow> string) \<Rightarrow> history_format \<Rightarrow> history_entry list \<Rightarrow> string" where
  "history_document json fmt es = concat (history_pieces json fmt False es) @ concat (history_tail fmt (length es))"

definition history_output_text :: "(history_entry \<Rightarrow> string) \<Rightarrow> history_format \<Rightarrow> u8 list \<Rightarrow> string option" where
  "history_output_text json fmt bytes =
    (if fmt = RawFormat then Some (string_of_bytes bytes)
     else map_option (\<lambda>p. history_document json fmt (entries p)) (parse_history bytes))"

definition visits :: "(history_entry \<Rightarrow> bool \<times> disk \<Rightarrow> (cli_error + unit) \<times> (bool \<times> disk)) \<Rightarrow> history_entry list
    \<Rightarrow> bool \<Rightarrow> unit disk_action" where
  "visits v es started d = (case fold_visit v es (started, d) of (r, (_, d1)) \<Rightarrow> (r, d1))"

lemma visits_Cons:
  "fmt \<noteq> RawFormat \<Longrightarrow>
   visits (stream_entry json fmt requested put) (e # es) started =
     bindD (bindD (ensure_history_not_cancelled requested) (\<lambda>_.
              bindD (put_all put (entry_prefix fmt started)) (\<lambda>_. put_all put (entry_text json fmt e))))
       (\<lambda>_. visits (stream_entry json fmt requested put) es True)"
  by (rule ext) (auto simp: visits_def stream_entry_def bindD_def split: sum.splits prod.splits)

lemma stream_history_visits:
  assumes "fmt \<noteq> RawFormat" and p: "parse_history bytes = Some p"
  shows "stream_history json bytes fmt requested put =
    bindD (visits (stream_entry json fmt requested put) (entries p) False) (\<lambda>_.
      bindD (ensure_history_not_cancelled requested) (\<lambda>_.
        bindD (put_all put (history_tail fmt (length (entries p)))) (\<lambda>_ d. (Inr (length (entries p)), d))))"
proof -
  have es: "map entry_of (fst (history_trace bytes)) = entries p"
    and n: "length (fst (history_trace bytes)) = length (entries p)"
    using p by (auto simp: parse_history_trace)
  show ?thesis
    by (rule ext) (simp add: stream_history_def visit_history_trace es n visits_def bindD_def
        split: sum.splits prod.splits)
qed

context cli_writer
begin

lemma visits_appends:
  assumes "fmt \<noteq> RawFormat" and "\<And>d. healthy \<Longrightarrow> \<not> requested d"
  shows "appends healthy content frame (concat (history_pieces json fmt started es))
    (visits (stream_entry json fmt requested put) es started)"
proof (induction es arbitrary: started)
  case Nil
  then show ?case by (simp add: visits_def appends_def frame_refl)
next
  case (Cons e es)
  have "appends healthy content frame
      ((([] @ concat (entry_prefix fmt started) @ concat (entry_text json fmt e)))
        @ concat (history_pieces json fmt True es))
      (visits (stream_entry json fmt requested put) (e # es) started)"
    unfolding visits_Cons [OF assms(1)]
    by (intro appends_bind ensure_appends put_all_appends assms(2) Cons.IH)
  then show ?case by simp
qed

lemma stream_history_appends:
  assumes "fmt \<noteq> RawFormat" and "\<And>d. healthy \<Longrightarrow> \<not> requested d" and "parse_history bytes = Some p"
  shows "appends healthy content frame (history_document json fmt (entries p))
    (stream_history json bytes fmt requested put)"
proof -
  have "appends healthy content frame
      (concat (history_pieces json fmt False (entries p))
        @ [] @ concat (history_tail fmt (length (entries p))) @ [])
      (stream_history json bytes fmt requested put)"
    unfolding stream_history_visits [OF assms(1,3)]
    by (intro appends_bind visits_appends ensure_appends put_all_appends appends_pure assms(1,2))
  then show ?thesis by (simp add: history_document_def)
qed

lemma raw_chunks_appends:
  assumes "\<And>d. healthy \<Longrightarrow> \<not> requested d"
  shows "appends healthy content frame (concat (map string_of_bytes cs))
    (foldr (\<lambda>chunk rest_of. bindD (ensure_history_not_cancelled requested) (\<lambda>_.
       bindD (put (string_of_bytes chunk)) (\<lambda>_. rest_of))) cs (Pair (Inr ())))"
proof (induction cs)
  case Nil
  then show ?case by (simp add: appends_pair)
next
  case (Cons c cs)
  have "appends healthy content frame ([] @ string_of_bytes c @ concat (map string_of_bytes cs))
    (foldr (\<lambda>chunk rest_of. bindD (ensure_history_not_cancelled requested) (\<lambda>_.
       bindD (put (string_of_bytes chunk)) (\<lambda>_. rest_of))) (c # cs) (Pair (Inr ())))"
    unfolding foldr.simps comp_apply by (intro appends_bind ensure_appends put_appends assms Cons.IH)
  then show ?case by simp
qed

end

lemma concat_map_chunks: "0 < n \<Longrightarrow> concat (map string_of_bytes (chunks n xs)) = string_of_bytes xs"
proof (induction n xs rule: chunks.induct)
  case (1 n xs)
  have "string_of_bytes (take n xs) @ string_of_bytes (drop n xs) = string_of_bytes xs"
    by (simp add: string_of_bytes_def flip: map_append)
  then show ?case
    using 1 by (cases "xs = []") (simp_all add: chunks.simps [of n] string_of_bytes_def [of "[]"])
qed

section \<open>The two writers\<close>

text \<open>Nothing but the file \<open>t\<close> changes, at any moment.\<close>

definition only_file :: "path \<Rightarrow> disk \<Rightarrow> disk \<Rightarrow> bool" where
  "only_file t d d' \<longleftrightarrow>
     (\<exists>cs. seen d' = seen d @ cs \<and> (\<forall>c\<in>set cs. \<forall>q. q \<noteq> t \<longrightarrow> c q = files d q))
     \<and> (\<forall>q. q \<noteq> t \<longrightarrow> files d' q = files d q) \<and> stdout_text d' = stdout_text d"

definition only_stdout :: "disk \<Rightarrow> disk \<Rightarrow> bool" where
  "only_stdout d d' \<longleftrightarrow> files d' = files d \<and> seen d' = seen d"

definition fault_free :: "faults \<Rightarrow> bool" where
  "fault_free flt \<longleftrightarrow> fault flt = (\<lambda>n. None)"

lemma only_file_refl: "only_file t d d"
  by (simp add: only_file_def)

lemma only_file_trans: "only_file t d1 d2 \<Longrightarrow> only_file t d2 d3 \<Longrightarrow> only_file t d1 d3"
  unfolding only_file_def by (elim conjE exE) (auto intro!: exI)

lemma only_file_write: "only_file (resolve p) d (snd (write_file flt p w d))"
  by (auto simp: only_file_def write_file_def disk_op_def append_file_def set_files_def
      split: option.splits prod.splits)

lemma write_file_appends:
  "appends (fault_free flt \<and> steady) (\<lambda>d. files d (resolve p)) (only_file (resolve p)) w (write_file flt p w)"
  unfolding appends_def
  by (auto simp: only_file_write) (auto simp: write_file_def disk_op_def append_file_def set_files_def fault_free_def
      split: option.splits)

lemma write_stdout_appends:
  "appends (fault_free flt \<and> steady) (\<lambda>d. Some (stdout_text d)) only_stdout w (write_stdout flt w)"
  by (auto simp: appends_def write_stdout_def disk_op_def only_stdout_def fault_free_def split: option.splits)

interpretation temporary_file:
  cli_writer "fault_free flt \<and> steady" "\<lambda>d. files d (resolve p)" "only_file (resolve p)" "write_file flt p"
  for flt steady p
  by unfold_locales (auto intro: only_file_refl only_file_trans write_file_appends)

interpretation standard_output:
  cli_writer "fault_free flt \<and> steady" "\<lambda>d. Some (stdout_text d)" only_stdout "write_stdout flt"
  for flt steady
  by unfold_locales (auto simp: write_stdout_appends, auto simp: only_stdout_def)

section \<open>The temporary file\<close>

lemma temporary_name_differs: "temporary_name flt name i \<noteq> name"
proof
  assume "temporary_name flt name i = name"
  then have "length (temporary_name flt name i) = length name" by simp
  then show False by (simp add: temporary_name_def)
qed

lemma temporary_name_no_dot: "temporary_name flt name i \<noteq> ''.''"
  by (simp add: temporary_name_def)

text \<open>The temporary file stands in the directory of the destination, under another name.\<close>

definition output_directory :: "path \<Rightarrow> path" where
  "output_directory p = (case parent p of
      Some q \<Rightarrow> if q = Path False [] then Path False [''.''] else q | None \<Rightarrow> Path False [''.''])"

lemma output_directory_beside: "file_name p = Some name \<Longrightarrow>
  resolve p = Path (absolute (output_directory p)) (components (resolve (output_directory p)) @ [name])"
  by (cases p; cases "components p" rule: rev_cases)
    (auto simp: file_name_def output_directory_def parent_def resolve_def split: if_splits)

lemma resolve_join: "name \<noteq> ''.'' \<Longrightarrow>
  resolve (join_path directory name) = Path (absolute directory) (components (resolve directory) @ [name])"
  by (simp add: resolve_def join_path_def)

lemma temporary_not_destination:
  "file_name p = Some name \<Longrightarrow>
   resolve (join_path (output_directory p) (temporary_name flt name i)) \<noteq> resolve p"
  by (simp add: resolve_join temporary_name_no_dot output_directory_beside temporary_name_differs)

text \<open>Allocation creates one new empty file and nothing else, or changes nothing.\<close>

definition allocated :: "faults \<Rightarrow> path \<Rightarrow> string \<Rightarrow> disk \<Rightarrow> atomic_output \<Rightarrow> disk \<Rightarrow> bool" where
  "allocated flt p name d out d' \<longleftrightarrow> ao_destination out = p
     \<and> resolve (ao_temporary out) \<noteq> resolve p
     \<and> files d (resolve (ao_temporary out)) = None
     \<and> files d' = (files d)(resolve (ao_temporary out) \<mapsto> [])
     \<and> seen d' = seen d @ [files d'] \<and> stdout_text d' = stdout_text d"

lemma create_new_cases:
  "create_new flt t d = (r, d') \<Longrightarrow> stdout_text d' = stdout_text d \<and>
    (case r of Inl e \<Rightarrow> files d' = files d \<and> seen d' = seen d
     | Inr u \<Rightarrow> files d (resolve t) = None \<and> files d' = (files d)(resolve t \<mapsto> []) \<and> seen d' = seen d @ [files d'])"
  by (auto simp: create_new_def disk_op_def set_files_def split: option.splits if_splits prod.splits)

lemma try_temporaries_allocates:
  assumes "file_name p = Some name"
  shows "try_temporaries flt n p (output_directory p) name d = (r, d') \<Longrightarrow>
    (case r of Inl e \<Rightarrow> files d' = files d \<and> seen d' = seen d \<and> stdout_text d' = stdout_text d
     | Inr out \<Rightarrow> allocated flt p name d out d')"
proof (induction n arbitrary: d)
  case 0
  then show ?case by auto
next
  case (Suc n)
  let ?t = "join_path (output_directory p) (temporary_name flt name (next_temporary_id d))"
  let ?d = "d\<lparr>next_temporary_id := next_temporary_id d + 1\<rparr>"
  obtain r1 d1 where c: "create_new flt ?t ?d = (r1, d1)" by fastforce
  note cc = create_new_cases [OF c]
  show ?case
  proof (cases r1)
    case (Inr u)
    then show ?thesis
      using Suc.prems c cc temporary_not_destination [OF assms, of flt "next_temporary_id d"]
      by (auto simp: Let_def allocated_def)
  next
    case (Inl e)
    then have same: "files d1 = files d" "seen d1 = seen d" "stdout_text d1 = stdout_text d" using cc by auto
    have "try_temporaries flt n p (output_directory p) name d1 = (r, d') \<or> (r = Inl e \<and> d' = d1)"
      using Suc.prems c Inl by (auto simp: Let_def split: cli_error.splits io_error_kind.splits)
    then show ?thesis
      using Suc.IH [of d1] same by (cases r) (auto simp: allocated_def)
  qed
qed

lemma create_output_allocates:
  assumes "create_output flt p d = (r, d')"
  shows "case r of Inl e \<Rightarrow> files d' = files d \<and> seen d' = seen d \<and> stdout_text d' = stdout_text d
     | Inr out \<Rightarrow> allocated flt p (the (file_name p)) d out d'"
proof (cases "file_name p")
  case None
  then show ?thesis using assms by (auto simp: create_output_def)
next
  case (Some name)
  then have "try_temporaries flt 100 p (output_directory p) name d = (r, d')"
    using assms by (simp add: create_output_def output_directory_def Let_def)
  from try_temporaries_allocates [OF Some this] show ?thesis by (simp add: Some split: sum.splits)
qed

definition first_temporary :: "faults \<Rightarrow> path \<Rightarrow> disk \<Rightarrow> path" where
  "first_temporary flt p d = join_path (output_directory p)
     (temporary_name flt (the (file_name p)) (next_temporary_id d))"

lemma create_output_succeeds:
  assumes "fault_free flt" and "file_name p \<noteq> None" and "files d (resolve (first_temporary flt p d)) = None"
  shows "\<exists>out d'. create_output flt p d = (Inr out, d')"
proof -
  obtain name where name: "file_name p = Some name" using assms(2) by blast
  have hundred: "100 = Suc 99" by simp
  have "try_temporaries flt 100 p (output_directory p) name d
      = (Inr \<lparr>ao_destination = p, ao_temporary = first_temporary flt p d\<rparr>,
         snd (create_new flt (first_temporary flt p d) (d\<lparr>next_temporary_id := next_temporary_id d + 1\<rparr>)))"
    using assms(1,3) unfolding hundred try_temporaries.simps
    by (simp add: name first_temporary_def Let_def create_new_def disk_op_def fault_free_def)
  then show ?thesis by (simp add: create_output_def name output_directory_def Let_def)
qed

section \<open>The destination is replaced in one step\<close>

text \<open>What is true when the output ends: \<open>w\<close> is the complete text.\<close>

definition replaced_atomically ::
  "faults \<Rightarrow> path \<Rightarrow> string \<Rightarrow> disk \<Rightarrow> disk \<Rightarrow> bool \<Rightarrow> bool" where
  "replaced_atomically flt p w d d' success \<longleftrightarrow>
     (\<exists>cs. seen d' = seen d @ cs
        \<and> (\<forall>c\<in>set cs. c (resolve p) = files d (resolve p) \<or> c (resolve p) = Some w))
     \<and> (files d' (resolve p) = files d (resolve p) \<or> files d' (resolve p) = Some w)
     \<and> (success \<longrightarrow> files d' (resolve p) = Some w)
     \<and> (\<forall>q. q \<noteq> resolve p \<longrightarrow> files d q \<noteq> None \<longrightarrow> files d' q = files d q)
     \<and> (\<forall>q. q \<noteq> resolve p \<longrightarrow> files d' q \<noteq> files d q \<longrightarrow> fault flt (ops_done d' - 1) \<noteq> None)"

text \<open>While the temporary file is written: the destination is untouched.\<close>

definition writing_beside :: "path \<Rightarrow> path \<Rightarrow> disk \<Rightarrow> disk \<Rightarrow> bool" where
  "writing_beside p t d d2 \<longleftrightarrow> t \<noteq> resolve p \<and> files d t = None \<and> only_file t d d2"

lemma allocated_writing:
  "allocated flt p name d out d1 \<Longrightarrow> only_file (resolve (ao_temporary out)) d1 d2 \<Longrightarrow>
   writing_beside p (resolve (ao_temporary out)) d d2"
  unfolding writing_beside_def by (auto simp: allocated_def only_file_def)

lemma flush_only: "flush_file flt d = (r, d') \<Longrightarrow> \<exists>n. d' = d\<lparr>ops_done := n\<rparr>"
  by (auto simp: flush_file_def disk_op_def split: option.splits prod.splits)

lemma only_file_ops: "only_file t d (d2\<lparr>ops_done := n\<rparr>) = only_file t d d2"
  by (simp add: only_file_def)

lemma replaced_atomicallyI:
  assumes wb: "writing_beside p t d d2" and cs: "seen d' = seen d2 @ cs"
    and "\<And>c. c \<in> set cs \<Longrightarrow> c (resolve p) = files d2 (resolve p) \<or> c (resolve p) = Some w"
    and dest: "files d' (resolve p) = files d2 (resolve p) \<or> files d' (resolve p) = Some w"
    and "success \<Longrightarrow> files d' (resolve p) = Some w"
    and other: "\<And>q. q \<noteq> resolve p \<Longrightarrow> q \<noteq> t \<Longrightarrow> files d' q = files d2 q"
    and left: "files d' t \<noteq> None \<Longrightarrow> fault flt (ops_done d' - 1) \<noteq> None"
  shows "replaced_atomically flt p w d d' success"
proof -
  from wb obtain cs0 where t: "t \<noteq> resolve p" "files d t = None" and s: "seen d2 = seen d @ cs0"
    and c0: "\<And>c q. c \<in> set cs0 \<Longrightarrow> q \<noteq> t \<Longrightarrow> c q = files d q" and f: "\<And>q. q \<noteq> t \<Longrightarrow> files d2 q = files d q"
    unfolding writing_beside_def only_file_def by blast
  have keep: "files d' q = files d q" if "q \<noteq> resolve p" "q \<noteq> t" for q using that f other by simp
  have dest0: "files d2 (resolve p) = files d (resolve p)" using f t(1) by metis
  show ?thesis
    unfolding replaced_atomically_def
  proof (intro conjI allI impI)
    show "\<exists>cs. seen d' = seen d @ cs
        \<and> (\<forall>c\<in>set cs. c (resolve p) = files d (resolve p) \<or> c (resolve p) = Some w)"
      using s cs assms(3) c0 t(1) dest0 by (intro exI [of _ "cs0 @ cs"]) auto
    show "files d' (resolve p) = files d (resolve p) \<or> files d' (resolve p) = Some w"
      using dest dest0 by simp
    show "files d' (resolve p) = Some w" if success using assms(5) that by simp
    show "files d' q = files d q" if "q \<noteq> resolve p" "files d q \<noteq> None" for q
      using keep that t(2) by metis
    show "fault flt (ops_done d' - 1) \<noteq> None" if "q \<noteq> resolve p" "files d' q \<noteq> files d q" for q
      using keep that t(2) left by metis
  qed
qed

lemma drop_output_steps:
  "(\<exists>n. fault flt n \<noteq> None \<and> drop_output flt out d2 = d2\<lparr>ops_done := Suc n\<rparr>)
   \<or> (\<exists>n. drop_output flt out d2 = set_files ((files d2)(resolve (ao_temporary out) := None)) (d2\<lparr>ops_done := n\<rparr>))"
  by (auto simp: drop_output_def remove_file_def disk_op_def set_files_def split: option.splits)

lemma drop_output_atomic:
  assumes "writing_beside p (resolve (ao_temporary out)) d d2"
  shows "replaced_atomically flt p w d (drop_output flt out d2) False"
proof -
  have "resolve (ao_temporary out) \<noteq> resolve p" using assms by (simp add: writing_beside_def)
  with drop_output_steps [of flt out d2] show ?thesis
    by (auto simp: set_files_def intro!: replaced_atomicallyI [OF assms])
qed

lemma commit_steps:
  assumes "bindD (flush_file flt) (\<lambda>_. bindD (flush_file flt) (\<lambda>_. rename_file flt from to)) d2 = (r, d3)"
  shows "(\<exists>n e. r = Inl e \<and> d3 = d2\<lparr>ops_done := n\<rparr>)
    \<or> (\<exists>n content. r = Inr () \<and> files d2 (resolve from) = Some content
        \<and> d3 = set_files ((files d2)(resolve from := None, resolve to := Some content)) (d2\<lparr>ops_done := n\<rparr>))"
  using assms
  by (auto simp: bindD_def flush_file_def rename_file_def disk_op_def set_files_def
      split: option.splits prod.splits sum.splits)

lemma sync_steps: "bindD (flush_file flt) (\<lambda>_. flush_file flt) d = (r, d') \<Longrightarrow> \<exists>m. d' = d\<lparr>ops_done := m\<rparr>"
  by (auto simp: bindD_def flush_file_def disk_op_def split: option.splits)

lemma ops_done_unchanged: "\<exists>m. d = d\<lparr>ops_done := m\<rparr>" for d :: disk
  by (rule exI [of _ "ops_done d"]) simp

lemma commit_output_sync:
  assumes "bindD (flush_file flt) (\<lambda>_. bindD (flush_file flt) (\<lambda>_.
      rename_file flt (ao_temporary out) (ao_destination out))) d2 = (Inr (), d3)"
    and "commit_output flt out d2 = (r, d')"
  shows "\<exists>m. d' = d3\<lparr>ops_done := m\<rparr>"
  using assms(2) sync_steps [of flt d3 r d'] ops_done_unchanged [of d3]
  unfolding commit_output_def assms(1) by (simp split: option.splits if_splits; blast)

lemma commit_output_atomic:
  assumes "writing_beside p (resolve (ao_temporary out)) d d2" and "ao_destination out = p"
    and "files d2 (resolve (ao_temporary out)) = Some w"
    and "commit_output flt out d2 = (r, d')"
  shows "replaced_atomically flt p w d d' (r = Inr ())"
proof -
  let ?t = "ao_temporary out"
  obtain r3 d3 where c: "bindD (flush_file flt) (\<lambda>_. bindD (flush_file flt) (\<lambda>_.
      rename_file flt ?t (ao_destination out))) d2 = (r3, d3)" by fastforce
  from commit_steps [OF c] consider
      (failed) n e where "r3 = Inl e" "d3 = d2\<lparr>ops_done := n\<rparr>"
    | (renamed) n where "r3 = Inr ()"
        "d3 = set_files ((files d2)(resolve ?t := None, resolve p := Some w)) (d2\<lparr>ops_done := n\<rparr>)"
    using assms(2,3) by auto
  then show ?thesis
  proof cases
    case failed
    then have "r = Inl e" "d' = drop_output flt out d3" using assms(4) c by (auto simp: commit_output_def)
    moreover have "writing_beside p (resolve ?t) d d3"
      using assms(1) failed(2) by (simp add: writing_beside_def only_file_ops)
    ultimately show ?thesis using drop_output_atomic by simp
  next
    case renamed
    obtain m where d': "d' = d3\<lparr>ops_done := m\<rparr>"
      using commit_output_sync c assms(4) unfolding renamed(1) by blast
    then have f: "files d' = (files d2)(resolve ?t := None, resolve p := Some w)"
        and s: "seen d' = seen d2 @ [files d']"
      unfolding renamed(2) by (simp_all add: set_files_def)
    have "resolve ?t \<noteq> resolve p" using assms(1) by (simp add: writing_beside_def)
    then show ?thesis
      by (intro replaced_atomicallyI [OF assms(1) s]) (simp_all add: f)
  qed
qed

lemma with_output_file_atomic:
  assumes op: "\<And>t. appends h (\<lambda>d. files d (resolve t)) (only_file (resolve t)) w (operation (write_file flt t))"
    and run: "with_output flt (Some p) operation d = (r, d')"
  shows "replaced_atomically flt p w d d' (\<exists>x. r = Inr x)"
proof -
  obtain r1 d1 where c: "create_output flt p d = (r1, d1)" by fastforce
  note cc = create_output_allocates [OF c]
  show ?thesis
  proof (cases r1)
    case (Inl e)
    then show ?thesis
      using run c cc by (auto simp: with_output_def bindD_def replaced_atomically_def)
  next
    case (Inr out)
    let ?t = "resolve (ao_temporary out)"
    obtain r2 d2 where o: "operation (write_file flt (ao_temporary out)) d1 = (r2, d2)" by fastforce
    have al: "allocated flt p (the (file_name p)) d out d1" using cc Inr by simp
    have "only_file ?t d1 d2" using op [of "ao_temporary out"] o unfolding appends_def by (metis snd_conv)
    then have wb: "writing_beside p ?t d d2" using allocated_writing al by blast
    show ?thesis
    proof (cases r2)
      case (Inl e)
      then show ?thesis
        using run c Inr o drop_output_atomic [OF wb, of flt w]
        by (auto simp: with_output_def bindD_def)
    next
      case (Inr x)
      have "files d1 ?t = Some []" using al by (simp add: allocated_def)
      then have w: "files d2 ?t = Some w"
        using op [of "ao_temporary out"] o Inr unfolding appends_def
        by (metis append_Nil fst_conv snd_conv)
      obtain r3 d3 where cm: "commit_output flt out d2 = (r3, d3)" by fastforce
      have "ao_destination out = p" using al by (simp add: allocated_def)
      from commit_output_atomic [OF wb this w cm]
      show ?thesis
        using run c \<open>r1 = Inr out\<close> o Inr cm
        by (cases r3) (auto simp: with_output_def bindD_def)
    qed
  qed
qed

lemma commit_output_succeeds:
  assumes "fault_free flt" and "files d (resolve (ao_temporary out)) \<noteq> None"
  shows "fst (commit_output flt out d) = Inr ()"
  using assms
  by (auto simp: commit_output_def bindD_def flush_file_def rename_file_def disk_op_def fault_free_def
      split: option.splits)

lemma with_output_file_succeeds:
  assumes op: "\<And>t. appends (fault_free flt \<and> steady) (\<lambda>d. files d (resolve t)) (only_file (resolve t)) w
      (operation (write_file flt t))"
    and "fault_free flt" and steady and "file_name p \<noteq> None"
    and "files d (resolve (first_temporary flt p d)) = None"
  shows "\<exists>x. fst (with_output flt (Some p) operation d) = Inr x"
proof -
  obtain out d1 where c: "create_output flt p d = (Inr out, d1)"
    using create_output_succeeds assms by blast
  have "files d1 (resolve (ao_temporary out)) = Some []"
    using create_output_allocates [OF c] by (simp add: allocated_def)
  moreover obtain r d2 where o: "operation (write_file flt (ao_temporary out)) d1 = (r, d2)" by fastforce
  ultimately obtain x where x: "r = Inr x" and "files d2 (resolve (ao_temporary out)) = Some w"
    using op [of "ao_temporary out"] assms(2,3) unfolding appends_def
    by (metis append_Nil fst_conv snd_conv)
  then obtain d3 where "commit_output flt out d2 = (Inr (), d3)"
    using commit_output_succeeds [OF assms(2), of d2 out] by (metis option.distinct(1) prod.collapse)
  then show ?thesis using c o x by (simp add: with_output_def bindD_def)
qed

section \<open>The history file\<close>

lemma raw_history_appends:
  assumes "\<And>d. fault_free flt \<and> steady \<Longrightarrow> \<not> requested d"
  shows "appends (fault_free flt \<and> steady) (\<lambda>d. files d (resolve t)) (only_file (resolve t))
    (string_of_bytes bytes) (raw_history bytes requested (write_file flt t))"
proof -
  have "appends (fault_free flt \<and> steady) (\<lambda>d. files d (resolve t)) (only_file (resolve t))
      (concat (map string_of_bytes (chunks OUTPUT_WRITE_CHUNK bytes)) @ [])
      (raw_history bytes requested (write_file flt t))"
    unfolding raw_history_def
    by (intro temporary_file.appends_bind temporary_file.raw_chunks_appends temporary_file.ensure_appends assms)
  then show ?thesis by (simp add: concat_map_chunks OUTPUT_WRITE_CHUNK_def)
qed

lemma bindD_drop_result: "bindD act (\<lambda>_ d. (Inr (), d)) d = (case act d of (Inl e, d1) \<Rightarrow> (Inl e, d1) | (Inr x, d1) \<Rightarrow> (Inr (), d1))"
  by (simp add: bindD_def)

text \<open>Without \<open>--output\<close> no file changes and the standard output gets the document.\<close>

lemma history_on_standard_output:
  assumes "fmt \<noteq> RawFormat" and log: "parse_history bytes = Some parsed"
    and "with_output flt None (stream_history json bytes fmt requested) d = (r, d')"
  shows "files d' = files d
    \<and> (\<forall>x. r = Inr x \<longrightarrow> stdout_text d' = stdout_text d @ history_document json fmt (entries parsed))"
proof -
  have app: "appends (fault_free flt \<and> (\<forall>d. \<not> requested d)) (\<lambda>d. Some (stdout_text d)) only_stdout
      (history_document json fmt (entries parsed)) (stream_history json bytes fmt requested (write_stdout flt))"
    using standard_output.stream_history_appends [OF assms(1) _ log] by auto
  obtain r1 d1 where run: "stream_history json bytes fmt requested (write_stdout flt) d = (r1, d1)" by fastforce
  have f: "files d1 = files d"
    and c: "r1 = Inr x \<Longrightarrow> stdout_text d1 = stdout_text d @ history_document json fmt (entries parsed)" for x
    using app run unfolding appends_def only_stdout_def by (metis fst_conv option.inject snd_conv)+
  show ?thesis
  proof (cases r1)
    case (Inl e)
    then show ?thesis using assms(3) run f by (auto simp: with_output_def bindD_def)
  next
    case (Inr x)
    obtain r2 d2 where fl: "flush_file flt d1 = (r2, d2)" by fastforce
    then have "files d2 = files d1" "stdout_text d2 = stdout_text d1" using flush_only [OF fl] by auto
    then show ?thesis
      using assms(3) run f c [OF Inr] Inr fl by (cases r2) (auto simp: with_output_def bindD_def)
  qed
qed

text \<open>C8: \<open>wireview history --output file\<close>, in every format and whatever fails or interrupts it: at
  every moment the destination holds its old content or the complete document, which is
  computed from the downloaded bytes alone; when the command reports success it holds the document;
  no other existing file changes, and a temporary file stays behind only when its own removal is
  the operation that failed. Without faults and interruptions, and with a free temporary name, the
  command does succeed.\<close>

theorem history_file_is_atomic:
  "\<exists>w. history_output_text json fmt bytes = Some w
     \<and> (case write_history json flt requested bytes fmt (Some p) d of (r, d') \<Rightarrow>
          replaced_atomically flt p w d d' (r = Inr ())
          \<and> (fault_free flt \<and> (\<forall>d. \<not> requested d) \<and> file_name p \<noteq> None
               \<and> files d (resolve (first_temporary flt p d)) = None \<longrightarrow> r = Inr ()))"
proof (cases "fmt = RawFormat")
  case True
  let ?out = "with_output flt (Some p) (raw_history bytes requested)"
  note app = raw_history_appends [of flt "\<forall>d. \<not> requested d" requested _ bytes]
  have "replaced_atomically flt p (string_of_bytes bytes) d (snd (?out d)) (\<exists>x. fst (?out d) = Inr x)"
    by (rule with_output_file_atomic [OF app]) auto
  moreover have "fst (?out d) = Inr ()"
    if "fault_free flt" "\<forall>d. \<not> requested d" "file_name p \<noteq> None" "files d (resolve (first_temporary flt p d)) = None"
    using with_output_file_succeeds [OF app that(1,2,3,4)] by auto
  ultimately show ?thesis
    using True by (auto simp: history_output_text_def write_history_def split: prod.splits)
next
  case False
  obtain log where log: "parse_history bytes = Some log" using parse_history_trace by blast
  let ?w = "history_document json fmt (entries log)"
  let ?out = "with_output flt (Some p) (stream_history json bytes fmt requested)"
  have app: "appends (fault_free flt \<and> (\<forall>d. \<not> requested d)) (\<lambda>d. files d (resolve t)) (only_file (resolve t)) ?w
      (stream_history json bytes fmt requested (write_file flt t))" for t
    using temporary_file.stream_history_appends [OF False _ log] by auto
  have "replaced_atomically flt p ?w d (snd (?out d)) (\<exists>x. fst (?out d) = Inr x)"
    by (rule with_output_file_atomic [OF app]) auto
  moreover have "fault_free flt \<and> (\<forall>d. \<not> requested d) \<and> file_name p \<noteq> None
      \<and> files d (resolve (first_temporary flt p d)) = None \<longrightarrow> (\<exists>x. fst (?out d) = Inr x)" (is "?ok \<longrightarrow> _")
    by (intro impI, elim conjE, rule with_output_file_succeeds [OF app]) assumption+
  moreover obtain r d' where run: "?out d = (r, d')" by fastforce
  moreover from run False have "write_history json flt requested bytes fmt (Some p) d
      = (case r of Inl e \<Rightarrow> Inl e | Inr x \<Rightarrow> Inr (), d')"
    by (cases r) (simp_all add: write_history_def bindD_drop_result [of ?out])
  ultimately show ?thesis
    using log False by (cases r) (simp_all add: history_output_text_def)
qed

text \<open>An instance: the example log written as CSV beside an existing file.\<close>

definition example_disk :: disk where
  "example_disk = \<lparr>files = [Path False [''log.csv''] \<mapsto> ''old''], stdout_text = [], ops_done = 0,
     next_temporary_id = 0, seen = []\<rparr>"

definition no_faults :: faults where
  "no_faults = \<lparr>fault = (\<lambda>n. None), partial_write = (\<lambda>n. 0), process_id = 7\<rparr>"

theorem history_file_is_atomic_witness:
  "\<exists>w d'. write_history (\<lambda>e. []) no_faults (\<lambda>d. False) example_log CsvFormat (Some (Path False [''log.csv'']))
        example_disk = (Inr (), d')
     \<and> replaced_atomically no_faults (Path False [''log.csv'']) w example_disk d' True"
proof -
  let ?p = "Path False [''log.csv'']"
  have ok: "fault_free no_faults \<and> (\<forall>d :: disk. \<not> False) \<and> file_name ?p \<noteq> None
      \<and> files example_disk (resolve (first_temporary no_faults ?p example_disk)) = None"
    using temporary_not_destination [of ?p "''log.csv''" no_faults 0]
    by (simp add: fault_free_def file_name_def example_disk_def first_temporary_def resolve_def [of ?p],
        simp add: no_faults_def)
  show ?thesis
    using history_file_is_atomic [where json = "\<lambda>e. []" and fmt = CsvFormat and bytes = example_log and flt = no_faults
        and requested = "\<lambda>d. False" and p = ?p and d = example_disk] ok
    by (cases "write_history (\<lambda>e. []) no_faults (\<lambda>d. False) example_log CsvFormat (Some ?p) example_disk") auto
qed

end
