(* ===== verification/HistoryCsv.thy ===== *)
theory HistoryCsv
  imports OutputProps
begin

text \<open>
  The printed history read back: the CSV of a log, split at its line feeds and commas, is the
  header and one row of cells per entry; the sentence printed for an empty log, whatever the format.
\<close>

section \<open>Rows and cells\<close>

text \<open>The cells of an entry.\<close>

definition history_csv_cells :: "history_entry \<Rightarrow> string list" where
  "history_csv_cells entry =
    (let mt = h_metrics entry; temps = h_temperatures mt in
     [show_nat (unat (device_time_ms entry)), history_kind entry, show_fixed 1 (h_total_power_w mt),
      show_fixed 1 (h_total_current_a mt), show_fixed 1 (h_avg_voltage_v mt)]
     @ concat (map (\<lambda>pin. [show_fixed 1 (voltage_v pin), show_fixed 1 (current_a pin), show_fixed 1 (power_w pin)])
         (h_pins mt))
     @ [show_fixed 0 (input_c temps), show_fixed 0 (output_c temps), optional_csv (external_1_c temps),
        optional_csv (external_2_c temps), show_nat (unat (h_cable_capability_w mt))])"

definition csv_line :: "string list \<Rightarrow> string" where
  "csv_line cells = join_with '','' cells @ nl"

text \<open>A reader of such a file: lines, each ended by a line feed, of cells separated by commas.\<close>

definition read_csv :: "string \<Rightarrow> string list list" where
  "read_csv document = map (split_on (CHR '','')) (butlast (split_on (CHR 0x0A) document))"

lemma join_with_concat: "join_with sep (x # ys) = x @ concat (map (\<lambda>y. sep @ y) ys)"
  by (induction ys arbitrary: x) simp_all

lemma concat_map_concat: "concat (map f (concat (map g ps))) = concat (map (\<lambda>p. concat (map f (g p))) ps)"
  by (induction ps) simp_all

lemma split_on_piece: "c \<notin> set x \<Longrightarrow> split_on c (x @ c # r) = x # split_on c r"
  by (induction x) auto

lemma split_on_none: "c \<notin> set x \<Longrightarrow> split_on c x = [x]"
  by (induction x) auto

lemma split_on_join:
  "list_all (\<lambda>x. c \<notin> set x) (x # xs) \<Longrightarrow> split_on c (join_with [c] (x # xs)) = x # xs"
proof (induction xs arbitrary: x)
  case Nil
  then show ?case by (simp add: split_on_none)
next
  case (Cons y ys)
  then have "split_on c (join_with [c] (x # y # ys)) = x # split_on c (join_with [c] (y # ys))"
    by (simp add: join_with_concat split_on_piece)
  then show ?case using Cons by simp
qed

definition plain_cell :: "string \<Rightarrow> bool" where
  "plain_cell x \<longleftrightarrow> CHR '','' \<notin> set x \<and> CHR 0x0A \<notin> set x"

lemma read_csv_lines:
  assumes "list_all (\<lambda>cells. cells \<noteq> [] \<and> list_all plain_cell cells) rows"
  shows "read_csv (concat (map csv_line rows)) = rows"
  using assms
proof (induction rows)
  case Nil
  then show ?case by (simp add: read_csv_def)
next
  case (Cons cells rows)
  obtain x xs where cells: "cells = x # xs" using Cons.prems by (cases cells) auto
  have no_nl: "CHR 0x0A \<notin> set (join_with '','' cells)"
    using Cons.prems by (auto simp: cells join_with_concat list_all_iff plain_cell_def)
  have "split_on (CHR 0x0A) (concat (map csv_line (cells # rows)))
      = join_with '','' cells # split_on (CHR 0x0A) (concat (map csv_line rows))"
    using no_nl by (simp add: csv_line_def nl_def split_on_piece)
  moreover have "split_on (CHR 0x0A) s \<noteq> []" for s
    by (cases s) (auto split: list.splits)
  moreover have "split_on (CHR '','') (join_with '','' cells) = cells"
    unfolding cells using Cons.prems by (intro split_on_join) (auto simp: cells list_all_iff plain_cell_def)
  ultimately show ?case using Cons by (simp add: read_csv_def)
qed

lemma plain_number: "list_all number_char s \<Longrightarrow> plain_cell s"
  by (auto simp: plain_cell_def list_all_iff number_char_def Let_def)

lemma plain_pins:
  "list_all plain_cell (concat (map (\<lambda>pin. [show_fixed 1 (voltage_v pin), show_fixed 1 (current_a pin),
     show_fixed 1 (power_w pin)]) ps))"
  by (induction ps) (simp_all add: plain_number number_char_show_fixed del: One_nat_def)

lemma plain_kind: "plain_cell (history_kind e)"
  by (simp add: history_kind_def plain_cell_def split: history_entry_kind.splits)

lemma plain_optional: "plain_cell (optional_csv v)"
  by (cases v) (simp add: optional_csv_def plain_cell_def, simp add: optional_csv_def plain_number number_char_show_fixed)

lemma plain_cells: "list_all plain_cell (history_csv_cells e)"
  by (simp add: history_csv_cells_def Let_def plain_pins plain_number number_char_show_nat number_char_show_fixed
      plain_kind plain_optional del: One_nat_def)

lemma plain_header: "list_all plain_cell history_csv_header_cells"
proof -
  have "plain_cell (show_nat n)" for n by (simp add: plain_number number_char_show_nat)
  then show ?thesis by (simp add: history_csv_header_cells_def plain_cell_def upt_rec)
qed

lemma history_csv_entry_line: "concat (history_csv_entry e) = csv_line (history_csv_cells e)"
  by (simp add: history_csv_entry_def history_csv_cells_def csv_line_def Let_def join_with_concat
      concat_map_concat comp_def)

lemma history_csv_header_line: "concat history_csv_header = csv_line history_csv_header_cells"
  by (simp add: history_csv_header_def history_csv_header_cells_def csv_line_def join_with_concat
      upt_rec)

lemma pins_of_entries:
  assumes "parse_history bytes = Some p" and "e \<in> set (entries p)"
  shows "length (h_pins (h_metrics e)) = 6"
proof -
  from assms obtain x where "x \<in> set (fst (history_trace bytes))" "e = entry_of x"
    by (auto simp: parse_history_trace)
  then show ?thesis using history_trace_good entry_of_well_formed unfolding well_formed_entry_def by blast
qed

lemma csv_pieces:
  "concat (history_pieces json CsvFormat True es) = concat (map csv_line (map history_csv_cells es))"
  by (induction es) (simp_all add: entry_prefix_def entry_text_def history_csv_entry_line)

lemma csv_document:
  "es \<noteq> [] \<Longrightarrow> history_document json CsvFormat es
     = concat (map csv_line (history_csv_header_cells # map history_csv_cells es))"
  by (cases es) (simp_all add: history_document_def history_tail_def csv_pieces entry_prefix_def entry_text_def
      history_csv_entry_line history_csv_header_line)

lemma length_header: "length history_csv_header_cells = 28"
  by (simp add: history_csv_header_cells_def upt_rec)

text \<open>C9: what history --format csv prints, for every log: with at least one entry, splitting the file at
  its line feeds and the lines at their commas gives the header and one row per entry, in order,
  each with the 28 cells of the header, so no number or name in a cell contains a separator;
  for a log without entries the output is one sentence and no CSV at all.\<close>

theorem history_csv_reads_back:
  assumes "parse_history bytes = Some p"
  shows "if entries p = []
    then history_output_text json CsvFormat bytes = Some (''No telemetry history is stored on the device.'' @ nl)
    else map_option read_csv (history_output_text json CsvFormat bytes)
        = Some (history_csv_header_cells # map history_csv_cells (entries p))
      \<and> list_all (\<lambda>cells. length cells = length history_csv_header_cells) (map history_csv_cells (entries p))"
proof (cases "entries p = []")
  case True
  then show ?thesis using assms by (simp add: history_output_text_def history_document_def history_tail_def)
next
  case False
  have "length (history_csv_cells e) = length history_csv_header_cells" if "e \<in> set (entries p)" for e
  proof -
    have pins: "length (h_pins (h_metrics e)) = 6"
      using pins_of_entries [OF assms that] .
    have "length (concat (map (\<lambda>pin. [show_fixed 1 (voltage_v pin), show_fixed 1 (current_a pin),
        show_fixed 1 (power_w pin)]) ps)) = 3 * length ps" for ps :: "pin_metrics list"
      by (induction ps) simp_all
    with pins show ?thesis by (simp add: history_csv_cells_def history_csv_header_cells_def Let_def upt_rec)
  qed
  moreover have "read_csv (history_document json CsvFormat (entries p))
      = history_csv_header_cells # map history_csv_cells (entries p)"
    unfolding csv_document [OF False]
    by (intro read_csv_lines) (simp add: list_all_iff plain_cells [unfolded list_all_iff]
        plain_header [unfolded list_all_iff], simp add: history_csv_cells_def history_csv_header_cells_def Let_def)
  ultimately show ?thesis
    using False by (simp add: history_output_text_def assms list_all_iff)
qed

theorem empty_history_is_not_json:
  assumes "parse_history bytes = Some p" and "entries p = []" and "fmt \<noteq> RawFormat"
  shows "history_output_text json fmt bytes = Some (''No telemetry history is stored on the device.'' @ nl)"
  using assms by (simp add: history_output_text_def history_document_def history_tail_def)

lemma example_parsed:
  "parse_history example_log = Some \<lparr>entries = [entry_of (example_record, 4, Measurement)], end_found = True\<rparr>"
  by (simp add: parse_history_trace example_trace)

theorem history_csv_reads_back_witness:
  "\<exists>cells. map_option read_csv (history_output_text (\<lambda>e. []) CsvFormat example_log)
     = Some [history_csv_header_cells, cells] \<and> length cells = 28"
  using history_csv_reads_back [OF example_parsed, of "\<lambda>e. []"]
  unfolding length_header by auto

end
