(* ===== verification/Snapshot.thy ===== *)
theory Snapshot
  imports Ipc Numbers
begin

text \<open>
  What the desktop client makes of a telemetry reply (\<open>crates/wireview-gui/src/client.rs\<close>): six pins,
  finite values, consistent fault masks, or a protocol error. \<open>PinSample\<close> is the daemon's pin record.
  The client's errors are here, too.
\<close>

section \<open>Errors of the desktop client\<close>

datatype client_error =
    CTransport string
  | CTimeout
  | CDisconnected
  | CRemote wireview_error
  | CCompatibility compatibility_error
  | CInvalidInput string
  | CProtocol string
  | CCancelled
  | CExport string
  | CDevice device_error
  | CPanicked string

fun compatibility_error_to_string :: "compatibility_error \<Rightarrow> string" where
  "compatibility_error_to_string (ApiVersion reported required) =
     ''wireviewd API '' @ show_nat (unat reported) @ '' is not supported; this client requires API ''
     @ show_nat (unat required)"
| "compatibility_error_to_string (ApiSchema reported required) =
     ''wireviewd API schema '' @ quoted reported @ '' is incompatible; this client requires '' @ quoted required"
| "compatibility_error_to_string (MissingCapabilities missing) =
     ''wireviewd is missing required capabilities: '' @ missing"

fun client_error_to_string :: "client_error \<Rightarrow> string" where
  "client_error_to_string (CTransport message) = ''wireviewd transport failed: '' @ message"
| "client_error_to_string CTimeout = ''wireviewd did not respond within five seconds''"
| "client_error_to_string CDisconnected = ''wireviewd is not connected''"
| "client_error_to_string (CRemote e) = wireview_error_to_string e"
| "client_error_to_string (CCompatibility e) = compatibility_error_to_string e"
| "client_error_to_string (CInvalidInput message) = ''invalid input: '' @ message"
| "client_error_to_string (CProtocol message) = ''invalid daemon response: '' @ message"
| "client_error_to_string CCancelled = ''history read cancelled''"
| "client_error_to_string (CExport message) = message"
| "client_error_to_string (CDevice e) = device_error_to_string e"
| "client_error_to_string (CPanicked message) = message"

fun disconnects_client :: "client_error \<Rightarrow> bool" where
  "disconnects_client (CTransport message) = True"
| "disconnects_client CTimeout = True"
| "disconnects_client CDisconnected = True"
| "disconnects_client other = False"

section \<open>Snapshots\<close>

record telemetry_snapshot =
  ts_sequence :: u64
  ts_session_id :: u64
  ts_observed_at_ms :: u64
  ts_stale :: bool
  ts_controller_vdd :: f64
  ts_average_voltage :: f64
  ts_total_current :: f64
  ts_total_power :: f64
  ts_fan_duty :: f64
  ts_cable_capability :: u16
  ts_pins :: "pin_metrics list"
  ts_input_temperature :: f64
  ts_output_temperature :: f64
  ts_external_1_temperature :: "f64 option"
  ts_external_2_temperature :: "f64 option"
  ts_active_fault_mask :: u16
  ts_logged_fault_mask :: u16
  ts_unknown_active_fault_mask :: u16
  ts_unknown_logged_fault_mask :: u16

text \<open>\<open>Vec<f64>\<close> to \<open>[f64; 6]\<close>.\<close>

definition six :: "string \<Rightarrow> f64 list \<Rightarrow> client_error + f64 list" where
  "six what values =
    (if length values \<noteq> 6 then
       Inl (CProtocol (''wireviewd returned '' @ show_nat (length values) @ '' pin '' @ what @ '', expected 6''))
     else Inr values)"

definition snapshot_finite :: "telemetry_dto \<Rightarrow> pin_metrics list \<Rightarrow> bool" where
  "snapshot_finite v ps \<longleftrightarrow>
     list_all f64_is_finite [td_vdd_v v, td_avg_voltage_v v, td_total_current_a v, td_total_power_w v,
       td_fan_duty_percent v, td_input_temp_c v, td_output_temp_c v]
     \<and> (td_external_1_present v \<longrightarrow> f64_is_finite (td_external_1_temp_c v))
     \<and> (td_external_2_present v \<longrightarrow> f64_is_finite (td_external_2_temp_c v))
     \<and> list_all (\<lambda>pin. f64_is_finite (current_a pin) \<and> f64_is_finite (voltage_v pin) \<and> f64_is_finite (power_w pin)) ps"

definition telemetry_snapshot_from :: "telemetry_dto \<Rightarrow> client_error + telemetry_snapshot" where
  "telemetry_snapshot_from v =
    (case six ''voltages'' (td_pin_voltages_v v) of Inl e \<Rightarrow> Inl e | Inr voltages \<Rightarrow>
    (case six ''currents'' (td_pin_currents_a v) of Inl e \<Rightarrow> Inl e | Inr currents \<Rightarrow>
    (case six ''powers'' (td_pin_power_w v) of Inl e \<Rightarrow> Inl e | Inr powers \<Rightarrow>
      let ps = map (\<lambda>index. \<lparr>voltage_v = voltages ! index, current_a = currents ! index, power_w = powers ! index\<rparr>)
                 [0..<6] in
      if \<not> snapshot_finite v ps then
        Inl (CProtocol ''wireviewd returned a non-finite telemetry value'')
      else if td_unknown_active_fault_mask v \<noteq> td_active_fault_mask v AND NOT 0x003f
           \<or> td_unknown_logged_fault_mask v \<noteq> td_logged_fault_mask v AND NOT 0x003f then
        Inl (CProtocol ''wireviewd returned inconsistent fault-register masks'')
      else Inr
        \<lparr>ts_sequence = td_sequence v, ts_session_id = td_session_id v, ts_observed_at_ms = td_observed_at_ms v,
         ts_stale = td_stale v, ts_controller_vdd = td_vdd_v v, ts_average_voltage = td_avg_voltage_v v,
         ts_total_current = td_total_current_a v, ts_total_power = td_total_power_w v,
         ts_fan_duty = td_fan_duty_percent v, ts_cable_capability = td_cable_capability_w v, ts_pins = ps,
         ts_input_temperature = td_input_temp_c v, ts_output_temperature = td_output_temp_c v,
         ts_external_1_temperature = (if td_external_1_present v then Some (td_external_1_temp_c v) else None),
         ts_external_2_temperature = (if td_external_2_present v then Some (td_external_2_temp_c v) else None),
         ts_active_fault_mask = td_active_fault_mask v, ts_logged_fault_mask = td_logged_fault_mask v,
         ts_unknown_active_fault_mask = td_unknown_active_fault_mask v,
         ts_unknown_logged_fault_mask = td_unknown_logged_fault_mask v\<rparr>)))"

section \<open>The daemon's own telemetry\<close>

text \<open>A snapshot keeps every value of the daemon's telemetry; the unknown bits of a fault mask
  are those outside the six known faults.\<close>

definition snapshot_shows :: "telemetry_snapshot \<Rightarrow> telemetry \<Rightarrow> bool" where
  "snapshot_shows s t \<longleftrightarrow> ts_sequence s = t_sequence t \<and> ts_session_id s = t_session_id t
     \<and> ts_observed_at_ms s = observed_at_ms t \<and> ts_stale s = stale t
     \<and> ts_controller_vdd s = vdd_v (t_metrics t)
     \<and> ts_fan_duty s = fan_duty_percent (t_metrics t)
     \<and> ts_cable_capability s = cable_capability_w (t_metrics t)
     \<and> ts_pins s = pins (t_metrics t)
     \<and> ts_total_power s = total_power_w (t_metrics t) \<and> ts_total_current s = total_current_a (t_metrics t)
     \<and> ts_average_voltage s = avg_voltage_v (t_metrics t)
     \<and> ts_input_temperature s = input_c (m_temperatures (t_metrics t))
     \<and> ts_output_temperature s = output_c (m_temperatures (t_metrics t))
     \<and> ts_external_1_temperature s = external_1_c (m_temperatures (t_metrics t))
     \<and> ts_external_2_temperature s = external_2_c (m_temperatures (t_metrics t))
     \<and> ts_active_fault_mask s = active_fault_mask t \<and> ts_logged_fault_mask s = logged_fault_mask t
     \<and> ts_unknown_active_fault_mask s = active_fault_mask t AND NOT FAULT_MASK
     \<and> ts_unknown_logged_fault_mask s = logged_fault_mask t AND NOT FAULT_MASK"

lemma f64_of_rat_finite: "\<bar>q\<bar> \<le> 1000000000000000 \<Longrightarrow> f64_is_finite (f64_of_rat q)"
  by (simp add: f64_of_rat_small)

lemma pin_list: "length ps = 6 \<Longrightarrow>
  map (\<lambda>index. \<lparr>voltage_v = map voltage_v ps ! index, current_a = map current_a ps ! index,
     power_w = map power_w ps ! index\<rparr>) [0..<6] = (ps :: pin_metrics list)"
  by (rule nth_equalityI) simp_all

text \<open>Finite values of a known size.\<close>

definition sized :: "rat \<Rightarrow> f64 \<Rightarrow> bool" where
  "sized c x \<longleftrightarrow> (\<exists>q. x = Finite q \<and> \<bar>q\<bar> \<le> c)"

lemma sized_finite: "sized c x \<Longrightarrow> f64_is_finite x"
  by (auto simp: sized_def)

lemma sized_mono: "sized c x \<Longrightarrow> c \<le> d \<Longrightarrow> sized d x"
  by (auto simp: sized_def)

lemma sized_of_rat:
  assumes "\<bar>q\<bar> \<le> c" and "c \<le> 1000000000000000"
  shows "sized (c + 2) (f64_of_rat q)"
proof -
  have "\<bar>round64 q\<bar> \<le> \<bar>q\<bar> + (\<bar>q\<bar> + 1) / 1000000000000000"
    using round64_error [of q] by linarith
  moreover have "(\<bar>q\<bar> + 1) / 1000000000000000 \<le> 2" using assms by (simp add: divide_le_eq)
  ultimately have "\<bar>round64 q\<bar> \<le> c + 2" using assms(1) by linarith
  then show ?thesis
    using assms f64_of_rat_small [of q] by (simp add: sized_def)
qed

lemma sized_ops:
  "sized c x \<Longrightarrow> sized d y \<Longrightarrow> c + d \<le> 1000000000000000 \<Longrightarrow> sized (c + d + 2) (f64_add x y)"
  "sized c x \<Longrightarrow> sized d y \<Longrightarrow> c * d \<le> 1000000000000000 \<Longrightarrow> sized (c * d + 2) (f64_mul x y)"
  "sized c x \<Longrightarrow> 1 \<le> k \<Longrightarrow> c \<le> 1000000000000000 \<Longrightarrow> sized (c / k + 2) (f64_div_const x k)"
proof -
  show "sized c x \<Longrightarrow> sized d y \<Longrightarrow> c + d \<le> 1000000000000000 \<Longrightarrow> sized (c + d + 2) (f64_add x y)"
    unfolding sized_def by clarsimp (rule sized_of_rat [unfolded sized_def]; linarith)
  show "sized c x \<Longrightarrow> sized d y \<Longrightarrow> c * d \<le> 1000000000000000 \<Longrightarrow> sized (c * d + 2) (f64_mul x y)"
    unfolding sized_def
    by clarsimp (rule sized_of_rat [unfolded sized_def], auto simp: abs_mult intro!: mult_mono)
  assume "sized c x" and k: "1 \<le> k" and c: "c \<le> 1000000000000000"
  then obtain q where q: "x = Finite q" "\<bar>q\<bar> \<le> c" by (auto simp: sized_def)
  have "\<bar>q / k\<bar> \<le> c / k" using k q(2) by (simp add: abs_divide divide_right_mono)
  moreover have "c / k \<le> c" using k order_trans [OF abs_ge_zero q(2)] by (simp add: divide_le_eq mult_le_cancel_left1)
  ultimately show "sized (c / k + 2) (f64_div_const x k)"
    using sized_of_rat [of "q / k" "c / k"] q c by simp
qed

lemma sized_of_int: "\<bar>i\<bar> \<le> n \<Longrightarrow> n \<le> 1000000000000000 \<Longrightarrow> sized (of_int n) (f64_of_int i)"
  by (auto simp: sized_def f64_of_int_small simp flip: of_int_abs)

lemma sized_words:
  "sized 65536 (f64_of_int (sint (w :: 16 word)))" "sized 65536 (f64_of_int (uint (u :: 16 word)))"
  "sized 4294967296 (f64_of_int (uint (v :: 32 word)))" "sized 65536 (f64_of_int (uint (b :: 8 word)))"
proof -
  have "\<bar>sint w\<bar> \<le> 65536" using sint_lt [of w] sint_ge [of w] by (simp add: abs_le_iff)
  then show "sized 65536 (f64_of_int (sint w))" using sized_of_int [of _ 65536] by simp
  have "\<bar>uint u\<bar> \<le> 65536" using uint_lt2p [of u] by simp
  then show "sized 65536 (f64_of_int (uint u))" using sized_of_int [of _ 65536] by simp
  have "\<bar>uint v\<bar> \<le> 4294967296" using uint_lt2p [of v] by simp
  then show "sized 4294967296 (f64_of_int (uint v))" using sized_of_int [of _ 4294967296] by simp
  have "\<bar>uint b\<bar> \<le> 65536" using uint_lt2p [of b] by simp
  then show "sized 65536 (f64_of_int (uint b))" using sized_of_int [of _ 65536] by simp
qed

lemma sensor_pin_sized:
  "sized 1000 (voltage_v (pin_at bytes index))"
  "sized 10000000 (current_a (pin_at bytes index))"
  "sized 100000000000 (power_w (pin_at bytes index))"
proof -
  have v: "sized (65536 / 1000 + 2) (voltage_v (pin_at bytes index))"
    using sized_ops(3) [OF sized_words(1), of 1000] by (simp add: pin_at_def Let_def)
  have c: "sized (4294967296 / 1000 + 2) (current_a (pin_at bytes index))"
    using sized_ops(3) [OF sized_words(3), of 1000] by (simp add: pin_at_def Let_def)
  show v': "sized 1000 (voltage_v (pin_at bytes index))" and c': "sized 10000000 (current_a (pin_at bytes index))"
    by (rule sized_mono [OF v], simp) (rule sized_mono [OF c], simp)
  have "power_w (pin_at bytes index) = f64_mul (voltage_v (pin_at bytes index)) (current_a (pin_at bytes index))"
    by (simp add: pin_at_def Let_def)
  then show "sized 100000000000 (power_w (pin_at bytes index))"
    using sized_mono [OF sized_ops(2) [OF v' c']] by simp
qed

lemma sized_sum:
  assumes "\<And>x. x \<in> set xs \<Longrightarrow> sized c x" and "length xs = 6" and "0 \<le> c" and "c \<le> 100000000000"
  shows "sized (6 * c + 12) (f64_sum xs)"
proof -
  obtain x0 x1 x2 x3 x4 x5 where xs: "xs = [x0, x1, x2, x3, x4, x5]"
    using assms(2) by (auto simp: length_Suc_conv eval_nat_numeral)
  have s: "sized c x0" "sized c x1" "sized c x2" "sized c x3" "sized c x4" "sized c x5"
    using assms(1) xs by simp_all
  have s0: "sized 0 (Finite 0)" by (simp add: sized_def)
  note s1 = sized_ops(1) [OF s0 s(1)]
  note s2 = sized_ops(1) [OF s1 s(2)]
  note s3 = sized_ops(1) [OF s2 s(3)]
  note s4 = sized_ops(1) [OF s3 s(4)]
  note s5 = sized_ops(1) [OF s4 s(5)]
  note s6 = sized_ops(1) [OF s5 s(6)]
  show ?thesis
    unfolding xs f64_sum_def using assms(3,4) by (auto intro!: sized_mono [OF s6])
qed

lemma decoded_finite:
  assumes "decode_sensor_response bytes = Inr sensors"
  shows "length (pins (s_metrics sensors)) = 6"
    "\<And>pin. pin \<in> set (pins (s_metrics sensors)) \<Longrightarrow>
       f64_is_finite (voltage_v pin) \<and> f64_is_finite (current_a pin) \<and> f64_is_finite (power_w pin)"
    "f64_is_finite (vdd_v (s_metrics sensors))" "f64_is_finite (avg_voltage_v (s_metrics sensors))"
    "f64_is_finite (total_current_a (s_metrics sensors))" "f64_is_finite (total_power_w (s_metrics sensors))"
    "f64_is_finite (fan_duty_percent (s_metrics sensors))"
    "f64_is_finite (input_c (m_temperatures (s_metrics sensors)))"
    "f64_is_finite (output_c (m_temperatures (s_metrics sensors)))"
    "external_1_c (m_temperatures (s_metrics sensors)) = Some x \<Longrightarrow> f64_is_finite x"
    "external_2_c (m_temperatures (s_metrics sensors)) = Some x \<Longrightarrow> f64_is_finite x"
proof -
  obtain cap where s: "s_metrics sensors =
      \<lparr>vdd_v = f64_div_const (f64_of_int (uint (read_u16 bytes 8))) 1000,
       avg_voltage_v = f64_div_const (f64_of_int (uint (read_u16 bytes 92))) 1000,
       total_current_a = f64_sum (map current_a (map (pin_at bytes) [0..<6])),
       total_power_w = f64_sum (map power_w (map (pin_at bytes) [0..<6])),
       fan_duty_percent = f64_of_int (uint (bytes ! 10)), cable_capability_w = cap,
       pins = map (pin_at bytes) [0..<6],
       m_temperatures = \<lparr>input_c = temp_at bytes 0, output_c = temp_at bytes 2,
          external_1_c = external_at bytes 4, external_2_c = external_at bytes 6\<rparr>\<rparr>"
  proof -
    have "length bytes = SENSOR_RESPONSE_SIZE"
      using assms by (auto simp: decode_sensor_response_def split: if_splits)
    then show ?thesis using assms that by (auto simp: decode_sensor_response_eq bindR_Inr)
  qed
  have t: "f64_is_finite (temp_at bytes n)" for n
    using sized_finite [OF sized_ops(3) [OF sized_words(1), of 10]] by (simp add: temp_at_def f64_tenths_def)
  have e: "external_at bytes n = Some x \<Longrightarrow> f64_is_finite x" for n x
    using t by (auto simp: external_at_def Let_def split: if_splits)
  show "length (pins (s_metrics sensors)) = 6"
    "f64_is_finite (input_c (m_temperatures (s_metrics sensors)))"
    "f64_is_finite (output_c (m_temperatures (s_metrics sensors)))"
    "external_1_c (m_temperatures (s_metrics sensors)) = Some x \<Longrightarrow> f64_is_finite x"
    "external_2_c (m_temperatures (s_metrics sensors)) = Some x \<Longrightarrow> f64_is_finite x"
    using t e by (simp_all add: s)
  show "f64_is_finite (voltage_v pin) \<and> f64_is_finite (current_a pin) \<and> f64_is_finite (power_w pin)"
    if "pin \<in> set (pins (s_metrics sensors))" for pin
    using that sensor_pin_sized [THEN sized_finite] by (auto simp: s)
  show "f64_is_finite (vdd_v (s_metrics sensors))" "f64_is_finite (avg_voltage_v (s_metrics sensors))"
    using sized_finite [OF sized_ops(3) [OF sized_words(2), of 1000]] by (simp_all add: s)
  show "f64_is_finite (fan_duty_percent (s_metrics sensors))"
    using sized_finite [OF sized_words(4)] by (simp add: s)
  have "sized (6 * 10000000 + 12) (f64_sum (map current_a (map (pin_at bytes) [0..<6])))"
    "sized (6 * 100000000000 + 12) (f64_sum (map power_w (map (pin_at bytes) [0..<6])))"
    by (rule sized_sum; use sensor_pin_sized in auto)+
  then show "f64_is_finite (total_current_a (s_metrics sensors))" "f64_is_finite (total_power_w (s_metrics sensors))"
    using sized_finite by (auto simp only: s metrics.simps)
qed

text \<open>C26: the desktop client accepts everything the device can report. Whatever bytes a sensor response
  has, if the daemon decodes them then its telemetry, turned into a reply and back, is a snapshot
  with the same values, every field of it: six pins, nothing infinite or undefined, and consistent fault masks.\<close>
theorem desktop_accepts_device_telemetry:
  assumes "decode_sensor_response bytes = Inr sensors" and "t_metrics t = s_metrics sensors"
  shows "\<exists>s. telemetry_snapshot_from (telemetry_dto_from t) = Inr s \<and> snapshot_shows s t"
proof -
  note d = decoded_finite [OF assms(1), folded assms(2)]
  have p: "map (\<lambda>index. \<lparr>voltage_v = map voltage_v (pins (t_metrics t)) ! index,
      current_a = map current_a (pins (t_metrics t)) ! index,
      power_w = map power_w (pins (t_metrics t)) ! index\<rparr>) [0..<6] = pins (t_metrics t)"
    by (rule pin_list [OF d(1)])
  have finite_all: "snapshot_finite (telemetry_dto_from t) (pins (t_metrics t))"
    using d by (auto simp: snapshot_finite_def telemetry_dto_from_def Let_def list_all_iff)
  show ?thesis
    using finite_all
    unfolding telemetry_snapshot_from_def
    by (simp add: six_def telemetry_dto_from_def Let_def d(1) p del: upt_Suc)
       (auto simp: snapshot_shows_def telemetry_dto_from_def Let_def FAULT_MASK_def p)
qed

theorem desktop_accepts_device_telemetry_witness:
  "\<exists>sensors s. decode_sensor_response (replicate SENSOR_RESPONSE_SIZE 0) = Inr sensors
     \<and> telemetry_snapshot_from (telemetry_dto_from (telemetry_mock 5\<lparr>t_metrics := s_metrics sensors\<rparr>)) = Inr s
     \<and> snapshot_shows s (telemetry_mock 5\<lparr>t_metrics := s_metrics sensors\<rparr>)"
proof -
  obtain sensors where d: "decode_sensor_response (replicate SENSOR_RESPONSE_SIZE 0) = Inr sensors"
    by (simp add: decode_sensor_response_eq cable_capability_def SENSOR_RESPONSE_SIZE_def bindR_def)
  then show ?thesis
    using desktop_accepts_device_telemetry [OF d, of "telemetry_mock 5\<lparr>t_metrics := s_metrics sensors\<rparr>"] by auto
qed

end
