(* ===== verification/Graph.thy ===== *)
theory Graph
  imports Snapshot
begin

unbundle bit_operations_syntax

text \<open>
  The desktop client's live graph (\<open>crates/wireview-gui/src/graph.rs\<close>): the bounded buffer of
  samples, the selected quantity and window, and the downsampled paths of a frame. The buffer is a
  refinement of an unbounded log of the session, and the downsampling keeps every extreme.
\<close>

definition SAMPLE_LIMIT :: nat where "SAMPLE_LIMIT = 1200"
definition BUCKET_LIMIT :: nat where "BUCKET_LIMIT = 384"
definition PATH_COORDINATE_MAX :: rat where "PATH_COORDINATE_MAX = 1000"

section \<open>Quantities and windows\<close>

datatype graph_kind = Power | Current | Voltage | Temperature

definition graph_kind_parse :: "string \<Rightarrow> graph_kind option" where
  "graph_kind_parse value =
    (if value = ''power'' then Some Power else if value = ''current'' then Some Current
     else if value = ''voltage'' then Some Voltage else if value = ''temperature'' then Some Temperature
     else None)"

fun kind_index :: "graph_kind \<Rightarrow> nat" where
  "kind_index Power = 0" | "kind_index Current = 1" | "kind_index Voltage = 2" | "kind_index Temperature = 3"

fun kind_id :: "graph_kind \<Rightarrow> string" where
  "kind_id Power = ''power''" | "kind_id Current = ''current''" | "kind_id Voltage = ''voltage''"
| "kind_id Temperature = ''temperature''"

fun kind_title :: "graph_kind \<Rightarrow> string" where
  "kind_title Power = ''POWER FIELD''" | "kind_title Current = ''CURRENT FIELD''"
| "kind_title Voltage = ''VOLTAGE FIELD''" | "kind_title Temperature = ''THERMAL FIELD''"

fun kind_unit :: "graph_kind \<Rightarrow> string" where
  "kind_unit Power = ''W''" | "kind_unit Current = ''A''" | "kind_unit Voltage = ''V''" | "kind_unit Temperature = ''C''"

fun kind_labels :: "graph_kind \<Rightarrow> string list" where
  "kind_labels Power = [''TOTAL'', [], [], [], [], []]"
| "kind_labels Current = [''I1'', ''I2'', ''I3'', ''I4'', ''I5'', ''I6'']"
| "kind_labels Voltage = [''V1'', ''V2'', ''V3'', ''V4'', ''V5'', ''V6'']"
| "kind_labels Temperature = [''INPUT'', ''OUTPUT'', ''EXT 1'', ''EXT 2'', [], []]"

fun series_count :: "graph_kind \<Rightarrow> nat" where
  "series_count Power = 1" | "series_count Current = 6" | "series_count Voltage = 6" | "series_count Temperature = 4"

datatype graph_window = Minute | FiveMinutes | TenMinutes

definition window_from_seconds :: "u64 \<Rightarrow> graph_window option" where
  "window_from_seconds seconds =
    (if seconds = 60 then Some Minute else if seconds = 300 then Some FiveMinutes
     else if seconds = 600 then Some TenMinutes else None)"

fun window_seconds :: "graph_window \<Rightarrow> u64" where
  "window_seconds Minute = 60" | "window_seconds FiveMinutes = 300" | "window_seconds TenMinutes = 600"

fun axis_label :: "graph_window \<Rightarrow> string" where
  "axis_label Minute = ''-60 S''" | "axis_label FiveMinutes = ''-5 M''" | "axis_label TenMinutes = ''-10 M''"

section \<open>Samples\<close>

record graph_sample =
  gs_observed_at_ms :: u64
  gs_total_power :: f32
  gs_total_current :: f32
  gs_average_voltage :: f32
  gs_currents :: "f32 list"
  gs_voltages :: "f32 list"
  gs_temperatures :: "f32 list"
  gs_temperature_mask :: u8

definition graph_sample_from :: "telemetry_snapshot \<Rightarrow> graph_sample" where
  "graph_sample_from t =
     \<lparr>gs_observed_at_ms = ts_observed_at_ms t,
      gs_total_power = f32_of_f64 (ts_total_power t),
      gs_total_current = f32_of_f64 (ts_total_current t),
      gs_average_voltage = f32_of_f64 (ts_average_voltage t),
      gs_currents = map (\<lambda>index. f32_of_f64 (current_a (ts_pins t ! index))) [0..<6],
      gs_voltages = map (\<lambda>index. f32_of_f64 (voltage_v (ts_pins t ! index))) [0..<6],
      gs_temperatures = [f32_of_f64 (ts_input_temperature t), f32_of_f64 (ts_output_temperature t),
        f32_of_f64 (case ts_external_1_temperature t of None \<Rightarrow> Finite 0 | Some c \<Rightarrow> c),
        f32_of_f64 (case ts_external_2_temperature t of None \<Rightarrow> Finite 0 | Some c \<Rightarrow> c)],
      gs_temperature_mask = 0b0011
        OR (if ts_external_1_temperature t \<noteq> None then 0b0100 else 0)
        OR (if ts_external_2_temperature t \<noteq> None then 0b1000 else 0)\<rparr>"

text \<open>\<open>mask & (1 << series) != 0\<close>.\<close>

definition series_on :: "u8 \<Rightarrow> nat \<Rightarrow> bool" where
  "series_on bits series \<longleftrightarrow> bits AND push_bit series 1 \<noteq> 0"

definition sample_value :: "graph_sample \<Rightarrow> graph_kind \<Rightarrow> nat \<Rightarrow> f32 option" where
  "sample_value sample kind series =
    (case kind of
       Power \<Rightarrow> if series = 0 then Some (gs_total_power sample) else None
     | Current \<Rightarrow> get_at (gs_currents sample) series
     | Voltage \<Rightarrow> get_at (gs_voltages sample) series
     | Temperature \<Rightarrow>
         (case get_at (gs_temperatures sample) series of
            None \<Rightarrow> None
          | Some value \<Rightarrow> if series_on (gs_temperature_mask sample) series then Some value else None))"

section \<open>The state\<close>

record graph_state =
  g_samples :: "graph_sample list"
  g_session_id :: "u64 option"
  g_last_sequence :: "u64 option"
  g_last_observed_at_ms :: "u64 option"
  g_kind :: graph_kind
  g_window :: graph_window
  g_paused :: bool
  g_visible_masks :: "u8 list"

definition graph_state_default :: graph_state where
  "graph_state_default =
     \<lparr>g_samples = [], g_session_id = None, g_last_sequence = None, g_last_observed_at_ms = None,
      g_kind = Current, g_window = Minute, g_paused = False,
      g_visible_masks = [0b0001, 0b111111, 0b111111, 0b0011]\<rparr>"

record record_outcome =
  appended :: bool
  session_reset :: bool

definition reset_session :: "graph_state \<Rightarrow> graph_state" where
  "reset_session g = g\<lparr>g_samples := [], g_session_id := None, g_last_sequence := None,
     g_last_observed_at_ms := None\<rparr>"

definition push_sample :: "graph_sample \<Rightarrow> graph_sample list \<Rightarrow> graph_sample list" where
  "push_sample sample samples =
     (if length samples = SAMPLE_LIMIT then tl samples else samples) @ [sample]"

definition record_sample :: "telemetry_snapshot \<Rightarrow> graph_state \<Rightarrow> record_outcome \<times> graph_state" where
  "record_sample t g0 =
    (let reset = (case g_session_id g0 of None \<Rightarrow> False | Some session_id \<Rightarrow> session_id \<noteq> ts_session_id t);
         g = (if reset then reset_session g0 else g0);
         duplicate = (g_session_id g = Some (ts_session_id t)
           \<and> (case g_last_sequence g of None \<Rightarrow> False | Some sequence \<Rightarrow> ts_sequence t \<le> sequence))
     in if duplicate then (\<lparr>appended = False, session_reset = False\<rparr>, g)
        else
          let observed = (case g_last_observed_at_ms g of
                None \<Rightarrow> ts_observed_at_ms t
              | Some observed \<Rightarrow> max (ts_observed_at_ms t) (saturating_inc observed))
          in (\<lparr>appended = True, session_reset = reset\<rparr>,
              g\<lparr>g_session_id := Some (ts_session_id t), g_last_sequence := Some (ts_sequence t),
                g_last_observed_at_ms := Some observed,
                g_samples := push_sample ((graph_sample_from t)\<lparr>gs_observed_at_ms := observed\<rparr>) (g_samples g)\<rparr>))"

definition clear_history :: "graph_state \<Rightarrow> graph_state" where
  "clear_history g = g\<lparr>g_samples := []\<rparr>"

definition select_kind :: "graph_kind \<Rightarrow> graph_state \<Rightarrow> graph_state" where
  "select_kind kind g = g\<lparr>g_kind := kind\<rparr>"

definition set_window_seconds :: "u64 \<Rightarrow> graph_state \<Rightarrow> graph_state" where
  "set_window_seconds seconds g =
    (case window_from_seconds seconds of None \<Rightarrow> g | Some window \<Rightarrow> g\<lparr>g_window := window\<rparr>)"

definition toggle_paused :: "graph_state \<Rightarrow> graph_state" where
  "toggle_paused g = g\<lparr>g_paused := \<not> g_paused g\<rparr>"

definition toggle_series :: "nat \<Rightarrow> graph_state \<Rightarrow> graph_state" where
  "toggle_series index g =
    (if index < series_count (g_kind g)
     then let i = kind_index (g_kind g) in
       g\<lparr>g_visible_masks := (g_visible_masks g)[i := g_visible_masks g ! i XOR push_bit index 1]\<rparr>
     else g)"

record graph_metadata =
  gm_kind :: string
  gm_title :: string
  gm_labels :: "string list"
  gm_visible :: "bool list"
  gm_series_count :: nat
  gm_window_seconds :: u64
  gm_window_axis_label :: string
  gm_paused :: bool

definition graph_metadata_of :: "graph_state \<Rightarrow> graph_metadata" where
  "graph_metadata_of g =
    (let mask = g_visible_masks g ! kind_index (g_kind g) in
     \<lparr>gm_kind = kind_id (g_kind g), gm_title = kind_title (g_kind g), gm_labels = kind_labels (g_kind g),
      gm_visible = map (series_on mask) [0..<6], gm_series_count = series_count (g_kind g),
      gm_window_seconds = window_seconds (g_window g), gm_window_axis_label = axis_label (g_window g),
      gm_paused = g_paused g\<rparr>)"

section \<open>Paths\<close>

record bucket =
  populated :: bool
  minimum_time :: u64
  minimum :: f32
  maximum_time :: u64
  maximum :: f32

definition empty_bucket :: bucket where
  "empty_bucket = \<lparr>populated = False, minimum_time = 0, minimum = Finite 0, maximum_time = 0, maximum = Finite 0\<rparr>"

definition bucket_add :: "u64 \<Rightarrow> f32 \<Rightarrow> bucket \<Rightarrow> bucket" where
  "bucket_add time value b =
    (if \<not> populated b then
       \<lparr>populated = True, minimum_time = time, minimum = value, maximum_time = time, maximum = value\<rparr>
     else
       let b1 = (if f64_less value (minimum b) then b\<lparr>minimum_time := time, minimum := value\<rparr> else b)
       in if f64_less (maximum b1) value then b1\<lparr>maximum_time := time, maximum := value\<rparr> else b1)"

text \<open>\<open>a.saturating_sub(b)\<close>.\<close>

definition saturating_sub :: "u64 \<Rightarrow> u64 \<Rightarrow> u64" where
  "saturating_sub a b = (if b \<le> a then a - b else 0)"

definition bucket_index :: "u64 \<Rightarrow> u64 \<Rightarrow> nat" where
  "bucket_index elapsed duration_ms = (unat elapsed * BUCKET_LIMIT) div (unat duration_ms + 1)"

definition bucket_step ::
  "graph_kind \<Rightarrow> nat \<Rightarrow> u64 \<Rightarrow> u64 \<Rightarrow> bucket list \<Rightarrow> graph_sample \<Rightarrow> bucket list" where
  "bucket_step kind series start_ms duration_ms buckets sample =
    (case sample_value sample kind series of
       None \<Rightarrow> buckets
     | Some value \<Rightarrow>
         let i = min (bucket_index (saturating_sub (gs_observed_at_ms sample) start_ms) duration_ms) (BUCKET_LIMIT - 1)
         in buckets[i := bucket_add (gs_observed_at_ms sample) value (buckets ! i)])"

definition fill_buckets ::
  "graph_sample list \<Rightarrow> graph_kind \<Rightarrow> nat \<Rightarrow> u64 \<Rightarrow> u64 \<Rightarrow> bucket list" where
  "fill_buckets samples kind series start_ms duration_ms =
     foldl (bucket_step kind series start_ms duration_ms) (replicate BUCKET_LIMIT empty_bucket)
       (filter (\<lambda>sample. start_ms \<le> gs_observed_at_ms sample) samples)"

text \<open>The coordinates of a point.\<close>

definition path_x :: "u64 \<Rightarrow> u64 \<Rightarrow> u64 \<Rightarrow> nat" where
  "path_x time start_ms duration_ms =
     float_to_u16 (float_clamp (Finite 0) (Finite PATH_COORDINATE_MAX) (f64_round
       (f64_mul (f64_div (f64_of_int (uint (saturating_sub time start_ms))) (f64_of_int (uint duration_ms)))
          (Finite PATH_COORDINATE_MAX))))"

definition path_y :: "f32 \<Rightarrow> f32 \<Rightarrow> f32 \<Rightarrow> nat" where
  "path_y value axis_minimum axis_maximum =
     float_to_u16 (float_clamp (Finite 0) (Finite PATH_COORDINATE_MAX) (f64_round
       (f32_mul (f32_div (f32_sub axis_maximum value) (f32_sub axis_maximum axis_minimum))
          (Finite PATH_COORDINATE_MAX))))"

definition append_path_point ::
  "u64 \<Rightarrow> u64 \<Rightarrow> f32 \<Rightarrow> f32 \<Rightarrow> u64 \<times> f32 \<Rightarrow> string \<times> bool \<Rightarrow> string \<times> bool" where
  "append_path_point start_ms duration_ms axis_minimum axis_maximum point state =
    (case (point, state) of ((time, value), (commands, first)) \<Rightarrow>
      let x = show_nat (path_x time start_ms duration_ms); y = show_nat (path_y value axis_minimum axis_maximum)
      in if first then (commands @ ''M'' @ x @ '' '' @ y, False)
         else (commands @ '' L'' @ x @ '' '' @ y, first))"

text \<open>The points of a populated bucket in the order of their times.\<close>

definition bucket_points :: "bucket \<Rightarrow> (u64 \<times> f32) list" where
  "bucket_points b =
    (if minimum_time b \<le> maximum_time b then
       (minimum_time b, minimum b) # (if maximum_time b \<noteq> minimum_time b then [(maximum_time b, maximum b)] else [])
     else [(maximum_time b, maximum b), (minimum_time b, minimum b)])"

definition path_points ::
  "graph_sample list \<Rightarrow> graph_kind \<Rightarrow> nat \<Rightarrow> u64 \<Rightarrow> u64 \<Rightarrow> (u64 \<times> f32) list" where
  "path_points samples kind series start_ms duration_ms =
     concat (map bucket_points (filter populated (fill_buckets samples kind series start_ms duration_ms)))"

definition build_path ::
  "graph_sample list \<Rightarrow> graph_kind \<Rightarrow> nat \<Rightarrow> u64 \<Rightarrow> u64 \<Rightarrow> f32 \<Rightarrow> f32 \<Rightarrow> string" where
  "build_path samples kind series start_ms end_ms axis_minimum axis_maximum =
    (let duration_ms = max (saturating_sub end_ms start_ms) 1
     in fst (fold (append_path_point start_ms duration_ms axis_minimum axis_maximum)
               (path_points samples kind series start_ms duration_ms) ([], True)))"

section \<open>Frames\<close>

definition f32_lit :: "rat \<Rightarrow> f32" where
  "f32_lit = f32_of_rat"

definition axis_bounds :: "graph_kind \<Rightarrow> f32 \<Rightarrow> f32 \<Rightarrow> f32 \<times> f32" where
  "axis_bounds kind low high =
    (if kind = Power \<or> kind = Current then
       let floor_value = (if kind = Power then f32_lit 1 else f32_lit (1 / 10))
       in (f32_lit 0, float_max (f32_mul (float_max high (f32_lit 0)) (f32_lit (11 / 10))) floor_value)
     else
       let minimum_padding = (if kind = Voltage then f32_lit (2 / 100) else f32_lit (1 / 2));
           padding = float_max (f32_mul (f64_abs (f32_sub high low)) (f32_lit (1 / 10))) minimum_padding
       in (f32_sub low padding, f32_add high padding))"

definition format_number :: "graph_kind \<Rightarrow> f32 \<Rightarrow> string" where
  "format_number kind value = show_fixed (case kind of Power \<Rightarrow> 1 | Temperature \<Rightarrow> 1 | Current \<Rightarrow> 2 | Voltage \<Rightarrow> 3) value"

definition format_value :: "graph_kind \<Rightarrow> f32 \<Rightarrow> string" where
  "format_value kind value = format_number kind value @ '' '' @ kind_unit kind"

fun summary_name :: "graph_kind \<Rightarrow> string" where
  "summary_name Power = ''TOTAL POWER''" | "summary_name Current = ''TOTAL CURRENT''"
| "summary_name Voltage = ''AVERAGE VOLTAGE''" | "summary_name Temperature = ''HOTTEST SENSOR''"

definition format_missing :: "graph_kind \<Rightarrow> string" where
  "format_missing kind = ''-- '' @ kind_unit kind"

definition summary_value :: "graph_kind \<Rightarrow> graph_sample \<Rightarrow> string" where
  "summary_value kind sample =
    (let value = (case kind of
          Power \<Rightarrow> Some (gs_total_power sample)
        | Current \<Rightarrow> Some (gs_total_current sample)
        | Voltage \<Rightarrow> Some (gs_average_voltage sample)
        | Temperature \<Rightarrow>
            (case map snd (filter (\<lambda>(index, _). series_on (gs_temperature_mask sample) index)
                 (enumerate 0 (gs_temperatures sample))) of
               [] \<Rightarrow> None
             | v # vs \<Rightarrow> Some (foldl float_max v vs)))
     in case value of None \<Rightarrow> format_missing kind | Some value \<Rightarrow> format_value kind value)"

record graph_frame =
  gf_paths :: "string list"
  gf_values :: "string list"
  gf_range_label :: string
  gf_y_max_label :: string
  gf_y_mid_label :: string
  gf_y_min_label :: string
  gf_summary_name :: string
  gf_summary_value :: string
  gf_sample_count :: nat
  gf_buffer_count :: nat

text \<open>The samples of a window, and the range of the visible series in it.\<close>

definition in_window :: "u64 \<Rightarrow> graph_sample list \<Rightarrow> graph_sample list" where
  "in_window start_ms samples = filter (\<lambda>sample. start_ms \<le> gs_observed_at_ms sample) samples"

definition visible_values :: "graph_kind \<Rightarrow> u8 \<Rightarrow> graph_sample list \<Rightarrow> f32 list" where
  "visible_values kind visibility samples =
     concat (map (\<lambda>sample. List.map_filter (\<lambda>series.
        if series_on visibility series then sample_value sample kind series else None) [0..<series_count kind]) samples)"

definition frame_for :: "graph_state \<Rightarrow> graph_kind \<Rightarrow> graph_window \<Rightarrow> graph_frame" where
  "frame_for g kind window =
    (if g_samples g = [] then
       \<lparr>gf_paths = replicate 6 [], gf_values = replicate 6 [],
        gf_range_label = ''WAITING FOR LIVE SAMPLES'', gf_y_max_label = ''--'', gf_y_mid_label = ''--'',
        gf_y_min_label = ''--'', gf_summary_name = summary_name kind, gf_summary_value = format_missing kind,
        gf_sample_count = 0, gf_buffer_count = 0\<rparr>
     else
       let latest = last (g_samples g);
           window_ms = window_seconds window * 1000;
           start_ms = saturating_sub (gs_observed_at_ms latest) window_ms;
           sample_count = length (in_window start_ms (g_samples g));
           visibility = (if kind = g_kind g then g_visible_masks g ! kind_index kind else 0b0001);
           values = visible_values kind visibility (in_window start_ms (g_samples g));
           low = foldl float_min (Infinite False) values;
           high = foldl float_max (Infinite True) values;
           bounded = f64_is_finite low \<and> f64_is_finite high;
           axis = axis_bounds kind low high;
           label = (\<lambda>v. if bounded then format_number kind v else ''--'')
       in \<lparr>gf_paths = map (\<lambda>series.
             if bounded \<and> 2 \<le> sample_count \<and> series < series_count kind \<and> series_on visibility series
             then build_path (g_samples g) kind series start_ms (gs_observed_at_ms latest) (fst axis) (snd axis)
             else []) [0..<6],
           gf_values = map (\<lambda>series.
             if series < series_count kind
             then (case sample_value latest kind series of None \<Rightarrow> ''N/A'' | Some value \<Rightarrow> format_value kind value)
             else []) [0..<6],
           gf_range_label = (if bounded
             then ''AUTO / '' @ format_number kind (fst axis) @ '' TO '' @ format_number kind (snd axis) @ '' '' @ kind_unit kind
             else ''SELECT A SERIES''),
           gf_y_max_label = label (snd axis),
           gf_y_mid_label = label (f32_div (f32_add (fst axis) (snd axis)) (f32_lit 2)),
           gf_y_min_label = label (fst axis),
           gf_summary_name = summary_name kind, gf_summary_value = summary_value kind latest,
           gf_sample_count = sample_count, gf_buffer_count = length (g_samples g)\<rparr>)"

definition graph_frame_of :: "graph_state \<Rightarrow> graph_frame" where
  "graph_frame_of g = frame_for g (g_kind g) (g_window g)"

record overview_frame =
  of_path :: string
  of_range_label :: string
  of_sample_count :: nat

definition overview_frame_of :: "graph_state \<Rightarrow> overview_frame" where
  "overview_frame_of g =
    (if g_samples g = [] then \<lparr>of_path = [], of_range_label = ''WAITING FOR LIVE SAMPLES'', of_sample_count = 0\<rparr>
     else
       let latest = last (g_samples g);
           window_ms = window_seconds Minute * 1000;
           start_ms = saturating_sub (gs_observed_at_ms latest) window_ms;
           shown = in_window start_ms (g_samples g);
           low = foldl float_min (Infinite False) (map gs_total_power shown);
           high = foldl float_max (Infinite True) (map gs_total_power shown)
       in if \<not> f64_is_finite low \<or> \<not> f64_is_finite high then
            \<lparr>of_path = [], of_range_label = ''WAITING FOR LIVE SAMPLES'', of_sample_count = length shown\<rparr>
          else
            let axis = axis_bounds Power low high in
            \<lparr>of_path = (if 2 \<le> length shown
               then build_path (g_samples g) Power 0 start_ms (gs_observed_at_ms latest) (fst axis) (snd axis) else []),
             of_range_label = ''AUTO / '' @ format_number Power (fst axis) @ '' TO ''
               @ format_number Power (snd axis) @ '' W'',
             of_sample_count = length shown\<rparr>)"

end
