(* ===== verification/GraphProps.thy ===== *)
theory GraphProps
  imports Graph
begin

text \<open>
  Properties of the live graph: the buffer refines an unbounded log of the session, its state stays
  well formed, and a downsampled path keeps every extreme of the samples it stands for.
\<close>

section \<open>The buffer refines a log\<close>

text \<open>What happens to a graph.\<close>

datatype graph_op =
    RecordOp telemetry_snapshot
  | ResetOp
  | ClearOp
  | KindOp graph_kind
  | WindowOp u64
  | PauseOp
  | SeriesOp nat

fun graph_step :: "graph_op \<Rightarrow> graph_state \<Rightarrow> graph_state" where
  "graph_step (RecordOp t) g = snd (record_sample t g)"
| "graph_step ResetOp g = reset_session g"
| "graph_step ClearOp g = clear_history g"
| "graph_step (KindOp kind) g = select_kind kind g"
| "graph_step (WindowOp seconds) g = set_window_seconds seconds g"
| "graph_step PauseOp g = toggle_paused g"
| "graph_step (SeriesOp index) g = toggle_series index g"

text \<open>
  The abstract view: the whole log of one session since it was cleared, and the key of the newest
  sample (session, sequence number, time). A sample is new when its session is, or when its
  sequence number is past the newest.
\<close>

record session_log =
  sl_newest :: "(u64 \<times> u64 \<times> u64) option"
  sl_log :: "graph_sample list"

definition stamped :: "telemetry_snapshot \<Rightarrow> u64 \<Rightarrow> graph_sample" where
  "stamped t time = (graph_sample_from t)\<lparr>gs_observed_at_ms := time\<rparr>"

definition starts_session :: "telemetry_snapshot \<Rightarrow> session_log \<Rightarrow> bool" where
  "starts_session t a = (case sl_newest a of None \<Rightarrow> True | Some (session, _) \<Rightarrow> session \<noteq> ts_session_id t)"

fun log_step :: "graph_op \<Rightarrow> session_log \<Rightarrow> session_log" where
  "log_step (RecordOp t) a =
    (if starts_session t a then
       \<lparr>sl_newest = Some (ts_session_id t, ts_sequence t, ts_observed_at_ms t),
        sl_log = [stamped t (ts_observed_at_ms t)]\<rparr>
     else (case sl_newest a of
         None \<Rightarrow> a
       | Some (session, sequence, time) \<Rightarrow>
           if ts_sequence t \<le> sequence then a
           else (let time' = max (ts_observed_at_ms t) (saturating_inc time)
                 in \<lparr>sl_newest = Some (session, ts_sequence t, time'), sl_log = sl_log a @ [stamped t time']\<rparr>)))"
| "log_step ResetOp a = \<lparr>sl_newest = None, sl_log = []\<rparr>"
| "log_step ClearOp a = a\<lparr>sl_log := []\<rparr>"
| "log_step other a = a"

definition take_last :: "nat \<Rightarrow> 'a list \<Rightarrow> 'a list" where
  "take_last n xs = drop (length xs - n) xs"

definition graph_refines :: "graph_state \<Rightarrow> session_log \<Rightarrow> bool" where
  "graph_refines g a \<longleftrightarrow> g_samples g = take_last SAMPLE_LIMIT (sl_log a)
     \<and> (case sl_newest a of
          None \<Rightarrow> g_session_id g = None \<and> g_last_sequence g = None \<and> g_last_observed_at_ms g = None
            \<and> g_samples g = []
        | Some (session, sequence, time) \<Rightarrow> g_session_id g = Some session
            \<and> g_last_sequence g = Some sequence \<and> g_last_observed_at_ms g = Some time)"

lemma push_take_last: "push_sample x (take_last SAMPLE_LIMIT xs) = take_last SAMPLE_LIMIT (xs @ [x])"
proof (cases "length xs < SAMPLE_LIMIT")
  case True
  then show ?thesis by (simp add: push_sample_def take_last_def)
next
  case False
  then have "length xs + 1 - SAMPLE_LIMIT = Suc (length xs - SAMPLE_LIMIT)"
    by (simp add: SAMPLE_LIMIT_def)
  moreover have "Suc 0 - SAMPLE_LIMIT = 0" by (simp add: SAMPLE_LIMIT_def)
  ultimately show ?thesis using False by (simp add: push_sample_def take_last_def drop_Suc drop_tl)
qed

lemma take_last_single [simp]: "take_last SAMPLE_LIMIT [x] = [x]"
  by (simp add: take_last_def SAMPLE_LIMIT_def)

lemma push_sample_empty: "push_sample x [] = [x]"
  by (simp add: push_sample_def SAMPLE_LIMIT_def)

lemma graph_step_refines:
  assumes "graph_refines g a"
  shows "graph_refines (graph_step op g) (log_step op a)"
proof (cases op)
  case (RecordOp t)
  show ?thesis
  proof (cases "sl_newest a")
    case None
    then have "g_session_id g = None" "g_last_sequence g = None" "g_last_observed_at_ms g = None" "g_samples g = []"
      using assms by (auto simp only: graph_refines_def option.case)
    then show ?thesis using None RecordOp
      by (simp add: graph_refines_def record_sample_def Let_def starts_session_def push_sample_empty stamped_def)
  next
    case (Some key)
    obtain session sequence time where key: "key = (session, sequence, time)" by (metis prod_cases3)
    show ?thesis
    proof (cases "session = ts_session_id t")
      case True
      then show ?thesis using assms RecordOp Some key
        by (auto simp: graph_refines_def record_sample_def Let_def starts_session_def stamped_def push_take_last)
    next
      case False
      then show ?thesis using assms RecordOp Some key
        by (simp add: graph_refines_def record_sample_def Let_def starts_session_def push_sample_empty
            stamped_def reset_session_def)
    qed
  qed
next
  case ResetOp
  then show ?thesis using assms by (simp add: graph_refines_def reset_session_def take_last_def)
next
  case ClearOp
  then show ?thesis using assms by (auto simp: graph_refines_def clear_history_def take_last_def split: option.splits)
qed (use assms in \<open>auto simp: graph_refines_def select_kind_def set_window_seconds_def toggle_paused_def
       toggle_series_def Let_def split: option.splits\<close>)

definition graph_after :: "graph_op list \<Rightarrow> graph_state" where
  "graph_after trail = fold graph_step trail graph_state_default"

definition log_after :: "graph_op list \<Rightarrow> session_log" where
  "log_after trail = fold log_step trail \<lparr>sl_newest = None, sl_log = []\<rparr>"

lemma graph_refines_after: "graph_refines (graph_after trail) (log_after trail)"
proof (induction trail rule: rev_induct)
  case Nil
  show ?case by (simp add: graph_after_def log_after_def graph_refines_def graph_state_default_def take_last_def)
next
  case (snoc op trail)
  then show ?case using graph_step_refines by (simp add: graph_after_def log_after_def)
qed

text \<open>C16: the graph's ring buffer implements an unbounded log. After any sequence of samples (repeated,
  late, from a new session), clears, resets and view changes, the buffer holds exactly the last
  1200 samples of the abstract log, and its keys are those of the log's newest sample.\<close>
theorem graph_refines_session_log:
  "g_samples (graph_after trail) = take_last SAMPLE_LIMIT (sl_log (log_after trail))
   \<and> (g_session_id (graph_after trail), g_last_sequence (graph_after trail), g_last_observed_at_ms (graph_after trail))
     = (case sl_newest (log_after trail) of None \<Rightarrow> (None, None, None)
        | Some (session, sequence, time) \<Rightarrow> (Some session, Some sequence, Some time))"
  using graph_refines_after [of trail] by (auto simp: graph_refines_def split: option.splits)

section \<open>The invariant of the state\<close>

definition increasing :: "u64 list \<Rightarrow> bool" where
  "increasing ts \<longleftrightarrow> sorted_wrt (\<lambda>a b. a < b \<or> b = - 1) ts"

text \<open>The log's times increase and end with the newest.\<close>

definition log_ordered :: "session_log \<Rightarrow> bool" where
  "log_ordered a \<longleftrightarrow> increasing (map gs_observed_at_ms (sl_log a))
     \<and> (case sl_newest a of
          None \<Rightarrow> sl_log a = []
        | Some (session, sequence, time) \<Rightarrow>
            sl_log a \<noteq> [] \<longrightarrow> gs_observed_at_ms (last (sl_log a)) = time)"

lemma increasing_snoc:
  assumes "increasing ts" and "ts \<noteq> [] \<Longrightarrow> last ts < t \<or> t = - 1"
  shows "increasing (ts @ [t])"
proof (cases ts rule: rev_cases)
  case Nil
  then show ?thesis by (simp add: increasing_def)
next
  case (snoc xs b)
  have "a < t \<or> t = - 1" if "a \<in> set ts" for a
  proof -
    have "a = b \<or> a < b \<or> b = - 1" using that assms(1) snoc by (auto simp: increasing_def sorted_wrt_append)
    moreover have "b < t \<or> t = - 1" using assms(2) snoc by simp
    moreover have "\<not> (- 1 :: u64) < t" by (simp add: not_less)
    ultimately show ?thesis by auto
  qed
  then show ?thesis using assms(1) by (auto simp: increasing_def sorted_wrt_append)
qed

lemma saturating_inc_after: "a < max t (saturating_inc a) \<or> max t (saturating_inc a) = (- 1 :: u64)"
proof (cases "a = - 1")
  case True
  then have "max t (saturating_inc a) = - 1" by (simp add: saturating_inc_def max_def)
  then show ?thesis by simp
next
  case False
  have "unat a < unat (saturating_inc a)"
  proof -
    have "unat (- 1 :: u64) = 2 ^ LENGTH(64) - 1"
      by (simp only: unsigned_minus_1_eq_mask mask_eq_exp_minus_1)
    then have "unat a \<noteq> 2 ^ LENGTH(64) - 1" using False by (metis word_unat_eq_iff)
    moreover have "unat a < 2 ^ LENGTH(64)" by (rule unsigned_less)
    ultimately show ?thesis using unat_saturating_inc [of a] by simp
  qed
  then have "a < saturating_inc a" by (simp only: word_less_nat_alt)
  then show ?thesis by (simp add: less_max_iff_disj)
qed

lemma log_step_ordered: "log_ordered a \<Longrightarrow> log_ordered (log_step op a)"
proof (cases op)
  case (RecordOp t)
  assume a: "log_ordered a"
  show ?thesis
  proof (cases "starts_session t a")
    case True
    then show ?thesis using RecordOp by (simp add: log_ordered_def stamped_def increasing_def)
  next
    case False
    then obtain session sequence time where key: "sl_newest a = Some (session, sequence, time)"
      by (auto simp: starts_session_def split: option.splits)
    let ?time = "max (ts_observed_at_ms t) (saturating_inc time)"
    have "increasing (map gs_observed_at_ms (sl_log a) @ [?time])"
      using a key saturating_inc_after [of time "ts_observed_at_ms t"]
      by (intro increasing_snoc) (auto simp: log_ordered_def last_map)
    then show ?thesis using a key False RecordOp
      by (simp add: log_ordered_def Let_def stamped_def)
  qed
qed (auto simp: log_ordered_def increasing_def split: option.splits)

lemma log_after_ordered: "log_ordered (log_after trail)"
proof (induction trail rule: rev_induct)
  case Nil
  show ?case by (simp add: log_after_def log_ordered_def increasing_def)
next
  case (snoc op trail)
  then show ?case using log_step_ordered by (simp add: log_after_def)
qed

lemma increasing_take_last: "increasing (map f xs) \<Longrightarrow> increasing (map f (take_last n xs))"
  unfolding increasing_def take_last_def drop_map [symmetric] by (rule sorted_wrt_drop)

definition masks_ok :: "graph_state \<Rightarrow> bool" where
  "masks_ok g \<longleftrightarrow> length (g_visible_masks g) = 4
     \<and> (\<forall>kind series. series_on (g_visible_masks g ! kind_index kind) series \<longrightarrow> series < series_count kind)"

lemma series_on_bit: "series_on bits series \<longleftrightarrow> bit bits series"
  by (simp add: series_on_def push_bit_eq_mult and_exp_eq_0_iff_not_bit)

lemma default_masks: "masks_ok graph_state_default"
proof -
  have "(63 :: u8) = mask 6" "(3 :: u8) = mask 2" "(1 :: u8) = mask 1"
    by (simp_all add: mask_eq_exp_minus_1)
  then have "bit (63 :: u8) n \<longleftrightarrow> n < 6" "bit (3 :: u8) n \<longleftrightarrow> n < 2" "bit (1 :: u8) n \<longleftrightarrow> n < 1" for n
    by (simp_all only: bit_mask_iff) (auto simp: bit_1_iff)
  then have "bit ([1, 63, 63, 3 :: u8] ! kind_index kind) n \<Longrightarrow> n < series_count kind" for kind n
    by (cases kind) (auto dest: bit_imp_le_length)
  then show ?thesis
    by (simp add: masks_ok_def series_on_bit graph_state_default_def)
qed

lemma toggled_bit: "bit (bits XOR 2 ^ index :: u8) n \<longleftrightarrow> bit bits n \<noteq> (n = index \<and> n < 8)"
  by (auto simp: bit_xor_iff bit_exp_iff)

lemma kind_index_inj: "kind_index k = kind_index k' \<longleftrightarrow> k = k'"
  by (cases k; cases k') simp_all

lemma kind_index_bound: "kind_index k < 4"
  by (cases k) simp_all

lemma graph_step_masks: "masks_ok g \<Longrightarrow> masks_ok (graph_step op g)"
proof (cases op)
  case (SeriesOp index)
  assume "masks_ok g"
  then show ?thesis
    using SeriesOp kind_index_bound
    by (auto simp: masks_ok_def toggle_series_def Let_def nth_list_update kind_index_inj series_on_bit toggled_bit)
qed (auto simp: masks_ok_def record_sample_def Let_def reset_session_def clear_history_def select_kind_def
      set_window_seconds_def toggle_paused_def split: option.splits)

lemma masks_ok_after: "masks_ok (graph_after trail)"
  by (induction trail rule: rev_induct) (simp_all add: graph_after_def default_masks graph_step_masks)

text \<open>C27: the graph's state is well formed after any sequence of operations: never more than 1200 samples,
  their times strictly increase (until a clock at its maximum saturates), the newest sample has the
  remembered time, a graph without a session is empty, and only series that exist are visible.\<close>
theorem graph_state_well_formed:
  "length (g_samples (graph_after trail)) \<le> SAMPLE_LIMIT
   \<and> increasing (map gs_observed_at_ms (g_samples (graph_after trail)))
   \<and> (case g_session_id (graph_after trail) of
        None \<Rightarrow> g_samples (graph_after trail) = []
      | Some session \<Rightarrow> g_samples (graph_after trail) = []
          \<or> g_last_observed_at_ms (graph_after trail) = Some (gs_observed_at_ms (last (g_samples (graph_after trail)))))
   \<and> masks_ok (graph_after trail)"
proof -
  have r: "graph_refines (graph_after trail) (log_after trail)" by (rule graph_refines_after)
  have o: "log_ordered (log_after trail)" by (rule log_after_ordered)
  let ?samples = "g_samples (graph_after trail)" and ?log = "sl_log (log_after trail)"
  have samples: "?samples = take_last SAMPLE_LIMIT ?log" using r by (simp add: graph_refines_def)
  have len: "length ?samples \<le> SAMPLE_LIMIT" unfolding samples by (simp add: take_last_def)
  have inc: "increasing (map gs_observed_at_ms ?samples)"
    unfolding samples using o by (intro increasing_take_last) (simp add: log_ordered_def)
  have newest: "?log \<noteq> [] \<and> last ?samples = last ?log" if "?samples \<noteq> []"
    using that unfolding samples by (auto simp: take_last_def)
  show ?thesis
  proof (cases "sl_newest (log_after trail)")
    case None
    then have "g_session_id (graph_after trail) = None" "?samples = []"
      using r by (auto simp only: graph_refines_def option.case)
    then show ?thesis using len inc masks_ok_after [of trail] by simp
  next
    case (Some key)
    obtain session sequence time where key: "key = (session, sequence, time)" by (metis prod_cases3)
    have "?samples = [] \<or> time = gs_observed_at_ms (last ?samples)"
    proof (cases "?samples = []")
      case False
      then show ?thesis using newest o Some key by (simp add: log_ordered_def)
    qed simp
    then show ?thesis using r len inc masks_ok_after [of trail] Some key by (auto simp: graph_refines_def)
  qed
qed

section \<open>Downsampling\<close>

text \<open>Away from NaN, \<open>f64_less\<close> is a strict linear order.\<close>

lemma f64_less_order:
  "\<not> f64_less x x"
  "x \<noteq> NaN \<Longrightarrow> y \<noteq> NaN \<Longrightarrow> z \<noteq> NaN \<Longrightarrow> \<not> f64_less x y \<Longrightarrow> \<not> f64_less y z \<Longrightarrow> \<not> f64_less x z"
  "x \<noteq> NaN \<Longrightarrow> y \<noteq> NaN \<Longrightarrow> f64_less x y \<Longrightarrow> \<not> f64_less y x"
    apply (cases x; simp)
   apply (cases x; cases y; cases z; auto)
  apply (cases x; cases y; auto)
  done

text \<open>What a bucket knows about the points that were added to it.\<close>

definition bucket_covers :: "(u64 \<times> f32) list \<Rightarrow> bucket \<Rightarrow> bool" where
  "bucket_covers ps b \<longleftrightarrow> (populated b \<longleftrightarrow> ps \<noteq> [])
     \<and> (ps \<noteq> [] \<longrightarrow> (minimum_time b, minimum b) \<in> set ps \<and> (maximum_time b, maximum b) \<in> set ps
        \<and> (\<forall>(t, v)\<in>set ps. \<not> f64_less v (minimum b) \<and> \<not> f64_less (maximum b) v))"

lemma bucket_add_covers:
  assumes "bucket_covers ps b" and "v \<noteq> NaN" and "\<forall>(t, v)\<in>set ps. v \<noteq> NaN"
  shows "bucket_covers (ps @ [(t, v)]) (bucket_add t v b)"
proof (cases "ps = []")
  case True
  then show ?thesis using assms by (simp add: bucket_covers_def bucket_add_def f64_less_order(1))
next
  case False
  then have b: "populated b" "(minimum_time b, minimum b) \<in> set ps" "(maximum_time b, maximum b) \<in> set ps"
    and covered: "\<And>t' w. (t', w) \<in> set ps \<Longrightarrow> \<not> f64_less w (minimum b) \<and> \<not> f64_less (maximum b) w \<and> w \<noteq> NaN"
    using assms(1,3) by (auto simp: bucket_covers_def)
  have ends: "minimum b \<noteq> NaN" "maximum b \<noteq> NaN" using b(2,3) covered by blast+
  have low: "\<not> f64_less w v" if "f64_less v (minimum b)" "(t', w) \<in> set ps" for t' w
    using f64_less_order(2) [of w "minimum b" v] f64_less_order(3) [of v "minimum b"] that covered assms(2) ends by blast
  have high: "\<not> f64_less v w" if "f64_less (maximum b) v" "(t', w) \<in> set ps" for t' w
    using f64_less_order(2) [of v "maximum b" w] f64_less_order(3) [of "maximum b" v] that covered assms(2) ends by blast
  show ?thesis
    using b covered low high False
    by (auto simp: bucket_covers_def bucket_add_def Let_def f64_less_order(1))
qed

lemma bucket_add_populated [simp]: "populated (bucket_add t v b)"
  by (simp add: bucket_add_def Let_def)

text \<open>The points of a series in a window, and those of one bucket.\<close>

definition series_points :: "graph_sample list \<Rightarrow> graph_kind \<Rightarrow> nat \<Rightarrow> u64 \<Rightarrow> (u64 \<times> f32) list" where
  "series_points samples kind series start_ms =
     List.map_filter (\<lambda>s. map_option (Pair (gs_observed_at_ms s)) (sample_value s kind series))
       (filter (\<lambda>s. start_ms \<le> gs_observed_at_ms s) samples)"

definition slot_of :: "u64 \<Rightarrow> u64 \<Rightarrow> u64 \<Rightarrow> nat" where
  "slot_of start_ms duration_ms time = min (bucket_index (saturating_sub time start_ms) duration_ms) (BUCKET_LIMIT - 1)"

lemma slot_of_bound: "slot_of start_ms duration_ms time < BUCKET_LIMIT"
  by (simp add: slot_of_def BUCKET_LIMIT_def)

lemma slot_of_mono: "t \<le> t' \<Longrightarrow> slot_of start_ms duration_ms t \<le> slot_of start_ms duration_ms t'"
proof -
  assume "t \<le> t'"
  then have "unat (saturating_sub t start_ms) \<le> unat (saturating_sub t' start_ms)"
    by (auto simp: saturating_sub_def word_le_nat_alt unat_sub)
  then have "bucket_index (saturating_sub t start_ms) duration_ms \<le> bucket_index (saturating_sub t' start_ms) duration_ms"
    unfolding bucket_index_def by (intro div_le_mono mult_le_mono) simp_all
  then show ?thesis by (auto simp: slot_of_def)
qed

lemma fill_buckets_fold:
  "fill_buckets samples kind series start_ms duration_ms =
     foldl (\<lambda>bs (t, v). bs[slot_of start_ms duration_ms t := bucket_add t v (bs ! slot_of start_ms duration_ms t)])
       (replicate BUCKET_LIMIT empty_bucket) (series_points samples kind series start_ms)"
proof -
  have "foldl (bucket_step kind series start_ms duration_ms) bs ss =
      foldl (\<lambda>bs (t, v). bs[slot_of start_ms duration_ms t := bucket_add t v (bs ! slot_of start_ms duration_ms t)])
        bs (List.map_filter (\<lambda>s. map_option (Pair (gs_observed_at_ms s)) (sample_value s kind series)) ss)" for bs ss
    by (induction ss arbitrary: bs)
      (auto simp: bucket_step_def slot_of_def Let_def List.map_filter_def split: option.split)
  then show ?thesis by (simp add: fill_buckets_def series_points_def)
qed

lemma fold_covers:
  assumes "\<forall>(t, v)\<in>set ps. v \<noteq> NaN" and "i < BUCKET_LIMIT"
  shows "length (foldl (\<lambda>bs (t, v). bs[slot_of s d t := bucket_add t v (bs ! slot_of s d t)])
       (replicate BUCKET_LIMIT empty_bucket) ps) = BUCKET_LIMIT
    \<and> bucket_covers (filter (\<lambda>(t, v). slot_of s d t = i) ps)
      (foldl (\<lambda>bs (t, v). bs[slot_of s d t := bucket_add t v (bs ! slot_of s d t)])
         (replicate BUCKET_LIMIT empty_bucket) ps ! i)"
  using assms(1)
proof (induction ps rule: rev_induct)
  case Nil
  then show ?case using assms(2) by (simp add: bucket_covers_def empty_bucket_def)
next
  case (snoc p ps)
  obtain t v where p: "p = (t, v)" by fastforce
  have nan: "\<forall>(t, v)\<in>set (filter (\<lambda>(t, v). slot_of s d t = i) ps). v \<noteq> NaN" using snoc.prems by auto
  show ?case
    using snoc p bucket_add_covers [OF _ _ nan, of _ v t] assms(2)
    by (auto simp: nth_list_update)
qed

lemma fill_buckets_covers:
  assumes "\<forall>(t, v)\<in>set (series_points samples kind series start_ms). v \<noteq> NaN" and "i < BUCKET_LIMIT"
  shows "length (fill_buckets samples kind series start_ms duration_ms) = BUCKET_LIMIT"
    "bucket_covers (filter (\<lambda>(t, v). slot_of start_ms duration_ms t = i) (series_points samples kind series start_ms))
      (fill_buckets samples kind series start_ms duration_ms ! i)"
  using fold_covers [OF assms] by (simp_all add: fill_buckets_fold)

text \<open>
  A bucket whose smallest and largest value have the same time is one point; so times must not
  repeat, which the graph's state guarantees.
\<close>

lemma bucket_points_covers:
  assumes "bucket_covers ps b" and "ps \<noteq> []" and "\<And>t v w. (t, v) \<in> set ps \<Longrightarrow> (t, w) \<in> set ps \<Longrightarrow> v = w"
  shows "set (bucket_points b) \<subseteq> set ps" "length (bucket_points b) \<le> 2" "sorted (map fst (bucket_points b))"
    "(t, v) \<in> set ps \<Longrightarrow> \<exists>p\<in>set (bucket_points b). \<exists>q\<in>set (bucket_points b).
       \<not> f64_less v (snd p) \<and> \<not> f64_less (snd q) v"
proof -
  have b: "(minimum_time b, minimum b) \<in> set ps" "(maximum_time b, maximum b) \<in> set ps"
    "\<And>t v. (t, v) \<in> set ps \<Longrightarrow> \<not> f64_less v (minimum b) \<and> \<not> f64_less (maximum b) v"
    using assms(1,2) by (auto simp: bucket_covers_def)
  show "set (bucket_points b) \<subseteq> set ps" "length (bucket_points b) \<le> 2" "sorted (map fst (bucket_points b))"
    using b by (auto simp: bucket_points_def)
  have one: "minimum_time b = maximum_time b \<Longrightarrow> minimum b = maximum b" using b(1,2) assms(3) by metis
  have ends: "(minimum_time b, minimum b) \<in> set (bucket_points b)" "(maximum_time b, maximum b) \<in> set (bucket_points b)"
    using one by (auto simp: bucket_points_def)
  show "(t, v) \<in> set ps \<Longrightarrow> \<exists>p\<in>set (bucket_points b). \<exists>q\<in>set (bucket_points b).
       \<not> f64_less v (snd p) \<and> \<not> f64_less (snd q) v"
    using b(3) ends by (metis snd_conv)
qed

text \<open>The text of a path over its points.\<close>

definition point_text :: "u64 \<Rightarrow> u64 \<Rightarrow> f32 \<Rightarrow> f32 \<Rightarrow> u64 \<times> f32 \<Rightarrow> string" where
  "point_text start_ms duration_ms low high p =
     show_nat (path_x (fst p) start_ms duration_ms) @ '' '' @ show_nat (path_y (snd p) low high)"

fun path_text :: "(u64 \<times> f32 \<Rightarrow> string) \<Rightarrow> (u64 \<times> f32) list \<Rightarrow> string" where
  "path_text txt [] = []"
| "path_text txt (p # ps) = ''M'' @ txt p @ concat (map (\<lambda>q. '' L'' @ txt q) ps)"

lemma append_path_points_text:
  "fold (append_path_point s d low high) ps (commands, False)
    = (commands @ concat (map (\<lambda>q. '' L'' @ point_text s d low high q) ps), False)"
  by (induction ps arbitrary: commands) (auto simp: append_path_point_def point_text_def Let_def)

lemma build_path_text:
  "build_path samples kind series start_ms end_ms low high =
     (let duration_ms = max (saturating_sub end_ms start_ms) 1
      in path_text (point_text start_ms duration_ms low high) (path_points samples kind series start_ms duration_ms))"
proof -
  have "fst (fold (append_path_point s d low high) ps ([], True)) = path_text (point_text s d low high) ps" for s d ps
    by (cases ps) (auto simp: append_path_point_def point_text_def Let_def append_path_points_text)
  then show ?thesis by (simp add: build_path_def Let_def)
qed

lemma path_coordinates: "path_x t s d \<le> 1000" "path_y v low high \<le> 1000"
  using float_to_u16_clamped [of PATH_COORDINATE_MAX] by (simp_all add: path_x_def path_y_def PATH_COORDINATE_MAX_def)

definition graph_path :: "graph_sample list \<Rightarrow> graph_kind \<Rightarrow> nat \<Rightarrow> u64 \<Rightarrow> u64 \<Rightarrow> (u64 \<times> f32) list \<Rightarrow> bool" where
  "graph_path samples kind series start_ms duration_ms ps \<longleftrightarrow>
     length ps \<le> 2 * BUCKET_LIMIT \<and> sorted (map fst ps)
     \<and> set ps \<subseteq> set (series_points samples kind series start_ms)
     \<and> (\<forall>(t, v)\<in>set (series_points samples kind series start_ms).
          \<exists>p\<in>set ps. \<exists>q\<in>set ps. slot_of start_ms duration_ms (fst p) = slot_of start_ms duration_ms t
            \<and> slot_of start_ms duration_ms (fst q) = slot_of start_ms duration_ms t
            \<and> \<not> f64_less v (snd p) \<and> \<not> f64_less (snd q) v)"

lemma sorted_concat_slots:
  assumes "\<And>i. i < n \<Longrightarrow> sorted (f i)" and "\<And>i j x y. i < j \<Longrightarrow> j < n \<Longrightarrow> x \<in> set (f i) \<Longrightarrow> y \<in> set (f j) \<Longrightarrow> x \<le> y"
  shows "sorted (concat (map f [0..<n]))"
  using assms
proof (induction n)
  case (Suc n)
  then show ?case by (auto simp: sorted_append)
qed simp

lemma length_concat_slots:
  "(\<And>i. i < n \<Longrightarrow> length (f i) \<le> 2) \<Longrightarrow> length (concat (map f [0..<n])) \<le> 2 * n"
proof (induction n)
  case (Suc n)
  have "length (f n) \<le> 2" "length (concat (map f [0..<n])) \<le> 2 * n" using Suc by simp_all
  then show ?case by simp
qed simp

lemma path_points_slots:
  assumes "length (fill_buckets samples kind series start_ms duration_ms) = BUCKET_LIMIT"
  shows "path_points samples kind series start_ms duration_ms =
     concat (map (\<lambda>i. if populated (fill_buckets samples kind series start_ms duration_ms ! i)
        then bucket_points (fill_buckets samples kind series start_ms duration_ms ! i) else []) [0..<BUCKET_LIMIT])"
proof -
  let ?g = "\<lambda>b. if populated b then bucket_points b else []"
  have "concat (map bucket_points (filter populated bs)) = concat (map ?g bs)" for bs
    by (induction bs) simp_all
  moreover have "map ?g bs = map (\<lambda>i. ?g (bs ! i)) [0..<length bs]" for bs
    by (rule nth_equalityI) simp_all
  ultimately show ?thesis
    unfolding path_points_def assms [symmetric] by simp
qed

lemma series_points_functional:
  assumes "distinct (map gs_observed_at_ms samples)"
    and "(t, v) \<in> set (series_points samples kind series start_ms)" and "(t, w) \<in> set (series_points samples kind series start_ms)"
  shows "v = w"
proof -
  obtain a b where "a \<in> set samples" "gs_observed_at_ms a = t" "sample_value a kind series = Some v"
    "b \<in> set samples" "gs_observed_at_ms b = t" "sample_value b kind series = Some w"
    using assms(2,3) by (auto simp: series_points_def List.map_filter_def)
  then show ?thesis using assms(1) by (metis distinct_map inj_onD option.inject)
qed

lemma path_points_graph_path:
  assumes "distinct (map gs_observed_at_ms samples)"
    and nan: "\<forall>(t, v)\<in>set (series_points samples kind series start_ms). v \<noteq> NaN"
  shows "graph_path samples kind series start_ms duration_ms (path_points samples kind series start_ms duration_ms)"
proof -
  let ?ps = "series_points samples kind series start_ms"
  let ?slot = "slot_of start_ms duration_ms"
  let ?at = "\<lambda>i. filter (\<lambda>(t, v). ?slot t = i) ?ps"
  let ?bs = "fill_buckets samples kind series start_ms duration_ms"
  let ?f = "\<lambda>i. if populated (?bs ! i) then bucket_points (?bs ! i) else []"
  have "0 < BUCKET_LIMIT" by (simp add: BUCKET_LIMIT_def)
  from fill_buckets_covers(1) [OF nan this] have points: "path_points samples kind series start_ms duration_ms = concat (map ?f [0..<BUCKET_LIMIT])"
    by (rule path_points_slots)
  have covers: "bucket_covers (?at i) (?bs ! i)" if "i < BUCKET_LIMIT" for i
    by (rule fill_buckets_covers(2) [OF nan that])
  have one: "v = w" if "(t, v) \<in> set (?at i)" "(t, w) \<in> set (?at i)" for t v w i
    using series_points_functional [OF assms(1)] that by auto
  have f: "set (?f i) \<subseteq> set (?at i)" "length (?f i) \<le> 2" "sorted (map fst (?f i))" if "i < BUCKET_LIMIT" for i
  proof -
    have ne: "?at i \<noteq> []" if "populated (?bs ! i)"
      using covers [OF \<open>i < BUCKET_LIMIT\<close>] that by (simp add: bucket_covers_def)
    have b: "set (bucket_points (?bs ! i)) \<subseteq> set (?at i)" "length (bucket_points (?bs ! i)) \<le> 2"
      "sorted (map fst (bucket_points (?bs ! i)))" if pop: "populated (?bs ! i)"
      by (rule bucket_points_covers(1-3) [OF covers [OF \<open>i < BUCKET_LIMIT\<close>] ne [OF pop]]; (rule one; assumption)?)+
    show "set (?f i) \<subseteq> set (?at i)" "length (?f i) \<le> 2" "sorted (map fst (?f i))"
      using b by (cases "populated (?bs ! i)"; simp only: if_True if_False; simp)+
  qed
  have "length (concat (map ?f [0..<n])) \<le> 2 * n" if "n \<le> BUCKET_LIMIT" for n
    by (rule length_concat_slots) (use f(2) that in \<open>meson less_le_trans\<close>)
  moreover have "sorted (map fst (concat (map ?f [0..<BUCKET_LIMIT])))"
  proof -
    have "x \<le> y" if "i < j" "j < BUCKET_LIMIT" "x \<in> set (map fst (?f i))" "y \<in> set (map fst (?f j))" for i j x y
    proof -
      have "?slot x = i" "?slot y = j" using f(1) [of i] f(1) [of j] that by force+
      then show ?thesis using slot_of_mono [of y x start_ms duration_ms] that(1) by (meson linorder_not_le nat_less_le order_less_imp_le)
    qed
    then show ?thesis
      unfolding map_concat map_map comp_def using f(3) by (intro sorted_concat_slots) auto
  qed
  moreover have "set (concat (map ?f [0..<BUCKET_LIMIT])) \<subseteq> set ?ps" using f(1) by fastforce
  moreover have "\<exists>p\<in>set (concat (map ?f [0..<BUCKET_LIMIT])). \<exists>q\<in>set (concat (map ?f [0..<BUCKET_LIMIT])).
      ?slot (fst p) = ?slot t \<and> ?slot (fst q) = ?slot t \<and> \<not> f64_less v (snd p) \<and> \<not> f64_less (snd q) v"
    if "(t, v) \<in> set ?ps" for t v
  proof -
    let ?i = "?slot t"
    have i: "?i < BUCKET_LIMIT" by (rule slot_of_bound)
    have at: "(t, v) \<in> set (?at ?i)" using that by simp
    have ne: "?at ?i \<noteq> []" using at by (metis empty_iff empty_set)
    then have pop: "populated (?bs ! ?i)" using covers [OF i] by (simp only: bucket_covers_def simp_thms)
    obtain p q where pq: "p \<in> set (?f ?i)" "q \<in> set (?f ?i)" "\<not> f64_less v (snd p)" "\<not> f64_less (snd q) v"
      using bucket_points_covers(4) [OF covers [OF i] ne _ at] one pop by (auto simp del: set_filter)
    then show ?thesis
      using f(1) [OF i] i by (intro bexI [of _ p] bexI [of _ q]) fastforce+
  qed
  ultimately show ?thesis
    unfolding graph_path_def points by blast
qed

text \<open>C18: downsampling a graph keeps every extreme. The path of a series is the text of at most 768
  points (two for each of the 384 columns), in the order of their times and with coordinates of at
  most 1000; every point is a sample of the window; and for every sample of the window the path has
  a point in the same column that is at least as high and one that is at least as low, so no peak
  is ever lost.\<close>
theorem downsampled_path_keeps_extremes:
  assumes "distinct (map gs_observed_at_ms samples)"
    and "\<forall>s\<in>set samples. sample_value s kind series \<noteq> Some NaN"
  shows "\<exists>ps. build_path samples kind series start_ms end_ms low high
       = path_text (point_text start_ms (max (saturating_sub end_ms start_ms) 1) low high) ps
     \<and> graph_path samples kind series start_ms (max (saturating_sub end_ms start_ms) 1) ps
     \<and> (\<forall>p\<in>set ps. path_x (fst p) start_ms (max (saturating_sub end_ms start_ms) 1) \<le> 1000
          \<and> path_y (snd p) low high \<le> 1000)"
proof -
  have "\<forall>(t, v)\<in>set (series_points samples kind series start_ms). v \<noteq> NaN"
    using assms(2) by (auto simp: series_points_def List.map_filter_def)
  then show ?thesis
    using path_points_graph_path [OF assms(1)] path_coordinates
    by (auto simp: build_path_text Let_def)
qed

text \<open>A step from 100 to 300 W.\<close>

definition power_sample :: "u64 \<Rightarrow> rat \<Rightarrow> graph_sample" where
  "power_sample time watts =
     \<lparr>gs_observed_at_ms = time, gs_total_power = Finite watts, gs_total_current = Finite 0,
      gs_average_voltage = Finite 12, gs_currents = replicate 6 (Finite 0), gs_voltages = replicate 6 (Finite 12),
      gs_temperatures = replicate 4 (Finite 40), gs_temperature_mask = 3\<rparr>"

theorem downsampled_path_keeps_extremes_witness:
  "\<exists>ps p. graph_path [power_sample 0 100, power_sample 1000 300] Power 0 0 1000 ps \<and> p \<in> set ps
     \<and> \<not> f64_less (snd p) (Finite 300)"
proof -
  let ?samples = "[power_sample 0 100, power_sample 1000 300]"
  have d: "max (saturating_sub 1000 0) 1 = (1000 :: u64)" by (simp add: saturating_sub_def max_def word_le_nat_alt)
  have "distinct (map gs_observed_at_ms ?samples)" "\<forall>s\<in>set ?samples. sample_value s Power 0 \<noteq> Some NaN"
    by (simp_all add: power_sample_def sample_value_def)
  from downsampled_path_keeps_extremes [OF this, of 0 1000] obtain ps where
    ps: "graph_path ?samples Power 0 0 1000 ps"
    unfolding d by blast
  have "(1000, Finite 300) \<in> set (series_points ?samples Power 0 0)"
    by (simp add: series_points_def power_sample_def sample_value_def List.map_filter_def)
  then obtain q where "q \<in> set ps" "\<not> f64_less (snd q) (Finite 300)"
    using ps unfolding graph_path_def by blast
  then show ?thesis using ps by blast
qed

end
