(* ===== verification/MemoryFlash.thy ===== *)
theory MemoryFlash
  imports Spi
begin

text \<open>
  \<open>MemoryFlashSerial\<close>, the in-memory flash device the repository keeps in \<open>src/backend.rs\<close> to
  exercise the theme transaction: a byte array, a pending command and a queue of status
  bytes, with the three failures it can inject. A failed \<open>assert\<close> or index is the error
  \<open>Panicked\<close>. It is shown to be a flash port, and the transaction on it, with no failure
  injected, to succeed for every slot and every asset of the right size.
\<close>

section \<open>The device\<close>

record memory_flash =
  mem_bytes :: "u8 list"
  fail_page_status_once :: bool
  corrupt_rollback_readback :: bool
  disconnect_during_rollback :: bool
  erase_commands :: nat
  page_commands :: nat
  pending_read :: "(u32 \<times> nat) option"
  pending_write :: "(u32 \<times> nat) option"
  statuses :: "u8 list"

definition decode_header :: "u8 list \<Rightarrow> u32 \<times> nat" where
  "decode_header frame = (read_u32 frame 1, unat (read_u32 frame 5))"

definition memory_clear_input :: "(memory_flash, unit) action" where
  "memory_clear_input s = (Inr (), s\<lparr>statuses := []\<rparr>)"

definition memory_write_all :: "u8 list \<Rightarrow> (memory_flash, unit) action" where
  "memory_write_all frame s =
    (case pending_write s of
       Some (address, len) \<Rightarrow>
         (let s = s\<lparr>pending_write := None\<rparr>; start = unat address in
          if length frame \<noteq> len then (Inl (Panicked ''assertion failed''), s)
          else if length (mem_bytes s) < start + len then (Inl (Panicked ''range out of bounds''), s)
          else (Inr (), s\<lparr>mem_bytes := write_at start frame (mem_bytes s),
                 page_commands := page_commands s + 1,
                 fail_page_status_once := False,
                 statuses := statuses s @ [if fail_page_status_once s then 0 else 1]\<rparr>))
     | None \<Rightarrow>
         if length frame \<noteq> 9 then (Inl (Panicked ''assertion failed''), s)
         else (case decode_header frame of (address, len) \<Rightarrow>
           (case usb_command_try_from (frame ! 0) of
              Inl _ \<Rightarrow> (Inl (Panicked ''unknown command''), s)
            | Inr command \<Rightarrow>
                if command = SpiFlashReadPage then (Inr (), s\<lparr>pending_read := Some (address, len)\<rparr>)
                else if command = SpiFlashWritePage then (Inr (), s\<lparr>pending_write := Some (address, len)\<rparr>)
                else if command = SpiFlashEraseSector then
                  (if disconnect_during_rollback s \<and> erase_commands s = 1 then (Inl ConnectionLost, s)
                   else if length (mem_bytes s) < unat address + len
                   then (Inl (Panicked ''range out of bounds''), s)
                   else (Inr (), s\<lparr>mem_bytes := write_at (unat address) (replicate len 0xff) (mem_bytes s),
                          erase_commands := erase_commands s + 1,
                          statuses := statuses s @ [1]\<rparr>))
                else (Inl (Panicked ''unexpected command''), s))))"

definition memory_flush :: "(memory_flash, unit) action" where
  "memory_flush s = (Inr (), s)"

definition memory_read_exact :: "nat \<Rightarrow> nat \<Rightarrow> memory_flash \<Rightarrow> read_outcome \<times> memory_flash" where
  "memory_read_exact len timeout s =
    (case pending_read s of
       Some (address, n) \<Rightarrow>
         (let s = s\<lparr>pending_read := None\<rparr>; start = unat address in
          if len \<noteq> n then (ReadFailed (Panicked ''assertion failed''), s)
          else if length (mem_bytes s) < start + n then (ReadFailed (Panicked ''range out of bounds''), s)
          else (let bytes = slice start (start + n) (mem_bytes s) in
            if corrupt_rollback_readback s \<and> 2 \<le> erase_commands s
            then (ReadDone (bytes[0 := bytes ! 0 XOR 1]), s\<lparr>corrupt_rollback_readback := False\<rparr>)
            else (ReadDone bytes, s)))
     | None \<Rightarrow>
         if len \<noteq> 1 then (ReadFailed (Panicked ''assertion failed''), s)
         else (case statuses s of
             [] \<Rightarrow> (ReadFailed (Panicked ''status response''), s)
           | status # rest \<Rightarrow> (ReadDone [status], s\<lparr>statuses := rest\<rparr>)))"

definition memory_serial :: "memory_flash serial_io" where
  "memory_serial =
     \<lparr>io_clear_input = memory_clear_input, io_write_all = memory_write_all, io_flush = memory_flush,
      io_read_exact = memory_read_exact, io_sleep = (\<lambda>_ s. s)\<rparr>"

datatype flash_failure =
    NoFailure
  | FirstPageStatus
  | RollbackReadbackMismatch
  | DisconnectDuringRollback

text \<open>\<open>MemoryFlashSerial::new\<close>, for an array of the given content.\<close>

definition memory_flash_new :: "u8 list \<Rightarrow> flash_failure \<Rightarrow> memory_flash" where
  "memory_flash_new bytes failure =
     \<lparr>mem_bytes = bytes,
      fail_page_status_once = (failure \<noteq> NoFailure),
      corrupt_rollback_readback = (failure = RollbackReadbackMismatch),
      disconnect_during_rollback = (failure = DisconnectDuringRollback),
      erase_commands = 0, page_commands = 0, pending_read = None, pending_write = None,
      statuses = []\<rparr>"

section \<open>It is a flash port\<close>

definition memory_byte :: "memory_flash \<Rightarrow> nat \<Rightarrow> u8" where
  "memory_byte s a = (if a < length (mem_bytes s) then mem_bytes s ! a else 0)"

definition memory_scope :: "memory_flash \<Rightarrow> nat set" where
  "memory_scope s = (case pending_write s of None \<Rightarrow> {} | Some (a, n) \<Rightarrow> span (unat a) n)"

text \<open>The array answers truthfully unless a corrupted readback was injected.\<close>

definition memory_good :: "memory_flash \<Rightarrow> bool" where
  "memory_good s \<longleftrightarrow> \<not> corrupt_rollback_readback s \<and> (\<forall>a n. pending_write s = Some (a, n) \<longrightarrow> n \<noteq> 9)"

definition request_of :: "(u32 \<times> nat) option \<Rightarrow> (nat \<times> nat) option" where
  "request_of r = map_option (\<lambda>(a, n). (unat a, n)) r"

text \<open>A page read is the next answer unless a page write still waits for its data.\<close>

definition memory_read_request :: "memory_flash \<Rightarrow> (nat \<times> nat) option" where
  "memory_read_request s = (if pending_write s = None then request_of (pending_read s) else None)"

lemma spi_command_bytes:
  "spi_command c a n = usb_command_byte c # u32_to_le a @ u32_to_le n"
  by (simp add: spi_command_def Let_def write_at_def u32_to_le_def numeral_eq_Suc)

lemma spi_command_header [simp]:
  "length (spi_command c a n) = 9" "spi_command c a n ! 0 = usb_command_byte c"
  "decode_header (spi_command c a n) = (a, unat n)"
  by (simp_all add: spi_command_bytes decode_header_def read_u32_def u32_to_le_def nth_Cons'
      u32_le_roundtrip)

text \<open>What the device does with a header.\<close>

lemma memory_write_header:
  "memory_write_all (spi_command c a n) s =
    (case pending_write s of
       Some (address, len) \<Rightarrow>
         (let s = s\<lparr>pending_write := None\<rparr>; start = unat address in
          if 9 \<noteq> len then (Inl (Panicked ''assertion failed''), s)
          else if length (mem_bytes s) < start + len then (Inl (Panicked ''range out of bounds''), s)
          else (Inr (), s\<lparr>mem_bytes := write_at start (spi_command c a n) (mem_bytes s),
                 page_commands := page_commands s + 1,
                 fail_page_status_once := False,
                 statuses := statuses s @ [if fail_page_status_once s then 0 else 1]\<rparr>))
     | None \<Rightarrow>
         if c = SpiFlashReadPage then (Inr (), s\<lparr>pending_read := Some (a, unat n)\<rparr>)
         else if c = SpiFlashWritePage then (Inr (), s\<lparr>pending_write := Some (a, unat n)\<rparr>)
         else if c = SpiFlashEraseSector then
           (if disconnect_during_rollback s \<and> erase_commands s = 1 then (Inl ConnectionLost, s)
            else if length (mem_bytes s) < unat a + unat n
            then (Inl (Panicked ''range out of bounds''), s)
            else (Inr (), s\<lparr>mem_bytes := write_at (unat a) (replicate (unat n) 0xff) (mem_bytes s),
                   erase_commands := erase_commands s + 1, statuses := statuses s @ [1]\<rparr>))
         else (Inl (Panicked ''unexpected command''), s))"
  unfolding memory_write_all_def
  by (simp add: Let_def del: usb_command_byte.simps split: option.split)

lemma memory_byte_write:
  "off + length src \<le> length (mem_bytes s) \<Longrightarrow>
   memory_byte (s\<lparr>mem_bytes := write_at off src (mem_bytes s)\<rparr>) a =
     (if off \<le> a \<and> a < off + length src then src ! (a - off) else memory_byte s a)"
  by (simp add: memory_byte_def nth_write_at)

lemma memory_window:
  "a + n \<le> length (mem_bytes s) \<Longrightarrow> mem_bytes s' = mem_bytes s \<Longrightarrow>
     slice a (a + n) (mem_bytes s) = window (memory_byte s') a n"
  by (rule nth_equalityI) (auto simp: nth_slice memory_byte_def)

lemma memory_byte_pending: "memory_byte (s\<lparr>pending_read := r\<rparr>) = memory_byte s"
  by (rule ext) (simp add: memory_byte_def)

lemmas memory_port_simps = memory_serial_def stays_def memory_good_def memory_scope_def
  memory_byte_def request_of_def memory_read_request_def

interpretation memory_port: flash_port memory_serial memory_byte memory_scope memory_good
  memory_read_request "\<lambda>s. request_of (pending_write s)"
proof
  fix p p' :: memory_flash and r
  assume "memory_good p" "io_clear_input memory_serial p = (r, p')"
  then show "stays memory_byte memory_scope memory_good (memory_scope p) p p'"
    by (auto simp: memory_port_simps memory_clear_input_def)
next
  fix p p' :: memory_flash and r a n
  assume "memory_good p" "io_write_all memory_serial (spi_command SpiFlashReadPage a n) p = (r, p')"
  then show "stays memory_byte memory_scope memory_good (memory_scope p) p p'
      \<and> (r = Inr () \<longrightarrow> memory_read_request p' = Some (unat a, unat n))"
    by (auto simp: memory_port_simps memory_write_header Let_def split: option.splits if_splits)
next
  fix p p' :: memory_flash and r a n
  assume "memory_good p" "io_write_all memory_serial (spi_command SpiFlashEraseSector a n) p = (r, p')"
  then show "stays memory_byte memory_scope memory_good (memory_scope p \<union> span (unat a) (unat n)) p p'"
    by (auto simp: memory_port_simps memory_write_header Let_def nth_write_at split: option.splits if_splits)
next
  fix p p' :: memory_flash and r a n
  assume "memory_good p" "unat n \<noteq> 9"
    "io_write_all memory_serial (spi_command SpiFlashWritePage a n) p = (r, p')"
  then show "stays memory_byte memory_scope memory_good (memory_scope p \<union> span (unat a) (unat n)) p p'
      \<and> (r = Inr () \<longrightarrow> request_of (pending_write p') = Some (unat a, unat n))"
    by (auto simp: memory_port_simps memory_write_header Let_def split: option.splits if_splits)
next
  fix p p' :: memory_flash and r x bytes
  assume "memory_good p" "request_of (pending_write p) = Some (x, length bytes)"
    "io_write_all memory_serial bytes p = (r, p')"
  then show "stays memory_byte memory_scope memory_good (memory_scope p \<union> span x (length bytes)) p p'"
    by (auto simp: memory_port_simps memory_write_all_def Let_def nth_write_at split: option.splits if_splits)
next
  fix p p' :: memory_flash and r
  assume "memory_good p" "io_flush memory_serial p = (r, p')"
  then show "stays memory_byte memory_scope memory_good (memory_scope p) p p'
      \<and> (r = Inr () \<longrightarrow> memory_read_request p' = memory_read_request p)"
    by (auto simp: memory_port_simps memory_flush_def)
next
  fix p p' :: memory_flash and len t out
  assume "memory_good p" "io_read_exact memory_serial len t p = (out, p')"
  then show "stays memory_byte memory_scope memory_good (memory_scope p) p p'"
    by (auto simp: memory_port_simps memory_read_exact_def Let_def split: option.splits if_splits list.splits)
next
  fix p p' :: memory_flash and len t bytes x
  assume "memory_good p" "io_read_exact memory_serial len t p = (ReadDone bytes, p')"
    "memory_read_request p = Some (x, len)"
  then show "memory_scope p' = {} \<and> fit len bytes = window (memory_byte p') x len"
    by (auto simp: memory_serial_def memory_good_def memory_scope_def request_of_def memory_read_exact_def
        memory_read_request_def Let_def memory_window memory_byte_pending split: option.splits if_splits)
next
  fix p :: memory_flash and d
  assume "memory_good p"
  then show "stays memory_byte memory_scope memory_good (memory_scope p) p (io_sleep memory_serial d p)"
    by (auto simp: memory_port_simps)
qed

section \<open>The transaction succeeds when nothing fails\<close>

definition healthy :: "memory_flash \<Rightarrow> bool" where
  "healthy s \<longleftrightarrow> pending_write s = None \<and> pending_read s = None \<and> \<not> fail_page_status_once s
     \<and> \<not> corrupt_rollback_readback s \<and> \<not> disconnect_during_rollback s"

text \<open>A healthy device with the given content.\<close>

definition holds :: "memory_flash \<Rightarrow> u8 list \<Rightarrow> bool" where
  "holds s content \<longleftrightarrow> healthy s \<and> mem_bytes s = content"

lemma memory_serial_simps [simp]:
  "io_clear_input memory_serial = memory_clear_input" "io_write_all memory_serial = memory_write_all"
  "io_flush memory_serial = memory_flush" "io_read_exact memory_serial = memory_read_exact"
  "io_sleep memory_serial = (\<lambda>_ s. s)"
  by (simp_all add: memory_serial_def)

lemma memory_read_page:
  assumes "holds s content" "unat a + n \<le> length content" "n < 2 ^ 32"
  shows "\<exists>s'. read_spi_page memory_serial a n never_cancelled s = (Inr (slice (unat a) (unat a + n) content), s')
    \<and> holds s' content"
proof -
  have n: "unat (word_of_nat n :: u32) = n" using assms(3) by (simp add: unat_of_nat)
  have att: "[1..<Suc SPI_READ_ATTEMPTS] = [1, 2, 3]" by (simp add: SPI_READ_ATTEMPTS_def upt_rec)
  show ?thesis
    using assms(1,2) unfolding read_spi_page_in_range [OF assms(3)] att
    by (auto simp: never_cancelled_def
        send_frame_def bindA_def memory_clear_input_def memory_write_header memory_flush_def
        memory_read_exact_def n holds_def healthy_def Let_def)
qed

lemma memory_read_loop:
  assumes "holds s content" "unat a + len \<le> length content" "length content < 2 ^ 32" "length buf = len"
  shows "\<exists>bytes s'. read_spi_loop memory_serial a len never_cancelled read buf s = (Inr bytes, s')
    \<and> holds s' content"
  using assms(1,4)
proof (induction "len - read" arbitrary: read buf s rule: less_induct)
  case less
  show ?case
  proof (cases "read < len")
    case False
    then show ?thesis using less.prems by (auto simp: read_spi_loop.simps)
  next
    case True
    define m where "m = min (len - read) FLASH_READ_PAGE_SIZE"
    have m: "0 < m" "read + m \<le> len" "m < 2 ^ 32"
      using True by (auto simp: m_def FLASH_READ_PAGE_SIZE_def)
    have "unat a + read < 2 ^ 32" using assms(2,3) True by linarith
    note off = checked_add_offset [OF this]
    have rd: "u32_try_from read = Some (word_of_nat read)"
      using assms(2,3) True by (simp add: u32_try_from_def)
    have "unat (a + word_of_nat read) + m \<le> length content" using off(2) m(2) assms(2) by simp
    from memory_read_page [OF less.prems(1) this m(3)] obtain s1 where
      p: "read_spi_page memory_serial (a + word_of_nat read) m never_cancelled s
        = (Inr (slice (unat a + read) (unat a + read + m) content), s1)" and s1: "holds s1 content"
      using off(2) by auto
    let ?buf = "write_at read (slice (unat a + read) (unat a + read + m) content) buf"
    have "length ?buf = len" using less.prems(2) m(2) assms(2) by simp
    have dec: "len - (read + m) < len - read" using m by linarith
    from less.hyps [OF dec s1 \<open>length ?buf = len\<close>] obtain bytes s' where
      "read_spi_loop memory_serial a len never_cancelled (read + m) ?buf s1 = (Inr bytes, s')" "holds s' content"
      by blast
    then have "read_spi_loop memory_serial a len never_cancelled read buf s = (Inr bytes, s') \<and> holds s' content"
      using rd off(1) p unfolding read_spi_loop_in_range [OF True less.prems(2)]
      by (simp add: m_def [symmetric] bindA_def)
    then show ?thesis by blast
  qed
qed

lemma memory_read_bytes:
  assumes "holds s content" "unat a + len \<le> length content" "length content < 2 ^ 32" "0 < len"
  shows "\<exists>s'. read_spi_bytes memory_serial a len never_cancelled s
    = (Inr (slice (unat a) (unat a + len) content), s') \<and> holds s' content"
proof -
  obtain bytes s' where r: "read_spi_bytes memory_serial a len never_cancelled s = (Inr bytes, s')"
    and h: "holds s' content"
    using memory_read_loop [OF assms(1-3), of "replicate len 0" 0]
    by (auto simp: read_spi_bytes_def never_cancelled_def [of s])
  have "memory_good s \<and> memory_scope s \<subseteq> {}"
    using assms(1) by (simp add: holds_def healthy_def memory_good_def memory_scope_def)
  from memory_port.read_bytes [OF this assms(4) _ r] assms(2,3)
  have "bytes = window (memory_byte s') (unat a) len" by auto
  then have "bytes = slice (unat a) (unat a + len) content"
    using memory_window [of "unat a" len s' s'] h assms(2) by (simp add: holds_def)
  then show ?thesis using r h by blast
qed

lemma memory_erase:
  assumes "holds s content" "unat a mod 4096 = 0" "unat n mod 4096 = 0" "0 < unat n"
    and "unat a + unat n \<le> length content" "length content \<le> 0x01000000"
  shows "\<exists>s'. erase_spi_sectors memory_serial a n s = (Inr (), s')
    \<and> holds s' (write_at (unat a) (replicate (unat n) 0xff) content)"
proof -
  have "unat a + unat n < 2 ^ 32" using assms(5,6) by simp
  then have add: "checked_add a n = Some (a + n)" "unat (a + n) = unat a + unat n"
    by (simp_all add: checked_add_def unat_word_ariths)
  have g: "n \<noteq> 0" "a mod SPI_SECTOR_SIZE = 0" "n mod SPI_SECTOR_SIZE = 0" "\<not> SPI_FLASH_SIZE < a + n"
    using assms(2-6) add(2)
    by (auto simp: SPI_SECTOR_SIZE_def SPI_FLASH_SIZE_def word_less_nat_alt unat_mod word_eq_iff_unsigned [where ?'a = nat])
  have "erase_spi_sectors memory_serial a n s =
      bindA (send_frame memory_serial (spi_command SpiFlashEraseSector a n)) (\<lambda>_.
        read_spi_status memory_serial (unat (n div SPI_SECTOR_SIZE) * 100 + 1000)
          (''SPI erase at '' @ show_address a)) s"
    unfolding erase_spi_sectors_def by (simp only: g add(1) option.case simp_thms if_True if_False)
  then show ?thesis
    using assms(1,5)
    by (auto simp: send_frame_def bindA_def memory_clear_input_def memory_write_header memory_flush_def
        read_spi_status_in_range read_within_def memory_read_exact_def holds_def healthy_def Let_def)
qed

lemma write_at_write_at:
  assumes "off + length xs + length ys \<le> length buf"
  shows "write_at (off + length xs) ys (write_at off xs buf) = write_at off (xs @ ys) buf"
proof (rule nth_equalityI)
  show "length (write_at (off + length xs) ys (write_at off xs buf)) = length (write_at off (xs @ ys) buf)"
    using assms by simp
  fix i assume "i < length (write_at (off + length xs) ys (write_at off xs buf))"
  then have "i < length buf" using assms by simp
  then show "write_at (off + length xs) ys (write_at off xs buf) ! i = write_at off (xs @ ys) buf ! i"
    using assms by (auto simp: nth_write_at nth_append)
qed

lemma write_at_same:
  assumes "off + length xs \<le> length buf" "length ys = length xs"
  shows "write_at off xs (write_at off ys buf) = write_at off xs buf"
  using assms by (intro nth_equalityI) (auto simp: nth_write_at)

lemma memory_write_data:
  "pending_write s = Some (a, length page) \<Longrightarrow> unat a + length page \<le> length (mem_bytes s) \<Longrightarrow>
   memory_write_all page s = (Inr (), s\<lparr>pending_write := None,
     mem_bytes := write_at (unat a) page (mem_bytes s), page_commands := page_commands s + 1,
     fail_page_status_once := False,
     statuses := statuses s @ [if fail_page_status_once s then 0 else 1]\<rparr>)"
  by (simp add: memory_write_all_def Let_def)

lemma memory_write_page:
  assumes "holds s content" "unat a mod 256 = 0" "length page = 256"
    and "unat a + 256 \<le> length content" "length content \<le> 0x01000000"
  shows "\<exists>s'. write_spi_page memory_serial a page s = (Inr (), s')
    \<and> holds s' (write_at (unat a) page content)"
proof -
  have "unat a + 256 < 2 ^ 32" using assms(4,5) by simp
  note add = checked_add_offset [OF this]
  have low: "unat (a AND 0xff) = 0"
  proof -
    have "a AND 0xff = take_bit 8 a" by (simp add: take_bit_eq_mask mask_numeral)
    then have "unat (a AND 0xff) = unat a mod 256"
      by (simp only: unsigned_take_bit_eq) (simp add: take_bit_eq_mod)
    then show ?thesis using assms(2) by simp
  qed
  have "unat (a + 256) = unat a + 256" using add(2) by simp
  then have fit: "\<not> SPI_FLASH_SIZE < a + word_of_nat 256"
    using assms(4,5) by (simp add: SPI_FLASH_SIZE_def word_less_nat_alt)
  have g: "page \<noteq> []" "\<not> SPI_WRITE_PAGE_SIZE < length page"
    "\<not> SPI_WRITE_PAGE_SIZE < unat (a AND 0xff) + length page"
    using assms(3) low by (auto simp: SPI_WRITE_PAGE_SIZE_def)
  have "write_spi_page memory_serial a page s =
      bindA (io_clear_input memory_serial) (\<lambda>_.
      bindA (io_write_all memory_serial (spi_command SpiFlashWritePage a (word_of_nat (length page)))) (\<lambda>_.
      bindA (io_write_all memory_serial page) (\<lambda>_.
      bindA (io_flush memory_serial) (\<lambda>_.
        read_spi_status memory_serial SPI_READ_TIMEOUT_MS (''SPI page write at '' @ show_address a))))) s"
    using g fit add(1) by (simp add: write_spi_page_in_range assms(3))
  moreover have "unat (word_of_nat 256 :: u32) = 256" by simp
  ultimately show ?thesis
    using assms(1,3,4)
    by (auto simp: bindA_def memory_clear_input_def memory_write_header memory_write_data memory_flush_def
        read_spi_status_in_range read_within_def memory_read_exact_def holds_def healthy_def Let_def)
qed

lemma memory_write_chunks:
  assumes "holds s content" "unat a mod 256 = 0" "length bytes mod 256 = 0"
    and "unat a + index * 256 + length bytes \<le> length content" "length content \<le> 0x01000000"
  shows "\<exists>s'. write_spi_chunks memory_serial a index (chunks 256 bytes) s = (Inr (), s')
    \<and> holds s' (write_at (unat a + index * 256) bytes content)"
  using assms(1,3,4,5)
proof (induction "length bytes" arbitrary: bytes index s content rule: less_induct)
  case less
  show ?case
  proof (cases "bytes = []")
    case True
    then show ?thesis using less.prems(1,3) by (simp add: chunks.simps [of 256 "[]"] write_at_def)
  next
    case False
    then have len: "256 \<le> length bytes" using less.prems(2) by (cases "length bytes < 256") auto
    have "unat a + index * 256 < 2 ^ 32" using less.prems(3,4) len by simp
    note off = checked_add_offset [OF this]
    have u: "u32_try_from (index * 256) = Some (word_of_nat (index * 256))"
      using less.prems(3,4) len by (simp add: u32_try_from_def)
    have al: "unat (a + word_of_nat (index * 256)) mod 256 = 0"
      unfolding off(2) using assms(2) by simp
    have lp: "length (take 256 bytes) = 256" using len by simp
    have ft: "unat (a + word_of_nat (index * 256)) + 256 \<le> length content"
      unfolding off(2) using less.prems(3) len by linarith
    obtain s1 where p: "write_spi_page memory_serial (a + word_of_nat (index * 256)) (take 256 bytes) s = (Inr (), s1)"
      and s1: "holds s1 (write_at (unat a + index * 256) (take 256 bytes) content)"
      using memory_write_page [OF less.prems(1) al lp ft less.prems(4)] unfolding off(2) by blast
    have l1: "length (write_at (unat a + index * 256) (take 256 bytes) content) = length content"
      using ft off(2) len by simp
    have dec: "length (drop 256 bytes) < length bytes" using len by simp
    have md: "length (drop 256 bytes) mod 256 = 0" using less.prems(2) len by (simp add: mod_if)
    have b: "unat a + (index + 1) * 256 + length (drop 256 bytes)
        \<le> length (write_at (unat a + index * 256) (take 256 bytes) content)"
      using less.prems(3) len l1 by simp
    obtain s2 where q: "write_spi_chunks memory_serial a (index + 1) (chunks 256 (drop 256 bytes)) s1 = (Inr (), s2)"
      and s2: "holds s2 (write_at (unat a + (index + 1) * 256) (drop 256 bytes)
        (write_at (unat a + index * 256) (take 256 bytes) content))"
      using less.hyps [OF dec s1 md b] l1 less.prems(4) by auto
    have "write_at (unat a + (index + 1) * 256) (drop 256 bytes)
        (write_at (unat a + index * 256) (take 256 bytes) content) = write_at (unat a + index * 256) bytes content"
      using write_at_write_at [of "unat a + index * 256" "take 256 bytes" "drop 256 bytes" content]
        less.prems(3) len by (simp add: algebra_simps)
    then show ?thesis
      using p q s2 len False off(1) u
      by (simp add: chunks.simps [of 256 bytes] SPI_WRITE_PAGE_SIZE_def bindA_def del: of_nat_mult of_nat_add)
  qed
qed

lemma memory_transaction:
  assumes "holds s content" "0x66000 \<le> length content" "length content \<le> 0x01000000"
    and "length bytes = slot_byte_len slot"
  shows "\<exists>s'. write_theme_asset_transaction memory_serial slot bytes s = (Inr (), s')
    \<and> holds s' (write_at (slot_start slot) bytes content)"
proof -
  let ?a = "sector_address slot" and ?b = "sector_base slot" and ?n = "sector_span slot"
  have g: "?b \<le> slot_start slot" "slot_end slot \<le> ?b + ?n" "?b + ?n \<le> length content" "0 < ?n" "?n mod 4096 = 0"
    using sector_geometry [of slot] assms(2) by auto
  have b0: "?b mod 4096 = 0" by (simp add: sector_base_def)
  have m256: "x mod 4096 = 0 \<Longrightarrow> x mod 256 = 0" for x :: nat
    using mod_mod_cancel [of 256 4096 x] by simp
  note b1 = m256 [OF b0] m256 [OF g(5)]
  obtain s1 where r: "read_spi_bytes memory_serial ?a ?n never_cancelled s = (Inr (slice ?b (?b + ?n) content), s1)"
    and s1: "holds s1 content"
    using memory_read_bytes [OF assms(1), of ?a ?n] g assms(3) by (auto simp: unat_sector_address)
  define req where "req = write_at (slot_start slot - ?b) bytes (slice ?b (?b + ?n) content)"
  have lreq: "length req = ?n"
    using g assms(4) by (simp add: req_def slot_end_def)
  have un: "unat (word_of_nat (length req) :: u32) = ?n" using g(3) assms(3) lreq by (simp add: unat_of_nat)
  obtain s2 where e: "erase_spi_sectors memory_serial ?a (word_of_nat (length req)) s1 = (Inr (), s2)"
    and s2: "holds s2 (write_at ?b (replicate ?n 0xff) content)"
    using memory_erase [OF s1, of ?a "word_of_nat (length req)"] un b0 g assms(3)
    by (auto simp: unat_sector_address)
  obtain s3 where w: "write_spi_pages memory_serial ?a req s2 = (Inr (), s3)"
    and s3: "holds s3 (write_at ?b req (write_at ?b (replicate ?n 0xff) content))"
    using memory_write_chunks [OF s2, of ?a req 0] b1 g assms(3) lreq
    by (auto simp: write_spi_pages_def SPI_WRITE_PAGE_SIZE_def unat_sector_address)
  have c3: "write_at ?b req (write_at ?b (replicate ?n 0xff) content) = write_at ?b req content"
    using g(3) lreq by (intro write_at_same) simp_all
  obtain s4 where v: "read_spi_bytes memory_serial ?a ?n never_cancelled s3 = (Inr req, s4)"
    and s4: "holds s4 (write_at ?b req content)"
    using memory_read_bytes [OF s3, of ?a ?n] g assms(3) lreq slice_write_at_same [of ?b req content]
    by (auto simp: unat_sector_address c3)
  have "theme_operation memory_serial ?a (word_of_nat ?n) ?n req s1 = (Inr (), s4)"
    using e w v lreq by (simp add: theme_operation_def bindA_def)
  moreover have "write_at ?b req content = write_at (slot_start slot) bytes content"
    unfolding req_def using g assms(4)
    by (intro nth_equalityI) (auto simp: nth_write_at nth_slice slot_end_def)
  ultimately show ?thesis
    using r s4 by (simp add: write_theme_asset_transaction_eq [OF assms(4)] req_def [symmetric] Let_def
        finish_theme_operation_def)
qed

section \<open>Properties\<close>

text \<open>C22: on the repository's in-memory flash, with no failure injected, writing an asset of the right
  size to any slot succeeds and changes exactly the bytes of that slot, although the slot's
  sectors are erased and rewritten as a whole and neighbouring slots share them.\<close>

theorem memory_theme_write_commits:
  assumes "healthy s" and "0x66000 \<le> length (mem_bytes s)" and "length (mem_bytes s) \<le> 0x01000000"
    and "length bytes = slot_byte_len slot"
  shows "\<exists>s'. write_theme_asset_transaction memory_serial slot bytes s = (Inr (), s')
    \<and> mem_bytes s' = write_at (slot_start slot) bytes (mem_bytes s)"
proof -
  have "holds s (mem_bytes s)" using assms(1) by (simp add: holds_def)
  from memory_transaction [OF this assms(2-4)] show ?thesis by (auto simp: holds_def)
qed

theorem memory_theme_write_commits_witness:
  "\<exists>s'. write_theme_asset_transaction memory_serial FanDark1 (replicate 10658 0x5a)
        (memory_flash_new (replicate 0x00800000 0) NoFailure) = (Inr (), s')
    \<and> mem_bytes s' = write_at 0x58D18 (replicate 10658 0x5a) (replicate 0x00800000 0)"
proof -
  have "healthy (memory_flash_new (replicate 0x00800000 0) NoFailure)"
    by (simp add: healthy_def memory_flash_new_def)
  from memory_theme_write_commits [OF this, of "replicate 10658 0x5a" FanDark1] show ?thesis
    by (simp add: memory_flash_new_def slot_byte_len_numeral slot_start_def)
qed

text \<open>C3: what the outcome of a theme write says about the flash, for any device that answers
  page reads truthfully and changes only the addresses of the commands it was sent, whatever
  fails in between: on success the slot holds exactly the new bytes and every other byte is
  untouched; on any error other than a lost connection or a failed rollback the flash is
  what it was before; and in no case does a byte outside the slot's own sectors change.\<close>

theorem theme_write_outcome:
  assumes "flash_port io flash scope good read_request write_request"
    and "good p" and "scope p = {}"
    and "write_theme_asset_transaction io slot bytes p = (r, p')"
  shows "(\<forall>x. x \<notin> span (sector_base slot) (sector_span slot) \<longrightarrow> flash p' x = flash p x)
    \<and> (case r of
         Inr _ \<Rightarrow> length bytes = slot_byte_len slot \<and> scope p' = {} \<and> (\<forall>x. flash p' x =
           (if slot_start slot \<le> x \<and> x < slot_end slot then bytes ! (x - slot_start slot) else flash p x))
       | Inl e \<Rightarrow> e = ConnectionLost \<or> (\<exists>m m'. e = RollbackFailed m m')
           \<or> (scope p' = {} \<and> flash p' = flash p))"
  using assms by (rule flash_port.transaction_outcome)

theorem theme_write_outcome_witness:
  "\<exists>s'. write_theme_asset_transaction memory_serial FanOrange1 (replicate 10658 7)
        (memory_flash_new (replicate 0x00800000 1) NoFailure) = (Inr (), s')
    \<and> (\<forall>x. memory_byte s' x = (if 0x56374 \<le> x \<and> x < 0x58D16 then replicate 10658 7 ! (x - 0x56374)
         else memory_byte (memory_flash_new (replicate 0x00800000 1) NoFailure) x))"
proof -
  let ?s = "memory_flash_new (replicate 0x00800000 1) NoFailure"
  have h: "holds ?s (replicate 0x00800000 1)" by (simp add: holds_def healthy_def memory_flash_new_def)
  obtain s' where run: "write_theme_asset_transaction memory_serial FanOrange1 (replicate 10658 7) ?s = (Inr (), s')"
    using memory_transaction [OF h, of "replicate 10658 7" FanOrange1] by (auto simp: slot_byte_len_numeral)
  have "memory_good ?s" "memory_scope ?s = {}"
    by (simp_all add: memory_good_def memory_scope_def memory_flash_new_def)
  from theme_write_outcome [OF memory_port.flash_port_axioms this run] run show ?thesis
    by (simp add: slot_start_def slot_end_def slot_byte_len_numeral)
qed

end
