(* ===== verification/GuiExport.thy ===== *)
theory GuiExport
  imports HistoryOutput Snapshot
begin

text \<open>
  The desktop client's exports (\<open>crates/wireview-gui/src/export.rs\<close>): history as CSV, JSON or raw bytes
  and theme backups, each through a temporary file of its own. The file system is that of
  \<open>Output\<close>; the JSON of an entry is third-party code and a parameter.
\<close>

datatype export_format = ExportCsv | ExportJson | ExportRaw

datatype export_error =
    UnsupportedFormat string
  | MissingFileName
  | ExportIo path cli_error

definition show_path :: "path \<Rightarrow> string" where
  "show_path p = (if absolute p then ''/'' else []) @ join_with ''/'' (components p)"

fun export_error_to_string :: "export_error \<Rightarrow> string" where
  "export_error_to_string (UnsupportedFormat format) = ''unsupported history format '' @ quoted format"
| "export_error_to_string MissingFileName = ''the destination path has no file name''"
| "export_error_to_string (ExportIo p source) = ''failed to write '' @ show_path p @ '': '' @ cli_error_to_string source"

definition export_format_parse :: "string \<Rightarrow> export_error + export_format" where
  "export_format_parse value =
    (if value = ''csv'' then Inr ExportCsv
     else if value = ''json'' then Inr ExportJson
     else if value = ''raw'' then Inr ExportRaw
     else Inl (UnsupportedFormat value))"

type_synonym 'a export_action = "disk \<Rightarrow> (export_error + 'a) \<times> disk"

text \<open>\<open>map_err(|source| ExportError::Io { path, source })\<close>.\<close>

definition io_at :: "path \<Rightarrow> 'a disk_action \<Rightarrow> 'a export_action" where
  "io_at p act d = (case act d of (Inl e, d1) \<Rightarrow> (Inl (ExportIo p e), d1) | (Inr x, d1) \<Rightarrow> (Inr x, d1))"

section \<open>Atomic output\<close>

fun export_temporaries :: "faults \<Rightarrow> nat \<Rightarrow> path \<Rightarrow> path \<Rightarrow> string \<Rightarrow> atomic_output export_action" where
  "export_temporaries flt 0 destination directory name d =
     (Inl (ExportIo destination (IoError AlreadyExists ''could not allocate a temporary output file'')), d)"
| "export_temporaries flt (Suc n) destination directory name d =
    (let i = next_temporary_id d;
         temporary = join_path directory (temporary_name flt name i)
     in case create_new flt temporary (d\<lparr>next_temporary_id := i + 1\<rparr>) of
          (Inr _, d1) \<Rightarrow> (Inr \<lparr>ao_destination = destination, ao_temporary = temporary\<rparr>, d1)
        | (Inl (IoError AlreadyExists message), d1) \<Rightarrow> export_temporaries flt n destination directory name d1
        | (Inl e, d1) \<Rightarrow> (Inl (ExportIo temporary e), d1))"

definition export_create :: "faults \<Rightarrow> path \<Rightarrow> atomic_output export_action" where
  "export_create flt destination d =
    (case file_name destination of
       None \<Rightarrow> (Inl MissingFileName, d)
     | Some name \<Rightarrow>
         let directory = (case parent destination of Some p \<Rightarrow> p | None \<Rightarrow> Path False [''.''])
         in export_temporaries flt 64 destination directory name d)"

definition export_commit :: "faults \<Rightarrow> atomic_output \<Rightarrow> unit export_action" where
  "export_commit flt out d =
    (case bindD (io_at (ao_temporary out) (flush_file flt)) (\<lambda>_.
          bindD (io_at (ao_temporary out) (flush_file flt)) (\<lambda>_.
            io_at (ao_destination out) (rename_file flt (ao_temporary out) (ao_destination out)))) d of
       (Inl e, d1) \<Rightarrow> (Inl e, drop_output flt out d1)
     | (Inr _, d1) \<Rightarrow> (Inr (), d1))"

text \<open>Create, write, commit; an error of the writing drops the output.\<close>

definition export_output ::
  "faults \<Rightarrow> path \<Rightarrow> ((string \<Rightarrow> unit export_action) \<Rightarrow> 'a export_action) \<Rightarrow> 'a export_action" where
  "export_output flt destination operation =
    bindD (export_create flt destination) (\<lambda>out d.
      case operation (\<lambda>bytes. io_at destination (write_file flt (ao_temporary out) bytes)) d of
        (Inl e, d1) \<Rightarrow> (Inl e, drop_output flt out d1)
      | (Inr x, d1) \<Rightarrow> bindD (export_commit flt out) (\<lambda>_ d2. (Inr x, d2)) d1)"

section \<open>Formats\<close>

definition export_csv_header :: string where
  "export_csv_header =
     ''device_time_ms,total_power_w,total_current_a,avg_voltage_v,input_temp_c,output_temp_c,cable_capability_w'' @ nl"

definition export_csv_entry :: "history_entry \<Rightarrow> string" where
  "export_csv_entry entry =
    (let mt = h_metrics entry; temps = h_temperatures mt in
     show_nat (unat (device_time_ms entry)) @ '','' @ show_fixed 3 (h_total_power_w mt) @ '',''
     @ show_fixed 3 (h_total_current_a mt) @ '','' @ show_fixed 3 (h_avg_voltage_v mt) @ '',''
     @ show_fixed 1 (input_c temps) @ '','' @ show_fixed 1 (output_c temps) @ '',''
     @ show_nat (unat (h_cable_capability_w mt)) @ nl)"

text \<open>The entries a visitor of \<open>visit_history\<close> counts; its error stops the walk. The first component
  of the state is the JSON writer's \<open>first\<close>; \<open>None\<close> is a panic of the record decoder.\<close>

definition visit_writing ::
  "u8 list \<Rightarrow> (bool \<Rightarrow> history_entry \<Rightarrow> unit export_action) \<Rightarrow> nat export_action" where
  "visit_writing bytes write_entry d =
    (case visit_history bytes (\<lambda>entry s. case s of (first, d) \<Rightarrow>
            case write_entry first entry d of (r, d1) \<Rightarrow> (r, (False, d1))) (True, d) of
       (Inl None, (_, d1)) \<Rightarrow> (Inl (ExportIo (Path False []) (CliPanicked ''internal error: entered unreachable code'')), d1)
     | (Inl (Some e), (_, d1)) \<Rightarrow> (Inl e, d1)
     | (Inr (count, found), (_, d1)) \<Rightarrow> (Inr count, d1))"

definition write_csv :: "u8 list \<Rightarrow> (string \<Rightarrow> unit export_action) \<Rightarrow> nat export_action" where
  "write_csv bytes put =
     bindD (put export_csv_header) (\<lambda>_. visit_writing bytes (\<lambda>first entry. put (export_csv_entry entry)))"

text \<open>\<open>std::io::Error::other\<close>: what the JSON writer reports keeps its text only.\<close>

fun other_io :: "export_error \<Rightarrow> export_error" where
  "other_io (ExportIo p (IoError kind message)) = ExportIo p (IoError OtherKind message)"
| "other_io e = e"

definition put_json :: "(string \<Rightarrow> unit export_action) \<Rightarrow> string \<Rightarrow> unit export_action" where
  "put_json put json_bytes d = (case put json_bytes d of (Inl e, d1) \<Rightarrow> (Inl (other_io e), d1) | (Inr _, d1) \<Rightarrow> (Inr (), d1))"

definition write_json :: "(history_entry \<Rightarrow> string) \<Rightarrow> u8 list \<Rightarrow> (string \<Rightarrow> unit export_action) \<Rightarrow> nat export_action" where
  "write_json json bytes put =
     bindD (put (''['' @ nl)) (\<lambda>_.
     bindD (visit_writing bytes (\<lambda>first entry.
              bindD (if first then (\<lambda>d. (Inr (), d)) else put ('','' @ nl)) (\<lambda>_. put_json put (json entry)))) (\<lambda>count.
     bindD (put (nl @ '']'' @ nl)) (\<lambda>_ d. (Inr count, d))))"

definition export_history ::
  "(history_entry \<Rightarrow> string) \<Rightarrow> faults \<Rightarrow> u8 list \<Rightarrow> export_format \<Rightarrow> path \<Rightarrow> nat export_action" where
  "export_history json flt bytes fmt destination =
     export_output flt destination (\<lambda>put. case fmt of
         ExportRaw \<Rightarrow> bindD (put (string_of_bytes bytes)) (\<lambda>_ d. (Inr 0, d))
       | ExportCsv \<Rightarrow> write_csv bytes put
       | ExportJson \<Rightarrow> write_json json bytes put)"

definition export_bytes :: "faults \<Rightarrow> u8 list \<Rightarrow> path \<Rightarrow> unit export_action" where
  "export_bytes flt bytes destination = export_output flt destination (\<lambda>put. put (string_of_bytes bytes))"

section \<open>Reading a file\<close>

definition not_found :: cli_error where
  "not_found = IoError OtherKind ''No such file or directory''"

definition inspect_file :: "faults \<Rightarrow> path \<Rightarrow> unit disk_action" where
  "inspect_file flt p = disk_op flt (\<lambda>d.
     case files d (resolve p) of None \<Rightarrow> (Inl not_found, d) | Some content \<Rightarrow> (Inr (), d))"

definition read_file :: "faults \<Rightarrow> path \<Rightarrow> u8 list disk_action" where
  "read_file flt p = disk_op flt (\<lambda>d.
     case files d (resolve p) of None \<Rightarrow> (Inl not_found, d) | Some content \<Rightarrow> (Inr (bytes_of_string content), d))"

end
