(* ===== verification/Worker.thy ===== *)
theory Worker
  imports HistoryClient Snapshot GuiExport
begin

text \<open>
  The desktop client's worker (\<open>crates/wireview-gui/src/client.rs\<close>): the thread between the window and
  the daemon. Its state is \<open>worker\<close>, its commands, its refresh and the history task are one
  definition each, and \<open>worker_step\<close> is its \<open>select!\<close> loop. The daemon, the network and the clock are
  the operations of \<open>gui\<close> over a state of their own; a call that takes longer than the timeout has
  no answer. What the window is told is the list of events.
\<close>

section \<open>Calls\<close>

datatype 'a reply = NoReply | BrokenTransport string | Answered "'a service_result"

definition rpc :: "'a reply \<Rightarrow> client_error + 'a" where
  "rpc r = (case r of
       NoReply \<Rightarrow> Inl CTimeout
     | BrokenTransport message \<Rightarrow> Inl (CTransport message)
     | Answered (Inl e) \<Rightarrow> Inl (CRemote e)
     | Answered (Inr x) \<Rightarrow> Inr x)"

text \<open>Connecting has no error of the service.\<close>

record 's gui =
  gui_sha256 :: "u8 list \<Rightarrow> u8 list"
  gui_contract :: string
  gui_json :: json_text
  gui_entry_json :: "history_entry \<Rightarrow> string"
  gui_faults :: faults
  gui_regular :: "path \<Rightarrow> bool"
  gui_now :: "'s \<Rightarrow> nat"
  gui_connect :: "'s \<Rightarrow> unit reply \<times> 's"
  gui_status :: "'s \<Rightarrow> status_dto reply \<times> 's"
  gui_telemetry :: "'s \<Rightarrow> telemetry_dto reply \<times> 's"
  gui_device_info :: "'s \<Rightarrow> device_info_dto reply \<times> 's"
  gui_configuration :: "'s \<Rightarrow> configuration_dto reply \<times> 's"
  gui_set_screen :: "string \<Rightarrow> 's \<Rightarrow> string reply \<times> 's"
  gui_clear_faults :: "u16 \<Rightarrow> u16 \<Rightarrow> bool \<Rightarrow> 's \<Rightarrow> telemetry_dto reply \<times> 's"
  gui_set_poll_interval :: "u64 \<Rightarrow> 's \<Rightarrow> u64 reply \<times> 's"
  gui_apply :: "configuration_dto \<Rightarrow> 's \<Rightarrow> configuration_dto reply \<times> 's"
  gui_store :: "configuration_dto \<Rightarrow> bool \<Rightarrow> 's \<Rightarrow> configuration_dto reply \<times> 's"
  gui_reload :: "'s \<Rightarrow> configuration_dto reply \<times> 's"
  gui_reset :: "bool \<Rightarrow> 's \<Rightarrow> configuration_dto reply \<times> 's"
  gui_reboot :: "bool \<Rightarrow> 's \<Rightarrow> bool reply \<times> 's"
  gui_read_theme :: "string \<Rightarrow> 's \<Rightarrow> theme_asset_dto reply \<times> 's"
  gui_write_theme :: "string \<Rightarrow> u32 \<Rightarrow> string \<Rightarrow> u8 list \<Rightarrow> bool \<Rightarrow> 's \<Rightarrow> theme_asset_write_dto reply \<times> 's"
  gui_begin :: "'s \<Rightarrow> history_dump_dto reply \<times> 's"
  gui_chunk :: "u64 \<Rightarrow> u32 \<Rightarrow> u32 \<Rightarrow> 's \<Rightarrow> history_chunk_dto reply \<times> 's"
  gui_end :: "u64 \<Rightarrow> 's \<Rightarrow> unit reply \<times> 's"

definition HISTORY_CHUNK_SIZE :: nat where "HISTORY_CHUNK_SIZE = 16 * 1024"
definition HISTORY_ROW_LIMIT :: nat where "HISTORY_ROW_LIMIT = 80"
definition MIN_REFRESH_INTERVAL :: nat where "MIN_REFRESH_INTERVAL = 500"

section \<open>Values\<close>

record history_row =
  hr_device_time_ms :: u32
  hr_total_power :: f64
  hr_total_current :: f64
  hr_average_voltage :: f64
  hr_input_temperature :: f64

record history_data =
  hist_bytes :: "u8 list"
  hist_entries :: nat
  hist_end_found :: bool
  hist_rows :: "history_row list"

datatype operation_state = OpRunning | OpSuccess | OpError

datatype ui_event =
    UiOffline string
  | UiSessionChanged
  | UiStatus status_dto
  | UiTelemetry telemetry_snapshot
  | UiDeviceInfo device_info_dto
  | UiConfiguration device_settings u64
  | UiScreenChanged string
  | UiOperation operation_state string
  | UiHistoryProgress f64 string bool
  | UiHistoryLoaded nat bool "history_row list"
  | UiThemeAsset theme_asset_slot u32 u32 string "u8 list"

record config_edits =
  ce_items :: "(string \<times> string) list"
  ce_poll_interval_ms :: u64

definition config_edits_new :: "(string \<times> string) list \<Rightarrow> u64 \<Rightarrow> client_error + config_edits" where
  "config_edits_new items poll_interval_ms =
    (if \<not> (100 \<le> poll_interval_ms \<and> poll_interval_ms \<le> 5000) then
       Inl (CInvalidInput ''poll interval must be between 100 and 5000 milliseconds'')
     else Inr \<lparr>ce_items = items, ce_poll_interval_ms = poll_interval_ms\<rparr>)"

datatype ui_command =
    UcRefresh
  | UcSetScreen string
  | UcClearFaults u16 u16
  | UcApplyConfig config_edits bool
  | UcReloadConfig
  | UcResetConfig
  | UcRebootDevice
  | UcLoadHistory
  | UcCancelHistory
  | UcExportHistory string path
  | UcReadTheme theme_asset_slot
  | UcExportTheme theme_asset_slot path
  | UcWriteTheme theme_asset_slot path
  | UcShutdown

section \<open>History data\<close>

definition history_row_of :: "history_entry \<Rightarrow> history_row" where
  "history_row_of entry =
    (let mt = h_metrics entry in
     \<lparr>hr_device_time_ms = device_time_ms entry, hr_total_power = h_total_power_w mt,
      hr_total_current = h_total_current_a mt, hr_average_voltage = h_avg_voltage_v mt,
      hr_input_temperature = input_c (h_temperatures mt)\<rparr>)"

text \<open>The visitor keeps the last rows; \<open>None\<close> is its \<open>expect\<close> failing.\<close>

definition push_row :: "history_row \<Rightarrow> history_row list \<Rightarrow> history_row list" where
  "push_row row rows = (if length rows = HISTORY_ROW_LIMIT then tl rows else rows) @ [row]"

definition history_data_parse :: "u8 list \<Rightarrow> history_data option" where
  "history_data_parse bytes =
    (case visit_history bytes (\<lambda>entry rows. (Inr () :: unit + unit, push_row (history_row_of entry) rows)) [] of
       (Inl e, rows) \<Rightarrow> None
     | (Inr (count, found), rows) \<Rightarrow>
         Some \<lparr>hist_bytes = bytes, hist_entries = count, hist_end_found = found, hist_rows = rows\<rparr>)"

section \<open>The worker's state\<close>

text \<open>
  A history task reads on a connection of its own. It waits for a chunk, or for the dump to end
  with the result it already has; \<open>Opening\<close> is everything before the first chunk.
\<close>

datatype task_phase =
    Opening
  | Waiting u64 nat "u8 list"
  | Closing u64 "client_error + history_data"

record history_task =
  ht_generation :: u64
  ht_cancel :: nat
  ht_phase :: task_phase

record 's worker =
  wk_env :: 's
  wk_disk :: disk
  wk_connected :: bool
  wk_next_connect :: nat
  wk_reconnect_delay :: nat
  wk_session_id :: "u64 option"
  wk_device_info_loaded :: bool
  wk_configuration :: "configuration_dto option"
  wk_poll_interval_ms :: u64
  wk_history :: "history_data option"
  wk_history_cancel :: "nat option"
  wk_cancelled :: "bool list"
  wk_generation :: u64
  wk_tasks :: "history_task list"
  wk_results :: "(u64 \<times> (client_error + history_data)) list"
  wk_themes :: "theme_asset_slot \<Rightarrow> u8 list option"
  wk_events :: "ui_event list"

definition worker_new :: "'s gui \<Rightarrow> 's \<Rightarrow> disk \<Rightarrow> 's worker" where
  "worker_new g s d =
     \<lparr>wk_env = s, wk_disk = d, wk_connected = False, wk_next_connect = gui_now g s, wk_reconnect_delay = 500,
      wk_session_id = None, wk_device_info_loaded = False, wk_configuration = None,
      wk_poll_interval_ms = 500, wk_history = None, wk_history_cancel = None, wk_cancelled = [],
      wk_generation = 0, wk_tasks = [], wk_results = [], wk_themes = (\<lambda>_. None), wk_events = []\<rparr>"

definition emit :: "ui_event \<Rightarrow> 's worker \<Rightarrow> 's worker" where
  "emit e w = w\<lparr>wk_events := wk_events w @ [e]\<rparr>"

definition operation_running :: "string \<Rightarrow> 's worker \<Rightarrow> 's worker" where
  "operation_running message = emit (UiOperation OpRunning message)"

definition operation_success :: "string \<Rightarrow> 's worker \<Rightarrow> 's worker" where
  "operation_success message = emit (UiOperation OpSuccess message)"

definition operation_error :: "string \<Rightarrow> 's worker \<Rightarrow> 's worker" where
  "operation_error message = emit (UiOperation OpError message)"

text \<open>A call on the worker's connection.\<close>

definition call :: "('s \<Rightarrow> 'a reply \<times> 's) \<Rightarrow> 's worker \<Rightarrow> (client_error + 'a) \<times> 's worker" where
  "call f w = (case f (wk_env w) of (r, s) \<Rightarrow> (rpc r, w\<lparr>wk_env := s\<rparr>))"

definition connection_mut :: "('s worker \<Rightarrow> (client_error + 'a) \<times> 's worker) \<Rightarrow> 's worker
    \<Rightarrow> (client_error + 'a) \<times> 's worker" where
  "connection_mut f w = (if wk_connected w then f w else (Inl CDisconnected, w))"

definition bindW :: "('s worker \<Rightarrow> (client_error + 'a) \<times> 's worker)
    \<Rightarrow> ('a \<Rightarrow> 's worker \<Rightarrow> (client_error + 'b) \<times> 's worker) \<Rightarrow> 's worker \<Rightarrow> (client_error + 'b) \<times> 's worker" where
  "bindW act f w = (case act w of (Inl e, w1) \<Rightarrow> (Inl e, w1) | (Inr x, w1) \<Rightarrow> f x w1)"

section \<open>Refreshing\<close>

definition invalidate_history_task :: "'s worker \<Rightarrow> 's worker" where
  "invalidate_history_task w =
    (let w1 = w\<lparr>wk_generation := wk_generation w + 1\<rparr> in
     case wk_history_cancel w of
       None \<Rightarrow> w1
     | Some token \<Rightarrow> w1\<lparr>wk_history_cancel := None, wk_cancelled := (wk_cancelled w)[token := True]\<rparr>)"

definition gui_connection_failed :: "'s gui \<Rightarrow> client_error \<Rightarrow> 's worker \<Rightarrow> 's worker" where
  "gui_connection_failed g error w =
    (let w1 = (invalidate_history_task w)\<lparr>wk_connected := False, wk_session_id := None,
           wk_next_connect := gui_now g (wk_env w) + wk_reconnect_delay w,
           wk_reconnect_delay := min (wk_reconnect_delay w * 2) 8000\<rparr>;
         w2 = (if wk_history_cancel w \<noteq> None
           then emit (UiHistoryProgress (Finite 0)
             ''History read stopped because the daemon connection was lost'' False) w1 else w1)
     in emit (UiOffline (client_error_to_string error)) w2)"

definition session_changed :: "u64 \<Rightarrow> 's worker \<Rightarrow> 's worker" where
  "session_changed sid w =
     emit UiSessionChanged (invalidate_history_task
       (w\<lparr>wk_session_id := Some sid, wk_device_info_loaded := False, wk_configuration := None,
          wk_history := None, wk_themes := (\<lambda>_. None)\<rparr>))"

definition load_device_info :: "'s gui \<Rightarrow> bool \<Rightarrow> 's worker \<Rightarrow> 's worker" where
  "load_device_info g force w =
    (if force \<or> \<not> wk_device_info_loaded w then
       (case call (gui_device_info g) w of
          (Inl e, w1) \<Rightarrow> w1
        | (Inr info, w1) \<Rightarrow> emit (UiDeviceInfo info) (w1\<lparr>wk_device_info_loaded := True\<rparr>))
     else w)"

definition load_configuration :: "'s gui \<Rightarrow> bool \<Rightarrow> 's worker \<Rightarrow> 's worker" where
  "load_configuration g force w =
    (if force \<or> wk_configuration w = None then
       (case call (gui_configuration g) w of
          (Inl e, w1) \<Rightarrow> w1
        | (Inr configuration, w1) \<Rightarrow>
            (case settings_from_json (gui_json g) (configuration_json configuration) of
               Inl e \<Rightarrow> operation_error (device_error_to_string e) w1
             | Inr settings \<Rightarrow> emit (UiConfiguration settings (wk_poll_interval_ms w1))
                 (w1\<lparr>wk_configuration := Some configuration\<rparr>)))
     else w)"

definition load_session_data :: "'s gui \<Rightarrow> bool \<Rightarrow> 's worker \<Rightarrow> 's worker" where
  "load_session_data g force w =
    (if wk_connected w then load_configuration g force (load_device_info g force w) else w)"

definition device_usable :: "status_dto \<Rightarrow> bool" where
  "device_usable status \<longleftrightarrow> st_state status = ''ready'' \<or> st_state status = ''busy''"

text \<open>The refreshed status and what follows from it.\<close>

definition refresh_status :: "'s gui \<Rightarrow> status_dto \<Rightarrow> 's worker \<Rightarrow> (client_error + unit) \<times> 's worker" where
  "refresh_status g status w =
    (let w1 = emit (UiStatus status) (w\<lparr>wk_poll_interval_ms := st_poll_interval_ms status\<rparr>);
         w2 = (if wk_session_id w1 \<noteq> Some (st_session_id status)
           then session_changed (st_session_id status) w1 else w1);
         w3 = (if device_usable status \<and> (\<not> wk_device_info_loaded w2 \<or> wk_configuration w2 = None)
           then load_session_data g False w2 else w2)
     in if device_usable status then
          (case connection_mut (call (gui_telemetry g)) w3 of
             (Inr telemetry, w4) \<Rightarrow> (case telemetry_snapshot_from telemetry of
                 Inl e \<Rightarrow> (Inl e, w4)
               | Inr snapshot \<Rightarrow> (Inr (), emit (UiTelemetry snapshot) w4))
           | (Inl (CRemote (WUnavailable message)), w4) \<Rightarrow> (Inr (), w4)
           | (Inl e, w4) \<Rightarrow> (Inl e, w4))
        else (Inr (), w3))"

definition refresh_connected :: "'s gui \<Rightarrow> 's worker \<Rightarrow> (client_error + unit) \<times> 's worker" where
  "refresh_connected g =
     bindW (connection_mut (call (gui_status g))) (\<lambda>status w.
       case validate_status (gui_sha256 g) (gui_contract g) status of
         Inl e \<Rightarrow> (Inl (CCompatibility e), w)
       | Inr _ \<Rightarrow> refresh_status g status w)"

definition refresh :: "'s gui \<Rightarrow> 's worker \<Rightarrow> 's worker" where
  "refresh g w =
    (let finish = (\<lambda>w1. case refresh_connected g w1 of
             (Inl e, w2) \<Rightarrow> gui_connection_failed g e w2
           | (Inr _, w2) \<Rightarrow> w2)
     in if wk_connected w then finish w
        else if gui_now g (wk_env w) < wk_next_connect w then w
        else (case call (gui_connect g) w of
                (Inl e, w1) \<Rightarrow> gui_connection_failed g e w1
              | (Inr _, w1) \<Rightarrow> finish (w1\<lparr>wk_connected := True, wk_reconnect_delay := 500\<rparr>)))"

definition effective_refresh_interval :: "u64 \<Rightarrow> bool \<Rightarrow> nat" where
  "effective_refresh_interval poll_interval_ms is_connected =
    (if is_connected then max 500 (min 5000 (unat poll_interval_ms)) else MIN_REFRESH_INTERVAL)"

section \<open>Operations\<close>

definition edited_configuration ::
  "'s gui \<Rightarrow> configuration_dto \<Rightarrow> config_edits \<Rightarrow> client_error + configuration_dto \<times> bool" where
  "edited_configuration g current edits =
    (case settings_from_json (gui_json g) (configuration_json current) of
       Inl e \<Rightarrow> Inl (CDevice e)
     | Inr original \<Rightarrow> (case with_items (gui_json g) original (ce_items edits) of
         Inl e \<Rightarrow> Inl (CDevice e)
       | Inr edited \<Rightarrow> Inr
           (\<lparr>configuration_json = json_print (gui_json g) (settings_to_json edited), revision = revision current\<rparr>,
            edited \<noteq> original)))"

definition publish_configuration ::
  "'s gui \<Rightarrow> configuration_dto \<Rightarrow> 's worker \<Rightarrow> (client_error + unit) \<times> 's worker" where
  "publish_configuration g configuration w =
    (case settings_from_json (gui_json g) (configuration_json configuration) of
       Inl e \<Rightarrow> (Inl (CDevice e), w)
     | Inr settings \<Rightarrow> (Inr (), emit (UiConfiguration settings (wk_poll_interval_ms w))
         (w\<lparr>wk_configuration := Some configuration\<rparr>)))"

text \<open>Setting the polling interval first, when it changes.\<close>

definition change_poll_interval :: "'s gui \<Rightarrow> u64 \<Rightarrow> 's worker \<Rightarrow> (client_error + unit) \<times> 's worker" where
  "change_poll_interval g wanted w =
    (if wanted = wk_poll_interval_ms w then (Inr (), w)
     else bindW (connection_mut (call (gui_set_poll_interval g wanted))) (\<lambda>applied w1.
       if applied \<noteq> wanted then
         (Inl (CProtocol (''wireviewd applied a '' @ show_nat (unat applied) @ '' ms poll interval after ''
            @ show_nat (unat wanted) @ '' ms was requested'')), w1)
       else (Inr (), w1\<lparr>wk_poll_interval_ms := applied\<rparr>)) w)"

text \<open>What follows a refused configuration: the old interval again, when it was changed.\<close>

definition restore_poll_interval ::
  "'s gui \<Rightarrow> bool \<Rightarrow> u64 \<Rightarrow> client_error \<Rightarrow> 's worker \<Rightarrow> (client_error + 'a) \<times> 's worker" where
  "restore_poll_interval g poll_changed previous error w =
    (if poll_changed \<and> \<not> disconnects_client error then
       (case connection_mut (call (gui_set_poll_interval g previous)) w of
          (Inr applied, w1) \<Rightarrow>
            if applied = previous then (Inl error, w1\<lparr>wk_poll_interval_ms := previous\<rparr>)
            else (Inl (CProtocol (''configuration failed ('' @ client_error_to_string error
              @ ''); poll rollback requested '' @ show_nat (unat previous)
              @ '' ms but wireviewd applied '' @ show_nat (unat applied) @ '' ms'')), w1)
        | (Inl failure, w1) \<Rightarrow> (Inl (CProtocol (''configuration failed ('' @ client_error_to_string error
              @ ''); poll rollback failed ('' @ client_error_to_string failure @ '')'')), w1))
     else (Inl error, w))"

text \<open>Applying or storing the candidate, when it differs from the current settings.\<close>

definition change_settings ::
  "'s gui \<Rightarrow> bool \<Rightarrow> bool \<Rightarrow> bool \<Rightarrow> u64 \<Rightarrow> configuration_dto \<Rightarrow> configuration_dto
     \<Rightarrow> 's worker \<Rightarrow> (client_error + configuration_dto) \<times> 's worker" where
  "change_settings g persist settings_changed poll_changed previous current candidate w =
    (if settings_changed then
       (case connection_mut (call (if persist then gui_store g candidate True else gui_apply g candidate)) w of
          (Inr configuration, w1) \<Rightarrow> (Inr configuration, w1)
        | (Inl error, w1) \<Rightarrow> restore_poll_interval g poll_changed previous error w1)
     else (Inr current, w))"

definition gui_apply_configuration ::
  "'s gui \<Rightarrow> config_edits \<Rightarrow> bool \<Rightarrow> 's worker \<Rightarrow> (client_error + bool \<times> bool) \<times> 's worker" where
  "gui_apply_configuration g edits persist w =
    (case wk_configuration w of
       None \<Rightarrow> (Inl (CInvalidInput ''configuration is not loaded''), w)
     | Some current \<Rightarrow> (case edited_configuration g current edits of
         Inl e \<Rightarrow> (Inl e, w)
       | Inr (candidate, settings_changed) \<Rightarrow>
           let poll_changed = (ce_poll_interval_ms edits \<noteq> wk_poll_interval_ms w);
               previous = wk_poll_interval_ms w
           in bindW (change_poll_interval g (ce_poll_interval_ms edits)) (\<lambda>_.
              bindW (change_settings g persist settings_changed poll_changed previous current candidate) (\<lambda>updated.
              bindW (publish_configuration g updated) (\<lambda>_. Pair (Inr (settings_changed, poll_changed))))) w))"

fun change_message :: "bool \<times> bool \<Rightarrow> bool \<Rightarrow> string" where
  "change_message (True, True) True = ''Device configuration stored; daemon polling updated for this run''"
| "change_message (True, False) True = ''Configuration stored permanently''"
| "change_message (False, True) True = ''Daemon polling updated for this run; no device settings changed''"
| "change_message (True, True) False = ''Configuration and daemon polling applied until reload''"
| "change_message (True, False) False = ''Configuration applied until reload''"
| "change_message (False, True) False = ''Daemon polling updated for this run''"
| "change_message (False, False) persist = ''No effective configuration changes''"

definition gui_reload_configuration :: "'s gui \<Rightarrow> 's worker \<Rightarrow> (client_error + unit) \<times> 's worker" where
  "gui_reload_configuration g = bindW (connection_mut (call (gui_reload g))) (publish_configuration g)"

definition gui_reset_configuration :: "'s gui \<Rightarrow> 's worker \<Rightarrow> (client_error + unit) \<times> 's worker" where
  "gui_reset_configuration g = bindW (connection_mut (call (gui_reset g True))) (publish_configuration g)"

definition gui_reboot_device :: "'s gui \<Rightarrow> 's worker \<Rightarrow> (client_error + unit) \<times> 's worker" where
  "gui_reboot_device g = bindW (connection_mut (call (gui_reboot g True))) (\<lambda>accepted w.
     if accepted then (Inr (), w)
     else (Inl (CProtocol ''wireviewd did not accept the reboot request''), w))"

section \<open>Theme assets\<close>

definition validate_theme_asset :: "'s gui \<Rightarrow> theme_asset_slot \<Rightarrow> theme_asset_dto \<Rightarrow> client_error + unit" where
  "validate_theme_asset g slot asset =
    (if ta_slot asset \<noteq> slot_name slot \<or> ta_width asset \<noteq> slot_width slot \<or> ta_height asset \<noteq> slot_height slot
        \<or> unat (ta_byte_length asset) \<noteq> length (ta_data asset) \<or> length (ta_data asset) \<noteq> slot_byte_len slot then
       Inl (CProtocol (''wireviewd returned inconsistent metadata for '' @ slot_name slot))
     else if sha256_hex (gui_sha256 g) (ta_data asset) \<noteq> ta_sha256 asset then
       Inl (CProtocol (''wireviewd returned a bad SHA-256 digest for '' @ slot_name slot))
     else Inr ())"

definition show_theme ::
  "theme_asset_slot \<Rightarrow> u32 \<Rightarrow> u32 \<Rightarrow> string \<Rightarrow> u8 list \<Rightarrow> 's worker \<Rightarrow> (client_error + unit) \<times> 's worker" where
  "show_theme slot width height sha256 data w =
     (Inr (), emit (UiThemeAsset slot width height sha256 data) (w\<lparr>wk_themes := (wk_themes w)(slot \<mapsto> data)\<rparr>))"

definition read_theme :: "'s gui \<Rightarrow> theme_asset_slot \<Rightarrow> 's worker \<Rightarrow> (client_error + unit) \<times> 's worker" where
  "read_theme g slot = bindW (connection_mut (call (gui_read_theme g (slot_name slot)))) (\<lambda>asset.
     bindW (Pair (validate_theme_asset g slot asset)) (\<lambda>_.
       show_theme slot (ta_width asset) (ta_height asset) (ta_sha256 asset) (ta_data asset)))"

text \<open>An operation on the file system.\<close>

definition on_disk :: "(disk \<Rightarrow> ('e + 'a) \<times> disk) \<Rightarrow> ('e \<Rightarrow> client_error) \<Rightarrow> 's worker
    \<Rightarrow> (client_error + 'a) \<times> 's worker" where
  "on_disk act wrap w = (case act (wk_disk w) of
       (Inl e, d) \<Rightarrow> (Inl (wrap e), w\<lparr>wk_disk := d\<rparr>)
     | (Inr x, d) \<Rightarrow> (Inr x, w\<lparr>wk_disk := d\<rparr>))"

definition export_failed :: "export_error \<Rightarrow> client_error" where
  "export_failed e = CExport (export_error_to_string e)"

definition gui_export_history ::
  "'s gui \<Rightarrow> string \<Rightarrow> path \<Rightarrow> 's worker \<Rightarrow> (client_error + nat) \<times> 's worker" where
  "gui_export_history g format p w =
    (case wk_history w of
       None \<Rightarrow> (Inl (CInvalidInput ''load device history first''), w)
     | Some history \<Rightarrow> (case export_format_parse format of
         Inl e \<Rightarrow> (Inl (export_failed e), w)
       | Inr fmt \<Rightarrow> on_disk (export_history (gui_entry_json g) (gui_faults g) (hist_bytes history) fmt p) export_failed w))"

definition export_theme ::
  "'s gui \<Rightarrow> theme_asset_slot \<Rightarrow> path \<Rightarrow> 's worker \<Rightarrow> (client_error + unit) \<times> 's worker" where
  "export_theme g slot p w =
    (case wk_themes w slot of
       None \<Rightarrow> (Inl (CInvalidInput (''read '' @ slot_name slot @ '' before exporting its backup'')), w)
     | Some bytes \<Rightarrow> on_disk (export_bytes (gui_faults g) bytes p) export_failed w)"

text \<open>Reading the input of a theme upload: a regular file of exactly the slot's size.\<close>

definition theme_input ::
  "'s gui \<Rightarrow> theme_asset_slot \<Rightarrow> path \<Rightarrow> 's worker \<Rightarrow> (client_error + u8 list) \<times> 's worker" where
  "theme_input g slot p =
     bindW (on_disk (inspect_file (gui_faults g) p) (\<lambda>e. CInvalidInput (''failed to inspect '' @ show_path p
         @ '': '' @ cli_error_to_string e))) (\<lambda>_ w.
       if \<not> gui_regular g p then (Inl (CInvalidInput ''theme input must be a regular file''), w)
       else bindW (on_disk (read_file (gui_faults g) p) (\<lambda>e. CInvalidInput (''failed to read '' @ show_path p
           @ '': '' @ cli_error_to_string e))) (\<lambda>data w.
         if length data \<noteq> slot_byte_len slot then
           (Inl (CInvalidInput (slot_name slot @ '' must be exactly '' @ show_nat (slot_byte_len slot) @ '' bytes'')), w)
         else (Inr data, w)) w)"

definition write_theme ::
  "'s gui \<Rightarrow> theme_asset_slot \<Rightarrow> path \<Rightarrow> 's worker \<Rightarrow> (client_error + unit) \<times> 's worker" where
  "write_theme g slot p = bindW (theme_input g slot p) (\<lambda>data w.
     case u32_try_from (length data) of
       None \<Rightarrow> (Inl (CPanicked ''theme slot length fits u32''), w)
     | Some byte_length \<Rightarrow>
         let digest = sha256_hex (gui_sha256 g) data in
         bindW (connection_mut (call (gui_write_theme g (slot_name slot) byte_length digest data True))) (\<lambda>result w1.
           if tw_slot result \<noteq> slot_name slot \<or> tw_byte_length result \<noteq> byte_length \<or> tw_sha256 result \<noteq> digest then
             (Inl (CProtocol ''wireviewd returned inconsistent theme write metadata''), w1)
           else show_theme slot (slot_width slot) (slot_height slot) digest data w1) w)"

section \<open>The history task\<close>

definition start_history :: "'s worker \<Rightarrow> 's worker" where
  "start_history w =
    (if wk_history_cancel w \<noteq> None then operation_error ''A history read is already active'' w
     else
       let token = length (wk_cancelled w); generation = wk_generation w + 1 in
       w\<lparr>wk_history_cancel := Some token, wk_cancelled := wk_cancelled w @ [False],
         wk_generation := generation,
         wk_tasks := wk_tasks w @ [\<lparr>ht_generation = generation, ht_cancel = token, ht_phase = Opening\<rparr>]\<rparr>)"

definition finish_history :: "client_error + history_data \<Rightarrow> 's worker \<Rightarrow> 's worker" where
  "finish_history r w =
    (let w1 = w\<lparr>wk_history_cancel := None\<rparr> in
     case r of
       Inr history \<Rightarrow> operation_success ''Device history loaded''
         ((emit (UiHistoryLoaded (hist_entries history) (hist_end_found history) (hist_rows history)) w1)
            \<lparr>wk_history := Some history\<rparr>)
     | Inl CCancelled \<Rightarrow> emit (UiHistoryProgress (Finite 0) ''History read cancelled'' False) w1
     | Inl error \<Rightarrow> operation_error (client_error_to_string error)
         (emit (UiHistoryProgress (Finite 0) (client_error_to_string error) False) w1))"

text \<open>The head of the download loop: done, cancelled, or the next request.\<close>

definition next_phase :: "bool \<Rightarrow> u64 \<Rightarrow> nat \<Rightarrow> u8 list \<Rightarrow> task_phase" where
  "next_phase is_cancelled dump expected bytes =
    (if length bytes < expected then
       (if is_cancelled then Closing dump (Inl CCancelled) else Waiting dump expected bytes)
     else Closing dump (case history_data_parse bytes of
         None \<Rightarrow> Inl (CPanicked ''an infallible history visitor cannot fail'')
       | Some history \<Rightarrow> Inr history))"

text \<open>Up to the first chunk request; a lease that does not fit is ended at once.\<close>

definition refuse_lease :: "'s gui \<Rightarrow> u64 \<Rightarrow> string \<Rightarrow> 's worker \<Rightarrow> (client_error + 'a) \<times> 's worker" where
  "refuse_lease g dump message w = (case call (gui_end g dump) w of (_, w1) \<Rightarrow> (Inl (CProtocol message), w1))"

definition open_lease :: "'s gui \<Rightarrow> nat \<Rightarrow> status_dto \<Rightarrow> 's worker \<Rightarrow> (client_error + task_phase) \<times> 's worker" where
  "open_lease g token status =
     bindW (call (gui_begin g)) (\<lambda>dump.
       if unat (hd_total_bytes dump) \<noteq> FLASH_LENGTH then
         refuse_lease g (hd_dump_id dump) (''wireviewd reported '' @ show_nat (unat (hd_total_bytes dump))
            @ '' history bytes, expected '' @ show_nat FLASH_LENGTH)
       else if hd_session_id dump \<noteq> st_session_id status then
         refuse_lease g (hd_dump_id dump) (''history lease belongs to session '' @ show_nat (unat (hd_session_id dump))
            @ '', expected '' @ show_nat (unat (st_session_id status)))
       else (\<lambda>w. (Inr (next_phase (wk_cancelled w ! token) (hd_dump_id dump) FLASH_LENGTH []), w)))"

definition task_open :: "'s gui \<Rightarrow> nat \<Rightarrow> 's worker \<Rightarrow> (client_error + task_phase) \<times> 's worker" where
  "task_open g token w =
     bindW (call (gui_connect g)) (\<lambda>_. bindW (call (gui_status g)) (\<lambda>status.
       case validate_status (gui_sha256 g) (gui_contract g) status of
         Inl e \<Rightarrow> Pair (Inl (CCompatibility e))
       | Inr _ \<Rightarrow> open_lease g token status))
     (emit (UiHistoryProgress (Finite 0) ''Opening a device history lease'' True) w)"

definition invalid_chunk :: client_error where
  "invalid_chunk = CProtocol ''wireviewd returned an invalid history chunk''"

definition chunk_progress :: "u8 list \<Rightarrow> nat \<Rightarrow> ui_event" where
  "chunk_progress bytes expected =
     UiHistoryProgress (f64_of_rat (of_nat (length bytes) / of_nat expected))
       (''Read '' @ show_nat (length bytes div 1024) @ '' of '' @ show_nat (expected div 1024) @ '' KiB'') True"

text \<open>One chunk: its reply, and the head of the loop again.\<close>

definition task_chunk ::
  "'s gui \<Rightarrow> nat \<Rightarrow> u64 \<Rightarrow> nat \<Rightarrow> u8 list \<Rightarrow> 's worker \<Rightarrow> task_phase \<times> 's worker" where
  "task_chunk g token dump expected bytes w =
    (let len = min (expected - length bytes) HISTORY_CHUNK_SIZE in
     case (u32_try_from (length bytes), u32_try_from len) of
       (Some off, Some req) \<Rightarrow>
         (case call (gui_chunk g dump off req) w of
            (Inl e, w1) \<Rightarrow> (Closing dump (Inl e), w1)
          | (Inr chunk, w1) \<Rightarrow>
              if hc_offset chunk \<noteq> off \<or> unat (hc_total_bytes chunk) \<noteq> expected
                 \<or> hc_data chunk = [] \<or> len < length (hc_data chunk) then (Closing dump (Inl invalid_chunk), w1)
              else
                let bytes1 = bytes @ hc_data chunk; w2 = emit (chunk_progress bytes1 expected) w1
                in (next_phase (wk_cancelled w2 ! token) dump expected bytes1, w2))
     | _ \<Rightarrow> (Closing dump (Inl (CPanicked ''history offset fits u32'')), w))"

text \<open>The dump is ended whatever the download's result, and a result needs both.\<close>

definition task_close ::
  "'s gui \<Rightarrow> u64 \<Rightarrow> client_error + history_data \<Rightarrow> 's worker \<Rightarrow> (client_error + history_data) \<times> 's worker" where
  "task_close g dump download w =
    (case call (gui_end g dump) w of (cleanup, w1) \<Rightarrow>
      (case (download, cleanup) of
         (Inl e, _) \<Rightarrow> (Inl e, w1)
       | (Inr _, Inl e) \<Rightarrow> (Inl e, w1)
       | (Inr history, Inr _) \<Rightarrow> (Inr history, w1)))"

text \<open>A task from one await to the next.\<close>

definition set_task :: "nat \<Rightarrow> task_phase \<Rightarrow> 's worker \<Rightarrow> 's worker" where
  "set_task i phase w = w\<lparr>wk_tasks := (wk_tasks w)[i := (wk_tasks w ! i)\<lparr>ht_phase := phase\<rparr>]\<rparr>"

definition end_task :: "nat \<Rightarrow> client_error + history_data \<Rightarrow> 's worker \<Rightarrow> 's worker" where
  "end_task i r w =
     w\<lparr>wk_tasks := take i (wk_tasks w) @ drop (Suc i) (wk_tasks w),
       wk_results := wk_results w @ [(ht_generation (wk_tasks w ! i), r)]\<rparr>"

definition task_step :: "'s gui \<Rightarrow> nat \<Rightarrow> 's worker \<Rightarrow> 's worker" where
  "task_step g i w =
    (let task = wk_tasks w ! i in
     case ht_phase task of
       Opening \<Rightarrow> (case task_open g (ht_cancel task) w of
           (Inl e, w1) \<Rightarrow> end_task i (Inl e) w1
         | (Inr phase, w1) \<Rightarrow> set_task i phase w1)
     | Waiting dump expected bytes \<Rightarrow>
         (case task_chunk g (ht_cancel task) dump expected bytes w of (phase, w1) \<Rightarrow> set_task i phase w1)
     | Closing dump r \<Rightarrow> (case task_close g dump r w of (r1, w1) \<Rightarrow> end_task i r1 w1))"

section \<open>Commands\<close>

definition finish_operation :: "'s gui \<Rightarrow> client_error + string \<Rightarrow> 's worker \<Rightarrow> 's worker" where
  "finish_operation g r w =
    (case r of
       Inr message \<Rightarrow> operation_success message w
     | Inl error \<Rightarrow> if disconnects_client error then gui_connection_failed g error w
         else operation_error (client_error_to_string error) w)"

text \<open>Announce, run, and report with the message of a success.\<close>

definition operate ::
  "'s gui \<Rightarrow> string \<Rightarrow> ('s worker \<Rightarrow> (client_error + 'a) \<times> 's worker) \<Rightarrow> ('a \<Rightarrow> string) \<Rightarrow> 's worker \<Rightarrow> 's worker" where
  "operate g announcement act message w =
    (case act (operation_running announcement w) of
       (Inl e, w1) \<Rightarrow> finish_operation g (Inl e) w1
     | (Inr x, w1) \<Rightarrow> finish_operation g (Inr (message x)) w1)"

definition gui_set_screen_command :: "'s gui \<Rightarrow> string \<Rightarrow> 's worker \<Rightarrow> (client_error + string) \<times> 's worker" where
  "gui_set_screen_command g screen = bindW (connection_mut (call (gui_set_screen g screen))) (\<lambda>active w.
     let shown = to_ascii_lowercase active in (Inr shown, emit (UiScreenChanged shown) w))"

definition gui_clear_faults_command :: "'s gui \<Rightarrow> u16 \<Rightarrow> u16 \<Rightarrow> 's worker \<Rightarrow> (client_error + unit) \<times> 's worker" where
  "gui_clear_faults_command g active_mask logged_mask =
     bindW (connection_mut (call (gui_clear_faults g active_mask logged_mask True))) (\<lambda>telemetry w.
       case telemetry_snapshot_from telemetry of
         Inl e \<Rightarrow> (Inl e, w) | Inr snapshot \<Rightarrow> (Inr (), emit (UiTelemetry snapshot) w))"

definition cancel_history_command :: "'s worker \<Rightarrow> 's worker" where
  "cancel_history_command w =
    (case wk_history_cancel w of
       None \<Rightarrow> w
     | Some token \<Rightarrow> emit (UiHistoryProgress (Finite 0) ''Cancelling history read'' True)
         (w\<lparr>wk_cancelled := (wk_cancelled w)[token := True]\<rparr>))"

fun gui_command :: "'s gui \<Rightarrow> ui_command \<Rightarrow> 's worker \<Rightarrow> 's worker" where
  "gui_command g UcRefresh w =
     (let w1 = refresh g (w\<lparr>wk_next_connect := gui_now g (wk_env w)\<rparr>)
      in if wk_connected w1 then load_session_data g True w1 else w1)"
| "gui_command g (UcSetScreen screen) w =
     operate g ''Changing the device screen'' (gui_set_screen_command g screen)
       (\<lambda>active. ''Showing '' @ active @ '' on the device'') w"
| "gui_command g (UcClearFaults active_mask logged_mask) w =
     operate g ''Clearing the selected device fault'' (gui_clear_faults_command g active_mask logged_mask)
       (\<lambda>_. ''Fault register refreshed'') w"
| "gui_command g (UcApplyConfig edits persist) w =
     operate g (if persist then ''Storing configuration'' else ''Applying active configuration'')
       (gui_apply_configuration g edits persist) (\<lambda>change. change_message change persist) w"
| "gui_command g UcReloadConfig w =
     operate g ''Reloading stored configuration'' (gui_reload_configuration g) (\<lambda>_. ''Stored configuration reloaded'') w"
| "gui_command g UcResetConfig w =
     operate g ''Resetting stored configuration'' (gui_reset_configuration g) (\<lambda>_. ''Factory configuration restored'') w"
| "gui_command g UcRebootDevice w =
     operate g ''Rebooting the device'' (gui_reboot_device g) (\<lambda>_. ''Device reboot accepted'') w"
| "gui_command g UcLoadHistory w = start_history w"
| "gui_command g UcCancelHistory w = cancel_history_command w"
| "gui_command g (UcExportHistory format p) w =
     operate g ''Exporting device history'' (gui_export_history g format p)
       (\<lambda>count. if format = ''raw'' then ''Exact history bytes written to '' @ show_path p
                else show_nat count @ '' history entries written to '' @ show_path p) w"
| "gui_command g (UcReadTheme slot) w =
     operate g ''Reading the selected theme slot'' (read_theme g slot) (\<lambda>_. ''Read '' @ slot_name slot) w"
| "gui_command g (UcExportTheme slot p) w =
     operate g ''Exporting the theme backup'' (export_theme g slot p) (\<lambda>_. ''Theme backup written to '' @ show_path p) w"
| "gui_command g (UcWriteTheme slot p) w =
     operate g ''Replacing and verifying the selected theme slot'' (write_theme g slot p)
       (\<lambda>_. ''Replaced and verified '' @ slot_name slot) w"
| "gui_command g UcShutdown w = w"

section \<open>The loop\<close>

definition receive_result :: "'s worker \<Rightarrow> 's worker" where
  "receive_result w =
    (case wk_results w of
       [] \<Rightarrow> w
     | (generation, r) # later \<Rightarrow>
         let w1 = w\<lparr>wk_results := later\<rparr>
         in if generation = wk_generation w then finish_history r w1 else w1)"

text \<open>
  What happens next: a command, a result of a history task, the timer, a task's turn, or the
  world going on. Shutting down ends the loop.
\<close>

inductive worker_step :: "'s gui \<Rightarrow> ('s \<Rightarrow> 's \<Rightarrow> bool) \<Rightarrow> 's worker \<Rightarrow> 's worker \<Rightarrow> bool"
  for g moves_on where
  command: "c \<noteq> UcShutdown \<Longrightarrow> worker_step g moves_on w (gui_command g c w)"
| received: "wk_results w \<noteq> [] \<Longrightarrow> worker_step g moves_on w (receive_result w)"
| tick: "worker_step g moves_on w (refresh g w)"
| task: "i < length (wk_tasks w) \<Longrightarrow> worker_step g moves_on w (task_step g i w)"
| world: "moves_on (wk_env w) s \<Longrightarrow> worker_step g moves_on w (w\<lparr>wk_env := s\<rparr>)"

text \<open>Runs of \<open>n\<close> steps.\<close>

inductive worker_run :: "'s gui \<Rightarrow> ('s \<Rightarrow> 's \<Rightarrow> bool) \<Rightarrow> nat \<Rightarrow> 's worker \<Rightarrow> 's worker \<Rightarrow> bool"
  for g moves_on where
  start: "worker_run g moves_on 0 w w"
| step: "worker_run g moves_on n w u \<Longrightarrow> worker_step g moves_on u v \<Longrightarrow> worker_run g moves_on (Suc n) w v"

inductive_cases worker_stepE: "worker_step g moves_on w v"

text \<open>A shutdown asks a running task to stop before it waits for it.\<close>

definition shut_down :: "'s worker \<Rightarrow> 's worker" where
  "shut_down w =
    (case wk_history_cancel w of
       None \<Rightarrow> w
     | Some token \<Rightarrow> w\<lparr>wk_cancelled := (wk_cancelled w)[token := True]\<rparr>)"

end
