(* ===== verification/WorkerFrame.thy ===== *)
theory WorkerFrame
  imports Worker
begin

text \<open>
  Operations of the worker that only use the daemon and the worker's own data: any relation that
  tolerates a call, a quiet event, a published configuration and a published image relates the
  states around every one of them. Interpreted later for what those operations leave alone, for what
  they keep of the daemon, and for what the window shows.
\<close>

section \<open>Calls\<close>

text \<open>Where a call can lead.\<close>

inductive env_moves :: "'s gui \<Rightarrow> 's \<Rightarrow> 's \<Rightarrow> bool" for g where
  "env_moves g s (snd (gui_connect g s))"
| "env_moves g s (snd (gui_status g s))"
| "env_moves g s (snd (gui_telemetry g s))"
| "env_moves g s (snd (gui_device_info g s))"
| "env_moves g s (snd (gui_configuration g s))"
| "env_moves g s (snd (gui_set_screen g screen s))"
| "env_moves g s (snd (gui_clear_faults g active logged confirm s))"
| "env_moves g s (snd (gui_set_poll_interval g interval s))"
| "env_moves g s (snd (gui_apply g c s))"
| "env_moves g s (snd (gui_store g c confirm s))"
| "env_moves g s (snd (gui_reload g s))"
| "env_moves g s (snd (gui_reset g confirm s))"
| "env_moves g s (snd (gui_reboot g confirm s))"
| "env_moves g s (snd (gui_read_theme g slot s))"
| "env_moves g s (snd (gui_write_theme g slot len sha data confirm s))"
| "env_moves g s (snd (gui_begin g s))"
| "env_moves g s (snd (gui_chunk g dump off len s))"
| "env_moves g s (snd (gui_end g dump s))"

definition daemon_call :: "'s gui \<Rightarrow> ('s \<Rightarrow> 'a reply \<times> 's) \<Rightarrow> bool" where
  "daemon_call g f \<longleftrightarrow> (\<forall>s. env_moves g s (snd (f s)))"

named_theorems frame_intros

lemma daemon_calls [frame_intros]:
  "daemon_call g (gui_connect g)" "daemon_call g (gui_status g)" "daemon_call g (gui_telemetry g)"
  "daemon_call g (gui_device_info g)" "daemon_call g (gui_configuration g)" "daemon_call g (gui_set_screen g screen)"
  "daemon_call g (gui_clear_faults g active logged confirm)" "daemon_call g (gui_set_poll_interval g interval)"
  "daemon_call g (gui_apply g c)" "daemon_call g (gui_store g c confirm)" "daemon_call g (gui_reload g)"
  "daemon_call g (gui_reset g confirm)" "daemon_call g (gui_reboot g confirm)" "daemon_call g (gui_read_theme g slot)"
  "daemon_call g (gui_write_theme g slot n sha data confirm)" "daemon_call g (gui_begin g)"
  "daemon_call g (gui_chunk g dump off n)" "daemon_call g (gui_end g dump)"
  by (simp_all add: daemon_call_def env_moves.intros)

lemma daemon_call_if [frame_intros]: "daemon_call g a \<Longrightarrow> daemon_call g b \<Longrightarrow> daemon_call g (if c then a else b)"
  by simp

definition framed :: "('s worker \<Rightarrow> 's worker \<Rightarrow> bool) \<Rightarrow> ('s worker \<Rightarrow> 'r \<times> 's worker) \<Rightarrow> bool" where
  "framed R act \<longleftrightarrow> (\<forall>w. R w (snd (act w)))"

lemma framedD: "framed R act \<Longrightarrow> act w = (r, v) \<Longrightarrow> R w v"
  by (metis framed_def snd_conv)

lemma framed_const: "(\<And>w. R w (snd (act w))) \<Longrightarrow> framed R act"
  by (simp add: framed_def)

text \<open>Events that tell the window nothing it keeps of the session.\<close>

fun quiet_event :: "ui_event \<Rightarrow> bool" where
  "quiet_event (UiTelemetry t) = True"
| "quiet_event (UiDeviceInfo info) = True"
| "quiet_event (UiScreenChanged screen) = True"
| "quiet_event (UiOperation operation message) = True"
| "quiet_event (UiHistoryProgress fraction message active) = True"
| "quiet_event _ = False"

section \<open>The frame\<close>

locale worker_frame =
  fixes g :: "'s gui" and R :: "'s worker \<Rightarrow> 's worker \<Rightarrow> bool"
  assumes R_refl: "R w w"
    and R_trans: "R w v \<Longrightarrow> R v u \<Longrightarrow> R w u"
    and R_env: "env_moves g (wk_env w) s \<Longrightarrow> R w (w\<lparr>wk_env := s\<rparr>)"
    and R_quiet: "quiet_event e \<Longrightarrow> R w (emit e w)"
    and R_local: "R w (w\<lparr>wk_poll_interval_ms := p\<rparr>)" "R w (w\<lparr>wk_disk := d\<rparr>)" "R w (w\<lparr>wk_device_info_loaded := b\<rparr>)"
    and R_configuration: "settings_from_json (gui_json g) (configuration_json c) = Inr settings \<Longrightarrow>
      R w (emit (UiConfiguration settings (wk_poll_interval_ms w)) (w\<lparr>wk_configuration := Some c\<rparr>))"
    and R_theme: "sha256_hex (gui_sha256 g) data = sha \<Longrightarrow>
      R w (emit (UiThemeAsset slot width height sha data) (w\<lparr>wk_themes := (wk_themes w)(slot \<mapsto> data)\<rparr>))"
begin

lemma R_emit_after: "quiet_event e \<Longrightarrow> R w v \<Longrightarrow> R w (emit e v)"
  using R_trans R_quiet by blast

lemma framed_call [frame_intros]: "daemon_call g f \<Longrightarrow> framed R (call f)"
  using R_env by (auto simp: framed_def call_def daemon_call_def split: prod.split) (metis snd_conv)

lemma framed_basic [frame_intros]: "framed R (Pair r)" "framed R (on_disk a wrap)"
  by (auto simp: framed_def R_refl on_disk_def R_local split: prod.split sum.split)

lemma framed_show: "sha256_hex (gui_sha256 g) data = sha \<Longrightarrow> framed R (show_theme slot width height sha data)"
  by (simp add: framed_def show_theme_def R_theme)

lemma framed_publish [frame_intros]: "framed R (publish_configuration g c)"
  using R_configuration by (simp add: framed_def publish_configuration_def R_refl split: sum.split)

lemma framed_checked: "(\<And>x. r = Inr x \<Longrightarrow> framed R (f x)) \<Longrightarrow> framed R (bindW (Pair r) f)"
  by (cases r) (simp_all add: framed_def bindW_def R_refl)

lemma keeps_bindW [frame_intros]:
  assumes "framed R act" and "\<And>x. framed R (f x)"
  shows "framed R (bindW act f)"
  unfolding framed_def
proof
  fix w
  obtain r v where r: "act w = (r, v)" by fastforce
  have "R w v" using framedD [OF assms(1) r] .
  then show "R w (snd (bindW act f w))"
    using assms(2) R_trans [of w v] by (cases r) (simp_all add: bindW_def r framed_def)
qed

lemma framed_connection [frame_intros]: "framed R f \<Longrightarrow> framed R (connection_mut f)"
  by (simp add: framed_def connection_mut_def R_refl)

lemma framed_if [frame_intros]:
  "framed R a \<Longrightarrow> framed R b \<Longrightarrow> framed R (\<lambda>w. if c then a w else b w)"
  "framed R (\<lambda>w. (r, w))"
  by (simp_all add: framed_def R_refl)

lemma framed_option [frame_intros]:
  "framed R a \<Longrightarrow> (\<And>x. framed R (f x)) \<Longrightarrow> framed R (\<lambda>w. case m of None \<Rightarrow> a w | Some x \<Rightarrow> f x w)"
  by (cases m) (simp_all add: framed_def)

lemma call_frame: "daemon_call g f \<Longrightarrow> call f w = (r, v) \<Longrightarrow> R w v"
  using framedD [OF framed_call] .

lemma framed_look: "framed R (\<lambda>w. (f w, w))"
  by (simp add: framed_def R_refl)

lemma framed_poll [frame_intros]: "framed R (change_poll_interval g wanted)"
proof (rule framed_const)
  fix w :: "'s worker"
  have "framed R (bindW (connection_mut (call (gui_set_poll_interval g wanted))) (\<lambda>applied w1.
       if applied \<noteq> wanted then
         (Inl (CProtocol (''wireviewd applied a '' @ show_nat (unat applied) @ '' ms poll interval after ''
            @ show_nat (unat wanted) @ '' ms was requested'')), w1)
       else (Inr (), w1\<lparr>wk_poll_interval_ms := applied\<rparr>)))"
    by (intro frame_intros framed_const) (simp add: R_refl R_local)
  then show "R w (snd (change_poll_interval g wanted w))"
    by (simp add: change_poll_interval_def framed_def R_refl)
qed

lemma framed_restore [frame_intros]: "framed R (restore_poll_interval g changed previous e)"
proof (rule framed_const)
  fix w :: "'s worker"
  obtain r v where r: "connection_mut (call (gui_set_poll_interval g previous)) w = (r, v)" by fastforce
  have "framed R (connection_mut (call (gui_set_poll_interval g previous)))" by (intro frame_intros)
  from framedD [OF this r] show "R w (snd (restore_poll_interval g changed previous e w))"
    by (auto simp: restore_poll_interval_def r R_refl split: sum.split intro: R_trans R_local)
qed

lemma framed_change [frame_intros]:
  "framed R (change_settings g persist changed poll_changed previous current candidate)"
proof (rule framed_const)
  fix w :: "'s worker"
  let ?put = "connection_mut (call (if persist then gui_store g candidate True else gui_apply g candidate))"
  obtain r v where r: "?put w = (r, v)" by fastforce
  have "framed R ?put" by (intro frame_intros)
  from framedD [OF this r] have "R w v" .
  moreover have "R v (snd (restore_poll_interval g poll_changed previous e v))" for e :: client_error
    by (rule framed_restore [unfolded framed_def, rule_format])
  ultimately show "R w (snd (change_settings g persist changed poll_changed previous current candidate w))"
    by (cases r) (auto simp: change_settings_def r R_refl intro: R_trans)
qed

lemma framed_apply [frame_intros]: "framed R (gui_apply_configuration g edits persist)"
proof (rule framed_const)
  fix w :: "'s worker"
  have "framed R (bindW (change_poll_interval g wanted) (\<lambda>_.
      bindW (change_settings g persist changed poll_changed previous current candidate) (\<lambda>updated.
      bindW (publish_configuration g updated) (\<lambda>_. Pair (Inr (changed, poll_changed))))))"
    for wanted changed poll_changed previous current candidate
    by (intro frame_intros)
  then show "R w (snd (gui_apply_configuration g edits persist w))"
    by (simp add: gui_apply_configuration_def Let_def framed_def R_refl split: option.split sum.split prod.split)
qed

lemma framed_settings [frame_intros]:
  "framed R (gui_reload_configuration g)" "framed R (gui_reset_configuration g)" "framed R (gui_reboot_device g)"
  unfolding gui_reload_configuration_def gui_reset_configuration_def gui_reboot_device_def
  by (intro frame_intros)+

lemma framed_files [frame_intros]:
  "framed R (gui_export_history g format p)" "framed R (export_theme g slot p)"
  by (rule framed_const; simp add: gui_export_history_def export_theme_def R_refl
      framed_basic(2) [unfolded framed_def, rule_format] split: option.split sum.split)+

lemma framed_themes [frame_intros]: "framed R (read_theme g slot)" "framed R (write_theme g slot p)"
proof -
  have "sha256_hex (gui_sha256 g) (ta_data asset) = ta_sha256 asset" if "validate_theme_asset g slot asset = Inr x" for asset x
    using that by (auto simp: validate_theme_asset_def split: if_splits)
  then show "framed R (read_theme g slot)"
    unfolding read_theme_def by (intro keeps_bindW framed_checked framed_show frame_intros) auto
  have "framed R (theme_input g slot p)"
    unfolding theme_input_def by (intro frame_intros)
  then show "framed R (write_theme g slot p)"
    unfolding write_theme_def Let_def by (intro framed_show frame_intros refl)
qed

lemma framed_device [frame_intros]:
  "framed R (gui_set_screen_command g screen)" "framed R (gui_clear_faults_command g active logged)"
  unfolding gui_set_screen_command_def gui_clear_faults_command_def
  by (intro frame_intros framed_const; simp add: R_quiet R_refl Let_def split: sum.split)+

lemmas operations = framed_apply framed_settings framed_files framed_themes framed_device

lemma load_info_frame: "R w (load_device_info g force w)"
proof -
  obtain r v where c: "call (gui_device_info g) w = (r, v)" by fastforce
  have "R w v" by (rule call_frame [OF _ c]) (intro frame_intros)
  then show ?thesis
    by (cases r) (auto simp: load_device_info_def c R_refl intro!: R_emit_after intro: R_trans R_local)
qed

lemma load_configuration_frame: "R w (load_configuration g force w)"
proof -
  obtain r v where c: "call (gui_configuration g) w = (r, v)" by fastforce
  have "R w v" by (rule call_frame [OF _ c]) (intro frame_intros)
  moreover have "R w (emit (UiConfiguration settings (wk_poll_interval_ms v)) (v\<lparr>wk_configuration := Some x\<rparr>))"
    if "settings_from_json (gui_json g) (configuration_json x) = Inr settings" for x settings
    using R_trans [OF \<open>R w v\<close> R_configuration [OF that]] .
  ultimately show ?thesis
    by (cases r) (simp_all add: load_configuration_def c R_refl operation_error_def R_emit_after split: sum.split)
qed

lemma load_frame: "R w (load_session_data g force w)"
  using R_trans [OF load_info_frame load_configuration_frame] R_refl by (simp add: load_session_data_def)

section \<open>History tasks\<close>

lemma framed_refuse: "framed R (refuse_lease g dump message)"
proof (rule framed_const)
  fix w :: "'s worker"
  obtain r v where c: "call (gui_end g dump) w = (r, v)" by fastforce
  have "R w v" by (rule call_frame [OF _ c]) (intro frame_intros)
  then show "R w (snd (refuse_lease g dump message w))" by (simp add: refuse_lease_def c)
qed

lemma keeps_open_lease: "framed R (open_lease g token status)"
  unfolding open_lease_def
  by (intro keeps_bindW frame_intros) (auto intro: framed_refuse framed_look)

lemma task_open_frame: "R w (snd (task_open g token w))"
proof -
  have opened: "R w (emit (UiHistoryProgress (Finite 0) ''Opening a device history lease'' True) w)"
    by (simp add: R_quiet)
  have "framed R (bindW (call (gui_connect g)) (\<lambda>_. bindW (call (gui_status g)) (\<lambda>status.
       case validate_status (gui_sha256 g) (gui_contract g) status of
         Inl e \<Rightarrow> Pair (Inl (CCompatibility e))
       | Inr _ \<Rightarrow> open_lease g token status)))"
    by (intro keeps_bindW frame_intros) (auto intro: keeps_open_lease framed_basic split: sum.split)
  then show ?thesis
    unfolding task_open_def framed_def by (intro R_trans [OF opened]) blast
qed

lemma task_chunk_frame: "R w (snd (task_chunk g token dump expected bytes w))"
proof -
  have "R w v" if "call (gui_chunk g dump off len) w = (r, v)" for off len r v
    by (rule call_frame [OF _ that]) (intro frame_intros)
  then show ?thesis
    by (auto simp: task_chunk_def Let_def R_refl chunk_progress_def
      split: option.split prod.split sum.split intro: R_emit_after)
qed

lemma task_close_frame: "R w (snd (task_close g dump r w))"
proof -
  obtain q v where q: "call (gui_end g dump) w = (q, v)" by fastforce
  have "R w v" by (rule call_frame [OF _ q]) (intro frame_intros)
  then show ?thesis by (cases q) (auto simp: task_close_def q split: sum.split)
qed

end

end
