(* ===== verification/WorkerProps.thy ===== *)
theory WorkerProps
  imports WorkerFrame
begin

text \<open>
  What holds of the worker in every run, whatever the daemon answers: one history read at a time, its
  result taken exactly when the user still waits for it, stale reads asked to stop; a session only
  with a connection; a bounded delay between connection attempts. Every history task ends.
\<close>

section \<open>What operations leave alone\<close>

text \<open>The history bookkeeping and the link.\<close>

definition same_reads :: "'s worker \<Rightarrow> 's worker \<Rightarrow> bool" where
  "same_reads w v \<longleftrightarrow> wk_history_cancel v = wk_history_cancel w \<and> wk_cancelled v = wk_cancelled w
     \<and> wk_generation v = wk_generation w \<and> wk_tasks v = wk_tasks w \<and> wk_results v = wk_results w
     \<and> wk_connected v = wk_connected w \<and> wk_session_id v = wk_session_id w
     \<and> wk_reconnect_delay v = wk_reconnect_delay w"

lemma same_reads_refl [simp]: "same_reads w w"
  by (simp add: same_reads_def)

lemma same_reads_trans: "same_reads w v \<Longrightarrow> same_reads v u \<Longrightarrow> same_reads w u"
  by (simp add: same_reads_def)

lemma same_reads_any_event: "same_reads w (emit e w)"
  by (simp add: same_reads_def emit_def)

interpretation reads: worker_frame g same_reads for g
  by unfold_locales (auto simp: same_reads_def emit_def)

section \<open>The invariant\<close>

text \<open>The generations of the reads that run or whose result is on its way.\<close>

definition live :: "'s worker \<Rightarrow> u64 list" where
  "live w = map ht_generation (wk_tasks w) @ map fst (wk_results w)"

definition reads_ok :: "'s worker \<Rightarrow> bool" where
  "reads_ok w \<longleftrightarrow> distinct (live w) \<and> (\<forall>x\<in>set (live w). unat x \<le> unat (wk_generation w))
     \<and> (\<forall>t\<in>set (wk_tasks w). ht_cancel t < length (wk_cancelled w)
          \<and> (wk_cancelled w ! ht_cancel t
             \<or> ht_generation t = wk_generation w \<and> wk_history_cancel w = Some (ht_cancel t)))
     \<and> (wk_history_cancel w = None \<longrightarrow> wk_generation w \<notin> set (live w))
     \<and> (\<forall>token. wk_history_cancel w = Some token \<longrightarrow>
          token < length (wk_cancelled w) \<and> wk_generation w \<in> set (live w))"

definition link_ok :: "'s worker \<Rightarrow> bool" where
  "link_ok w \<longleftrightarrow> (wk_session_id w \<noteq> None \<longrightarrow> wk_connected w)
     \<and> wk_reconnect_delay w \<in> {500, 1000, 2000, 4000, 8000}"

text \<open>Both, with the generations counted: a step uses at most two.\<close>

definition worker_ok :: "nat \<Rightarrow> 's worker \<Rightarrow> bool" where
  "worker_ok n w \<longleftrightarrow> reads_ok w \<and> link_ok w \<and> unat (wk_generation w) \<le> n"

lemma worker_ok_same: "same_reads w v \<Longrightarrow> worker_ok n w \<Longrightarrow> worker_ok n v"
  by (simp add: same_reads_def worker_ok_def reads_ok_def link_ok_def live_def)

lemma worker_ok_mono: "worker_ok n w \<Longrightarrow> n \<le> m \<Longrightarrow> worker_ok m w"
  by (simp add: worker_ok_def)

lemma unat_next: "unat (x :: u64) \<le> n \<Longrightarrow> n < 2 ^ 63 \<Longrightarrow> unat (x + 1) = Suc (unat x)"
  by (simp add: unat_word_ariths)

lemma live_simps [simp]:
  "live (w\<lparr>wk_generation := x\<rparr>) = live w" "live (w\<lparr>wk_history_cancel := c\<rparr>) = live w"
  "live (w\<lparr>wk_cancelled := f\<rparr>) = live w" "live (emit e w) = live w"
  by (simp_all add: live_def emit_def)

lemma fresh_generation:
  assumes "reads_ok w" and "unat (wk_generation w) \<le> n" and "n < 2 ^ 63"
  shows "wk_generation w + 1 \<notin> set (live w)"
    and "\<And>x. x \<in> set (live w) \<Longrightarrow> unat x \<le> unat (wk_generation w + 1)"
  using assms unat_next [OF assms(2,3)] by (fastforce simp: reads_ok_def)+

lemma invalidate_ok:
  assumes "reads_ok w" and "unat (wk_generation w) \<le> n" and "n < 2 ^ 63"
  shows "reads_ok (invalidate_history_task w)" and "unat (wk_generation (invalidate_history_task w)) \<le> Suc n"
proof -
  note fresh = fresh_generation [OF assms]
  show "unat (wk_generation (invalidate_history_task w)) \<le> Suc n"
    using unat_next [OF assms(2,3)] assms(2) by (simp add: invalidate_history_task_def Let_def split: option.split)
  show "reads_ok (invalidate_history_task w)"
  proof (cases "wk_history_cancel w")
    case None
    then have i: "invalidate_history_task w = w\<lparr>wk_generation := wk_generation w + 1\<rparr>"
      by (simp add: invalidate_history_task_def)
    show ?thesis using assms(1) fresh None unfolding i reads_ok_def by simp
  next
    case (Some token)
    then have i: "invalidate_history_task w = w\<lparr>wk_generation := wk_generation w + 1, wk_history_cancel := None,
        wk_cancelled := (wk_cancelled w)[token := True]\<rparr>"
      by (simp add: invalidate_history_task_def)
    show ?thesis using assms(1) fresh Some unfolding i reads_ok_def
      by (auto simp: nth_list_update)
  qed
qed

lemma gui_connection_failed_ok:
  assumes "worker_ok n w" and "n < 2 ^ 63"
  shows "worker_ok (Suc n) (gui_connection_failed g e w)"
proof -
  let ?v = "invalidate_history_task w"
  have i: "reads_ok ?v" "unat (wk_generation ?v) \<le> Suc n"
    using invalidate_ok assms by (auto simp: worker_ok_def)
  have d: "wk_reconnect_delay ?v = wk_reconnect_delay w"
    by (simp add: invalidate_history_task_def Let_def split: option.split)
  have "min (wk_reconnect_delay w * 2) 8000 \<in> {500, 1000, 2000, 4000, 8000}"
    using assms(1) by (auto simp: worker_ok_def link_ok_def)
  then show ?thesis
    using i by (auto simp: gui_connection_failed_def Let_def worker_ok_def link_ok_def emit_def reads_ok_def live_def)
qed

lemma session_changed_ok:
  assumes "worker_ok n w" and "n < 2 ^ 63" and "wk_connected w"
  shows "worker_ok (Suc n) (session_changed sid w)" and "wk_connected (session_changed sid w)"
proof -
  let ?u = "w\<lparr>wk_session_id := Some sid, wk_device_info_loaded := False, wk_configuration := None,
          wk_history := None, wk_themes := (\<lambda>_. None)\<rparr>"
  have u: "reads_ok ?u" "unat (wk_generation ?u) \<le> n"
    using assms(1) by (auto simp: worker_ok_def reads_ok_def live_def)
  have same: "wk_connected (invalidate_history_task ?u) = wk_connected w"
    "wk_reconnect_delay (invalidate_history_task ?u) = wk_reconnect_delay w"
    by (simp_all add: invalidate_history_task_def Let_def split: option.split)
  show "wk_connected (session_changed sid w)"
    using same assms(3) by (simp add: session_changed_def emit_def)
  show "worker_ok (Suc n) (session_changed sid w)"
    using invalidate_ok [OF u assms(2)] same assms
    by (auto simp: session_changed_def worker_ok_def link_ok_def reads_ok_def live_def emit_def)
qed

section \<open>Refreshing and commands\<close>

lemma same_reads_emit: "same_reads w (emit e (w\<lparr>wk_poll_interval_ms := p\<rparr>))"
  by (simp add: same_reads_def emit_def)

lemma refresh_status_ok:
  assumes "worker_ok n w" and "n < 2 ^ 63" and "wk_connected w"
  shows "worker_ok (Suc n) (snd (refresh_status g status w))"
proof -
  define w1 where "w1 = emit (UiStatus status) (w\<lparr>wk_poll_interval_ms := st_poll_interval_ms status\<rparr>)"
  define w2 where "w2 = (if wk_session_id w1 \<noteq> Some (st_session_id status)
    then session_changed (st_session_id status) w1 else w1)"
  define w3 where "w3 = (if device_usable status \<and> (\<not> wk_device_info_loaded w2 \<or> wk_configuration w2 = None)
    then load_session_data g False w2 else w2)"
  have 1: "worker_ok n w1" "wk_connected w1"
    unfolding w1_def using worker_ok_same [OF same_reads_emit assms(1)] assms(3) by (simp_all add: emit_def)
  have 2: "worker_ok (Suc n) w2"
    using session_changed_ok(1) [OF 1(1) assms(2) 1(2)] worker_ok_mono [OF 1(1)] by (simp add: w2_def)
  have 3: "worker_ok (Suc n) w3"
    using worker_ok_same [OF reads.load_frame 2] 2 by (simp add: w3_def)
  have t: "framed same_reads (connection_mut (call (gui_telemetry g)))"
    by (rule reads.framed_connection [OF reads.framed_call [OF daemon_calls(3)]])
  have "worker_ok (Suc n) v" if "connection_mut (call (gui_telemetry g)) w3 = (r, v)" for r v
    using worker_ok_same [OF framedD [OF t that] 3] .
  moreover have "worker_ok (Suc n) (emit e v)" if "worker_ok (Suc n) v" for e v
    using worker_ok_same [OF same_reads_any_event that] .
  ultimately show ?thesis
    using 3 unfolding refresh_status_def Let_def w1_def [symmetric] w2_def [symmetric] w3_def [symmetric]
    by (auto split: prod.split sum.split client_error.split wireview_error.split)
qed

lemma refresh_connected_ok:
  assumes "worker_ok n w" and "n < 2 ^ 63"
  shows "worker_ok (Suc n) (snd (refresh_connected g w))"
proof -
  obtain r v where r: "connection_mut (call (gui_status g)) w = (r, v)" by fastforce
  have k: "framed same_reads (connection_mut (call (gui_status g)))"
    by (rule reads.framed_connection [OF reads.framed_call [OF daemon_calls(2)]])
  have same: "same_reads w v" using framedD [OF k r] .
  have ok: "worker_ok n v" using worker_ok_same [OF same assms(1)] .
  show ?thesis
  proof (cases r)
    case (Inl e)
    then show ?thesis using ok by (simp add: refresh_connected_def bindW_def r worker_ok_mono)
  next
    case (Inr status)
    then have "wk_connected v" using r same by (auto simp: connection_mut_def same_reads_def split: if_splits)
    then show ?thesis
      using ok refresh_status_ok [OF ok assms(2)] Inr
      by (auto simp: refresh_connected_def bindW_def r worker_ok_mono split: sum.split)
  qed
qed

lemma refresh_ok:
  assumes "worker_ok n w" and "n + 1 < 2 ^ 63"
  shows "worker_ok (n + 2) (refresh g w)"
proof -
  have finish: "worker_ok (n + 2) (case refresh_connected g v of
       (Inl e, w2) \<Rightarrow> gui_connection_failed g e w2 | (Inr _, w2) \<Rightarrow> w2)" if "worker_ok n v" for v
  proof -
    obtain r u where r: "refresh_connected g v = (r, u)" by fastforce
    then have "worker_ok (Suc n) u" using refresh_connected_ok [OF that, of g] assms(2) by simp
    then show ?thesis
      using gui_connection_failed_ok [of "Suc n" u g] worker_ok_mono [of "Suc n" u "n + 2"] assms(2)
      by (auto simp: r split: sum.split)
  qed
  obtain r v where c: "call (gui_connect g) w = (r, v)" by fastforce
  have v: "worker_ok n v" using worker_ok_same [OF reads.call_frame [OF daemon_calls(1) c] assms(1)] .
  have "worker_ok n (v\<lparr>wk_connected := True, wk_reconnect_delay := 500\<rparr>)"
    using v by (simp add: worker_ok_def link_ok_def reads_ok_def live_def)
  note connect = finish [OF this]
  have "worker_ok (n + 2) (gui_connection_failed g e v)" for e
    using gui_connection_failed_ok [OF v, of g e] worker_ok_mono assms(2) by fastforce
  then show ?thesis
    using finish [OF assms(1)] connect worker_ok_mono [OF assms(1)] c
    by (auto simp: refresh_def Let_def split: sum.split)
qed

lemma start_history_ok:
  assumes "worker_ok n w" and "n < 2 ^ 63"
  shows "worker_ok (Suc n) (start_history w)"
proof (cases "wk_history_cancel w")
  case (Some token)
  then show ?thesis
    using worker_ok_same [OF same_reads_any_event assms(1)] worker_ok_mono
    by (auto simp: start_history_def operation_error_def intro: worker_ok_mono [of n])
next
  case None
  have r: "reads_ok w" and g: "unat (wk_generation w) \<le> n" using assms(1) by (auto simp: worker_ok_def)
  note fresh = fresh_generation [OF r g assms(2)]
  have stale: "\<forall>t\<in>set (wk_tasks w). ht_cancel t < length (wk_cancelled w) \<and> wk_cancelled w ! ht_cancel t"
    using r None by (auto simp: reads_ok_def)
  show ?thesis
    using None r fresh stale unat_next [OF g assms(2)] g assms(1)
    by (auto simp: start_history_def Let_def worker_ok_def reads_ok_def link_ok_def live_def nth_append)
qed

lemma finish_history_ok:
  assumes "worker_ok n w" and "wk_results w = (wk_generation w, r) # later"
  shows "worker_ok n (finish_history r (w\<lparr>wk_results := later\<rparr>))"
proof -
  let ?v = "w\<lparr>wk_results := later, wk_history_cancel := None\<rparr>"
  have l: "live w = map ht_generation (wk_tasks w) @ wk_generation w # map fst later"
    using assms(2) by (simp add: live_def)
  have lv: "live ?v = map ht_generation (wk_tasks w) @ map fst later" by (simp add: live_def)
  have ok: "reads_ok w" using assms(1) by (simp add: worker_ok_def)
  then have d: "distinct (live ?v)" "wk_generation w \<notin> set (live ?v)" "set (live ?v) \<subseteq> set (live w)"
    unfolding reads_ok_def l lv by auto
  have stale: "wk_cancelled w ! ht_cancel t" if "t \<in> set (wk_tasks w)" for t
  proof -
    have "ht_generation t \<in> set (live ?v)" using that unfolding lv by simp
    then have "ht_generation t \<noteq> wk_generation w" using d(2) by metis
    then show ?thesis using ok that unfolding reads_ok_def by blast
  qed
  have "reads_ok ?v"
    using ok d stale unfolding reads_ok_def by (auto simp del: set_append)
  then have "worker_ok n ?v"
    using assms(1) by (simp add: worker_ok_def link_ok_def)
  moreover have "same_reads ?v (finish_history r (w\<lparr>wk_results := later\<rparr>))"
    by (auto simp: finish_history_def same_reads_def emit_def operation_success_def operation_error_def Let_def
        split: sum.split client_error.split)
  ultimately show ?thesis by (rule worker_ok_same [rotated])
qed

lemma receive_result_ok:
  assumes "worker_ok n w"
  shows "worker_ok n (receive_result w)"
proof (cases "wk_results w")
  case Nil
  then show ?thesis using assms by (simp add: receive_result_def)
next
  case (Cons x later)
  obtain generation r where x: "x = (generation, r)" by fastforce
  show ?thesis
  proof (cases "generation = wk_generation w")
    case True
    then show ?thesis using finish_history_ok [OF assms, of r later] Cons x by (simp add: receive_result_def Let_def)
  next
    case False
    then show ?thesis using assms Cons x
      by (auto simp: receive_result_def Let_def worker_ok_def reads_ok_def live_def link_ok_def)
  qed
qed

lemma set_task_ok:
  assumes "worker_ok n w" and "i < length (wk_tasks w)"
  shows "worker_ok n (set_task i phase w)"
proof -
  have "map ht_generation ((wk_tasks w)[i := (wk_tasks w ! i)\<lparr>ht_phase := phase\<rparr>]) = map ht_generation (wk_tasks w)"
    using assms(2) by (simp add: map_update list_update_same_conv)
  then have l: "live (set_task i phase w) = live w" by (simp add: live_def set_task_def)
  have "\<exists>u\<in>set (wk_tasks w). ht_cancel t = ht_cancel u \<and> ht_generation t = ht_generation u"
    if "t \<in> set (wk_tasks (set_task i phase w))" for t
  proof -
    have "t = (wk_tasks w ! i)\<lparr>ht_phase := phase\<rparr> \<or> t \<in> set (wk_tasks w)"
      using that set_update_subset_insert [of "wk_tasks w" i] by (fastforce simp: set_task_def)
    then show ?thesis using nth_mem [OF assms(2)] by force
  qed
  moreover have "wk_cancelled (set_task i phase w) = wk_cancelled w" "wk_generation (set_task i phase w) = wk_generation w"
    "wk_history_cancel (set_task i phase w) = wk_history_cancel w"
    "link_ok (set_task i phase w) = link_ok w"
    by (simp_all add: set_task_def link_ok_def)
  ultimately show ?thesis
    using assms(1) l unfolding worker_ok_def reads_ok_def by (simp only:) metis
qed

lemma end_task_ok:
  assumes "worker_ok n w" and "i < length (wk_tasks w)"
  shows "worker_ok n (end_task i r w)"
proof -
  let ?ts = "wk_tasks w"
  let ?a = "map ht_generation (take i ?ts)" and ?b = "map ht_generation (drop (Suc i) ?ts)"
  have "map ht_generation ?ts = ?a @ ht_generation (?ts ! i) # ?b"
    by (subst id_take_nth_drop [OF assms(2)]) simp
  then have l: "live w = ?a @ ht_generation (?ts ! i) # ?b @ map fst (wk_results w)"
    and "live (end_task i r w) = (?a @ ?b) @ map fst (wk_results w) @ [ht_generation (?ts ! i)]"
    by (simp_all add: live_def end_task_def)
  then have "distinct (live (end_task i r w)) = distinct (live w)" "set (live (end_task i r w)) = set (live w)"
    by (auto simp del: map_append)
  moreover have "t \<in> set ?ts" if "t \<in> set (wk_tasks (end_task i r w))" for t
    using that by (auto simp: end_task_def dest: in_set_takeD in_set_dropD)
  moreover have "wk_cancelled (end_task i r w) = wk_cancelled w" "wk_generation (end_task i r w) = wk_generation w"
    "wk_history_cancel (end_task i r w) = wk_history_cancel w" "link_ok (end_task i r w) = link_ok w"
    by (simp_all add: end_task_def link_ok_def)
  ultimately show ?thesis
    using assms(1) unfolding worker_ok_def reads_ok_def by (simp only:) blast
qed

lemma task_step_ok:
  assumes "worker_ok n w" and "i < length (wk_tasks w)"
  shows "worker_ok n (task_step g i w)"
proof -
  have via: "worker_ok n (set_task i phase v)" "worker_ok n (end_task i r v)" if "same_reads w v" for v phase r
  proof -
    have "wk_tasks v = wk_tasks w" using that by (simp add: same_reads_def)
    then show "worker_ok n (set_task i phase v)" "worker_ok n (end_task i r v)"
      using worker_ok_same [OF that assms(1)] assms(2) set_task_ok end_task_ok by metis+
  qed
  show ?thesis
  proof (cases "ht_phase (wk_tasks w ! i)")
    case Opening
    then show ?thesis
      using via reads.task_open_frame [of w g "ht_cancel (wk_tasks w ! i)"]
      by (auto simp: task_step_def Let_def split: prod.split sum.split)
  next
    case (Waiting dump expected bytes)
    then show ?thesis
      using via(1) reads.task_chunk_frame [of w g "ht_cancel (wk_tasks w ! i)" dump expected bytes]
      by (auto simp: task_step_def Let_def split: prod.split)
  next
    case (Closing dump r)
    obtain q v where q: "call (gui_end g dump) w = (q, v)" by fastforce
    have "same_reads w v" using reads.call_frame [OF daemon_calls(18) q] .
    then show ?thesis
      using via(2) Closing by (auto simp: task_step_def Let_def task_close_def q split: sum.split)
  qed
qed

lemma operate_ok:
  assumes "worker_ok n w" and "n < 2 ^ 63" and "framed same_reads act"
  shows "worker_ok (Suc n) (operate g announcement act message w)"
proof -
  obtain r v where r: "act (operation_running announcement w) = (r, v)" by fastforce
  have "same_reads w v"
    using same_reads_trans [OF same_reads_any_event framedD [OF assms(3) r [unfolded operation_running_def]]] .
  then have v: "worker_ok n v" using worker_ok_same assms(1) by blast
  have e: "worker_ok (Suc n) (emit x v)" for x
    using worker_ok_mono [OF worker_ok_same [OF same_reads_any_event v]] by simp
  show ?thesis
    using gui_connection_failed_ok [OF v assms(2)] e
    by (cases r) (simp_all add: operate_def r finish_operation_def operation_success_def operation_error_def)
qed

lemma operate_ok2:
  "worker_ok n w \<Longrightarrow> n + 1 < 2 ^ 63 \<Longrightarrow> framed same_reads act \<Longrightarrow> worker_ok (n + 2) (operate g announcement act message w)"
  using worker_ok_mono [OF operate_ok, of n w act "n + 2"] by simp

lemma cancel_history_ok: "worker_ok n w \<Longrightarrow> worker_ok n (cancel_history_command w)"
  by (cases "wk_history_cancel w")
    (auto simp: cancel_history_command_def worker_ok_def reads_ok_def link_ok_def live_def emit_def nth_list_update)

lemma gui_command_ok:
  assumes "worker_ok n w" and "n + 1 < 2 ^ 63"
  shows "worker_ok (n + 2) (gui_command g c w)"
proof (cases c)
  case UcRefresh
  have "worker_ok n (w\<lparr>wk_next_connect := gui_now g (wk_env w)\<rparr>)"
    using assms(1) by (simp add: worker_ok_def reads_ok_def link_ok_def live_def)
  from refresh_ok [OF this assms(2)] show ?thesis
    by (auto simp: UcRefresh Let_def intro: worker_ok_same [OF reads.load_frame])
next
  case UcLoadHistory
  then show ?thesis using worker_ok_mono [OF start_history_ok [OF assms(1)], of "n + 2"] assms(2) by simp
next
  case UcCancelHistory
  then show ?thesis using worker_ok_mono [OF cancel_history_ok [OF assms(1)], of "n + 2"] by simp
next
  case UcShutdown
  then show ?thesis using worker_ok_mono [OF assms(1), of "n + 2"] by simp
qed (simp_all only: gui_command.simps operate_ok2 [OF assms] reads.operations)

section \<open>Runs\<close>

lemma worker_step_ok:
  assumes "worker_step g moves_on w v" and "worker_ok n w" and "n + 1 < 2 ^ 63"
  shows "worker_ok (n + 2) v"
  using assms(1)
proof cases
  case (command c)
  then show ?thesis using gui_command_ok [OF assms(2,3)] by simp
next
  case received
  then show ?thesis using worker_ok_mono [OF receive_result_ok [OF assms(2)]] by simp
next
  case tick
  then show ?thesis using refresh_ok [OF assms(2,3)] by simp
next
  case (task i)
  then show ?thesis using worker_ok_mono [OF task_step_ok [OF assms(2)], of i "n + 2" g] by simp
next
  case (world s)
  then show ?thesis using assms(2) by (simp add: worker_ok_def reads_ok_def link_ok_def live_def)
qed

lemma worker_new_ok: "worker_ok 0 (worker_new g s d)"
  by (simp add: worker_new_def worker_ok_def reads_ok_def link_ok_def live_def)

lemma worker_run_ok:
  assumes "worker_run g moves_on n w v" and "worker_ok 0 w" and "n < 2 ^ 61"
  shows "worker_ok (2 * n) v"
  using assms
proof (induction rule: worker_run.induct)
  case (start w)
  then show ?case by simp
next
  case (step n w u v)
  then show ?case using worker_step_ok [of g moves_on u v "2 * n"] by simp
qed

text \<open>C14: one history read at a time. In every run of fewer than \<open>2 ^ 61\<close> steps, whatever the daemon
  answers and in whatever order commands, timers, task turns and results come: at most one read
  has not been asked to stop; the window waits for a result exactly when the read it waits for
  still runs or has its result on the way, and every other result is one that will be ignored; no
  two reads have the same generation; a session is only known while connected; and the delay
  between two connection attempts is one of its five values, 8 seconds at most.\<close>

theorem one_history_read_at_a_time:
  assumes "worker_run g moves_on n (worker_new g s d) w" and "n < 2 ^ 61"
  shows "length (filter (\<lambda>t. \<not> wk_cancelled w ! ht_cancel t) (wk_tasks w)) \<le> 1
    \<and> (wk_history_cancel w \<noteq> None \<longleftrightarrow> wk_generation w \<in> set (live w)) \<and> distinct (live w)
    \<and> (wk_session_id w \<noteq> None \<longrightarrow> wk_connected w)
    \<and> wk_reconnect_delay w \<in> {500, 1000, 2000, 4000, 8000}"
proof -
  have ok: "reads_ok w" "link_ok w"
    using worker_run_ok [OF assms(1) worker_new_ok assms(2)] by (auto simp: worker_ok_def)
  let ?running = "filter (\<lambda>t. \<not> wk_cancelled w ! ht_cancel t) (wk_tasks w)"
  have "set (map ht_generation ?running) \<subseteq> {wk_generation w}"
    using ok(1) by (auto simp: reads_ok_def)
  moreover have "distinct (map ht_generation ?running)"
    using ok(1) by (auto simp: reads_ok_def live_def intro: distinct_map_filter)
  ultimately have "length ?running \<le> 1"
    using card_mono [of "{wk_generation w}" "set (map ht_generation ?running)"] distinct_card by fastforce
  then show ?thesis using ok by (auto simp: reads_ok_def link_ok_def)
qed

section \<open>Every read ends\<close>

definition turns_left :: "task_phase \<Rightarrow> nat" where
  "turns_left phase = (case phase of
       Opening \<Rightarrow> FLASH_LENGTH + 2
     | Waiting dump expected bytes \<Rightarrow> Suc (expected - length bytes)
     | Closing dump r \<Rightarrow> 0)"

lemma next_phase_turns:
  "turns_left (next_phase c dump expected bytes) \<le> Suc (expected - length bytes)"
  "length old < length bytes \<Longrightarrow> turns_left (next_phase c dump expected bytes) \<le> expected - length old"
  by (auto simp: next_phase_def turns_left_def)

lemma open_lease_turns:
  assumes "open_lease g token status w = (Inr phase, v)"
  shows "turns_left phase < FLASH_LENGTH + 2"
proof -
  obtain c dump where "phase = next_phase c dump FLASH_LENGTH []"
    using assms by (auto simp: open_lease_def bindW_def refuse_lease_def split: prod.splits sum.splits if_splits)
  then show ?thesis using next_phase_turns(1) [of c dump FLASH_LENGTH "[]"] by simp
qed

lemma task_open_turns:
  assumes "task_open g token w = (Inr phase, v)"
  shows "turns_left phase < FLASH_LENGTH + 2"
  using assms open_lease_turns
  by (auto simp: task_open_def bindW_def split: prod.splits sum.splits)

lemma task_chunk_turns:
  "turns_left (fst (task_chunk g token dump expected bytes w)) < Suc (expected - length bytes)"
proof -
  have "turns_left (next_phase c dump expected (bytes @ data)) < Suc (expected - length bytes)" if "data \<noteq> []" for c data
    using next_phase_turns(2) [of bytes "bytes @ data" c dump expected] that by simp
  then show ?thesis
    by (auto simp: task_chunk_def Let_def turns_left_def [of "Closing _ _"] split: option.split prod.split sum.split)
qed

text \<open>A turn of the first task ends it or brings its end closer.\<close>

lemma task_turn:
  assumes "wk_tasks w = t # ts"
  shows "(\<exists>r. wk_tasks (task_step g 0 w) = ts
            \<and> wk_results (task_step g 0 w) = wk_results w @ [(ht_generation t, r)])
    \<or> (\<exists>phase. turns_left phase < turns_left (ht_phase t)
            \<and> wk_tasks (task_step g 0 w) = t\<lparr>ht_phase := phase\<rparr> # ts
            \<and> wk_results (task_step g 0 w) = wk_results w)"
proof -
  have e: "wk_tasks (end_task 0 r v) = ts \<and> wk_results (end_task 0 r v) = wk_results w @ [(ht_generation t, r)]"
    and p: "wk_tasks (set_task 0 phase v) = t\<lparr>ht_phase := phase\<rparr> # ts \<and> wk_results (set_task 0 phase v) = wk_results w"
    if "same_reads w v" for r v phase
    using that assms by (simp_all add: same_reads_def end_task_def set_task_def)
  show ?thesis
  proof (cases "ht_phase t")
    case Opening
    obtain r v where r: "task_open g (ht_cancel t) w = (r, v)" by fastforce
    then have same: "same_reads w v" using reads.task_open_frame by (metis snd_conv)
    show ?thesis
    proof (cases r)
      case (Inl err)
      then show ?thesis using e [OF same] r assms Opening by (simp add: task_step_def)
    next
      case (Inr phase)
      then have "turns_left phase < turns_left (ht_phase t)"
        using task_open_turns r by (fastforce simp: turns_left_def [of Opening] Opening)
      then show ?thesis
        using p [OF same] r assms Opening Inr by (intro disjI2 exI [of _ phase]) (simp add: task_step_def)
    qed
  next
    case (Waiting dump expected bytes)
    obtain phase v where r: "task_chunk g (ht_cancel t) dump expected bytes w = (phase, v)" by fastforce
    then have "same_reads w v" using reads.task_chunk_frame by (metis snd_conv)
    then show ?thesis
      using p r assms Waiting task_chunk_turns [of g "ht_cancel t" dump expected bytes w]
      by (auto simp: task_step_def turns_left_def [of "Waiting _ _ _"])
  next
    case (Closing dump r)
    obtain q v where q: "call (gui_end g dump) w = (q, v)" by fastforce
    have "same_reads w v" using reads.call_frame [OF daemon_calls(18) q] .
    then show ?thesis
      using e Closing assms by (auto simp: task_step_def task_close_def q split: sum.split)
  qed
qed

text \<open>C15: every history read ends, whatever the daemon answers: a task that is given its turns has its
  result after at most \<open>turns_left\<close> of them and one more (one per byte of the log at most, since a
  chunk may be short but not empty), the result carries the task's generation, and no other
  task or result is touched.\<close>

theorem history_read_ends:
  assumes "wk_tasks w = t # ts"
  shows "\<exists>k\<le>Suc (turns_left (ht_phase t)). \<exists>r. wk_tasks ((task_step g 0 ^^ k) w) = ts
    \<and> wk_results ((task_step g 0 ^^ k) w) = wk_results w @ [(ht_generation t, r)]"
  using assms
proof (induction "turns_left (ht_phase t)" arbitrary: w t rule: less_induct)
  case less
  let ?v = "task_step g 0 w"
  from task_turn [OF less.prems, of g] consider
      (ended) r where "wk_tasks ?v = ts" "wk_results ?v = wk_results w @ [(ht_generation t, r)]"
    | (going) phase where "turns_left phase < turns_left (ht_phase t)"
        "wk_tasks ?v = t\<lparr>ht_phase := phase\<rparr> # ts" "wk_results ?v = wk_results w"
    by blast
  then show ?case
  proof cases
    case ended
    then show ?thesis by (intro exI [of _ "Suc 0"]) auto
  next
    case going
    obtain k r where k: "k \<le> Suc (turns_left phase)" "wk_tasks ((task_step g 0 ^^ k) ?v) = ts"
      "wk_results ((task_step g 0 ^^ k) ?v) = wk_results ?v @ [(ht_generation t, r)]"
      using less.hyps [of "t\<lparr>ht_phase := phase\<rparr>" ?v] going by auto
    then show ?thesis
      using going by (intro exI [of _ "Suc k"]) (auto simp: funpow_swap1)
  qed
qed

end
