(* ===== verification/WorkerHistory.thy ===== *)
theory WorkerHistory
  imports WorkerProps
begin

text \<open>
  What the desktop client shows as the device's log. \<open>served_log\<close> is what its worker relies on in the
  daemon: an answered chunk is a part of the log at the offset that was asked for, however short.
  Then every history the worker holds is the parse of the whole log. The service of this
  development, over any device that keeps its log, is such a daemon.
\<close>

section \<open>The rows\<close>

definition last_rows :: "'a list \<Rightarrow> 'a list" where
  "last_rows xs = drop (length xs - HISTORY_ROW_LIMIT) xs"

lemma push_row_last: "push_row row (last_rows xs) = last_rows (xs @ [row])"
proof (cases "HISTORY_ROW_LIMIT \<le> length xs")
  case True
  have "0 < HISTORY_ROW_LIMIT" by (simp add: HISTORY_ROW_LIMIT_def)
  then show ?thesis
    using True by (simp add: push_row_def last_rows_def tl_drop Suc_diff_le flip: drop_Suc)
next
  case False
  then show ?thesis by (simp add: push_row_def last_rows_def)
qed

lemma fold_rows:
  "fold_visit (\<lambda>entry rows. (Inr () :: 'e + unit, push_row (history_row_of entry) rows)) es
     (last_rows (map history_row_of done)) = (Inr (), last_rows (map history_row_of (done @ es)))"
proof (induction es arbitrary: "done")
  case Nil
  then show ?case by simp
next
  case (Cons e es)
  then show ?case using Cons.IH [of "done @ [e]"] by (simp add: push_row_last)
qed

lemma history_data_parse_spec:
  assumes "parse_history bytes = Some p"
  shows "history_data_parse bytes = Some \<lparr>hist_bytes = bytes, hist_entries = length (entries p),
     hist_end_found = end_found p, hist_rows = last_rows (map history_row_of (entries p))\<rparr>"
proof -
  have p: "entries p = map entry_of (fst (history_trace bytes))" "end_found p = snd (history_trace bytes)"
    using assms by (auto simp: parse_history_trace)
  have "last_rows (map history_row_of []) = []" by (simp add: last_rows_def)
  then show ?thesis
    using fold_rows [of "entries p" "[]", where 'e = unit]
    by (simp add: history_data_parse_def visit_history_trace p)
qed

section \<open>A daemon that serves a log\<close>

locale served_log =
  fixes g :: "'s gui" and ok :: "'s \<Rightarrow> bool" and contents :: "u8 list"
  assumes contents_length: "length contents = FLASH_LENGTH"
    and ok_moves: "ok s \<Longrightarrow> env_moves g s s' \<Longrightarrow> ok s'"
    and chunk_part: "ok s \<Longrightarrow> fst (gui_chunk g dump off len s) = Answered (Inr chunk) \<Longrightarrow>
          hc_data chunk = take (length (hc_data chunk)) (drop (unat off) contents)"

text \<open>What the worker's own operations do to the daemon and to the histories.\<close>

definition log_frame :: "('s \<Rightarrow> bool) \<Rightarrow> 's worker \<Rightarrow> 's worker \<Rightarrow> bool" where
  "log_frame ok w v \<longleftrightarrow> same_reads w v \<and> wk_history v = wk_history w \<and> (ok (wk_env w) \<longrightarrow> ok (wk_env v))"

definition result_shows :: "u8 list \<Rightarrow> client_error + history_data \<Rightarrow> bool" where
  "result_shows contents r \<longleftrightarrow> (\<forall>h. r = Inr h \<longrightarrow> history_data_parse contents = Some h)"

definition phase_shows :: "u8 list \<Rightarrow> task_phase \<Rightarrow> bool" where
  "phase_shows contents phase = (case phase of
       Opening \<Rightarrow> True
     | Waiting dump expected bytes \<Rightarrow> expected = FLASH_LENGTH \<and> bytes = take (length bytes) contents
     | Closing dump r \<Rightarrow> result_shows contents r)"

definition shows_log :: "('s \<Rightarrow> bool) \<Rightarrow> u8 list \<Rightarrow> 's worker \<Rightarrow> bool" where
  "shows_log ok contents w \<longleftrightarrow> ok (wk_env w)
     \<and> list_all (\<lambda>t. phase_shows contents (ht_phase t)) (wk_tasks w)
     \<and> list_all (\<lambda>gr. result_shows contents (snd gr)) (wk_results w)
     \<and> (\<forall>h. wk_history w = Some h \<longrightarrow> history_data_parse contents = Some h)"

lemma shows_log_frame: "log_frame ok w v \<Longrightarrow> shows_log ok contents w \<Longrightarrow> shows_log ok contents v"
  by (simp add: log_frame_def same_reads_def shows_log_def)

context served_log
begin

sublocale log: worker_frame g "log_frame ok"
  by unfold_locales (auto simp: log_frame_def same_reads_def emit_def intro: ok_moves)

lemma next_phase_shows:
  assumes "bytes = take (length bytes) contents"
  shows "phase_shows contents (next_phase c dump FLASH_LENGTH bytes)"
proof (cases "length bytes < FLASH_LENGTH")
  case True
  then show ?thesis using assms by (simp add: next_phase_def phase_shows_def result_shows_def)
next
  case False
  then have "bytes = contents" using assms contents_length by simp
  then show ?thesis using False by (simp add: next_phase_def phase_shows_def result_shows_def split: option.split)
qed

lemma task_open_shows:
  assumes "task_open g token w = (Inr phase, v)"
  shows "phase_shows contents phase"
proof -
  obtain c dump where "phase = next_phase c dump FLASH_LENGTH []"
    using assms by (auto simp: task_open_def open_lease_def bindW_def refuse_lease_def
        split: prod.splits sum.splits if_splits)
  then show ?thesis using next_phase_shows [of "[]"] by simp
qed

lemma task_chunk_shows:
  assumes "ok (wk_env w)" and "bytes = take (length bytes) contents"
  shows "phase_shows contents (fst (task_chunk g token dump FLASH_LENGTH bytes w))"
proof -
  have grows: "bytes @ hc_data chunk = take (length (bytes @ hc_data chunk)) contents"
    if "u32_try_from (length bytes) = Some off" "fst (gui_chunk g dump off len (wk_env w)) = Answered (Inr chunk)"
    for off len chunk
  proof -
    have "hc_data chunk = take (length (hc_data chunk)) (drop (length bytes) contents)"
      using chunk_part [OF assms(1) that(2)] that(1) unat_word_32 by (auto simp: u32_try_from_def split: if_splits)
    then show ?thesis using assms(2) by (metis length_append take_add)
  qed
  have "phase_shows contents (next_phase c dump FLASH_LENGTH (bytes @ hc_data chunk))"
    if "u32_try_from (length bytes) = Some off" "gui_chunk g dump off len (wk_env w) = (Answered (Inr chunk), s)"
    for off len chunk c s
    using next_phase_shows [OF grows] that by (metis fst_conv)
  moreover have "phase_shows contents (Closing dump (Inl e))" for e
    by (simp add: phase_shows_def result_shows_def)
  ultimately show ?thesis
    by (auto simp: task_chunk_def call_def rpc_def Let_def
        split: option.split prod.split sum.split reply.split)
qed

lemma set_task_shows:
  "shows_log ok contents w \<Longrightarrow> phase_shows contents phase \<Longrightarrow> shows_log ok contents (set_task i phase w)"
  using set_update_subset_insert [of "wk_tasks w" i "(wk_tasks w ! i)\<lparr>ht_phase := phase\<rparr>"]
  by (auto simp: shows_log_def set_task_def list_all_iff)

lemma end_task_shows:
  "shows_log ok contents w \<Longrightarrow> result_shows contents r \<Longrightarrow> shows_log ok contents (end_task i r w)"
  by (auto simp: shows_log_def end_task_def list_all_iff dest: in_set_takeD in_set_dropD)

lemma task_step_shows:
  assumes "shows_log ok contents w" and "i < length (wk_tasks w)"
  shows "shows_log ok contents (task_step g i w)"
proof -
  let ?t = "wk_tasks w ! i"
  have phase: "phase_shows contents (ht_phase ?t)" and env: "ok (wk_env w)"
    using assms by (auto simp: shows_log_def list_all_length)
  show ?thesis
  proof (cases "ht_phase ?t")
    case Opening
    obtain r v where r: "task_open g (ht_cancel ?t) w = (r, v)" by fastforce
    then have "shows_log ok contents v"
      using shows_log_frame [OF log.task_open_frame assms(1)] by (metis snd_conv)
    then show ?thesis
      using r Opening task_open_shows set_task_shows end_task_shows
      by (cases r) (auto simp: task_step_def result_shows_def)
  next
    case (Waiting dump expected bytes)
    obtain q v where r: "task_chunk g (ht_cancel ?t) dump expected bytes w = (q, v)" by fastforce
    then have "shows_log ok contents v"
      using shows_log_frame [OF log.task_chunk_frame assms(1)] by (metis snd_conv)
    moreover have "phase_shows contents q"
      using task_chunk_shows [OF env, of bytes "ht_cancel ?t" dump] phase Waiting r
      by (simp add: phase_shows_def)
    ultimately show ?thesis using r Waiting set_task_shows by (simp add: task_step_def)
  next
    case (Closing dump q)
    obtain r v where r: "task_close g dump q w = (r, v)" by fastforce
    then have v: "shows_log ok contents v"
      using shows_log_frame [OF log.task_close_frame assms(1)] by (metis snd_conv)
    have "result_shows contents r"
      using phase Closing r by (auto simp: task_close_def phase_shows_def result_shows_def split: prod.splits sum.splits)
    then show ?thesis using v r Closing end_task_shows by (simp add: task_step_def)
  qed
qed

lemma emit_shows: "shows_log ok contents w \<Longrightarrow> shows_log ok contents (emit e w)"
  by (simp add: emit_def shows_log_def)

lemma invalidate_shows: "shows_log ok contents (invalidate_history_task w) = shows_log ok contents w"
  by (simp add: invalidate_history_task_def shows_log_def Let_def split: option.split)

lemma gui_connection_failed_shows:
  assumes "shows_log ok contents w"
  shows "shows_log ok contents (gui_connection_failed g e w)"
proof -
  have "shows_log ok contents (invalidate_history_task w)" using assms by (simp add: invalidate_shows)
  then show ?thesis
    by (auto simp: gui_connection_failed_def Let_def intro!: emit_shows) (simp_all add: shows_log_def)
qed

lemma session_changed_shows:
  assumes "shows_log ok contents w"
  shows "shows_log ok contents (session_changed sid w)"
  unfolding session_changed_def
  by (intro emit_shows) (use assms in \<open>simp add: invalidate_shows, simp add: shows_log_def\<close>)

lemma refresh_status_shows:
  assumes "shows_log ok contents w"
  shows "shows_log ok contents (snd (refresh_status g status w))"
proof -
  define w1 where "w1 = emit (UiStatus status) (w\<lparr>wk_poll_interval_ms := st_poll_interval_ms status\<rparr>)"
  define w2 where "w2 = (if wk_session_id w1 \<noteq> Some (st_session_id status)
    then session_changed (st_session_id status) w1 else w1)"
  define w3 where "w3 = (if device_usable status \<and> (\<not> wk_device_info_loaded w2 \<or> wk_configuration w2 = None)
    then load_session_data g False w2 else w2)"
  have "shows_log ok contents w1"
    unfolding w1_def by (intro emit_shows) (use assms in \<open>simp add: shows_log_def\<close>)
  then have "shows_log ok contents w2" by (simp add: w2_def session_changed_shows)
  then have 3: "shows_log ok contents w3" using shows_log_frame [OF log.load_frame] by (auto simp: w3_def)
  obtain r v where t: "connection_mut (call (gui_telemetry g)) w3 = (r, v)" by fastforce
  have "log_frame ok w3 v"
    by (rule framedD [OF log.framed_connection [OF log.framed_call [OF daemon_calls(3)]] t])
  then have "shows_log ok contents v" using shows_log_frame 3 by blast
  then show ?thesis
    using 3 t unfolding refresh_status_def Let_def w1_def [symmetric] w2_def [symmetric] w3_def [symmetric]
    by (auto intro: emit_shows split: sum.split client_error.split wireview_error.split)
qed

lemma refresh_connected_shows:
  assumes "shows_log ok contents w"
  shows "shows_log ok contents (snd (refresh_connected g w))"
proof -
  obtain r v where r: "connection_mut (call (gui_status g)) w = (r, v)" by fastforce
  have "log_frame ok w v"
    by (rule framedD [OF log.framed_connection [OF log.framed_call [OF daemon_calls(2)]] r])
  then have "shows_log ok contents v" using shows_log_frame assms by blast
  then show ?thesis
    using refresh_status_shows by (cases r) (auto simp: refresh_connected_def bindW_def r split: sum.split)
qed

lemma refresh_shows:
  assumes "shows_log ok contents w"
  shows "shows_log ok contents (refresh g w)"
proof -
  have finish: "shows_log ok contents (case refresh_connected g v of
       (Inl e, w2) \<Rightarrow> gui_connection_failed g e w2 | (Inr _, w2) \<Rightarrow> w2)" if "shows_log ok contents v" for v
    using refresh_connected_shows [OF that] by (auto intro: gui_connection_failed_shows split: prod.split sum.split)
  obtain r v where c: "call (gui_connect g) w = (r, v)" by fastforce
  have v: "shows_log ok contents v"
    using shows_log_frame [OF log.call_frame [OF daemon_calls(1) c] assms] .
  then have "shows_log ok contents (v\<lparr>wk_connected := True, wk_reconnect_delay := 500\<rparr>)"
    by (simp add: shows_log_def)
  from finish [OF this] finish [OF assms] v c assms show ?thesis
    by (auto simp: refresh_def Let_def intro: gui_connection_failed_shows split: sum.split)
qed

lemma operate_shows:
  assumes "shows_log ok contents w" and "framed (log_frame ok) act"
  shows "shows_log ok contents (operate g announcement act message w)"
proof -
  obtain r v where r: "act (operation_running announcement w) = (r, v)" by fastforce
  have "shows_log ok contents (operation_running announcement w)"
    unfolding operation_running_def by (rule emit_shows [OF assms(1)])
  then have "shows_log ok contents v"
    using shows_log_frame framedD [OF assms(2) r] by blast
  then show ?thesis
    by (cases r) (auto simp: operate_def r finish_operation_def operation_success_def operation_error_def
        intro: emit_shows gui_connection_failed_shows)
qed

lemma gui_command_shows:
  assumes "shows_log ok contents w"
  shows "shows_log ok contents (gui_command g c w)"
proof (cases c)
  case UcRefresh
  have "shows_log ok contents (w\<lparr>wk_next_connect := gui_now g (wk_env w)\<rparr>)"
    using assms by (simp add: shows_log_def)
  from refresh_shows [OF this] show ?thesis
    by (auto simp: UcRefresh Let_def intro: shows_log_frame [OF log.load_frame])
next
  case UcLoadHistory
  then show ?thesis using assms
    by (auto simp: start_history_def Let_def operation_error_def intro: emit_shows)
      (simp add: shows_log_def phase_shows_def)
next
  case UcCancelHistory
  then show ?thesis using assms
    by (auto simp: cancel_history_command_def intro!: emit_shows split: option.split) (simp add: shows_log_def)
qed (simp_all only: gui_command.simps operate_shows [OF assms] log.operations assms)

lemma receive_result_shows:
  assumes "shows_log ok contents w"
  shows "shows_log ok contents (receive_result w)"
proof (cases "wk_results w")
  case Nil
  then show ?thesis using assms by (simp add: receive_result_def)
next
  case (Cons x later)
  obtain generation r where x: "x = (generation, r)" by fastforce
  have r: "result_shows contents r" and v: "shows_log ok contents (w\<lparr>wk_results := later\<rparr>)"
    using assms Cons x by (auto simp: shows_log_def)
  have "shows_log ok contents (w\<lparr>wk_results := later, wk_history_cancel := None\<rparr>)"
    using v by (simp add: shows_log_def)
  then have "shows_log ok contents (finish_history r (w\<lparr>wk_results := later\<rparr>))"
  proof (cases r)
    case (Inl e)
    then show ?thesis
      using \<open>shows_log ok contents (w\<lparr>wk_results := later, wk_history_cancel := None\<rparr>)\<close>
      by (cases e) (auto simp: finish_history_def operation_error_def intro: emit_shows)
  next
    case (Inr h)
    have h: "history_data_parse contents = Some h" using r Inr by (simp add: result_shows_def)
    have "shows_log ok contents ((emit e (w\<lparr>wk_results := later, wk_history_cancel := None\<rparr>))\<lparr>wk_history := Some h\<rparr>)" for e
      using emit_shows [OF \<open>shows_log ok contents (w\<lparr>wk_results := later, wk_history_cancel := None\<rparr>)\<close>, of e] h
      by (simp add: shows_log_def)
    then show ?thesis
      by (auto simp: finish_history_def Inr operation_success_def intro: emit_shows)
  qed
  then show ?thesis using v Cons x by (simp add: receive_result_def Let_def)
qed

lemma worker_run_shows:
  assumes "worker_run g moves_on n w v" and "shows_log ok contents w"
    and "\<And>s s'. ok s \<Longrightarrow> moves_on s s' \<Longrightarrow> ok s'"
  shows "shows_log ok contents v"
  using assms(1,2)
proof (induction rule: worker_run.induct)
  case (start w)
  then show ?case by simp
next
  case (step n w u v)
  then have u: "shows_log ok contents u" by simp
  from step.hyps(2) show ?case
  proof cases
    case (world s)
    then show ?thesis using u assms(3) by (auto simp: shows_log_def)
  qed (use u in \<open>simp_all add: gui_command_shows receive_result_shows refresh_shows task_step_shows\<close>)
qed

end

end
