(* ===== verification/WorkerService.thy ===== *)
theory WorkerService
  imports WorkerHistory OutputProps
begin

text \<open>
  The desktop client and the service of this development: its worker's calls over the same network as
  the command line client's, and end to end what it shows as the device's log.
\<close>

text \<open>A call that takes too long has no answer, whatever the daemon did with it.\<close>

definition gui_wire ::
  "network \<Rightarrow> (nat \<Rightarrow> 'b server) \<Rightarrow> ('b server \<Rightarrow> ('b manager, 'a) service)
     \<Rightarrow> nat \<times> 'b manager \<Rightarrow> 'a reply \<times> (nat \<times> 'b manager)" where
  "gui_wire net svs f km = (case wire net svs f km of (r, km1) \<Rightarrow>
     (if net_slow net (fst km) then NoReply
      else case r of Inl message \<Rightarrow> BrokenTransport message | Inr x \<Rightarrow> Answered x, km1))"

text \<open>\<open>base\<close> is the client: its contract, its JSON, its files and its clock.\<close>

definition service_gui ::
  "network \<Rightarrow> (nat \<Rightarrow> 'b server) \<Rightarrow> (nat \<times> 'b manager) gui \<Rightarrow> (nat \<times> 'b manager) gui" where
  "service_gui net svs base = base
     \<lparr>gui_connect := gui_wire net svs (\<lambda>sv. retS ()),
      gui_status := gui_wire net svs (\<lambda>sv. see (get_status sv)),
      gui_telemetry := gui_wire net svs get_telemetry,
      gui_device_info := gui_wire net svs svc_get_device_info,
      gui_configuration := gui_wire net svs svc_get_configuration,
      gui_set_screen := (\<lambda>screen. gui_wire net svs (\<lambda>sv. svc_set_screen sv screen)),
      gui_clear_faults := (\<lambda>active logged confirm. gui_wire net svs (\<lambda>sv. svc_clear_faults sv active logged confirm)),
      gui_set_poll_interval := (\<lambda>interval. gui_wire net svs (\<lambda>sv. svc_set_poll_interval sv interval)),
      gui_apply := (\<lambda>c. gui_wire net svs (\<lambda>sv. svc_apply_configuration sv c)),
      gui_store := (\<lambda>c confirm. gui_wire net svs (\<lambda>sv. svc_store_configuration sv c confirm)),
      gui_reload := gui_wire net svs svc_reload_configuration,
      gui_reset := (\<lambda>confirm. gui_wire net svs (\<lambda>sv. svc_reset_configuration sv confirm)),
      gui_reboot := (\<lambda>confirm. gui_wire net svs (\<lambda>sv. svc_reboot_device sv confirm)),
      gui_read_theme := (\<lambda>slot. gui_wire net svs (\<lambda>sv. svc_read_theme_asset sv slot)),
      gui_write_theme := (\<lambda>slot n sha data confirm. gui_wire net svs (\<lambda>sv. svc_write_theme_asset sv slot n sha data confirm)),
      gui_begin := gui_wire net svs svc_begin_history_dump,
      gui_chunk := (\<lambda>dump off n. gui_wire net svs (\<lambda>sv. svc_read_history_dump_chunk sv dump off n)),
      gui_end := (\<lambda>dump. gui_wire net svs (\<lambda>sv. svc_end_history_dump sv dump))\<rparr>"

text \<open>Between its calls the manager works for others.\<close>

definition others_work ::
  "'b device_backend \<Rightarrow> json_text \<Rightarrow> ('b \<Rightarrow> 'b \<Rightarrow> bool) \<Rightarrow> nat \<times> 'b manager \<Rightarrow> nat \<times> 'b manager \<Rightarrow> bool" where
  "others_work ops jt moves_on s s' \<longleftrightarrow> fst s' = fst s \<and> manager_reachable ops jt moves_on (snd s) (snd s')"

section \<open>Every method keeps the manager between branches\<close>

definition lasting :: "('s \<Rightarrow> bool) \<Rightarrow> ('s, 'a) service \<Rightarrow> bool" where
  "lasting I act \<longleftrightarrow> (\<forall>s. I s \<longrightarrow> I (snd (act s)))"

named_theorems lasting_intros \<open>which methods keep an invariant\<close>

lemma lasting_basic [lasting_intros]:
  "lasting I (retS x)" "lasting I (failS e)" "lasting I (liftS r)" "lasting I (require_confirmation confirm operation)"
  "lasting I (expectS msg v)" "lasting I (\<lambda>m. (q, m))"
  by (simp_all add: lasting_def require_confirmation_def expectS_def split: option.split)

lemma lasting_bindS [lasting_intros]:
  assumes "lasting I act" and "\<And>x. lasting I (f x)"
  shows "lasting I (bindS act f)"
  unfolding lasting_def
proof (intro allI impI)
  fix s assume s: "I s"
  obtain r s' where act: "act s = (r, s')" by fastforce
  then have "I s'" using assms(1) s by (auto simp: lasting_def)
  then show "I (snd (bindS act f s))"
    using assms(2) by (cases r) (auto simp: bindS_def act lasting_def)
qed

lemma lasting_if [lasting_intros]: "lasting I a \<Longrightarrow> lasting I b \<Longrightarrow> lasting I (if c then a else b)"
  by simp

lemma lasting_option [lasting_intros]:
  "lasting I a \<Longrightarrow> (\<And>x. lasting I (f x)) \<Longrightarrow> lasting I (case v of None \<Rightarrow> a | Some x \<Rightarrow> f x)"
  by (simp split: option.split)

lemma gui_wire_keeps:
  assumes "\<And>sv. sv \<in> range svs \<Longrightarrow> lasting I (f sv)" and "I (snd s)"
  shows "I (snd (snd (gui_wire net svs f s)))"
proof -
  obtain k m where s: "s = (k, m)" by fastforce
  have "I (snd (snd (wire net svs f (k, m))))"
    by (rule wire_keeps) (use assms s in \<open>auto simp: lasting_def\<close>)
  then show ?thesis by (auto simp: gui_wire_def s split: prod.split)
qed

lemma take_own_length: "xs = take n ys \<Longrightarrow> xs = take (length xs) ys"
  by (simp add: min_def)

lemma gui_wire_Answered:
  assumes "fst (gui_wire net svs f (k, m)) = Answered (Inr x)"
  shows "\<exists>m'. f (svs k) m = (Inr x, m')"
proof -
  obtain r k' m' where w: "wire net svs f (k, m) = (r, (k', m'))" by (metis prod.collapse)
  then have "r = Inr (Inr x)" using assms by (auto simp: gui_wire_def split: if_splits sum.splits)
  then show ?thesis using w wire_Inr by blast
qed

context lawful_backend
begin

lemma answer_lasting:
  assumes "sv_ops sv = ops" and "serves sv moves_on" and "world_safe inv moves_on"
  shows "lasting (rest inv) (dev (answer sv k project cmd))"
  unfolding lasting_def
proof (intro allI impI)
  fix m :: "'b manager" assume m: "rest inv m"
  have lawful: "lawful_backend (sv_ops sv) inv" unfolding assms(1) by (rule lawful_backend_axioms)
  have "rest inv (sv_others sv k m)" by (rule others_rest [OF lawful assms(2,3) m])
  then show "rest inv (snd (dev (answer sv k project cmd) m))"
    using handle_command_rest assms(1)
    by (auto simp: dev_def answer_def ask_def Let_def split: prod.split) (metis snd_conv)+
qed

lemma state_lasting:
  assumes "sv_ops sv = ops" and "serves sv moves_on" and "world_safe inv moves_on"
  shows "lasting (rest inv) (see (handle_state sv k))"
  unfolding lasting_def
proof (intro allI impI)
  fix m :: "'b manager" assume m: "rest inv m"
  have lawful: "lawful_backend (sv_ops sv) inv" unfolding assms(1) by (rule lawful_backend_axioms)
  have "rest inv (sv_others sv k m)" by (rule others_rest [OF lawful assms(2,3) m])
  then show "rest inv (snd (see (handle_state sv k) m))"
    by (simp add: see_def handle_state_def Let_def)
qed

lemma end_dump_lasting:
  assumes "sv_ops sv = ops" and "serves sv moves_on" and "world_safe inv moves_on"
  shows "lasting (rest inv) (svc_end_history_dump sv dump)"
  unfolding lasting_def
proof (intro allI impI)
  fix m :: "'b manager" assume m: "rest inv m"
  have "rest inv (cancel_history (Some dump) m)"
    by (rule manager_step_rest [OF manager_step.cancel m, where moves_on = "(=)"]) simp
  then show "rest inv (snd (svc_end_history_dump sv dump m))"
    using answer_lasting [OF assms, of 0 unit_reply "CmdEndHistoryDump dump"]
    by (simp add: lasting_def svc_end_history_dump_def dev_def handle_end_history_dump_def)
qed

lemma status_lasting:
  assumes "sv_ops sv = ops" and "serves sv moves_on" and "world_safe inv moves_on"
  shows "lasting (rest inv) (see (get_status sv))"
  unfolding lasting_def
proof (intro allI impI)
  fix m :: "'b manager" assume m: "rest inv m"
  obtain d m1 where 1: "handle_state sv 0 m = (d, m1)" by fastforce
  have r1: "rest inv m1" using state_lasting [OF assms, of 0] m 1 by (auto simp: lasting_def see_def)
  have a: "rest inv v" if "rest inv u" "answer sv k project cmd u = (r, v)" for k project cmd u r v
    using answer_lasting [OF assms, of k project cmd] that by (auto simp: lasting_def dev_def)
  obtain i m2 where 2: "handle_poll_interval_ms sv 1 m1 = (i, m2)" by fastforce
  have r2: "rest inv m2" using a [OF r1 2 [unfolded handle_poll_interval_ms_def]] .
  obtain p m3 where 3: "handle_display_pause_state sv 2 m2 = (p, m3)" by fastforce
  have "rest inv m3" using a [OF r2 3 [unfolded handle_display_pause_state_def]] .
  then show "rest inv (snd (see (get_status sv) m))"
    by (simp add: see_def get_status_def 1 2 [simplified] 3 Let_def)
qed

lemmas handle_unfolds = handle_set_screen_def handle_begin_history_dump_def handle_read_history_dump_chunk_def
  handle_read_theme_asset_def handle_write_theme_asset_def handle_read_device_info_def handle_clear_faults_def
  handle_set_poll_interval_ms_def handle_read_configuration_def handle_apply_configuration_if_revision_def
  handle_reload_configuration_def handle_reset_configuration_def handle_reboot_device_def

lemma methods_lasting:
  assumes "sv_ops sv = ops" and "serves sv moves_on" and "world_safe inv moves_on"
  shows "lasting (rest inv) (get_telemetry sv)"
    "lasting (rest inv) (svc_set_screen sv scr)"
    "lasting (rest inv) (svc_begin_history_dump sv)"
    "lasting (rest inv) (svc_read_history_dump_chunk sv dump off len)"
    "lasting (rest inv) (svc_read_theme_asset sv slot)"
    "lasting (rest inv) (svc_write_theme_asset sv slot n sha bytes confirm)"
    "lasting (rest inv) (svc_get_device_info sv)"
    "lasting (rest inv) (svc_clear_faults sv active logged confirm)"
    "lasting (rest inv) (svc_set_poll_interval sv d)"
    "lasting (rest inv) (svc_get_configuration sv)"
    "lasting (rest inv) (svc_apply_configuration sv dto)"
    "lasting (rest inv) (svc_store_configuration sv dto confirm)"
    "lasting (rest inv) (svc_reload_configuration sv)"
    "lasting (rest inv) (svc_reset_configuration sv confirm)"
    "lasting (rest inv) (svc_reboot_device sv confirm)"
  by (unfold get_telemetry_def svc_set_screen_def svc_begin_history_dump_def svc_read_history_dump_chunk_def
      svc_read_theme_asset_def svc_write_theme_asset_def svc_get_device_info_def svc_clear_faults_def
      svc_set_poll_interval_def svc_get_configuration_def svc_apply_configuration_def svc_store_configuration_def
      svc_reload_configuration_def svc_reset_configuration_def svc_reboot_device_def change_configuration_def
      reply_configuration_def session_now_def history_reply_def Let_def handle_unfolds,
    (intro lasting_intros answer_lasting [OF assms] state_lasting [OF assms])+)

end

context logged_device
begin

lemma service_served_log:
  assumes "\<And>k. sv_ops (svs k) = ops \<and> serves (svs k) moves_on" and "world_safe inv moves_on"
  shows "served_log (service_gui net svs base) (\<lambda>s. rest inv (snd s)) image"
proof
  have sv: "sv_ops (svs k) = ops" "serves (svs k) moves_on" for k using assms(1) by auto
  note ms = methods_lasting [OF sv assms(2)] status_lasting [OF sv assms(2)]
    end_dump_lasting [OF sv assms(2)] lasting_basic(1)
  show "length image = FLASH_LENGTH" by (rule log_length)
  show "rest inv (snd s')" if s: "rest inv (snd s)" and moved: "env_moves (service_gui net svs base) s s'" for s s'
  proof -
    have keep: "rest inv (snd (snd (gui_wire net svs f s)))" if "\<And>k. lasting (rest inv) (f (svs k))"
      for f :: "'a server \<Rightarrow> ('a manager, 'x) service"
      by (rule gui_wire_keeps) (use that s in auto)
    show ?thesis using moved by cases (simp_all add: service_gui_def keep ms)
  qed
  show "hc_data chunk = take (length (hc_data chunk)) (drop (unat off) image)"
    if good: "rest inv (snd s)" and reply: "fst (gui_chunk (service_gui net svs base) dump off len s) = Answered (Inr chunk)"
    for s dump off len chunk
  proof -
    obtain k m where s: "s = (k, m)" by fastforce
    obtain m' where "svc_read_history_dump_chunk (svs k) dump off len m = (Inr chunk, m')"
      using gui_wire_Answered [of net svs "\<lambda>sv. svc_read_history_dump_chunk sv dump off len" k m chunk] reply
      by (auto simp: s service_gui_def)
    then have "hc_data chunk = take (unat len) (drop (unat off) image)"
      using chunk_from_log [of "svs k" moves_on m dump off len chunk m'] assms good s by simp
    then show ?thesis by (rule take_own_length)
  qed
qed

end

section \<open>End to end\<close>

interpretation mock_served: served_log "service_gui calm_network (\<lambda>_. renaming_server) base"
    "\<lambda>s. rest mock_inv (snd s)" mock_log for base
  by (rule mock_logged.service_served_log [where moves_on = time_passes])
    (simp_all add: renaming_server_serves time_passes_safe, simp add: renaming_server_def)

text \<open>The history a worker holds is the whole log: its exact bytes, the number of entries the parser
  finds in them, whether the log's end was found, and as rows the last 80 entries in order.\<close>

lemma worker_history_exact:
  assumes "logged_device ops good contents" and "world_safe good moves_on" and "good b"
    and "\<And>k. sv_ops (svs k) = ops \<and> sv_json (svs k) = jt \<and> serves (svs k) moves_on"
    and "manager_reachable ops jt moves_on (spawn_manager ops b interval) m"
    and "worker_run (service_gui net svs base) (others_work ops jt moves_on) n
      (worker_new (service_gui net svs base) (k, m) d) w"
    and "wk_history w = Some h"
  shows "\<exists>p. parse_history contents = Some p \<and> hist_bytes h = contents
    \<and> hist_entries h = length (entries p) \<and> hist_end_found h = end_found p
    \<and> hist_rows h = last_rows (map history_row_of (entries p))"
proof -
  have log: "served_log (service_gui net svs base) (\<lambda>s. rest good (snd s)) contents"
    using logged_device.service_served_log [OF assms(1) _ assms(2)] assms(4) by blast
  have lawful: "lawful_backend ops good" using assms(1) by (simp add: logged_device_def)
  have m: "rest good m" using reachable_from_spawn [OF lawful assms(3,2,5)] .
  have others: "rest good (snd s')" if "rest good (snd s)" "others_work ops jt moves_on s s'" for s s'
    by (rule lawful_backend.reachable_rest [OF lawful _ that(1), where moves_on = moves_on and jt = jt])
      (use that(2) assms(2) in \<open>auto simp: others_work_def world_safe_def\<close>)
  have "shows_log (\<lambda>s. rest good (snd s)) contents (worker_new (service_gui net svs base) (k, m) d)"
    using m by (simp add: shows_log_def worker_new_def)
  from served_log.worker_run_shows [OF log assms(6) this] others
  have h: "history_data_parse contents = Some h" using assms(7) by (simp add: shows_log_def)
  obtain p where p: "parse_history contents = Some p" using parse_history_trace by blast
  show ?thesis using history_data_parse_spec [OF p] h p by auto
qed

text \<open>An instance: a download from the mock device, in 512 chunks.\<close>

definition example_client :: "(nat \<times> mock_state manager) gui" where
  "example_client = \<lparr>gui_sha256 = (\<lambda>_. replicate 32 0), gui_contract = ''interface'',
     gui_json = sv_json renaming_server, gui_entry_json = (\<lambda>e. []), gui_faults = no_faults,
     gui_regular = (\<lambda>p. True), gui_now = (\<lambda>s. 0), gui_connect = Pair NoReply, gui_status = Pair NoReply,
     gui_telemetry = Pair NoReply, gui_device_info = Pair NoReply, gui_configuration = Pair NoReply,
     gui_set_screen = (\<lambda>_. Pair NoReply), gui_clear_faults = (\<lambda>_ _ _. Pair NoReply),
     gui_set_poll_interval = (\<lambda>_. Pair NoReply), gui_apply = (\<lambda>_. Pair NoReply), gui_store = (\<lambda>_ _. Pair NoReply),
     gui_reload = Pair NoReply, gui_reset = (\<lambda>_. Pair NoReply), gui_reboot = (\<lambda>_. Pair NoReply),
     gui_read_theme = (\<lambda>_. Pair NoReply), gui_write_theme = (\<lambda>_ _ _ _ _. Pair NoReply),
     gui_begin = Pair NoReply, gui_chunk = (\<lambda>_ _ _. Pair NoReply), gui_end = (\<lambda>_. Pair NoReply)\<rparr>"

abbreviation mock_gui :: "(nat \<times> mock_state manager) gui" where
  "mock_gui \<equiv> service_gui calm_network (\<lambda>_. renaming_server) example_client"

lemma calm_wire: "gui_wire calm_network (\<lambda>_. renaming_server) f (k, m)
    = (case f renaming_server m of (r, m1) \<Rightarrow> (Answered r, (Suc k, m1)))"
  by (simp add: gui_wire_def wire_def calm_network_def split: prod.split)

lemma example_published: "last (daemon_state_default # published example_session) = daemon example_session"
  using example_session_rest example_session_ready(1) by (auto simp: rest_def phase_ok_def log_ok_def attached_ok_def)

lemma mock_status:
  "\<exists>status. get_status renaming_server example_session = (status, example_session)
     \<and> st_session_id status = 1
     \<and> validate_status (gui_sha256 mock_gui) (gui_contract mock_gui) status = Inr ()"
proof -
  have s: "d_session_id (daemon example_session) = 1"
    using example_session_rest example_session_ready(1) by (simp add: rest_def phase_ok_def)
  have "handle_state renaming_server 0 example_session = (daemon example_session, example_session)"
    using example_published by (simp add: handle_state_def renaming_server_def Let_def del: last.simps)
  then show ?thesis
    using s by (simp add: get_status_def handle_poll_interval_ms_def handle_display_pause_state_def answer_def ask_def
        Let_def example_session_ready run_get_poll_interval_def renaming_server_def status_from_state_def
        validate_status_Inr service_gui_def example_client_def)
qed

text \<open>The worker while the mock device's log is read: after \<open>i\<close> chunks, and with all of it.\<close>

definition reading_mock :: "u64 \<Rightarrow> history_data \<Rightarrow> nat \<Rightarrow> (nat \<times> mock_state manager) worker \<Rightarrow> bool" where
  "reading_mock dump h i w \<longleftrightarrow> wk_cancelled w = [False] \<and> wk_generation w = 1 \<and> wk_results w = []
     \<and> serving_dump dump (snd (wk_env w))
     \<and> wk_tasks w = [\<lparr>ht_generation = 1, ht_cancel = 0, ht_phase =
          (if i < 512 then Waiting dump FLASH_LENGTH (take (i * HISTORY_CHUNK_SIZE) mock_log) else Closing dump (Inr h))\<rparr>]"

lemmas gui_sizes = HISTORY_CHUNK_SIZE_def FLASH_LENGTH_def

lemma next_phase_mock:
  assumes "history_data_parse mock_log = Some h" and "i \<le> 512"
  shows "next_phase False dump FLASH_LENGTH (take (i * HISTORY_CHUNK_SIZE) mock_log)
    = (if i < 512 then Waiting dump FLASH_LENGTH (take (i * HISTORY_CHUNK_SIZE) mock_log) else Closing dump (Inr h))"
proof (cases "i < 512")
  case True
  then show ?thesis by (simp add: next_phase_def mock_log_def gui_sizes)
next
  case False
  then have "take (i * HISTORY_CHUNK_SIZE) mock_log = mock_log" using assms(2) by (simp add: mock_log_def gui_sizes)
  moreover have "\<not> length mock_log < FLASH_LENGTH" by (simp add: mock_log_def)
  ultimately show ?thesis using False assms(1) by (simp add: next_phase_def)
qed

lemma reading_mock_chunk:
  assumes "history_data_parse mock_log = Some h" and "i < 512" and "reading_mock dump h i w"
  shows "reading_mock dump h (Suc i) (task_step mock_gui 0 w)"
proof -
  let ?bytes = "take (i * HISTORY_CHUNK_SIZE) mock_log"
  let ?more = "take HISTORY_CHUNK_SIZE (drop (i * HISTORY_CHUNK_SIZE) mock_log)"
  define off len :: u32 where "off = word_of_nat (i * HISTORY_CHUNK_SIZE)" and "len = word_of_nat HISTORY_CHUNK_SIZE"
  note words_def = this
  obtain k m where km: "wk_env w = (k, m)" by fastforce
  have size: "length ?bytes = i * HISTORY_CHUNK_SIZE" and fit: "(i + 1) * HISTORY_CHUNK_SIZE \<le> FLASH_LENGTH"
    using assms(2) by (simp_all add: mock_log_def gui_sizes)
  have words: "unat off = i * HISTORY_CHUNK_SIZE" "unat len = HISTORY_CHUNK_SIZE"
    "unat (word_of_nat FLASH_LENGTH :: u32) = FLASH_LENGTH"
    unfolding words_def by (rule unat_word_32, use assms(2) in \<open>simp add: gui_sizes\<close>)+
  have requests: "u32_try_from (length ?bytes) = Some off"
    "u32_try_from (min (FLASH_LENGTH - length ?bytes) HISTORY_CHUNK_SIZE) = Some len"
    "min (FLASH_LENGTH - length ?bytes) HISTORY_CHUNK_SIZE = HISTORY_CHUNK_SIZE"
    using fit unfolding size words_def by (simp_all add: u32_try_from_def gui_sizes)
  have data: "mock_history_bytes (i * HISTORY_CHUNK_SIZE) HISTORY_CHUNK_SIZE = ?more"
    using fit by (intro mock_history_bytes_log) simp
  have more: "length ?more = HISTORY_CHUNK_SIZE" "?more \<noteq> []"
    "?bytes @ ?more = take (Suc i * HISTORY_CHUNK_SIZE) mock_log"
    using fit by (simp_all add: mock_log_def gui_sizes take_add [symmetric] add.commute)
  obtain m1 where c: "svc_read_history_dump_chunk renaming_server dump off len m
      = (Inr \<lparr>hc_offset = off, hc_total_bytes = word_of_nat FLASH_LENGTH, hc_data = ?more\<rparr>, m1)"
    and m1: "serving_dump dump m1"
    using serving_dump_chunk [of dump m len off] assms(3) fit data unfolding words
    by (auto simp: reading_mock_def km MAX_CHUNK_SIZE_def gui_sizes)
  have call: "call (gui_chunk mock_gui dump off len) w
      = (Inr \<lparr>hc_offset = off, hc_total_bytes = word_of_nat FLASH_LENGTH, hc_data = ?more\<rparr>, w\<lparr>wk_env := (Suc k, m1)\<rparr>)"
    by (simp add: call_def service_gui_def calm_wire km c rpc_def)
  have "task_chunk mock_gui 0 dump FLASH_LENGTH ?bytes w
      = (next_phase False dump FLASH_LENGTH (take (Suc i * HISTORY_CHUNK_SIZE) mock_log),
         emit (chunk_progress (take (Suc i * HISTORY_CHUNK_SIZE) mock_log) FLASH_LENGTH) (w\<lparr>wk_env := (Suc k, m1)\<rparr>))"
    using assms(3) more unfolding task_chunk_def requests Let_def
    by (simp add: requests(2) [unfolded requests(3)] call words emit_def reading_mock_def)
  then show ?thesis
    using assms m1 next_phase_mock [OF assms(1), of "Suc i" dump]
    by (simp add: reading_mock_def task_step_def set_task_def emit_def)
qed

lemma reading_mock_runs:
  assumes "history_data_parse mock_log = Some h" and "reading_mock dump h 0 u"
    and "worker_run mock_gui moves_on n w u" and "i \<le> 512"
  shows "\<exists>n v. worker_run mock_gui moves_on n w v \<and> reading_mock dump h i v"
  using assms(4)
proof (induction i)
  case 0
  then show ?case using assms by blast
next
  case (Suc i)
  then obtain n v where v: "worker_run mock_gui moves_on n w v" "reading_mock dump h i v" by auto
  then have "worker_step mock_gui moves_on v (task_step mock_gui 0 v)"
    by (intro worker_step.task) (simp add: reading_mock_def)
  then show ?case
    using v reading_mock_chunk [OF assms(1) _ v(2)] Suc.prems worker_run.step by fastforce
qed

lemma mock_loads: "\<exists>dump u. reading_mock dump h 0 u
    \<and> worker_run mock_gui moves_on 2 (worker_new mock_gui (0, example_session) d) u"
proof -
  let ?w = "gui_command mock_gui UcLoadHistory (worker_new mock_gui (0, example_session) d)"
  obtain dump m where b: "svc_begin_history_dump renaming_server example_session = (Inr dump, m)"
    "unat (hd_total_bytes dump) = FLASH_LENGTH" "hd_session_id dump = 1" "serving_dump (hd_dump_id dump) m"
    using mock_begin by blast
  obtain status where st: "get_status renaming_server example_session = (status, example_session)"
    "st_session_id status = 1" "validate_status (gui_sha256 mock_gui) (gui_contract mock_gui) status = Inr ()"
    using mock_status by blast
  have open_it: "task_open mock_gui 0 ?w = (Inr (Waiting (hd_dump_id dump) FLASH_LENGTH []),
      emit (UiHistoryProgress (Finite 0) ''Opening a device history lease'' True) ?w\<lparr>wk_env := (3, m)\<rparr>)"
    using st(3) b(2,3) st(2)
    by (simp add: task_open_def bindW_def call_def emit_def start_history_def worker_new_def service_gui_def
        calm_wire rpc_def retS_def see_def st(1) open_lease_def b(1) next_phase_def FLASH_LENGTH_def)
  have "reading_mock (hd_dump_id dump) h 0 (task_step mock_gui 0 ?w)"
    using open_it b(4)
    by (simp add: task_step_def start_history_def worker_new_def reading_mock_def set_task_def emit_def)
  moreover have "worker_run mock_gui moves_on 2 (worker_new mock_gui (0, example_session) d) (task_step mock_gui 0 ?w)"
    unfolding numeral_2_eq_2
    by (rule worker_run.step [OF worker_run.step [OF worker_run.start worker_step.command] worker_step.task])
      (simp_all add: start_history_def worker_new_def)
  ultimately show ?thesis by blast
qed

lemma mock_shows:
  "\<exists>n w h. worker_run mock_gui moves_on n (worker_new mock_gui (0, example_session) d) w \<and> wk_history w = Some h"
proof -
  obtain p where "parse_history mock_log = Some p" using parse_history_trace by blast
  then obtain h where h: "history_data_parse mock_log = Some h" using history_data_parse_spec by blast
  obtain dump n v where v: "worker_run mock_gui moves_on n (worker_new mock_gui (0, example_session) d) v"
    "reading_mock dump h 512 v"
    using mock_loads reading_mock_runs [OF h, where i = 512] by blast
  obtain k m where km: "wk_env v = (k, m)" by fastforce
  obtain m1 where e: "svc_end_history_dump renaming_server dump m = (Inr (), m1)"
    using mock_end v(2) km by (auto simp: reading_mock_def)
  let ?v1 = "task_step mock_gui 0 v"
  have v1: "wk_results ?v1 = [(1, Inr h)]" "wk_generation ?v1 = 1"
    using v(2) by (simp_all add: reading_mock_def task_step_def task_close_def call_def service_gui_def calm_wire km e
        rpc_def end_task_def)
  have "worker_run mock_gui moves_on (Suc (Suc n)) (worker_new mock_gui (0, example_session) d) (receive_result ?v1)"
    using v v1 by (intro worker_run.step [OF worker_run.step [OF v(1) worker_step.task] worker_step.received])
      (simp_all add: reading_mock_def)
  moreover have "wk_history (receive_result ?v1) = Some h"
    using v1 by (simp add: receive_result_def finish_history_def operation_success_def emit_def)
  ultimately show ?thesis by blast
qed

text \<open>The read of that run is the only one, and it ends.\<close>

theorem one_history_read_at_a_time_witness:
  "\<exists>u. worker_run mock_gui (=) 2 (worker_new mock_gui (0, example_session) example_disk) u
     \<and> length (wk_tasks u) = 1 \<and> wk_history_cancel u \<noteq> None"
proof -
  obtain dump u h where u: "reading_mock dump h 0 u"
    "worker_run mock_gui (=) 2 (worker_new mock_gui (0, example_session) example_disk) u"
    using mock_loads by blast
  have "wk_history_cancel u \<noteq> None"
    using one_history_read_at_a_time [OF u(2)] u(1) by (simp add: reading_mock_def live_def)
  then show ?thesis using u by (auto simp: reading_mock_def)
qed

theorem history_read_ends_witness:
  "\<exists>k r. wk_tasks ((task_step mock_gui 0 ^^ k) (start_history (worker_new mock_gui (0, example_session) example_disk))) = []
     \<and> wk_results ((task_step mock_gui 0 ^^ k) (start_history (worker_new mock_gui (0, example_session) example_disk)))
        = [(1, r)]"
  using history_read_ends [of "start_history (worker_new mock_gui (0, example_session) example_disk)" _ "[]" mock_gui]
  by (auto simp: start_history_def worker_new_def Let_def)

end
