(* ===== verification/ConfigForm.thy ===== *)
theory ConfigForm
  imports Worker
begin

text \<open>
  The configuration form of the desktop window (\<open>crates/wireview-gui/src/app.rs\<close>): how settings are
  shown in its text fields (\<open>apply_configuration\<close>) and how the fields become the edits of a command
  (\<open>config_edits\<close>). The initial contents are those of \<open>ui/types.slint\<close>.
\<close>

section \<open>The fields\<close>

record config_form =
  cf_loaded :: bool
  cf_dirty :: bool
  cf_friendly_name :: string
  cf_fan_mode :: string
  cf_temperature_source :: string
  cf_duty_min :: string
  cf_duty_max :: string
  cf_fan_temp_min :: string
  cf_fan_temp_max :: string
  cf_backlight :: string
  cf_averaging :: string
  cf_logging_interval :: string
  cf_shutdown_wait :: string
  cf_default_screen :: string
  cf_poll_interval :: string
  cf_fault_temperature :: string
  cf_fault_total_current :: string
  cf_fault_wire_current :: string
  cf_fault_total_power :: string
  cf_fault_imbalance :: string
  cf_fault_min_load :: string
  cf_actions_display :: string
  cf_actions_buzzer :: string
  cf_actions_soft_power :: string
  cf_actions_hard_power :: string
  cf_current_scale :: string
  cf_power_scale :: string
  cf_rotation :: string
  cf_timeout_mode :: string
  cf_cycle_screens :: string
  cf_cycle_time :: string
  cf_display_timeout :: string
  cf_primary_color :: string
  cf_secondary_color :: string
  cf_highlight_color :: string
  cf_background_color :: string
  cf_background_mode :: string
  cf_fan_theme :: string
  cf_inverted :: bool

definition config_form_initial :: config_form where
  "config_form_initial = \<lparr>cf_loaded = False, cf_dirty = False, cf_friendly_name = [], cf_fan_mode = ''curve'',
     cf_temperature_source = ''maximum'', cf_duty_min = ''0'', cf_duty_max = ''100'', cf_fan_temp_min = ''50.0'',
     cf_fan_temp_max = ''80.0'', cf_backlight = ''100'', cf_averaging = ''1417'', cf_logging_interval = ''60'',
     cf_shutdown_wait = ''10'', cf_default_screen = ''main'', cf_poll_interval = ''500'',
     cf_fault_temperature = ''80.0'', cf_fault_total_current = ''55'', cf_fault_wire_current = ''10.5'',
     cf_fault_total_power = ''660'', cf_fault_imbalance = ''40'', cf_fault_min_load = ''6'',
     cf_actions_display = ''sensor_over_temperature,over_current,wire_over_current,over_power,current_imbalance'',
     cf_actions_buzzer = ''sensor_over_temperature,over_current,wire_over_current,over_power'',
     cf_actions_soft_power = ''none'',
     cf_actions_hard_power = ''sensor_over_temperature,over_current,wire_over_current,over_power'',
     cf_current_scale = ''10'', cf_power_scale = ''watts600'', cf_rotation = ''0'', cf_timeout_mode = ''static'',
     cf_cycle_screens = ''main,current,temperature'', cf_cycle_time = ''10'', cf_display_timeout = ''30'',
     cf_primary_color = ''FFFFFF'', cf_secondary_color = ''646464'', cf_highlight_color = ''E64121'',
     cf_background_color = ''000000'', cf_background_mode = ''thermal_grizzly_orange'',
     cf_fan_theme = ''thermal_grizzly_orange'', cf_inverted = False\<rparr>"

section \<open>Showing settings\<close>

text \<open>The name of an enum as its JSON value has it.\<close>

fun json_enum :: "json \<Rightarrow> string" where
  "json_enum (JString s) = s"
| "json_enum _ = ''unknown''"

definition name_list :: "string list \<Rightarrow> string" where
  "name_list names = (if names = [] then ''none'' else join_with '','' names)"

definition fault_actions_text :: "fault_kind list \<Rightarrow> string" where
  "fault_actions_text values = name_list (map (\<lambda>value. json_enum (JString (fault_name value))) values)"

definition screen_list_text :: "config_screen list \<Rightarrow> string" where
  "screen_list_text values = name_list (map (\<lambda>value. json_enum (JString (config_screen_name value))) values)"

definition color_hex :: "u32 \<Rightarrow> string" where
  "color_hex value =
    (if value AND 0xff000000 = 0xff000000 then hex_digits hex_upper 6 (unat (value AND 0x00ffffff))
     else hex_digits hex_upper 8 (unat value))"

definition show_settings :: "device_settings \<Rightarrow> u64 \<Rightarrow> config_form \<Rightarrow> config_form" where
  "show_settings settings poll_interval_ms form =
    (let f = set_fan settings; t = set_fault_thresholds settings; a = set_fault_actions settings;
         d = set_display settings
     in \<lparr>cf_loaded = True, cf_dirty = False,
       cf_friendly_name = set_friendly_name settings,
       cf_fan_mode = json_enum (JString (fan_mode_name (fan_mode_of f))),
       cf_temperature_source = json_enum (JString (temperature_source_name (temperature_source_of f))),
       cf_duty_min = show_nat (unat (duty_min_percent f)),
       cf_duty_max = show_nat (unat (duty_max_percent f)),
       cf_fan_temp_min = show_fixed 1 (temperature_min_c f),
       cf_fan_temp_max = show_fixed 1 (temperature_max_c f),
       cf_backlight = show_nat (unat (set_backlight_percent settings)),
       cf_averaging = show_nat (unat (set_averaging_ms settings)),
       cf_logging_interval = show_nat (unat (set_logging_interval_seconds settings)),
       cf_shutdown_wait = show_nat (unat (set_shutdown_wait_seconds settings)),
       cf_default_screen = json_enum (JString (config_screen_name (default_screen d))),
       cf_poll_interval = show_nat (unat poll_interval_ms),
       cf_fault_temperature = show_fixed 1 (limit_temperature_c t),
       cf_fault_total_current = show_nat (unat (limit_total_current_a t)),
       cf_fault_wire_current = show_fixed 1 (limit_wire_current_a t),
       cf_fault_total_power = show_nat (unat (limit_total_power_w t)),
       cf_fault_imbalance = show_nat (unat (current_imbalance_percent t)),
       cf_fault_min_load = show_nat (unat (current_imbalance_min_load_a t)),
       cf_actions_display = fault_actions_text (act_display a),
       cf_actions_buzzer = fault_actions_text (act_buzzer a),
       cf_actions_soft_power = fault_actions_text (act_soft_power a),
       cf_actions_hard_power = fault_actions_text (act_hard_power a),
       cf_current_scale = show_nat (unat (current_scale_a d)),
       cf_power_scale = json_enum (JString (power_scale_name (power_scale_of d))),
       cf_rotation = show_nat (unat (rotation_degrees d)),
       cf_timeout_mode = json_enum (JString (timeout_mode_name (timeout_mode_of d))),
       cf_cycle_screens = screen_list_text (cycle_screens d),
       cf_cycle_time = show_nat (unat (cycle_time_seconds d)),
       cf_display_timeout = show_nat (unat (timeout_seconds d)),
       cf_primary_color = color_hex (primary_color d),
       cf_secondary_color = color_hex (secondary_color d),
       cf_highlight_color = color_hex (highlight_color d),
       cf_background_color = color_hex (background_color d),
       cf_background_mode = json_enum (JString (background_name (background_of d))),
       cf_fan_theme = json_enum (JString (fan_theme_name (fan_theme_of d))),
       cf_inverted = inverted d\<rparr>)"

section \<open>Reading the fields\<close>

text \<open>\<open>str::parse::<u64>\<close>: an optional plus and decimal digits that fit.\<close>

definition digit_value :: "char \<Rightarrow> nat option" where
  "digit_value c = (let n = (of_char c :: nat) in if 48 \<le> n \<and> n \<le> 57 then Some (n - 48) else None)"

definition from_decimal :: "string \<Rightarrow> nat" where
  "from_decimal s = foldl (\<lambda>acc c. acc * 10 + (case digit_value c of None \<Rightarrow> 0 | Some d \<Rightarrow> d)) 0 s"

definition parse_u64 :: "string \<Rightarrow> u64 option" where
  "parse_u64 s =
    (let digits = (case s of [] \<Rightarrow> [] | c # after \<Rightarrow> if c = CHR ''+'' then after else s)
     in if digits = [] \<or> list_ex (\<lambda>c. digit_value c = None) digits \<or> 2 ^ 64 \<le> from_decimal digits then None
        else Some (word_of_nat (from_decimal digits)))"

definition show_bool :: "bool \<Rightarrow> string" where
  "show_bool b = (if b then ''true'' else ''false'')"

definition form_items :: "config_form \<Rightarrow> (string \<times> string) list" where
  "form_items form =
     [(''friendly_name'', cf_friendly_name form),
      (''fan.mode'', cf_fan_mode form),
      (''fan.temperature_source'', cf_temperature_source form),
      (''fan.duty_min_percent'', cf_duty_min form),
      (''fan.duty_max_percent'', cf_duty_max form),
      (''fan.temperature_min_c'', cf_fan_temp_min form),
      (''fan.temperature_max_c'', cf_fan_temp_max form),
      (''backlight_percent'', cf_backlight form),
      (''averaging_ms'', cf_averaging form),
      (''logging_interval_seconds'', cf_logging_interval form),
      (''shutdown_wait_seconds'', cf_shutdown_wait form),
      (''display.default_screen'', cf_default_screen form),
      (''fault_thresholds.temperature_c'', cf_fault_temperature form),
      (''fault_thresholds.total_current_a'', cf_fault_total_current form),
      (''fault_thresholds.wire_current_a'', cf_fault_wire_current form),
      (''fault_thresholds.total_power_w'', cf_fault_total_power form),
      (''fault_thresholds.current_imbalance_percent'', cf_fault_imbalance form),
      (''fault_thresholds.current_imbalance_min_load_a'', cf_fault_min_load form),
      (''fault_actions.display'', cf_actions_display form),
      (''fault_actions.buzzer'', cf_actions_buzzer form),
      (''fault_actions.soft_power'', cf_actions_soft_power form),
      (''fault_actions.hard_power'', cf_actions_hard_power form),
      (''display.current_scale_a'', cf_current_scale form),
      (''display.power_scale'', cf_power_scale form),
      (''display.rotation_degrees'', cf_rotation form),
      (''display.timeout_mode'', cf_timeout_mode form),
      (''display.cycle_screens'', cf_cycle_screens form),
      (''display.cycle_time_seconds'', cf_cycle_time form),
      (''display.timeout_seconds'', cf_display_timeout form),
      (''display.primary_color'', cf_primary_color form),
      (''display.secondary_color'', cf_secondary_color form),
      (''display.highlight_color'', cf_highlight_color form),
      (''display.background_color'', cf_background_color form),
      (''display.background'', cf_background_mode form),
      (''display.fan_theme'', cf_fan_theme form),
      (''display.inverted'', show_bool (cf_inverted form))]"

definition form_edits :: "config_form \<Rightarrow> client_error + config_edits" where
  "form_edits form = (case parse_u64 (trim (cf_poll_interval form)) of
       None \<Rightarrow> Inl (CInvalidInput ''poll interval must be an integer'')
     | Some poll_interval_ms \<Rightarrow> config_edits_new (form_items form) poll_interval_ms)"

end
