(* ===== verification/Window.thy ===== *)
theory Window
  imports ConfigForm Graph
begin

text \<open>
  The desktop window (\<open>crates/wireview-gui/src/app.rs\<close>): the properties it shows as records, one
  function per handler of \<open>apply_event\<close>, the graph callbacks, and the commands its buttons send. Its
  initial contents are those of \<open>ui/types.slint\<close>. The toolkit, the tray icon and the pixels of the
  application icon are not modelled; the page shown and the wall clock are arguments.
\<close>

section \<open>What the window shows\<close>

record status_panel =
  sp_daemon_online :: bool
  sp_device_ready :: bool
  sp_stale :: bool
  sp_connection_label :: string
  sp_connection_detail :: string
  sp_sample_age :: string
  sp_daemon_version :: string
  sp_daemon_build :: string
  sp_connected_port :: string
  sp_session_label :: string
  sp_busy_operation :: string
  sp_operation_state :: string
  sp_operation_message :: string

record pin_view =
  pv_id :: string
  pv_current :: f32
  pv_current_label :: string
  pv_voltage :: f32
  pv_voltage_label :: string
  pv_power :: f32
  pv_power_label :: string
  pv_deviation :: f32
  pv_deviation_label :: string
  pv_load :: f32
  pv_alert :: bool

record fault_view =
  fv_name :: string
  fv_label :: string
  fv_detail :: string
  fv_action :: string
  fv_mask :: int
  fv_active :: bool
  fv_recorded :: bool
  fv_known :: bool

record readings_panel =
  rp_total_power :: f32
  rp_total_power_label :: string
  rp_total_current :: f32
  rp_total_current_label :: string
  rp_mean_current_label :: string
  rp_average_voltage :: f32
  rp_average_voltage_label :: string
  rp_controller_vdd :: f32
  rp_controller_vdd_label :: string
  rp_input_temperature :: f32
  rp_input_temperature_label :: string
  rp_output_temperature :: f32
  rp_output_temperature_label :: string
  rp_external_1_present :: bool
  rp_external_1_temperature :: f32
  rp_external_1_temperature_label :: string
  rp_external_2_present :: bool
  rp_external_2_temperature :: f32
  rp_external_2_temperature_label :: string
  rp_fan_duty :: f32
  rp_fan_duty_label :: string
  rp_cable_capability :: int
  rp_cable_capability_label :: string
  rp_pins :: "pin_view list"
  rp_geometry_read :: string

record fault_panel =
  fp_faults :: "fault_view list"
  fp_row_count :: int
  fp_active_mask :: int
  fp_logged_mask :: int
  fp_unknown_active_mask :: int
  fp_unknown_logged_mask :: int
  fp_active_hex :: string
  fp_logged_hex :: string
  fp_unknown_active_hex :: string
  fp_unknown_logged_hex :: string
  fp_active_count :: int
  fp_recorded_count :: int

text \<open>The limits faults are compared with; the window keeps them as \<open>f32\<close>.\<close>

record fault_limits =
  fl_temperature :: f64
  fl_total_current :: f64
  fl_wire_current :: f64
  fl_total_power :: f64
  fl_imbalance :: f64
  fl_minimum_load :: f64

record graph_panel =
  gp_kind :: string
  gp_title :: string
  gp_series_count :: int
  gp_window_seconds :: int
  gp_window_axis_label :: string
  gp_paused :: bool
  gp_labels :: "string list"
  gp_visible :: "bool list"
  gp_paths :: "string list"
  gp_values :: "string list"
  gp_range_label :: string
  gp_y_max_label :: string
  gp_y_mid_label :: string
  gp_y_min_label :: string
  gp_summary_name :: string
  gp_summary_value :: string
  gp_sample_count :: int
  gp_buffer_label :: string
  gp_overview_path :: string
  gp_overview_range :: string
  gp_overview_sample_count :: int

record history_row_view =
  hv_device_time :: string
  hv_power :: string
  hv_current :: string
  hv_voltage :: string
  hv_input_temp :: string

record history_panel =
  hp_loading :: bool
  hp_loaded :: bool
  hp_progress :: f32
  hp_entry_count :: int
  hp_row_count :: int
  hp_end_found :: bool
  hp_status :: string
  hp_rows :: "history_row_view list"

record theme_slot_view =
  tv_id :: string
  tv_label :: string
  tv_geometry :: string
  tv_status :: string

datatype image = NoImage | Rgb8 u32 u32 "(u8 \<times> u8 \<times> u8) list"

record theme_panel =
  tp_slots :: "theme_slot_view list"
  tp_selected_slot :: string
  tp_status :: string
  tp_preview :: image
  tp_preview_available :: bool

record device_panel =
  dp_name :: string
  dp_uid :: string
  dp_firmware_version :: string
  dp_hardware_revision :: string
  dp_config_version :: string
  dp_build :: string
  dp_capabilities :: string

text \<open>The window with its page, its form and the graph state it shares with the telemetry handler.\<close>

record main_window =
  wd_page :: int
  wd_status :: status_panel
  wd_readings :: readings_panel
  wd_faults :: fault_panel
  wd_limits :: fault_limits
  wd_wire_limit_label :: string
  wd_graph_panel :: graph_panel
  wd_form :: config_form
  wd_current_screen :: string
  wd_screen_choice :: string
  wd_history :: history_panel
  wd_themes :: theme_panel
  wd_device :: device_panel
  wd_graphs :: graph_state

section \<open>Small functions\<close>

definition saturating_i32 :: "nat \<Rightarrow> int" where
  "saturating_i32 value = int (min value (2 ^ 31 - 1))"

definition nonempty_or :: "string \<Rightarrow> string \<Rightarrow> string" where
  "nonempty_or value fallback = (if value = [] then fallback else value)"

definition round_to :: "f64 \<Rightarrow> nat \<Rightarrow> f32" where
  "round_to value decimal_places =
    (let factor = 10 ^ decimal_places
     in f32_of_f64 (f64_div_const (f64_round (f64_mul value (Finite factor))) factor))"

text \<open>\<open>{:+.p}\<close>.\<close>

definition show_signed :: "nat \<Rightarrow> f64 \<Rightarrow> string" where
  "show_signed p x = (if x = NaN \<or> f64_less x (Finite 0) then show_fixed p x else ''+'' @ show_fixed p x)"

definition sample_age_label :: "u64 \<Rightarrow> bool \<Rightarrow> string" where
  "sample_age_label age_ms is_stale =
    (let prefix = (if is_stale then ''STALE '' else ''SAMPLE '')
     in if age_ms < 1000 then prefix @ show_nat (unat age_ms) @ '' MS''
        else prefix @ show_fixed 1 (f64_div_const (f64_of_int (uint age_ms)) 1000) @ '' S'')"

definition show_hex4 :: "u16 \<Rightarrow> string" where
  "show_hex4 w = hex_digits hex_upper 4 (unat w)"

definition set_operation :: "string \<Rightarrow> string \<Rightarrow> main_window \<Rightarrow> main_window" where
  "set_operation operation message wd = wd\<lparr>wd_status := (wd_status wd)
     \<lparr>sp_operation_state := operation, sp_operation_message := message\<rparr>\<rparr>"

section \<open>Faults\<close>

record fault_definition =
  fd_mask :: u16
  fd_name :: string
  fd_label :: string
  fd_action :: string

definition FAULT_DEFINITIONS :: "fault_definition list" where
  "FAULT_DEFINITIONS =
     [\<lparr>fd_mask = 1, fd_name = ''chip_over_temperature'', fd_label = ''Chip over temperature'',
       fd_action = ''Reduce load and check WireView airflow and fan operation.''\<rparr>,
      \<lparr>fd_mask = 2, fd_name = ''sensor_over_temperature'', fd_label = ''Sensor over temperature'',
       fd_action = ''Reduce load. Reseat and inspect the connector and cable.''\<rparr>,
      \<lparr>fd_mask = 4, fd_name = ''over_current'', fd_label = ''Total over current'',
       fd_action = ''Reduce GPU load or verify the configured total-current limit.''\<rparr>,
      \<lparr>fd_mask = 8, fd_name = ''wire_over_current'', fd_label = ''Wire over current'',
       fd_action = ''Inspect and reseat the connector and cable for uneven contact.''\<rparr>,
      \<lparr>fd_mask = 16, fd_name = ''over_power'', fd_label = ''Over power'',
       fd_action = ''Reduce GPU load or verify the configured total-power limit.''\<rparr>,
      \<lparr>fd_mask = 32, fd_name = ''current_imbalance'', fd_label = ''Current imbalance'',
       fd_action = ''Reseat the connector and inspect the cable for poor contact.''\<rparr>]"

definition fault_limits_default :: fault_limits where
  "fault_limits_default = \<lparr>fl_temperature = Finite 80, fl_total_current = Finite 55,
     fl_wire_current = Finite (21 / 2), fl_total_power = Finite 660, fl_imbalance = Finite 40,
     fl_minimum_load = Finite 6\<rparr>"

definition set_active_fault_limits :: "fault_limits \<Rightarrow> main_window \<Rightarrow> main_window" where
  "set_active_fault_limits limits wd = wd\<lparr>wd_limits :=
     \<lparr>fl_temperature = f32_of_f64 (fl_temperature limits), fl_total_current = f32_of_f64 (fl_total_current limits),
      fl_wire_current = f32_of_f64 (fl_wire_current limits), fl_total_power = f32_of_f64 (fl_total_power limits),
      fl_imbalance = f32_of_f64 (fl_imbalance limits), fl_minimum_load = f32_of_f64 (fl_minimum_load limits)\<rparr>,
     wd_wire_limit_label := show_fixed 1 (fl_wire_current limits)\<rparr>"

definition empty_pins :: "pin_view list" where
  "empty_pins = map (\<lambda>index. \<lparr>pv_id = ''P'' @ show_nat index, pv_current = Finite 0, pv_current_label = ''--'',
     pv_voltage = Finite 0, pv_voltage_label = ''--'', pv_power = Finite 0, pv_power_label = ''--'',
     pv_deviation = Finite 0, pv_deviation_label = ''--'', pv_load = Finite 0, pv_alert = False\<rparr>) [1..<7]"

definition empty_faults :: "fault_view list" where
  "empty_faults = map (\<lambda>d. \<lparr>fv_name = fd_name d, fv_label = fd_label d, fv_detail = ''No active or recorded alarm'',
     fv_action = fd_action d, fv_mask = uint (fd_mask d), fv_active = False, fv_recorded = False,
     fv_known = True\<rparr>) FAULT_DEFINITIONS"

definition hottest_temperature :: "telemetry_snapshot \<Rightarrow> string \<times> f64" where
  "hottest_temperature t =
     foldl (\<lambda>hottest candidate. if f64_less (snd hottest) (snd candidate) then candidate else hottest)
       (''Input'', ts_input_temperature t)
       ([(''Output'', ts_output_temperature t)]
        @ (case ts_external_1_temperature t of None \<Rightarrow> [] | Some value \<Rightarrow> [(''External 1'', value)])
        @ (case ts_external_2_temperature t of None \<Rightarrow> [] | Some value \<Rightarrow> [(''External 2'', value)]))"

text \<open>The highest and the lowest conductor, the first of equals.\<close>

definition current_extremes :: "telemetry_snapshot \<Rightarrow> (nat \<times> f64) \<times> (nat \<times> f64)" where
  "current_extremes t =
    (let first = (0, current_a (ts_pins t ! 0))
     in foldl (\<lambda>(high, low) (index, pin).
          (if f64_less (snd high) (current_a pin) then (index, current_a pin) else high,
           if f64_less (current_a pin) (snd low) then (index, current_a pin) else low))
        (first, first) (tl (enumerate 0 (ts_pins t))))"

definition EPSILON :: f64 where "EPSILON = Finite (pow2 (- 52))"

definition current_spread_percent :: "telemetry_snapshot \<Rightarrow> f64" where
  "current_spread_percent t =
    (let low = foldl float_min (Infinite False) (map current_a (ts_pins t));
         high = foldl float_max (Infinite True) (map current_a (ts_pins t))
     in if f64_less (f64_abs (ts_total_current t)) EPSILON then Finite 0
        else f64_mul (f64_div (f64_sub high low) (f64_div_const (ts_total_current t) 6)) (Finite 100))"

definition geometry_read :: "telemetry_snapshot \<Rightarrow> f64 \<Rightarrow> string" where
  "geometry_read t wire_limit =
    (let spread = current_spread_percent t;
         over_limit = length (filter (\<lambda>pin. f64_less wire_limit (current_a pin)) (ts_pins t))
     in if 0 < over_limit then
          show_nat over_limit @ '' conductor(s) exceed '' @ show_fixed 1 wire_limit @ '' A; spread is ''
            @ show_fixed 1 spread @ ''%''
        else ''All conductors are within '' @ show_fixed 1 wire_limit @ '' A; spread is '' @ show_fixed 1 spread @ ''%'')"

definition fault_detail ::
  "u16 \<Rightarrow> bool \<Rightarrow> bool \<Rightarrow> telemetry_snapshot \<Rightarrow> fault_limits \<Rightarrow> string" where
  "fault_detail fault_mask active recorded t limits =
    (if \<not> active \<and> \<not> recorded then ''No active or recorded alarm''
     else if fault_mask = 1 then ''The device's internal safety temperature was exceeded''
     else if fault_mask = 2 then
       (case hottest_temperature t of (source, temperature) \<Rightarrow>
          source @ '' '' @ show_fixed 1 temperature @ '' C now / '' @ show_fixed 1 (fl_temperature limits) @ '' C limit'')
     else if fault_mask = 4 then
       show_fixed 2 (ts_total_current t) @ '' A now / '' @ show_fixed 0 (fl_total_current limits) @ '' A total limit''
     else if fault_mask = 8 then
       (case current_extremes t of ((high_index, highest), _) \<Rightarrow>
          ''P'' @ show_nat (high_index + 1) @ '' '' @ show_fixed 2 highest @ '' A now / ''
            @ show_fixed 1 (fl_wire_current limits) @ '' A per-conductor limit'')
     else if fault_mask = 16 then
       show_fixed 1 (ts_total_power t) @ '' W now / '' @ show_fixed 0 (fl_total_power limits) @ '' W total limit''
     else if fault_mask = 32 then
       (case current_extremes t of ((high_index, highest), (low_index, lowest)) \<Rightarrow>
          ''P'' @ show_nat (high_index + 1) @ '' '' @ show_fixed 2 highest @ '' A high, P''
            @ show_nat (low_index + 1) @ '' '' @ show_fixed 2 lowest @ '' A low / ''
            @ show_fixed 0 (fl_imbalance limits) @ ''% above '' @ show_fixed 0 (fl_minimum_load limits) @ '' A load'')
     else ''Device fault register asserted'')"

definition fault_row :: "telemetry_snapshot \<Rightarrow> fault_limits \<Rightarrow> fault_definition \<Rightarrow> fault_view" where
  "fault_row t limits d =
    (let active = ts_active_fault_mask t AND fd_mask d \<noteq> 0; recorded = ts_logged_fault_mask t AND fd_mask d \<noteq> 0
     in \<lparr>fv_name = fd_name d, fv_label = fd_label d, fv_detail = fault_detail (fd_mask d) active recorded t limits,
         fv_action = fd_action d, fv_mask = uint (fd_mask d), fv_active = active, fv_recorded = recorded,
         fv_known = True\<rparr>)"

definition unknown_fault_row :: "telemetry_snapshot \<Rightarrow> fault_view" where
  "unknown_fault_row t =
     \<lparr>fv_name = ''unknown_bits'', fv_label = ''Unknown register bits'',
      fv_detail = ''Preserved for diagnosis. This client will not clear unknown bits.'',
      fv_action = ''Update wireviewd before diagnosing or clearing this firmware bit.'', fv_mask = 0,
      fv_active = ts_unknown_active_fault_mask t \<noteq> 0, fv_recorded = ts_unknown_logged_fault_mask t \<noteq> 0,
      fv_known = False\<rparr>"

definition fault_rows :: "telemetry_snapshot \<Rightarrow> fault_limits \<Rightarrow> fault_view list" where
  "fault_rows t limits = map (fault_row t limits) FAULT_DEFINITIONS
     @ (if ts_unknown_active_fault_mask t \<noteq> 0 \<or> ts_unknown_logged_fault_mask t \<noteq> 0 then [unknown_fault_row t] else [])"

definition apply_faults :: "telemetry_snapshot \<Rightarrow> main_window \<Rightarrow> main_window" where
  "apply_faults t wd =
    (let faults = fault_rows t (wd_limits wd) in wd\<lparr>wd_faults :=
       \<lparr>fp_faults = faults, fp_row_count = saturating_i32 (length faults),
        fp_active_mask = uint (ts_active_fault_mask t), fp_logged_mask = uint (ts_logged_fault_mask t),
        fp_unknown_active_mask = uint (ts_unknown_active_fault_mask t),
        fp_unknown_logged_mask = uint (ts_unknown_logged_fault_mask t),
        fp_active_hex = show_hex4 (ts_active_fault_mask t), fp_logged_hex = show_hex4 (ts_logged_fault_mask t),
        fp_unknown_active_hex = show_hex4 (ts_unknown_active_fault_mask t),
        fp_unknown_logged_hex = show_hex4 (ts_unknown_logged_fault_mask t),
        fp_active_count = saturating_i32 (count_ones (ts_active_fault_mask t)),
        fp_recorded_count = saturating_i32 (count_ones (ts_logged_fault_mask t))\<rparr>\<rparr>)"

section \<open>Graphs\<close>

definition apply_graph_metadata :: "graph_metadata \<Rightarrow> main_window \<Rightarrow> main_window" where
  "apply_graph_metadata metadata wd = wd\<lparr>wd_graph_panel := (wd_graph_panel wd)
     \<lparr>gp_kind := gm_kind metadata, gp_title := gm_title metadata,
      gp_series_count := saturating_i32 (gm_series_count metadata),
      gp_window_seconds := saturating_i32 (unat (gm_window_seconds metadata)),
      gp_window_axis_label := gm_window_axis_label metadata, gp_paused := gm_paused metadata,
      gp_labels := gm_labels metadata, gp_visible := gm_visible metadata\<rparr>\<rparr>"

definition apply_graph_frame :: "graph_frame \<Rightarrow> main_window \<Rightarrow> main_window" where
  "apply_graph_frame frame wd = wd\<lparr>wd_graph_panel := (wd_graph_panel wd)
     \<lparr>gp_paths := gf_paths frame, gp_values := gf_values frame, gp_range_label := gf_range_label frame,
      gp_y_max_label := gf_y_max_label frame, gp_y_mid_label := gf_y_mid_label frame,
      gp_y_min_label := gf_y_min_label frame, gp_summary_name := gf_summary_name frame,
      gp_summary_value := gf_summary_value frame, gp_sample_count := saturating_i32 (gf_sample_count frame),
      gp_buffer_label := show_nat (gf_buffer_count frame) @ '' / '' @ show_nat SAMPLE_LIMIT\<rparr>\<rparr>"

definition apply_overview_frame :: "overview_frame \<Rightarrow> main_window \<Rightarrow> main_window" where
  "apply_overview_frame frame wd = wd\<lparr>wd_graph_panel := (wd_graph_panel wd)
     \<lparr>gp_overview_path := of_path frame, gp_overview_range := of_range_label frame,
      gp_overview_sample_count := saturating_i32 (of_sample_count frame)\<rparr>\<rparr>"

definition update_graph :: "(graph_state \<Rightarrow> graph_state) \<Rightarrow> main_window \<Rightarrow> main_window" where
  "update_graph update wd =
    (let graph = update (wd_graphs wd)
     in apply_graph_frame (graph_frame_of graph) (apply_graph_metadata (graph_metadata_of graph)
          (wd\<lparr>wd_graphs := graph\<rparr>)))"

definition render_graph :: "main_window \<Rightarrow> main_window" where
  "render_graph = update_graph id"

definition render_overview_graph :: "main_window \<Rightarrow> main_window" where
  "render_overview_graph wd = apply_overview_frame (overview_frame_of (wd_graphs wd)) wd"

text \<open>The graph page's callbacks; an input that is not one of its own is ignored.\<close>

definition on_select_graph_kind :: "string \<Rightarrow> main_window \<Rightarrow> main_window" where
  "on_select_graph_kind kind wd = (case graph_kind_parse kind of
     None \<Rightarrow> wd | Some kind \<Rightarrow> update_graph (select_kind kind) wd)"

definition on_set_graph_window :: "int \<Rightarrow> main_window \<Rightarrow> main_window" where
  "on_set_graph_window seconds wd =
    (if seconds < 0 then wd else update_graph (set_window_seconds (word_of_int seconds)) wd)"

definition on_toggle_graph_series :: "int \<Rightarrow> main_window \<Rightarrow> main_window" where
  "on_toggle_graph_series index wd = (if index < 0 then wd else update_graph (toggle_series (nat index)) wd)"

definition on_toggle_graph_paused :: "main_window \<Rightarrow> main_window" where
  "on_toggle_graph_paused = update_graph toggle_paused"

definition on_clear_graph :: "main_window \<Rightarrow> main_window" where
  "on_clear_graph wd = render_overview_graph (update_graph clear_history wd)"

section \<open>Telemetry\<close>

definition readings_empty :: readings_panel where
  "readings_empty = \<lparr>rp_total_power = Finite 0, rp_total_power_label = ''--'', rp_total_current = Finite 0,
     rp_total_current_label = ''--'', rp_mean_current_label = ''--'', rp_average_voltage = Finite 0,
     rp_average_voltage_label = ''--'', rp_controller_vdd = Finite 0, rp_controller_vdd_label = ''--'',
     rp_input_temperature = Finite 0, rp_input_temperature_label = ''--'', rp_output_temperature = Finite 0,
     rp_output_temperature_label = ''--'', rp_external_1_present = False, rp_external_1_temperature = Finite 0,
     rp_external_1_temperature_label = ''NOT FITTED'', rp_external_2_present = False,
     rp_external_2_temperature = Finite 0, rp_external_2_temperature_label = ''NOT FITTED'',
     rp_fan_duty = Finite 0, rp_fan_duty_label = ''--'', rp_cable_capability = 0, rp_cable_capability_label = ''--'',
     rp_pins = empty_pins, rp_geometry_read = ''No complete six-conductor sample''\<rparr>"

definition faults_empty :: fault_panel where
  "faults_empty = \<lparr>fp_faults = empty_faults, fp_row_count = saturating_i32 (length FAULT_DEFINITIONS),
     fp_active_mask = 0, fp_logged_mask = 0, fp_unknown_active_mask = 0, fp_unknown_logged_mask = 0,
     fp_active_hex = ''0000'', fp_logged_hex = ''0000'', fp_unknown_active_hex = ''0000'',
     fp_unknown_logged_hex = ''0000'', fp_active_count = 0, fp_recorded_count = 0\<rparr>"

definition reset_telemetry :: "main_window \<Rightarrow> main_window" where
  "reset_telemetry wd = set_active_fault_limits fault_limits_default (wd
     \<lparr>wd_status := (wd_status wd)\<lparr>sp_device_ready := False, sp_stale := True, sp_sample_age := ''WAITING FOR SAMPLE''\<rparr>,
      wd_readings := readings_empty,
      wd_graph_panel := (wd_graph_panel wd)\<lparr>gp_overview_path := [],
        gp_overview_range := ''WAITING FOR LIVE SAMPLES'', gp_overview_sample_count := 0\<rparr>,
      wd_faults := faults_empty\<rparr>)"

definition pin_row :: "telemetry_snapshot \<Rightarrow> f64 \<Rightarrow> nat \<Rightarrow> pin_metrics \<Rightarrow> pin_view" where
  "pin_row t wire_limit index pin =
    (let mean = f64_div_const (ts_total_current t) 6;
         deviation = (if f64_less (f64_abs mean) EPSILON then Finite 0
           else f64_mul (f64_div (f64_sub (current_a pin) mean) mean) (Finite 100))
     in \<lparr>pv_id = ''P'' @ show_nat (index + 1),
         pv_current = round_to (current_a pin) 2, pv_current_label = show_fixed 2 (current_a pin),
         pv_voltage = round_to (voltage_v pin) 2, pv_voltage_label = show_fixed 2 (voltage_v pin),
         pv_power = round_to (power_w pin) 1, pv_power_label = show_fixed 1 (power_w pin),
         pv_deviation = round_to deviation 1, pv_deviation_label = show_signed 1 deviation,
         pv_load = (if f64_less (Finite 0) wire_limit
           then f32_of_f64 (float_clamp (Finite 0) (Finite 1) (f64_div (current_a pin) wire_limit))
           else if f64_less (Finite 0) (current_a pin) then Finite 1 else Finite 0),
         pv_alert = f64_less wire_limit (current_a pin)\<rparr>)"

definition external_label :: "f64 option \<Rightarrow> string" where
  "external_label v = (case v of None \<Rightarrow> ''NOT FITTED'' | Some value \<Rightarrow> show_fixed 1 value)"

definition external_value :: "f64 option \<Rightarrow> f32" where
  "external_value v = round_to (case v of None \<Rightarrow> Finite 0 | Some value \<Rightarrow> value) 1"

definition readings_of :: "telemetry_snapshot \<Rightarrow> f64 \<Rightarrow> readings_panel" where
  "readings_of t wire_limit =
     \<lparr>rp_total_power = round_to (ts_total_power t) 1, rp_total_power_label = show_fixed 1 (ts_total_power t),
      rp_total_current = round_to (ts_total_current t) 2, rp_total_current_label = show_fixed 2 (ts_total_current t),
      rp_mean_current_label = show_fixed 2 (f64_div_const (ts_total_current t) 6),
      rp_average_voltage = round_to (ts_average_voltage t) 2, rp_average_voltage_label = show_fixed 2 (ts_average_voltage t),
      rp_controller_vdd = round_to (ts_controller_vdd t) 2, rp_controller_vdd_label = show_fixed 2 (ts_controller_vdd t),
      rp_input_temperature = round_to (ts_input_temperature t) 1,
      rp_input_temperature_label = show_fixed 1 (ts_input_temperature t),
      rp_output_temperature = round_to (ts_output_temperature t) 1,
      rp_output_temperature_label = show_fixed 1 (ts_output_temperature t),
      rp_external_1_present = (ts_external_1_temperature t \<noteq> None),
      rp_external_1_temperature = external_value (ts_external_1_temperature t),
      rp_external_1_temperature_label = external_label (ts_external_1_temperature t),
      rp_external_2_present = (ts_external_2_temperature t \<noteq> None),
      rp_external_2_temperature = external_value (ts_external_2_temperature t),
      rp_external_2_temperature_label = external_label (ts_external_2_temperature t),
      rp_fan_duty = round_to (ts_fan_duty t) 1, rp_fan_duty_label = show_fixed 0 (ts_fan_duty t),
      rp_cable_capability = uint (ts_cable_capability t),
      rp_cable_capability_label = show_nat (unat (ts_cable_capability t)),
      rp_pins = map (\<lambda>(index, pin). pin_row t wire_limit index pin) (enumerate 0 (ts_pins t)),
      rp_geometry_read = geometry_read t wire_limit\<rparr>"

definition GRAPHS_PAGE_INDEX :: int where "GRAPHS_PAGE_INDEX = 7"
definition OVERVIEW_PAGE_INDEX :: int where "OVERVIEW_PAGE_INDEX = 0"

text \<open>\<open>clock\<close> is \<open>unix_time_ms\<close>.\<close>

definition apply_telemetry :: "u64 \<Rightarrow> telemetry_snapshot \<Rightarrow> main_window \<Rightarrow> main_window" where
  "apply_telemetry clock t wd0 =
    (let (outcome, graph) = record_sample t (wd_graphs wd0);
         graph_shown = (appended outcome \<and> wd_page wd0 = GRAPHS_PAGE_INDEX \<and> \<not> g_paused graph);
         overview_shown = (appended outcome \<and> wd_page wd0 = OVERVIEW_PAGE_INDEX);
         wd1 = wd0\<lparr>wd_graphs := graph\<rparr>;
         wd2 = (if session_reset outcome then reset_telemetry wd1 else wd1);
         wd3 = wd2\<lparr>wd_status := (wd_status wd2)\<lparr>sp_device_ready := True, sp_stale := ts_stale t,
           sp_sample_age := sample_age_label (saturating_sub clock (ts_observed_at_ms t)) (ts_stale t)\<rparr>\<rparr>
     in if \<not> appended outcome then wd3
        else
          let wd4 = apply_faults t (wd3\<lparr>wd_readings := readings_of t (fl_wire_current (wd_limits wd3))\<rparr>);
              wd5 = (if graph_shown then apply_graph_frame (graph_frame_of graph) wd4 else wd4)
          in if overview_shown then apply_overview_frame (overview_frame_of graph) wd5 else wd5)"

section \<open>Status, configuration and sessions\<close>

definition status_label :: "status_dto \<Rightarrow> string \<times> string" where
  "status_label status =
    (let st = st_state status in
     if st = ''ready'' then (''READY'', ''Connected on '' @ st_connected_port status)
     else if st = ''busy'' then (''BUSY'', nonempty_or (st_busy_operation status) ''Device operation in progress'')
     else if st = ''absent'' then
       (''NO DEVICE'', nonempty_or (st_last_disconnect_reason status) ''No compatible device detected'')
     else if st = ''ambiguous'' then
       (''MULTIPLE'', show_nat (length (st_candidates status)) @ '' candidate devices detected'')
     else if st = ''unsupported'' then
       (''UNSUPPORTED'', nonempty_or (st_recovery_cause status) ''Unsupported device or firmware'')
     else if st = ''recovering'' then
       (''RECOVERING'', nonempty_or (st_recovery_cause status) ''Re-establishing the device session'')
     else (''CONNECTING'', ''Daemon state: '' @ st))"

definition apply_status :: "status_dto \<Rightarrow> main_window \<Rightarrow> main_window" where
  "apply_status status wd =
    (let ready = (st_state status = ''ready'' \<or> st_state status = ''busy'')
     in wd\<lparr>wd_status := (wd_status wd)
          \<lparr>sp_daemon_online := True, sp_device_ready := ready,
           sp_connection_label := fst (status_label status), sp_connection_detail := snd (status_label status),
           sp_daemon_version := ''wireviewd '' @ st_daemon_version status,
           sp_daemon_build := st_daemon_build_id status, sp_connected_port := st_connected_port status,
           sp_session_label := ''SESSION '' @ show_padded 2 (unat (st_session_id status)),
           sp_busy_operation := st_busy_operation status,
           sp_stale := (if ready then sp_stale (wd_status wd) else True)\<rparr>,
          wd_form := (if cf_dirty (wd_form wd) then wd_form wd
            else (wd_form wd)\<lparr>cf_poll_interval := show_nat (unat (st_poll_interval_ms status))\<rparr>)\<rparr>)"

definition apply_offline :: "string \<Rightarrow> main_window \<Rightarrow> main_window" where
  "apply_offline reason wd =
    (let wd1 = wd\<lparr>wd_status := (wd_status wd)
           \<lparr>sp_daemon_online := False, sp_device_ready := False, sp_stale := True,
            sp_connection_label := ''OFFLINE'', sp_connection_detail := reason,
            sp_sample_age := ''NO LIVE SAMPLE'', sp_busy_operation := []\<rparr>,
          wd_form := (wd_form wd)\<lparr>cf_loaded := False\<rparr>\<rparr>
     in if sp_operation_state (wd_status wd1) = ''running'' then set_operation ''error'' reason wd1 else wd1)"

definition limits_of :: "fault_thresholds \<Rightarrow> fault_limits" where
  "limits_of t = \<lparr>fl_temperature = limit_temperature_c t,
     fl_total_current = f64_of_int (uint (limit_total_current_a t)), fl_wire_current = limit_wire_current_a t,
     fl_total_power = f64_of_int (uint (limit_total_power_w t)),
     fl_imbalance = f64_of_int (uint (current_imbalance_percent t)),
     fl_minimum_load = f64_of_int (uint (current_imbalance_min_load_a t))\<rparr>"

definition apply_configuration_event :: "device_settings \<Rightarrow> u64 \<Rightarrow> main_window \<Rightarrow> main_window" where
  "apply_configuration_event settings poll_interval_ms wd =
     set_active_fault_limits (limits_of (set_fault_thresholds settings))
       (wd\<lparr>wd_form := show_settings settings poll_interval_ms (wd_form wd)\<rparr>)"

fun theme_slot_label :: "theme_asset_slot \<Rightarrow> string" where
  "theme_slot_label BackgroundOrange = ''Background orange''"
| "theme_slot_label BackgroundDark = ''Background dark''"
| "theme_slot_label FanOrange1 = ''Fan orange 1''"
| "theme_slot_label FanOrange2 = ''Fan orange 2''"
| "theme_slot_label FanDark1 = ''Fan dark 1''"
| "theme_slot_label FanDark2 = ''Fan dark 2''"
| "theme_slot_label FanBlackWhite1 = ''Fan black and white 1''"
| "theme_slot_label FanBlackWhite2 = ''Fan black and white 2''"

text \<open>\<open>theme_slots(None, None)\<close>, the only arguments it is given.\<close>

definition theme_slots :: "theme_slot_view list" where
  "theme_slots = map (\<lambda>slot. \<lparr>tv_id = slot_name slot, tv_label = theme_slot_label slot,
     tv_geometry = show_nat (unat (slot_width slot)) @ '' x '' @ show_nat (unat (slot_height slot)) @ '' / ''
       @ show_nat (slot_byte_len slot) @ '' bytes'',
     tv_status = ''Not read''\<rparr>) all_slots"

definition history_panel_empty :: "string \<Rightarrow> history_panel" where
  "history_panel_empty status = \<lparr>hp_loading = False, hp_loaded = False, hp_progress = Finite 0, hp_entry_count = 0,
     hp_row_count = 0, hp_end_found = False, hp_status = status, hp_rows = []\<rparr>"

definition reset_window_session :: "main_window \<Rightarrow> main_window" where
  "reset_window_session wd =
    (let wd1 = render_overview_graph (render_graph (reset_telemetry (wd\<lparr>wd_graphs := reset_session (wd_graphs wd)\<rparr>)))
     in wd1\<lparr>wd_form := (wd_form wd1)\<lparr>cf_loaded := False, cf_dirty := False\<rparr>,
          wd_history := history_panel_empty ''No device history loaded for this session'',
          wd_themes := (wd_themes wd1)\<lparr>tp_preview := NoImage, tp_preview_available := False,
            tp_status := ''Read a named slot to preview its exact RGB565 bytes.'', tp_slots := theme_slots\<rparr>,
          wd_device := (wd_device wd1)\<lparr>dp_uid := ''Unavailable'', dp_firmware_version := ''Unavailable'',
            dp_hardware_revision := ''Unavailable'', dp_config_version := ''Unavailable'',
            dp_build := ''Unavailable'', dp_capabilities := ''Unavailable''\<rparr>\<rparr>)"

section \<open>Theme previews\<close>

text \<open>A channel is scaled in 16 bits; \<open>None\<close> is its \<open>expect\<close> failing.\<close>

definition channel_u8 :: "u16 \<Rightarrow> u8 option" where
  "channel_u8 v = (if v < 256 then Some (ucast v) else None)"

definition rgb565_pixel :: "u8 \<Rightarrow> u8 \<Rightarrow> (u8 \<times> u8 \<times> u8) option" where
  "rgb565_pixel low high =
    (let value = u16_from_le low high in
     Option.bind (channel_u8 ((drop_bit 11 value AND 0x1f) * 255 div 31)) (\<lambda>red.
     Option.bind (channel_u8 ((drop_bit 5 value AND 0x3f) * 255 div 63)) (\<lambda>green.
     Option.bind (channel_u8 ((value AND 0x1f) * 255 div 31)) (\<lambda>blue. Some (red, green, blue)))))"

fun rgb565_pixels :: "u8 list \<Rightarrow> (u8 \<times> u8 \<times> u8) list" where
  "rgb565_pixels (low # high # bytes) = the (rgb565_pixel low high) # rgb565_pixels bytes"
| "rgb565_pixels _ = []"

definition rgb565_image :: "u32 \<Rightarrow> u32 \<Rightarrow> u8 list \<Rightarrow> image" where
  "rgb565_image width height bytes =
    (if 2 ^ 64 \<le> unat width * unat height * 2 \<or> unat width * unat height * 2 \<noteq> length bytes then NoImage
     else Rgb8 width height (rgb565_pixels bytes))"

text \<open>The digest is ASCII.\<close>

definition short_digest :: "string \<Rightarrow> string" where
  "short_digest sha256 = (if 12 \<le> length sha256 then take 12 sha256 else sha256)"

definition apply_theme :: "theme_asset_slot \<Rightarrow> u32 \<Rightarrow> u32 \<Rightarrow> string \<Rightarrow> u8 list \<Rightarrow> main_window \<Rightarrow> main_window" where
  "apply_theme slot width height sha256 bytes wd =
    (let digest = short_digest sha256 in wd\<lparr>wd_themes := (wd_themes wd)
       \<lparr>tp_preview := rgb565_image width height bytes, tp_preview_available := True,
        tp_status := slot_name slot @ '': '' @ show_nat (unat width) @ '' x '' @ show_nat (unat height) @ '', ''
          @ show_nat (length bytes) @ '' bytes, SHA-256 '' @ digest,
        tp_selected_slot := slot_name slot,
        tp_slots := map (\<lambda>row. if tv_id row = slot_name slot then row\<lparr>tv_status := ''READ '' @ digest\<rparr> else row)
          (tp_slots (wd_themes wd))\<rparr>\<rparr>)"

section \<open>Events\<close>

definition history_row_shown :: "history_row \<Rightarrow> history_row_view" where
  "history_row_shown row = \<lparr>hv_device_time = show_nat (unat (hr_device_time_ms row)) @ '' ms'',
     hv_power = show_fixed 1 (hr_total_power row) @ '' W'', hv_current = show_fixed 2 (hr_total_current row) @ '' A'',
     hv_voltage = show_fixed 2 (hr_average_voltage row) @ '' V'',
     hv_input_temp = show_fixed 1 (hr_input_temperature row) @ '' C''\<rparr>"

definition history_loaded_panel :: "nat \<Rightarrow> bool \<Rightarrow> history_row list \<Rightarrow> history_panel" where
  "history_loaded_panel count found rows =
     \<lparr>hp_loading = False, hp_loaded = True, hp_progress = Finite 1, hp_entry_count = saturating_i32 count,
      hp_row_count = saturating_i32 (length rows), hp_end_found = found,
      hp_status = ''Loaded '' @ show_nat count
        @ (if found then '' entries; end marker found'' else '' entries; flash contains no end marker''),
      hp_rows = map history_row_shown rows\<rparr>"

fun operation_text :: "operation_state \<Rightarrow> string" where
  "operation_text OpRunning = ''running''"
| "operation_text OpSuccess = ''success''"
| "operation_text OpError = ''error''"

fun apply_event :: "u64 \<Rightarrow> ui_event \<Rightarrow> main_window \<Rightarrow> main_window" where
  "apply_event clock (UiOffline reason) wd = apply_offline reason wd"
| "apply_event clock UiSessionChanged wd = reset_window_session wd"
| "apply_event clock (UiStatus status) wd = apply_status status wd"
| "apply_event clock (UiTelemetry t) wd = apply_telemetry clock t wd"
| "apply_event clock (UiDeviceInfo info) wd = wd\<lparr>wd_device :=
     \<lparr>dp_name = di_product_name info, dp_uid = di_unique_id info, dp_firmware_version = di_firmware_version info,
      dp_hardware_revision = di_hardware_revision info, dp_config_version = show_nat (unat (di_config_version info)),
      dp_build = di_build_string info, dp_capabilities = join_with '', '' (di_capabilities info)\<rparr>\<rparr>"
| "apply_event clock (UiConfiguration settings interval) wd = apply_configuration_event settings interval wd"
| "apply_event clock (UiScreenChanged screen) wd = wd\<lparr>wd_current_screen := screen, wd_screen_choice := screen\<rparr>"
| "apply_event clock (UiOperation operation message) wd = set_operation (operation_text operation) message wd"
| "apply_event clock (UiHistoryProgress fraction message active) wd = wd\<lparr>wd_history := (wd_history wd)
     \<lparr>hp_loading := active, hp_progress := f32_of_f64 fraction, hp_status := message\<rparr>\<rparr>"
| "apply_event clock (UiHistoryLoaded count found rows) wd = wd\<lparr>wd_history := history_loaded_panel count found rows\<rparr>"
| "apply_event clock (UiThemeAsset slot width height sha256 bytes) wd = apply_theme slot width height sha256 bytes wd"

text \<open>The event loop applies the events in order, the \<open>i\<close>-th one when the clock shows \<open>clocks i\<close>.\<close>

definition apply_events :: "(nat \<Rightarrow> u64) \<Rightarrow> ui_event list \<Rightarrow> main_window \<Rightarrow> main_window" where
  "apply_events clocks es wd = foldl (\<lambda>wd (i, e). apply_event (clocks i) e wd) wd (enumerate 0 es)"

definition graph_panel_initial :: graph_panel where
  "graph_panel_initial = \<lparr>gp_kind = ''current'', gp_title = ''CURRENT FIELD'', gp_series_count = 6,
     gp_window_seconds = 60, gp_window_axis_label = ''-60 S'', gp_paused = False,
     gp_labels = map (\<lambda>i. ''I'' @ show_nat i) [1..<7], gp_visible = replicate 6 True, gp_paths = replicate 6 [],
     gp_values = replicate 6 [], gp_range_label = ''WAITING FOR LIVE SAMPLES'', gp_y_max_label = ''--'',
     gp_y_mid_label = ''--'', gp_y_min_label = ''--'', gp_summary_name = ''TOTAL CURRENT'',
     gp_summary_value = ''-- A'', gp_sample_count = 0, gp_buffer_label = ''0 / 1200'', gp_overview_path = [],
     gp_overview_range = ''WAITING FOR LIVE SAMPLES'', gp_overview_sample_count = 0\<rparr>"

text \<open>A new window on a page, with both graphs rendered.\<close>

definition window_new :: "int \<Rightarrow> main_window" where
  "window_new page = render_overview_graph (render_graph
     \<lparr>wd_page = page,
      wd_status = \<lparr>sp_daemon_online = False, sp_device_ready = False, sp_stale = True,
        sp_connection_label = ''CONNECTING'', sp_connection_detail = ''Opening the wireviewd socket'',
        sp_sample_age = ''NO SAMPLE'', sp_daemon_version = ''wireviewd'', sp_daemon_build = [],
        sp_connected_port = [], sp_session_label = ''SESSION --'', sp_busy_operation = [],
        sp_operation_state = ''idle'', sp_operation_message = []\<rparr>,
      wd_readings = readings_empty, wd_faults = faults_empty, wd_limits = fault_limits_default,
      wd_wire_limit_label = ''10.5'', wd_graph_panel = graph_panel_initial, wd_form = config_form_initial,
      wd_current_screen = ''main'', wd_screen_choice = ''main'',
      wd_history = history_panel_empty ''No device history loaded'',
      wd_themes = \<lparr>tp_slots = theme_slots, tp_selected_slot = ''background-dark'',
        tp_status = ''Select a named slot, then read or replace its exact RGB565 bytes.'',
        tp_preview = NoImage, tp_preview_available = False\<rparr>,
      wd_device = \<lparr>dp_name = ''WireView Pro II'', dp_uid = ''Unavailable'', dp_firmware_version = ''Unavailable'',
        dp_hardware_revision = ''Unavailable'', dp_config_version = ''Unavailable'', dp_build = ''Unavailable'',
        dp_capabilities = ''Unavailable''\<rparr>,
      wd_graphs = graph_state_default\<rparr>)"

definition tray_status :: "main_window \<Rightarrow> string" where
  "tray_status wd =
    (if 0 < fp_active_count (wd_faults wd)
     then ''WireView: '' @ show_int (fp_active_count (wd_faults wd)) @ '' active fault(s)''
     else ''WireView: '' @ sp_connection_label (wd_status wd))"

section \<open>Commands\<close>

definition path_of_string :: "string \<Rightarrow> path" where
  "path_of_string s = (case split_on CHR ''/'' s of
       [] \<Rightarrow> Path False []
     | p # ps \<Rightarrow> Path (p = [] \<and> ps \<noteq> []) ((if p = [] then [] else [p]) @ filter (\<lambda>c. c \<notin> {[], ''.''}) ps))"

definition output_path :: "string \<Rightarrow> client_error + path" where
  "output_path p = (let p = trim p in
     if p = [] then Inl (CInvalidInput ''output path cannot be empty'') else Inr (path_of_string p))"

definition parse_theme_slot :: "string \<Rightarrow> client_error + theme_asset_slot" where
  "parse_theme_slot value = (case slot_from_str value of Inl e \<Rightarrow> Inl (CDevice e) | Inr slot \<Rightarrow> Inr slot)"

definition parse_theme_command ::
  "string \<Rightarrow> string \<Rightarrow> (theme_asset_slot \<Rightarrow> path \<Rightarrow> ui_command) \<Rightarrow> client_error + ui_command" where
  "parse_theme_command slot p command =
     bindR (parse_theme_slot slot) (\<lambda>slot. bindR (output_path p) (\<lambda>p. Inr (command slot p)))"

text \<open>What the buttons ask for.\<close>

datatype request =
    OnRefresh
  | OnSetScreen string
  | OnClearFaults int int
  | OnApplyConfig bool
  | OnReloadConfig
  | OnResetConfig
  | OnRebootDevice
  | OnLoadHistory
  | OnCancelHistory
  | OnExportHistory string string
  | OnReadTheme string
  | OnExportTheme string string
  | OnWriteTheme string string

definition u16_try_from_i32 :: "int \<Rightarrow> u16 option" where
  "u16_try_from_i32 i = (if 0 \<le> i \<and> i < 65536 then Some (word_of_int i) else None)"

definition clear_faults_request :: "int \<Rightarrow> int \<Rightarrow> client_error + ui_command" where
  "clear_faults_request active_mask logged_mask =
    (case (u16_try_from_i32 active_mask, u16_try_from_i32 logged_mask) of
       (Some active, Some logged) \<Rightarrow>
         if (active OR logged) \<noteq> 0 \<and> (active OR logged) AND NOT 0x003f = 0 then Inr (UcClearFaults active logged)
         else Inl (CInvalidInput ''fault masks must contain known device bits'')
     | _ \<Rightarrow> Inl (CInvalidInput ''fault masks must contain known device bits''))"

fun command_of :: "main_window \<Rightarrow> request \<Rightarrow> client_error + ui_command" where
  "command_of wd OnRefresh = Inr UcRefresh"
| "command_of wd (OnSetScreen screen) = Inr (UcSetScreen (trim screen))"
| "command_of wd (OnClearFaults active_mask logged_mask) = clear_faults_request active_mask logged_mask"
| "command_of wd (OnApplyConfig persist) = mapR (\<lambda>edits. UcApplyConfig edits persist) (form_edits (wd_form wd))"
| "command_of wd OnReloadConfig = Inr UcReloadConfig"
| "command_of wd OnResetConfig = Inr UcResetConfig"
| "command_of wd OnRebootDevice = Inr UcRebootDevice"
| "command_of wd OnLoadHistory = Inr UcLoadHistory"
| "command_of wd OnCancelHistory = Inr UcCancelHistory"
| "command_of wd (OnExportHistory format p) = mapR (UcExportHistory format) (output_path p)"
| "command_of wd (OnReadTheme slot) = mapR UcReadTheme (parse_theme_slot slot)"
| "command_of wd (OnExportTheme slot p) = parse_theme_command slot p UcExportTheme"
| "command_of wd (OnWriteTheme slot p) = parse_theme_command slot p UcWriteTheme"

text \<open>\<open>worker\<close>: there is none in demo mode, or it still receives or not.\<close>

definition queue :: "bool option \<Rightarrow> client_error + ui_command \<Rightarrow> main_window \<Rightarrow> ui_command option \<times> main_window" where
  "queue receiver command wd =
    (case command of
       Inl e \<Rightarrow> (None, set_operation ''error'' (client_error_to_string e) wd)
     | Inr c \<Rightarrow> (case receiver of
         None \<Rightarrow> (None, set_operation ''error''
           (client_error_to_string (CInvalidInput ''mutations are disabled in demo mode'')) wd)
       | Some alive \<Rightarrow> if alive then (Some c, wd)
           else (None, set_operation ''error'' (client_error_to_string CDisconnected) wd)))"

definition on_request :: "bool option \<Rightarrow> request \<Rightarrow> main_window \<Rightarrow> ui_command option \<times> main_window" where
  "on_request receiver r wd = queue receiver (command_of wd r) wd"

end
