(* ===== verification/WindowProps.thy ===== *)
theory WindowProps
  imports WorkerFrame Window
begin

text \<open>
  The window and the worker together: what the window shows after the worker's events is what the
  worker holds. The window here only receives events; what the user types is not part of it.
\<close>

section \<open>Applying events\<close>

lemma apply_events_emit:
  "apply_events clocks (es @ [e]) wd = apply_event (clocks (length es)) e (apply_events clocks es wd)"
  by (simp add: apply_events_def enumerate_append_eq)

text \<open>What a window keeps of the session, and what leaves it alone.\<close>

definition kept :: "main_window \<Rightarrow> bool \<times> bool \<times> (string \<times> string) list \<times> history_panel \<times> theme_slot_view list" where
  "kept wd = (sp_daemon_online (wd_status wd), cf_loaded (wd_form wd), form_items (wd_form wd), wd_history wd,
     tp_slots (wd_themes wd))"

lemma kept_graph [simp]:
  "kept (update_graph f wd) = kept wd" "kept (render_graph wd) = kept wd" "kept (render_overview_graph wd) = kept wd"
  "kept (apply_graph_frame frame wd) = kept wd" "kept (apply_overview_frame overview wd) = kept wd"
  by (simp_all add: kept_def update_graph_def render_graph_def render_overview_graph_def apply_graph_frame_def
      apply_overview_frame_def apply_graph_metadata_def Let_def)

lemma kept_telemetry [simp]:
  "kept (set_active_fault_limits limits wd) = kept wd" "kept (reset_telemetry wd) = kept wd"
  "kept (apply_faults t wd) = kept wd" "kept (set_operation operation message wd) = kept wd"
  by (simp_all add: kept_def set_active_fault_limits_def reset_telemetry_def apply_faults_def set_operation_def Let_def)

lemma kept_apply_telemetry [simp]: "kept (apply_telemetry clock t wd) = kept wd"
  by (auto simp: apply_telemetry_def Let_def split: prod.split)
    (simp_all add: kept_def reset_telemetry_def set_active_fault_limits_def)

lemma form_items_show: "form_items (show_settings settings p form) = form_items (show_settings settings q form')"
  by (simp add: form_items_def show_settings_def Let_def)

lemma form_items_poll [simp]: "form_items (form\<lparr>cf_poll_interval := p\<rparr>) = form_items form"
  "form_items (form\<lparr>cf_loaded := b\<rparr>) = form_items form" "form_items (form\<lparr>cf_dirty := b\<rparr>) = form_items form"
  by (simp_all add: form_items_def)

section \<open>Previews\<close>

lemma channel_fits:
  assumes "unat (v :: u16) \<le> m" and "0 < m" and "m \<le> 63"
  shows "channel_u8 (v * 255 div word_of_nat m) = Some (ucast (v * 255 div word_of_nat m))"
proof -
  have "unat v * 255 \<le> m * 255" using assms(1) by (rule mult_le_mono1)
  then have "unat (v * 255) = unat v * 255" using assms(3) by (simp add: unat_word_ariths)
  moreover have "unat (word_of_nat m :: u16) = m" using assms(3) by (simp add: unat_of_nat)
  moreover have "unat v * 255 div m \<le> 255"
    using assms(1,2) by (metis div_le_mono mult_le_mono1 nonzero_mult_div_cancel_left not_gr_zero)
  ultimately have "unat (v * 255 div word_of_nat m) < 256" by (simp add: unat_div)
  then show ?thesis by (simp add: channel_u8_def word_less_nat_alt)
qed

lemma masked_le: "unat ((x :: u16) AND k) \<le> unat k"
  using word_and_le1 [of x k] by (simp add: word_le_nat_alt)

text \<open>The three expects of a preview's pixel never fail.\<close>

lemma rgb565_pixel_total: "\<exists>p. rgb565_pixel low high = Some p"
  using channel_fits [of "x AND 0x1f" 31 for x] channel_fits [of "x AND 0x3f" 63 for x] masked_le [of _ "0x1f"] masked_le [of _ "0x3f"]
  by (simp add: rgb565_pixel_def Let_def)

section \<open>What is shown is what is held\<close>

definition slot_status :: "'s gui \<Rightarrow> u8 list option \<Rightarrow> string" where
  "slot_status g stored = (case stored of
     None \<Rightarrow> ''Not read'' | Some data \<Rightarrow> ''READ '' @ short_digest (sha256_hex (gui_sha256 g) data))"

definition shows_configuration :: "'s gui \<Rightarrow> main_window \<Rightarrow> 's worker \<Rightarrow> bool" where
  "shows_configuration g wd w \<longleftrightarrow>
     (cf_loaded (wd_form wd) \<longrightarrow> (\<exists>c settings. wk_configuration w = Some c
        \<and> settings_from_json (gui_json g) (configuration_json c) = Inr settings
        \<and> form_items (wd_form wd) = form_items (show_settings settings 0 config_form_initial)))
     \<and> (wk_session_id w \<noteq> None \<longrightarrow> cf_loaded (wd_form wd) = (wk_configuration w \<noteq> None))"

definition shows_history :: "main_window \<Rightarrow> 's worker \<Rightarrow> bool" where
  "shows_history wd w \<longleftrightarrow> (case wk_history w of
       None \<Rightarrow> \<not> hp_loaded (wd_history wd) \<and> hp_rows (wd_history wd) = []
     | Some h \<Rightarrow> hp_loaded (wd_history wd) \<and> hp_entry_count (wd_history wd) = saturating_i32 (hist_entries h)
         \<and> hp_end_found (wd_history wd) = hist_end_found h
         \<and> hp_rows (wd_history wd) = map history_row_shown (hist_rows h))"

definition shows_themes :: "'s gui \<Rightarrow> main_window \<Rightarrow> 's worker \<Rightarrow> bool" where
  "shows_themes g wd w \<longleftrightarrow> map tv_id (tp_slots (wd_themes wd)) = map slot_name all_slots
     \<and> map tv_status (tp_slots (wd_themes wd)) = map (\<lambda>slot. slot_status g (wk_themes w slot)) all_slots"

definition shows_worker :: "'s gui \<Rightarrow> main_window \<Rightarrow> 's worker \<Rightarrow> bool" where
  "shows_worker g wd w \<longleftrightarrow> shows_configuration g wd w \<and> shows_history wd w \<and> shows_themes g wd w"

lemmas shows_defs = shows_worker_def shows_configuration_def shows_history_def shows_themes_def

lemma shows_worker_cong:
  assumes "kept wd' = kept wd" and "wk_configuration v = wk_configuration w" and "wk_session_id v = wk_session_id w"
    and "wk_history v = wk_history w" and "wk_themes v = wk_themes w"
  shows "shows_worker g wd' v = shows_worker g wd w"
  using assms by (simp add: shows_defs kept_def split: option.split)

definition shown :: "(nat \<Rightarrow> u64) \<Rightarrow> int \<Rightarrow> 's worker \<Rightarrow> main_window" where
  "shown clocks page w = apply_events clocks (wk_events w) (window_new page)"

lemma shown_emit: "shown clocks page (emit e w) = apply_event (clocks (length (wk_events w))) e (shown clocks page w)"
  by (simp add: shown_def emit_def apply_events_emit)

lemma shown_updates [simp]:
  "shown clocks page (w\<lparr>wk_configuration := c\<rparr>) = shown clocks page w"
  "shown clocks page (w\<lparr>wk_themes := t\<rparr>) = shown clocks page w"
  "shown clocks page (w\<lparr>wk_history := h\<rparr>) = shown clocks page w"
  by (simp_all add: shown_def)

lemma shown_cong: "wk_events v = wk_events w \<Longrightarrow> shown clocks page v = shown clocks page w"
  by (simp add: shown_def)

definition online :: "main_window \<Rightarrow> bool" where
  "online wd \<longleftrightarrow> sp_daemon_online (wd_status wd)"

lemma online_kept: "kept wd' = kept wd \<Longrightarrow> online wd' = online wd"
  by (simp add: kept_def online_def)

lemma quiet_kept:
  assumes "quiet_event e"
  shows "shows_worker g (apply_event clock e wd) w = shows_worker g wd w"
    and "online (apply_event clock e wd) = online wd"
proof -
  have "kept (apply_event clock e wd) = kept wd \<or> (\<exists>fraction message active. e = UiHistoryProgress fraction message active)"
    using assms by (cases e) (simp_all, simp_all add: kept_def)
  then show "shows_worker g (apply_event clock e wd) w = shows_worker g wd w" "online (apply_event clock e wd) = online wd"
    by (elim disjE exE; simp add: shows_defs online_def kept_def split: option.split)+
qed

section \<open>The frame\<close>

lemma shows_emit: "shows_worker g wd (emit e w) = shows_worker g wd w"
  by (rule shows_worker_cong) (simp_all add: emit_def)

lemma shows_published:
  assumes "shows_worker g wd w" and "settings_from_json (gui_json g) (configuration_json c) = Inr settings"
  shows "shows_worker g (apply_event clock (UiConfiguration settings p) wd) (w\<lparr>wk_configuration := Some c\<rparr>)"
proof -
  let ?wd = "wd\<lparr>wd_form := show_settings settings p (wd_form wd)\<rparr>"
  have k: "kept (apply_event clock (UiConfiguration settings p) wd) = kept ?wd"
    by (simp add: apply_configuration_event_def)
  have "cf_loaded (show_settings settings p (wd_form wd))" by (simp add: show_settings_def Let_def)
  then have "shows_worker g ?wd (w\<lparr>wk_configuration := Some c\<rparr>)"
    using assms form_items_show by (auto simp: shows_defs split: option.split)
  then show "shows_worker g (apply_event clock (UiConfiguration settings p) wd) (w\<lparr>wk_configuration := Some c\<rparr>)"
    using shows_worker_cong [OF k] by blast
qed

lemma map_update_key:
  assumes "map f xs = map k ys" and "map h xs = map v ys" and "\<And>y. k y = k z \<Longrightarrow> y = z" and "\<And>x. h (u x) = c"
  shows "map h (map (\<lambda>x. if f x = k z then u x else x) xs) = map (\<lambda>y. if y = z then c else v y) ys"
  using assms(1,2)
proof (induction xs arbitrary: ys)
  case (Cons x xs)
  then obtain y ys' where "ys = y # ys'" by (cases ys) auto
  then show ?case using Cons assms(3,4) by auto
qed simp

lemma slot_name_same: "slot_name a = slot_name b \<Longrightarrow> a = b"
  by (cases a; cases b) simp_all

lemma shows_image:
  assumes "shows_worker g wd w" and "sha256_hex (gui_sha256 g) data = sha"
  shows "shows_worker g (apply_event clock (UiThemeAsset slot width height sha data) wd)
      (w\<lparr>wk_themes := (wk_themes w)(slot \<mapsto> data)\<rparr>)"
proof -
  let ?rows = "tp_slots (wd_themes wd)"
  let ?read = "map (\<lambda>row. if tv_id row = slot_name slot
      then row\<lparr>tv_status := ''READ '' @ short_digest sha\<rparr> else row) ?rows"
  have ids: "map tv_id ?rows = map slot_name all_slots"
    and statuses: "map tv_status ?rows = map (\<lambda>s. slot_status g (wk_themes w s)) all_slots"
    using assms(1) by (simp_all add: shows_worker_def shows_themes_def)
  have "map tv_status ?read
      = map (\<lambda>s. if s = slot then ''READ '' @ short_digest sha else slot_status g (wk_themes w s)) all_slots"
    by (rule map_update_key [OF ids statuses slot_name_same]) simp_all
  also have "\<dots> = map (\<lambda>s. slot_status g (((wk_themes w)(slot \<mapsto> data)) s)) all_slots"
    using assms(2) by (simp add: slot_status_def)
  finally have "map tv_status ?read = map (\<lambda>s. slot_status g (((wk_themes w)(slot \<mapsto> data)) s)) all_slots" .
  moreover have "map tv_id ?read = map slot_name all_slots"
    unfolding ids [symmetric] by simp
  ultimately show "shows_worker g (apply_event clock (UiThemeAsset slot width height sha data) wd)
      (w\<lparr>wk_themes := (wk_themes w)(slot \<mapsto> data)\<rparr>)"
    using assms(1) by (cases "wk_history w") (simp_all add: shows_defs apply_theme_def Let_def)
qed

lemma online_content:
  "online (apply_configuration_event settings p wd) = online wd"
  "online (apply_theme slot width height sha data wd) = online wd"
  by (simp_all add: online_def apply_theme_def apply_configuration_event_def set_active_fault_limits_def Let_def)

definition truth_frame :: "'s gui \<Rightarrow> (nat \<Rightarrow> u64) \<Rightarrow> int \<Rightarrow> 's worker \<Rightarrow> 's worker \<Rightarrow> bool" where
  "truth_frame g clocks page w v \<longleftrightarrow>
     (shows_worker g (shown clocks page w) w \<longrightarrow> shows_worker g (shown clocks page v) v)
     \<and> (online (shown clocks page v) \<longleftrightarrow> online (shown clocks page w)) \<and> wk_connected v = wk_connected w"

lemma truth_same:
  assumes "wk_events v = wk_events w" and "wk_configuration v = wk_configuration w"
    and "wk_session_id v = wk_session_id w" and "wk_history v = wk_history w" and "wk_themes v = wk_themes w"
    and "wk_connected v = wk_connected w"
  shows "truth_frame g clocks page w v"
  using shows_worker_cong [OF refl assms(2-5)] shown_cong [OF assms(1), of clocks page] assms(6)
  by (simp add: truth_frame_def)

interpretation truth: worker_frame g "truth_frame g clocks page" for g clocks page
proof unfold_locales
  show "truth_frame g clocks page w (emit e w)" if "quiet_event e" for e w
    by (simp add: truth_frame_def shown_emit shows_emit quiet_kept [OF that]) (simp add: emit_def)
  show "truth_frame g clocks page w (emit (UiConfiguration settings (wk_poll_interval_ms w)) (w\<lparr>wk_configuration := Some c\<rparr>))"
    if "settings_from_json (gui_json g) (configuration_json c) = Inr settings" for w c settings
    using shows_published [OF _ that] by (simp add: truth_frame_def shown_emit shows_emit online_content) (simp add: emit_def)
  show "truth_frame g clocks page w
      (emit (UiThemeAsset slot width height sha data) (w\<lparr>wk_themes := (wk_themes w)(slot \<mapsto> data)\<rparr>))"
    if "sha256_hex (gui_sha256 g) data = sha" for w data sha slot width height
    using shows_image [OF _ that] by (simp add: truth_frame_def shown_emit shows_emit online_content) (simp add: emit_def)
  show "truth_frame g clocks page w w" for w by (simp add: truth_frame_def)
  show "truth_frame g clocks page w u" if "truth_frame g clocks page w v" "truth_frame g clocks page v u" for w v u
    using that by (simp add: truth_frame_def)
qed (rule truth_same, simp_all)+

section \<open>Every step\<close>

definition window_true :: "'s gui \<Rightarrow> (nat \<Rightarrow> u64) \<Rightarrow> int \<Rightarrow> 's worker \<Rightarrow> bool" where
  "window_true g clocks page w \<longleftrightarrow> shows_worker g (shown clocks page w) w
     \<and> (online (shown clocks page w) \<longleftrightarrow> wk_connected w)"

lemma window_true_frame: "truth_frame g clocks page w v \<Longrightarrow> window_true g clocks page w \<Longrightarrow> window_true g clocks page v"
  by (simp add: truth_frame_def window_true_def)

lemma quiet_true: "quiet_event e \<Longrightarrow> window_true g clocks page w \<Longrightarrow> window_true g clocks page (emit e w)"
  by (rule window_true_frame [OF truth.R_quiet])

lemma invalidate_fields [simp]:
  "wk_events (invalidate_history_task w) = wk_events w" "wk_configuration (invalidate_history_task w) = wk_configuration w"
  "wk_session_id (invalidate_history_task w) = wk_session_id w" "wk_history (invalidate_history_task w) = wk_history w"
  "wk_themes (invalidate_history_task w) = wk_themes w" "wk_connected (invalidate_history_task w) = wk_connected w"
  by (simp_all add: invalidate_history_task_def Let_def split: option.split)

lemma shows_offline:
  assumes "shows_worker g wd w" and "wk_configuration v = wk_configuration w" and "wk_session_id v = None"
    and "wk_history v = wk_history w" and "wk_themes v = wk_themes w"
  shows "shows_worker g (apply_offline reason wd) v \<and> \<not> online (apply_offline reason wd)"
proof -
  let ?wd = "wd\<lparr>wd_status := (wd_status wd)\<lparr>sp_daemon_online := False\<rparr>, wd_form := (wd_form wd)\<lparr>cf_loaded := False\<rparr>\<rparr>"
  have k: "kept (apply_offline reason wd) = kept ?wd"
    by (simp add: apply_offline_def Let_def) (simp add: kept_def)
  have "shows_worker g ?wd v"
    using assms by (cases "wk_history w") (simp_all add: shows_defs)
  then have "shows_worker g (apply_offline reason wd) v" using shows_worker_cong [OF k, of v v] by simp
  then show ?thesis using online_kept [OF k] by (simp add: online_def)
qed

lemma connection_failed_true:
  assumes "shows_worker g (shown clocks page w) w"
  shows "window_true g clocks page (gui_connection_failed g e w)"
proof -
  let ?v = "(invalidate_history_task w)\<lparr>wk_connected := False, wk_session_id := None,
           wk_next_connect := gui_now g (wk_env w) + wk_reconnect_delay w,
           wk_reconnect_delay := min (wk_reconnect_delay w * 2) 8000\<rparr>"
  let ?u = "if wk_history_cancel w \<noteq> None then emit (UiHistoryProgress (Finite 0)
      ''History read stopped because the daemon connection was lost'' False) ?v else ?v"
  have "shown clocks page ?v = shown clocks page w" by (simp add: shown_def)
  then have "shows_worker g (shown clocks page ?u) w"
    using assms by (simp add: shown_emit quiet_kept(1) del: apply_event.simps)
  moreover have "wk_configuration ?u = wk_configuration w" "wk_session_id ?u = None" "wk_history ?u = wk_history w"
    "wk_themes ?u = wk_themes w" "wk_connected ?u = False"
    by (simp_all add: emit_def)
  ultimately show ?thesis
    using shows_offline [of g "shown clocks page ?u" w ?u]
    by (simp add: gui_connection_failed_def Let_def window_true_def shown_emit shows_emit) (simp add: emit_def)
qed

lemma session_changed_true:
  assumes "shows_worker g (shown clocks page w) w"
  shows "shows_worker g (shown clocks page (session_changed sid w)) (session_changed sid w)"
    and "online (shown clocks page (session_changed sid w)) = online (shown clocks page w)"
    and "wk_connected (session_changed sid w) = wk_connected w"
proof -
  let ?v = "invalidate_history_task (w\<lparr>wk_session_id := Some sid, wk_device_info_loaded := False,
      wk_configuration := None, wk_history := None, wk_themes := (\<lambda>_. None)\<rparr>)"
  have s: "shown clocks page ?v = shown clocks page w" by (simp add: shown_def)
  have reset: "shows_worker g (reset_window_session wd) ?v" "online (reset_window_session wd) = online wd" for wd
  proof -
    let ?wd = "render_overview_graph (render_graph (reset_telemetry (wd\<lparr>wd_graphs := reset_session (wd_graphs wd)\<rparr>)))"
    have "kept ?wd = kept wd" by simp (simp add: kept_def)
    then show "online (reset_window_session wd) = online wd"
      by (simp add: reset_window_session_def Let_def online_def kept_def)
    show "shows_worker g (reset_window_session wd) ?v"
      by (simp add: shows_defs reset_window_session_def Let_def history_panel_empty_def theme_slots_def slot_status_def o_def)
  qed
  show "shows_worker g (shown clocks page (session_changed sid w)) (session_changed sid w)"
    "online (shown clocks page (session_changed sid w)) = online (shown clocks page w)"
    "wk_connected (session_changed sid w) = wk_connected w"
    using reset by (simp_all add: session_changed_def shown_emit shows_emit s) (simp add: emit_def)
qed

lemma status_true:
  assumes "shows_worker g (shown clocks page w) w" and "wk_connected w"
  shows "window_true g clocks page (emit (UiStatus status) (w\<lparr>wk_poll_interval_ms := p\<rparr>))"
proof -
  let ?wd = "shown clocks page w"
  have "shows_worker g (apply_status status ?wd) w" "online (apply_status status ?wd)"
    using assms(1) by (cases "wk_history w"; simp add: shows_defs online_def apply_status_def Let_def)+
  moreover have "shown clocks page (w\<lparr>wk_poll_interval_ms := p\<rparr>) = ?wd" by (simp add: shown_def)
  moreover have "shows_worker g wd (w\<lparr>wk_poll_interval_ms := p\<rparr>) = shows_worker g wd w" for wd
    by (rule shows_worker_cong) simp_all
  ultimately show ?thesis
    using assms(2) by (simp add: window_true_def shown_emit shows_emit) (simp add: emit_def)
qed

lemma refresh_status_true:
  assumes "shows_worker g (shown clocks page w) w" and "wk_connected w"
  shows "window_true g clocks page (snd (refresh_status g status w))"
proof -
  define w1 where "w1 = emit (UiStatus status) (w\<lparr>wk_poll_interval_ms := st_poll_interval_ms status\<rparr>)"
  define w2 where "w2 = (if wk_session_id w1 \<noteq> Some (st_session_id status)
    then session_changed (st_session_id status) w1 else w1)"
  define w3 where "w3 = (if device_usable status \<and> (\<not> wk_device_info_loaded w2 \<or> wk_configuration w2 = None)
    then load_session_data g False w2 else w2)"
  have 1: "window_true g clocks page w1" unfolding w1_def by (rule status_true [OF assms])
  have 2: "window_true g clocks page w2"
    using 1 session_changed_true [of g clocks page w1] by (simp add: w2_def window_true_def)
  have 3: "window_true g clocks page w3"
    using window_true_frame [OF truth.load_frame 2] 2 by (simp add: w3_def)
  have t: "framed (truth_frame g clocks page) (connection_mut (call (gui_telemetry g)))"
    by (rule truth.framed_connection [OF truth.framed_call [OF daemon_calls(3)]])
  have "window_true g clocks page v" if "connection_mut (call (gui_telemetry g)) w3 = (r, v)" for r v
    using window_true_frame [OF framedD [OF t that] 3] .
  moreover have "window_true g clocks page (emit (UiTelemetry snapshot) v)" if "window_true g clocks page v" for v snapshot
    using that by (simp add: quiet_true)
  ultimately show ?thesis
    using 3 unfolding refresh_status_def Let_def w1_def [symmetric] w2_def [symmetric] w3_def [symmetric]
    by (auto split: prod.split sum.split client_error.split wireview_error.split)
qed

text \<open>A refresh that ends well has told the window the status; one that does not disconnects.\<close>

lemma refresh_connected_true:
  assumes "shows_worker g (shown clocks page w) w" and "refresh_connected g w = (r, v)"
  shows "shows_worker g (shown clocks page v) v \<and> (r = Inr () \<longrightarrow> window_true g clocks page v)"
proof -
  obtain q u where q: "connection_mut (call (gui_status g)) w = (q, u)" by fastforce
  have k: "framed (truth_frame g clocks page) (connection_mut (call (gui_status g)))"
    by (rule truth.framed_connection [OF truth.framed_call [OF daemon_calls(2)]])
  have frame: "truth_frame g clocks page w u" using framedD [OF k q] .
  then have u: "shows_worker g (shown clocks page u) u" using assms(1) by (simp add: truth_frame_def)
  show ?thesis
  proof (cases q)
    case (Inl e)
    then show ?thesis using u assms(2) by (auto simp: refresh_connected_def bindW_def q)
  next
    case (Inr status)
    then have "wk_connected u" using q frame by (auto simp: connection_mut_def truth_frame_def split: if_splits)
    from refresh_status_true [OF u this, of status] show ?thesis
      using assms(2) u Inr by (auto simp: refresh_connected_def bindW_def q window_true_def split: sum.splits)
  qed
qed

lemma refresh_true:
  assumes "window_true g clocks page w"
  shows "window_true g clocks page (refresh g w)"
proof -
  have finish: "window_true g clocks page (case refresh_connected g v of
       (Inl e, w2) \<Rightarrow> gui_connection_failed g e w2 | (Inr _, w2) \<Rightarrow> w2)" if "shows_worker g (shown clocks page v) v" for v
  proof -
    obtain r u where r: "refresh_connected g v = (r, u)" by fastforce
    show ?thesis
      using refresh_connected_true [OF that r] connection_failed_true by (auto simp: r split: sum.split)
  qed
  obtain r v where c: "call (gui_connect g) w = (r, v)" by fastforce
  have v: "window_true g clocks page v" using window_true_frame [OF truth.call_frame [OF daemon_calls(1) c] assms] .
  let ?v = "v\<lparr>wk_connected := True, wk_reconnect_delay := 500\<rparr>"
  have "shows_worker g (shown clocks page ?v) ?v = shows_worker g (shown clocks page v) v"
    unfolding shown_def by (simp, rule shows_worker_cong) simp_all
  then have "window_true g clocks page (case refresh_connected g ?v of
       (Inl e, w2) \<Rightarrow> gui_connection_failed g e w2 | (Inr _, w2) \<Rightarrow> w2)"
    using v by (intro finish) (simp add: window_true_def)
  then show ?thesis
    using finish [of w] assms connection_failed_true [of g clocks page v] v c
    by (auto simp: refresh_def Let_def window_true_def split: sum.split)
qed

lemma operate_true:
  assumes "window_true g clocks page w" and "framed (truth_frame g clocks page) act"
  shows "window_true g clocks page (operate g announcement act message w)"
proof -
  obtain r v where r: "act (operation_running announcement w) = (r, v)" by fastforce
  have "truth_frame g clocks page w (operation_running announcement w)"
    by (simp add: operation_running_def truth.R_quiet)
  from truth.R_trans [OF this framedD [OF assms(2) r]]
  have v: "window_true g clocks page v" using window_true_frame assms(1) by blast
  have "window_true g clocks page (gui_connection_failed g e v)" for e
    by (rule connection_failed_true) (use v in \<open>simp add: window_true_def\<close>)
  then show ?thesis
    using v by (cases r)
      (simp_all add: operate_def r finish_operation_def operation_success_def operation_error_def quiet_true)
qed

lemma window_true_same:
  "wk_events v = wk_events w \<Longrightarrow> wk_configuration v = wk_configuration w \<Longrightarrow> wk_session_id v = wk_session_id w \<Longrightarrow>
   wk_history v = wk_history w \<Longrightarrow> wk_themes v = wk_themes w \<Longrightarrow> wk_connected v = wk_connected w \<Longrightarrow>
   window_true g clocks page w \<Longrightarrow> window_true g clocks page v"
  using window_true_frame [OF truth_same] by blast

lemma gui_command_true:
  assumes "window_true g clocks page w"
  shows "window_true g clocks page (gui_command g c w)"
proof (cases c)
  case UcRefresh
  have "window_true g clocks page (w\<lparr>wk_next_connect := gui_now g (wk_env w)\<rparr>)"
    by (rule window_true_same [OF _ _ _ _ _ _ assms]) simp_all
  from refresh_true [OF this] show ?thesis
    by (auto simp: UcRefresh Let_def intro: window_true_frame [OF truth.load_frame])
next
  case UcLoadHistory
  have "window_true g clocks page (operation_error message w)" for message
    using assms by (simp add: operation_error_def quiet_true)
  then show ?thesis
    using window_true_same [OF _ _ _ _ _ _ assms] by (simp add: UcLoadHistory start_history_def Let_def)
next
  case UcCancelHistory
  have "window_true g clocks page (w\<lparr>wk_cancelled := f\<rparr>)" for f
    by (rule window_true_same [OF _ _ _ _ _ _ assms]) simp_all
  then show ?thesis
    using assms by (simp add: UcCancelHistory cancel_history_command_def quiet_true split: option.split)
qed (use assms in \<open>simp_all only: gui_command.simps operate_true truth.operations\<close>)

lemma finish_history_true:
  assumes "window_true g clocks page w"
  shows "window_true g clocks page (finish_history r w)"
proof -
  let ?w = "w\<lparr>wk_history_cancel := None\<rparr>"
  have w: "window_true g clocks page ?w"
    by (rule window_true_same [OF _ _ _ _ _ _ assms]) simp_all
  have "window_true g clocks page ((emit (UiHistoryLoaded (hist_entries h) (hist_end_found h) (hist_rows h)) ?w)\<lparr>wk_history := Some h\<rparr>)" for h
    using w by (simp add: window_true_def shown_emit)
      (simp add: shows_defs emit_def online_def history_loaded_panel_def)
  then show ?thesis
    using w by (simp add: finish_history_def Let_def operation_success_def operation_error_def quiet_true
        split: sum.split client_error.split)
qed

lemma receive_result_true:
  assumes "window_true g clocks page w"
  shows "window_true g clocks page (receive_result w)"
proof -
  have "window_true g clocks page (w\<lparr>wk_results := rs\<rparr>)" for rs
    by (rule window_true_same [OF _ _ _ _ _ _ assms]) simp_all
  then show ?thesis
    using assms by (simp add: receive_result_def Let_def finish_history_true split: list.split prod.split)
qed

lemma task_step_true:
  assumes "window_true g clocks page w"
  shows "window_true g clocks page (task_step g i w)"
proof -
  have via: "window_true g clocks page (set_task i phase v)" "window_true g clocks page (end_task i q v)"
    if "window_true g clocks page v" for phase q v
    by (rule window_true_same [OF _ _ _ _ _ _ that]; simp add: set_task_def end_task_def)+
  show ?thesis
    using window_true_frame [OF truth.task_open_frame assms, of "ht_cancel (wk_tasks w ! i)"]
      window_true_frame [OF truth.task_chunk_frame assms] window_true_frame [OF truth.task_close_frame assms]
    by (auto simp: task_step_def Let_def intro!: via split: task_phase.split prod.split sum.split) (metis snd_conv)+
qed

lemma worker_step_true:
  assumes "worker_step g moves_on w v" and "window_true g clocks page w"
  shows "window_true g clocks page v"
  using assms(1)
proof cases
  case (world s)
  show ?thesis unfolding world(1) by (rule window_true_same [OF _ _ _ _ _ _ assms(2)]) simp_all
qed (simp_all add: assms(2) gui_command_true receive_result_true refresh_true task_step_true)

lemma worker_new_true: "window_true g clocks page (worker_new g s d)"
proof -
  have "kept (window_new page) = (False, False, form_items config_form_initial, history_panel_empty ''No device history loaded'', theme_slots)"
    by (simp add: window_new_def) (simp add: kept_def config_form_initial_def)
  then show ?thesis
    by (simp add: window_true_def shows_defs shown_def apply_events_def worker_new_def online_def kept_def
        history_panel_empty_def theme_slots_def slot_status_def o_def)
qed

lemma worker_run_true: "worker_run g moves_on n (worker_new g s d) w \<Longrightarrow> window_true g clocks page w"
  by (induction "worker_new g s d" w rule: worker_run.induct) (auto intro: worker_new_true worker_step_true)

text \<open>C12: the window shows what the worker holds. After every run of the worker, whatever the daemon
  answers and in whatever order things happen, the window that applied its events shows the daemon
  as online exactly when the worker is connected; a loaded configuration form is that of the
  configuration an edit would start from, and in a session the form is loaded exactly when there is
  one; a history is shown exactly when one can be exported, with its number of entries and its
  rows; and every theme slot shows the digest of the bytes an export would write, or that it was
  not read.\<close>

theorem window_shows_the_worker:
  assumes "worker_run g moves_on n (worker_new g s d) w"
  shows "shows_worker g (apply_events clocks (wk_events w) (window_new page)) w
    \<and> sp_daemon_online (wd_status (apply_events clocks (wk_events w) (window_new page))) = wk_connected w"
  using worker_run_true [OF assms] by (simp add: window_true_def shown_def online_def)

end
