(* ===== verification/ConfigFormProps.thy ===== *)
theory ConfigFormProps
  imports ConfigForm OutputProps
begin

text \<open>
  The configuration form is exact: what it shows of a device's settings reads back as the same
  settings, so applying a form nobody edited changes nothing and asks the daemon for nothing.
\<close>

section \<open>Decimal text\<close>

lemma digit_value_char: "d < 10 \<Longrightarrow> digit_value (digit_char d) = Some d"
  by (simp add: digit_value_def digit_char_def Let_def)

lemma from_decimal_append: "from_decimal (s @ [c]) = from_decimal s * 10 + (case digit_value c of None \<Rightarrow> 0 | Some d \<Rightarrow> d)"
  by (simp add: from_decimal_def)

lemma from_decimal_show_nat [simp]: "from_decimal (show_nat n) = n"
proof (induction n rule: show_nat.induct)
  case (1 n)
  show ?case
  proof (cases "n < 10")
    case True
    then show ?thesis by (simp add: show_nat.simps [of n] from_decimal_def digit_value_char)
  next
    case False
    then show ?thesis by (simp add: show_nat.simps [of n] from_decimal_append 1 digit_value_char)
  qed
qed

lemma show_nat_digits: "c \<in> set (show_nat n) \<Longrightarrow> digit_value c \<noteq> None"
proof (induction n rule: show_nat.induct)
  case (1 n)
  show ?case
  proof (cases "n < 10")
    case True
    then show ?thesis using "1.prems" by (simp add: show_nat.simps [of n] digit_value_char)
  next
    case False
    then show ?thesis
      using 1 digit_value_char [of "n mod 10"] by (auto simp: show_nat.simps [of n])
  qed
qed

lemma show_nat_not_Nil [simp]: "show_nat n \<noteq> []"
  by (simp add: show_nat.simps [of n])

text \<open>White space is not trimmed off digits and names.\<close>

definition plain_char :: "char \<Rightarrow> bool" where
  "plain_char c \<longleftrightarrow> (let n = (of_char c :: nat) in 33 \<le> n \<and> n \<le> 126)"

lemma white_space_ends:
  "list_all (\<lambda>w. w \<noteq> [] \<and> \<not> plain_char (hd w) \<and> \<not> plain_char (last w)) white_space"
  by (simp add: white_space_def plain_char_def string_of_bytes_def)

lemma no_space_found:
  assumes "\<And>w. w \<in> set white_space \<Longrightarrow> \<not> matches w s"
  shows "space_length matches s = 0"
  using assms by (auto simp: space_length_def find_Some_iff split: option.split dest: sym)

lemma trim_start_plain: "s \<noteq> [] \<Longrightarrow> plain_char (hd s) \<Longrightarrow> trim_start n s = s"
proof (cases n)
  case (Suc fuel)
  assume s: "s \<noteq> []" "plain_char (hd s)"
  have "space_length (\<lambda>w s. take (length w) s = w) s = 0"
    using white_space_ends s by (intro no_space_found) (auto simp: list_all_iff, metis hd_take length_greater_0_conv)
  then show ?thesis by (simp add: Suc Let_def)
qed simp

lemma trim_end_plain: "s \<noteq> [] \<Longrightarrow> plain_char (last s) \<Longrightarrow> trim_end n s = s"
proof (cases n)
  case (Suc fuel)
  assume s: "s \<noteq> []" "plain_char (last s)"
  have "space_length (\<lambda>w s. length w \<le> length s \<and> drop (length s - length w) s = w) s = 0"
    using white_space_ends s
    by (intro no_space_found) (auto simp: list_all_iff, metis last_drop diff_less length_greater_0_conv)
  then show ?thesis by (simp add: Suc Let_def)
qed simp

lemma trim_plain: "list_all plain_char s \<Longrightarrow> trim s = s"
  by (cases "s = []") (auto simp: trim_def trim_start_plain trim_end_plain list_all_iff)

lemma show_nat_plain: "list_all plain_char (show_nat n)"
  using show_nat_digits [of _ n] by (force simp: list_all_iff digit_value_def plain_char_def Let_def split: if_splits)

lemma parse_u64_show_nat: "n < 2 ^ 64 \<Longrightarrow> parse_u64 (trim (show_nat n)) = Some (word_of_nat n)"
proof -
  assume n: "n < 2 ^ 64"
  obtain c after where cs: "show_nat n = c # after" by (cases "show_nat n") auto
  have "digit_value CHR ''+'' = None" by (simp add: digit_value_def)
  then have "c \<noteq> CHR ''+''" using show_nat_digits [of c n] cs by auto
  moreover have "\<not> list_ex (\<lambda>c. digit_value c = None) (show_nat n)"
    using show_nat_digits by (auto simp: list_ex_iff)
  ultimately show ?thesis
    using n cs from_decimal_show_nat [of n] unfolding trim_plain [OF show_nat_plain] by (simp add: parse_u64_def Let_def)
qed

lemma round_half_even_near: "\<bar>x - of_int i\<bar> < 1 / 2 \<Longrightarrow> round_half_even x = i"
proof -
  assume h: "\<bar>x - of_int i\<bar> < (1 / 2 :: rat)"
  have "\<bar>of_int (round_half_even x) - of_int i :: rat\<bar> < 1"
    using round_half_even_error [of x] h by linarith
  then have "\<bar>of_int (round_half_even x - i) :: rat\<bar> < 1" by simp
  then have "\<bar>round_half_even x - i\<bar> < 1" by (metis of_int_abs of_int_less_1_iff)
  then show ?thesis by simp
qed

lemma show_fixed_tenths:
  assumes "n \<le> 3000"
  shows "show_fixed 1 (f64_tenths (int n)) = show_decimal 1 (of_nat n / 10)"
proof -
  let ?q = "of_nat n / 10 :: rat" and ?r = "round64 (of_nat n / 10) :: rat"
  have t: "f64_tenths (int n) = Finite ?r" using f64_tenths_small [of "int n"] assms by simp
  have n: "(of_nat n :: rat) \<le> 3000" using assms by (metis of_nat_le_iff of_nat_numeral)
  have error: "\<bar>?r - ?q\<bar> \<le> (?q + 1) / 1000000000000000" using round64_error [of ?q] by simp
  also have small: "\<dots> \<le> 1 / 100" using n by (simp add: divide_le_eq)
  finally have near: "\<bar>?r - ?q\<bar> \<le> 1 / 100" .
  have sign: "0 \<le> ?r"
  proof (cases "n = 0")
    case True
    then show ?thesis using round64_int [of 0] by simp
  next
    case False
    then have "1 \<le> (of_nat n :: rat)" by simp
    then show ?thesis using near by linarith
  qed
  have "\<bar>?r * 10 - of_nat n\<bar> = \<bar>10 * (?r - ?q)\<bar>" by simp
  also have "\<dots> = 10 * \<bar>?r - ?q\<bar>" by (simp only: abs_mult abs_numeral)
  finally have "\<bar>\<bar>?r\<bar> * 10 - of_nat n\<bar> < 1 / 2" using near sign by simp
  then have "round_half_even (\<bar>?r\<bar> * 10) = int n" by (intro round_half_even_near) simp
  moreover have "round_half_even (\<bar>?q\<bar> * 10) = int n" using round_half_even_int [of "int n"] by simp
  ultimately show ?thesis using sign by (simp add: t show_decimal_def Let_def)
qed

section \<open>Names and lists\<close>

definition list_name :: "string \<Rightarrow> bool" where
  "list_name s \<longleftrightarrow> list_all plain_char s \<and> CHR '','' \<notin> set s \<and> s \<notin> {''none'', []}"

lemma names_plain: "list_name (fault_name f)" "list_name (config_screen_name scr)"
  by (cases f; simp add: list_name_def plain_char_def) (cases scr; simp add: list_name_def plain_char_def)

lemma join_with_on: "join_with [sep] ps = join_on sep ps"
  by (induction "[sep]" ps rule: join_with.induct) auto

lemma parse_name_list:
  assumes "\<And>x. x \<in> set xs \<Longrightarrow> list_name (name x)"
  shows "parse_item_value jt key (JArray vs) (name_list (map (\<lambda>x. json_enum (JString (name x))) xs))
    = Inr (JArray (map (\<lambda>x. JString (name x)) xs))"
proof (cases "xs = []")
  case True
  then show ?thesis by (simp add: parse_item_value_def name_list_def)
next
  case False
  let ?text = "join_on CHR '','' (map name xs)"
  have pieces: "split_on CHR '','' ?text = map name xs" using assms False by (intro split_join) (auto simp: list_name_def)
  have "?text \<noteq> []" "?text \<noteq> ''none''"
    using assms False pieces by (cases xs; force simp: list_name_def)+
  moreover have "collectR (map (\<lambda>p. parse_list_item key (trim p)) (map name xs)) = Inr (map (\<lambda>x. JString (name x)) xs)"
    using assms by (induction xs) (auto simp: parse_list_item_def trim_plain list_name_def)
  ultimately show ?thesis
    using False by (simp add: parse_item_value_def name_list_def join_with_on pieces)
qed

section \<open>Setting an item to what it is\<close>

lemma update_same: "map_of obj k = Some v \<Longrightarrow> AList.update k v obj = obj"
  by (induction obj) (auto split: if_splits)

lemma set_path_same:
  assumes "walk_item key path document = Inr leaf" and "\<not> is_object leaf" and "path \<noteq> []"
    and "parse_item_value jt key leaf raw = Inr leaf"
  shows "set_path jt key raw path document = Inr document"
  using assms
proof (induction path arbitrary: document)
  case (Cons component path)
  then obtain obj child where d: "document = JObject obj" "map_of obj component = Some child"
    "walk_item key path child = Inr leaf" "component \<noteq> []"
    by (cases document) (auto split: if_splits option.splits)
  then show ?case
    using Cons by (cases "path = []") (auto simp: update_same)
qed simp

definition shows_itself :: "json_text \<Rightarrow> device_settings \<Rightarrow> string \<times> string \<Rightarrow> bool" where
  "shows_itself jt s item \<longleftrightarrow>
     (\<exists>leaf. settings_item s (fst item) = Inr leaf \<and> parse_item_value jt (fst item) leaf (snd item) = Inr leaf)"

lemma set_item_values_same:
  "list_all (shows_itself jt s) items \<Longrightarrow> set_item_values jt (settings_to_json s) items = Inr (settings_to_json s)"
  by (induction items) (auto simp: shows_itself_def set_item_value_def settings_item_Inr set_path_same)

section \<open>The form\<close>

text \<open>What is relied on of the JSON parser: numbers it documents to accept, and the nearest float.\<close>

definition reads_numbers :: "json_text \<Rightarrow> bool" where
  "reads_numbers jt \<longleftrightarrow>
     (\<forall>n < 2 ^ 64. json_parse jt (show_nat n) = Inr (JNumber (PosInt (word_of_nat n))))
     \<and> (\<forall>n \<le> 3000. json_parse jt (show_decimal 1 (of_nat n / 10)) = Inr (JNumber (FloatNumber (f64_tenths (int n)))))"

lemma parse_u8_item:
  assumes "reads_numbers jt"
  shows "parse_item_value jt key (json_u8 v) (show_nat (unat v)) = Inr (json_u8 v)"
proof -
  have "unat v < 2 ^ 64" using unsigned_less [of v] by (rule less_trans) simp
  then show ?thesis using assms by (simp add: reads_numbers_def parse_item_value_def json_u8_def)
qed

lemma parse_u16_item:
  assumes "reads_numbers jt"
  shows "parse_item_value jt key (json_u16 v) (show_nat (unat v)) = Inr (json_u16 v)"
proof -
  have "unat v < 2 ^ 64" using unsigned_less [of v] by (rule less_trans) simp
  then show ?thesis using assms by (simp add: reads_numbers_def parse_item_value_def json_u16_def)
qed

definition in_tenths :: "f64 \<Rightarrow> bool" where
  "in_tenths v \<longleftrightarrow> (\<exists>n \<le> 3000. v = f64_tenths (int n))"

lemma parse_tenths_item:
  assumes "reads_numbers jt" and "in_tenths v"
  shows "parse_item_value jt key (json_f64 v) (show_fixed 1 v) = Inr (json_f64 v)"
proof -
  obtain n where n: "n \<le> 3000" "v = f64_tenths (int n)" using assms(2) by (auto simp: in_tenths_def)
  have "f64_is_finite v" using f64_tenths_small [of "int n"] n by simp
  then show ?thesis
    using assms(1) n show_fixed_tenths [OF n(1)] by (simp add: json_f64_def parse_item_value_def reads_numbers_def)
qed

lemma parse_text_item: "parse_item_value jt key (JString s) raw = Inr (JString raw)"
  by (simp add: parse_item_value_def)

lemma parse_bool_item: "parse_item_value jt key (JBool b) (show_bool b) = Inr (JBool b)"
  by (simp add: parse_item_value_def show_bool_def)

lemma color_hex_serialize: "color_hex w = argb_serialize w"
  by (simp add: color_hex_def argb_serialize_def)

lemmas shown_items = parse_u8_item parse_u16_item parse_tenths_item [unfolded One_nat_def] parse_text_item parse_bool_item
  parse_name_list [where name = fault_name, OF names_plain(1), folded fault_actions_text_def]
  parse_name_list [where name = config_screen_name, OF names_plain(2), folded screen_list_text_def]

definition settings_in_tenths :: "device_settings \<Rightarrow> bool" where
  "settings_in_tenths s \<longleftrightarrow> in_tenths (temperature_min_c (set_fan s)) \<and> in_tenths (temperature_max_c (set_fan s))
     \<and> in_tenths (limit_temperature_c (set_fault_thresholds s)) \<and> in_tenths (limit_wire_current_a (set_fault_thresholds s))"

lemmas item_sections = settings_to_json_def fan_to_json_def actions_to_json_def thresholds_to_json_def display_to_json_def

lemma leaf_json: "\<not> is_object (json_u8 a)" "\<not> is_object (json_u16 b)" "\<not> is_object (json_f64 x)"
  by (simp_all add: json_u8_def json_u16_def json_f64_def)

lemma form_shows_itself:
  assumes "reads_numbers jt" and "settings_in_tenths s"
  shows "list_all (shows_itself jt s) (form_items (show_settings s poll form))"
  using assms(2)
  by (simp add: form_items_def show_settings_def Let_def shows_itself_def settings_item_def item_sections
      settings_in_tenths_def assms(1) shown_items leaf_json color_hex_serialize)

lemma in_tenths_between:
  assumes "tenths_between v lo hi" and "0 \<le> lo" and "hi \<le> 300" and "canonical_tenths v = v"
  shows "in_tenths v"
proof -
  have "lo \<le> hi"
    using assms(1) by (auto simp: tenths_between_def)
  then have "10 * lo \<le> tenths_of v \<and> tenths_of v \<le> 10 * hi" using assms by (intro tenths_between_bounds) auto
  then show ?thesis
    unfolding in_tenths_def using assms by (intro exI [of _ "nat (tenths_of v)"]) (auto simp: canonical_tenths_def)
qed

lemma in_tenths_wire: "wire_current_ok v \<Longrightarrow> canonical_tenths v = v \<Longrightarrow> in_tenths v"
  unfolding in_tenths_def using wire_current_bounds [of v]
  by (intro exI [of _ "nat (tenths_of v)"]) (auto simp: canonical_tenths_def)

lemma decoded_settings:
  assumes "decode_configuration v bytes = Inr c"
  shows "settings_in_tenths (settings_from_configuration c)"
    and "settings_validate (settings_from_configuration c) = Inr ()"
proof -
  have c: "configuration_ok c" "canonical_configuration c = c" using decode_configuration_Inr [OF assms] by auto
  then have "canonical_fan (fan c) = fan c" "canonical_thresholds (fault_thresholds_of c) = fault_thresholds_of c"
    by (metis canonical_configuration_def device_configuration.select_convs
        device_configuration.surjective device_configuration.update_convs)+
  then have f: "canonical_tenths (temperature_min_c (fan c)) = temperature_min_c (fan c)"
    "canonical_tenths (temperature_max_c (fan c)) = temperature_max_c (fan c)"
    "canonical_tenths (limit_temperature_c (fault_thresholds_of c)) = limit_temperature_c (fault_thresholds_of c)"
    "canonical_tenths (limit_wire_current_a (fault_thresholds_of c)) = limit_wire_current_a (fault_thresholds_of c)"
    by (cases "fan c"; cases "fault_thresholds_of c"; simp add: canonical_fan_def canonical_thresholds_def)+
  have ok: "fan_ok (fan c)" "thresholds_ok (fault_thresholds_of c)"
    using c(1) by (simp_all add: configuration_ok_def settings_ok_def settings_from_configuration_def)
  show "settings_in_tenths (settings_from_configuration c)"
    using ok f in_tenths_between in_tenths_wire
    by (auto simp: settings_in_tenths_def settings_from_configuration_def fan_ok_def thresholds_ok_def)
  show "settings_validate (settings_from_configuration c) = Inr ()"
    using c(1) by (simp add: settings_validate_iff configuration_ok_def)
qed

text \<open>C13: applying an untouched form changes nothing. Whatever settings a device reports and whatever
  allowed polling interval the daemon runs, the fields the window shows for them are accepted as
  edits, the edited document is the current one, and the worker that is told to apply or store
  them reports that neither settings nor interval changed, without a single call to the daemon.\<close>

theorem untouched_form_changes_nothing:
  assumes "decode_configuration v bytes = Inr c" and "reads_numbers (gui_json g)"
    and "json_parse (gui_json g) (json_print (gui_json g) (settings_to_json (settings_from_configuration c)))
      = Inr (settings_to_json (settings_from_configuration c))"
    and "100 \<le> wk_poll_interval_ms w \<and> wk_poll_interval_ms w \<le> 5000"
    and "wk_configuration w = Some \<lparr>configuration_json = json_print (gui_json g)
      (settings_to_json (settings_from_configuration c)), revision = r\<rparr>"
  shows "\<exists>edits. form_edits (show_settings (settings_from_configuration c) (wk_poll_interval_ms w) form) = Inr edits
    \<and> gui_apply_configuration g edits persist w
      = (Inr (False, False), emit (UiConfiguration (settings_from_configuration c) (wk_poll_interval_ms w)) w)"
proof -
  let ?s = "settings_from_configuration c" and ?poll = "wk_poll_interval_ms w"
  let ?form = "show_settings ?s ?poll form"
  let ?edits = "\<lparr>ce_items = form_items ?form, ce_poll_interval_ms = ?poll\<rparr>"
  note s = decoded_settings [OF assms(1)]
  have "cf_poll_interval ?form = show_nat (unat ?poll)" by (simp add: show_settings_def Let_def)
  moreover have "unat ?poll < 2 ^ 64" using unsigned_less [of ?poll] by simp
  ultimately have edits: "form_edits ?form = Inr ?edits"
    using assms(4) by (simp add: form_edits_def parse_u64_show_nat config_edits_new_def)
  have parsed: "settings_from_json (gui_json g) (json_print (gui_json g) (settings_to_json ?s)) = Inr ?s"
    using assms(3) s(2) settings_validate_finite [OF s(2)] by (simp add: settings_from_json_def)
  have "with_items (gui_json g) ?s (form_items ?form) = Inr ?s"
    using set_item_values_same [OF form_shows_itself [OF assms(2) s(1)]] parsed
    by (simp add: with_items_def settings_from_value_def)
  then have "gui_apply_configuration g ?edits persist w = (Inr (False, False), emit (UiConfiguration ?s ?poll) w)"
    using parsed assms(5)
    by (simp add: gui_apply_configuration_def edited_configuration_def Let_def bindW_def change_poll_interval_def
        change_settings_def publish_configuration_def emit_def)
  then show ?thesis using edits by blast
qed

text \<open>An instance: the factory configuration, and a parser of its document and of numbers.\<close>

definition json_of_numbers :: "json \<Rightarrow> json_text" where
  "json_of_numbers document = \<lparr>json_print = (\<lambda>_. ''{}''),
     json_parse = (\<lambda>s. Inr (if s = ''{}'' then document
       else if CHR ''.'' \<in> set s
       then JNumber (FloatNumber (f64_tenths (int (from_decimal (filter (\<lambda>c. c \<noteq> CHR ''.'') s)))))
       else JNumber (PosInt (word_of_nat (from_decimal s))))),
     json_complaint = (\<lambda>_. ''invalid type'')\<rparr>"

lemma show_nat_chars: "CHR ''.'' \<notin> set (show_nat n)" "CHR ''{'' \<notin> set (show_nat n)"
  using show_nat_digits [of "CHR ''.''" n] show_nat_digits [of "CHR ''{''" n] by (auto simp: digit_value_def)

lemma json_of_numbers_reads: "reads_numbers (json_of_numbers document)"
proof -
  have whole: "show_nat n \<noteq> ''{}''" for n using show_nat_chars(2) [of n] by auto
  have decimal: "show_decimal 1 (of_nat n / 10) = show_nat (n div 10) @ ''.'' @ [digit_char (n mod 10)]" for n
    using round_half_even_int [of "int n"]
    by (simp add: show_decimal_def Let_def show_padded_def pad_left_def show_nat.simps [of "n mod 10"])
  have "from_decimal (filter (\<lambda>c. c \<noteq> CHR ''.'') (show_decimal 1 (of_nat n / 10))) = n" for n
  proof -
    have "digit_value CHR ''.'' = None" by (simp add: digit_value_def)
    then have "digit_char (n mod 10) \<noteq> CHR ''.''"
      using digit_value_char [of "n mod 10"] by (metis mod_less_divisor option.distinct(1) zero_less_numeral)
    moreover have "filter (\<lambda>c. c \<noteq> CHR ''.'') (show_nat (n div 10)) = show_nat (n div 10)"
      using show_nat_chars(1) [of "n div 10"] by (auto simp: filter_id_conv)
    ultimately have "filter (\<lambda>c. c \<noteq> CHR ''.'') (show_decimal 1 (of_nat n / 10))
        = show_nat (n div 10) @ [digit_char (n mod 10)]"
      unfolding decimal by simp
    then show ?thesis by (simp add: from_decimal_append digit_value_char)
  qed
  moreover have "show_decimal 1 (of_nat n / 10) \<noteq> ''{}'' \<and> CHR ''.'' \<in> set (show_decimal 1 (of_nat n / 10))" for n
    unfolding decimal using show_nat_chars(2) [of "n div 10"] by (auto simp: append_eq_Cons_conv)
  ultimately show ?thesis
    by (simp add: reads_numbers_def json_of_numbers_def whole show_nat_chars(1))
qed

definition factory_settings :: device_settings where
  "factory_settings = settings_from_configuration (canonical_configuration configuration_mock)"

definition form_client :: "unit gui" where
  "form_client = \<lparr>gui_sha256 = (\<lambda>_. []), gui_contract = [],
     gui_json = json_of_numbers (settings_to_json factory_settings), gui_entry_json = (\<lambda>e. []), gui_faults = no_faults,
     gui_regular = (\<lambda>p. True), gui_now = (\<lambda>s. 0), gui_connect = Pair NoReply, gui_status = Pair NoReply,
     gui_telemetry = Pair NoReply, gui_device_info = Pair NoReply, gui_configuration = Pair NoReply,
     gui_set_screen = (\<lambda>_. Pair NoReply), gui_clear_faults = (\<lambda>_ _ _. Pair NoReply),
     gui_set_poll_interval = (\<lambda>_. Pair NoReply), gui_apply = (\<lambda>_. Pair NoReply), gui_store = (\<lambda>_ _. Pair NoReply),
     gui_reload = Pair NoReply, gui_reset = (\<lambda>_. Pair NoReply), gui_reboot = (\<lambda>_. Pair NoReply),
     gui_read_theme = (\<lambda>_. Pair NoReply), gui_write_theme = (\<lambda>_ _ _ _ _. Pair NoReply),
     gui_begin = Pair NoReply, gui_chunk = (\<lambda>_ _ _. Pair NoReply), gui_end = (\<lambda>_. Pair NoReply)\<rparr>"

definition form_worker :: "unit worker" where
  "form_worker = worker_new form_client () example_disk
     \<lparr>wk_configuration := Some \<lparr>configuration_json = ''{}'', revision = ''r1''\<rparr>\<rparr>"

theorem untouched_form_changes_nothing_witness:
  "\<exists>edits. form_edits (show_settings factory_settings 500 config_form_initial) = Inr edits
    \<and> gui_apply_configuration form_client edits True form_worker
      = (Inr (False, False), emit (UiConfiguration factory_settings 500) form_worker)"
proof -
  obtain bytes where d: "decode_configuration 2 bytes = Inr (canonical_configuration configuration_mock)"
    using encode_configuration_ok [OF configuration_mock_ok] by (auto simp: configuration_mock_def)
  have poll: "wk_poll_interval_ms form_worker = 500" by (simp add: form_worker_def worker_new_def)
  show ?thesis
    using untouched_form_changes_nothing [OF d, of form_client form_worker "''r1''" config_form_initial True]
    unfolding poll factory_settings_def [symmetric]
    by (simp add: json_of_numbers_reads form_client_def) (simp add: json_of_numbers_def form_worker_def)
qed

end
