(* ===== verification/WindowService.thy ===== *)
theory WindowService
  imports WorkerService WindowProps ConfigFormProps
begin

text \<open>
  From the device to the window: the history the window shows is the device's log. And one state the
  window does not leave: a read that was asked to stop before its first turn still announces itself.
\<close>

section \<open>The log, from the device to the window\<close>

text \<open>C11: what the window shows as the device's history is the device's log, end to end. Over any
  device that keeps its log, and whatever happens around it (commands, timers, sessions and
  connections that change, chunks that are short, calls that are lost or late, other clients at
  work on the same manager): when the window shows a loaded history, the worker holds the exact
  bytes of the whole log, and the window shows the number of entries the parser finds in them,
  whether the log's end was found, and as rows the last 80 entries in order.\<close>

theorem desktop_history_exact:
  assumes "logged_device ops good contents" and "world_safe good moves_on" and "good b"
    and "\<And>k. sv_ops (svs k) = ops \<and> sv_json (svs k) = jt \<and> serves (svs k) moves_on"
    and "manager_reachable ops jt moves_on (spawn_manager ops b interval) m"
    and "worker_run (service_gui net svs base) (others_work ops jt moves_on) n
      (worker_new (service_gui net svs base) (k, m) d) w"
    and "hp_loaded (wd_history (apply_events clocks (wk_events w) (window_new page)))"
  shows "\<exists>h p. wk_history w = Some h \<and> hist_bytes h = contents \<and> parse_history contents = Some p
    \<and> hp_entry_count (wd_history (apply_events clocks (wk_events w) (window_new page))) = saturating_i32 (length (entries p))
    \<and> hp_end_found (wd_history (apply_events clocks (wk_events w) (window_new page))) = end_found p
    \<and> hp_rows (wd_history (apply_events clocks (wk_events w) (window_new page)))
      = map history_row_shown (last_rows (map history_row_of (entries p)))"
proof -
  have "shows_history (apply_events clocks (wk_events w) (window_new page)) w"
    using worker_run_true [OF assms(6), of clocks page] by (simp add: window_true_def shows_worker_def shown_def)
  then obtain h where h: "wk_history w = Some h"
    and shown: "hp_entry_count (wd_history (apply_events clocks (wk_events w) (window_new page))) = saturating_i32 (hist_entries h)"
      "hp_end_found (wd_history (apply_events clocks (wk_events w) (window_new page))) = hist_end_found h"
      "hp_rows (wd_history (apply_events clocks (wk_events w) (window_new page))) = map history_row_shown (hist_rows h)"
    using assms(7) by (auto simp: shows_history_def split: option.splits)
  from worker_history_exact [OF assms(1-6) h] h shown show ?thesis by auto
qed

abbreviation frozen_clock :: "nat \<Rightarrow> u64" where
  "frozen_clock \<equiv> \<lambda>_. 0"

theorem desktop_history_exact_witness:
  "\<exists>n w h. worker_run mock_gui (others_work mock_backend (sv_json renaming_server) time_passes) n
       (worker_new mock_gui (0, example_session) example_disk) w
     \<and> hp_loaded (wd_history (apply_events frozen_clock (wk_events w) (window_new 0)))
     \<and> wk_history w = Some h \<and> hist_bytes h = mock_log"
proof -
  have servers: "sv_ops renaming_server = mock_backend \<and> sv_json renaming_server = sv_json renaming_server
      \<and> serves renaming_server time_passes" for i :: nat
    by (simp add: renaming_server_serves) (simp add: renaming_server_def)
  have run: "manager_reachable mock_backend (sv_json renaming_server) time_passes
      (spawn_manager mock_backend mock_default (ms 1000)) example_session"
    unfolding example_session_def example_start_def
    by (rule manager_reachable.step [OF manager_reachable.start manager_step.candidates]) (simp add: spawn_manager_def)
  obtain n w h where w: "worker_run mock_gui (others_work mock_backend (sv_json renaming_server) time_passes) n
       (worker_new mock_gui (0, example_session) example_disk) w" "wk_history w = Some h"
    using mock_shows by blast
  have loaded: "hp_loaded (wd_history (apply_events frozen_clock (wk_events w) (window_new 0)))"
    using worker_run_true [OF w(1), of frozen_clock 0] w(2)
    by (simp add: window_true_def shows_worker_def shows_history_def shown_def)
  have "hist_bytes h = mock_log"
    using desktop_history_exact [OF mock_logged.logged_device_axioms time_passes_safe mock_default_inv servers run w(1) loaded]
      w(2) by auto
  then show ?thesis using w loaded by blast
qed

theorem window_shows_the_worker_witness:
  "\<exists>n w. worker_run mock_gui (=) n (worker_new mock_gui (0, example_session) example_disk) w
     \<and> wk_history w \<noteq> None \<and> hp_loaded (wd_history (apply_events frozen_clock (wk_events w) (window_new 0)))"
proof -
  obtain n w h where w: "worker_run mock_gui (=) n (worker_new mock_gui (0, example_session) example_disk) w"
    "wk_history w = Some h"
    using mock_shows by blast
  then show ?thesis
    using window_shows_the_worker [OF w(1), of frozen_clock 0] by (auto simp: shows_worker_def shows_history_def)
qed

section \<open>A stale read\<close>

lemma history_loading_last:
  "hp_loading (wd_history (apply_events clocks (es @ [UiHistoryProgress fraction message active]) wd)) = active"
  by (simp add: apply_events_emit)

lemma call_env: "\<exists>s. snd (call f w) = w\<lparr>wk_env := s\<rparr>"
  by (cases "f (wk_env w)") (auto simp: call_def)

lemma call_result_env: "call f w = (r, v) \<Longrightarrow> \<exists>s. v = w\<lparr>wk_env := s\<rparr>"
  using call_env [of f w] by auto

lemma task_close_env: "task_close g dump q w = (r, v) \<Longrightarrow> \<exists>s. v = w\<lparr>wk_env := s\<rparr>"
  by (auto simp: task_close_def call_def split: prod.splits sum.splits)

lemma task_open_env:
  "task_open g token w = (r, v) \<Longrightarrow>
     \<exists>s. v = (emit (UiHistoryProgress (Finite 0) ''Opening a device history lease'' True) w)\<lparr>wk_env := s\<rparr>"
  by (auto simp: task_open_def bindW_def call_def open_lease_def refuse_lease_def
      split: prod.splits sum.splits if_splits)

lemma task_open_cancelled:
  "task_open g token w = (Inr phase, v) \<Longrightarrow> wk_cancelled w ! token \<Longrightarrow> \<exists>dump. phase = Closing dump (Inl CCancelled)"
  by (auto simp: task_open_def bindW_def call_def open_lease_def refuse_lease_def emit_def next_phase_def FLASH_LENGTH_def
      split: prod.splits sum.splits if_splits)

text \<open>C34: a read that was asked to stop before its first turn leaves the window reading forever. When a
  session or the connection changed after the user asked for the history and before the task began,
  the task still announces itself, and nothing takes that back: after at most two of its turns it
  is over, its result has been ignored, and the window shows a read in progress, which disables the
  button that loads the history, while cancelling does nothing, since there is no read to cancel.\<close>

theorem stale_read_keeps_window_reading:
  assumes "wk_tasks w = [t]" and "ht_phase t = Opening" and "wk_cancelled w ! ht_cancel t"
    and "ht_generation t \<noteq> wk_generation w" and "wk_results w = []" and "wk_history_cancel w = None"
  shows "\<exists>k\<le>2. \<exists>v. v = receive_result ((task_step g 0 ^^ k) w) \<and> wk_tasks v = [] \<and> wk_results v = []
    \<and> hp_loading (wd_history (apply_events clocks (wk_events v) (window_new page)))
    \<and> gui_command g UcCancelHistory v = v"
proof -
  let ?opening = "UiHistoryProgress (Finite 0) ''Opening a device history lease'' True"
  let ?u = "emit ?opening w"
  have t: "wk_tasks w ! 0 = t" using assms(1) by simp
  obtain r u where open_it: "task_open g (ht_cancel t) w = (r, u)" by fastforce
  obtain s where u: "u = ?u\<lparr>wk_env := s\<rparr>" using task_open_env [OF open_it] by blast
  have over: "\<exists>v. v = receive_result x \<and> wk_tasks v = [] \<and> wk_results v = []
      \<and> hp_loading (wd_history (apply_events clocks (wk_events v) (window_new page)))
      \<and> gui_command g UcCancelHistory v = v"
    if "x = end_task 0 q (y\<lparr>wk_env := s'\<rparr>)" "wk_events y = wk_events ?u" "wk_tasks y ! 0 = t'" "length (wk_tasks y) = 1"
      "ht_generation t' = ht_generation t" "wk_results y = []" "wk_generation y = wk_generation w" "wk_history_cancel y = None"
    for x q y s' t'
  proof -
    have "wk_tasks y = [t']" using that(3,4) by (cases "wk_tasks y") auto
    then have "receive_result x = y\<lparr>wk_env := s', wk_tasks := [], wk_results := []\<rparr>"
      using that assms(4) by (simp add: end_task_def receive_result_def Let_def)
    then show ?thesis
      using that history_loading_last [of clocks "wk_events w"]
      by (simp add: cancel_history_command_def emit_def)
  qed
  show ?thesis
  proof (cases r)
    case (Inl e)
    have "task_step g 0 w = end_task 0 (Inl e) (?u\<lparr>wk_env := s\<rparr>)"
      using open_it u Inl by (simp add: task_step_def t assms(2))
    then show ?thesis
      using over [where x = "(task_step g 0 ^^ 1) w" and q = "Inl e" and y = ?u and s' = s and t' = t] assms by (intro exI [of _ 1]) (simp add: emit_def)
  next
    case (Inr phase)
    obtain dump where phase: "phase = Closing dump (Inl CCancelled)"
      using task_open_cancelled [OF open_it [unfolded Inr] assms(3)] by blast
    let ?w1 = "set_task 0 phase (?u\<lparr>wk_env := s\<rparr>)"
    have one: "task_step g 0 w = ?w1"
      using open_it u Inr by (simp add: task_step_def t assms(2))
    obtain q x where close_it: "task_close g dump (Inl CCancelled) ?w1 = (q, x)" by fastforce
    obtain s' where x: "x = ?w1\<lparr>wk_env := s'\<rparr>" using task_close_env [OF close_it] by blast
    have "task_step g 0 ?w1 = end_task 0 q (?w1\<lparr>wk_env := s'\<rparr>)"
      using close_it x assms(1) by (simp add: task_step_def phase set_task_def emit_def Let_def)
    then show ?thesis
      using over [where x = "(task_step g 0 ^^ 2) w" and q = q and y = ?w1 and s' = s' and t' = "t\<lparr>ht_phase := phase\<rparr>"] assms one
      by (intro exI [of _ 2]) (simp add: numeral_2_eq_2 set_task_def emit_def)
  qed
qed

text \<open>An instance: the history is asked for before the first refresh, which finds a new session.\<close>

lemma refresh_status_reads:
  assumes "wk_session_id w = None"
  shows "same_reads (session_changed (st_session_id status)
      (emit (UiStatus status) (w\<lparr>wk_poll_interval_ms := st_poll_interval_ms status\<rparr>))) (snd (refresh_status g status w))"
proof -
  define w1 where "w1 = emit (UiStatus status) (w\<lparr>wk_poll_interval_ms := st_poll_interval_ms status\<rparr>)"
  define w2 where "w2 = session_changed (st_session_id status) w1"
  define w3 where "w3 = (if device_usable status \<and> (\<not> wk_device_info_loaded w2 \<or> wk_configuration w2 = None)
    then load_session_data g False w2 else w2)"
  have new: "wk_session_id w1 \<noteq> Some (st_session_id status)" using assms by (simp add: w1_def emit_def)
  have 3: "same_reads w2 w3" by (simp add: w3_def reads.load_frame)
  have t: "framed same_reads (connection_mut (call (gui_telemetry g)))"
    by (rule reads.framed_connection [OF reads.framed_call [OF daemon_calls(3)]])
  have "same_reads w2 v" if "connection_mut (call (gui_telemetry g)) w3 = (r, v)" for r v
    using same_reads_trans [OF 3 framedD [OF t that]] .
  moreover have "same_reads w2 (emit e v)" if "same_reads w2 v" for e v
    using same_reads_trans [OF that same_reads_any_event] .
  ultimately show ?thesis
    using 3 new unfolding refresh_status_def Let_def w1_def [symmetric]
    by (simp only: if_True simp_thms w2_def [symmetric] w3_def [symmetric])
      (auto split: prod.split sum.split client_error.split wireview_error.split)
qed

lemma mock_goes_stale:
  "\<exists>w t. worker_run mock_gui (=) 2 (worker_new mock_gui (0, example_session) example_disk) w
     \<and> wk_tasks w = [t] \<and> ht_phase t = Opening \<and> wk_cancelled w ! ht_cancel t
     \<and> ht_generation t \<noteq> wk_generation w \<and> wk_results w = [] \<and> wk_history_cancel w = None"
proof -
  define w where "w = gui_command mock_gui UcLoadHistory (worker_new mock_gui (0, example_session) example_disk)"
  let ?stale = "\<lambda>x (v :: (nat \<times> mock_state manager) worker). wk_tasks v = [\<lparr>ht_generation = 1, ht_cancel = 0, ht_phase = Opening\<rparr>]
    \<and> wk_cancelled v = [True] \<and> wk_generation v = x \<and> wk_results v = [] \<and> wk_history_cancel v = None"
  obtain status where st: "get_status renaming_server example_session = (status, example_session)"
    "validate_status (gui_sha256 mock_gui) (gui_contract mock_gui) status = Inr ()"
    using mock_status by blast
  have w: "wk_env w = (0, example_session)" "wk_connected w = False" "wk_next_connect w = 0" "gui_now mock_gui s = 0" for s
    by (simp_all add: w_def start_history_def worker_new_def Let_def service_gui_def example_client_def)
  have fields: "wk_tasks w = [\<lparr>ht_generation = 1, ht_cancel = 0, ht_phase = Opening\<rparr>]" "wk_cancelled w = [False]"
    "wk_generation w = 1" "wk_results w = []" "wk_history_cancel w = Some 0" "wk_session_id w = None"
    by (simp_all add: w_def start_history_def worker_new_def Let_def)
  have calls: "gui_connect mock_gui (0, example_session) = (Answered (Inr ()), (Suc 0, example_session))"
    "gui_status mock_gui (Suc 0, example_session) = (Answered (Inr status), (2, example_session))"
    by (simp_all add: service_gui_def calm_wire retS_def see_def st(1))
  let ?c = "w\<lparr>wk_env := (Suc 0, example_session), wk_connected := True, wk_reconnect_delay := 500\<rparr>"
  let ?u = "?c\<lparr>wk_env := (2, example_session)\<rparr>"
  have connected: "refresh mock_gui w = (case refresh_connected mock_gui ?c of
      (Inl e, v) \<Rightarrow> gui_connection_failed mock_gui e v | (Inr _, v) \<Rightarrow> v)"
    by (simp add: refresh_def Let_def call_def w calls rpc_def)
  have status: "refresh_connected mock_gui ?c = refresh_status mock_gui status ?u"
    using st(2) by (simp add: refresh_connected_def bindW_def connection_mut_def call_def calls rpc_def)
  obtain r v where v: "refresh_status mock_gui status ?u = (r, v)" by fastforce
  have "wk_session_id ?u = None" by (simp add: fields)
  from refresh_status_reads [OF this, of status mock_gui, unfolded v] have "?stale 2 v"
    by (simp add: same_reads_def session_changed_def invalidate_history_task_def emit_def fields Let_def)
  moreover have "?stale 3 (gui_connection_failed mock_gui e v)" for e
    using \<open>?stale 2 v\<close> by (simp add: gui_connection_failed_def invalidate_history_task_def emit_def Let_def)
  ultimately have "?stale 2 (refresh mock_gui w) \<or> ?stale 3 (refresh mock_gui w)"
    unfolding connected status v by (cases r) simp_all
  moreover have "worker_run mock_gui (=) 2 (worker_new mock_gui (0, example_session) example_disk) (refresh mock_gui w)"
    unfolding numeral_2_eq_2 w_def
    by (rule worker_run.step [OF worker_run.step [OF worker_run.start worker_step.command] worker_step.tick]) simp
  ultimately show ?thesis by fastforce
qed

theorem stale_read_keeps_window_reading_witness:
  "\<exists>w k v. worker_run mock_gui (=) 2 (worker_new mock_gui (0, example_session) example_disk) w
     \<and> v = receive_result ((task_step mock_gui 0 ^^ k) w) \<and> wk_tasks v = [] \<and> wk_results v = []
     \<and> hp_loading (wd_history (apply_events frozen_clock (wk_events v) (window_new 0)))
     \<and> gui_command mock_gui UcCancelHistory v = v"
proof -
  obtain w t where w: "worker_run mock_gui (=) 2 (worker_new mock_gui (0, example_session) example_disk) w"
    "wk_tasks w = [t]" "ht_phase t = Opening" "wk_cancelled w ! ht_cancel t" "ht_generation t \<noteq> wk_generation w"
    "wk_results w = []" "wk_history_cancel w = None"
    using mock_goes_stale by blast
  show ?thesis using stale_read_keeps_window_reading [OF w(2-7), of mock_gui frozen_clock 0] w(1) by blast
qed

end
