(* ===== verification/Reports.thy ===== *)
theory Reports
  imports HistoryOutput Ipc
begin

text \<open>
  What the command line client prints (\<open>src/bin/wireview.rs\<close>): the reports of telemetry, faults,
  device and configuration, the date of a time stamp, and the frames of \<open>telemetry --watch\<close>, which
  move the terminal's cursor back over the last report.
\<close>

section \<open>Names\<close>

definition spaced :: "string \<Rightarrow> string" where
  "spaced = map (\<lambda>c. if c = CHR ''_'' then CHR '' '' else c)"

definition en_dash :: string where "en_dash = [CHR 0xE2, CHR 0x80, CHR 0x93]"

text \<open>The argument is the JSON value of an enum.\<close>

fun enum_name :: "json \<Rightarrow> string" where
  "enum_name (JString s) = spaced s"
| "enum_name _ = ''unknown''"

definition format_faults :: "fault_kind list \<Rightarrow> string" where
  "format_faults fs = (if fs = [] then ''None''
     else join_with '', '' (map (\<lambda>f. enum_name (JString (fault_name f))) fs))"

definition format_config_color :: "u32 \<Rightarrow> string" where
  "format_config_color color =
    (if color AND 0xff000000 = 0xff000000 then hex_digits hex_upper 6 (unat (color AND 0x00ffffff))
     else hex_digits hex_upper 8 (unat color))"

section \<open>Dates\<close>

text \<open>
  Days since 1970-01-01 as a proleptic Gregorian date. The code's integers are \<open>i64\<close>; the days of a
  \<open>u64\<close> of milliseconds are below \<open>2 ^ 38\<close>, so neither its conversion nor its addition saturates.
\<close>

definition civil_from_days :: "int \<Rightarrow> int \<times> int \<times> int" where
  "civil_from_days days =
    (let shifted_days = days + 719468;
         era = shifted_days div 146097;
         day_of_era = shifted_days - era * 146097;
         year_of_era = (day_of_era - day_of_era div 1460 + day_of_era div 36524 - day_of_era div 146096) div 365;
         year = year_of_era + era * 400;
         day_of_year = day_of_era - (365 * year_of_era + year_of_era div 4 - year_of_era div 100);
         month_prime = (5 * day_of_year + 2) div 153;
         day = day_of_year - (153 * month_prime + 2) div 5 + 1;
         month = month_prime + (if month_prime < 10 then 3 else - 9)
     in (year + (if month \<le> 2 then 1 else 0), month, day))"

definition format_unix_millis_utc :: "u64 \<Rightarrow> string" where
  "format_unix_millis_utc timestamp_ms =
    (let seconds = unat timestamp_ms div 1000;
         milliseconds = unat timestamp_ms mod 1000;
         seconds_of_day = seconds mod 86400;
         hour = seconds_of_day div 3600;
         minute = seconds_of_day mod 3600 div 60;
         second = seconds_of_day mod 60
     in case civil_from_days (int (seconds div 86400)) of (year, month, day) \<Rightarrow>
          show_padded 4 (nat year) @ ''-'' @ show_padded 2 (nat month) @ ''-'' @ show_padded 2 (nat day) @ '' ''
            @ show_padded 2 hour @ '':'' @ show_padded 2 minute @ '':'' @ show_padded 2 second @ ''.''
            @ show_padded 3 milliseconds @ '' UTC'')"

section \<open>Telemetry and faults\<close>

definition optional_temperature :: "string \<Rightarrow> bool \<Rightarrow> f64 \<Rightarrow> string" where
  "optional_temperature label present value =
    (if present then ''  '' @ label @ '': '' @ show_fixed 1 value @ '' '' @ degree @ ''C'' @ nl
     else ''  '' @ label @ '': Not connected'' @ nl)"

definition faults_line :: "string \<Rightarrow> string list \<Rightarrow> string" where
  "faults_line label fs = (if fs = [] then ''  '' @ label @ '': None'' @ nl
     else ''  '' @ label @ '': '' @ join_with '', '' (map spaced fs) @ nl)"

definition pin_line :: "telemetry_dto \<Rightarrow> nat \<Rightarrow> string" where
  "pin_line t index =
    (case (get_at (td_pin_voltages_v t) index, get_at (td_pin_currents_a t) index, get_at (td_pin_power_w t) index) of
       (Some voltage, Some current, Some watts) \<Rightarrow>
         ''  Pin '' @ show_nat (index + 1) @ '': '' @ show_fixed 3 voltage @ '' V, '' @ show_fixed 3 current @ '' A, ''
           @ show_fixed 3 watts @ '' W'' @ nl
     | _ \<Rightarrow> ''  Pin '' @ show_nat (index + 1) @ '': Incomplete data'' @ nl)"

definition pin_count :: "telemetry_dto \<Rightarrow> nat" where
  "pin_count t = max (max (length (td_pin_voltages_v t)) (length (td_pin_currents_a t))) (length (td_pin_power_w t))"

definition format_telemetry :: "telemetry_dto \<Rightarrow> string" where
  "format_telemetry t =
     ''Connection: '' @ (if td_stale t then ''Disconnected (last known data)'' else ''Connected'') @ nl
     @ ''Sequence: '' @ show_nat (unat (td_sequence t)) @ nl
     @ ''Session: '' @ show_nat (unat (td_session_id t)) @ nl
     @ ''Last updated: '' @ format_unix_millis_utc (td_observed_at_ms t) @ nl
     @ nl @ ''Electrical'' @ nl
     @ ''  Average voltage: '' @ show_fixed 3 (td_avg_voltage_v t) @ '' V'' @ nl
     @ ''  Total current: '' @ show_fixed 3 (td_total_current_a t) @ '' A'' @ nl
     @ ''  Total power: '' @ show_fixed 3 (td_total_power_w t) @ '' W'' @ nl
     @ ''  Internal supply (VDD): '' @ show_fixed 3 (td_vdd_v t) @ '' V'' @ nl
     @ ''  Cable power rating: '' @ show_nat (unat (td_cable_capability_w t)) @ '' W'' @ nl
     @ ''  Fan duty: '' @ show_fixed 1 (td_fan_duty_percent t) @ ''%'' @ nl
     @ nl @ ''Connector pins'' @ nl
     @ concat (map (pin_line t) [0..<pin_count t])
     @ (if pin_count t = 0 then ''  No pin data'' @ nl else [])
     @ nl @ ''Temperatures'' @ nl
     @ ''  Onboard input: '' @ show_fixed 1 (td_input_temp_c t) @ '' '' @ degree @ ''C'' @ nl
     @ ''  Onboard output: '' @ show_fixed 1 (td_output_temp_c t) @ '' '' @ degree @ ''C'' @ nl
     @ optional_temperature ''External sensor 1'' (td_external_1_present t) (td_external_1_temp_c t)
     @ optional_temperature ''External sensor 2'' (td_external_2_present t) (td_external_2_temp_c t)
     @ nl @ ''Faults'' @ nl
     @ faults_line ''Active'' (td_active_faults t)
     @ faults_line ''Logged'' (td_logged_faults t)"

definition fault_list :: "string list \<Rightarrow> string" where
  "fault_list fs = (if fs = [] then ''None'' else join_with '', '' fs)"

text \<open>\<open>{:#06X}\<close>.\<close>

definition show_mask :: "u16 \<Rightarrow> string" where
  "show_mask w = ''0x'' @ hex_digits hex_upper 4 (unat w)"

definition format_fault_registers :: "telemetry_dto \<Rightarrow> string" where
  "format_fault_registers t =
     ''Active faults: '' @ fault_list (td_active_faults t) @ nl
     @ ''  Raw mask: '' @ show_mask (td_active_fault_mask t) @ nl
     @ ''  Unknown bits: '' @ show_mask (td_unknown_active_fault_mask t) @ nl
     @ ''Logged faults: '' @ fault_list (td_logged_faults t) @ nl
     @ ''  Raw mask: '' @ show_mask (td_logged_fault_mask t) @ nl
     @ ''  Unknown bits: '' @ show_mask (td_unknown_logged_fault_mask t) @ nl"

text \<open>A JSON map keeps its keys sorted.\<close>

definition fault_json :: "telemetry_dto \<Rightarrow> json" where
  "fault_json t = JObject
     [(''active'', JArray (map JString (td_active_faults t))),
      (''active_mask'', json_u16 (td_active_fault_mask t)),
      (''active_unknown_mask'', json_u16 (td_unknown_active_fault_mask t)),
      (''logged'', JArray (map JString (td_logged_faults t))),
      (''logged_mask'', json_u16 (td_logged_fault_mask t)),
      (''logged_unknown_mask'', json_u16 (td_unknown_logged_fault_mask t))]"

definition fault_bit :: "string \<Rightarrow> nat option" where
  "fault_bit name =
    (let n = map (\<lambda>c. if c = CHR ''-'' then CHR ''_'' else c) (to_ascii_lowercase name)
     in if n = ''chip_over_temperature'' then Some 0
        else if n = ''sensor_over_temperature'' then Some 1
        else if n = ''over_current'' then Some 2
        else if n = ''wire_over_current'' then Some 3
        else if n = ''over_power'' then Some 4
        else if n = ''current_imbalance'' then Some 5
        else None)"

definition unknown_fault :: "string \<Rightarrow> cli_error" where
  "unknown_fault name = IoError OtherKind (''unknown fault '' @ debug_str name
     @ ''; use chip_over_temperature, sensor_over_temperature, over_current, wire_over_current, over_power, ''
     @ ''or current_imbalance'')"

fun fault_mask_from :: "u16 \<Rightarrow> string list \<Rightarrow> cli_error + u16" where
  "fault_mask_from bits [] = Inr bits"
| "fault_mask_from bits (name # names) = (case fault_bit name of
       None \<Rightarrow> Inl (unknown_fault name)
     | Some b \<Rightarrow> fault_mask_from (bits OR push_bit b 1) names)"

definition fault_mask :: "string list \<Rightarrow> cli_error + u16" where
  "fault_mask names = (if names = [] then Inr KNOWN_FAULT_MASK else fault_mask_from 0 names)"

section \<open>Device and configuration\<close>

definition format_device_info :: "device_info_dto \<Rightarrow> string" where
  "format_device_info info =
     ''Device: '' @ (if di_product_name info = [] then ''WireView Pro II'' else di_product_name info) @ nl
     @ ''UID: '' @ di_unique_id info @ nl
     @ ''Vendor / product: '' @ hex_digits hex_upper 2 (unat (di_vendor_id info)) @ '':''
     @ hex_digits hex_upper 2 (unat (di_product_id info)) @ nl
     @ ''Hardware revision: '' @ di_hardware_revision info @ nl
     @ ''Firmware version: '' @ di_firmware_version info @ nl
     @ ''Configuration version: V'' @ show_nat (unat (di_config_version info + 1)) @ nl
     @ ''Build: '' @ (if di_build_string info = [] then ''Not reported'' else di_build_string info) @ nl
     @ ''Capabilities: '' @ join_with '', '' (di_capabilities info) @ nl"

definition format_configuration :: "device_settings \<Rightarrow> string" where
  "format_configuration c =
    (let f = set_fan c; a = set_fault_actions c; t = set_fault_thresholds c; d = set_display c in
     ''Device configuration'' @ nl
     @ ''  Friendly name: '' @ set_friendly_name c @ nl
     @ ''  Backlight: '' @ show_nat (unat (set_backlight_percent c)) @ ''%'' @ nl
     @ ''  Device logging interval: '' @ show_nat (unat (set_logging_interval_seconds c)) @ '' s'' @ nl
     @ ''  Sensor averaging: '' @ show_nat (unat (set_averaging_ms c)) @ '' ms'' @ nl
     @ ''  Shutdown wait: '' @ show_nat (unat (set_shutdown_wait_seconds c)) @ '' s'' @ nl @ nl
     @ ''Fan'' @ nl
     @ ''  Mode: '' @ enum_name (JString (fan_mode_name (fan_mode_of f))) @ nl
     @ ''  Temperature source: '' @ enum_name (JString (temperature_source_name (temperature_source_of f))) @ nl
     @ ''  Duty range: '' @ show_nat (unat (duty_min_percent f)) @ en_dash @ show_nat (unat (duty_max_percent f)) @ ''%'' @ nl
     @ ''  Temperature range: '' @ show_fixed 1 (temperature_min_c f) @ en_dash @ show_fixed 1 (temperature_max_c f)
     @ '' '' @ degree @ ''C'' @ nl @ nl
     @ ''Fault actions'' @ nl
     @ ''  Display: '' @ format_faults (act_display a) @ nl
     @ ''  Buzzer: '' @ format_faults (act_buzzer a) @ nl
     @ ''  Soft power: '' @ format_faults (act_soft_power a) @ nl
     @ ''  Hard power: '' @ format_faults (act_hard_power a) @ nl @ nl
     @ ''Fault thresholds'' @ nl
     @ ''  Temperature limit: '' @ show_fixed 1 (limit_temperature_c t) @ '' '' @ degree @ ''C'' @ nl
     @ ''  Total current limit: '' @ show_nat (unat (limit_total_current_a t)) @ '' A'' @ nl
     @ ''  Wire current limit: '' @ show_fixed 1 (limit_wire_current_a t) @ '' A'' @ nl
     @ ''  Total power limit: '' @ show_nat (unat (limit_total_power_w t)) @ '' W'' @ nl
     @ ''  Current imbalance limit: '' @ show_nat (unat (current_imbalance_percent t)) @ ''%'' @ nl
     @ ''  Imbalance minimum load: '' @ show_nat (unat (current_imbalance_min_load_a t)) @ '' A'' @ nl @ nl
     @ ''Display / UI'' @ nl
     @ ''  Default screen: '' @ enum_name (JString (config_screen_name (default_screen d))) @ nl
     @ ''  Current scale: '' @ show_nat (unat (current_scale_a d)) @ '' A'' @ nl
     @ ''  Power scale: '' @ enum_name (JString (power_scale_name (power_scale_of d))) @ nl
     @ ''  Rotation: '' @ show_nat (unat (rotation_degrees d)) @ degree @ nl
     @ ''  Timeout mode: '' @ enum_name (JString (timeout_mode_name (timeout_mode_of d))) @ nl
     @ ''  Cycle screens: ''
     @ join_with '', '' (map (\<lambda>s. enum_name (JString (config_screen_name s))) (cycle_screens d)) @ nl
     @ ''  Cycle / timeout: '' @ show_nat (unat (cycle_time_seconds d)) @ '' s / ''
     @ show_nat (unat (timeout_seconds d)) @ '' s'' @ nl
     @ ''  Background: '' @ enum_name (JString (background_name (background_of d))) @ nl
     @ ''  Fan theme: '' @ enum_name (JString (fan_theme_name (fan_theme_of d))) @ nl
     @ ''  Display inversion: '' @ (if inverted d then ''On'' else ''Off'') @ nl
     @ ''  Primary / secondary colors: '' @ format_config_color (primary_color d) @ '' / ''
     @ format_config_color (secondary_color d) @ nl
     @ ''  Highlight / background colors: '' @ format_config_color (highlight_color d) @ '' / ''
     @ format_config_color (background_color d) @ nl)"

section \<open>Watch frames\<close>

text \<open>\<open>str::lines\<close>: the pieces between line feeds without a last empty one, each without its carriage return.\<close>

definition drop_return :: "string \<Rightarrow> string" where
  "drop_return line = (if line \<noteq> [] \<and> last line = CHR 0x0D then butlast line else line)"

definition report_lines :: "string \<Rightarrow> string list" where
  "report_lines s = (let ps = split_on (CHR 0x0A) s in map drop_return (if last ps = [] then butlast ps else ps))"

definition escape :: "string \<Rightarrow> string" where
  "escape code = [CHR 0x1B, CHR ''[''] @ code"

definition clear_line :: string where
  "clear_line = [CHR 0x0D] @ escape ''2K''"

definition watch_frame_line :: "string list \<Rightarrow> nat \<Rightarrow> string" where
  "watch_frame_line ls index = clear_line @ (case get_at ls index of None \<Rightarrow> [] | Some line \<Rightarrow> line) @ nl"

text \<open>The frame that replaces one of \<open>previous_lines\<close> lines, with its own height.\<close>

definition watch_frame :: "string \<Rightarrow> nat \<Rightarrow> string \<times> nat" where
  "watch_frame report previous_lines =
    (let ls = report_lines report; frame_height = max previous_lines (length ls)
     in ((if previous_lines \<noteq> 0 then escape (show_nat previous_lines @ ''A'') else [])
          @ concat (map (watch_frame_line ls) [0..<frame_height]), frame_height))"

definition cleared_frame :: "nat \<Rightarrow> string" where
  "cleared_frame n =
    (if n = 0 then []
     else escape (show_nat n @ ''A'')
       @ concat (map (\<lambda>index. clear_line @ (if index < n then escape ''1B'' else [])) [0..<n + 1])
       @ escape (show_nat n @ ''A'') @ [CHR 0x0D])"

end
