(* ===== verification/Dates.thy ===== *)
theory Dates
  imports Reports
begin

text \<open>
  The date the command line client prints for a time stamp is the date of the calendar: the
  arithmetic of \<open>format_unix_millis_utc\<close> against counting the days one by one.
\<close>

section \<open>The calendar\<close>

definition leap_year :: "int \<Rightarrow> bool" where
  "leap_year y \<longleftrightarrow> y mod 4 = 0 \<and> (y mod 100 \<noteq> 0 \<or> y mod 400 = 0)"

definition month_days :: "int \<Rightarrow> int \<Rightarrow> int" where
  "month_days y m = (if m = 2 then if leap_year y then 29 else 28 else if m \<in> {4, 6, 9, 11} then 30 else 31)"

fun next_date :: "int \<times> int \<times> int \<Rightarrow> int \<times> int \<times> int" where
  "next_date (y, m, d) =
     (if d < month_days y m then (y, m, d + 1) else if m < 12 then (y, m + 1, 1) else (y + 1, 1, 1))"

fun date_after :: "nat \<Rightarrow> int \<times> int \<times> int" where
  "date_after 0 = (1970, 1, 1)"
| "date_after (Suc n) = next_date (date_after n)"

section \<open>Years from March to February\<close>

text \<open>The year that starts on the first of March of year \<open>y\<close>: its first day, its length, and its days.\<close>

definition days_before :: "int \<Rightarrow> int" where
  "days_before y = 365 * y + y div 4 - y div 100 + y div 400"

definition year_length :: "int \<Rightarrow> int" where
  "year_length y = (if leap_year (y + 1) then 366 else 365)"

definition month_of :: "int \<Rightarrow> int" where
  "month_of doy = (let p = (5 * doy + 2) div 153 in p + (if p < 10 then 3 else - 9))"

definition day_of :: "int \<Rightarrow> int" where
  "day_of doy = doy - (153 * ((5 * doy + 2) div 153) + 2) div 5 + 1"

definition date_in :: "int \<Rightarrow> int \<Rightarrow> int \<times> int \<times> int" where
  "date_in y doy = (y + (if month_of doy \<le> 2 then 1 else 0), month_of doy, day_of doy)"

lemma div_next: "0 < k \<Longrightarrow> (y + 1) div k = y div k + (if (y + 1) mod k = 0 then 1 else 0)" for k y :: int
proof -
  assume k: "0 < k"
  have y: "y = k * (y div k) + y mod k" by simp
  have m: "0 \<le> y mod k" "y mod k < k" using k by simp_all
  show ?thesis
  proof (cases "y mod k + 1 < k")
    case True
    have e: "y + 1 = k * (y div k) + (y mod k + 1)" using y by linarith
    have "(y + 1) div k = y div k" by (rule int_div_pos_eq [OF e]) (use m True in linarith)+
    moreover have "(y + 1) mod k = y mod k + 1" by (rule int_mod_pos_eq [OF e]) (use m True in linarith)+
    ultimately show ?thesis using m by simp
  next
    case False
    have e: "y + 1 = k * (y div k + 1) + 0" proof -
      have "y mod k = k - 1" using m False by linarith
      then have "y + 1 = k * (y div k) + k" using y by linarith
      then show ?thesis by (simp only: distrib_left mult_1_right add_0_right)
    qed
    have "(y + 1) div k = y div k + 1" by (rule int_div_pos_eq [OF e]) (use k in simp_all)
    moreover have "(y + 1) mod k = 0" by (rule int_mod_pos_eq [OF e]) (use k in simp_all)
    ultimately show ?thesis by simp
  qed
qed

lemma multiples: "y mod 400 = 0 \<Longrightarrow> y mod 100 = 0" "y mod 100 = 0 \<Longrightarrow> y mod 4 = 0" for y :: int
proof -
  have e: "y = 100 * (4 * (y div 400)) + y mod 400" "y = 4 * (25 * (y div 100)) + y mod 100" by simp_all
  show "y mod 100 = 0" if "y mod 400 = 0"
    by (rule int_mod_pos_eq [where q = "4 * (y div 400)"]) (use e(1) that in linarith)+
  show "y mod 4 = 0" if "y mod 100 = 0"
    by (rule int_mod_pos_eq [where q = "25 * (y div 100)"]) (use e(2) that in linarith)+
qed

lemma days_before_next: "days_before (y + 1) = days_before y + year_length y"
proof -
  define z where "z = y + 1"
  have d: "z div 4 = y div 4 + (if z mod 4 = 0 then 1 else 0)" "z div 100 = y div 100 + (if z mod 100 = 0 then 1 else 0)"
    "z div 400 = y div 400 + (if z mod 400 = 0 then 1 else 0)"
    unfolding z_def by (rule div_next; simp)+
  have e: "365 * z = 365 * y + 365" by (simp add: z_def)
  show ?thesis
    unfolding days_before_def year_length_def leap_year_def z_def [symmetric] d e
    using multiples [of z] by (cases "z mod 4 = 0"; cases "z mod 100 = 0"; cases "z mod 400 = 0") simp_all
qed

section \<open>The arithmetic\<close>

text \<open>A year of an era of 400 years: \<open>c\<close> centuries, \<open>q\<close> groups of four and \<open>r\<close> years.\<close>

lemma year_of_era:
  assumes c: "0 \<le> c" "c \<le> 3" and q: "0 \<le> q" "q \<le> 24" and r: "0 \<le> r" "r \<le> 3"
    and doy: "0 \<le> doy" "doy < (if r = 3 \<and> (q \<noteq> 24 \<or> c = 3) then 366 else 365)"
    and doe: "doe = 36524 * c + 1461 * q + 365 * r + doy"
  shows "(doe - doe div 1460 + doe div 36524 - doe div 146096) div 365 = 100 * c + 4 * q + (r :: int)"
    and "0 \<le> doe \<and> doe < 146097"
proof -
  let ?rho = "24 * c + q + 365 * r + doy"
  define k where "k = (if 1460 \<le> ?rho then 1 else 0 :: int)"
  have rho: "0 \<le> ?rho" "?rho < 2 * 1460" using assms by (auto split: if_splits)
  have 1: "doe div 1460 = 25 * c + q + k"
    by (rule int_div_pos_eq [where r = "?rho - 1460 * k"]) (use rho doe in \<open>auto simp: k_def\<close>)
  have small: "1461 * q + 365 * r + doy \<le> 36524" and last: "c \<noteq> 3 \<Longrightarrow> 1461 * q + 365 * r + doy < 36524"
    using assms by (auto split: if_splits)
  have 2: "doe div 36524 - doe div 146096 = c"
  proof (cases "1461 * q + 365 * r + doy < 36524")
    case True
    have "doe div 36524 = c"
      by (rule int_div_pos_eq [where r = "1461 * q + 365 * r + doy"]) (use True assms in auto)
    moreover have "doe div 146096 = 0" using True assms by (auto intro: div_pos_pos_trivial)
    ultimately show ?thesis by simp
  next
    case False
    then have "doe = 146096" "c = 3" using small last doe by (cases "c = 3"; linarith)+
    then show ?thesis by simp
  qed
  have "(doe - (25 * c + q + k) + c) div 365 = 100 * c + 4 * q + r"
    by (rule int_div_pos_eq [where r = "doy - k"])
      (use assms in \<open>auto simp: k_def split: if_splits\<close>)
  then show "(doe - doe div 1460 + doe div 36524 - doe div 146096) div 365 = 100 * c + 4 * q + r"
    using 1 2 by (metis add_diff_eq diff_add_eq)
  show "0 \<le> doe \<and> doe < 146097" using small last assms by (cases "c = 3") (auto split: if_splits)
qed

lemma civil_in_year:
  assumes "0 \<le> y" and "0 \<le> doy" and "doy < year_length y"
  shows "civil_from_days (days_before y + doy - 719468) = date_in y doy"
proof -
  define era where "era = y div 400"
  define u v where "u = y mod 400" and "v = u mod 100"
  define c where "c = u div 100"
  define q where "q = v div 4"
  define r where "r = v mod 4"
  have parts: "y = 400 * era + u" "u = 100 * c + v" "v = 4 * q + r"
    by (simp_all add: era_def c_def q_def r_def u_def v_def)
  have range: "0 \<le> u" "u < 400" "0 \<le> v" "v < 100" "0 \<le> r" "r < 4"
    by (simp_all add: u_def v_def r_def)
  have y: "y = 400 * era + 100 * c + 4 * q + r" using parts by linarith
  have b: "0 \<le> c" "c \<le> 3" "0 \<le> q" "q \<le> 24" "0 \<le> r" "r \<le> 3"
    using parts range by linarith+
  define z where "z = y + 1"
  have 4: "z mod 4 = (if r = 3 then 0 else r + 1)"
    by (rule int_mod_pos_eq [where q = "100 * era + 25 * c + q + (if r = 3 then 1 else 0)"]) (use y b in \<open>auto simp: z_def\<close>)
  have 100: "z mod 100 = (if q = 24 then 0 else 4 * q + 4)" if "r = 3"
    by (rule int_mod_pos_eq [where q = "4 * era + c + (if q = 24 then 1 else 0)"]) (use y b that in \<open>auto simp: z_def\<close>)
  have 400: "z mod 400 = (if c = 3 then 0 else 100 * c + 100)" if "r = 3" "q = 24"
    by (rule int_mod_pos_eq [where q = "era + (if c = 3 then 1 else 0)"]) (use y b that in \<open>auto simp: z_def\<close>)
  have leap: "leap_year (y + 1) \<longleftrightarrow> r = 3 \<and> (q \<noteq> 24 \<or> c = 3)"
    unfolding leap_year_def z_def [symmetric] using 4 100 400 b by (simp split: if_splits)
  define doe where "doe = 36524 * c + 1461 * q + 365 * r + doy"
  have d: "y div 4 = 100 * era + 25 * c + q" "y div 100 = 4 * era + c" "y div 400 = era"
    using int_div_pos_eq [of y 4 "100 * era + 25 * c + q" r] int_div_pos_eq [of y 100 "4 * era + c" "4 * q + r"]
      int_div_pos_eq [of y 400 era "100 * c + 4 * q + r"] y b by linarith+
  have before: "days_before y + doy = era * 146097 + doe"
    unfolding days_before_def d doe_def using y by simp
  note yoe = year_of_era [OF b assms(2) _ doe_def]
  have len: "doy < (if r = 3 \<and> (q \<noteq> 24 \<or> c = 3) then 366 else 365)"
    using assms(3) leap by (simp add: year_length_def)
  have era: "(days_before y + doy) div 146097 = era"
    using yoe(2) [OF len] by (simp add: before)
  let ?yoe = "100 * c + 4 * q + r"
  have "?yoe div 4 = 25 * c + q" "?yoe div 100 = c"
    using int_div_pos_eq [of ?yoe 4 "25 * c + q" r] int_div_pos_eq [of ?yoe 100 c "4 * q + r"] b by linarith+
  then have doy: "doe - (365 * ?yoe + ?yoe div 4 - ?yoe div 100) = doy" by (simp add: doe_def)
  have y2: "?yoe + era * 400 = y" using y by simp
  have shifted: "days_before y + doy - 719468 + 719468 = days_before y + doy"
    and left: "days_before y + doy - era * 146097 = doe" using before by linarith+
  show ?thesis
    unfolding civil_from_days_def Let_def shifted era left yoe(1) [OF len] doy y2 date_in_def month_of_def day_of_def ..
qed

section \<open>Day by day\<close>

text \<open>The days of a year from March: each is followed by the next of its month or the first of the next
  month; only February needs the year.\<close>

definition march_day_ok :: "nat \<Rightarrow> bool" where
  "march_day_ok i \<longleftrightarrow> (let doy = int i; m = month_of doy; d = day_of doy; m1 = month_of (doy + 1); d1 = day_of (doy + 1)
     in if d < (if m = 2 then 28 else if m \<in> {4, 6, 9, 11} then 30 else 31) then m1 = m \<and> d1 = d + 1
        else m \<noteq> 2 \<and> m1 = (if m < 12 then m + 1 else 1) \<and> d1 = 1)"

lemma march_days: "list_all march_day_ok [0..<364]"
  by code_simp

lemma next_in_year:
  assumes "0 \<le> doy" and "doy + 1 < year_length y"
  shows "next_date (date_in y doy) = date_in y (doy + 1)"
proof (cases "doy < 364")
  case True
  then have "march_day_ok (nat doy)" using march_days assms(1) by (auto simp: list_all_iff)
  then show ?thesis
    using assms(1) by (auto simp: march_day_ok_def date_in_def month_days_def Let_def split: if_splits)
next
  case False
  then have "doy = 364" "leap_year (y + 1)" using assms by (auto simp: year_length_def split: if_splits)
  then show ?thesis by (simp add: date_in_def month_of_def day_of_def month_days_def)
qed

lemma next_year:
  assumes "doy + 1 = year_length y"
  shows "next_date (date_in y doy) = date_in (y + 1) 0"
proof (cases "leap_year (y + 1)")
  case True
  then have "doy = 365" using assms by (simp add: year_length_def)
  then show ?thesis using True by (simp add: date_in_def month_of_def day_of_def month_days_def)
next
  case False
  then have "doy = 364" using assms by (simp add: year_length_def)
  then show ?thesis using False by (simp add: date_in_def month_of_def day_of_def month_days_def)
qed

lemma civil_counts: "\<exists>y doy. 0 \<le> y \<and> 0 \<le> doy \<and> doy < year_length y \<and> int n + 719468 = days_before y + doy
    \<and> date_after n = date_in y doy"
proof (induction n)
  case 0
  show ?case
    by (intro exI [of _ 1969] exI [of _ 306])
      (simp add: days_before_def year_length_def leap_year_def date_in_def month_of_def day_of_def)
next
  case (Suc n)
  then obtain y doy where i: "0 \<le> y" "0 \<le> doy" "doy < year_length y" "int n + 719468 = days_before y + doy"
    "date_after n = date_in y doy" by blast
  show ?case
  proof (cases "doy + 1 < year_length y")
    case True
    then show ?thesis using i next_in_year [OF i(2) True] by (intro exI [of _ y] exI [of _ "doy + 1"]) simp
  next
    case False
    then have last: "doy + 1 = year_length y" using i(3) by simp
    have "0 < year_length (y + 1)" by (simp add: year_length_def)
    then show ?thesis
      using i last next_year [OF last] days_before_next [of y] by (intro exI [of _ "y + 1"] exI [of _ 0]) simp
  qed
qed

lemma civil_from_days_counts: "civil_from_days (int n) = date_after n"
proof -
  obtain y doy where i: "0 \<le> y" "0 \<le> doy" "doy < year_length y" "int n + 719468 = days_before y + doy"
    "date_after n = date_in y doy" using civil_counts by blast
  have "int n = days_before y + doy - 719468" using i(4) by linarith
  then show ?thesis using civil_in_year [OF i(1-3)] i(5) by simp
qed

text \<open>The date of a time stamp is right: for every time stamp a daemon can send, the printed date is
  the one that counting that many days from the first of January 1970 reaches, month by month with
  every leap year, and the clock behind it is the time of that day.\<close>

theorem printed_date_is_calendar_date:
  "\<exists>y m d hour minute second millis. date_after (unat t div 86400000) = (y, m, d)
     \<and> format_unix_millis_utc t = show_padded 4 (nat y) @ ''-'' @ show_padded 2 (nat m) @ ''-'' @ show_padded 2 (nat d)
         @ '' '' @ show_padded 2 hour @ '':'' @ show_padded 2 minute @ '':'' @ show_padded 2 second
         @ ''.'' @ show_padded 3 millis @ '' UTC''
     \<and> hour < 24 \<and> minute < 60 \<and> second < 60 \<and> millis < 1000
     \<and> unat t = 86400000 * (unat t div 86400000) + (3600000 * hour + 60000 * minute + 1000 * second + millis)"
proof -
  define s where "s = unat t div 1000"
  have days: "s div 86400 = unat t div 86400000" by (simp add: s_def div_mult2_eq [symmetric])
  have split: "unat t = 1000 * s + unat t mod 1000" "s = 86400 * (s div 86400) + s mod 86400"
    "s mod 86400 = 3600 * (s mod 86400 div 3600) + s mod 86400 mod 3600"
    "s mod 86400 mod 3600 = 60 * (s mod 86400 mod 3600 div 60) + s mod 86400 mod 3600 mod 60"
    by (simp_all add: s_def)
  have "s mod 86400 mod 3600 mod 60 = s mod 86400 mod 60" by (simp add: mod_mod_cancel)
  then have whole: "unat t = 86400000 * (unat t div 86400000) + (3600000 * (s mod 86400 div 3600)
      + 60000 * (s mod 86400 mod 3600 div 60) + 1000 * (s mod 86400 mod 60) + unat t mod 1000)"
    using split days by linarith
  have bounds: "s mod 86400 div 3600 < 24" "s mod 86400 mod 3600 div 60 < 60" "s mod 86400 mod 60 < 60"
    "unat t mod 1000 < 1000"
    by (simp_all add: less_mult_imp_div_less)
  obtain y m d where date: "date_after (unat t div 86400000) = (y, m, d)" by (rule prod_cases3)
  have printed: "format_unix_millis_utc t = show_padded 4 (nat y) @ ''-'' @ show_padded 2 (nat m) @ ''-''
      @ show_padded 2 (nat d) @ '' '' @ show_padded 2 (s mod 86400 div 3600) @ '':''
      @ show_padded 2 (s mod 86400 mod 3600 div 60) @ '':'' @ show_padded 2 (s mod 86400 mod 60) @ ''.''
      @ show_padded 3 (unat t mod 1000) @ '' UTC''"
    unfolding format_unix_millis_utc_def Let_def s_def [symmetric] civil_from_days_counts days date prod.case ..
  show ?thesis
    by (intro exI conjI) (rule date printed whole bounds)+
qed

end
