(* ===== verification/Cli.thy ===== *)
theory Cli
  imports Reports GuiExport
begin

text \<open>
  The command line client \<open>wireview\<close> (\<open>src/bin/wireview.rs\<close>): what it refuses before it connects, the
  check of the daemon's contract, and one definition per command. A command is a function of the
  daemon's state and the file system; the daemon at the other end of the socket may answer
  anything. The arguments are parsed by third-party code and given as values. The text of the help
  is a parameter, the generated man page and completions are not modelled; a frame or a line is
  written by one call, which fails as a whole; the code's debug assertions are not in a release
  build, and the match before the connection has already refused what they name.
\<close>

section \<open>Arguments\<close>

datatype fault_target = ActiveFaults | LoggedFaults

datatype config_command =
    ConfigShow
  | ConfigGet string
  | ConfigSet string string bool bool
  | ConfigApply path
  | ConfigStore path bool
  | ConfigReload
  | ConfigReset bool

datatype theme_command =
    ThemeRead theme_asset_slot path
  | ThemeWrite theme_asset_slot path bool

datatype debug_command =
    DebugMonitor nat
  | DebugRebootDevice bool
  | DebugFactoryReset bool
  | DebugPollInterval "u64 option"
  | DebugPauseDisplay u64
  | DebugResumeDisplay

datatype cli_command =
    CliStatus
  | CliInfo bool
  | CliFaults bool "(fault_target \<times> string list \<times> bool) option"
  | CliTelemetry bool bool
  | CliHistory history_format "path option"
  | CliConfig bool config_command
  | CliTheme theme_command
  | CliScreen "string option"
  | CliDebug debug_command
  | CliVersion

section \<open>The world of a command\<close>

text \<open>
  \<open>cl_turns\<close> is what \<open>telemetry --watch\<close> meets, in order, until its event stream ends: an event or the
  interruption, whose handler may fail; \<open>cl_stream\<close> is what \<open>debug monitor\<close> receives until its
  stream ends. \<open>cl_pretty\<close> is \<open>serde_json::to_string_pretty\<close>, \<open>cl_complaint\<close> the error of a value that
  is not a configuration document.
\<close>

datatype watch_turn = InterruptSignal "(io_error_kind \<times> string) option" | StreamEvent "device_event_dto rpc"

record 's cli =
  cl_version :: string
  cl_build_id :: string
  cl_sha256 :: "u8 list \<Rightarrow> u8 list"
  cl_contract :: string
  cl_json :: json_text
  cl_pretty :: "json \<Rightarrow> string"
  cl_complaint :: "json \<Rightarrow> string"
  cl_entry_json :: "history_entry \<Rightarrow> string"
  cl_screen_help :: string
  cl_faults :: faults
  cl_regular :: "path \<Rightarrow> bool"
  cl_signal_handler :: "(io_error_kind \<times> string) option"
  cl_signalled :: "disk \<Rightarrow> bool"
  cl_turns :: "watch_turn list"
  cl_stream :: "device_event_dto rpc list"
  cl_history :: "'s link"
  cl_connect :: "'s \<Rightarrow> unit rpc \<times> 's"
  cl_status :: "'s \<Rightarrow> status_dto rpc \<times> 's"
  cl_monitor :: "'s \<Rightarrow> unit rpc \<times> 's"
  cl_telemetry :: "'s \<Rightarrow> telemetry_dto rpc \<times> 's"
  cl_device_info :: "'s \<Rightarrow> device_info_dto rpc \<times> 's"
  cl_clear_faults :: "u16 \<Rightarrow> u16 \<Rightarrow> bool \<Rightarrow> 's \<Rightarrow> telemetry_dto rpc \<times> 's"
  cl_configuration :: "'s \<Rightarrow> configuration_dto rpc \<times> 's"
  cl_get_item :: "string \<Rightarrow> 's \<Rightarrow> configuration_item_dto rpc \<times> 's"
  cl_set_item :: "string \<Rightarrow> string \<Rightarrow> bool \<Rightarrow> bool \<Rightarrow> 's \<Rightarrow> configuration_item_dto rpc \<times> 's"
  cl_apply :: "configuration_dto \<Rightarrow> 's \<Rightarrow> configuration_dto rpc \<times> 's"
  cl_store :: "configuration_dto \<Rightarrow> bool \<Rightarrow> 's \<Rightarrow> configuration_dto rpc \<times> 's"
  cl_reload :: "'s \<Rightarrow> configuration_dto rpc \<times> 's"
  cl_reset :: "bool \<Rightarrow> 's \<Rightarrow> configuration_dto rpc \<times> 's"
  cl_read_theme :: "string \<Rightarrow> 's \<Rightarrow> theme_asset_dto rpc \<times> 's"
  cl_write_theme :: "string \<Rightarrow> u32 \<Rightarrow> string \<Rightarrow> u8 list \<Rightarrow> bool \<Rightarrow> 's \<Rightarrow> theme_asset_write_dto rpc \<times> 's"
  cl_set_screen :: "string \<Rightarrow> 's \<Rightarrow> string rpc \<times> 's"
  cl_reboot :: "bool \<Rightarrow> 's \<Rightarrow> bool rpc \<times> 's"
  cl_get_poll_interval :: "'s \<Rightarrow> u64 rpc \<times> 's"
  cl_set_poll_interval :: "u64 \<Rightarrow> 's \<Rightarrow> u64 rpc \<times> 's"
  cl_pause :: "u64 \<Rightarrow> 's \<Rightarrow> display_pause_dto rpc \<times> 's"
  cl_resume :: "'s \<Rightarrow> display_pause_dto rpc \<times> 's"

type_synonym ('s, 'a) cli_action = "'s \<times> disk \<Rightarrow> (cli_error + 'a) \<times> ('s \<times> disk)"

definition retC :: "'a \<Rightarrow> ('s, 'a) cli_action" where
  "retC x w = (Inr x, w)"

definition failC :: "cli_error \<Rightarrow> ('s, 'a) cli_action" where
  "failC e w = (Inl e, w)"

definition bindC :: "('s, 'a) cli_action \<Rightarrow> ('a \<Rightarrow> ('s, 'b) cli_action) \<Rightarrow> ('s, 'b) cli_action" where
  "bindC act f w = (case act w of (Inl e, w1) \<Rightarrow> (Inl e, w1) | (Inr x, w1) \<Rightarrow> f x w1)"

definition callC :: "('s \<Rightarrow> 'a rpc \<times> 's) \<Rightarrow> ('s, 'a) cli_action" where
  "callC f w = (case f (fst w) of (r, s) \<Rightarrow> (rpc_result r, (s, snd w)))"

definition filesC :: "'a disk_action \<Rightarrow> ('s, 'a) cli_action" where
  "filesC act w = (case act (snd w) of (r, d) \<Rightarrow> (r, (fst w, d)))"

text \<open>\<open>print!\<close> panics when the standard output fails, \<open>writeln!\<close> returns the error.\<close>

definition print_report :: "'s cli \<Rightarrow> string \<Rightarrow> ('s, unit) cli_action" where
  "print_report c report w = (case filesC (write_stdout (cl_faults c) report) w of
       (Inl e, w1) \<Rightarrow> (Inl (CliPanicked (''failed printing to stdout: '' @ cli_error_to_string e)), w1)
     | (Inr _, w1) \<Rightarrow> (Inr (), w1))"

definition println :: "'s cli \<Rightarrow> string \<Rightarrow> ('s, unit) cli_action" where
  "println c line = print_report c (line @ nl)"

definition put_flushed :: "'s cli \<Rightarrow> string \<Rightarrow> ('s, unit) cli_action" where
  "put_flushed c s = bindC (filesC (write_stdout (cl_faults c) s)) (\<lambda>_. filesC (flush_file (cl_faults c)))"

section \<open>Before connecting\<close>

definition refused :: "string \<Rightarrow> ('s, 'a) cli_action" where
  "refused message = failC (IoError OtherKind message)"

definition validate_theme_asset_file :: "'s cli \<Rightarrow> theme_asset_slot \<Rightarrow> path \<Rightarrow> ('s, unit) cli_action" where
  "validate_theme_asset_file c slot p =
     bindC (filesC (inspect_file (cl_faults c) p)) (\<lambda>_ w.
       if \<not> cl_regular c p then failC (IoError InvalidInput ''theme asset input must be a regular file'') w
       else if length (the (files (snd w) (resolve p))) \<noteq> slot_byte_len slot then
         failC (IoError InvalidInput (''theme asset '' @ slot_name slot @ '' must be exactly ''
           @ show_nat (slot_byte_len slot) @ '' bytes'')) w
       else retC () w)"

text \<open>The match before the connection; \<open>True\<close> when the command is already done.\<close>

fun before_connecting :: "'s cli \<Rightarrow> cli_command \<Rightarrow> ('s, bool) cli_action" where
  "before_connecting c CliVersion =
     bindC (println c (''wireview '' @ cl_version c @ '' (build '' @ cl_build_id c @ '')'')) (\<lambda>_. retC True)"
| "before_connecting c (CliScreen screen) =
     (if (case screen of None \<Rightarrow> True | Some value \<Rightarrow> eq_ignore_ascii_case value ''help'') then
        bindC (println c (cl_screen_help c)) (\<lambda>_. retC True)
      else retC False)"
| "before_connecting c (CliConfig json (ConfigStore p yes)) =
     (if yes then retC False else refused ''permanent storage requires --yes'')"
| "before_connecting c (CliConfig json (ConfigSet key v store yes)) =
     (if store \<and> \<not> yes then refused ''permanent item storage requires --yes'' else retC False)"
| "before_connecting c (CliConfig json (ConfigReset yes)) =
     (if yes then retC False else refused ''factory reset requires --yes'')"
| "before_connecting c (CliDebug (DebugRebootDevice yes)) =
     (if yes then retC False else refused ''device reboot requires --yes'')"
| "before_connecting c (CliDebug (DebugFactoryReset yes)) =
     (if yes then retC False else refused ''factory reset requires --yes'')"
| "before_connecting c (CliFaults json (Some (target, names, yes))) =
     (if yes then retC False else refused ''clearing device faults requires --yes'')"
| "before_connecting c (CliTheme (ThemeWrite slot p yes)) =
     (if yes then bindC (validate_theme_asset_file c slot p) (\<lambda>_. retC False)
      else refused ''theme asset write requires --yes'')"
| "before_connecting c _ = retC False"

fun compatibility_message :: "compatibility_error \<Rightarrow> string" where
  "compatibility_message (ApiVersion reported required) =
     ''Unsupported wireviewd API version '' @ show_nat (unat reported) @ ''; this wireview CLI requires version ''
       @ show_nat (unat required) @ ''. Install matching wireview and wireviewd packages.''"
| "compatibility_message (ApiSchema reported required) =
     ''Incompatible wireviewd API schema '' @ debug_str reported @ ''; this CLI requires '' @ debug_str required
       @ ''. Install matching wireview and wireviewd packages.''"
| "compatibility_message (MissingCapabilities missing) =
     ''wireviewd is missing required API capabilities: '' @ missing
       @ ''. Install matching wireview and wireviewd packages.''"

definition require_api_version :: "'s cli \<Rightarrow> status_dto \<Rightarrow> ('s, unit) cli_action" where
  "require_api_version c status = (case validate_status (cl_sha256 c) (cl_contract c) status of
       Inl e \<Rightarrow> failC (IoError OtherKind (compatibility_message e))
     | Inr _ \<Rightarrow> retC ())"

section \<open>JSON of replies\<close>

definition json_u64 :: "u64 \<Rightarrow> json" where
  "json_u64 v = JNumber (PosInt v)"

definition device_info_json :: "device_info_dto \<Rightarrow> json" where
  "device_info_json i = JObject
     [(''unique_id'', JString (di_unique_id i)), (''vendor_id'', json_u8 (di_vendor_id i)),
      (''product_id'', json_u8 (di_product_id i)), (''firmware_version'', JString (di_firmware_version i)),
      (''hardware_revision'', JString (di_hardware_revision i)), (''config_version'', json_u64 (ucast (di_config_version i))),
      (''product_name'', JString (di_product_name i)), (''build_string'', JString (di_build_string i)),
      (''capabilities'', JArray (map JString (di_capabilities i)))]"

definition telemetry_json :: "telemetry_dto \<Rightarrow> json" where
  "telemetry_json t = JObject
     [(''sequence'', json_u64 (td_sequence t)), (''session_id'', json_u64 (td_session_id t)),
      (''observed_at_ms'', json_u64 (td_observed_at_ms t)), (''stale'', JBool (td_stale t)),
      (''vdd_v'', json_f64 (td_vdd_v t)), (''avg_voltage_v'', json_f64 (td_avg_voltage_v t)),
      (''total_current_a'', json_f64 (td_total_current_a t)), (''total_power_w'', json_f64 (td_total_power_w t)),
      (''fan_duty_percent'', json_f64 (td_fan_duty_percent t)),
      (''cable_capability_w'', json_u16 (td_cable_capability_w t)),
      (''pin_voltages_v'', JArray (map json_f64 (td_pin_voltages_v t))),
      (''pin_currents_a'', JArray (map json_f64 (td_pin_currents_a t))),
      (''pin_power_w'', JArray (map json_f64 (td_pin_power_w t))),
      (''input_temp_c'', json_f64 (td_input_temp_c t)), (''output_temp_c'', json_f64 (td_output_temp_c t)),
      (''external_1_present'', JBool (td_external_1_present t)), (''external_1_temp_c'', json_f64 (td_external_1_temp_c t)),
      (''external_2_present'', JBool (td_external_2_present t)), (''external_2_temp_c'', json_f64 (td_external_2_temp_c t)),
      (''active_fault_mask'', json_u16 (td_active_fault_mask t)), (''logged_fault_mask'', json_u16 (td_logged_fault_mask t)),
      (''unknown_active_fault_mask'', json_u16 (td_unknown_active_fault_mask t)),
      (''unknown_logged_fault_mask'', json_u16 (td_unknown_logged_fault_mask t)),
      (''active_faults'', JArray (map JString (td_active_faults t))),
      (''logged_faults'', JArray (map JString (td_logged_faults t)))]"

definition optional_string_json :: "string option \<Rightarrow> json" where
  "optional_string_json v = (case v of None \<Rightarrow> JNull | Some s \<Rightarrow> JString s)"

definition device_event_json :: "device_event_dto \<Rightarrow> json" where
  "device_event_json e = JObject
     [(''event'', JString (ev_event e)), (''sequence'', json_u64 (ev_sequence e)),
      (''session_id'', json_u64 (ev_session_id e)), (''port'', optional_string_json (ev_port e)),
      (''reason'', optional_string_json (ev_reason e)), (''screen'', optional_string_json (ev_screen e))]"

section \<open>Configuration\<close>

record configuration_document =
  doc_revision :: string
  doc_settings :: device_settings

definition document_fields :: "string list" where
  "document_fields = [''revision'', ''settings'']"

definition document_json :: "configuration_document \<Rightarrow> json" where
  "document_json doc = JObject
     [(''revision'', JString (doc_revision doc)), (''settings'', settings_to_json (doc_settings doc))]"

definition document_of_json :: "json \<Rightarrow> configuration_document option" where
  "document_of_json v =
     Option.bind (struct_fields document_fields v) (\<lambda>vs.
     Option.bind (string_of_json (vs ! 0)) (\<lambda>rev.
     Option.bind (settings_of_json (vs ! 1)) (\<lambda>settings.
       Some \<lparr>doc_revision = rev, doc_settings = settings\<rparr>)))"

definition not_a_document :: "string \<Rightarrow> cli_error" where
  "not_a_document complaint = IoError InvalidData (''configuration must be the revision/settings document produced by ''
     @ ''`wireview config show --json`: '' @ complaint)"

definition decode_configuration_dto :: "json_text \<Rightarrow> configuration_dto \<Rightarrow> cli_error + configuration_document" where
  "decode_configuration_dto jt dto =
    (case json_parse jt (configuration_json dto) of
       Inl complaint \<Rightarrow> Inl (BoxedError complaint)
     | Inr v \<Rightarrow> (case settings_of_json v of
           None \<Rightarrow> Inl (BoxedError (json_complaint jt v))
         | Some settings \<Rightarrow> Inr \<lparr>doc_revision = revision dto, doc_settings = settings\<rparr>))"

definition document_request :: "json_text \<Rightarrow> configuration_document \<Rightarrow> cli_error + configuration_dto" where
  "document_request jt doc =
    (case settings_from_json jt (json_print jt (settings_to_json (doc_settings doc))) of
       Inl e \<Rightarrow> Inl (BoxedError (device_error_to_string e))
     | Inr settings \<Rightarrow>
         Inr \<lparr>configuration_json = json_print jt (settings_to_json settings), revision = doc_revision doc\<rparr>)"

definition read_configuration_file :: "'s cli \<Rightarrow> path \<Rightarrow> ('s, configuration_dto) cli_action" where
  "read_configuration_file c p =
     bindC (filesC (read_file (cl_faults c) p)) (\<lambda>contents w.
       if \<not> utf8_valid contents then failC (IoError InvalidData ''stream did not contain valid UTF-8'') w
       else case json_parse (cl_json c) (string_of_bytes contents) of
         Inl complaint \<Rightarrow> failC (not_a_document complaint) w
       | Inr v \<Rightarrow> (case document_of_json v of
           None \<Rightarrow> failC (not_a_document (cl_complaint c v)) w
         | Some doc \<Rightarrow> (document_request (cl_json c) doc, w)))"

definition decode_configuration_item :: "json_text \<Rightarrow> configuration_item_dto \<Rightarrow> cli_error + json" where
  "decode_configuration_item jt item = (case json_parse jt (ci_value_json item) of
       Inl complaint \<Rightarrow> Inl (BoxedError complaint) | Inr v \<Rightarrow> Inr v)"

fun json_shown :: "json_text \<Rightarrow> json \<Rightarrow> string" where
  "json_shown jt (JString s) = s"
| "json_shown jt v = json_print jt v"

fun format_configuration_value :: "json_text \<Rightarrow> json \<Rightarrow> string" where
  "format_configuration_value jt (JString s) = s"
| "format_configuration_value jt (JArray vs) = join_with '','' (map (json_shown jt) vs)"
| "format_configuration_value jt v = json_print jt v"

definition print_configuration_item :: "'s cli \<Rightarrow> configuration_item_dto \<Rightarrow> bool \<Rightarrow> ('s, unit) cli_action" where
  "print_configuration_item c item json =
     bindC (\<lambda>w. (decode_configuration_item (cl_json c) item, w)) (\<lambda>v.
       println c (if json then cl_pretty c (JObject [(''key'', JString (ci_key item)), (''value'', v)])
         else ci_key item @ '' = '' @ format_configuration_value (cl_json c) v))"

definition print_success :: "'s cli \<Rightarrow> string \<Rightarrow> bool \<Rightarrow> ('s, unit) cli_action" where
  "print_success c message json = println c
     (if json then cl_pretty c (JObject [(''message'', JString message), (''success'', JBool True)]) else message)"

fun run_config :: "'s cli \<Rightarrow> bool \<Rightarrow> config_command \<Rightarrow> ('s, unit) cli_action" where
  "run_config c json ConfigShow =
     bindC (callC (cl_configuration c)) (\<lambda>dto.
     bindC (\<lambda>w. (decode_configuration_dto (cl_json c) dto, w)) (\<lambda>doc.
       if json then println c (cl_pretty c (document_json doc))
       else print_report c (format_configuration (doc_settings doc))))"
| "run_config c json (ConfigGet key) =
     bindC (callC (cl_get_item c key)) (\<lambda>item. print_configuration_item c item json)"
| "run_config c json (ConfigSet key v store yes) =
     bindC (callC (cl_set_item c key v store (store \<and> yes))) (\<lambda>item.
     bindC (\<lambda>w. (decode_configuration_item (cl_json c) item, w)) (\<lambda>v.
       print_success c (if store then ''Stored '' @ ci_key item @ '' = '' @ format_configuration_value (cl_json c) v @ '' permanently.''
         else ''Applied '' @ ci_key item @ '' = '' @ format_configuration_value (cl_json c) v @ '' temporarily.'') json))"
| "run_config c json (ConfigApply p) =
     bindC (read_configuration_file c p) (\<lambda>request.
     bindC (callC (cl_apply c request)) (\<lambda>_. print_success c ''Applied temporary configuration successfully.'' json))"
| "run_config c json (ConfigStore p yes) =
     bindC (read_configuration_file c p) (\<lambda>request.
     bindC (callC (cl_store c request yes)) (\<lambda>_. print_success c ''Stored configuration permanently.'' json))"
| "run_config c json ConfigReload =
     bindC (callC (cl_reload c)) (\<lambda>_. print_success c ''Reloaded permanently stored configuration.'' json)"
| "run_config c json (ConfigReset yes) =
     bindC (callC (cl_reset c yes)) (\<lambda>_. print_success c ''Reset configuration to firmware defaults.'' json)"

section \<open>Themes\<close>

definition theme_reply_consistent :: "theme_asset_slot \<Rightarrow> theme_asset_dto \<Rightarrow> bool" where
  "theme_reply_consistent slot asset \<longleftrightarrow>
     ta_slot asset = slot_name slot \<and> unat (ta_byte_length asset) = slot_byte_len slot
     \<and> length (ta_data asset) = slot_byte_len slot \<and> ta_width asset = slot_width slot
     \<and> ta_height asset = slot_height slot"

fun run_theme :: "'s cli \<Rightarrow> theme_command \<Rightarrow> ('s, unit) cli_action" where
  "run_theme c (ThemeRead slot p) =
     bindC (callC (cl_read_theme c (slot_name slot))) (\<lambda>asset.
       let digest = sha256_hex (cl_sha256 c) (ta_data asset) in
       if \<not> theme_reply_consistent slot asset then
         failC (IoError InvalidData ''daemon returned inconsistent theme asset metadata'')
       else if ta_sha256 asset \<noteq> digest then
         failC (IoError InvalidData ''daemon returned a theme asset with an invalid SHA-256'')
       else
         bindC (filesC (with_output (cl_faults c) (Some p) (\<lambda>put. put (string_of_bytes (ta_data asset))))) (\<lambda>_.
           println c (''Read '' @ slot_name slot @ '': '' @ show_nat (length (ta_data asset)) @ '' bytes, SHA-256 ''
             @ digest @ '', written to '' @ show_path p @ ''.'')))"
| "run_theme c (ThemeWrite slot p yes) =
     bindC (validate_theme_asset_file c slot p) (\<lambda>_.
     bindC (filesC (read_file (cl_faults c) p)) (\<lambda>bytes.
       if length bytes \<noteq> slot_byte_len slot then
         failC (IoError InvalidInput ''theme asset file changed while it was being read'')
       else case u32_try_from (length bytes) of
         None \<Rightarrow> failC (CliPanicked ''theme asset length fits u32'')
       | Some byte_length \<Rightarrow>
           let digest = sha256_hex (cl_sha256 c) bytes in
           bindC (callC (cl_write_theme c (slot_name slot) byte_length digest bytes True)) (\<lambda>result.
             if tw_slot result \<noteq> slot_name slot \<or> unat (tw_byte_length result) \<noteq> slot_byte_len slot
               \<or> tw_sha256 result \<noteq> digest then
               failC (IoError InvalidData ''daemon returned inconsistent theme write verification'')
             else println c (''Wrote and verified '' @ slot_name slot @ '': SHA-256 '' @ digest @ ''.''))))"

section \<open>Faults, telemetry and history\<close>

definition clear_named_faults :: "'s cli \<Rightarrow> fault_target \<Rightarrow> string list \<Rightarrow> ('s, telemetry_dto) cli_action" where
  "clear_named_faults c target names =
     bindC (\<lambda>w. (fault_mask names, w)) (\<lambda>bits.
       case target of
         ActiveFaults \<Rightarrow> callC (cl_clear_faults c bits 0 True)
       | LoggedFaults \<Rightarrow> callC (cl_clear_faults c 0 bits True))"

definition run_faults :: "'s cli \<Rightarrow> bool \<Rightarrow> (fault_target \<times> string list \<times> bool) option \<Rightarrow> ('s, unit) cli_action" where
  "run_faults c json command =
     bindC (case command of
         None \<Rightarrow> callC (cl_telemetry c)
       | Some (target, names, yes) \<Rightarrow> clear_named_faults c target names) (\<lambda>t.
       if json then println c (cl_pretty c (fault_json t)) else print_report c (format_fault_registers t))"

definition stream_ended :: cli_error where
  "stream_ended = IoError UnexpectedEof ''daemon event stream ended''"

fun watch_loop :: "'s cli \<Rightarrow> watch_turn list \<Rightarrow> telemetry_dto \<Rightarrow> nat \<Rightarrow> ('s, unit) cli_action" where
  "watch_loop c turns t rendered_lines =
    (let (frame, rendered) = watch_frame (format_telemetry t) rendered_lines in
     bindC (put_flushed c frame) (\<lambda>_. case turns of
         [] \<Rightarrow> failC stream_ended
       | InterruptSignal (Some (kind, message)) # _ \<Rightarrow> failC (IoError kind message)
       | InterruptSignal None # _ \<Rightarrow> put_flushed c (cleared_frame rendered)
       | StreamEvent e # turns1 \<Rightarrow>
           bindC (\<lambda>w. (rpc_result e, w)) (\<lambda>_.
           bindC (callC (cl_telemetry c)) (\<lambda>t1. watch_loop c turns1 t1 rendered))))"

definition run_telemetry :: "'s cli \<Rightarrow> bool \<Rightarrow> bool \<Rightarrow> ('s, unit) cli_action" where
  "run_telemetry c json watch =
     bindC (callC (cl_telemetry c)) (\<lambda>t.
       if json then println c (cl_pretty c (telemetry_json t))
       else if watch then
         bindC (callC (cl_connect c)) (\<lambda>_.
         bindC (callC (cl_status c)) (\<lambda>event_status.
         bindC (require_api_version c event_status) (\<lambda>_.
         bindC (callC (cl_monitor c)) (\<lambda>_. watch_loop c (cl_turns c) t 0))))
       else print_report c (format_telemetry t))"

definition downloadC :: "'s cli \<Rightarrow> ('s, u8 list) cli_action" where
  "downloadC c w = (case download_history (cl_history c) (fst w) of (r, s) \<Rightarrow> (r, (s, snd w)))"

definition run_history :: "'s cli \<Rightarrow> history_format \<Rightarrow> path option \<Rightarrow> ('s, unit) cli_action" where
  "run_history c fmt output =
    (case cl_signal_handler c of
       Some (kind, message) \<Rightarrow> failC (IoError kind message)
     | None \<Rightarrow> bindC (downloadC c) (\<lambda>bytes.
         filesC (write_history (cl_entry_json c) (cl_faults c) (cl_signalled c) bytes fmt output)))"

section \<open>Debugging\<close>

fun monitor_loop :: "'s cli \<Rightarrow> nat \<Rightarrow> nat \<Rightarrow> device_event_dto rpc list \<Rightarrow> ('s, unit) cli_action" where
  "monitor_loop c count so_far [] = retC ()"
| "monitor_loop c count so_far (e # es) =
     bindC (\<lambda>w. (rpc_result e, w)) (\<lambda>event.
     bindC (put_flushed c (json_print (cl_json c) (device_event_json event) @ nl)) (\<lambda>_.
       if count \<noteq> 0 \<and> count \<le> so_far + 1 then retC () else monitor_loop c count (so_far + 1) es))"

definition display_message :: "display_pause_dto \<Rightarrow> string" where
  "display_message p =
    (if dp_history_dump_active p then ''Debug display pause ended; the active history dump still owns its pause.''
     else if dp_paused p then ''Display is still paused; retry resume-display or reboot the device.''
     else ''Display updates resumed.'')"

fun run_debug :: "'s cli \<Rightarrow> debug_command \<Rightarrow> ('s, unit) cli_action" where
  "run_debug c (DebugMonitor count) = bindC (callC (cl_monitor c)) (\<lambda>_. monitor_loop c count 0 (cl_stream c))"
| "run_debug c (DebugRebootDevice yes) =
     bindC (callC (cl_reboot c yes)) (\<lambda>accepted.
       if \<not> accepted then refused ''daemon did not accept the device reboot''
       else println c (''Device reboot command sent. Stored configuration is unchanged; ''
         @ ''the daemon will reconnect automatically.''))"
| "run_debug c (DebugFactoryReset yes) =
     bindC (callC (cl_reset c yes)) (\<lambda>_.
       println c (''Factory defaults restored and stored permanently. ''
         @ ''Existing saved configuration was replaced.''))"
| "run_debug c (DebugPollInterval milliseconds) =
     bindC (case milliseconds of
         Some wanted \<Rightarrow> callC (cl_set_poll_interval c wanted)
       | None \<Rightarrow> callC (cl_get_poll_interval c)) (\<lambda>interval.
       println c (''Telemetry polling interval: '' @ show_nat (unat interval) @ '' ms''))"
| "run_debug c (DebugPauseDisplay seconds) =
    (if 2 ^ 64 \<le> unat seconds * 1000 then
       failC (IoError InvalidInput ''display pause duration is too large'')
     else bindC (callC (cl_pause c (seconds * 1000))) (\<lambda>p.
       println c (''Display updates paused for up to '' @ show_nat ((unat (dp_remaining_ms p) + 999) div 1000)
         @ '' seconds. '' @ ''Run `wireview debug resume-display` to resume sooner.'')))"
| "run_debug c DebugResumeDisplay =
     bindC (callC (cl_resume c)) (\<lambda>p. println c (display_message p))"

section \<open>The program\<close>

definition status_line :: "status_dto \<Rightarrow> string" where
  "status_line status =
     ''state='' @ st_state status @ '' sequence='' @ show_nat (unat (st_sequence status))
     @ '' session='' @ show_nat (unat (st_session_id status)) @ '' port='' @ st_connected_port status
     @ '' poll='' @ show_nat (unat (st_poll_interval_ms status)) @ ''ms display_paused=''
     @ (if st_display_paused status then ''true'' else ''false'') @ '' daemon='' @ st_daemon_version status
     @ '' build='' @ st_daemon_build_id status @ '' api='' @ show_nat (unat (st_api_version status))
     @ '' compatibility='' @ st_api_compatibility_id status"

fun run_connected :: "'s cli \<Rightarrow> status_dto \<Rightarrow> cli_command \<Rightarrow> ('s, unit) cli_action" where
  "run_connected c status CliStatus = println c (status_line status)"
| "run_connected c status (CliInfo json) =
     bindC (callC (cl_device_info c)) (\<lambda>info.
       if json then println c (cl_pretty c (device_info_json info)) else print_report c (format_device_info info))"
| "run_connected c status (CliFaults json command) = run_faults c json command"
| "run_connected c status (CliTelemetry json watch) = run_telemetry c json watch"
| "run_connected c status (CliHistory fmt output) = run_history c fmt output"
| "run_connected c status (CliConfig json command) = run_config c json command"
| "run_connected c status (CliTheme command) = run_theme c command"
| "run_connected c status (CliScreen (Some screen)) =
     bindC (callC (cl_set_screen c screen)) (\<lambda>selected. println c selected)"
| "run_connected c status (CliDebug command) = run_debug c command"
| "run_connected c status (CliScreen None) = failC (CliPanicked ''internal error: entered unreachable code'')"
| "run_connected c status CliVersion = failC (CliPanicked ''internal error: entered unreachable code'')"

definition cli_run :: "'s cli \<Rightarrow> cli_command \<Rightarrow> ('s, unit) cli_action" where
  "cli_run c command =
     bindC (before_connecting c command) (\<lambda>finished.
       if finished then retC ()
       else
         bindC (callC (cl_connect c)) (\<lambda>_.
         bindC (callC (cl_status c)) (\<lambda>status.
         bindC (require_api_version c status) (\<lambda>_. run_connected c status command))))"

text \<open>The exit code of \<open>main\<close>; a panic exits with 101.\<close>

definition cli_exit_code :: "cli_error + unit \<Rightarrow> int" where
  "cli_exit_code r = (case r of Inr _ \<Rightarrow> 0 | Inl (CliPanicked _) \<Rightarrow> 101 | Inl e \<Rightarrow> error_exit_code e)"

end
