(* ===== verification/CliProps.thy ===== *)
theory CliProps
  imports Cli OutputProps ConfigFormProps
begin

text \<open>
  What the command line client's commands guarantee: nothing destructive is sent without \<open>--yes\<close>, nothing
  at all to a daemon with another contract; a configuration that was shown can be stored as it was
  shown, and a theme that was saved can be written back.
\<close>

section \<open>Steps\<close>

lemmas cli_defs = bindC_def callC_def filesC_def retC_def failC_def

lemma bindC_Inr:
  "bindC act f w = (Inr y, w') \<longleftrightarrow> (\<exists>x w1. act w = (Inr x, w1) \<and> f x w1 = (Inr y, w'))"
  by (auto simp: bindC_def split: prod.splits sum.splits)

lemma callC_Inr:
  "callC f w = (Inr x, w') \<longleftrightarrow> f (fst w) = (Inr (Inr x), fst w') \<and> snd w' = snd w"
  by (cases w') (auto simp: callC_def rpc_result_def split: prod.splits sum.splits)

lemma filesC_Inr: "filesC act w = (Inr x, w') \<longleftrightarrow> act (snd w) = (Inr x, snd w') \<and> fst w' = fst w"
  by (cases w') (auto simp: filesC_def split: prod.splits)

lemma pure_Inr: "(r, w) = (Inr x, w') \<longleftrightarrow> r = Inr x \<and> w' = w"
  by auto

lemmas run_Inr = bindC_Inr callC_Inr filesC_Inr

lemma write_stdout_Inr: "write_stdout flt t d = (Inr (), d') \<Longrightarrow> stdout_text d' = stdout_text d @ t \<and> files d' = files d"
  by (auto simp: write_stdout_def disk_op_def split: option.splits)

lemma print_report_Inr:
  assumes "print_report c t w = (Inr (), w')"
  shows "fst w' = fst w \<and> stdout_text (snd w') = stdout_text (snd w) @ t \<and> files (snd w') = files (snd w)"
proof -
  have "filesC (write_stdout (cl_faults c) t) w = (Inr (), w')"
    using assms by (auto simp: print_report_def split: prod.splits sum.splits)
  then show ?thesis using write_stdout_Inr by (auto simp: filesC_Inr)
qed

lemma read_file_clean:
  assumes "fault_free flt" and "files d (resolve p) = Some content"
  shows "read_file flt p d = (Inr (bytes_of_string content), d\<lparr>ops_done := Suc (ops_done d)\<rparr>)"
    and "inspect_file flt p d = (Inr (), d\<lparr>ops_done := Suc (ops_done d)\<rparr>)"
  using assms by (simp_all add: read_file_def inspect_file_def disk_op_def fault_free_def)

section \<open>Refusals\<close>

text \<open>The commands that change what the device keeps, without their confirmation.\<close>

fun unconfirmed :: "cli_command \<Rightarrow> bool" where
  "unconfirmed (CliConfig json (ConfigStore p yes)) = (\<not> yes)"
| "unconfirmed (CliConfig json (ConfigSet key v store yes)) = (store \<and> \<not> yes)"
| "unconfirmed (CliConfig json (ConfigReset yes)) = (\<not> yes)"
| "unconfirmed (CliDebug (DebugRebootDevice yes)) = (\<not> yes)"
| "unconfirmed (CliDebug (DebugFactoryReset yes)) = (\<not> yes)"
| "unconfirmed (CliFaults json (Some (target, names, yes))) = (\<not> yes)"
| "unconfirmed (CliTheme (ThemeWrite slot p yes)) = (\<not> yes)"
| "unconfirmed _ = False"

lemma filesC_daemon: "fst (snd (filesC act w)) = fst w"
  by (simp add: filesC_def split: prod.split)

lemma print_report_daemon: "fst (snd (print_report c t w)) = fst w"
  using filesC_daemon [of "write_stdout (cl_faults c) t" w] by (auto simp: print_report_def split: prod.split sum.split)

lemma bindC_daemon:
  assumes "fst (snd (act w)) = fst w" and "\<And>x w1. fst (snd (f x w1)) = fst w1"
  shows "fst (snd (bindC act f w)) = fst w"
  using assms by (auto simp: bindC_def split: prod.split sum.split)

lemma validate_theme_daemon: "fst (snd (validate_theme_asset_file c slot p w)) = fst w"
  unfolding validate_theme_asset_file_def
  by (rule bindC_daemon) (simp_all add: filesC_daemon failC_def retC_def)

lemma before_connecting_daemon: "fst (snd (before_connecting c command w)) = fst w"
  by (induction c command rule: before_connecting.induct)
    (auto simp: println_def refused_def failC_def retC_def intro!: bindC_daemon print_report_daemon validate_theme_daemon)

lemma unconfirmed_refused:
  "unconfirmed command \<Longrightarrow> \<exists>e. before_connecting c command w = (Inl e, w) \<and> cli_exit_code (Inl e) = 1"
  by (cases command rule: unconfirmed.cases) (auto simp: refused_def failC_def cli_exit_code_def error_exit_code_def)

text \<open>The command line client changes the daemon only when it may. Whatever the command and whatever the
  daemon answers: if a run left the daemon in a state that connecting and asking for its status do
  not, then the daemon's status was received and passed the check of the contract, and the command
  was not one that clears, resets, reboots or rewrites without \<open>--yes\<close>; and such a command changes
  nothing at all, not even a file, and exits with 1.\<close>

theorem cli_changes_daemon_only_when_allowed:
  assumes "cli_run c command w = (r, w')"
  shows "(unconfirmed command \<longrightarrow> w' = w \<and> cli_exit_code r = 1)
    \<and> (fst w' \<notin> {fst w, snd (cl_connect c (fst w)), snd (cl_status c (snd (cl_connect c (fst w))))} \<longrightarrow>
         (\<exists>status. fst (cl_status c (snd (cl_connect c (fst w)))) = Inr (Inr status)
            \<and> validate_status (cl_sha256 c) (cl_contract c) status = Inr ()))"
proof (intro conjI impI)
  assume "unconfirmed command"
  then obtain e where "before_connecting c command w = (Inl e, w)" "cli_exit_code (Inl e) = 1"
    using unconfirmed_refused by blast
  then show "w' = w" "cli_exit_code r = 1" using assms by (auto simp: cli_run_def bindC_def)
next
  assume moved: "fst w' \<notin> {fst w, snd (cl_connect c (fst w)), snd (cl_status c (snd (cl_connect c (fst w))))}"
  obtain q w1 where b: "before_connecting c command w = (q, w1)" by (rule prod.exhaust)
  have w1: "fst w1 = fst w" using before_connecting_daemon [of c command w] b by simp
  obtain q1 s1 where connect: "cl_connect c (fst w) = (q1, s1)" by fastforce
  obtain q2 s2 where status: "cl_status c s1 = (q2, s2)" by fastforce
  have "q = Inr False" using assms moved b w1 by (cases q) (auto simp: cli_run_def cli_defs split: if_splits)
  moreover obtain status where "rpc_result q2 = Inr status" "validate_status (cl_sha256 c) (cl_contract c) status = Inr ()"
    using assms moved b w1 connect status \<open>q = Inr False\<close>
    by (auto simp: cli_run_def cli_defs require_api_version_def split: sum.splits)
  ultimately show "\<exists>status. fst (cl_status c (snd (cl_connect c (fst w)))) = Inr (Inr status)
      \<and> validate_status (cl_sha256 c) (cl_contract c) status = Inr ()"
    using connect status by (auto simp: rpc_result_def split: sum.splits)
qed

section \<open>Showing and storing a configuration\<close>

lemma document_of_to_json:
  "finite_settings (doc_settings doc) \<Longrightarrow> document_of_json (document_json doc) = Some doc"
  by (simp add: document_of_json_def document_json_def document_fields_def struct_fields_def insert_commute)

lemma read_shown_document:
  assumes "fault_free (cl_faults c)" and "files d (resolve p) = Some t" and "utf8_valid (bytes_of_string t)"
    and "json_parse (cl_json c) t = Inr (document_json \<lparr>doc_revision = named, doc_settings = settings\<rparr>)"
    and "settings_validate settings = Inr ()"
    and "json_parse (cl_json c) (json_print (cl_json c) (settings_to_json settings)) = Inr (settings_to_json settings)"
  shows "\<exists>d1. files d1 = files d \<and> read_configuration_file c p (s, d)
    = (Inr \<lparr>configuration_json = json_print (cl_json c) (settings_to_json settings), revision = named\<rparr>, (s, d1))"
  using assms settings_validate_finite [OF assms(5)]
  by (intro exI [of _ "d\<lparr>ops_done := Suc (ops_done d)\<rparr>"])
    (simp add: read_configuration_file_def bindC_def filesC_def read_file_clean document_of_to_json
      document_request_def settings_from_json_def)

text \<open>A configuration that was shown can be applied and stored as it was shown. Whatever configuration
  the device has: when \<open>config show --json\<close> succeeded and a file holds what it printed, then
  \<open>config apply\<close> and \<open>config store\<close> of that file send the daemon exactly the document it had
  reported, with its revision, whatever has happened in between.\<close>

theorem shown_document_can_be_stored:
  assumes "decode_configuration v bytes = Inr configuration"
    and "dto = \<lparr>configuration_json = json_print (cl_json c) (settings_to_json (settings_from_configuration configuration)),
      revision = named\<rparr>"
    and "cl_configuration c s = (Inr (Inr dto), s')"
    and "json_parse (cl_json c) (configuration_json dto) = Inr (settings_to_json (settings_from_configuration configuration))"
    and "doc = document_json \<lparr>doc_revision = named, doc_settings = settings_from_configuration configuration\<rparr>"
    and "json_parse (cl_json c) (cl_pretty c doc @ nl) = Inr doc"
    and "run_config c True ConfigShow (s, d) = (Inr (), (s', d'))"
    and "fault_free (cl_faults c)" and "files d2 (resolve p) = Some t" and "stdout_text d' = stdout_text d @ t"
    and "utf8_valid (bytes_of_string t)"
  shows "\<exists>d3. files d3 = files d2
    \<and> run_config c json (ConfigApply p) (s2, d2) = bindC (callC (cl_apply c dto))
        (\<lambda>_. print_success c ''Applied temporary configuration successfully.'' json) (s2, d3)
    \<and> run_config c json (ConfigStore p yes) (s2, d2) = bindC (callC (cl_store c dto yes))
        (\<lambda>_. print_success c ''Stored configuration permanently.'' json) (s2, d3)"
proof -
  let ?s = "settings_from_configuration configuration"
  let ?doc = "\<lparr>doc_revision = named, doc_settings = ?s\<rparr>"
  have valid: "settings_validate ?s = Inr ()" using decoded_settings [OF assms(1)] by simp
  have "decode_configuration_dto (cl_json c) dto = Inr ?doc"
    using assms(2,4) settings_validate_finite [OF valid] by (simp add: decode_configuration_dto_def)
  then have "print_report c (cl_pretty c (document_json ?doc) @ nl) (s', d) = (Inr (), (s', d'))"
    using assms(3,7) by (simp add: bindC_def callC_def rpc_result_def println_def)
  then have t: "t = cl_pretty c doc @ nl" using print_report_Inr assms(5,10) by fastforce
  obtain d3 where d3: "files d3 = files d2" "read_configuration_file c p (s2, d2) = (Inr dto, (s2, d3))"
    using read_shown_document [OF assms(8,9,11) _ valid, of named s2] assms(2,4,5,6) t by auto
  then show ?thesis by (intro exI [of _ d3]) (simp add: bindC_def)
qed

section \<open>Saving and restoring a theme\<close>

lemma length_string_of_bytes [simp]: "length (string_of_bytes bs) = length bs"
  by (simp add: string_of_bytes_def)

lemma validate_theme_clean:
  assumes "fault_free (cl_faults c)" and "cl_regular c p" and "files d (resolve p) = Some content"
    and "length content = slot_byte_len slot"
  shows "validate_theme_asset_file c slot p (s, d) = (Inr (), (s, d\<lparr>ops_done := Suc (ops_done d)\<rparr>))"
  using assms by (simp add: validate_theme_asset_file_def bindC_def filesC_def read_file_clean retC_def)

lemma theme_file:
  assumes "with_output flt (Some p) (\<lambda>put. put (string_of_bytes bytes)) d = (Inr x, d')"
  shows "files d' (resolve p) = Some (string_of_bytes bytes)"
  using with_output_file_atomic [OF temporary_file.put_appends assms] by (auto simp: replaced_atomically_def)

text \<open>A theme that was saved can be written back. When \<open>theme read\<close> succeeded, whatever the daemon
  answered, the file has exactly the size of the slot and holds the bytes the daemon sent, whose
  digest it checked; and \<open>theme write\<close> of that file, as long as nothing else touched it, sends the
  daemon exactly these bytes for this slot, with their length and digest.\<close>

theorem saved_theme_can_be_restored:
  assumes "run_theme c (ThemeRead slot p) (s, d) = (Inr (), (s', d'))" and "files d2 (resolve p) = files d' (resolve p)"
    and "fault_free (cl_faults c)" and "cl_regular c p"
  shows "\<exists>bytes asset d3. fst (cl_read_theme c (slot_name slot) s) = Inr (Inr asset) \<and> ta_data asset = bytes
    \<and> length bytes = slot_byte_len slot \<and> ta_sha256 asset = sha256_hex (cl_sha256 c) bytes
    \<and> files d2 (resolve p) = Some (string_of_bytes bytes) \<and> files d3 = files d2
    \<and> run_theme c (ThemeWrite slot p True) (s2, d2) = bindC
        (callC (cl_write_theme c (slot_name slot) (word_of_nat (slot_byte_len slot)) (sha256_hex (cl_sha256 c) bytes) bytes True))
        (\<lambda>result. if tw_slot result \<noteq> slot_name slot \<or> unat (tw_byte_length result) \<noteq> slot_byte_len slot
             \<or> tw_sha256 result \<noteq> sha256_hex (cl_sha256 c) bytes then
             failC (IoError InvalidData ''daemon returned inconsistent theme write verification'')
           else println c (''Wrote and verified '' @ slot_name slot @ '': SHA-256 ''
             @ sha256_hex (cl_sha256 c) bytes @ ''.'')) (s2, d3)"
proof -
  obtain asset s1 where asset: "cl_read_theme c (slot_name slot) s = (Inr (Inr asset), s1)"
    and ok: "theme_reply_consistent slot asset" "ta_sha256 asset = sha256_hex (cl_sha256 c) (ta_data asset)"
    and saved: "\<exists>d1. with_output (cl_faults c) (Some p) (\<lambda>put. put (string_of_bytes (ta_data asset))) d = (Inr (), d1)
      \<and> files d' = files d1"
    using assms(1) by (auto simp: run_Inr Let_def failC_def println_def split: if_splits dest!: print_report_Inr)
  have f: "files d2 (resolve p) = Some (string_of_bytes (ta_data asset))"
    using saved theme_file assms(2) by fastforce
  have len: "length (ta_data asset) = slot_byte_len slot" using ok(1) by (simp add: theme_reply_consistent_def)
  have small: "u32_try_from (slot_byte_len slot) = Some (word_of_nat (slot_byte_len slot))"
    by (rule u32_try_from_small) (cases slot; simp add: background_bytes_def fan_frame_bytes_def
      background_width_def background_height_def fan_width_def fan_height_def)
  let ?d1 = "d2\<lparr>ops_done := Suc (ops_done d2)\<rparr>"
  let ?d3 = "?d1\<lparr>ops_done := Suc (ops_done ?d1)\<rparr>"
  have "run_theme c (ThemeWrite slot p True) (s2, d2) = bindC
      (callC (cl_write_theme c (slot_name slot) (word_of_nat (slot_byte_len slot)) (sha256_hex (cl_sha256 c) (ta_data asset)) (ta_data asset) True))
      (\<lambda>result. if tw_slot result \<noteq> slot_name slot \<or> unat (tw_byte_length result) \<noteq> slot_byte_len slot
           \<or> tw_sha256 result \<noteq> sha256_hex (cl_sha256 c) (ta_data asset) then
           failC (IoError InvalidData ''daemon returned inconsistent theme write verification'')
         else println c (''Wrote and verified '' @ slot_name slot @ '': SHA-256 ''
           @ sha256_hex (cl_sha256 c) (ta_data asset) @ ''.'')) (s2, ?d3)"
    using validate_theme_clean [OF assms(3,4) f, of slot s2] read_file_clean(1) [OF assms(3), of ?d1 p] f len small
    by (simp add: bindC_def filesC_def Let_def)
  then show ?thesis using asset ok f len by (intro exI [of _ "ta_data asset"] exI [of _ asset] exI [of _ ?d3]) simp
qed

section \<open>A daemon that answers\<close>

text \<open>A daemon whose state counts the changes it was asked for.\<close>

definition answering_status :: status_dto where
  "answering_status = \<lparr>st_api_version = API_VERSION, st_api_compatibility_id = ''wireview-2-047f86fdb168c045'',
     st_api_capabilities = API_CAPABILITIES, st_daemon_version = [], st_daemon_build_id = [], st_state = ''ready'',
     st_sequence = 0, st_session_id = 1, st_connected_port = [], st_last_disconnect_reason = [],
     st_busy_operation = [], st_recovery_cause = [], st_candidates = [], st_poll_interval_ms = 500,
     st_display_paused = False, st_display_pause_debug_active = False, st_display_pause_history_active = False,
     st_display_pause_remaining_ms = 0\<rparr>"

definition answering_dto :: configuration_dto where
  "answering_dto = \<lparr>configuration_json = ''{}'', revision = ''r1''\<rparr>"

definition answering_document :: configuration_document where
  "answering_document = \<lparr>doc_revision = ''r1'', doc_settings = factory_settings\<rparr>"

definition answering_json :: json_text where
  "answering_json = \<lparr>json_print = (\<lambda>_. ''{}''),
     json_parse = (\<lambda>s. Inr (if s = ''{}'' then settings_to_json factory_settings else document_json answering_document)),
     json_complaint = (\<lambda>_. [])\<rparr>"

definition zero_asset :: theme_asset_dto where
  "zero_asset = \<lparr>ta_slot = slot_name FanDark1, ta_width = slot_width FanDark1, ta_height = slot_height FanDark1,
     ta_byte_length = word_of_nat (slot_byte_len FanDark1), ta_sha256 = [], ta_data = replicate (slot_byte_len FanDark1) 0\<rparr>"

definition answering_cli :: "nat cli" where
  "answering_cli = 
    \<lparr>cl_version = [], cl_build_id = [], cl_sha256 = (\<lambda>_. []), cl_contract = [], cl_json = answering_json,
     cl_pretty = (\<lambda>_. ''document''), cl_complaint = (\<lambda>_. []), cl_entry_json = (\<lambda>_. []), cl_screen_help = [],
     cl_faults = no_faults, cl_regular = (\<lambda>_. True), cl_signal_handler = None, cl_signalled = (\<lambda>_. False),
     cl_turns = [], cl_stream = [],
     cl_history = \<lparr>lk_begin = Pair (Inl []), lk_requested = Pair False, lk_chunk = (\<lambda>_ _ _. Pair None),
       lk_end = (\<lambda>_. Pair (Inl [])), lk_fresh_end = (\<lambda>_. Pair None)\<rparr>,
     cl_connect = Pair (Inr (Inr ())), cl_status = Pair (Inr (Inr answering_status)), cl_monitor = Pair (Inl []),
     cl_telemetry = Pair (Inl []), cl_device_info = Pair (Inl []), cl_clear_faults = (\<lambda>_ _ _. Pair (Inl [])),
     cl_configuration = Pair (Inr (Inr answering_dto)), cl_get_item = (\<lambda>_. Pair (Inl [])),
     cl_set_item = (\<lambda>_ _ _ _. Pair (Inl [])), cl_apply = (\<lambda>_. Pair (Inl [])),
     cl_store = (\<lambda>dto yes n. (Inr (Inr dto), Suc n)), cl_reload = Pair (Inl []), cl_reset = (\<lambda>_. Pair (Inl [])),
     cl_read_theme = (\<lambda>_. Pair (Inr (Inr zero_asset))), cl_write_theme = (\<lambda>_ _ _ _ _. Pair (Inl [])),
     cl_set_screen = (\<lambda>_. Pair (Inl [])), cl_reboot = (\<lambda>yes n. (Inr (Inr True), Suc n)),
     cl_get_poll_interval = Pair (Inl []), cl_set_poll_interval = (\<lambda>_. Pair (Inl [])),
     cl_pause = (\<lambda>_. Pair (Inl [])), cl_resume = Pair (Inl [])\<rparr>"


lemma answering_prints: "\<exists>d'. print_report answering_cli t (s, d) = (Inr (), (s, d')) \<and> stdout_text d' = stdout_text d @ t"
  by (simp add: print_report_def filesC_def write_stdout_def disk_op_def answering_cli_def no_faults_def)

theorem cli_changes_daemon_only_when_allowed_witness:
  "\<exists>r w'. cli_run answering_cli (CliDebug (DebugRebootDevice True)) (0, example_disk) = (r, w') \<and> fst w' = 1
     \<and> validate_status (cl_sha256 answering_cli) (cl_contract answering_cli) answering_status = Inr ()"
proof -
  let ?c = answering_cli and ?cmd = "CliDebug (DebugRebootDevice True)"
  have calls: "cl_connect ?c = Pair (Inr (Inr ()))" "cl_status ?c = Pair (Inr (Inr answering_status))"
    "cl_reboot ?c = (\<lambda>yes n. (Inr (Inr True), Suc n))"
    by (simp_all add: answering_cli_def)
  have ok: "validate_status (cl_sha256 ?c) (cl_contract ?c) answering_status = Inr ()"
    by (simp add: validate_status_Inr answering_status_def COMPATIBLE_SCHEMA_IDS_def)
  obtain r w' where run: "cli_run ?c ?cmd (0, example_disk) = (r, w')" by (rule prod.exhaust)
  have "fst w' = 1"
    using arg_cong [OF run, of "\<lambda>x. fst (snd x)"] ok
    by (simp add: cli_run_def cli_defs calls rpc_result_def require_api_version_def println_def print_report_daemon)
  then show ?thesis
    using cli_changes_daemon_only_when_allowed [OF run] run ok calls by auto
qed

theorem shown_document_can_be_stored_witness:
  "\<exists>d' d2 d3 :: disk. run_config answering_cli True ConfigShow (0, example_disk) = (Inr (), (0, d'))
     \<and> files d2 (resolve (Path False [''c.json''])) = Some (stdout_text d')
     \<and> run_config answering_cli True (ConfigStore (Path False [''c.json'']) True) (0, d2)
         = bindC (callC (cl_store answering_cli answering_dto True))
             (\<lambda>_. print_success answering_cli ''Stored configuration permanently.'' True) (0, d3)"
proof -
  let ?c = answering_cli and ?p = "Path False [''c.json'']"
  obtain bytes where d: "decode_configuration 2 bytes = Inr (canonical_configuration configuration_mock)"
    using encode_configuration_ok [OF configuration_mock_ok] by (auto simp: configuration_mock_def)
  note valid = decoded_settings(2) [OF d, folded factory_settings_def]
  have j: "cl_json ?c = answering_json" "cl_pretty ?c = (\<lambda>_. ''document'')" "cl_faults ?c = no_faults"
    "cl_configuration ?c = Pair (Inr (Inr answering_dto))"
    by (simp_all add: answering_cli_def)
  have doc: "decode_configuration_dto answering_json answering_dto = Inr answering_document"
    using settings_validate_finite [OF valid]
    by (simp add: decode_configuration_dto_def answering_json_def answering_dto_def answering_document_def)
  obtain d' where ran: "run_config ?c True ConfigShow (0, example_disk) = (Inr (), (0, d'))"
    and out: "stdout_text d' = stdout_text example_disk @ ''document'' @ nl"
    using answering_prints [of "''document'' @ nl" 0 example_disk]
    by (auto simp: bindC_def callC_def rpc_result_def j doc println_def)
  have file_text: "stdout_text d' = ''document'' @ nl" using out by (simp add: example_disk_def)
  let ?d2 = "example_disk\<lparr>files := [resolve ?p \<mapsto> stdout_text d']\<rparr>"
  have "utf8_valid (bytes_of_string (''document'' @ nl))"
    by (rule utf8_valid_ascii) (simp add: bytes_of_string_def nl_def)
  moreover have "answering_dto = \<lparr>configuration_json = json_print answering_json (settings_to_json factory_settings), revision = ''r1''\<rparr>"
    "json_parse answering_json (configuration_json answering_dto) = Inr (settings_to_json factory_settings)"
    "json_parse answering_json (''document'' @ nl) = Inr (document_json answering_document)"
    by (simp_all add: answering_json_def answering_dto_def nl_def)
  ultimately obtain d3 where "run_config ?c True (ConfigStore ?p True) (0, ?d2)
      = bindC (callC (cl_store ?c answering_dto True)) (\<lambda>_. print_success ?c ''Stored configuration permanently.'' True) (0, d3)"
    using shown_document_can_be_stored [OF d, of answering_dto ?c "''r1''" 0 0 "document_json answering_document"
        example_disk d' ?d2 ?p "stdout_text d'" True 0 True, folded factory_settings_def] ran out file_text
    by (auto simp: j answering_document_def fault_free_def no_faults_def)
  then show ?thesis using ran by (intro exI [of _ d'] exI [of _ ?d2] exI [of _ d3]) simp
qed

theorem saved_theme_can_be_restored_witness:
  "\<exists>d' d3 :: disk. run_theme answering_cli (ThemeRead FanDark1 (Path True [''t''])) (0, example_disk) = (Inr (), (0, d'))
     \<and> files d' (Path True [''t'']) = Some (string_of_bytes (ta_data zero_asset)) \<and> files d3 = files d'"
proof -
  let ?c = answering_cli and ?p = "Path True [''t'']"
  have j: "cl_read_theme ?c = (\<lambda>_. Pair (Inr (Inr zero_asset)))" "cl_faults ?c = no_faults" "cl_regular ?c ?p"
    "cl_sha256 ?c = (\<lambda>_. [])"
    by (simp_all add: answering_cli_def)
  have clean: "fault_free no_faults" by (simp add: fault_free_def no_faults_def)
  let ?bytes = "ta_data zero_asset"
  obtain d1 where written: "with_output no_faults (Some ?p) (\<lambda>put. put (string_of_bytes ?bytes)) example_disk = (Inr (), d1)"
  proof -
    have "\<exists>x. fst (with_output no_faults (Some ?p) (\<lambda>put. put (string_of_bytes ?bytes)) example_disk) = Inr x"
      by (rule with_output_file_succeeds [where steady = True, OF temporary_file.put_appends clean])
        (simp_all add: file_name_def example_disk_def first_temporary_def resolve_def join_path_def output_directory_def parent_def)
    then show ?thesis using that by (metis old.unit.exhaust prod.collapse)
  qed
  have "theme_reply_consistent FanDark1 zero_asset" "ta_sha256 zero_asset = sha256_hex (\<lambda>_. []) ?bytes"
    by (simp_all add: theme_reply_consistent_def zero_asset_def sha256_hex_def fan_frame_bytes_def fan_width_def fan_height_def)
  moreover obtain d' where "print_report ?c (''Read '' @ slot_name FanDark1 @ '': '' @ show_nat (length ?bytes) @ '' bytes, SHA-256 ''
        @ sha256_hex (\<lambda>_. []) ?bytes @ '', written to '' @ show_path ?p @ ''.'' @ nl) (0, d1) = (Inr (), (0, d'))"
    using answering_prints by blast
  ultimately have ran: "run_theme ?c (ThemeRead FanDark1 ?p) (0, example_disk) = (Inr (), (0, d'))"
    using written by (simp add: bindC_def callC_def filesC_def rpc_result_def j println_def Let_def)
  have at_p: "resolve ?p = ?p" by (simp add: resolve_def)
  obtain d3 :: disk where "files d' (resolve ?p) = Some (string_of_bytes ?bytes)" "files d3 = files d'"
  proof -
    have "fault_free (cl_faults ?c)" "cl_regular ?c ?p" using j clean by simp_all
    note restored = saved_theme_can_be_restored [OF ran refl this, of 0]
    show ?thesis
    proof (rule exE [OF restored], elim exE conjE)
      fix bytes asset and d3 :: disk
      assume "fst (cl_read_theme ?c (slot_name FanDark1) 0) = Inr (Inr asset)" "ta_data asset = bytes"
        and f: "files d' (resolve ?p) = Some (string_of_bytes bytes)" "files d3 = files d'"
      then have "bytes = ?bytes" by (simp add: j(1))
      with f show thesis using that [of d3] by simp
    qed
  qed
  then show ?thesis using ran unfolding at_p by (intro exI conjI)
qed

end
