(* ===== verification/Spec2Isabelle.thy ===== *)
theory Spec2Isabelle
  imports HistoryCsv GraphProps MemoryFlash WindowService Dates CliProps
begin

text \<open>
  A verification development of the WireView Pro II daemon (\<open>wireviewd\<close>), the service that owns
  the serial port of a GPU power meter: it connects to the device, polls its sensors, reads its
  log and configuration, changes its configuration and the images of its display, and publishes
  one state to its clients. The daemon is layered as the theories are.

  \<^bold>\<open>Wire and document formats\<close> (\<open>crates/wireview-core/src\<close>, \<open>src/protocol.rs\<close>). \<open>Domain\<close>: errors,
  connection states, telemetry, the daemon's state and events (\<open>domain.rs\<close>). \<open>Theme\<close>: the slots of
  the display's images in flash (\<open>theme.rs\<close>). \<open>Protocol\<close>: command bytes, the sensor and build
  responses, fault masks (\<open>protocol.rs\<close>). \<open>History\<close>: the walk over the flash log, the record
  decoder and the streaming and complete parsers (\<open>history.rs\<close>). \<open>Config\<close>: the configuration's
  three binary versions, its validation and its colours; \<open>Items\<close> and \<open>ItemProps\<close>: its JSON
  document and the dotted-path items of it (\<open>config.rs\<close>). \<open>Floats\<close> models \<open>f64\<close> (and the
  widening from \<open>f32\<close>) as rationals with round-to-nearest-even on the binary grid, the two
  infinities and NaN; both zeros are one value, which no comparison of the code distinguishes
  (the sign of a zero is only visible in the JSON text).

  \<^bold>\<open>Devices\<close> (\<open>src/backend.rs\<close>). \<open>Backend\<close>: the trait \<open>DeviceBackend\<close> as a record of operations on
  an explicit device state, its contract as the locale \<open>lawful_backend\<close>, and the serial port
  crate as the parameter \<open>tty\<close>. \<open>MockBackend\<close>: the repository's mock device. \<open>Spi\<close>: flash reads
  with retries, erase, program and the theme write transaction with its rollback, over the
  contract \<open>serial_io\<close>. \<open>MemoryFlash\<close>: the repository's in-memory flash device, a provider of that
  contract. \<open>SerialBackend\<close>: the backend of the real device.

  \<^bold>\<open>The device manager\<close> (\<open>src/manager.rs\<close>). \<open>Manager\<close>: the record of its state, connecting,
  retrying, polling, the leases that pause the device's display, the timer branch of the run
  loop. \<open>ManagerCommands\<close>: one definition per command, and the configuration transactions.
  \<open>ManagerRun\<close>: the run loop as the step relation \<open>manager_step\<close>, whose steps are the branches
  of the \<open>select!\<close>, a client's cancellation and the device changing by itself, and the invariant
  \<open>rest\<close> of its reachable states. \<open>ManagerExamples\<close>, \<open>ManagerProps\<close>, \<open>ConfigTransactions\<close>: the
  properties of the manager and the states their witnesses start from. \<open>Daemon\<close>: the manager on
  top of the serial backend.

  \<^bold>\<open>The service\<close> (\<open>crates/wireview-ipc/src/lib.rs\<close>, \<open>src/manager.rs\<close>, \<open>src/varlink.rs\<close>). \<open>Ipc\<close>: the
  records of the contract, its errors and the compatibility check of a client. \<open>Handle\<close>: how the
  tasks of the daemon reach the manager, with any steps for other clients between two awaits.
  \<open>Service\<close>: one definition per method. \<open>ServiceProps\<close>: what holds of every method end to end.

  \<^bold>\<open>The clients\<close>. \<open>HistoryClient\<close>: the download of the log by \<open>wireview history\<close>
  (\<open>src/bin/wireview.rs\<close>) over any daemon, and over this one. \<open>Numbers\<close>: \<open>f32\<close> and the decimal text
  of floats. \<open>Snapshot\<close> and \<open>Graph\<close>: what the desktop client (\<open>crates/wireview-gui/src\<close>) accepts as
  telemetry and its live graph (\<open>client.rs\<close>, \<open>graph.rs\<close>); \<open>GraphProps\<close>: the buffer as a refinement of a
  log, and downsampling.

  \<^bold>\<open>Interfaces.\<close> \<open>lawful_backend\<close> is what the manager relies on (validated configurations, chunks of
  the requested length and range, an invariant every operation keeps); it is interpreted on the
  mock device and on the serial backend. \<open>panic_free_backend\<close> extends it. \<open>configuration_device\<close>
  is what a configuration transaction relies on (the active configuration is reported
  truthfully), interpreted on the mock device. The flash contract of \<open>Spi\<close> is interpreted on the
  in-memory flash. \<open>history_link\<close> is what a download relies on, \<open>logged_device\<close> a device whose log
  holds still; the service over such a device is such a link.

  \<^bold>\<open>What the lemma groups show.\<close> Codecs: totality, exact acceptance, round trips. The log parsers:
  agreement, and independence of what follows the end of the log. Flash: what every outcome of
  a theme write says about the flash. The manager: the published state is truthful, gap-free and
  consistent with the leases, a failed device is retried on schedule, a shutdown is final, a
  configuration reply says what the device holds, no command panics. The service: nothing
  destructive without confirmation and checks, the revision guard holds across other clients'
  commands, no method panics; and two defects, stated as
  the code behaves (\<open>pending_cleanup_spins_during_dump\<close>, \<open>lost_resume_strands_display\<close>).

  \<^bold>\<open>Conventions.\<close> A fallible function returns \<open>device_error + 'a\<close>; the constructor \<open>Panicked\<close>, which
  the code does not have, is the value of a panic. Machine integers are words; the \<open>u64\<close>
  sequence numbers wrap as in a release build. Times are nanoseconds as natural numbers, so an
  overflow of \<open>Instant\<close> is not modelled. Strings are the UTF-8 bytes. Loops over fixed retry
  counts carry the count as fuel that the code's own bound provides; every other loop is a
  total function with a measure. Third-party code is a parameter: the serial port (\<open>tty\<close>), the
  JSON text syntax (\<open>json_text\<close>), SHA-256, the wall clock, and, for the float parser used by the
  JSON crate, the assumption that the one document just printed reads back.

  \<^bold>\<open>Not modelled.\<close> The service macro and socket of \<open>src/varlink.rs\<close> and the proxy of
  \<open>crates/wireview-ipc\<close> (third-party code), \<open>src/bin\<close> (argument parsing, terminal output, process start-up),
  \<open>src/discovery.rs\<close> (udev), \<open>src/build_info.rs\<close> (constants of the build) and
  \<open>crates/wireview-gui\<close> (the desktop client).
\<close>

end
